(* ===== verification/Riak_Prelude.thy ===== *)
theory Riak_Prelude
  imports Main "HOL-Library.Word" "HOL-Library.Monad_Syntax"
begin

text \<open>
  Shared vocabulary of the development.

  \<^item> The fixed-width types of \<^verbatim>\<open>src/include/riak_types.h\<close> as words.
  \<^item> The result type of the model. A C function that can go wrong in a way the C standard
    leaves undefined (dereferencing NULL, reading or writing outside a block, freeing a block
    that is not allocated) or whose loop does not end returns an \<open>option\<close>: \<open>None\<close> is
    "no defined result". Error codes are ordinary values. A C pointer is an \<open>option\<close> too, with
    \<open>None\<close> for NULL, so that \<open>x \<leftarrow> p\<close> in a \<open>do\<close> block dereferences \<open>p\<close>.
  \<^item> Bounds-checked access to byte blocks, and the host's representation of a 32-bit integer
    in memory, which \<open>riak_read\<close> and \<open>riak_write\<close> need.
\<close>

unbundle bit_operations_syntax

type_synonym u8 = "8 word"
type_synonym u16 = "16 word"
type_synonym u32 = "32 word"
type_synonym u64 = "64 word"
type_synonym i32 = "32 word"
type_synonym i64 = "64 word"
type_synonym bytes = "u8 list"
type_synonym addr = nat

named_theorems mem_simps \<open>how the operations change the allocation ledger\<close>
named_theorems op_defs \<open>definitions of the modelled operations, unfolded on demand\<close>
named_theorems owned_simps \<open>the blocks a structure owns\<close>

subsection \<open>Undefined behaviour\<close>

definition guard :: "bool \<Rightarrow> unit option" where
  "guard b = (if b then Some () else None)"

lemma guard_simps [simp]:
  "guard True = Some ()" "guard False = None"
  "guard b = Some u \<longleftrightarrow> b" "guard b = None \<longleftrightarrow> \<not> b"
  by (auto simp: guard_def)

lemma bind_guard_Some [simp]:
  "(guard b \<bind> f = Some y) \<longleftrightarrow> b \<and> f () = Some y"
  by (auto simp: guard_def)

lemma guard_bindI: "b \<Longrightarrow> guard b \<bind> f = f ()"
  by simp

subsection \<open>C strings and blocks of bytes\<close>

definition str :: "string \<Rightarrow> bytes" where
  "str s = map of_char s"

lemma str_simps [simp]: "str [] = []" "str (c # s) = of_char c # str s" "length (str s) = length s"
  "str (s @ t) = str s @ str t"
  by (simp_all add: str_def)

text \<open>A pointer into a block of bytes that starts at \<open>buf_addr\<close>.\<close>

record cbuf =
  buf_addr :: addr
  buf_bytes :: bytes

text \<open>
  Reading \<open>n\<close> bytes through a pointer (the source of a \<open>memcpy\<close>, the operands of a
  \<open>memcmp\<close>): undefined through NULL and past the end of the block. Reading no byte is
  always defined.
\<close>

definition c_read :: "cbuf option \<Rightarrow> nat \<Rightarrow> bytes option" where
  "c_read p n =
     (if n = 0 then Some []
      else do { b \<leftarrow> p; guard (n \<le> length (buf_bytes b)); Some (take n (buf_bytes b)) })"

lemma c_read_0 [simp]: "c_read p 0 = Some []"
  by (simp add: c_read_def)

lemma c_read_Some [simp]:
  "n \<le> length (buf_bytes b) \<Longrightarrow> c_read (Some b) n = Some (take n (buf_bytes b))"
  by (simp add: c_read_def)

lemma c_read_NULL: "c_read None n = (if n = 0 then Some [] else None)"
  by (simp add: c_read_def)

lemma c_read_length: "c_read p n = Some xs \<Longrightarrow> length xs = n"
  by (auto simp: c_read_def split: if_splits bind_splits)

text \<open>Writing one byte at an index of a block.\<close>

definition c_store :: "bytes \<Rightarrow> nat \<Rightarrow> u8 \<Rightarrow> bytes option" where
  "c_store b i c = do { guard (i < length b); Some (b[i := c]) }"

lemma c_store_ok [simp]: "i < length b \<Longrightarrow> c_store b i c = Some (b[i := c])"
  by (simp add: c_store_def)

lemma c_store_None [simp]: "c_store b i c = None \<longleftrightarrow> length b \<le> i"
  by (auto simp: c_store_def guard_def)

lemma c_store_length: "c_store b i c = Some b' \<Longrightarrow> length b' = length b"
  by (auto simp: c_store_def)

text \<open>Writing a run of bytes at an index of a block.\<close>

definition c_write :: "bytes \<Rightarrow> nat \<Rightarrow> bytes \<Rightarrow> bytes option" where
  "c_write b i xs =
     do { guard (i + length xs \<le> length b); Some (take i b @ xs @ drop (i + length xs) b) }"

lemma c_write_ok [simp]:
  "i + length xs \<le> length b \<Longrightarrow> c_write b i xs = Some (take i b @ xs @ drop (i + length xs) b)"
  by (simp add: c_write_def)

lemma c_write_length: "c_write b i xs = Some b' \<Longrightarrow> length b' = length b"
  by (auto simp: c_write_def)

subsection \<open>32-bit integers in memory\<close>

text \<open>
  The bytes of a \<open>uint32_t\<close> on a little-endian host, lowest address first, and back.
  \<open>ntohl\<close> reads those bytes as a big-endian number; it is its own inverse, so it models
  \<open>htonl\<close> as well.
\<close>

definition u32_bytes :: "u32 \<Rightarrow> bytes" where
  "u32_bytes v = [ucast v, ucast (drop_bit 8 v), ucast (drop_bit 16 v), ucast (drop_bit 24 v)]"

definition bytes_u32 :: "bytes \<Rightarrow> u32" where
  "bytes_u32 b = ucast (b ! 0) OR push_bit 8 (ucast (b ! 1)) OR push_bit 16 (ucast (b ! 2))
     OR push_bit 24 (ucast (b ! 3))"

definition ntohl :: "u32 \<Rightarrow> u32" where
  "ntohl v = bytes_u32 (rev (u32_bytes v))"

lemma length_u32_bytes [simp]: "length (u32_bytes v) = 4"
  by (simp add: u32_bytes_def)

lemma bit_below_8: "bit (v :: u8) n \<Longrightarrow> n < 8"
  using bit_imp_le_length [of v n] by simp

lemma bit_not_below_8: "8 \<le> n \<Longrightarrow> \<not> bit (v :: u8) n"
  using bit_below_8 [of v n] by auto

lemma bytes_u32_u32_bytes [simp]: "bytes_u32 (u32_bytes v) = v"
proof (rule bit_word_eqI)
  fix n assume "n < LENGTH(32)"
  then consider "n < 8" | "8 \<le> n" "n < 16" | "16 \<le> n" "n < 24" | "24 \<le> n" "n < 32"
    by fastforce
  then show "bit (bytes_u32 (u32_bytes v)) n = bit v n"
    by cases (auto simp: bytes_u32_def u32_bytes_def bit_or_iff bit_push_bit_iff bit_drop_bit_eq
      bit_unsigned_iff)
qed

lemma u32_bytes_bytes_u32:
  assumes "length b = 4" shows "u32_bytes (bytes_u32 b) = b"
proof -
  obtain w x y z where b: "b = [w, x, y, z]"
    using assms by (auto simp: numeral_eq_Suc length_Suc_conv)
  have "ucast (bytes_u32 b) = w" "ucast (drop_bit 8 (bytes_u32 b)) = x"
    "ucast (drop_bit 16 (bytes_u32 b)) = y" "ucast (drop_bit 24 (bytes_u32 b)) = z"
    unfolding b
    by (rule bit_word_eqI, simp add: bytes_u32_def bit_or_iff bit_push_bit_iff bit_drop_bit_eq
      bit_unsigned_iff bit_not_below_8)+
  then show ?thesis by (simp add: u32_bytes_def b)
qed

lemma ntohl_ntohl [simp]: "ntohl (ntohl v) = v"
  by (simp add: ntohl_def u32_bytes_bytes_u32)

subsection \<open>Lists and options\<close>

lemma map_option_comp_Some: "map_option f p = Some y \<longleftrightarrow> (\<exists>x. p = Some x \<and> y = f x)"
  by auto

lemma take_Suc_update:
  "n < length xs \<Longrightarrow> take (Suc n) (xs[n := x]) = take n xs @ [x]"
  by (simp add: take_Suc_conv_app_nth)

end
