(* ===== verification/Riak_Error.thy ===== *)
theory Riak_Error
  imports Riak_Prelude
begin

text \<open>
  Error codes and their messages (\<^verbatim>\<open>src/include/riak_error.h\<close>, \<^verbatim>\<open>src/riak_error.c\<close>).
\<close>

datatype riak_error =
    ERIAK_OK
  | ERIAK_TEST_FAILURE
  | ERIAK_OUT_OF_RANGE
  | ERIAK_DNS_RESOLUTION
  | ERIAK_CONNECT
  | ERIAK_OUT_OF_MEMORY
  | ERIAK_READ
  | ERIAK_WRITE
  | ERIAK_EVENT
  | ERIAK_NO_EVENT
  | ERIAK_NO_PING
  | ERIAK_LOGGING
  | ERIAK_UNINITIALIZED
  | ERIAK_SERVER_ERROR
  | ERIAK_MESSAGE_FORMAT
  | ERIAK_THREAD
  | ERIAK_INVALID
  | ERIAK_LAST_ERRORNUM

text \<open>The numbers of the enumeration, and the string table they index.\<close>

primrec errnum :: "riak_error \<Rightarrow> nat" where
  "errnum ERIAK_OK = 0"
| "errnum ERIAK_TEST_FAILURE = 1"
| "errnum ERIAK_OUT_OF_RANGE = 2"
| "errnum ERIAK_DNS_RESOLUTION = 3"
| "errnum ERIAK_CONNECT = 4"
| "errnum ERIAK_OUT_OF_MEMORY = 5"
| "errnum ERIAK_READ = 6"
| "errnum ERIAK_WRITE = 7"
| "errnum ERIAK_EVENT = 8"
| "errnum ERIAK_NO_EVENT = 9"
| "errnum ERIAK_NO_PING = 10"
| "errnum ERIAK_LOGGING = 11"
| "errnum ERIAK_UNINITIALIZED = 12"
| "errnum ERIAK_SERVER_ERROR = 13"
| "errnum ERIAK_MESSAGE_FORMAT = 14"
| "errnum ERIAK_THREAD = 15"
| "errnum ERIAK_INVALID = 16"
| "errnum ERIAK_LAST_ERRORNUM = 17"

instantiation riak_error :: linorder
begin

definition less_eq_riak_error :: "riak_error \<Rightarrow> riak_error \<Rightarrow> bool" where
  "e \<le> e' \<longleftrightarrow> errnum e \<le> errnum e'"

definition less_riak_error :: "riak_error \<Rightarrow> riak_error \<Rightarrow> bool" where
  "e < e' \<longleftrightarrow> errnum e < errnum e'"

instance
proof
  fix e e' :: riak_error
  show "e \<le> e' \<Longrightarrow> e' \<le> e \<Longrightarrow> e = e'"
    by (cases e; cases e') (simp_all add: less_eq_riak_error_def)
qed (auto simp: less_eq_riak_error_def less_riak_error_def)

end

definition errmsgs :: "string list" where
  "errmsgs =
     [''No Error'', ''Test Failure'', ''Value out of Range'',
      ''Problems resolving host name/port number'', ''Connection Error'', ''Out of Memory'',
      ''Read error'', ''Write error'', ''Asynchronous event error'',
      ''No registered asynchronous event error'', ''Ping failure error'', ''Logging failure'',
      ''Uninitialized Value'', ''An error was returned from the server'',
      ''Message Format Error'', ''Threading Error'', ''Invalid Value'',
      ''SENTINEL FOR LAST ERROR MESSAGE'']"

definition riak_strerror :: "riak_error \<Rightarrow> string" where
  "riak_strerror err =
     (if err \<ge> ERIAK_OK \<and> err < ERIAK_LAST_ERRORNUM then errmsgs ! errnum err
      else ''<Unknown Error>'')"

text \<open>Every error code has its own message.\<close>

lemma riak_strerror_inj: "riak_strerror e = riak_strerror e' \<Longrightarrow> e = e'"
  by (cases e; cases e')
    (simp_all add: riak_strerror_def errmsgs_def less_riak_error_def less_eq_riak_error_def)

end
