(* ===== verification/Riak_Config.thy ===== *)
theory Riak_Config
  imports Riak_Prelude Riak_Error "HOL-Library.Multiset"
begin

text \<open>
  Configuration, allocation and the small utilities
  (\<^verbatim>\<open>src/riak_config.c\<close>, \<^verbatim>\<open>src/riak_utils.c\<close>).

  Memory is modelled by a ledger of the blocks that are allocated; the contents of a block
  are held by the value that owns it. The user's allocator (\<open>malloc_fn\<close>) is a parameter: a
  function that says which requests it grants. Freeing a block that is not allocated has
  no defined result, so a theorem that a free function returns \<open>Some\<close> excludes double frees,
  and one about the ledger afterwards says whether anything leaks.
\<close>

subsection \<open>The allocation ledger\<close>

record mem =
  mem_next :: addr
  mem_calls :: nat
  mem_live :: "addr set"
  mem_junk :: "addr \<Rightarrow> nat \<Rightarrow> u8" \<comment> \<open>what a fresh block holds before it is written\<close>

text \<open>A request is for a number of bytes or for an array of structures of a named type.\<close>

datatype csize = Bytes nat | SizeOf string nat

text \<open>A \<open>malloc\<close>-like function: whether its \<open>n\<close>-th call with this size returns a block.\<close>

type_synonym alloc_fn = "nat \<Rightarrow> csize \<Rightarrow> bool"

definition mem_request :: "alloc_fn \<Rightarrow> csize \<Rightarrow> mem \<Rightarrow> addr option \<times> mem" where
  "mem_request g sz m =
     (if g (mem_calls m) sz
      then (Some (mem_next m),
            m\<lparr>mem_next := Suc (mem_next m), mem_calls := Suc (mem_calls m),
              mem_live := insert (mem_next m) (mem_live m)\<rparr>)
      else (None, m\<lparr>mem_calls := Suc (mem_calls m)\<rparr>))"

definition mem_free :: "addr \<Rightarrow> mem \<Rightarrow> mem option" where
  "mem_free a m =
     (if a \<in> mem_live m then Some (m\<lparr>mem_live := mem_live m - {a}\<rparr>) else None)"

text \<open>Freeing several blocks, in order: what every free function of the library does.\<close>

fun mem_free_all :: "addr list \<Rightarrow> mem \<Rightarrow> mem option" where
  "mem_free_all [] m = Some m"
| "mem_free_all (a # as) m = do { m \<leftarrow> mem_free a m; mem_free_all as m }"

definition mem_wf :: "mem \<Rightarrow> bool" where
  "mem_wf m \<longleftrightarrow> (\<forall>a \<in> mem_live m. a < mem_next m)"

text \<open>
  \<open>mem_allocs m as m'\<close>: between \<open>m\<close> and \<open>m'\<close> exactly the fresh, distinct blocks \<open>as\<close> were
  added to the ledger and nothing was freed.
\<close>

definition mem_allocs :: "mem \<Rightarrow> addr list \<Rightarrow> mem \<Rightarrow> bool" where
  "mem_allocs m as m' \<longleftrightarrow>
     mem_live m' = mem_live m \<union> set as \<and> distinct as \<and> mem_next m \<le> mem_next m' \<and>
     (\<forall>a \<in> set as. mem_next m \<le> a \<and> a < mem_next m') \<and> mem_junk m' = mem_junk m"

subsection \<open>The configuration\<close>

text \<open>Function pointers the library only stores or calls for their effect are addresses.\<close>

record pb_allocator =
  pba_alloc :: "addr option"
  pba_tmp_alloc :: "addr option"
  pba_free :: "addr option"

record riak_config =
  cfg_at :: addr
  malloc_fn :: "alloc_fn option"
  realloc_fn :: "addr option"
  free_fn :: "addr option"
  pb_allocator :: "pb_allocator option"
  log_data :: "addr option"
  log_fn :: "addr option"
  log_init_fn :: "(addr option \<Rightarrow> int) option"
  log_cleanup_fn :: "addr option"

text \<open>
  \<open>riak_config_new\<close>: \<open>libc_malloc\<close> and \<open>libc_free\<close> are the defaults; the \<open>realloc\<close> on the
  right of the default is the parameter, which hides the library function, so the default of
  \<open>realloc_fn\<close> is NULL. \<open>pbd\<close> is protobuf-c's global default allocator, which is overwritten.
\<close>

definition riak_config_new ::
  "alloc_fn \<Rightarrow> addr \<Rightarrow> pb_allocator \<Rightarrow> alloc_fn option \<Rightarrow> addr option \<Rightarrow> addr option \<Rightarrow>
   addr option \<Rightarrow> addr option \<Rightarrow> mem \<Rightarrow> riak_error \<times> riak_config option \<times> pb_allocator \<times> mem"
where
  "riak_config_new libc_malloc libc_free pbd alloc realloc freeme pb_alloc pb_free m =
     (let alloc_fn = (case alloc of None \<Rightarrow> libc_malloc | Some f \<Rightarrow> f);
          realloc_fn = (case realloc of None \<Rightarrow> realloc | Some f \<Rightarrow> Some f);
          free_fn = (case freeme of None \<Rightarrow> Some libc_free | Some f \<Rightarrow> Some f);
          (p, m) = mem_request alloc_fn (SizeOf ''riak_config'' 1) m
      in case p of
           None \<Rightarrow> (ERIAK_OUT_OF_MEMORY, None, pbd, m)
         | Some a \<Rightarrow>
             (let pbd' = (if pb_alloc \<noteq> None \<and> pb_free \<noteq> None
                          then pbd\<lparr>pba_alloc := pb_alloc, pba_tmp_alloc := pb_alloc,
                                   pba_free := pb_free\<rparr>
                          else pbd);
                  cfg = \<lparr>cfg_at = a, malloc_fn = Some alloc_fn, realloc_fn = realloc_fn,
                         free_fn = free_fn,
                         pb_allocator = (if pb_alloc \<noteq> None \<and> pb_free \<noteq> None
                                         then Some pbd' else None),
                         log_data = None, log_fn = None, log_init_fn = None,
                         log_cleanup_fn = None\<rparr>
              in (ERIAK_OK, Some cfg, pbd', m)))"

definition riak_config_set_logging ::
  "riak_config option \<Rightarrow> addr option \<Rightarrow> addr option \<Rightarrow> (addr option \<Rightarrow> int) option \<Rightarrow>
   addr option \<Rightarrow> riak_error \<times> riak_config option"
where
  "riak_config_set_logging cfg ldata lfn linit lcleanup =
     (case cfg of
        None \<Rightarrow> (ERIAK_UNINITIALIZED, None)
      | Some c \<Rightarrow>
          (let c = c\<lparr>log_data := ldata, log_fn := lfn, log_init_fn := linit,
                     log_cleanup_fn := lcleanup\<rparr>
           in case log_init_fn c of
                None \<Rightarrow> (ERIAK_OK, Some c)
              | Some f \<Rightarrow> (if f (log_data c) \<noteq> 0 then (ERIAK_LOGGING, Some c)
                           else (ERIAK_OK, Some c))))"

text \<open>
  \<open>riak_log_internal\<close>: which function is called with what data; the line (level, place and text)
  is passed on. The default function does nothing.
\<close>

definition riak_log_internal :: "riak_config option \<Rightarrow> 'line \<Rightarrow> (addr \<times> addr option \<times> 'line) option option" where
  "riak_log_internal cfg line =
     (case cfg of
        None \<Rightarrow> None
      | Some c \<Rightarrow> Some (case log_fn c of None \<Rightarrow> None | Some f \<Rightarrow> Some (f, log_data c, line)))"

definition riak_config_allocate ::
  "riak_config option \<Rightarrow> csize \<Rightarrow> mem \<Rightarrow> addr option \<times> mem"
where
  "riak_config_allocate cfg sz m =
     (case cfg of
        None \<Rightarrow> (None, m)
      | Some c \<Rightarrow> (case malloc_fn c of
                     None \<Rightarrow> (None, m)
                   | Some f \<Rightarrow> mem_request f sz m))"

text \<open>
  \<open>riak_config_clean_allocate\<close> also zeroes the block. Contents live in the value that owns the
  block, so its callers start from a value whose fields are all zero.
\<close>

definition riak_config_clean_allocate ::
  "riak_config option \<Rightarrow> csize \<Rightarrow> mem \<Rightarrow> addr option \<times> mem"
where
  "riak_config_clean_allocate cfg sz m =
     (case cfg of
        None \<Rightarrow> (None, m)
      | Some c \<Rightarrow> (case malloc_fn c of
                     None \<Rightarrow> (None, m)
                   | Some f \<Rightarrow> mem_request f sz m))"

text \<open>A direct call \<open>(cfg->malloc_fn)(n)\<close>, as many functions make it.\<close>

definition cfg_malloc :: "riak_config option \<Rightarrow> csize \<Rightarrow> mem \<Rightarrow> (addr option \<times> mem) option" where
  "cfg_malloc cfg sz m = do { c \<leftarrow> cfg; f \<leftarrow> malloc_fn c; Some (mem_request f sz m) }"

text \<open>
  \<open>riak_free_internal\<close>: the pointer that is freed is an address or NULL; the caller sets its
  own copy to NULL. Both \<open>cfg\<close> and its \<open>free_fn\<close> are only used when there is something to free.
\<close>

definition riak_free :: "riak_config option \<Rightarrow> addr option \<Rightarrow> mem \<Rightarrow> mem option" where
  "riak_free cfg p m =
     (case p of
        None \<Rightarrow> Some m
      | Some a \<Rightarrow> do { c \<leftarrow> cfg; f \<leftarrow> free_fn c; mem_free a m })"

definition riak_config_free :: "riak_config option \<Rightarrow> mem \<Rightarrow> (riak_config option \<times> mem) option" where
  "riak_config_free config m =
     do { cfg \<leftarrow> config;
          freer \<leftarrow> free_fn cfg;
          m \<leftarrow> mem_free (cfg_at cfg) m;
          Some (None, m) }"

subsection \<open>Arrays of pointers\<close>

text \<open>A block of pointers; a cell holds a pointer or NULL.\<close>

record 'a parray =
  pa_addr :: addr
  pa_cells :: "'a option list"

text \<open>
  \<open>riak_array_realloc\<close>: a larger zeroed block with the old pointers copied in; the old block is
  freed and the caller's pointer redirected. The result is the pointer afterwards and whether
  the call returned non-NULL. The element counts are 32-bit.
\<close>

definition riak_array_realloc ::
  "riak_config option \<Rightarrow> 'a parray option \<Rightarrow> string \<Rightarrow> u32 \<Rightarrow> u32 \<Rightarrow> mem \<Rightarrow>
   (bool \<times> 'a parray option \<times> mem) option"
where
  "riak_array_realloc cfg from elt oldnum newnum m =
     (let (p, m) = riak_config_clean_allocate cfg (SizeOf elt (unat newnum)) m
      in case p of
           None \<Rightarrow> Some (False, from, m)
         | Some a \<Rightarrow>
             do { old \<leftarrow> (if oldnum = 0 then Some []
                          else do { f \<leftarrow> from;
                                    guard (unat oldnum \<le> length (pa_cells f));
                                    Some (take (unat oldnum) (pa_cells f)) });
                  guard (unat oldnum \<le> unat newnum);
                  m \<leftarrow> riak_free cfg (map_option pa_addr from) m;
                  Some (True,
                        Some \<lparr>pa_addr = a, pa_cells = old @ replicate (unat newnum - unat oldnum) None\<rparr>,
                        m) })"

subsection \<open>Bounded string copies\<close>

text \<open>
  \<open>riak_strlcpy\<close> and \<open>riak_strlcat\<close>. The source is the memory from \<open>src\<close> on, the destination
  the block that starts at \<open>dst\<close>; reading or writing past either is undefined.
\<close>

fun strlcpy_loop :: "bytes \<Rightarrow> bytes \<Rightarrow> nat \<Rightarrow> nat \<Rightarrow> (nat \<times> bytes) option" where
  "strlcpy_loop dst [] len sz = (if len < sz then None else Some (len, dst))"
| "strlcpy_loop dst (c # src) len sz =
     (if len < sz \<and> c \<noteq> 0
      then do { dst \<leftarrow> c_store dst len c; strlcpy_loop dst src (Suc len) sz }
      else Some (len, dst))"

definition riak_strlcpy :: "bytes \<Rightarrow> bytes \<Rightarrow> nat \<Rightarrow> (nat \<times> bytes) option" where
  "riak_strlcpy dst src sz =
     (if sz = 0 then Some (0, dst)
      else do { (len, dst) \<leftarrow> strlcpy_loop dst src 0 sz;
                dst \<leftarrow> c_store dst len 0;
                Some (len, dst) })"

fun strlcat_walk :: "bytes \<Rightarrow> nat \<Rightarrow> nat \<Rightarrow> nat option" where
  "strlcat_walk [] len sz = (if len < sz then None else Some len)"
| "strlcat_walk (c # dst) len sz =
     (if len < sz \<and> c \<noteq> 0 then strlcat_walk dst (Suc len) sz else Some len)"

definition riak_strlcat :: "bytes \<Rightarrow> bytes \<Rightarrow> nat \<Rightarrow> (nat \<times> bytes) option" where
  "riak_strlcat dst src sz =
     (if sz = 0 then Some (0, dst)
      else do { len \<leftarrow> strlcat_walk dst 0 sz;
                (len, dst) \<leftarrow> strlcpy_loop dst src len sz;
                dst \<leftarrow> c_store dst len 0;
                Some (len, dst) })"

subsection \<open>Facts about the ledger\<close>

lemma mem_allocs_refl [simp, intro]: "mem_allocs m [] m"
  by (simp add: mem_allocs_def)

lemma mem_allocs_trans [trans]:
  "mem_allocs m xs m1 \<Longrightarrow> mem_allocs m1 ys m2 \<Longrightarrow> mem_allocs m (xs @ ys) m2"
  unfolding mem_allocs_def by (auto simp: disjoint_iff dest: order.strict_trans2 order_trans; fastforce)

lemma mem_allocs_perm:
  "mem_allocs m xs m' \<Longrightarrow> set ys = set xs \<Longrightarrow> distinct ys \<Longrightarrow> mem_allocs m ys m'"
  by (simp add: mem_allocs_def)

lemma mem_allocs_wf: "mem_allocs m xs m' \<Longrightarrow> mem_wf m \<Longrightarrow> mem_wf m'"
  by (fastforce simp: mem_allocs_def mem_wf_def)

lemma mem_allocs_live: "mem_allocs m xs m' \<Longrightarrow> mem_live m' = mem_live m \<union> set xs"
  by (simp add: mem_allocs_def)

lemma mem_allocs_fresh:
  "mem_allocs m xs m' \<Longrightarrow> mem_wf m \<Longrightarrow> a \<in> set xs \<Longrightarrow> a \<notin> mem_live m"
  by (fastforce simp: mem_allocs_def mem_wf_def)

lemma mem_free_all_append [simp]:
  "mem_free_all (xs @ ys) = (\<lambda>m. mem_free_all xs m \<bind> mem_free_all ys)"
proof
  fix m show "mem_free_all (xs @ ys) m = mem_free_all xs m \<bind> mem_free_all ys"
  proof (induction xs arbitrary: m)
    case (Cons a xs)
    then show ?case by (cases "mem_free a m") simp_all
  qed simp
qed

lemma mem_free_all_single [simp]: "mem_free_all [a] = mem_free a"
  by (auto simp: fun_eq_iff split: bind_splits)

lemma mem_free_all_Some:
  "distinct xs \<Longrightarrow> set xs \<subseteq> mem_live m \<Longrightarrow>
   mem_free_all xs m = Some (m\<lparr>mem_live := mem_live m - set xs\<rparr>)"
proof (induction xs arbitrary: m)
  case (Cons a xs)
  then have "set xs \<subseteq> mem_live (m\<lparr>mem_live := mem_live m - {a}\<rparr>)" by auto
  moreover have "mem_live m - {a} - set xs = mem_live m - set (a # xs)" by auto
  ultimately show ?case using Cons by (simp add: mem_free_def)
qed simp

text \<open>A sequence of frees is defined exactly when no block is freed twice and all are allocated.\<close>

lemma mem_free_all_defined:
  "mem_free_all xs m \<noteq> None \<longleftrightarrow> distinct xs \<and> set xs \<subseteq> mem_live m"
proof (induction xs arbitrary: m)
  case (Cons a xs)
  have "mem_free_all (a # xs) m \<noteq> None \<longleftrightarrow>
      a \<in> mem_live m \<and> mem_free_all xs (m\<lparr>mem_live := mem_live m - {a}\<rparr>) \<noteq> None"
    by (simp add: mem_free_def)
  also have "\<dots> \<longleftrightarrow> distinct (a # xs) \<and> set (a # xs) \<subseteq> mem_live m"
    by (subst Cons.IH) auto
  finally show ?case .
qed simp

lemma mem_allocs_free_all:
  assumes "mem_allocs m xs m'" "mem_wf m" "mset ys = mset xs"
  shows "mem_free_all ys m' = Some (m'\<lparr>mem_live := mem_live m\<rparr>)"
proof -
  have *: "set ys = set xs" "distinct ys"
    using assms(1,3) by (metis mset_eq_setD, metis mem_allocs_def mset_eq_imp_distinct_iff)
  have "mem_live m' - set ys = mem_live m"
    using mem_allocs_live [OF assms(1)] mem_allocs_fresh [OF assms(1,2)] * by auto
  moreover have "set ys \<subseteq> mem_live m'"
    using mem_allocs_live [OF assms(1)] * by auto
  ultimately show ?thesis using mem_free_all_Some [OF *(2)] by simp
qed

text \<open>A configuration whose function pointers are set, and one whose allocator never refuses.\<close>

definition cfg_ok :: "riak_config option \<Rightarrow> bool" where
  "cfg_ok cfg \<longleftrightarrow> (case cfg of None \<Rightarrow> False | Some c \<Rightarrow> malloc_fn c \<noteq> None \<and> free_fn c \<noteq> None)"

definition cfg_grants :: "riak_config option \<Rightarrow> bool" where
  "cfg_grants cfg \<longleftrightarrow> cfg_ok cfg \<and> (\<forall>n sz. the (malloc_fn (the cfg)) n sz)"

lemma cfg_grants_ok [simp, intro]: "cfg_grants cfg \<Longrightarrow> cfg_ok cfg"
  by (simp add: cfg_grants_def)

lemma clean_allocate_eq: "riak_config_clean_allocate = riak_config_allocate"
  by (intro ext) (simp add: riak_config_clean_allocate_def riak_config_allocate_def)

lemma cfg_malloc_eq:
  "cfg_ok cfg \<Longrightarrow> cfg_malloc cfg sz m = Some (riak_config_allocate cfg sz m)"
  by (auto simp: cfg_ok_def cfg_malloc_def riak_config_allocate_def split: option.splits)

text \<open>The ledger after one granted request.\<close>

definition mem_push :: "mem \<Rightarrow> mem" where
  "mem_push m = m\<lparr>mem_next := Suc (mem_next m), mem_calls := Suc (mem_calls m),
                  mem_live := insert (mem_next m) (mem_live m)\<rparr>"

lemma allocate_granted [mem_simps]:
  "cfg_grants cfg \<Longrightarrow> riak_config_allocate cfg sz m = (Some (mem_next m), mem_push m)"
  by (auto simp: cfg_grants_def cfg_ok_def riak_config_allocate_def mem_request_def mem_push_def
      split: option.splits)

lemma mem_push_simps [simp]:
  "mem_next (mem_push m) = Suc (mem_next m)"
  "mem_live (mem_push m) = insert (mem_next m) (mem_live m)"
  "mem_junk (mem_push m) = mem_junk m"
  by (simp_all add: mem_push_def)

lemma mem_allocs_push [intro]: "mem_allocs m [mem_next m] (mem_push m)"
  by (auto simp: mem_allocs_def)

text \<open>Every request adds at most the one block it returns.\<close>

definition ptrs :: "addr option \<Rightarrow> addr list" where
  "ptrs p = (case p of None \<Rightarrow> [] | Some a \<Rightarrow> [a])"

lemma ptrs_simps [simp]: "ptrs None = []" "ptrs (Some a) = [a]"
  by (simp_all add: ptrs_def)

lemma mem_request_allocs: "mem_request g sz m = (p, m') \<Longrightarrow> mem_allocs m (ptrs p) m'"
  by (auto simp: mem_request_def mem_allocs_def split: if_splits)

lemma allocate_allocs: "riak_config_allocate cfg sz m = (p, m') \<Longrightarrow> mem_allocs m (ptrs p) m'"
  by (auto simp: riak_config_allocate_def dest: mem_request_allocs split: option.splits)

lemma riak_free_ptrs [mem_simps]:
  "cfg_ok cfg \<Longrightarrow> riak_free cfg p = mem_free_all (ptrs p)"
  by (auto simp: cfg_ok_def riak_free_def fun_eq_iff split: option.splits)

lemma riak_free_NULL [simp]: "riak_free cfg None m = Some m"
  by (simp add: riak_free_def)

lemma riak_array_realloc_granted:
  assumes "cfg_grants cfg" "unat old \<le> length (pa_cells f)" "unat old \<le> unat new"
    "pa_addr f \<in> mem_live m"
  shows "riak_array_realloc cfg (Some f) elt old new m =
    Some (True, Some \<lparr>pa_addr = mem_next m,
        pa_cells = take (unat old) (pa_cells f) @ replicate (unat new - unat old) None\<rparr>,
      (mem_push m)\<lparr>mem_live := insert (mem_next m) (mem_live m) - {pa_addr f}\<rparr>)"
  using assms
  by (simp add: riak_array_realloc_def clean_allocate_eq allocate_granted riak_free_ptrs mem_free_def)

subsection \<open>What the string copies write\<close>

lemma strlcpy_loop_spec:
  assumes "0 \<notin> set s" "i \<le> length dst"
  shows "strlcpy_loop dst (s @ 0 # rest) i sz =
    (let k = min (length s) (sz - i)
     in if i + k \<le> length dst
        then Some (i + k, take i dst @ take k s @ drop (i + k) dst) else None)"
  using assms
proof (induction s arbitrary: dst i)
  case (Cons c s)
  show ?case
  proof (cases "i < sz")
    case True
    then have "sz - i = Suc (sz - Suc i)" by simp
    then have k: "min (length (c # s)) (sz - i) = Suc (min (length s) (sz - Suc i))" by simp
    show ?thesis
    proof (cases "i < length dst")
      case room: True
      have "take (Suc i) (dst[i := c]) = take i dst @ [c]"
        "drop (Suc (i + k)) (dst[i := c]) = drop (Suc (i + k)) dst" for k
        using room by (simp_all add: take_Suc_update)
      with True room Cons.prems Cons.IH [of "Suc i" "dst[i := c]"] show ?thesis
        unfolding k by (simp add: Let_def)
    next
      case False
      with True Cons.prems show ?thesis unfolding k by (simp add: Let_def c_store_def guard_def)
    qed
  qed (use Cons.prems in \<open>simp add: Let_def\<close>)
qed simp

text \<open>
  \<open>riak_strlcpy\<close> writes one byte more than \<open>size\<close> allows when the source is at least \<open>size\<close>
  long: it is defined exactly if the block has room for the copied bytes and the terminator.
\<close>

lemma riak_strlcpy_spec:
  assumes "0 \<notin> set s" "0 < sz"
  shows "riak_strlcpy dst (s @ 0 # rest) sz =
    (let k = min (length s) sz
     in if k < length dst then Some (k, take k s @ 0 # drop (Suc k) dst) else None)"
proof (cases "min (length s) sz < length dst")
  case True
  then show ?thesis using assms
    by (auto simp: riak_strlcpy_def strlcpy_loop_spec Let_def list_update_append Cons_nth_drop_Suc
        upd_conv_take_nth_drop split: if_splits) 
next
  case False
  then show ?thesis using assms
    by (auto simp: riak_strlcpy_def strlcpy_loop_spec Let_def c_store_def guard_def)
qed

subsection \<open>Structures that own blocks\<close>

text \<open>
  The contract of a free function: for a structure whose pointers are in order (\<open>valid\<close>) it
  frees exactly the blocks the structure owns. Every structure of the library that has one
  interprets this locale in its own theory.
\<close>

locale owned_struct =
  fixes valid :: "'a \<Rightarrow> bool"
    and owned :: "'a \<Rightarrow> addr list"
    and release :: "riak_config option \<Rightarrow> 'a option \<Rightarrow> mem \<Rightarrow> mem option"
  assumes release_owned:
    "cfg_ok cfg \<Longrightarrow> valid x \<Longrightarrow> release cfg (Some x) m = mem_free_all (owned x) m"
begin

lemma release_balanced:
  assumes "cfg_ok cfg" "valid x" "mem_wf m" "mem_allocs m xs m'" "mset (owned x) = mset xs"
  shows "release cfg (Some x) m' = Some (m'\<lparr>mem_live := mem_live m\<rparr>)"
  using mem_allocs_free_all [OF assms(4,3,5)] release_owned [OF assms(1,2)] by simp

lemma release_defined:
  "cfg_ok cfg \<Longrightarrow> valid x \<Longrightarrow>
   release cfg (Some x) m \<noteq> None \<longleftrightarrow> distinct (owned x) \<and> set (owned x) \<subseteq> mem_live m"
  using release_owned mem_free_all_defined by metis

lemma release_live:
  "cfg_ok cfg \<Longrightarrow> valid x \<Longrightarrow> release cfg (Some x) m = Some m' \<Longrightarrow>
   mem_live m' = mem_live m - set (owned x)"
  using release_owned mem_free_all_defined [of "owned x" m] mem_free_all_Some [of "owned x" m]
  by auto

lemma release_twice:
  assumes "cfg_ok cfg" "valid x" "owned x \<noteq> []" "release cfg (Some x) m = Some m'"
  shows "release cfg (Some x) m' = None"
proof (rule ccontr)
  assume "release cfg (Some x) m' \<noteq> None"
  then have "set (owned x) \<subseteq> mem_live m'" using assms(1,2) release_defined by blast
  with release_live [OF assms(1,2,4)] assms(3) show False by (cases "owned x") auto
qed

end

text \<open>Most of them accept NULL as well; then an array of pointers to them can be freed.\<close>

locale owned_ptr = owned_struct +
  assumes release_NULL: "release cfg None m = Some m"
begin

definition owned_p :: "'a option \<Rightarrow> addr list" where
  "owned_p p = (case p of None \<Rightarrow> [] | Some x \<Rightarrow> owned x)"

lemma release_ptr:
  "cfg_ok cfg \<Longrightarrow> pred_option valid p \<Longrightarrow> release cfg p m = mem_free_all (owned_p p) m"
  by (cases p) (simp_all add: owned_p_def release_NULL release_owned)

end

end
