(* ===== verification/Riak_Array.thy ===== *)
theory Riak_Array
  imports Riak_Config
begin

text \<open>
  The growable array of pointers (\<^verbatim>\<open>src/include/riak_array.h\<close>, \<^verbatim>\<open>src/riak_array.c\<close>).
  Positions and sizes are \<open>size_t\<close>, \<open>length\<close> and \<open>capacity\<close> are \<open>int64_t\<close> and the loop
  counters \<open>int\<close>; the conversions between them are written out. An operation that has to grow
  the array frees it when the allocation fails: the array after the call is then \<open>None\<close>.
\<close>

record 'a riak_array =
  ra_at :: addr
  ra_cfg :: "riak_config option"
  ra_length :: i64
  ra_capacity :: i64
  ra_array :: "'a parray option"

definition pa_get :: "'a parray option \<Rightarrow> nat \<Rightarrow> 'a option option" where
  "pa_get p i = do { a \<leftarrow> p; guard (i < length (pa_cells a)); Some (pa_cells a ! i) }"

definition pa_set :: "'a parray option \<Rightarrow> nat \<Rightarrow> 'a option \<Rightarrow> 'a parray option" where
  "pa_set p i x =
     do { a \<leftarrow> p; guard (i < length (pa_cells a)); Some (a\<lparr>pa_cells := (pa_cells a)[i := x]\<rparr>) }"

subsection \<open>Construction and release\<close>

definition riak_array_new ::
  "riak_config option \<Rightarrow> u64 \<Rightarrow> mem \<Rightarrow> (riak_error \<times> 'a riak_array option \<times> mem) option"
where
  "riak_array_new cfg sz m =
     (let (ra, m) = riak_config_clean_allocate cfg (SizeOf ''riak_array'' 1) m
      in case ra of
           None \<Rightarrow> Some (ERIAK_OUT_OF_MEMORY, None, m)
         | Some at \<Rightarrow>
             (let (arr, m) = riak_config_clean_allocate cfg (SizeOf ''void*'' (unat sz)) m
              in case arr of
                   None \<Rightarrow> do { m \<leftarrow> riak_free cfg (Some at) m;
                               Some (ERIAK_OUT_OF_MEMORY, None, m) }
                 | Some a \<Rightarrow>
                     Some (ERIAK_OK,
                           Some \<lparr>ra_at = at, ra_cfg = cfg, ra_length = 0, ra_capacity = sz,
                                 ra_array = Some \<lparr>pa_addr = a, pa_cells = replicate (unat sz) None\<rparr>\<rparr>,
                           m)))"

definition riak_array_free :: "'a riak_array option \<Rightarrow> mem \<Rightarrow> mem option" where
  "riak_array_free ra m =
     (case ra of
        None \<Rightarrow> Some m
      | Some r \<Rightarrow>
          do { m \<leftarrow> riak_free (ra_cfg r) (map_option pa_addr (ra_array r)) m;
               riak_free (ra_cfg r) (Some (ra_at r)) m })"

definition riak_array_length :: "'a riak_array option \<Rightarrow> u64 option" where
  "riak_array_length ra = do { r \<leftarrow> ra; Some (ra_length r) }"

subsection \<open>Growing\<close>

text \<open>The doubling loop; \<open>None\<close> when it does not end.\<close>

partial_function (option) riak_array_grow :: "u64 \<Rightarrow> u64 \<Rightarrow> u64 option" where
  "riak_array_grow new_cap sz =
     (if new_cap < sz then riak_array_grow (new_cap * 2) sz else Some new_cap)"

definition riak_array_resize ::
  "'a riak_array \<Rightarrow> u64 \<Rightarrow> mem \<Rightarrow> (riak_error \<times> 'a riak_array option \<times> mem) option"
where
  "riak_array_resize ra sz m =
     (if sz > ra_capacity ra
      then do { new_cap \<leftarrow> riak_array_grow (ra_capacity ra) sz;
                (done, arr, m) \<leftarrow> riak_array_realloc (ra_cfg ra) (ra_array ra) ''void*''
                                   (ucast (ra_capacity ra)) (ucast new_cap) m;
                (if \<not> done
                 then do { m \<leftarrow> riak_array_free (Some ra) m;
                           Some (ERIAK_OUT_OF_MEMORY, None, m) }
                 else Some (ERIAK_OK, Some (ra\<lparr>ra_array := arr, ra_capacity := new_cap\<rparr>), m)) }
      else Some (ERIAK_OK, Some ra, m))"

subsection \<open>Inserting and removing\<close>

text \<open>The shift loops; \<open>j\<close> starts at the 32-bit value of \<open>length\<close> or \<open>pos\<close>.\<close>

definition as_int :: "u64 \<Rightarrow> int" where
  "as_int x = sint (ucast x :: 32 word)"

fun array_shift_up :: "'a parray option \<Rightarrow> nat \<Rightarrow> nat \<Rightarrow> 'a parray option" where
  "array_shift_up arr 0 pos = arr"
| "array_shift_up arr (Suc j) pos =
     (if Suc j > pos
      then do { x \<leftarrow> pa_get arr j;
                a \<leftarrow> pa_set arr (Suc j) x;
                array_shift_up (Some a) j pos }
      else arr)"

definition riak_array_insert ::
  "'a riak_array \<Rightarrow> u64 \<Rightarrow> 'a option \<Rightarrow> mem \<Rightarrow> (riak_error \<times> 'a riak_array option \<times> mem) option"
where
  "riak_array_insert ra pos elem m =
     (if sint pos > sint (ra_length ra) then Some (ERIAK_OUT_OF_RANGE, Some ra, m)
      else do { (err, r, m) \<leftarrow> riak_array_resize ra (ra_length ra + 1) m;
                (if err \<noteq> ERIAK_OK then Some (err, r, m)
                 else do { ra \<leftarrow> r;
                           arr \<leftarrow> (if sint (ra_length ra) > 0 \<and> sint pos < sint (ra_length ra)
                                  then do { guard (0 \<le> as_int (ra_length ra));
                                            array_shift_up (ra_array ra)
                                              (nat (as_int (ra_length ra))) (unat pos) }
                                  else ra_array ra);
                           a \<leftarrow> pa_set (Some arr) (unat pos) elem;
                           Some (ERIAK_OK, Some (ra\<lparr>ra_length := ra_length ra + 1,
                                                    ra_array := Some a\<rparr>), m) }) })"

function array_shift_down :: "'a parray option \<Rightarrow> nat \<Rightarrow> nat \<Rightarrow> 'a parray option" where
  "array_shift_down arr j len =
     (if j < len
      then do { x \<leftarrow> pa_get arr (Suc j);
                a \<leftarrow> pa_set arr j x;
                array_shift_down (Some a) (Suc j) len }
      else arr)"
  by pat_completeness auto
termination
  by (relation "measure (\<lambda>(arr, j, len). len - j)") auto

declare array_shift_down.simps [simp del]

definition riak_array_remove :: "'a riak_array \<Rightarrow> u64 \<Rightarrow> (riak_error \<times> 'a riak_array) option" where
  "riak_array_remove ra pos =
     (if sint pos > sint (ra_length ra) - 1 then Some (ERIAK_OUT_OF_RANGE, ra)
      else do { arr \<leftarrow> (if as_int pos < sint (ra_length ra)
                       then do { guard (0 \<le> as_int pos);
                                 array_shift_down (ra_array ra) (nat (as_int pos))
                                   (nat (sint (ra_length ra))) }
                       else ra_array ra);
                Some (ERIAK_OK, ra\<lparr>ra_array := Some arr, ra_length := ra_length ra - 1\<rparr>) })"

definition riak_array_push ::
  "'a riak_array \<Rightarrow> 'a option \<Rightarrow> mem \<Rightarrow> (riak_error \<times> 'a riak_array option \<times> mem) option"
where
  "riak_array_push ra elem m =
     do { (err, r, m) \<leftarrow> riak_array_resize ra (ra_length ra + 1) m;
          (if err \<noteq> ERIAK_OK then Some (err, r, m)
           else do { ra \<leftarrow> r;
                     a \<leftarrow> pa_set (ra_array ra) (unat (ra_length ra)) elem;
                     Some (ERIAK_OK, Some (ra\<lparr>ra_array := Some a,
                                              ra_length := ra_length ra + 1\<rparr>), m) }) }"

text \<open>The out-parameter of \<open>pop\<close> and \<open>get\<close> is an option: \<open>None\<close> when it was not written.\<close>

definition riak_array_pop ::
  "'a riak_array \<Rightarrow> (riak_error \<times> 'a option option \<times> 'a riak_array) option"
where
  "riak_array_pop ra =
     (if sint (ra_length ra) > 0
      then do { x \<leftarrow> pa_get (ra_array ra) (unat (ra_length ra - 1));
                Some (ERIAK_OK, Some x, ra\<lparr>ra_length := ra_length ra - 1\<rparr>) }
      else Some (ERIAK_OUT_OF_RANGE, None, ra))"

definition riak_array_get ::
  "'a riak_array \<Rightarrow> u64 \<Rightarrow> (riak_error \<times> 'a option option) option"
where
  "riak_array_get ra pos =
     (if sint pos > sint (ra_length ra) - 1 then Some (ERIAK_OUT_OF_RANGE, None)
      else do { x \<leftarrow> pa_get (ra_array ra) (unat pos); Some (ERIAK_OK, Some x) })"

definition riak_array_set ::
  "'a riak_array \<Rightarrow> u64 \<Rightarrow> 'a option \<Rightarrow> (riak_error \<times> 'a riak_array) option"
where
  "riak_array_set ra pos elem =
     (if sint pos > sint (ra_length ra) - 1 then Some (ERIAK_OUT_OF_RANGE, ra)
      else do { a \<leftarrow> pa_set (ra_array ra) (unat pos) elem;
                Some (ERIAK_OK, ra\<lparr>ra_array := Some a\<rparr>) })"

text \<open>\<open>qsort\<close> is the C library's, a parameter: it rearranges the first \<open>length\<close> pointers.\<close>

definition riak_array_sort ::
  "(('a option \<Rightarrow> 'a option \<Rightarrow> int) \<Rightarrow> 'a option list \<Rightarrow> 'a option list) \<Rightarrow>
   'a riak_array \<Rightarrow> ('a option \<Rightarrow> 'a option \<Rightarrow> int) \<Rightarrow> 'a riak_array option"
where
  "riak_array_sort qsort ra comparer =
     do { a \<leftarrow> ra_array ra;
          let n = unat (ra_length ra);
          guard (n \<le> length (pa_cells a));
          Some (ra\<lparr>ra_array := Some (a\<lparr>pa_cells := qsort comparer (take n (pa_cells a))
                                                @ drop n (pa_cells a)\<rparr>)\<rparr>) }"

subsection \<open>The list an array represents\<close>

definition ra_wf :: "'a riak_array \<Rightarrow> bool" where
  "ra_wf ra \<longleftrightarrow> (\<exists>a. ra_array ra = Some a \<and> length (pa_cells a) = unat (ra_capacity ra)) \<and>
     unat (ra_length ra) \<le> unat (ra_capacity ra) \<and> unat (ra_capacity ra) \<le> 2 ^ 30"

definition ra_list :: "'a riak_array \<Rightarrow> 'a option list" where
  "ra_list ra = take (unat (ra_length ra)) (pa_cells (the (ra_array ra)))"

lemma length_ra_list: "ra_wf ra \<Longrightarrow> length (ra_list ra) = unat (ra_length ra)"
  by (auto simp: ra_wf_def ra_list_def)

subsection \<open>Conversions that do not wrap\<close>

lemma sint_small: "unat (x :: u64) < 2 ^ 63 \<Longrightarrow> sint x = int (unat x)"
proof -
  assume "unat x < 2 ^ 63"
  then have "int (unat x) < int (2 ^ 63)" by (simp only: of_nat_less_iff)
  then have "uint x < 2 ^ 63" by simp
  moreover have "- (2 ^ 63) \<le> uint x" by (rule order_trans [of _ 0]) simp_all
  ultimately show ?thesis unfolding sint_uint
    using signed_take_bit_int_eq_self [of 63 "uint x"] by simp
qed

lemma as_int_small: "unat (x :: u64) < 2 ^ 31 \<Longrightarrow> as_int x = int (unat x)"
proof -
  assume *: "unat x < 2 ^ 31"
  then have "int (unat x) < int (2 ^ 31)" by (simp only: of_nat_less_iff)
  then have lt: "uint x < 2 ^ 31" by simp
  then have "uint (ucast x :: 32 word) = uint x"
    by (simp add: unsigned_ucast_eq take_bit_int_eq_self)
  moreover have "- (2 ^ 31) \<le> uint x" by (rule order_trans [of _ 0]) simp_all
  ultimately show ?thesis
    unfolding as_int_def sint_uint using lt signed_take_bit_int_eq_self [of 31 "uint x"] by simp
qed

lemma unat_ucast_32: "unat (x :: u64) < 2 ^ 32 \<Longrightarrow> unat (ucast x :: u32) = unat x"
  by (simp add: unsigned_ucast_eq take_bit_nat_eq_self)

lemma unat_plus_1: "unat (x :: u64) < 2 ^ 63 \<Longrightarrow> unat (x + 1) = Suc (unat x)"
  by (simp add: unat_word_ariths)

lemma unat_times_2: "unat (x :: u64) < 2 ^ 63 \<Longrightarrow> unat (x * 2) = 2 * unat x"
  by (simp add: unat_word_ariths)

lemma unat_minus_1_64: "0 < unat (x :: u64) \<Longrightarrow> unat (x - 1) = unat x - 1"
  by (simp add: unat_sub word_le_nat_alt Suc_leI)

subsection \<open>The doubling loop\<close>

lemma riak_array_grow_unfold:
  "riak_array_grow c sz = (if c < sz then riak_array_grow (c * 2) sz else Some c)"
  by (rule riak_array_grow.simps)

text \<open>
  From a positive capacity the loop ends for up to \<open>2 ^ 63\<close> elements, with less than twice what was
  asked for.
\<close>

lemma riak_array_grow_ends:
  assumes "0 < unat c" "unat sz \<le> 2 ^ 63"
  shows "\<exists>n. riak_array_grow c sz = Some n \<and> sz \<le> n \<and> (if sz \<le> c then n = c else unat n < 2 * unat sz)"
  using assms(1)
proof (induction "unat sz - unat c" arbitrary: c rule: less_induct)
  case less
  show ?case
  proof (cases "c < sz")
    case True
    then have lt: "unat c < unat sz" by (simp add: word_less_nat_alt)
    with assms(2) have two: "unat (c * 2) = 2 * unat c" by (intro unat_times_2) auto
    have "unat sz - unat (c * 2) < unat sz - unat c" "0 < unat (c * 2)"
      using lt less.prems two by auto
    from less.hyps [OF this] obtain n where "riak_array_grow (c * 2) sz = Some n" "sz \<le> n"
      "if sz \<le> c * 2 then n = c * 2 else unat n < 2 * unat sz"
      by blast
    with True two lt show ?thesis by (subst riak_array_grow_unfold) (auto split: if_splits)
  next
    case False
    then show ?thesis by (subst riak_array_grow_unfold) (auto simp: not_less)
  qed
qed

text \<open>A result is a power-of-two multiple of the capacity: from capacity 0 the loop never ends.\<close>

lemma riak_array_grow_multiple:
  assumes "riak_array_grow c sz = Some n"
  shows "sz \<le> n \<and> (\<exists>k. n = c * 2 ^ k)"
proof (rule riak_array_grow.raw_induct [where P = "\<lambda>c sz n. sz \<le> n \<and> (\<exists>k. n = c * 2 ^ k)", OF _ assms])
  fix f and c sz n :: u64
  assume IH: "\<And>c sz n. f c sz = Some n \<Longrightarrow> sz \<le> n \<and> (\<exists>k. n = c * 2 ^ k)"
    and eq: "(if c < sz then f (c * 2) sz else Some c) = Some n"
  show "sz \<le> n \<and> (\<exists>k. n = c * 2 ^ k)"
  proof (cases "c < sz")
    case True
    with eq IH [of "c * 2" sz n] obtain k where "sz \<le> n" "n = c * 2 ^ Suc k"
      by (auto simp: mult.assoc)
    then show ?thesis by blast
  next
    case False
    with eq show ?thesis by (auto simp: not_less intro: exI [of _ 0])
  qed
qed

lemma riak_array_grow_0: "0 < sz \<Longrightarrow> riak_array_grow 0 sz = None"
  using riak_array_grow_multiple [of 0 sz] by (cases "riak_array_grow 0 sz") auto

text \<open>
  For more than \<open>2 ^ 63\<close> elements a capacity that is a power of two, as all but the first ones are,
  doubles until it wraps to 0.
\<close>

lemma riak_array_grow_wraps:
  assumes "2 ^ 63 < unat sz"
  shows "riak_array_grow (2 ^ j) sz = None"
proof (cases "riak_array_grow (2 ^ j) sz")
  case (Some n)
  then obtain k where n: "sz \<le> n" "n = 2 ^ j * 2 ^ k" using riak_array_grow_multiple by blast
  then have p: "n = 2 ^ (j + k)" by (simp add: power_add)
  have u: "unat n = take_bit 64 (2 ^ (j + k))"
    using unsigned_of_nat [of "2 ^ (j + k)", where ?'b = 64] by (simp add: p)
  have "unat n \<le> 2 ^ 63"
  proof (cases "j + k < 64")
    case True
    then have "(2 :: nat) ^ (j + k) \<le> 2 ^ 63" by (intro power_increasing) auto
    then show ?thesis using take_bit_nat_less_eq_self [of 64 "2 ^ (j + k)"] by (simp add: u)
  next
    case False
    then have "2 ^ 64 dvd (2 :: nat) ^ (j + k)" by (intro le_imp_power_dvd) simp
    then show ?thesis by (simp add: u take_bit_eq_mod dvd_imp_mod_0)
  qed
  with n(1) assms show ?thesis by (simp add: word_le_nat_alt)
qed

subsection \<open>Every operation on the list it represents\<close>

lemma ra_wfD:
  assumes "ra_wf ra"
  obtains a where "ra_array ra = Some a" "length (pa_cells a) = unat (ra_capacity ra)"
    "unat (ra_length ra) \<le> length (pa_cells a)" "unat (ra_capacity ra) \<le> 2 ^ 30"
    "sint (ra_length ra) = int (unat (ra_length ra))"
    "as_int (ra_length ra) = int (unat (ra_length ra))"
    "unat (ra_length ra + 1) = Suc (unat (ra_length ra))"
  using assms that by (auto simp: ra_wf_def sint_small as_int_small unat_plus_1)

lemma pa_get_Some [simp]:
  "i < length (pa_cells a) \<Longrightarrow> pa_get (Some a) i = Some (pa_cells a ! i)"
  by (simp add: pa_get_def)

lemma pa_set_Some [simp]:
  "i < length (pa_cells a) \<Longrightarrow> pa_set (Some a) i x = Some (a\<lparr>pa_cells := (pa_cells a)[i := x]\<rparr>)"
  by (simp add: pa_set_def)

lemma ra_list_upd [simp]:
  "ra_list (ra\<lparr>ra_length := n, ra_array := Some a\<rparr>) = take (unat n) (pa_cells a)"
  "ra_list (ra\<lparr>ra_array := Some a, ra_length := n\<rparr>) = take (unat n) (pa_cells a)"
  "ra_list (ra\<lparr>ra_array := Some a\<rparr>) = take (unat (ra_length ra)) (pa_cells a)"
  "ra_list (ra\<lparr>ra_length := n\<rparr>) = take (unat n) (pa_cells (the (ra_array ra)))"
  by (simp_all add: ra_list_def)

text \<open>The blocks of an array, and the state in which an array can be used and grown.\<close>

definition ra_owned :: "'a riak_array \<Rightarrow> addr list" where
  "ra_owned ra = ptrs (map_option pa_addr (ra_array ra)) @ [ra_at ra]"

definition ra_ok :: "'a riak_array \<Rightarrow> mem \<Rightarrow> bool" where
  "ra_ok ra m \<longleftrightarrow> cfg_grants (ra_cfg ra) \<and> ra_wf ra \<and> 0 < unat (ra_capacity ra) \<and>
     distinct (ra_owned ra) \<and> set (ra_owned ra) \<subseteq> mem_live m \<and> mem_wf m"

lemma riak_array_free_owned:
  "cfg_ok (ra_cfg ra) \<Longrightarrow> riak_array_free (Some ra) m = mem_free_all (ra_owned ra) m"
  by (simp add: riak_array_free_def riak_free_ptrs ra_owned_def)

text \<open>Growing by one: same contents, room for one more.\<close>

lemma riak_array_resize_ok:
  assumes ok: "ra_ok ra m" and lim: "unat (ra_length ra) < 2 ^ 29"
  shows "\<exists>ra' a m'. riak_array_resize ra (ra_length ra + 1) m = Some (ERIAK_OK, Some ra', m') \<and>
    ra_ok ra' m' \<and> ra_list ra' = ra_list ra \<and> ra_length ra' = ra_length ra \<and>
    ra_array ra' = Some a \<and> unat (ra_length ra) < length (pa_cells a)"
proof -
  from ok have g: "cfg_grants (ra_cfg ra)" and wf: "ra_wf ra" and pos: "0 < unat (ra_capacity ra)"
    and own: "distinct (ra_owned ra)" "set (ra_owned ra) \<subseteq> mem_live m" and mwf: "mem_wf m"
    by (simp_all add: ra_ok_def)
  from wf obtain a where a: "ra_array ra = Some a" "length (pa_cells a) = unat (ra_capacity ra)"
    "unat (ra_length ra) \<le> length (pa_cells a)" "unat (ra_capacity ra) \<le> 2 ^ 30"
    "unat (ra_length ra + 1) = Suc (unat (ra_length ra))"
    by (rule ra_wfD) blast
  show ?thesis
  proof (cases "ra_length ra + 1 > ra_capacity ra")
    case False
    with a ok show ?thesis by (auto simp: riak_array_resize_def word_less_nat_alt)
  next
    case True
    let ?cap = "ra_capacity ra"
    from True a have full: "unat ?cap = unat (ra_length ra)" by (simp add: word_less_nat_alt)
    with lim have two: "unat (?cap * 2) = 2 * unat ?cap" by (intro unat_times_2) auto
    have grow: "riak_array_grow ?cap (ra_length ra + 1) = Some (?cap * 2)"
      using True full two a pos
      by (subst riak_array_grow_unfold, simp, subst riak_array_grow_unfold)
        (auto simp: word_less_nat_alt)
    have c32: "unat (ucast ?cap :: u32) = unat ?cap" "unat (ucast (?cap * 2) :: u32) = 2 * unat ?cap"
      using full lim two by (simp_all add: unat_ucast_32)
    let ?a = "\<lparr>pa_addr = mem_next m, pa_cells = pa_cells a @ replicate (unat ?cap) None\<rparr>"
    let ?ra = "ra\<lparr>ra_array := Some ?a, ra_capacity := ?cap * 2\<rparr>"
    let ?m = "(mem_push m)\<lparr>mem_live := insert (mem_next m) (mem_live m) - {pa_addr a}\<rparr>"
    have "riak_array_resize ra (ra_length ra + 1) m = Some (ERIAK_OK, Some ?ra, ?m)"
      using True a c32 grow own riak_array_realloc_granted [OF g, of "ucast ?cap" a "ucast (?cap * 2)" m]
      by (simp add: riak_array_resize_def ra_owned_def)
    moreover have "ra_ok ?ra ?m"
      using ok a two full lim own mwf
      by (auto simp: ra_ok_def ra_wf_def ra_owned_def mem_wf_def)
    ultimately show ?thesis using a full pos
      by (auto simp: ra_list_def)
  qed
qed

text \<open>The shifting loops.\<close>

lemma array_shift_up_spec:
  assumes "k \<le> j" "j < length (pa_cells a)"
  shows "array_shift_up (Some a) j k =
    Some (a\<lparr>pa_cells := take (Suc k) (pa_cells a) @ drop k (take j (pa_cells a)) @
                        drop (Suc j) (pa_cells a)\<rparr>)"
  using assms
proof (induction j arbitrary: a)
  case 0
  then show ?case by (cases a) (simp add: take_Suc_conv_app_nth Cons_nth_drop_Suc)
next
  case (Suc j)
  show ?case
  proof (cases "Suc j > k")
    case True
    let ?cs = "pa_cells a" let ?a = "a\<lparr>pa_cells := ?cs[Suc j := ?cs ! j]\<rparr>"
    have "array_shift_up (Some a) (Suc j) k = array_shift_up (Some ?a) j k"
      using True Suc.prems by simp
    also have "\<dots> = Some (?a\<lparr>pa_cells := take (Suc k) (pa_cells ?a) @ drop k (take j (pa_cells ?a)) @
        drop (Suc j) (pa_cells ?a)\<rparr>)"
      using True Suc.prems by (intro Suc.IH) auto
    also have "drop (Suc j) (pa_cells ?a) = ?cs ! j # drop (Suc (Suc j)) ?cs"
      using Suc.prems by (simp add: drop_update_swap flip: Cons_nth_drop_Suc)
    also have "drop k (take j (pa_cells ?a)) @ ?cs ! j # drop (Suc (Suc j)) ?cs =
        drop k (take (Suc j) ?cs) @ drop (Suc (Suc j)) ?cs"
      using True Suc.prems by (simp add: take_Suc_conv_app_nth)
    also have "take (Suc k) (pa_cells ?a) = take (Suc k) ?cs" using True by simp
    finally show ?thesis by simp
  next
    case False
    with Suc.prems show ?thesis
      by (cases a) (simp add: drop_take not_less le_Suc_eq)
  qed
qed

lemma array_shift_down_spec:
  assumes "j \<le> n" "n < length (pa_cells a)"
  shows "array_shift_down (Some a) j n =
    Some (a\<lparr>pa_cells := take j (pa_cells a) @ take (n - j) (drop (Suc j) (pa_cells a)) @
                        drop n (pa_cells a)\<rparr>)"
  using assms
proof (induction "n - j" arbitrary: j a)
  case 0
  then show ?case by (subst array_shift_down.simps) (cases a, simp)
next
  case (Suc d)
  let ?cs = "pa_cells a" let ?a = "a\<lparr>pa_cells := ?cs[j := ?cs ! Suc j]\<rparr>"
  from Suc have lt: "j < n" by simp
  have "array_shift_down (Some a) j n = array_shift_down (Some ?a) (Suc j) n"
    using lt Suc.prems by (subst array_shift_down.simps) simp
  also have "\<dots> = Some (?a\<lparr>pa_cells := take (Suc j) (pa_cells ?a) @
      take (n - Suc j) (drop (Suc (Suc j)) (pa_cells ?a)) @ drop n (pa_cells ?a)\<rparr>)"
    using Suc by (intro Suc.hyps(1)) auto
  also have "take (Suc j) (pa_cells ?a) = take j ?cs @ [?cs ! Suc j]"
    using lt Suc.prems by (simp add: take_Suc_update)
  finally have step: "array_shift_down (Some a) j n = Some (?a\<lparr>pa_cells := (take j ?cs @ [?cs ! Suc j]) @
      take (n - Suc j) (drop (Suc (Suc j)) (pa_cells ?a)) @ drop n (pa_cells ?a)\<rparr>)" .
  have "n - j = Suc (n - Suc j)" using lt by simp
  then have "take (n - j) (drop (Suc j) ?cs) = ?cs ! Suc j # take (n - Suc j) (drop (Suc (Suc j)) ?cs)"
    using lt Suc.prems by (simp flip: Cons_nth_drop_Suc)
  with step lt show ?case by simp
qed

lemma riak_array_push_ok:
  assumes "ra_ok ra m" "length (ra_list ra) < 2 ^ 29"
  shows "\<exists>ra' m'. riak_array_push ra x m = Some (ERIAK_OK, Some ra', m') \<and> ra_ok ra' m' \<and>
    ra_list ra' = ra_list ra @ [x]"
proof -
  have len: "length (ra_list ra) = unat (ra_length ra)"
    using assms(1) by (simp add: ra_ok_def length_ra_list)
  then obtain r a m' where r: "riak_array_resize ra (ra_length ra + 1) m = Some (ERIAK_OK, Some r, m')"
    "ra_ok r m'" "ra_list r = ra_list ra" "ra_length r = ra_length ra" "ra_array r = Some a"
    "unat (ra_length ra) < length (pa_cells a)"
    using riak_array_resize_ok [OF assms(1)] assms(2) by auto
  let ?r = "r\<lparr>ra_array := Some (a\<lparr>pa_cells := (pa_cells a)[unat (ra_length ra) := x]\<rparr>),
              ra_length := ra_length ra + 1\<rparr>"
  have n: "unat (ra_length ra + 1) = Suc (unat (ra_length ra))"
    using assms(2) len by (intro unat_plus_1) simp
  have "riak_array_push ra x m = Some (ERIAK_OK, Some ?r, m')"
    using r by (simp add: riak_array_push_def)
  moreover have "ra_ok ?r m'"
    using r n by (auto simp: ra_ok_def ra_wf_def ra_owned_def)
  moreover have "ra_list ?r = ra_list ra @ [x]"
    using r n by (simp add: take_Suc_update ra_list_def)
  ultimately show ?thesis by blast
qed

lemma riak_array_insert_ok:
  assumes "ra_ok ra m" "length (ra_list ra) < 2 ^ 29" "unat pos \<le> length (ra_list ra)"
  shows "\<exists>ra' m'. riak_array_insert ra pos x m = Some (ERIAK_OK, Some ra', m') \<and> ra_ok ra' m' \<and>
    ra_list ra' = take (unat pos) (ra_list ra) @ x # drop (unat pos) (ra_list ra)"
proof -
  have len: "length (ra_list ra) = unat (ra_length ra)"
    using assms(1) by (simp add: ra_ok_def length_ra_list)
  then obtain r a m' where r: "riak_array_resize ra (ra_length ra + 1) m = Some (ERIAK_OK, Some r, m')"
    "ra_ok r m'" "ra_list r = ra_list ra" "ra_length r = ra_length ra" "ra_array r = Some a"
    "unat (ra_length ra) < length (pa_cells a)"
    using riak_array_resize_ok [OF assms(1)] assms(2) by auto
  let ?n = "unat (ra_length ra)" let ?p = "unat pos" let ?cs = "pa_cells a"
  have s: "sint pos = int ?p" "sint (ra_length ra) = int ?n" "as_int (ra_length ra) = int ?n"
    "unat (ra_length ra + 1) = Suc ?n"
    using assms(2,3) len by (simp_all add: sint_small as_int_small unat_plus_1)
  have l: "ra_list ra = take ?n ?cs" using r by (simp add: ra_list_def flip: r(3))
  let ?cs' = "take (Suc ?p) ?cs @ drop ?p (take ?n ?cs) @ drop (Suc ?n) ?cs"
  have shift: "(if 0 < ?n \<and> ?p < ?n
      then do { guard (0 \<le> as_int (ra_length r));
                array_shift_up (ra_array r) (nat (as_int (ra_length r))) ?p }
      else ra_array r) = Some (a\<lparr>pa_cells := ?cs'\<rparr>)"
  proof (cases "?p < ?n")
    case True
    then have "array_shift_up (Some a) ?n ?p = Some (a\<lparr>pa_cells := ?cs'\<rparr>)"
      using r(6) by (intro array_shift_up_spec) simp_all
    with True show ?thesis by (simp add: r(4,5) s(3) guard_def del: of_nat_unat)
  next
    case False
    with assms(3) len have pn: "?p = ?n" by simp
    have "?cs' = ?cs" using r(6) by (simp add: pn)
    with r(5) show ?thesis by (simp only: pn simp_thms if_False less_irrefl) (cases a, simp)
  qed
  let ?r = "r\<lparr>ra_length := ra_length ra + 1, ra_array := Some (a\<lparr>pa_cells := ?cs'[?p := x]\<rparr>)\<rparr>"
  have "\<not> int ?n < int ?p" "0 \<le> int ?n" "?p < length ?cs'"
    using assms(3) len r(6) by (simp_all del: of_nat_unat)
  then have "riak_array_insert ra pos x m = Some (ERIAK_OK, Some ?r, m')"
    unfolding riak_array_insert_def s(1,2)
    by (simp add: r(1,4,5) s(1-3) shift del: of_nat_unat split del: if_split)
  moreover have "ra_ok ?r m'"
    using r s assms(3) len by (auto simp: ra_ok_def ra_wf_def ra_owned_def)
  moreover have "ra_list ?r = take ?p (ra_list ra) @ x # drop ?p (ra_list ra)"
    using r s assms(3) len l
    by (simp add: list_update_append take_Suc_conv_app_nth min_def Suc_diff_le)
  ultimately show ?thesis by blast
qed

lemma shift_down_take:
  assumes "p < n" "n < length cs"
  shows "take (n - 1) (take p cs @ take (n - p) (drop (Suc p) cs) @ drop n cs) =
    take p cs @ take (n - 1 - p) (drop (Suc p) cs)"
proof -
  have "n - 1 - p \<le> n - p" "p \<le> n - 1" "p \<le> length cs" using assms by auto
  then show ?thesis using assms by (simp add: min_absorb1 min_absorb2)
qed

lemma riak_array_remove_ok:
  assumes "ra_wf ra" "unat pos < length (ra_list ra)"
    and room: "unat (ra_length ra) < unat (ra_capacity ra)"
  shows "\<exists>ra'. riak_array_remove ra pos = Some (ERIAK_OK, ra') \<and> ra_wf ra' \<and>
    ra_list ra' = take (unat pos) (ra_list ra) @ drop (Suc (unat pos)) (ra_list ra)"
proof -
  from assms(1) obtain a where a: "ra_array ra = Some a" "length (pa_cells a) = unat (ra_capacity ra)"
    "unat (ra_capacity ra) \<le> 2 ^ 30" "sint (ra_length ra) = int (unat (ra_length ra))"
    by (rule ra_wfD) blast
  let ?n = "unat (ra_length ra)" let ?p = "unat pos" let ?cs = "pa_cells a"
  have p: "?p < ?n" using assms(1,2) by (simp add: length_ra_list)
  with a room have s: "sint pos = int ?p" "as_int pos = int ?p" "unat (ra_length ra - 1) = ?n - 1"
    by (simp_all add: sint_small as_int_small unat_minus_1_64)
  let ?cs' = "take ?p ?cs @ take (?n - ?p) (drop (Suc ?p) ?cs) @ drop ?n ?cs"
  let ?r = "ra\<lparr>ra_array := Some (a\<lparr>pa_cells := ?cs'\<rparr>), ra_length := ra_length ra - 1\<rparr>"
  have shift: "array_shift_down (Some a) ?p ?n = Some (a\<lparr>pa_cells := ?cs'\<rparr>)"
    using a(2) p room by (intro array_shift_down_spec) simp_all
  have "\<not> int ?p > int ?n - 1" "int ?p < int ?n" "0 \<le> int ?p" using p by linarith+
  then have "riak_array_remove ra pos = Some (ERIAK_OK, ?r)"
    unfolding riak_array_remove_def s a(1) a(4)
    by (simp only: if_False if_True nat_int shift) (simp add: guard_def)
  moreover have "ra_wf ?r" using assms(1) a s p room by (auto simp: ra_wf_def)
  moreover have "ra_list ?r = take ?p (ra_list ra) @ drop (Suc ?p) (ra_list ra)"
  proof -
    have "take (?n - 1) ?cs' = take ?p ?cs @ take (?n - 1 - ?p) (drop (Suc ?p) ?cs)"
      by (rule shift_down_take) (use p room a(2) in simp_all)
    then show ?thesis using s(3) p by (simp add: ra_list_def a(1) drop_take min_def)
  qed
  ultimately show ?thesis by blast
qed

text \<open>
  Removing from a full array reads the cell one past the end of the block: the loop runs to
  \<open>j = length - 1\<close> and reads \<open>array[j+1]\<close>.
\<close>

lemma array_shift_down_full:
  "j < n \<Longrightarrow> n = length (pa_cells a) \<Longrightarrow> array_shift_down (Some a) j n = None"
proof (induction "n - j" arbitrary: j a)
  case (Suc d)
  show ?case
  proof (cases "Suc j < n")
    case True
    let ?a = "a\<lparr>pa_cells := (pa_cells a)[j := pa_cells a ! Suc j]\<rparr>"
    have "array_shift_down (Some ?a) (Suc j) n = None"
      using True Suc.prems Suc.hyps(2) by (intro Suc.hyps(1)) simp_all
    with True Suc.prems show ?thesis
      by (subst array_shift_down.simps) simp
  next
    case False
    with Suc.prems show ?thesis by (subst array_shift_down.simps) (simp add: pa_get_def)
  qed
qed simp

lemma riak_array_remove_full:
  assumes "ra_wf ra" "unat pos < length (ra_list ra)"
    and full: "unat (ra_length ra) = unat (ra_capacity ra)"
  shows "riak_array_remove ra pos = None"
proof -
  from assms(1) obtain a where a: "ra_array ra = Some a" "length (pa_cells a) = unat (ra_capacity ra)"
    "unat (ra_capacity ra) \<le> 2 ^ 30" "sint (ra_length ra) = int (unat (ra_length ra))"
    by (rule ra_wfD) blast
  have p: "unat pos < unat (ra_length ra)" using assms(1,2) by (simp add: length_ra_list)
  with a full have "sint pos = int (unat pos)" "as_int pos = int (unat pos)"
    by (simp_all add: sint_small as_int_small)
  then have s: "sint pos = int (unat pos)" "as_int pos = int (unat pos)" .
  have shift: "array_shift_down (Some a) (unat pos) (unat (ra_length ra)) = None"
    using a(2) p full by (intro array_shift_down_full) simp_all
  have "\<not> int (unat pos) > int (unat (ra_length ra)) - 1"
    "int (unat pos) < int (unat (ra_length ra))" "0 \<le> int (unat pos)"
    using p by linarith+
  then show ?thesis
    unfolding riak_array_remove_def s a(1) a(4)
    by (simp only: if_False if_True nat_int shift) (simp add: guard_def)
qed

lemma riak_array_pop_ok:
  assumes "ra_ok ra m" "ra_list ra = xs @ [x]"
  shows "\<exists>ra'. riak_array_pop ra = Some (ERIAK_OK, Some x, ra') \<and> ra_ok ra' m \<and> ra_list ra' = xs"
proof -
  have wf: "ra_wf ra" using assms(1) by (simp add: ra_ok_def)
  then obtain a where a: "ra_array ra = Some a" "unat (ra_length ra) \<le> length (pa_cells a)"
    "sint (ra_length ra) = int (unat (ra_length ra))"
    by (rule ra_wfD) blast
  have n: "unat (ra_length ra) = Suc (length xs)"
    using length_ra_list [OF wf] assms(2) by simp
  then have m1: "unat (ra_length ra - 1) = length xs" by (simp add: unat_minus_1_64)
  have l: "take (Suc (length xs)) (pa_cells a) = xs @ [x]"
    using assms(2) a n by (simp add: ra_list_def)
  then have "pa_cells a ! length xs = x" "take (length xs) (pa_cells a) = xs"
    using a(2) n by (auto simp: take_Suc_conv_app_nth)
  with a n m1 have "riak_array_pop ra = Some (ERIAK_OK, Some x, ra\<lparr>ra_length := ra_length ra - 1\<rparr>)"
    "ra_list (ra\<lparr>ra_length := ra_length ra - 1\<rparr>) = xs"
    by (simp_all add: riak_array_pop_def)
  moreover have "ra_ok (ra\<lparr>ra_length := ra_length ra - 1\<rparr>) m"
    using assms(1) m1 n by (auto simp: ra_ok_def ra_wf_def ra_owned_def)
  ultimately show ?thesis by blast
qed

text \<open>Reading and replacing an element; what each operation does out of range.\<close>

lemma riak_array_get_ok:
  assumes "ra_wf ra" "unat pos < length (ra_list ra)"
  shows "riak_array_get ra pos = Some (ERIAK_OK, Some (ra_list ra ! unat pos))"
proof -
  from assms(1) obtain a where a: "ra_array ra = Some a" "length (pa_cells a) = unat (ra_capacity ra)"
    "unat (ra_length ra) \<le> length (pa_cells a)"
    "unat (ra_capacity ra) \<le> 2 ^ 30" "sint (ra_length ra) = int (unat (ra_length ra))"
    by (rule ra_wfD) blast
  have p: "unat pos < unat (ra_length ra)" using assms by (simp add: length_ra_list)
  with a have s: "sint pos = int (unat pos)" by (intro sint_small) simp
  have "\<not> int (unat (ra_length ra)) - 1 < int (unat pos)" using p by linarith
  then show ?thesis using a p
    by (simp add: riak_array_get_def s ra_list_def pa_get_def guard_def del: of_nat_unat)
qed

lemma riak_array_set_ok:
  assumes "ra_ok ra m" "unat pos < length (ra_list ra)"
  shows "\<exists>ra'. riak_array_set ra pos x = Some (ERIAK_OK, ra') \<and> ra_ok ra' m \<and>
    ra_list ra' = (ra_list ra)[unat pos := x]"
proof -
  have wf: "ra_wf ra" using assms(1) by (simp add: ra_ok_def)
  then obtain a where a: "ra_array ra = Some a" "length (pa_cells a) = unat (ra_capacity ra)"
    "unat (ra_length ra) \<le> length (pa_cells a)"
    "unat (ra_capacity ra) \<le> 2 ^ 30" "sint (ra_length ra) = int (unat (ra_length ra))"
    by (rule ra_wfD) blast
  let ?ra = "ra\<lparr>ra_array := Some (a\<lparr>pa_cells := (pa_cells a)[unat pos := x]\<rparr>)\<rparr>"
  have p: "unat pos < unat (ra_length ra)" using assms wf by (simp add: length_ra_list)
  with a have s: "sint pos = int (unat pos)" by (intro sint_small) simp
  have "\<not> int (unat (ra_length ra)) - 1 < int (unat pos)" using p by linarith
  then have "riak_array_set ra pos x = Some (ERIAK_OK, ?ra)" using a p
    by (simp add: riak_array_set_def s pa_set_def guard_def del: of_nat_unat)
  moreover have "ra_ok ?ra m" using assms(1) a by (auto simp: ra_ok_def ra_wf_def ra_owned_def)
  moreover have "ra_list ?ra = (ra_list ra)[unat pos := x]"
    using a by (simp add: ra_list_def take_update_swap)
  ultimately show ?thesis by blast
qed

lemma riak_array_out_of_range:
  assumes "sint (ra_length ra) \<le> sint pos"
  shows "riak_array_get ra pos = Some (ERIAK_OUT_OF_RANGE, None)"
    and "riak_array_set ra pos x = Some (ERIAK_OUT_OF_RANGE, ra)"
    and "riak_array_remove ra pos = Some (ERIAK_OUT_OF_RANGE, ra)"
  using assms by (auto simp: riak_array_get_def riak_array_set_def riak_array_remove_def)

lemma riak_array_new_ok:
  assumes "cfg_grants cfg" "mem_wf m" "0 < unat sz" "unat sz \<le> 2 ^ 30"
  shows "\<exists>ra m'. riak_array_new cfg sz m = Some (ERIAK_OK, Some ra, m') \<and> ra_ok ra m' \<and>
    ra_list ra = [] \<and> mem_allocs m (ra_owned ra) m'"
  using assms
  by (auto simp: riak_array_new_def clean_allocate_eq allocate_granted Let_def ra_ok_def ra_wf_def
      ra_owned_def ra_list_def mem_wf_def mem_allocs_def)

subsection \<open>The array as a sequence\<close>

text \<open>Pushing a list, and inserting every element of a list at the front.\<close>

fun feed :: "('s \<Rightarrow> 'x \<Rightarrow> 'm \<Rightarrow> ('s \<times> 'm) option) \<Rightarrow> 's \<Rightarrow> 'x list \<Rightarrow> 'm \<Rightarrow> ('s \<times> 'm) option" where
  "feed f s [] m = Some (s, m)"
| "feed f s (x # xs) m = do { (s, m) \<leftarrow> f s x m; feed f s xs m }"

fun drain :: "('s \<Rightarrow> ('x \<times> 's) option) \<Rightarrow> 's \<Rightarrow> nat \<Rightarrow> ('x list \<times> 's) option" where
  "drain f s 0 = Some ([], s)"
| "drain f s (Suc n) = do { (x, s) \<leftarrow> f s; (xs, s) \<leftarrow> drain f s n; Some (x # xs, s) }"

text \<open>
  What a client of the array relies on: each operation acts on the list the array represents
  (\<open>contents\<close>) as the list operation it is named after, as long as the list is shorter than
  \<open>limit\<close>.
\<close>

locale array_seq =
  fixes usable :: "'s \<Rightarrow> 'm \<Rightarrow> bool"
    and contents :: "'s \<Rightarrow> 'x list"
    and push :: "'s \<Rightarrow> 'x \<Rightarrow> 'm \<Rightarrow> ('s \<times> 'm) option"
    and push_front :: "'s \<Rightarrow> 'x \<Rightarrow> 'm \<Rightarrow> ('s \<times> 'm) option"
    and pop :: "'s \<Rightarrow> ('x \<times> 's) option"
    and limit :: nat
  assumes push_law: "usable s m \<Longrightarrow> length (contents s) < limit \<Longrightarrow>
      \<exists>s' m'. push s x m = Some (s', m') \<and> usable s' m' \<and> contents s' = contents s @ [x]"
    and push_front_law: "usable s m \<Longrightarrow> length (contents s) < limit \<Longrightarrow>
      \<exists>s' m'. push_front s x m = Some (s', m') \<and> usable s' m' \<and> contents s' = x # contents s"
    and pop_law: "usable s m \<Longrightarrow> contents s = xs @ [x] \<Longrightarrow>
      \<exists>s'. pop s = Some (x, s') \<and> usable s' m \<and> contents s' = xs"
begin

lemma feed_push:
  assumes "usable s m" "length (contents s) + length xs \<le> limit"
  shows "\<exists>s' m'. feed push s xs m = Some (s', m') \<and> usable s' m' \<and> contents s' = contents s @ xs"
  using assms
proof (induction xs arbitrary: s m)
  case (Cons x xs)
  then obtain t n where "push s x m = Some (t, n)" "usable t n" "contents t = contents s @ [x]"
    using push_law [of s m x] by auto
  with Cons.IH [of t n] Cons.prems(2) show ?case by auto
qed simp

lemma feed_push_front:
  assumes "usable s m" "length (contents s) + length xs \<le> limit"
  shows "\<exists>s' m'. feed push_front s xs m = Some (s', m') \<and> usable s' m' \<and>
    contents s' = rev xs @ contents s"
  using assms
proof (induction xs arbitrary: s m)
  case (Cons x xs)
  then obtain t n where "push_front s x m = Some (t, n)" "usable t n" "contents t = x # contents s"
    using push_front_law [of s m x] by auto
  with Cons.IH [of t n] Cons.prems(2) show ?case by auto
qed simp

lemma drain_pop:
  assumes "usable s m" "contents s = xs @ ys"
  shows "\<exists>s'. drain pop s (length ys) = Some (rev ys, s') \<and> usable s' m \<and> contents s' = xs"
  using assms
proof (induction ys arbitrary: s rule: rev_induct)
  case (snoc y ys)
  then obtain t where "pop s = Some (y, t)" "usable t m" "contents t = xs @ ys"
    using pop_law [of s m "xs @ ys" y] by auto
  with snoc.IH [of t] show ?case by auto
qed simp

lemma push_then_pop:
  assumes "usable s m" "contents s = []" "length xs \<le> limit"
  shows "\<exists>s' m' s''. feed push s xs m = Some (s', m') \<and> contents s' = xs \<and>
    drain pop s' (length xs) = Some (rev xs, s'') \<and> contents s'' = []"
  using feed_push [OF assms(1), of xs] assms drain_pop [of _ _ "[]" xs] by fastforce

lemma push_front_then_pop:
  assumes "usable s m" "contents s = []" "length xs \<le> limit"
  shows "\<exists>s' m' s''. feed push_front s xs m = Some (s', m') \<and> contents s' = rev xs \<and>
    drain pop s' (length xs) = Some (xs, s'') \<and> contents s'' = []"
  using feed_push_front [OF assms(1), of xs] assms drain_pop [of _ _ "[]" "rev xs"] by fastforce

end

text \<open>A call that is expected to succeed: its result without the error code.\<close>

definition ra_push :: "'a riak_array \<Rightarrow> 'a option \<Rightarrow> mem \<Rightarrow> ('a riak_array \<times> mem) option" where
  "ra_push ra x m =
     do { (err, r, m) \<leftarrow> riak_array_push ra x m; guard (err = ERIAK_OK); ra \<leftarrow> r; Some (ra, m) }"

definition ra_push_front :: "'a riak_array \<Rightarrow> 'a option \<Rightarrow> mem \<Rightarrow> ('a riak_array \<times> mem) option" where
  "ra_push_front ra x m =
     do { (err, r, m) \<leftarrow> riak_array_insert ra 0 x m; guard (err = ERIAK_OK); ra \<leftarrow> r; Some (ra, m) }"

definition ra_pop :: "'a riak_array \<Rightarrow> ('a option \<times> 'a riak_array) option" where
  "ra_pop ra =
     do { (err, x, ra) \<leftarrow> riak_array_pop ra; guard (err = ERIAK_OK); x \<leftarrow> x; Some (x, ra) }"

interpretation arr: array_seq ra_ok ra_list ra_push ra_push_front ra_pop "2 ^ 29"
proof
  fix ra :: "'a riak_array" and m x
  assume ok: "ra_ok ra m" and lim: "length (ra_list ra) < 2 ^ 29"
  show "\<exists>s' m'. ra_push ra x m = Some (s', m') \<and> ra_ok s' m' \<and> ra_list s' = ra_list ra @ [x]"
    using riak_array_push_ok [OF ok lim, of x] by (auto simp: ra_push_def)
  show "\<exists>s' m'. ra_push_front ra x m = Some (s', m') \<and> ra_ok s' m' \<and> ra_list s' = x # ra_list ra"
    using riak_array_insert_ok [OF ok lim, of 0 x] by (auto simp: ra_push_front_def)
next
  fix ra :: "'a riak_array" and m xs x
  assume "ra_ok ra m" "ra_list ra = xs @ [x]"
  from riak_array_pop_ok [OF this]
  show "\<exists>s'. ra_pop ra = Some (x, s') \<and> ra_ok s' m \<and> ra_list s' = xs"
    by (auto simp: ra_pop_def)
qed

text \<open>The array is released with \<open>riak_array_free\<close>, which uses the array's own configuration.\<close>

interpretation ra: owned_ptr "\<lambda>_. True" ra_owned
  "\<lambda>cfg ra m. riak_array_free (map_option (\<lambda>r. r\<lparr>ra_cfg := cfg\<rparr>) ra) m"
proof
  fix cfg and x :: "'a riak_array" and m
  assume "cfg_ok cfg"
  then show "riak_array_free (map_option (\<lambda>r. r\<lparr>ra_cfg := cfg\<rparr>) (Some x)) m = mem_free_all (ra_owned x) m"
    by (simp add: riak_array_free_def riak_free_ptrs ra_owned_def)
qed (simp add: riak_array_free_def)

end
