(* ===== verification/Riak_Binary.thy ===== *)
theory Riak_Binary
  imports Riak_Config
begin

text \<open>
  Binary values (\<^verbatim>\<open>src/riak_binary.c\<close>, \<^verbatim>\<open>src/internal/riak_binary-internal.h\<close>): a length
  and a pointer to the bytes. A \<^emph>\<open>managed\<close> binary owns its bytes; a shallow one points into a
  block that belongs to someone else, usually an unpacked Protocol Buffers message.
\<close>

record riak_binary =
  bin_at :: addr
  bin_len :: u64
  bin_data :: "cbuf option"
  bin_managed :: bool

text \<open>The fields of protobuf-c's \<open>ProtobufCBinaryData\<close> that the library reads and writes.\<close>

record pb_binary =
  pbb_len :: u64
  pbb_data :: "cbuf option"

subsection \<open>Construction and release\<close>

definition riak_binary_new ::
  "riak_config option \<Rightarrow> u64 \<Rightarrow> cbuf option \<Rightarrow> mem \<Rightarrow> (riak_binary option \<times> mem) option"
where
  "riak_binary_new cfg len data m =
     (let (b, m) = riak_config_allocate cfg (SizeOf ''riak_binary'' 1) m;
          len = (if data = None then 0 else len)
      in case b of
           None \<Rightarrow> Some (None, m)
         | Some at \<Rightarrow>
             (let (d, m) = riak_config_allocate cfg (Bytes (unat len)) m
              in case d of
                   Some da \<Rightarrow>
                     do { xs \<leftarrow> c_read data (unat len);
                          Some (Some \<lparr>bin_at = at, bin_len = len,
                                      bin_data = Some \<lparr>buf_addr = da, buf_bytes = xs\<rparr>,
                                      bin_managed = True\<rparr>, m) }
                 | None \<Rightarrow>
                     do { m \<leftarrow> riak_free cfg (Some at) m;
                          Some (None, m) }))"

definition riak_binary_new_shallow ::
  "riak_config option \<Rightarrow> u64 \<Rightarrow> cbuf option \<Rightarrow> mem \<Rightarrow> riak_binary option \<times> mem"
where
  "riak_binary_new_shallow cfg len data m =
     (let (b, m) = riak_config_allocate cfg (SizeOf ''riak_binary'' 1) m;
          len = (if data = None then 0 else len)
      in (map_option (\<lambda>at. \<lparr>bin_at = at, bin_len = len, bin_data = data, bin_managed = False\<rparr>) b, m))"

definition riak_binary_copy ::
  "riak_config option \<Rightarrow> riak_binary option \<Rightarrow> mem \<Rightarrow> (riak_binary option \<times> mem) option"
where
  "riak_binary_copy cfg bin m =
     (case bin of
        None \<Rightarrow> Some (None, m)
      | Some b \<Rightarrow> riak_binary_new cfg (bin_len b) (bin_data b) m)"

definition riak_binary_copy_shallow ::
  "riak_config option \<Rightarrow> riak_binary option \<Rightarrow> mem \<Rightarrow> (riak_binary option \<times> mem) option"
where
  "riak_binary_copy_shallow cfg bin m =
     do { bin \<leftarrow> bin;
          let len = bin_len bin;
          let (b, m) = riak_config_allocate cfg (SizeOf ''riak_binary'' 1) m;
          let len = (if bin_data bin = None then 0 else len);
          Some (map_option (\<lambda>at. \<lparr>bin_at = at, bin_len = len, bin_data = bin_data bin,
                                  bin_managed = False\<rparr>) b, m) }"

text \<open>The string is the memory from the pointer on; \<open>strlen\<close> runs to the first zero byte.\<close>

fun c_strlen :: "bytes \<Rightarrow> nat option" where
  "c_strlen [] = None"
| "c_strlen (c # cs) = (if c = 0 then Some 0 else map_option Suc (c_strlen cs))"

definition riak_binary_copy_from_string ::
  "riak_config option \<Rightarrow> cbuf option \<Rightarrow> mem \<Rightarrow> (riak_binary option \<times> mem) option"
where
  "riak_binary_copy_from_string cfg from m =
     (case from of
        None \<Rightarrow> Some (None, m)
      | Some b \<Rightarrow> do { n \<leftarrow> c_strlen (buf_bytes b);
                       riak_binary_new cfg (of_nat n) from m })"

definition riak_binary_copy_from_pb ::
  "riak_config option \<Rightarrow> pb_binary \<Rightarrow> mem \<Rightarrow> riak_binary option \<times> mem"
where
  "riak_binary_copy_from_pb cfg bin m =
     (let len = pbb_len bin;
          (b, m) = riak_config_allocate cfg (SizeOf ''riak_binary'' 1) m;
          len = (if pbb_data bin = None then 0 else len)
      in (map_option (\<lambda>at. \<lparr>bin_at = at, bin_len = len, bin_data = pbb_data bin,
                            bin_managed = False\<rparr>) b, m))"

text \<open>\<open>riak_binary_copy_to_pb\<close>: both structures share the bytes. A NULL source is dereferenced.\<close>

definition riak_binary_copy_to_pb :: "riak_binary option \<Rightarrow> pb_binary option" where
  "riak_binary_copy_to_pb from =
     do { b \<leftarrow> from; Some \<lparr>pbb_len = bin_len b, pbb_data = bin_data b\<rparr> }"

definition riak_binary_len :: "riak_binary option \<Rightarrow> u64 option" where
  "riak_binary_len bin = do { b \<leftarrow> bin; Some (bin_len b) }"

definition riak_binary_data :: "riak_binary option \<Rightarrow> cbuf option option" where
  "riak_binary_data bin = do { b \<leftarrow> bin; Some (bin_data b) }"

definition riak_binary_free ::
  "riak_config option \<Rightarrow> riak_binary option \<Rightarrow> mem \<Rightarrow> mem option"
where
  "riak_binary_free cfg b m =
     (case b of
        None \<Rightarrow> Some m
      | Some x \<Rightarrow>
          do { m \<leftarrow> (if bin_managed x then riak_free cfg (map_option buf_addr (bin_data x)) m
                     else Some m);
               riak_free cfg (Some (bin_at x)) m })"

subsection \<open>Comparison\<close>

text \<open>\<open>memcmp\<close> on two byte strings of the same length: the sign of the first difference.\<close>

fun memcmp :: "bytes \<Rightarrow> bytes \<Rightarrow> int" where
  "memcmp (x # xs) (y # ys) = (if x < y then -1 else if y < x then 1 else memcmp xs ys)"
| "memcmp _ _ = 0"

definition riak_binary_compare :: "riak_binary option \<Rightarrow> riak_binary option \<Rightarrow> int option" where
  "riak_binary_compare bin1 bin2 =
     do { b1 \<leftarrow> bin1;
          b2 \<leftarrow> bin2;
          (if bin_len b1 > bin_len b2 then Some 1
           else if bin_len b1 < bin_len b2 then Some (-1)
           else do { xs \<leftarrow> c_read (bin_data b1) (unat (bin_len b1));
                     ys \<leftarrow> c_read (bin_data b2) (unat (bin_len b1));
                     Some (memcmp xs ys) }) }"

text \<open>
  \<open>riak_binary_compare_string\<close> stores \<open>strlen\<close> in an \<open>int\<close>, which is converted back to \<open>size_t\<close>
  (with its sign) in the comparisons.
\<close>

definition riak_binary_compare_string :: "riak_binary option \<Rightarrow> cbuf option \<Rightarrow> int option" where
  "riak_binary_compare_string bin s =
     do { sb \<leftarrow> s;
          n \<leftarrow> c_strlen (buf_bytes sb);
          b \<leftarrow> bin;
          let len = (signed_take_bit 31 (of_nat n) :: u64);
          (if bin_len b > len then Some 1
           else if bin_len b < len then Some (-1)
           else do { xs \<leftarrow> c_read (bin_data b) (unat (bin_len b));
                     ys \<leftarrow> c_read s (unat (bin_len b));
                     Some (memcmp xs ys) }) }"

subsection \<open>Printing into a buffer\<close>

text \<open>
  \<open>target\<close> is the block that holds the output, \<open>off\<close> where the output starts. The bound \<open>len\<close> is
  32-bit, so \<open>len-1\<close> is \<open>0xffffffff\<close> for \<open>len = 0\<close>; the index \<open>i\<close> is 64-bit. The loop condition
  \<open>i < len-1\<close> is written on the natural number \<open>lim\<close> that the 32-bit subtraction gives.
\<close>

fun binary_print_loop :: "bytes \<Rightarrow> nat \<Rightarrow> nat \<Rightarrow> nat \<Rightarrow> bytes \<Rightarrow> (nat \<times> bytes) option" where
  "binary_print_loop [] i lim off target = Some (i, target)"
| "binary_print_loop (c # cs) i lim off target =
     (if i < lim
      then do { target \<leftarrow> c_store target (off + i) (if c \<ge> 32 then c else of_char CHR ''.'');
                binary_print_loop cs (Suc i) lim off target }
      else Some (i, target))"

definition riak_binary_print ::
  "riak_binary option \<Rightarrow> bytes \<Rightarrow> nat \<Rightarrow> u32 \<Rightarrow> (nat \<times> bytes) option"
where
  "riak_binary_print bin target off len =
     do { (i, target) \<leftarrow>
            (case bin of
               None \<Rightarrow> Some (0, target)
             | Some b \<Rightarrow>
                 (let n = min (unat (bin_len b)) (unat (len - 1))
                  in do { xs \<leftarrow> c_read (bin_data b) n;
                          binary_print_loop xs 0 (unat (len - 1)) off target }));
          target \<leftarrow> (if len > 0 then c_store target (off + i) 0 else Some target);
          Some (i, target) }"

definition hex_digit :: "u8 \<Rightarrow> u8" where
  "hex_digit n = str ''0123456789abcdef'' ! unat n"

fun binary_hex_loop :: "bytes \<Rightarrow> nat \<Rightarrow> nat \<Rightarrow> nat \<Rightarrow> bytes \<Rightarrow> (nat \<times> bytes) option" where
  "binary_hex_loop [] cnt lim off target = Some (cnt, target)"
| "binary_hex_loop (c # cs) cnt lim off target =
     (if cnt * 2 < lim
      then do { target \<leftarrow> c_store target (off + cnt * 2) (hex_digit (drop_bit 4 (c AND 0xf0)));
                target \<leftarrow> c_store target (off + cnt * 2 + 1) (hex_digit (c AND 0x0f));
                binary_hex_loop cs (Suc cnt) lim off target }
      else Some (cnt, target))"

definition riak_binary_hex_print ::
  "riak_binary option \<Rightarrow> bytes \<Rightarrow> nat \<Rightarrow> u32 \<Rightarrow> (nat \<times> bytes) option"
where
  "riak_binary_hex_print bin target off len =
     do { (cnt, target) \<leftarrow>
            (case bin of
               None \<Rightarrow> Some (0, target)
             | Some b \<Rightarrow>
                 (let n = min (unat (bin_len b)) ((unat (len - 1) + 1) div 2)
                  in do { xs \<leftarrow> c_read (bin_data b) n;
                          binary_hex_loop xs 0 (unat (len - 1)) off target }));
          target \<leftarrow> (if len > 0 then c_store target (off + cnt * 2) 0 else Some target);
          Some (cnt * 2, target) }"

subsection \<open>Well-formed binaries and their contents\<close>

definition bin_wf :: "riak_binary \<Rightarrow> bool" where
  "bin_wf b \<longleftrightarrow> c_read (bin_data b) (unat (bin_len b)) \<noteq> None"

definition bin_bytes :: "riak_binary \<Rightarrow> bytes" where
  "bin_bytes b = the (c_read (bin_data b) (unat (bin_len b)))"

definition bin_owned :: "riak_binary \<Rightarrow> addr list" where
  "bin_owned b = (if bin_managed b then ptrs (map_option buf_addr (bin_data b)) else []) @ [bin_at b]"

lemma bin_wf_read: "bin_wf b \<Longrightarrow> c_read (bin_data b) (unat (bin_len b)) = Some (bin_bytes b)"
  by (auto simp: bin_wf_def bin_bytes_def)

lemma length_bin_bytes: "bin_wf b \<Longrightarrow> length (bin_bytes b) = unat (bin_len b)"
  using bin_wf_read c_read_length by blast

lemma c_read_le: "c_read p n = Some xs \<Longrightarrow> k \<le> n \<Longrightarrow> c_read p k = Some (take k xs)"
  by (auto simp: c_read_def min_def split: if_splits bind_splits)

interpretation bin: owned_ptr "\<lambda>_. True" bin_owned riak_binary_free
proof
  fix cfg and x :: riak_binary and m
  assume "cfg_ok cfg"
  then show "riak_binary_free cfg (Some x) m = mem_free_all (bin_owned x) m"
    by (simp add: riak_binary_free_def bin_owned_def riak_free_ptrs)
qed (simp add: riak_binary_free_def)

lemma owned_p_NULL [simp, owned_simps]: "bin.owned_p None = []"
  and owned_p_Some [simp, owned_simps]: "bin.owned_p (Some b) = bin_owned b"
  by (simp_all add: bin.owned_p_def)

lemma riak_binary_free_owned [mem_simps]:
  "cfg_ok cfg \<Longrightarrow> riak_binary_free cfg p = mem_free_all (bin.owned_p p)"
  using bin.release_ptr [of cfg p] by (simp add: fun_eq_iff option.pred_True)

lemma riak_binary_free_NULL [simp]: "riak_binary_free cfg None m = Some m"
  by (simp add: riak_binary_free_def)

text \<open>The ledger of a deep copy: the two blocks of the result, or nothing at all.\<close>

lemma riak_binary_new_allocs:
  assumes ok: "cfg_ok cfg" and wf: "mem_wf m"
    and new: "riak_binary_new cfg len data m = Some (p, m')"
  shows "mem_allocs m (bin.owned_p p) m'"
proof -
  obtain b m1 where b: "riak_config_allocate cfg (SizeOf ''riak_binary'' 1) m = (b, m1)" by fastforce
  note b1 = allocate_allocs [OF b]
  show ?thesis
  proof (cases b)
    case None
    with new b b1 show ?thesis by (auto simp: riak_binary_new_def)
  next
    case (Some at)
    obtain d m2 where d: "riak_config_allocate cfg
        (Bytes (unat (if data = None then 0 else len))) m1 = (d, m2)" by fastforce
    note d1 = mem_allocs_trans [OF b1 allocate_allocs [OF d]]
    show ?thesis
    proof (cases d)
      case None
      with d1 Some have *: "mem_allocs m [at] m2" by simp
      have "riak_free cfg (Some at) m2 = Some (m2\<lparr>mem_live := mem_live m\<rparr>)"
        using mem_allocs_free_all [OF * wf, of "[at]"] by (simp add: riak_free_ptrs [OF ok])
      with new b d Some None have "p = None" "m' = m2\<lparr>mem_live := mem_live m\<rparr>"
        by (auto simp: riak_binary_new_def Let_def)
      with * show ?thesis by (simp add: mem_allocs_def)
    next
      case (Some da)
      with new b d \<open>b = Some at\<close> obtain xs where "m' = m2"
        and p: "p = Some \<lparr>bin_at = at, bin_len = (if data = None then 0 else len),
          bin_data = Some \<lparr>buf_addr = da, buf_bytes = xs\<rparr>, bin_managed = True\<rparr>"
        by (auto simp: riak_binary_new_def Let_def split: bind_splits)
      with d1 \<open>b = Some at\<close> Some show ?thesis
        by (auto simp: mem_allocs_def bin_owned_def)
    qed
  qed
qed

lemma bin_owned_p_copy_from_pb:
  "riak_binary_copy_from_pb cfg b m = (p, m') \<Longrightarrow> mem_allocs m (bin.owned_p p) m'"
  by (auto simp: riak_binary_copy_from_pb_def bin_owned_def Let_def map_option_case
      split: prod.splits option.splits dest!: allocate_allocs)

lemma riak_binary_copy_allocs:
  "cfg_ok cfg \<Longrightarrow> mem_wf m \<Longrightarrow> riak_binary_copy cfg b m = Some (p, m') \<Longrightarrow>
   mem_allocs m (bin.owned_p p) m'"
  by (auto simp: riak_binary_copy_def riak_binary_new_allocs split: option.splits)

lemma riak_binary_new_granted:
  assumes "cfg_grants cfg" "c_read data (unat (if data = None then 0 else len)) = Some xs"
  shows "riak_binary_new cfg len data m =
    Some (Some \<lparr>bin_at = mem_next m, bin_len = (if data = None then 0 else len),
                bin_data = Some \<lparr>buf_addr = Suc (mem_next m), buf_bytes = xs\<rparr>, bin_managed = True\<rparr>,
          mem_push (mem_push m))"
  using assms by (simp add: riak_binary_new_def allocate_granted Let_def)

lemma riak_binary_new_wf:
  "riak_binary_new cfg len data m = Some (Some b, m') \<Longrightarrow>
   bin_wf b \<and> bin_managed b \<and>
   c_read data (unat (if data = None then 0 else len)) = Some (bin_bytes b)"
  by (auto simp: riak_binary_new_def bin_wf_def bin_bytes_def Let_def c_read_def min_def
      split: prod.splits option.splits if_splits bind_splits)

subsection \<open>The order on binaries\<close>

text \<open>Shorter binaries come first; binaries of one length are in lexicographic order.\<close>

definition shortlex :: "bytes \<Rightarrow> bytes \<Rightarrow> int" where
  "shortlex xs ys =
     (if length xs > length ys then 1 else if length xs < length ys then -1 else memcmp xs ys)"

lemma memcmp_refl [simp]: "memcmp xs xs = 0"
  by (induction xs) auto

lemma memcmp_0: "length xs = length ys \<Longrightarrow> memcmp xs ys = 0 \<longleftrightarrow> xs = ys"
  by (induction xs ys rule: list_induct2) auto

lemma memcmp_swap: "length xs = length ys \<Longrightarrow> memcmp ys xs = - memcmp xs ys"
proof (induction xs ys rule: list_induct2)
  case (Cons x xs y ys)
  then show ?case by (cases x y rule: linorder_cases) simp_all
qed simp

lemma memcmp_trans:
  assumes "length xs = length ys" "length ys = length zs"
    and "memcmp xs ys \<le> 0" "memcmp ys zs \<le> 0"
  shows "memcmp xs zs \<le> 0"
  using assms
  by (induction xs ys zs rule: list_induct3) (auto split: if_splits)

lemma shortlex_0: "shortlex xs ys = 0 \<longleftrightarrow> xs = ys"
  by (auto simp: shortlex_def memcmp_0)

lemma shortlex_swap: "shortlex ys xs = - shortlex xs ys"
  using memcmp_swap [of xs ys] by (cases "length xs" "length ys" rule: linorder_cases)
    (simp_all add: shortlex_def)

lemma shortlex_trans: "shortlex xs ys \<le> 0 \<Longrightarrow> shortlex ys zs \<le> 0 \<Longrightarrow> shortlex xs zs \<le> 0"
  using memcmp_trans [of xs ys zs]
  by (cases "length xs" "length ys" rule: linorder_cases;
      cases "length ys" "length zs" rule: linorder_cases) (simp_all add: shortlex_def)

lemma riak_binary_compare_shortlex:
  assumes "bin_wf a" "bin_wf b"
  shows "riak_binary_compare (Some a) (Some b) = Some (shortlex (bin_bytes a) (bin_bytes b))"
  using assms bin_wf_read [OF assms(1)] bin_wf_read [OF assms(2)]
    length_bin_bytes [OF assms(1)] length_bin_bytes [OF assms(2)]
  by (auto simp: riak_binary_compare_def shortlex_def word_less_nat_alt)

subsection \<open>What printing writes\<close>

lemma unat_minus_1: "0 < (x :: u32) \<Longrightarrow> unat (x - 1) = unat x - 1"
  by (simp add: unat_sub word_le_nat_alt word_less_nat_alt Suc_leI)

definition printable :: "u8 \<Rightarrow> u8" where
  "printable c = (if c \<ge> 32 then c else of_char CHR ''.'')"

lemma binary_print_loop_spec:
  assumes "off + i + length xs \<le> length t" "i + length xs \<le> lim"
  shows "binary_print_loop xs i lim off t =
    Some (i + length xs, take (off + i) t @ map printable xs @ drop (off + i + length xs) t)"
  using assms
proof (induction xs arbitrary: i t)
  case (Cons c cs)
  let ?t = "t[off + i := printable c]"
  have t: "take (Suc (off + i)) ?t = take (off + i) t @ [printable c]"
    "drop (Suc (off + i + n)) ?t = drop (Suc (off + i + n)) t" for n
    using Cons.prems by (simp_all add: take_Suc_update)
  with Cons.prems Cons.IH [of "Suc i" ?t] show ?case by (simp flip: printable_def)
qed simp

lemma riak_binary_print_spec:
  assumes "bin_wf b" "0 < len" "n = min (unat (bin_len b)) (unat len - 1)" "off + n < length t"
  shows "riak_binary_print (Some b) t off len =
    Some (n, take off t @ map printable (take n (bin_bytes b)) @ 0 # drop (off + n + 1) t)"
proof -
  have "c_read (bin_data b) n = Some (take n (bin_bytes b))"
    using c_read_le [OF bin_wf_read [OF assms(1)], of n] assms(3) by simp
  moreover have "length (take n (bin_bytes b)) = n"
    using length_bin_bytes [OF assms(1)] assms(3) by simp
  moreover note binary_print_loop_spec [of off 0 "take n (bin_bytes b)" t "unat (len - 1)"]
  ultimately show ?thesis using assms(2-)
    by (simp add: riak_binary_print_def unat_minus_1 Let_def upd_conv_take_nth_drop)
qed

fun hex_bytes :: "bytes \<Rightarrow> bytes" where
  "hex_bytes [] = []"
| "hex_bytes (c # cs) = hex_digit (drop_bit 4 (c AND 0xf0)) # hex_digit (c AND 0x0f) # hex_bytes cs"

lemma length_hex_bytes [simp]: "length (hex_bytes xs) = 2 * length xs"
  by (induction xs) auto

lemma hex_loop_step:
  assumes "k + 1 < length t"
  shows "take (k + 2) (t[k := x, Suc k := y]) = take k t @ [x, y]"
    "drop (k + 2 + n) (t[k := x, Suc k := y]) = drop (k + 2 + n) t"
  using assms by (simp_all add: take_Suc_update numeral_2_eq_2)

lemma binary_hex_loop_spec:
  assumes "off + 2 * (i + length xs) \<le> length t" "2 * (i + length xs) \<le> Suc lim"
  shows "binary_hex_loop xs i lim off t =
    Some (i + length xs,
          take (off + 2 * i) t @ hex_bytes xs @ drop (off + 2 * (i + length xs)) t)"
  using assms
proof (induction xs arbitrary: i t)
  case (Cons c cs)
  let ?k = "off + i * 2"
  let ?t = "t[?k := hex_digit (drop_bit 4 (c AND 0xf0)), Suc ?k := hex_digit (c AND 0x0f)]"
  note step = hex_loop_step [where k = ?k and t = t and x = "hex_digit (drop_bit 4 (c AND 0xf0))"
      and y = "hex_digit (c AND 0x0f)"]
  have "take (off + 2 * Suc i) ?t = take (off + 2 * i) t @
      [hex_digit (drop_bit 4 (c AND 0xf0)), hex_digit (c AND 0x0f)]"
    "drop (off + 2 * (Suc i + length cs)) ?t = drop (off + 2 * (i + length (c # cs))) t"
    using Cons.prems step(1) step(2) [where n = "2 * length cs"] by (simp_all add: algebra_simps)
  with Cons.prems Cons.IH [of "Suc i" ?t] show ?case by simp
qed simp

lemma hex_print_count: "0 < (len :: u32) \<Longrightarrow> (unat (len - 1) + 1) div 2 = unat len div 2"
  by (simp add: unat_minus_1 word_less_nat_alt)

lemma riak_binary_hex_print_spec:
  assumes "bin_wf b" "0 < len" "n = min (unat (bin_len b)) (unat len div 2)" "off + 2 * n < length t"
  shows "riak_binary_hex_print (Some b) t off len =
    Some (2 * n, take off t @ hex_bytes (take n (bin_bytes b)) @ 0 # drop (off + 2 * n + 1) t)"
proof -
  have c: "c_read (bin_data b) n = Some (take n (bin_bytes b))"
    using c_read_le [OF bin_wf_read [OF assms(1)], of n] assms(3) by simp
  have l: "length (take n (bin_bytes b)) = n"
    using length_bin_bytes [OF assms(1)] assms(3) by simp
  have "2 * n \<le> Suc (unat (len - 1))"
    using assms(2,3) by (simp add: unat_minus_1 word_less_nat_alt)
  then have "binary_hex_loop (take n (bin_bytes b)) 0 (unat (len - 1)) off t =
      Some (n, take off t @ hex_bytes (take n (bin_bytes b)) @ drop (off + 2 * n) t)"
    using binary_hex_loop_spec [of off 0 "take n (bin_bytes b)" t "unat (len - 1)"] l assms(4)
    by simp
  moreover have "length (hex_bytes (take n (bin_bytes b))) = 2 * n" using l by simp
  ultimately show ?thesis using assms c l
    by (simp add: riak_binary_hex_print_def hex_print_count [OF assms(2)] Let_def mult.commute
        upd_conv_take_nth_drop flip: hex_print_count)
qed

text \<open>
  In a buffer of exactly \<open>len\<close> bytes the terminator of a long binary lands one past the end when
  \<open>len\<close> is even.
\<close>

lemma riak_binary_hex_print_overflow:
  assumes "bin_wf b" "0 < len" "even (unat len)" "unat len \<le> 2 * unat (bin_len b)"
    "length t = off + unat len"
  shows "riak_binary_hex_print (Some b) t off len = None"
proof -
  define n where "n = unat len div 2"
  have n: "2 * n = unat len" "n \<le> unat (bin_len b)" using assms(3,4) by (auto simp: n_def)
  have c: "c_read (bin_data b) n = Some (take n (bin_bytes b))"
    using c_read_le [OF bin_wf_read [OF assms(1)], of n] n by simp
  have l: "length (take n (bin_bytes b)) = n"
    using length_bin_bytes [OF assms(1)] n by simp
  have "binary_hex_loop (take n (bin_bytes b)) 0 (unat (len - 1)) off t =
      Some (n, take off t @ hex_bytes (take n (bin_bytes b)) @ drop (off + 2 * n) t)"
    using binary_hex_loop_spec [of off 0 "take n (bin_bytes b)" t "unat (len - 1)"] l n assms(2,5)
    by (simp add: unat_minus_1)
  moreover have "min (unat (bin_len b)) ((unat (len - 1) + 1) div 2) = n"
    unfolding hex_print_count [OF assms(2)] using n by (simp add: n_def)
  ultimately show ?thesis using assms(2,5) c l n
    by (simp add: riak_binary_hex_print_def Let_def c_store_def guard_def)
qed

text \<open>The hexadecimal text determines the bytes.\<close>

definition unhex_digit :: "u8 \<Rightarrow> u8" where
  "unhex_digit c = (if c < 58 then c - 48 else c - 87)"

fun unhex :: "bytes \<Rightarrow> bytes" where
  "unhex (x # y # cs) = (push_bit 4 (unhex_digit x) OR unhex_digit y) # unhex cs"
| "unhex _ = []"

lemma hex_digit_value:
  assumes "unat n < 16" shows "unhex_digit (hex_digit n) = n"
proof -
  have "\<forall>k \<in> set [0..<16]. unhex_digit (str ''0123456789abcdef'' ! k) = of_nat k"
    by code_simp
  with assms show ?thesis by (simp add: hex_digit_def)
qed

lemma unhex_hex: "unhex (hex_bytes xs) = xs"
proof (induction xs)
  case (Cons c cs)
  have nibble: "unat (x AND 0x0f :: u8) < 16" for x
    using word_and_le1 [of x "0x0f"] by (simp add: word_le_nat_alt)
  have "unat (c AND 0x0f) < 16" "unat (drop_bit 4 (c AND 0xf0)) < 16"
    using nibble [of c] nibble [of "drop_bit 4 c"] by simp_all
  then have "unhex_digit (hex_digit (drop_bit 4 (c AND 0xf0))) = drop_bit 4 (c AND 0xf0)"
    "unhex_digit (hex_digit (c AND 0x0f)) = c AND 0x0f"
    by (simp_all add: hex_digit_value)
  moreover have "push_bit 4 (drop_bit 4 (c AND 0xf0)) OR (c AND 0x0f) = c"
  proof (rule bit_word_eqI)
    fix n assume "n < LENGTH(8)"
    then have "n = 0 \<or> n = 1 \<or> n = 2 \<or> n = 3 \<or> n = 4 \<or> n = 5 \<or> n = 6 \<or> n = 7" by auto
    then show "bit (push_bit 4 (drop_bit 4 (c AND 0xf0)) OR (c AND 0x0f)) n = bit c n"
      by (elim disjE) (simp_all add: bit_simps)
  qed
  ultimately show ?case using Cons by simp
qed simp

end
