(* ===== verification/Riak_Print.thy ===== *)
theory Riak_Print
  imports Riak_Binary
begin

text \<open>
  Formatted output into a caller's buffer (\<^verbatim>\<open>src/riak_print.c\<close>,
  \<^verbatim>\<open>src/include/riak_print.h\<close>). The state holds the block the buffer lies in, the offset of
  the write position and the three 32-bit counters. What \<open>vsnprintf\<close> would print is passed as
  bytes; the conversions the library uses (\<open>%s\<close>, \<open>%d\<close>, \<open>%02x\<close>) are defined here, \<open>%f\<close> and
  \<open>strftime\<close> are parameters.
\<close>

record riak_print_state =
  ps_buf :: bytes
  ps_target :: nat
  ps_len :: i32
  ps_total :: i32
  ps_wrote :: i32

definition riak_print_init :: "bytes \<Rightarrow> i32 \<Rightarrow> riak_print_state" where
  "riak_print_init location maxlen =
     \<lparr>ps_buf = location, ps_target = 0, ps_len = maxlen - 1, ps_total = maxlen, ps_wrote = 0\<rparr>"

text \<open>
  \<open>vsnprintf\<close> with a bound \<open>n\<close> of at least 1: at most \<open>n - 1\<close> bytes and a terminator are
  written, and the length of the whole text is returned.
\<close>

definition vsnprintf :: "bytes \<Rightarrow> nat \<Rightarrow> nat \<Rightarrow> bytes \<Rightarrow> (i32 \<times> bytes) option" where
  "vsnprintf buf off n txt =
     do { buf \<leftarrow> c_write buf off (take (n - 1) txt @ [0]); Some (of_nat (length txt), buf) }"

definition riak_print :: "riak_print_state \<Rightarrow> bytes \<Rightarrow> (i32 \<times> riak_print_state) option" where
  "riak_print st txt =
     (if sint (ps_len st) > 0
      then do { (wrote, buf) \<leftarrow> vsnprintf (ps_buf st) (ps_target st) (unat (ps_len st)) txt;
                let st = st\<lparr>ps_buf := buf\<rparr>;
                Some (wrote,
                      (if sint wrote > 0
                       then st\<lparr>ps_len := ps_len st - wrote, ps_target := ps_target st + unat wrote,
                               ps_wrote := ps_wrote st + wrote\<rparr>
                       else st)) }
      else Some (0, st))"

definition riak_print_len :: "riak_print_state \<Rightarrow> i32" where
  "riak_print_len st = ps_len st"

subsection \<open>Conversions\<close>

fun dec_nat :: "nat \<Rightarrow> bytes" where
  "dec_nat n = (if n < 10 then [of_nat (48 + n)] else dec_nat (n div 10) @ [of_nat (48 + n mod 10)])"

declare dec_nat.simps [simp del]

definition dec_int :: "int \<Rightarrow> bytes" where
  "dec_int i = (if i < 0 then str ''-'' @ dec_nat (nat (- i)) else dec_nat (nat i))"

definition hex2 :: "u8 \<Rightarrow> bytes" where
  "hex2 c = [hex_digit (drop_bit 4 c), hex_digit (c AND 0x0f)]"

subsection \<open>Labels and values\<close>

definition riak_print_label_int :: "riak_print_state \<Rightarrow> bytes \<Rightarrow> i32 \<Rightarrow> (i32 \<times> riak_print_state) option" where
  "riak_print_label_int st name v = riak_print st (name @ str '': '' @ dec_int (sint v) @ [10])"

definition riak_print_label_float ::
  "('f \<Rightarrow> bytes) \<Rightarrow> riak_print_state \<Rightarrow> bytes \<Rightarrow> 'f \<Rightarrow> (i32 \<times> riak_print_state) option"
where
  "riak_print_label_float fmt_f st name v = riak_print st (name @ str '': '' @ fmt_f v @ [10])"

definition riak_print_label_bool :: "riak_print_state \<Rightarrow> bytes \<Rightarrow> bool \<Rightarrow> (i32 \<times> riak_print_state) option" where
  "riak_print_label_bool st name v =
     riak_print st (name @ str '': '' @ (if v then str ''true'' else str ''false'') @ [10])"

definition riak_print_binary ::
  "riak_print_state \<Rightarrow> riak_binary option \<Rightarrow> (i32 \<times> riak_print_state) option"
where
  "riak_print_binary st bin =
     do { (wrote, buf) \<leftarrow> riak_binary_print bin (ps_buf st) (ps_target st) (ps_len st);
          Some (of_nat wrote,
                st\<lparr>ps_buf := buf, ps_len := ps_len st - of_nat wrote,
                   ps_target := ps_target st + wrote, ps_wrote := ps_wrote st + of_nat wrote\<rparr>) }"

definition riak_print_label_binary ::
  "riak_print_state \<Rightarrow> bytes \<Rightarrow> riak_binary option \<Rightarrow> (i32 \<times> riak_print_state) option"
where
  "riak_print_label_binary st name v =
     do { (wrote, st) \<leftarrow> riak_print st (name @ str '': '');
          (wrote, st) \<leftarrow> (if sint (ps_len st) > 0
                         then do { (w, st) \<leftarrow> riak_print_binary st v; Some (wrote + w, st) }
                         else Some (wrote, st));
          (w, st) \<leftarrow> riak_print st [10];
          Some (wrote + w, st) }"

definition riak_print_binary_hex ::
  "riak_print_state \<Rightarrow> riak_binary option \<Rightarrow> (i32 \<times> riak_print_state) option"
where
  "riak_print_binary_hex st bin =
     do { (wrote, buf) \<leftarrow> riak_binary_hex_print bin (ps_buf st) (ps_target st) (ps_len st);
          Some (of_nat wrote,
                st\<lparr>ps_buf := buf, ps_len := ps_len st - of_nat wrote,
                   ps_target := ps_target st + wrote, ps_wrote := ps_wrote st + of_nat wrote\<rparr>) }"

definition riak_print_label_binary_hex ::
  "riak_print_state \<Rightarrow> bytes \<Rightarrow> riak_binary option \<Rightarrow> (i32 \<times> riak_print_state) option"
where
  "riak_print_label_binary_hex st name v =
     do { (wrote, st) \<leftarrow> riak_print st (name @ str '': '');
          (wrote, st) \<leftarrow> (if sint (ps_len st) > 0
                         then do { (w, st) \<leftarrow> riak_print_binary_hex st v; Some (wrote + w, st) }
                         else Some (wrote, st));
          (w, st) \<leftarrow> riak_print st [10];
          Some (wrote + w, st) }"

text \<open>The bytes are read one at a time, as long as there is room in the buffer.\<close>

fun raw_hex_loop ::
  "riak_print_state \<Rightarrow> bytes \<Rightarrow> nat \<Rightarrow> i32 \<Rightarrow> (i32 \<times> riak_print_state) option"
where
  "raw_hex_loop st value 0 wrote = Some (wrote, st)"
| "raw_hex_loop st value (Suc n) wrote =
     (if sint (ps_len st) > 0
      then (case value of
              [] \<Rightarrow> None
            | c # value \<Rightarrow> do { (w, st) \<leftarrow> riak_print st (hex2 c);
                               raw_hex_loop st value n (wrote + w) })
      else Some (wrote, st))"

definition riak_print_label_raw_hex_array ::
  "riak_print_state \<Rightarrow> bytes \<Rightarrow> i32 \<Rightarrow> (i32 \<times> riak_print_state) option"
where
  "riak_print_label_raw_hex_array st value value_len =
     do { (wrote, st) \<leftarrow> riak_print st (str ''0x'');
          raw_hex_loop st value (nat (sint value_len)) wrote }"

definition riak_print_label_string ::
  "riak_print_state \<Rightarrow> bytes \<Rightarrow> bytes \<Rightarrow> (i32 \<times> riak_print_state) option"
where
  "riak_print_label_string st name v = riak_print st (name @ str '': '' @ v @ [10])"

definition riak_print_label_time ::
  "(i32 \<Rightarrow> bytes) \<Rightarrow> riak_print_state \<Rightarrow> bytes \<Rightarrow> i32 \<Rightarrow> (i32 \<times> riak_print_state) option"
where
  "riak_print_label_time strftime st name v =
     (if sint (ps_len st) > 0 then riak_print_label_string st name (strftime v)
      else Some (0, st))"

subsection \<open>The state invariant\<close>

text \<open>
  \<open>len\<close> is the room that is left before the byte kept for the terminator, counted from the
  write position; it is negative once a text has been cut off.
\<close>

definition ps_wf :: "riak_print_state \<Rightarrow> bool" where
  "ps_wf st \<longleftrightarrow> 0 < sint (ps_total st) \<and> nat (sint (ps_total st)) \<le> length (ps_buf st) \<and>
     sint (ps_len st) = sint (ps_total st) - 1 - int (ps_target st)"

lemma unat_sint_pos: "0 \<le> sint (x :: i32) \<Longrightarrow> unat x = nat (sint x)"
  using sint_lt [of x] by (simp add: uint_sint take_bit_int_eq_self flip: nat_uint_eq)

lemma sint_i32: "- (2 ^ 31) \<le> i \<Longrightarrow> i < 2 ^ 31 \<Longrightarrow> sint (word_of_int i :: i32) = i"
  by (simp add: sint_uint unsigned_of_int signed_take_bit_take_bit signed_take_bit_int_eq_self)

lemma sint_of_nat_32: "k < 2 ^ 31 \<Longrightarrow> sint (of_nat k :: i32) = int k"
  using sint_i32 [of "int k"] by simp

lemma sint_minus_32:
  "- (2 ^ 31) \<le> sint x - sint y \<Longrightarrow> sint x - sint y < 2 ^ 31 \<Longrightarrow> sint (x - y :: i32) = sint x - sint y"
  by (simp add: sint_word_ariths signed_take_bit_int_eq_self)

text \<open>
  \<open>ps_next st st'\<close>: the state is again well-formed and nothing outside the \<open>total\<close> bytes of the
  buffer was written.
\<close>

definition ps_next :: "riak_print_state \<Rightarrow> riak_print_state \<Rightarrow> bool" where
  "ps_next st st' \<longleftrightarrow> ps_wf st' \<and> ps_total st' = ps_total st \<and>
     length (ps_buf st') = length (ps_buf st) \<and> ps_target st \<le> ps_target st' \<and>
     drop (nat (sint (ps_total st))) (ps_buf st') = drop (nat (sint (ps_total st))) (ps_buf st)"

lemma ps_next_refl [intro]: "ps_wf st \<Longrightarrow> ps_next st st"
  by (simp add: ps_next_def)

lemma ps_next_trans [trans]: "ps_next s t \<Longrightarrow> ps_next t u \<Longrightarrow> ps_next s u"
  by (simp add: ps_next_def)

lemma ps_next_wf [dest]: "ps_next s t \<Longrightarrow> ps_wf t"
  by (simp add: ps_next_def)

lemma riak_print_init_wf:
  assumes "0 < sint maxlen" "nat (sint maxlen) \<le> length location"
  shows "ps_wf (riak_print_init location maxlen)"
  using assms sint_lt [of maxlen] by (simp add: riak_print_init_def ps_wf_def sint_minus_32)

lemma ps_wf_room:
  assumes "ps_wf st" "0 < sint (ps_len st)"
  obtains n where "unat (ps_len st) = n" "0 < n" "sint (ps_len st) = int n" "n < 2 ^ 31"
    "ps_target st + n + 1 = nat (sint (ps_total st))"
    "ps_target st + n + 1 \<le> length (ps_buf st)"
proof -
  define n where "n = nat (sint (ps_len st))"
  have n: "unat (ps_len st) = n" "0 < n" "sint (ps_len st) = int n" "n < 2 ^ 31"
    using assms(2) sint_lt [of "ps_len st"] by (simp_all add: n_def unat_sint_pos)
  then have eq: "ps_target st + n + 1 = nat (sint (ps_total st))"
    using assms(1) unfolding ps_wf_def by linarith
  with assms(1) have "ps_target st + n + 1 \<le> length (ps_buf st)" by (simp add: ps_wf_def)
  with n eq that show ?thesis by blast
qed

lemma drop_overwrite:
  assumes "t \<le> length b" "t + length w \<le> n"
  shows "drop n (take t b @ w @ drop (t + length w) b) = drop n b"
  using assms by (simp add: drop_append)

lemma drop_overwrite_0:
  assumes "t \<le> length b" "t + length w < n"
  shows "drop n (take t b @ w @ 0 # drop (Suc (t + length w)) b) = drop n b"
  using drop_overwrite [of t b "w @ [0]" n] assms by simp

lemma riak_print_next:
  assumes wf: "ps_wf st" and len: "length txt < 2 ^ 31"
  shows "\<exists>w st'. riak_print st txt = Some (w, st') \<and> ps_next st st' \<and>
    (int (length txt) < sint (ps_len st) \<longrightarrow>
       w = of_nat (length txt) \<and> ps_target st' = ps_target st + length txt \<and>
       take (ps_target st') (ps_buf st') = take (ps_target st) (ps_buf st) @ txt \<and>
       ps_buf st' ! ps_target st' = 0)"
proof (cases "sint (ps_len st) > 0")
  case False
  with wf show ?thesis by (auto simp: riak_print_def)
next
  case True
  define t where "t = ps_target st"
  obtain n where n: "unat (ps_len st) = n" "0 < n" "sint (ps_len st) = int n" "n < 2 ^ 31"
    and room: "t + n + 1 = nat (sint (ps_total st))" "t + n + 1 \<le> length (ps_buf st)"
    using ps_wf_room [OF wf True] unfolding t_def by blast
  obtain B where B: "vsnprintf (ps_buf st) t n txt = Some (of_nat (length txt), B)"
    "length B = length (ps_buf st)" "drop (t + n + 1) B = drop (t + n + 1) (ps_buf st)"
    "length txt < n \<Longrightarrow> take (t + length txt) B = take t (ps_buf st) @ txt \<and> B ! (t + length txt) = 0"
  proof -
    let ?w = "take (n - 1) txt @ [0]"
    let ?buf = "take t (ps_buf st) @ ?w @ drop (t + length ?w) (ps_buf st)"
    have lw: "length ?w \<le> n" using n by simp
    then have "vsnprintf (ps_buf st) t n txt = Some (of_nat (length txt), ?buf)"
      using room(2) unfolding vsnprintf_def by (subst c_write_ok) simp_all
    moreover have "length ?buf = length (ps_buf st)" using lw room by simp
    moreover have "drop (t + n + 1) ?buf = drop (t + n + 1) (ps_buf st)"
      using lw room by (intro drop_overwrite) auto
    ultimately show ?thesis using that [of ?buf] room by (simp add: nth_append)
  qed
  let ?st = "if length txt = 0 then st\<lparr>ps_buf := B\<rparr>
    else st\<lparr>ps_buf := B, ps_len := ps_len st - of_nat (length txt),
            ps_target := t + length txt, ps_wrote := ps_wrote st + of_nat (length txt)\<rparr>"
  have u: "unat (of_nat (length txt) :: i32) = length txt"
    using len by (simp add: unsigned_of_nat take_bit_nat_eq_self)
  have r: "riak_print st txt = Some (of_nat (length txt), ?st)"
    using True B(1) n(1) u by (simp add: riak_print_def sint_of_nat_32 [OF len] t_def)
  have "sint (ps_len st - of_nat (length txt)) = int n - int (length txt)"
    using n len by (subst sint_minus_32) (simp_all add: sint_of_nat_32 [OF len])
  then have "ps_wf ?st" using wf n(3) B(2) by (simp add: ps_wf_def t_def)
  then have "ps_next st ?st"
    using B(2,3) room(1) by (simp add: ps_next_def t_def)
  then show ?thesis using r n(3) B(4) by (auto simp: t_def)
qed

lemma riak_print_binary_next:
  assumes wf: "ps_wf st" and room: "0 < sint (ps_len st)" and bin: "\<And>b. bin = Some b \<Longrightarrow> bin_wf b"
  shows "\<exists>w st'. riak_print_binary st bin = Some (w, st') \<and> ps_next st st' \<and> 0 < sint (ps_len st')"
proof -
  define t where "t = ps_target st"
  obtain n where n: "unat (ps_len st) = n" "0 < n" "sint (ps_len st) = int n" "n < 2 ^ 31"
    and total: "t + n + 1 = nat (sint (ps_total st))" "t + n + 1 \<le> length (ps_buf st)"
    using ps_wf_room [OF wf room] unfolding t_def by blast
  have pos: "0 < ps_len st" using n by (simp add: word_less_nat_alt)
  obtain k xs where k: "k < n" "length xs = k" and
    p: "riak_binary_print bin (ps_buf st) t (ps_len st) =
      Some (k, take t (ps_buf st) @ xs @ 0 # drop (t + k + 1) (ps_buf st))"
  proof (cases bin)
    case None
    with total pos that [of 0 "[]"] n show ?thesis
      by (simp add: riak_binary_print_def upd_conv_take_nth_drop)
  next
    case (Some b)
    let ?k = "min (unat (bin_len b)) (unat (ps_len st) - 1)"
    have "riak_binary_print bin (ps_buf st) t (ps_len st) = Some (?k,
        take t (ps_buf st) @ map printable (take ?k (bin_bytes b)) @ 0 # drop (t + ?k + 1) (ps_buf st))"
      unfolding Some using n total pos bin [OF Some]
      by (intro riak_binary_print_spec) auto
    moreover have "length (take ?k (bin_bytes b)) = ?k"
      using length_bin_bytes [OF bin [OF Some]] by simp
    ultimately show ?thesis using n by (intro that [of ?k "map printable (take ?k (bin_bytes b))"]) auto
  qed
  have s: "sint (ps_len st - of_nat k) = int n - int k"
    using n k by (subst sint_minus_32) (simp_all add: sint_of_nat_32)
  show ?thesis
    using p k n total s wf drop_overwrite_0 [of t "ps_buf st" xs "nat (sint (ps_total st))"]
    by (auto simp: riak_print_binary_def t_def ps_next_def ps_wf_def)
qed

lemma riak_print_binary_hex_next:
  assumes wf: "ps_wf st" and room: "0 < sint (ps_len st)" and bin: "\<And>b. bin = Some b \<Longrightarrow> bin_wf b"
  shows "\<exists>w st'. riak_print_binary_hex st bin = Some (w, st') \<and> ps_next st st'"
proof -
  define t where "t = ps_target st"
  obtain n where n: "unat (ps_len st) = n" "0 < n" "sint (ps_len st) = int n" "n < 2 ^ 31"
    and total: "t + n + 1 = nat (sint (ps_total st))" "t + n + 1 \<le> length (ps_buf st)"
    using ps_wf_room [OF wf room] unfolding t_def by blast
  have pos: "0 < ps_len st" using n by (simp add: word_less_nat_alt)
  obtain k xs where k: "k \<le> n" "length xs = k" and
    p: "riak_binary_hex_print bin (ps_buf st) t (ps_len st) =
      Some (k, take t (ps_buf st) @ xs @ 0 # drop (t + k + 1) (ps_buf st))"
  proof (cases bin)
    case None
    with total pos that [of 0 "[]"] n show ?thesis
      by (simp add: riak_binary_hex_print_def upd_conv_take_nth_drop)
  next
    case (Some b)
    let ?k = "min (unat (bin_len b)) (unat (ps_len st) div 2)"
    have "riak_binary_hex_print bin (ps_buf st) t (ps_len st) = Some (2 * ?k,
        take t (ps_buf st) @ hex_bytes (take ?k (bin_bytes b)) @ 0 # drop (t + 2 * ?k + 1) (ps_buf st))"
      unfolding Some using n total pos bin [OF Some]
      by (intro riak_binary_hex_print_spec) auto
    moreover have "length (take ?k (bin_bytes b)) = ?k"
      using length_bin_bytes [OF bin [OF Some]] by simp
    ultimately show ?thesis using n
      by (intro that [of "2 * ?k" "hex_bytes (take ?k (bin_bytes b))"]) auto
  qed
  have s: "sint (ps_len st - of_nat k) = int n - int k"
    using n k by (subst sint_minus_32) (simp_all add: sint_of_nat_32)
  show ?thesis
    using p k n total s wf drop_overwrite_0 [of t "ps_buf st" xs "nat (sint (ps_total st))"]
    by (auto simp: riak_print_binary_hex_def t_def ps_next_def ps_wf_def)
qed

lemma riak_print_label_binary_next:
  assumes wf: "ps_wf st" and len: "length name + 2 < 2 ^ 31" and bin: "\<And>b. bin = Some b \<Longrightarrow> bin_wf b"
  shows "\<exists>w st'. riak_print_label_binary st name bin = Some (w, st') \<and> ps_next st st'"
proof -
  have "length (name @ str '': '') < 2 ^ 31" using len by simp
  then obtain w1 s1 where s1: "riak_print st (name @ str '': '') = Some (w1, s1)" "ps_next st s1"
    using riak_print_next [OF wf] by blast
  obtain w2 s2 where s2: "(if sint (ps_len s1) > 0
      then do { (w, st) \<leftarrow> riak_print_binary s1 bin; Some (w1 + w, st) } else Some (w1, s1)) = Some (w2, s2)"
    "ps_next s1 s2"
    using riak_print_binary_next [of s1 bin] ps_next_wf [OF s1(2)] bin by (cases "sint (ps_len s1) > 0") auto
  obtain w3 s3 where s3: "riak_print s2 [10] = Some (w3, s3)" "ps_next s2 s3"
    using riak_print_next [of s2 "[10]"] s2 by auto
  have "riak_print_label_binary st name bin = Some (w2 + w3, s3)"
    unfolding riak_print_label_binary_def using s1(1) s2(1) s3(1) by (simp del: str_simps)
  with s1 s2 s3 show ?thesis using ps_next_trans by blast
qed

lemma riak_print_label_binary_hex_next:
  assumes wf: "ps_wf st" and len: "length name + 2 < 2 ^ 31" and bin: "\<And>b. bin = Some b \<Longrightarrow> bin_wf b"
  shows "\<exists>w st'. riak_print_label_binary_hex st name bin = Some (w, st') \<and> ps_next st st'"
proof -
  have "length (name @ str '': '') < 2 ^ 31" using len by simp
  then obtain w1 s1 where s1: "riak_print st (name @ str '': '') = Some (w1, s1)" "ps_next st s1"
    using riak_print_next [OF wf] by blast
  obtain w2 s2 where s2: "(if sint (ps_len s1) > 0
      then do { (w, st) \<leftarrow> riak_print_binary_hex s1 bin; Some (w1 + w, st) } else Some (w1, s1)) = Some (w2, s2)"
    "ps_next s1 s2"
    using riak_print_binary_hex_next [of s1 bin] ps_next_wf [OF s1(2)] bin by (cases "sint (ps_len s1) > 0") auto
  obtain w3 s3 where s3: "riak_print s2 [10] = Some (w3, s3)" "ps_next s2 s3"
    using riak_print_next [of s2 "[10]"] s2 by auto
  have "riak_print_label_binary_hex st name bin = Some (w2 + w3, s3)"
    unfolding riak_print_label_binary_hex_def using s1(1) s2(1) s3(1) by (simp del: str_simps)
  with s1 s2 s3 show ?thesis using ps_next_trans by blast
qed

lemma raw_hex_loop_next:
  "ps_wf st \<Longrightarrow> n \<le> length value \<Longrightarrow> \<exists>w st'. raw_hex_loop st value n wrote = Some (w, st') \<and> ps_next st st'"
proof (induction st "value" n wrote rule: raw_hex_loop.induct)
  case (2 st "value" n wrote)
  show ?case
  proof (cases "value")
    case (Cons c cs)
    obtain w s where s: "riak_print st (hex2 c) = Some (w, s)" "ps_next st s"
      using riak_print_next [OF 2(2), of "hex2 c"] by (auto simp: hex2_def)
    show ?thesis
    proof (cases "sint (ps_len st) > 0")
      case True
      from 2(1) [OF True Cons s(1) refl] s(2) 2(3) Cons
      obtain w' s' where "raw_hex_loop s cs n (wrote + w) = Some (w', s')" "ps_next s s'"
        by (auto dest: ps_next_wf)
      with True Cons s show ?thesis using ps_next_trans by fastforce
    qed (use 2 in auto)
  qed (use 2 in auto)
qed auto

subsection \<open>Sequences of print calls\<close>

text \<open>
  The print functions of the library are sequences of print calls whose results are added up.
  A call is safe when it is defined in every well-formed state and stays inside the buffer; so
  then is a sequence of safe calls, whatever was printed before.
\<close>

type_synonym printer = "riak_print_state \<Rightarrow> (i32 \<times> riak_print_state) option"

fun print_seq :: "printer list \<Rightarrow> printer" where
  "print_seq [] st = Some (0, st)"
| "print_seq (f # fs) st =
     do { (w, st) \<leftarrow> f st; (ws, st) \<leftarrow> print_seq fs st; Some (w + ws, st) }"

definition print_when :: "bool \<Rightarrow> printer \<Rightarrow> printer" where
  "print_when b f = (if b then f else (\<lambda>st. Some (0, st)))"

definition print_safe :: "printer \<Rightarrow> bool" where
  "print_safe f \<longleftrightarrow> (\<forall>st. ps_wf st \<longrightarrow> (\<exists>w st'. f st = Some (w, st') \<and> ps_next st st'))"

named_theorems print_intros \<open>print calls that never leave the buffer\<close>

lemma print_safeD:
  assumes "print_safe f" "ps_wf st" obtains w st' where "f st = Some (w, st')" "ps_next st st'"
  using assms by (auto simp: print_safe_def)

lemma print_safe_seq [print_intros]: "(\<And>f. f \<in> set fs \<Longrightarrow> print_safe f) \<Longrightarrow> print_safe (print_seq fs)"
proof (induction fs)
  case Nil
  then show ?case by (auto simp: print_safe_def)
next
  case (Cons f fs)
  then have f: "print_safe f" and fs: "print_safe (print_seq fs)" by auto
  show ?case unfolding print_safe_def
  proof (intro allI impI)
    fix st assume "ps_wf st"
    from print_safeD [OF f this] obtain w s where s: "f st = Some (w, s)" "ps_next st s" .
    from print_safeD [OF fs ps_next_wf [OF s(2)]] obtain w' s' where
      "print_seq fs s = Some (w', s')" "ps_next s s'" .
    with s show "\<exists>w st'. print_seq (f # fs) st = Some (w, st') \<and> ps_next st st'"
      using ps_next_trans [of st s s'] by simp
  qed
qed

lemma print_safe_list: "list_all print_safe fs \<Longrightarrow> print_safe (print_seq fs)"
  by (rule print_safe_seq) (simp add: list_all_iff)

lemma print_safe_when [print_intros]: "(b \<Longrightarrow> print_safe f) \<Longrightarrow> print_safe (print_when b f)"
  by (auto simp: print_when_def print_safe_def)

lemma print_safe_text [print_intros]: "length txt < 2 ^ 31 \<Longrightarrow> print_safe (\<lambda>st. riak_print st txt)"
  unfolding print_safe_def using riak_print_next by blast

lemma print_safe_label_binary [print_intros]:
  "length name + 2 < 2 ^ 31 \<Longrightarrow> (\<And>b. bin = Some b \<Longrightarrow> bin_wf b) \<Longrightarrow>
   print_safe (\<lambda>st. riak_print_label_binary st name bin)"
  using riak_print_label_binary_next unfolding print_safe_def by blast

lemma print_safe_label_binary_hex [print_intros]:
  "length name + 2 < 2 ^ 31 \<Longrightarrow> (\<And>b. bin = Some b \<Longrightarrow> bin_wf b) \<Longrightarrow>
   print_safe (\<lambda>st. riak_print_label_binary_hex st name bin)"
  using riak_print_label_binary_hex_next unfolding print_safe_def by blast

lemma print_safe_raw_hex [print_intros]:
  assumes "nat (sint n) \<le> length v" shows "print_safe (\<lambda>st. riak_print_label_raw_hex_array st v n)"
  unfolding print_safe_def
proof (intro allI impI)
  fix st assume wf: "ps_wf st"
  obtain w s where s: "riak_print st (str ''0x'') = Some (w, s)" "ps_next st s"
    using riak_print_next [OF wf, of "str ''0x''"] by auto
  obtain w' s' where "raw_hex_loop s v (nat (sint n)) w = Some (w', s')" "ps_next s s'"
    using raw_hex_loop_next [OF ps_next_wf [OF s(2)] assms] by blast
  with s show "\<exists>w st'. riak_print_label_raw_hex_array st v n = Some (w, st') \<and> ps_next st st'"
    using ps_next_trans [of st s s'] by (auto simp: riak_print_label_raw_hex_array_def)
qed

lemma length_dec_nat: "n < 10 ^ Suc k \<Longrightarrow> length (dec_nat n) \<le> Suc k"
proof (induction k arbitrary: n)
  case 0
  then show ?case by (subst dec_nat.simps) simp
next
  case (Suc k)
  have "length (dec_nat (n div 10)) \<le> Suc k" using Suc.prems by (intro Suc.IH) simp
  then show ?case by (subst dec_nat.simps) simp
qed

lemma length_dec_int: "length (dec_int (sint (v :: i32))) \<le> 11"
proof -
  have "- (2 ^ 31) \<le> sint v" "sint v < 2 ^ 31" using sint_ge [of v] sint_lt [of v] by simp_all
  then have "nat (sint v) < 10 ^ Suc 9" "nat (- sint v) < 10 ^ Suc 9" by simp_all
  from this [THEN length_dec_nat] show ?thesis by (simp add: dec_int_def)
qed

lemma print_safe_label_int [print_intros]:
  assumes "length name + 14 < 2 ^ 31" shows "print_safe (\<lambda>st. riak_print_label_int st name v)"
  unfolding riak_print_label_int_def using assms length_dec_int [of v]
  by (intro print_safe_text) simp

lemma print_safe_label_string [print_intros]:
  "length name + length v + 3 < 2 ^ 31 \<Longrightarrow> print_safe (\<lambda>st. riak_print_label_string st name v)"
  unfolding riak_print_label_string_def by (rule print_safe_text) simp

lemma print_safe_label_bool [print_intros]:
  "length name + 8 < 2 ^ 31 \<Longrightarrow> print_safe (\<lambda>st. riak_print_label_bool st name v)"
  unfolding riak_print_label_bool_def by (rule print_safe_text) simp

lemma print_safe_label_time [print_intros]:
  assumes "length name + length (strftime v) + 3 < 2 ^ 31"
  shows "print_safe (\<lambda>st. riak_print_label_time strftime st name v)"
  using print_safe_label_string [OF assms]
  by (auto simp: riak_print_label_time_def print_safe_def)

text \<open>Texts that fit are all in the buffer, in order.\<close>

lemma print_texts:
  assumes "ps_wf st" "int (length (concat txts)) < sint (ps_len st)"
  shows "\<exists>w st'. print_seq (map (\<lambda>t st. riak_print st t) txts) st = Some (w, st') \<and>
    take (ps_target st') (ps_buf st') = take (ps_target st) (ps_buf st) @ concat txts \<and>
    ps_target st' = ps_target st + length (concat txts) \<and> w = of_nat (length (concat txts))"
  using assms
proof (induction txts arbitrary: st)
  case (Cons x xs)
  have lt: "length x < 2 ^ 31" using Cons.prems(2) sint_lt [of "ps_len st"] by simp
  obtain s where s: "riak_print st x = Some (of_nat (length x), s)" "ps_next st s"
    "ps_target s = ps_target st + length x"
    "take (ps_target s) (ps_buf s) = take (ps_target st) (ps_buf st) @ x"
    using riak_print_next [OF Cons.prems(1) lt] Cons.prems(2) by fastforce
  have "sint (ps_len s) = sint (ps_len st) - int (length x)"
    using s(2,3) Cons.prems(1) by (auto simp: ps_next_def ps_wf_def)
  with Cons.IH [of s] s Cons.prems(2) show ?case by (auto simp: ps_next_def)
qed simp

text \<open>
  A direct call of \<open>riak_print_binary\<close> does not check the room. Once the buffer is used up
  (\<open>len = 0\<close>) its bound wraps to \<open>0xffffffff\<close>, and a binary that is longer than what follows
  the write position is written past the end of the block.
\<close>

lemma binary_print_loop_overflow:
  "length t < off + i + length xs \<Longrightarrow> i + length xs \<le> lim \<Longrightarrow> off + i \<le> length t \<Longrightarrow>
   binary_print_loop xs i lim off t = None"
proof (induction xs arbitrary: i t)
  case (Cons c cs)
  then show ?case by (cases "off + i < length t") (auto simp: c_store_def guard_def)
qed simp

lemma riak_print_binary_full:
  assumes "ps_len st = 0" "bin_wf b" "unat (bin_len b) < 2 ^ 32 - 1" "ps_target st \<le> length (ps_buf st)"
    "length (ps_buf st) < ps_target st + unat (bin_len b)"
  shows "riak_print_binary st (Some b) = None"
proof -
  have "unat (0 - 1 :: u32) = 2 ^ 32 - 1"
    by (simp add: unsigned_minus_1_eq_mask mask_eq_exp_minus_1)
  then have "min (unat (bin_len b)) (unat (0 - 1 :: u32)) = unat (bin_len b)" using assms(3) by simp
  then show ?thesis using assms(1,3-5) bin_wf_read [OF assms(2)] length_bin_bytes [OF assms(2)]
      binary_print_loop_overflow [of "ps_buf st" "ps_target st" 0 "bin_bytes b" "unat (0 - 1 :: u32)"]
    by (simp add: riak_print_binary_def riak_binary_print_def Let_def)
qed

end
