(* ===== verification/Riak_Object.thy ===== *)
theory Riak_Object
  imports Riak_Print
begin

text \<open>
  Objects with their links, user metadata and secondary indexes
  (\<^verbatim>\<open>src/riak_object.c\<close>, \<^verbatim>\<open>src/internal/riak_object-internal.h\<close>), and their conversion from and
  to the Protocol Buffers messages \<open>RpbContent\<close>, \<open>RpbPair\<close> and \<open>RpbLink\<close>.

  The generated message code is not part of the repository: the messages are records of the
  fields the library uses, and what the generated \<open>init\<close> functions leave in a message is a
  parameter. A function that takes an object by pointer takes its value here and returns the
  new value; a link or pair that was created in an object lives in that object's array.
\<close>

subsection \<open>Data\<close>

record riak_link =
  link_at :: addr
  link_has_bucket :: bool
  link_bucket :: "riak_binary option"
  link_has_key :: bool
  link_key :: "riak_binary option"
  link_has_tag :: bool
  link_tag :: "riak_binary option"

record riak_pair =
  pair_at :: addr
  pair_key :: "riak_binary option"
  pair_has_value :: bool
  pair_value :: "riak_binary option"

record riak_object =
  obj_at :: addr
  obj_bucket :: "riak_binary option"
  obj_has_bucket_type :: bool
  obj_bucket_type :: "riak_binary option"
  obj_has_key :: bool
  obj_key :: "riak_binary option"
  obj_value :: "riak_binary option"
  obj_has_charset :: bool
  obj_charset :: "riak_binary option"
  obj_has_last_mod :: bool
  obj_last_mod :: u32
  obj_has_last_mod_usecs :: bool
  obj_last_mod_usecs :: u32
  obj_has_content_type :: bool
  obj_content_type :: "riak_binary option"
  obj_has_content_encoding :: bool
  obj_encoding :: "riak_binary option"
  obj_has_deleted :: bool
  obj_deleted :: bool
  obj_has_vtag :: bool
  obj_vtag :: "riak_binary option"
  obj_n_links :: i32
  obj_links :: "riak_link parray option"
  obj_n_usermeta :: i32
  obj_usermeta :: "riak_pair parray option"
  obj_n_indexes :: i32
  obj_indexes :: "riak_pair parray option"

text \<open>The messages; one that was allocated by itself has its address.\<close>

record rpb_pair =
  rpp_at :: addr
  rpp_key :: pb_binary
  rpp_has_value :: bool
  rpp_value :: pb_binary

record rpb_link =
  rpl_at :: addr
  rpl_has_bucket :: bool
  rpl_bucket :: pb_binary
  rpl_has_key :: bool
  rpl_key :: pb_binary
  rpl_has_tag :: bool
  rpl_tag :: pb_binary

record rpb_content =
  rpc_value :: pb_binary
  rpc_has_content_type :: bool
  rpc_content_type :: pb_binary
  rpc_has_charset :: bool
  rpc_charset :: pb_binary
  rpc_has_content_encoding :: bool
  rpc_content_encoding :: pb_binary
  rpc_has_vtag :: bool
  rpc_vtag :: pb_binary
  rpc_n_links :: u64
  rpc_links :: "rpb_link parray option"
  rpc_has_last_mod :: bool
  rpc_last_mod :: u32
  rpc_has_last_mod_usecs :: bool
  rpc_last_mod_usecs :: u32
  rpc_n_usermeta :: u64
  rpc_usermeta :: "rpb_pair parray option"
  rpc_n_indexes :: u64
  rpc_indexes :: "rpb_pair parray option"
  rpc_has_deleted :: bool
  rpc_deleted :: bool

text \<open>What \<open>rpb_pair__init\<close> and \<open>rpb_link__init\<close> store.\<close>

record rpb_inits =
  init_pair :: rpb_pair
  init_link :: rpb_link

text \<open>
  The pointers of an array, from its start. A loop takes them one at a time; running past the
  end (or through a NULL array or element) has no defined result.
\<close>

definition pa_list :: "'a parray option \<Rightarrow> 'a option list" where
  "pa_list p = (case p of None \<Rightarrow> [] | Some a \<Rightarrow> pa_cells a)"

fun pa_next :: "'a option list \<Rightarrow> 'a option" where
  "pa_next [] = None"
| "pa_next (c # cs) = c"

subsection \<open>Pairs\<close>

definition pair_zero :: "addr \<Rightarrow> riak_pair" where
  "pair_zero a = \<lparr>pair_at = a, pair_key = None, pair_has_value = False, pair_value = None\<rparr>"

definition riak_pair_new :: "riak_config option \<Rightarrow> mem \<Rightarrow> riak_pair option \<times> mem" where
  "riak_pair_new cfg m =
     (let (p, m) = riak_config_clean_allocate cfg (SizeOf ''riak_pair'' 1) m
      in (map_option pair_zero p, m))"

fun pairs_to_pb_loop ::
  "riak_config option \<Rightarrow> rpb_pair \<Rightarrow> riak_pair option list \<Rightarrow> nat \<Rightarrow> mem \<Rightarrow>
   (riak_error \<times> rpb_pair option list \<times> mem) option"
where
  "pairs_to_pb_loop cfg ini cells 0 m = Some (ERIAK_OK, [], m)"
| "pairs_to_pb_loop cfg ini cells (Suc n) m =
     (let (a, m) = riak_config_clean_allocate cfg (SizeOf ''RpbPair'' 1) m
      in case a of
           None \<Rightarrow> Some (ERIAK_OUT_OF_MEMORY, [], m)
         | Some a \<Rightarrow>
             do { p \<leftarrow> pa_next cells;
                  key \<leftarrow> riak_binary_copy_to_pb (pair_key p);
                  let pb = ini\<lparr>rpp_at := a, rpp_key := key\<rparr>;
                  pb \<leftarrow> (if pair_has_value p
                        then do { v \<leftarrow> riak_binary_copy_to_pb (pair_value p);
                                  Some (pb\<lparr>rpp_has_value := True, rpp_value := v\<rparr>) }
                        else Some pb);
                  (err, pbs, m) \<leftarrow> pairs_to_pb_loop cfg ini (tl cells) n m;
                  Some (err, Some pb # pbs, m) })"

text \<open>The target is assigned only on success: on an error its new value is not reported.\<close>

definition riak_pairs_copy_to_pb ::
  "riak_config option \<Rightarrow> rpb_pair \<Rightarrow> riak_pair parray option \<Rightarrow> i32 \<Rightarrow> mem \<Rightarrow>
   (riak_error \<times> rpb_pair parray option \<times> mem) option"
where
  "riak_pairs_copy_to_pb cfg ini pairs num m =
     (let n = nat (sint num);
          (a, m) = riak_config_clean_allocate cfg (SizeOf ''RpbPair*'' n) m
      in case a of
           None \<Rightarrow> Some (ERIAK_OUT_OF_MEMORY, None, m)
         | Some a \<Rightarrow>
             do { (err, pbs, m) \<leftarrow> pairs_to_pb_loop cfg ini (pa_list pairs) n m;
                  Some (err, if err = ERIAK_OK then Some \<lparr>pa_addr = a, pa_cells = pbs\<rparr> else None, m) })"

text \<open>Freeing an array and what its first \<open>n\<close> pointers point to, which \<open>f\<close> frees.\<close>

fun free_cells ::
  "('a \<Rightarrow> mem \<Rightarrow> mem option) \<Rightarrow> 'a option list \<Rightarrow> nat \<Rightarrow> mem \<Rightarrow> mem option"
where
  "free_cells f cells 0 m = Some m"
| "free_cells f cells (Suc n) m =
     do { x \<leftarrow> pa_next cells; m \<leftarrow> f x m; free_cells f (tl cells) n m }"

definition riak_pairs_free_pb ::
  "riak_config option \<Rightarrow> rpb_pair parray option \<Rightarrow> i32 \<Rightarrow> mem \<Rightarrow> mem option"
where
  "riak_pairs_free_pb cfg pbs num m =
     do { m \<leftarrow> free_cells (\<lambda>pb. riak_free cfg (Some (rpp_at pb))) (pa_list pbs) (nat (sint num)) m;
          riak_free cfg (map_option pa_addr pbs) m }"

definition riak_pairs_copy_from_pb ::
  "riak_config option \<Rightarrow> rpb_pair \<Rightarrow> mem \<Rightarrow> riak_error \<times> riak_pair option \<times> mem"
where
  "riak_pairs_copy_from_pb cfg pb m =
     (let (p, m) = riak_config_clean_allocate cfg (SizeOf ''riak_pair'' 1) m
      in case p of
           None \<Rightarrow> (ERIAK_OUT_OF_MEMORY, None, m)
         | Some a \<Rightarrow>
             (let (key, m) = riak_binary_copy_from_pb cfg (rpp_key pb) m
              in if key = None then (ERIAK_OUT_OF_MEMORY, None, m)
                 else if rpp_has_value pb
                 then (let (v, m) = riak_binary_copy_from_pb cfg (rpp_value pb) m
                       in if v = None then (ERIAK_OUT_OF_MEMORY, None, m)
                          else (ERIAK_OK,
                                Some ((pair_zero a)\<lparr>pair_key := key, pair_has_value := True,
                                                    pair_value := v\<rparr>), m))
                 else (ERIAK_OK, Some ((pair_zero a)\<lparr>pair_key := key\<rparr>), m)))"

fun pairs_from_pb_loop ::
  "riak_config option \<Rightarrow> rpb_pair option list \<Rightarrow> nat \<Rightarrow> mem \<Rightarrow>
   (riak_error \<times> riak_pair option list \<times> mem) option"
where
  "pairs_from_pb_loop cfg cells 0 m = Some (ERIAK_OK, [], m)"
| "pairs_from_pb_loop cfg cells (Suc n) m =
     do { pb \<leftarrow> pa_next cells;
          let (err, p, m) = riak_pairs_copy_from_pb cfg pb m;
          (if err \<noteq> ERIAK_OK then Some (err, [], m)
           else do { (err, ps, m) \<leftarrow> pairs_from_pb_loop cfg (tl cells) n m;
                     Some (err, p # ps, m) }) }"

definition riak_pairs_copy_array_from_pb ::
  "riak_config option \<Rightarrow> rpb_pair parray option \<Rightarrow> i32 \<Rightarrow> mem \<Rightarrow>
   (riak_error \<times> riak_pair parray option \<times> mem) option"
where
  "riak_pairs_copy_array_from_pb cfg pbs num m =
     (let n = nat (sint num);
          (a, m) = riak_config_clean_allocate cfg (SizeOf ''riak_pair*'' n) m
      in case a of
           None \<Rightarrow> Some (ERIAK_OUT_OF_MEMORY, None, m)
         | Some a \<Rightarrow>
             do { (err, ps, m) \<leftarrow> pairs_from_pb_loop cfg (pa_list pbs) n m;
                  Some (err, if err = ERIAK_OK then Some \<lparr>pa_addr = a, pa_cells = ps\<rparr> else None, m) })"

text \<open>\<open>num_pairs\<close> is unsigned here; the loop counter is compared as unsigned.\<close>

fun pairs_print_loop :: "riak_pair option list \<Rightarrow> nat \<Rightarrow> printer" where
  "pairs_print_loop cells 0 st = Some (0, st)"
| "pairs_print_loop cells (Suc n) st =
     do { p \<leftarrow> pa_next cells;
          (w, st) \<leftarrow> print_seq
            [\<lambda>st. riak_print_label_binary st (str ''Key'') (pair_key p),
             print_when (pair_has_value p)
               (\<lambda>st. riak_print_label_binary st (str ''Value'') (pair_value p))] st;
          (ws, st) \<leftarrow> pairs_print_loop (tl cells) n st;
          Some (w + ws, st) }"

definition riak_pairs_print :: "riak_print_state \<Rightarrow> riak_pair parray option \<Rightarrow> u32 \<Rightarrow>
  (i32 \<times> riak_print_state) option" where
  "riak_pairs_print st pairs num = pairs_print_loop (pa_list pairs) (unat num) st"

definition pair_free :: "riak_config option \<Rightarrow> riak_pair \<Rightarrow> mem \<Rightarrow> mem option" where
  "pair_free cfg p m =
     do { m \<leftarrow> riak_binary_free cfg (pair_key p) m;
          m \<leftarrow> riak_binary_free cfg (pair_value p) m;
          riak_free cfg (Some (pair_at p)) m }"

definition riak_pairs_free ::
  "riak_config option \<Rightarrow> riak_pair parray option \<Rightarrow> i32 \<Rightarrow> mem \<Rightarrow> mem option"
where
  "riak_pairs_free cfg pairs num m =
     do { m \<leftarrow> free_cells (pair_free cfg) (pa_list pairs) (nat (sint num)) m;
          riak_free cfg (map_option pa_addr pairs) m }"

definition riak_pair_get_key :: "riak_pair \<Rightarrow> riak_binary option" where
  "riak_pair_get_key p = pair_key p"

definition riak_pair_get_has_value :: "riak_pair \<Rightarrow> bool" where
  "riak_pair_get_has_value p = pair_has_value p"

definition riak_pair_get_value :: "riak_pair \<Rightarrow> riak_binary option" where
  "riak_pair_get_value p = pair_value p"

text \<open>A setter copies the value; what the field pointed to before is not freed.\<close>

definition riak_pair_set_key ::
  "riak_config option \<Rightarrow> riak_pair \<Rightarrow> riak_binary option \<Rightarrow> mem \<Rightarrow> (riak_error \<times> riak_pair \<times> mem) option"
where
  "riak_pair_set_key cfg p v m =
     do { (b, m) \<leftarrow> riak_binary_copy cfg v m;
          Some (if b = None then (ERIAK_OUT_OF_MEMORY, p\<lparr>pair_key := None\<rparr>, m)
                else (ERIAK_OK, p\<lparr>pair_key := b\<rparr>, m)) }"

definition riak_pair_set_value ::
  "riak_config option \<Rightarrow> riak_pair \<Rightarrow> riak_binary option \<Rightarrow> mem \<Rightarrow> (riak_error \<times> riak_pair \<times> mem) option"
where
  "riak_pair_set_value cfg p v m =
     do { (b, m) \<leftarrow> riak_binary_copy cfg v m;
          Some (if b = None then (ERIAK_OUT_OF_MEMORY, p\<lparr>pair_value := None\<rparr>, m)
                else (ERIAK_OK, p\<lparr>pair_value := b, pair_has_value := True\<rparr>, m)) }"

subsection \<open>Links\<close>

definition link_zero :: "addr \<Rightarrow> riak_link" where
  "link_zero a = \<lparr>link_at = a, link_has_bucket = False, link_bucket = None, link_has_key = False,
     link_key = None, link_has_tag = False, link_tag = None\<rparr>"

definition riak_link_new :: "riak_config option \<Rightarrow> mem \<Rightarrow> riak_link option \<times> mem" where
  "riak_link_new cfg m =
     (let (p, m) = riak_config_clean_allocate cfg (SizeOf ''riak_link'' 1) m
      in (map_option link_zero p, m))"

text \<open>
  The assignment \<open>if (from->has_x) { to->has_x = RIAK_TRUE; riak_binary_copy_to_pb(&to->x, from->x); }\<close>,
  which the conversions repeat for each optional field.
\<close>

definition opt_to_pb ::
  "bool \<Rightarrow> riak_binary option \<Rightarrow> bool \<times> pb_binary \<Rightarrow> (bool \<times> pb_binary) option"
where
  "opt_to_pb has from to =
     (if has then do { b \<leftarrow> riak_binary_copy_to_pb from; Some (True, b) } else Some to)"

definition link_to_pb :: "rpb_link \<Rightarrow> riak_link \<Rightarrow> rpb_link option" where
  "link_to_pb pb l =
     do { (hb, b) \<leftarrow> opt_to_pb (link_has_bucket l) (link_bucket l) (rpl_has_bucket pb, rpl_bucket pb);
          (hk, k) \<leftarrow> opt_to_pb (link_has_key l) (link_key l) (rpl_has_key pb, rpl_key pb);
          (ht, t) \<leftarrow> opt_to_pb (link_has_tag l) (link_tag l) (rpl_has_tag pb, rpl_tag pb);
          Some (pb\<lparr>rpl_has_bucket := hb, rpl_bucket := b, rpl_has_key := hk, rpl_key := k,
                   rpl_has_tag := ht, rpl_tag := t\<rparr>) }"

fun links_to_pb_loop ::
  "riak_config option \<Rightarrow> rpb_link \<Rightarrow> riak_link option list \<Rightarrow> nat \<Rightarrow> mem \<Rightarrow>
   (riak_error \<times> rpb_link option list \<times> mem) option"
where
  "links_to_pb_loop cfg ini cells 0 m = Some (ERIAK_OK, [], m)"
| "links_to_pb_loop cfg ini cells (Suc n) m =
     (let (a, m) = riak_config_clean_allocate cfg (SizeOf ''RpbLink'' 1) m
      in case a of
           None \<Rightarrow> Some (ERIAK_OUT_OF_MEMORY, [], m)
         | Some a \<Rightarrow>
             do { l \<leftarrow> pa_next cells;
                  pb \<leftarrow> link_to_pb (ini\<lparr>rpl_at := a\<rparr>) l;
                  (err, pbs, m) \<leftarrow> links_to_pb_loop cfg ini (tl cells) n m;
                  Some (err, Some pb # pbs, m) })"

definition riak_links_copy_to_pb ::
  "riak_config option \<Rightarrow> rpb_link \<Rightarrow> riak_link parray option \<Rightarrow> i32 \<Rightarrow> mem \<Rightarrow>
   (riak_error \<times> rpb_link parray option \<times> mem) option"
where
  "riak_links_copy_to_pb cfg ini links num m =
     (let n = nat (sint num);
          (a, m) = riak_config_clean_allocate cfg (SizeOf ''RpbLink*'' n) m
      in case a of
           None \<Rightarrow> Some (ERIAK_OUT_OF_MEMORY, None, m)
         | Some a \<Rightarrow>
             do { (err, pbs, m) \<leftarrow> links_to_pb_loop cfg ini (pa_list links) n m;
                  Some (err, if err = ERIAK_OK then Some \<lparr>pa_addr = a, pa_cells = pbs\<rparr> else None, m) })"

definition riak_links_free_pb ::
  "riak_config option \<Rightarrow> rpb_link parray option \<Rightarrow> i32 \<Rightarrow> mem \<Rightarrow> mem option"
where
  "riak_links_free_pb cfg pbs num m =
     do { m \<leftarrow> free_cells (\<lambda>pb. riak_free cfg (Some (rpl_at pb))) (pa_list pbs) (nat (sint num)) m;
          riak_free cfg (map_option pa_addr pbs) m }"

text \<open>
  The other direction of \<open>opt_to_pb\<close>: the copy of one optional field, then the rest of the
  function (\<open>next\<close>) if it could be allocated. \<open>None\<close> is the early return with \<open>ERIAK_OUT_OF_MEMORY\<close>.
\<close>

definition opt_from_pb ::
  "riak_config option \<Rightarrow> bool \<Rightarrow> pb_binary \<Rightarrow>
   (bool \<times> riak_binary option \<Rightarrow> mem \<Rightarrow> 'a option \<times> mem) \<Rightarrow> mem \<Rightarrow> 'a option \<times> mem"
where
  "opt_from_pb cfg has b next m =
     (if has
      then (let (x, m) = riak_binary_copy_from_pb cfg b m
            in if x = None then (None, m) else next (True, x) m)
      else next (False, None) m)"

definition link_from_pb ::
  "riak_config option \<Rightarrow> addr \<Rightarrow> rpb_link \<Rightarrow> mem \<Rightarrow> riak_link option \<times> mem"
where
  "link_from_pb cfg a pb =
     opt_from_pb cfg (rpl_has_bucket pb) (rpl_bucket pb) (\<lambda>(hb, b).
     opt_from_pb cfg (rpl_has_key pb) (rpl_key pb) (\<lambda>(hk, k).
     opt_from_pb cfg (rpl_has_tag pb) (rpl_tag pb) (\<lambda>(ht, t) m.
       (Some \<lparr>link_at = a, link_has_bucket = hb, link_bucket = b, link_has_key = hk, link_key = k,
              link_has_tag = ht, link_tag = t\<rparr>, m))))"

fun links_from_pb_loop ::
  "riak_config option \<Rightarrow> rpb_link option list \<Rightarrow> nat \<Rightarrow> mem \<Rightarrow>
   (riak_error \<times> riak_link option list \<times> mem) option"
where
  "links_from_pb_loop cfg cells 0 m = Some (ERIAK_OK, [], m)"
| "links_from_pb_loop cfg cells (Suc n) m =
     (let (a, m) = riak_config_clean_allocate cfg (SizeOf ''riak_link'' 1) m
      in case a of
           None \<Rightarrow> Some (ERIAK_OUT_OF_MEMORY, [], m)
         | Some a \<Rightarrow>
             do { pb \<leftarrow> pa_next cells;
                  let (l, m) = link_from_pb cfg a pb m;
                  (if l = None then Some (ERIAK_OUT_OF_MEMORY, [], m)
                   else do { (err, ls, m) \<leftarrow> links_from_pb_loop cfg (tl cells) n m;
                             Some (err, l # ls, m) }) })"

text \<open>
  \<open>riak_links_copy_from_pb\<close> tests the source array for NULL where it means the array it has just
  allocated; a failed allocation is found when the first element is stored.
\<close>

definition riak_links_copy_from_pb ::
  "riak_config option \<Rightarrow> rpb_link parray option \<Rightarrow> i32 \<Rightarrow> mem \<Rightarrow>
   (riak_error \<times> riak_link parray option \<times> mem) option"
where
  "riak_links_copy_from_pb cfg pbs num m =
     (let n = nat (sint num);
          (a, m) = riak_config_clean_allocate cfg (SizeOf ''riak_link*'' n) m
      in if pbs = None then Some (ERIAK_OUT_OF_MEMORY, None, m)
         else do { guard (n = 0 \<or> a \<noteq> None);
                   (err, ls, m) \<leftarrow> links_from_pb_loop cfg (pa_list pbs) n m;
                   Some (err, if err = ERIAK_OK
                              then map_option (\<lambda>a. \<lparr>pa_addr = a, pa_cells = ls\<rparr>) a else None, m) })"

definition link_free :: "riak_config option \<Rightarrow> riak_link \<Rightarrow> mem \<Rightarrow> mem option" where
  "link_free cfg l m =
     do { m \<leftarrow> riak_binary_free cfg (link_bucket l) m;
          m \<leftarrow> riak_binary_free cfg (link_key l) m;
          m \<leftarrow> riak_binary_free cfg (link_tag l) m;
          riak_free cfg (Some (link_at l)) m }"

definition riak_links_free ::
  "riak_config option \<Rightarrow> riak_link parray option \<Rightarrow> i32 \<Rightarrow> mem \<Rightarrow> mem option"
where
  "riak_links_free cfg links num m =
     do { m \<leftarrow> free_cells (link_free cfg) (pa_list links) (nat (sint num)) m;
          riak_free cfg (map_option pa_addr links) m }"

definition riak_links_print :: "riak_print_state \<Rightarrow> riak_link \<Rightarrow> (i32 \<times> riak_print_state) option" where
  "riak_links_print st l =
     print_seq
       [print_when (link_has_bucket l)
          (\<lambda>st. riak_print_label_binary st (str ''Link Bucket'') (link_bucket l)),
        print_when (link_has_key l)
          (\<lambda>st. riak_print_label_binary st (str ''Link Key'') (link_key l)),
        print_when (link_has_tag l)
          (\<lambda>st. riak_print_label_binary st (str ''Link Tag'') (link_tag l))] st"

definition riak_link_get_has_bucket :: "riak_link \<Rightarrow> bool" where
  "riak_link_get_has_bucket l = link_has_bucket l"

definition riak_link_get_bucket :: "riak_link \<Rightarrow> riak_binary option" where
  "riak_link_get_bucket l = link_bucket l"

definition riak_link_get_has_key :: "riak_link \<Rightarrow> bool" where
  "riak_link_get_has_key l = link_has_key l"

definition riak_link_get_key :: "riak_link \<Rightarrow> riak_binary option" where
  "riak_link_get_key l = link_key l"

definition riak_link_get_has_tag :: "riak_link \<Rightarrow> bool" where
  "riak_link_get_has_tag l = link_has_tag l"

definition riak_link_get_tag :: "riak_link \<Rightarrow> riak_binary option" where
  "riak_link_get_tag l = link_tag l"

definition riak_link_set_bucket ::
  "riak_config option \<Rightarrow> riak_link \<Rightarrow> riak_binary option \<Rightarrow> mem \<Rightarrow> (riak_error \<times> riak_link \<times> mem) option"
where
  "riak_link_set_bucket cfg l v m =
     do { (b, m) \<leftarrow> riak_binary_copy cfg v m;
          Some (if b = None then (ERIAK_OUT_OF_MEMORY, l\<lparr>link_bucket := None\<rparr>, m)
                else (ERIAK_OK, l\<lparr>link_bucket := b, link_has_bucket := True\<rparr>, m)) }"

definition riak_link_set_key ::
  "riak_config option \<Rightarrow> riak_link \<Rightarrow> riak_binary option \<Rightarrow> mem \<Rightarrow> (riak_error \<times> riak_link \<times> mem) option"
where
  "riak_link_set_key cfg l v m =
     do { (b, m) \<leftarrow> riak_binary_copy cfg v m;
          Some (if b = None then (ERIAK_OUT_OF_MEMORY, l\<lparr>link_key := None\<rparr>, m)
                else (ERIAK_OK, l\<lparr>link_key := b, link_has_key := True\<rparr>, m)) }"

definition riak_link_set_tag ::
  "riak_config option \<Rightarrow> riak_link \<Rightarrow> riak_binary option \<Rightarrow> mem \<Rightarrow> (riak_error \<times> riak_link \<times> mem) option"
where
  "riak_link_set_tag cfg l v m =
     do { (b, m) \<leftarrow> riak_binary_copy cfg v m;
          Some (if b = None then (ERIAK_OUT_OF_MEMORY, l\<lparr>link_tag := None\<rparr>, m)
                else (ERIAK_OK, l\<lparr>link_tag := b, link_has_tag := True\<rparr>, m)) }"

subsection \<open>Objects\<close>

definition object_zero :: "addr \<Rightarrow> riak_object" where
  "object_zero a =
     \<lparr>obj_at = a, obj_bucket = None, obj_has_bucket_type = False, obj_bucket_type = None,
      obj_has_key = False, obj_key = None, obj_value = None, obj_has_charset = False,
      obj_charset = None, obj_has_last_mod = False, obj_last_mod = 0,
      obj_has_last_mod_usecs = False, obj_last_mod_usecs = 0, obj_has_content_type = False,
      obj_content_type = None, obj_has_content_encoding = False, obj_encoding = None,
      obj_has_deleted = False, obj_deleted = False, obj_has_vtag = False, obj_vtag = None,
      obj_n_links = 0, obj_links = None, obj_n_usermeta = 0, obj_usermeta = None,
      obj_n_indexes = 0, obj_indexes = None\<rparr>"

definition riak_object_new :: "riak_config option \<Rightarrow> mem \<Rightarrow> riak_object option \<times> mem" where
  "riak_object_new cfg m =
     (let (p, m) = riak_config_clean_allocate cfg (SizeOf ''riak_object'' 1) m
      in (map_option object_zero p, m))"

text \<open>An array of pointers; the block is requested with the size of the objects themselves.\<close>

definition riak_object_new_array ::
  "riak_config option \<Rightarrow> u64 \<Rightarrow> mem \<Rightarrow> riak_error \<times> riak_object parray option \<times> mem"
where
  "riak_object_new_array cfg len m =
     (let (a, m) = riak_config_clean_allocate cfg (SizeOf ''riak_object'' (unat len)) m
      in case a of
           None \<Rightarrow> (ERIAK_OUT_OF_MEMORY, None, m)
         | Some a \<Rightarrow> (ERIAK_OK, Some \<lparr>pa_addr = a, pa_cells = replicate (unat len) None\<rparr>, m))"

definition riak_object_free :: "riak_config option \<Rightarrow> riak_object option \<Rightarrow> mem \<Rightarrow> mem option" where
  "riak_object_free cfg obj m =
     (case obj of
        None \<Rightarrow> Some m
      | Some ob \<Rightarrow>
          do { m \<leftarrow> riak_binary_free cfg (obj_bucket_type ob) m;
               m \<leftarrow> riak_binary_free cfg (obj_bucket ob) m;
               m \<leftarrow> riak_binary_free cfg (obj_charset ob) m;
               m \<leftarrow> riak_binary_free cfg (obj_content_type ob) m;
               m \<leftarrow> riak_binary_free cfg (obj_encoding ob) m;
               m \<leftarrow> riak_binary_free cfg (obj_key ob) m;
               m \<leftarrow> riak_binary_free cfg (obj_value ob) m;
               m \<leftarrow> riak_binary_free cfg (obj_vtag ob) m;
               m \<leftarrow> riak_pairs_free cfg (obj_indexes ob) (obj_n_indexes ob) m;
               m \<leftarrow> riak_pairs_free cfg (obj_usermeta ob) (obj_n_usermeta ob) m;
               m \<leftarrow> riak_links_free cfg (obj_links ob) (obj_n_links ob) m;
               riak_free cfg (Some (obj_at ob)) m })"

text \<open>The elements of an array of objects may be NULL.\<close>

fun free_objects ::
  "riak_config option \<Rightarrow> riak_object option list \<Rightarrow> nat \<Rightarrow> mem \<Rightarrow> mem option"
where
  "free_objects cfg cells 0 m = Some m"
| "free_objects cfg [] (Suc n) m = None"
| "free_objects cfg (c # cells) (Suc n) m =
     do { m \<leftarrow> riak_object_free cfg c m; free_objects cfg cells n m }"

definition riak_object_free_array ::
  "riak_config option \<Rightarrow> riak_object parray option \<Rightarrow> u64 \<Rightarrow> mem \<Rightarrow> mem option"
where
  "riak_object_free_array cfg arr len m =
     do { m \<leftarrow> free_objects cfg (pa_list arr) (unat len) m;
          riak_free cfg (map_option pa_addr arr) m }"

subsection \<open>Conversion to and from Protocol Buffers\<close>

text \<open>
  \<open>riak_object_to_pb_copy\<close>: the fields of the object, then the three arrays. \<open>n_indexes\<close> and
  its siblings are \<open>int32_t\<close> in the object and \<open>size_t\<close> in the message.
\<close>

definition content_fields_to_pb :: "rpb_content \<Rightarrow> riak_object \<Rightarrow> rpb_content option" where
  "content_fields_to_pb to ob =
     do { v \<leftarrow> riak_binary_copy_to_pb (obj_value ob);
          (hcs, cs) \<leftarrow> opt_to_pb (obj_has_charset ob) (obj_charset ob)
                        (rpc_has_charset to, rpc_charset to);
          (hce, ce) \<leftarrow> opt_to_pb (obj_has_content_encoding ob) (obj_encoding ob)
                        (rpc_has_content_encoding to, rpc_content_encoding to);
          (hct, ct) \<leftarrow> opt_to_pb (obj_has_content_type ob) (obj_content_type ob)
                        (rpc_has_content_type to, rpc_content_type to);
          let to = to\<lparr>rpc_value := v, rpc_has_charset := hcs, rpc_charset := cs,
                      rpc_has_content_encoding := hce, rpc_content_encoding := ce,
                      rpc_has_content_type := hct, rpc_content_type := ct\<rparr>;
          let to = (if obj_has_deleted ob
                    then to\<lparr>rpc_has_deleted := True, rpc_deleted := obj_deleted ob\<rparr> else to);
          let to = (if obj_has_last_mod ob
                    then to\<lparr>rpc_has_last_mod := True, rpc_last_mod := obj_last_mod ob\<rparr> else to);
          let to = (if obj_has_last_mod_usecs ob
                    then to\<lparr>rpc_has_last_mod_usecs := True,
                            rpc_last_mod_usecs := obj_last_mod_usecs ob\<rparr> else to);
          (hvt, vt) \<leftarrow> opt_to_pb (obj_has_vtag ob) (obj_vtag ob) (rpc_has_vtag to, rpc_vtag to);
          Some (to\<lparr>rpc_has_vtag := hvt, rpc_vtag := vt\<rparr>) }"

text \<open>One array: nothing happens when there is none or an earlier one failed.\<close>

definition indexes_to_pb ::
  "riak_config option \<Rightarrow> rpb_inits \<Rightarrow> riak_object \<Rightarrow> riak_error \<times> rpb_content \<times> mem \<Rightarrow>
   (riak_error \<times> rpb_content \<times> mem) option"
where
  "indexes_to_pb cfg ini from = (\<lambda>(err, to, m).
     if sint (obj_n_indexes from) > 0 \<and> err = ERIAK_OK
     then do { (err, ps, m) \<leftarrow> riak_pairs_copy_to_pb cfg (init_pair ini) (obj_indexes from) (obj_n_indexes from) m;
               Some (err, to\<lparr>rpc_n_indexes := scast (obj_n_indexes from),
                             rpc_indexes := (if err = ERIAK_OK then ps else rpc_indexes to)\<rparr>, m) }
     else Some (err, to, m))"

definition usermeta_to_pb ::
  "riak_config option \<Rightarrow> rpb_inits \<Rightarrow> riak_object \<Rightarrow> riak_error \<times> rpb_content \<times> mem \<Rightarrow>
   (riak_error \<times> rpb_content \<times> mem) option"
where
  "usermeta_to_pb cfg ini from = (\<lambda>(err, to, m).
     if sint (obj_n_usermeta from) > 0 \<and> err = ERIAK_OK
     then do { (err, ps, m) \<leftarrow> riak_pairs_copy_to_pb cfg (init_pair ini) (obj_usermeta from) (obj_n_usermeta from) m;
               Some (err, to\<lparr>rpc_n_usermeta := scast (obj_n_usermeta from),
                             rpc_usermeta := (if err = ERIAK_OK then ps else rpc_usermeta to)\<rparr>, m) }
     else Some (err, to, m))"

definition links_to_pb ::
  "riak_config option \<Rightarrow> rpb_inits \<Rightarrow> riak_object \<Rightarrow> riak_error \<times> rpb_content \<times> mem \<Rightarrow>
   (riak_error \<times> rpb_content \<times> mem) option"
where
  "links_to_pb cfg ini from = (\<lambda>(err, to, m).
     if sint (obj_n_links from) > 0 \<and> err = ERIAK_OK
     then do { (err, ps, m) \<leftarrow> riak_links_copy_to_pb cfg (init_link ini) (obj_links from) (obj_n_links from) m;
               Some (err, to\<lparr>rpc_n_links := scast (obj_n_links from),
                             rpc_links := (if err = ERIAK_OK then ps else rpc_links to)\<rparr>, m) }
     else Some (err, to, m))"

definition riak_object_to_pb_copy ::
  "riak_config option \<Rightarrow> rpb_inits \<Rightarrow> rpb_content \<Rightarrow> riak_object \<Rightarrow> mem \<Rightarrow>
   (riak_error \<times> rpb_content \<times> mem) option"
where
  "riak_object_to_pb_copy cfg ini to from m =
     do { to \<leftarrow> content_fields_to_pb to from;
          r \<leftarrow> indexes_to_pb cfg ini from (ERIAK_OK, to, m);
          r \<leftarrow> usermeta_to_pb cfg ini from r;
          links_to_pb cfg ini from r }"

text \<open>
  \<open>riak_object_new_from_pb\<close>: when a field cannot be allocated the object itself is freed, but
  not the fields already copied; when an array fails the object is kept.
\<close>

definition object_fields_from_pb ::
  "riak_config option \<Rightarrow> riak_object \<Rightarrow> rpb_content \<Rightarrow> mem \<Rightarrow> riak_object option \<times> mem"
where
  "object_fields_from_pb cfg to from m =
     (let (v, m) = riak_binary_copy_from_pb cfg (rpc_value from) m
      in if v = None then (None, m)
         else
           opt_from_pb cfg (rpc_has_charset from) (rpc_charset from) (\<lambda>(hcs, cs).
           opt_from_pb cfg (rpc_has_content_encoding from) (rpc_content_encoding from) (\<lambda>(hce, ce).
           opt_from_pb cfg (rpc_has_content_type from) (rpc_content_type from) (\<lambda>(hct, ct).
           opt_from_pb cfg (rpc_has_vtag from) (rpc_vtag from) (\<lambda>(hvt, vt) m.
             (let to = to\<lparr>obj_value := v, obj_has_charset := hcs, obj_charset := cs,
                          obj_has_content_encoding := hce, obj_encoding := ce,
                          obj_has_content_type := hct, obj_content_type := ct,
                          obj_has_vtag := hvt, obj_vtag := vt\<rparr>;
                  to = (if rpc_has_deleted from
                        then to\<lparr>obj_has_deleted := True, obj_deleted := rpc_deleted from\<rparr> else to);
                  to = (if rpc_has_last_mod from
                        then to\<lparr>obj_has_last_mod := True, obj_last_mod := rpc_last_mod from\<rparr>
                        else to);
                  to = (if rpc_has_last_mod_usecs from
                        then to\<lparr>obj_has_last_mod_usecs := True,
                                obj_last_mod_usecs := rpc_last_mod_usecs from\<rparr> else to)
              in (Some to, m)))))) m)"

definition indexes_from_pb ::
  "riak_config option \<Rightarrow> rpb_content \<Rightarrow> riak_error \<times> riak_object \<times> mem \<Rightarrow>
   (riak_error \<times> riak_object \<times> mem) option"
where
  "indexes_from_pb cfg from = (\<lambda>(err, to, m).
     if rpc_n_indexes from > 0 \<and> err = ERIAK_OK
     then do { let to = to\<lparr>obj_n_indexes := ucast (rpc_n_indexes from)\<rparr>;
               (err, ps, m) \<leftarrow> riak_pairs_copy_array_from_pb cfg (rpc_indexes from) (obj_n_indexes to) m;
               Some (err, to\<lparr>obj_indexes := (if err = ERIAK_OK then ps else obj_indexes to)\<rparr>, m) }
     else Some (err, to, m))"

definition usermeta_from_pb ::
  "riak_config option \<Rightarrow> rpb_content \<Rightarrow> riak_error \<times> riak_object \<times> mem \<Rightarrow>
   (riak_error \<times> riak_object \<times> mem) option"
where
  "usermeta_from_pb cfg from = (\<lambda>(err, to, m).
     if rpc_n_usermeta from > 0 \<and> err = ERIAK_OK
     then do { let to = to\<lparr>obj_n_usermeta := ucast (rpc_n_usermeta from)\<rparr>;
               (err, ps, m) \<leftarrow> riak_pairs_copy_array_from_pb cfg (rpc_usermeta from) (obj_n_usermeta to) m;
               Some (err, to\<lparr>obj_usermeta := (if err = ERIAK_OK then ps else obj_usermeta to)\<rparr>, m) }
     else Some (err, to, m))"

definition links_from_pb ::
  "riak_config option \<Rightarrow> rpb_content \<Rightarrow> riak_error \<times> riak_object \<times> mem \<Rightarrow>
   (riak_error \<times> riak_object \<times> mem) option"
where
  "links_from_pb cfg from = (\<lambda>(err, to, m).
     if rpc_n_links from > 0 \<and> err = ERIAK_OK
     then do { let to = to\<lparr>obj_n_links := ucast (rpc_n_links from)\<rparr>;
               (err, ps, m) \<leftarrow> riak_links_copy_from_pb cfg (rpc_links from) (obj_n_links to) m;
               Some (err, to\<lparr>obj_links := (if err = ERIAK_OK then ps else obj_links to)\<rparr>, m) }
     else Some (err, to, m))"

definition riak_object_new_from_pb ::
  "riak_config option \<Rightarrow> rpb_content \<Rightarrow> mem \<Rightarrow> (riak_error \<times> riak_object option \<times> mem) option"
where
  "riak_object_new_from_pb cfg from m =
     (let (t, m) = riak_object_new cfg m
      in case t of
           None \<Rightarrow> Some (ERIAK_OUT_OF_MEMORY, None, m)
         | Some new \<Rightarrow>
             (let (t, m) = object_fields_from_pb cfg new from m
              in case t of
                   None \<Rightarrow> do { m \<leftarrow> riak_free cfg (Some (obj_at new)) m;
                              Some (ERIAK_OUT_OF_MEMORY, None, m) }
                 | Some to \<Rightarrow>
                     do { r \<leftarrow> indexes_from_pb cfg from (ERIAK_OK, to, m);
                          r \<leftarrow> usermeta_from_pb cfg from r;
                          (err, to, m) \<leftarrow> links_from_pb cfg from r;
                          Some (err, Some to, m) }))"

definition riak_object_free_pb :: "riak_config option \<Rightarrow> rpb_content \<Rightarrow> mem \<Rightarrow> mem option" where
  "riak_object_free_pb cfg pb m =
     do { m \<leftarrow> riak_pairs_free_pb cfg (rpc_indexes pb) (ucast (rpc_n_indexes pb)) m;
          m \<leftarrow> riak_pairs_free_pb cfg (rpc_usermeta pb) (ucast (rpc_n_usermeta pb)) m;
          riak_links_free_pb cfg (rpc_links pb) (ucast (rpc_n_links pb)) m }"

subsection \<open>Comparing two objects\<close>

text \<open>The debugging output is written when there is a print state (\<open>Some\<close>) and a difference.\<close>

type_synonym comparer = "riak_print_state option \<Rightarrow> (int \<times> riak_print_state option) option"

definition riak_object_compare_binary ::
  "bytes \<Rightarrow> riak_binary option \<Rightarrow> riak_binary option \<Rightarrow> comparer"
where
  "riak_object_compare_binary message bin1 bin2 state =
     do { result \<leftarrow> riak_binary_compare bin1 bin2;
          (case state of
             Some st \<Rightarrow>
               (if result \<noteq> 0
                then do { (w, st) \<leftarrow> print_seq
                            [\<lambda>st. riak_print st (str ''Object '' @ message @ str '' differ: ''),
                             \<lambda>st. riak_print_binary st bin1,
                             \<lambda>st. riak_print st (str '' vs ''),
                             \<lambda>st. riak_print_binary st bin2,
                             \<lambda>st. riak_print st [10]] st;
                          Some (result, Some st) }
                else Some (result, state))
           | None \<Rightarrow> Some (result, state)) }"

definition riak_object_compare_int :: "bytes \<Rightarrow> u32 \<Rightarrow> u32 \<Rightarrow> comparer" where
  "riak_object_compare_int message int1 int2 state =
     (let result = (if int1 \<noteq> int2 then 1 else 0)
      in case state of
           Some st \<Rightarrow>
             (if result \<noteq> 0
              then do { (w, st) \<leftarrow> riak_print st (str ''Object '' @ message @ str '' differ: '' @
                                   dec_int (sint int1) @ str '' vs '' @ dec_int (sint int2) @ [10]);
                        Some (result, Some st) }
              else Some (result, state))
         | None \<Rightarrow> Some (result, state))"

text \<open>\<open>result = ...; if (result) return result;\<close> for each comparison in turn.\<close>

fun first_diff :: "comparer list \<Rightarrow> comparer" where
  "first_diff [] st = Some (0, st)"
| "first_diff (f # fs) st =
     do { (result, st) \<leftarrow> f st; (if result \<noteq> 0 then Some (result, st) else first_diff fs st) }"

definition compare_when :: "bool \<Rightarrow> comparer \<Rightarrow> comparer" where
  "compare_when b f = (if b then f else (\<lambda>st. Some (0, st)))"

definition flag :: "bool \<Rightarrow> u32" where
  "flag b = (if b then 1 else 0)"

fun compare_cells ::
  "('a \<Rightarrow> 'a \<Rightarrow> comparer) \<Rightarrow> 'a option list \<Rightarrow> 'a option list \<Rightarrow> nat \<Rightarrow> comparer"
where
  "compare_cells f xs ys 0 st = Some (0, st)"
| "compare_cells f xs ys (Suc n) st =
     do { x \<leftarrow> pa_next xs;
          y \<leftarrow> pa_next ys;
          (result, st) \<leftarrow> f x y st;
          (if result \<noteq> 0 then Some (result, st) else compare_cells f (tl xs) (tl ys) n st) }"

definition compare_pair :: "bytes \<Rightarrow> bytes \<Rightarrow> bytes \<Rightarrow> riak_pair \<Rightarrow> riak_pair \<Rightarrow> comparer" where
  "compare_pair flags keys values p q =
     first_diff
       [riak_object_compare_int flags (flag (pair_has_value p)) (flag (pair_has_value q)),
        riak_object_compare_binary keys (pair_key p) (pair_key q),
        compare_when (pair_has_value p)
          (riak_object_compare_binary values (pair_value p) (pair_value q))]"

definition compare_link :: "riak_link \<Rightarrow> riak_link \<Rightarrow> comparer" where
  "compare_link l k =
     first_diff
       [riak_object_compare_int (str ''Link Bucket Flags'') (flag (link_has_bucket l)) (flag (link_has_bucket k)),
        riak_object_compare_int (str ''Link Key Flags'') (flag (link_has_key l)) (flag (link_has_key k)),
        riak_object_compare_int (str ''Link Tag Flags'') (flag (link_has_tag l)) (flag (link_has_tag k)),
        compare_when (link_has_bucket l)
          (riak_object_compare_binary (str ''Link Buckets'') (link_bucket l) (link_bucket k)),
        compare_when (link_has_key l)
          (riak_object_compare_binary (str ''Link Keys'') (link_key l) (link_key k)),
        compare_when (link_has_tag l)
          (riak_object_compare_binary (str ''Link Tags'') (link_tag l) (link_tag k))]"

definition riak_object_compare_internal :: "riak_object \<Rightarrow> riak_object \<Rightarrow> comparer" where
  "riak_object_compare_internal a b =
     first_diff
       [riak_object_compare_binary (str ''Buckets'') (obj_bucket a) (obj_bucket b),
        riak_object_compare_binary (str ''Keys'') (obj_key a) (obj_key b),
        riak_object_compare_binary (str ''Values'') (obj_value a) (obj_value b),
        riak_object_compare_int (str ''Charset Flags'') (flag (obj_has_charset a)) (flag (obj_has_charset b)),
        riak_object_compare_binary (str ''Charset'') (obj_charset a) (obj_charset b),
        riak_object_compare_int (str ''Content Type Flags'') (flag (obj_has_content_type a))
          (flag (obj_has_content_type b)),
        riak_object_compare_binary (str ''Content Types'') (obj_content_type a) (obj_content_type b),
        riak_object_compare_int (str ''Encoding Flags'') (flag (obj_has_content_encoding a))
          (flag (obj_has_content_encoding b)),
        riak_object_compare_binary (str ''Encodings'') (obj_encoding a) (obj_encoding b),
        compare_when (obj_has_vtag a \<and> obj_has_vtag b)
          (riak_object_compare_binary (str ''VTags'') (obj_vtag a) (obj_vtag b)),
        compare_when (obj_has_last_mod a \<and> obj_has_last_mod b)
          (riak_object_compare_int (str ''Last Modified Dates'') (obj_last_mod a) (obj_last_mod b)),
        compare_when (obj_has_last_mod_usecs a \<and> obj_has_last_mod_usecs b)
          (riak_object_compare_int (str ''Last Modified uSecs'') (obj_last_mod_usecs a)
            (obj_last_mod_usecs b)),
        riak_object_compare_int (str ''Delete Flags'') (flag (obj_deleted a)) (flag (obj_deleted b)),
        riak_object_compare_int (str ''Number of Indexes'') (obj_n_indexes a) (obj_n_indexes b),
        riak_object_compare_int (str ''Number of Links'') (obj_n_links a) (obj_n_links b),
        riak_object_compare_int (str ''Number of User Metadata'') (obj_n_usermeta a) (obj_n_usermeta b),
        compare_cells (compare_pair (str ''Index Value Flags'') (str ''Index Keys'') (str ''Index Values''))
          (pa_list (obj_indexes a)) (pa_list (obj_indexes b)) (nat (sint (obj_n_indexes a))),
        compare_cells compare_link
          (pa_list (obj_links a)) (pa_list (obj_links b)) (nat (sint (obj_n_links a))),
        compare_cells (compare_pair (str ''User Meta-data Value Flags'') (str ''User Meta-data Keys'')
            (str ''User Meta-data Values''))
          (pa_list (obj_usermeta a)) (pa_list (obj_usermeta b)) (nat (sint (obj_n_usermeta a)))]"

definition riak_object_compare :: "riak_object \<Rightarrow> riak_object \<Rightarrow> int option" where
  "riak_object_compare a b = map_option fst (riak_object_compare_internal a b None)"

definition riak_object_compare_debug ::
  "riak_object \<Rightarrow> riak_object \<Rightarrow> riak_print_state \<Rightarrow> (int \<times> riak_print_state option) option"
where
  "riak_object_compare_debug a b state = riak_object_compare_internal a b (Some state)"

subsection \<open>Printing an object\<close>

fun links_print_loop :: "riak_link option list \<Rightarrow> nat \<Rightarrow> printer" where
  "links_print_loop cells 0 st = Some (0, st)"
| "links_print_loop cells (Suc n) st =
     do { l \<leftarrow> pa_next cells;
          (w, st) \<leftarrow> riak_links_print st l;
          (ws, st) \<leftarrow> links_print_loop (tl cells) n st;
          Some (w + ws, st) }"

definition riak_object_print ::
  "(i32 \<Rightarrow> bytes) \<Rightarrow> riak_print_state \<Rightarrow> riak_object \<Rightarrow> (i32 \<times> riak_print_state) option"
where
  "riak_object_print strftime st ob =
     print_seq
       [\<lambda>st. riak_print_label_binary st (str ''Bucket'') (obj_bucket ob),
        print_when (obj_has_bucket_type ob)
          (\<lambda>st. riak_print_label_binary st (str ''Bucket type'') (obj_bucket_type ob)),
        print_when (obj_has_key ob)
          (\<lambda>st. riak_print_label_binary st (str ''Key'') (obj_key ob)),
        \<lambda>st. riak_print_label_binary st (str ''Value'') (obj_value ob),
        print_when (obj_has_charset ob)
          (\<lambda>st. riak_print_label_binary st (str ''Charsets'') (obj_charset ob)),
        print_when (obj_has_last_mod ob)
          (\<lambda>st. riak_print_label_time strftime st (str ''Last Mod'') (obj_last_mod ob)),
        print_when (obj_has_last_mod_usecs ob)
          (\<lambda>st. riak_print_label_int st (str ''Last Mod uSecs'') (obj_last_mod_usecs ob)),
        print_when (obj_has_content_type ob)
          (\<lambda>st. riak_print_label_binary st (str ''Content Type'') (obj_content_type ob)),
        print_when (obj_has_content_encoding ob)
          (\<lambda>st. riak_print_label_binary st (str ''Content Encoding'') (obj_encoding ob)),
        print_when (obj_has_deleted ob)
          (\<lambda>st. riak_print_label_bool st (str ''Deleted'') (obj_deleted ob)),
        print_when (obj_has_vtag ob)
          (\<lambda>st. riak_print_label_binary st (str ''VTag'') (obj_vtag ob)),
        links_print_loop (pa_list (obj_links ob)) (nat (sint (obj_n_links ob))),
        \<lambda>st. riak_print st (str ''User Meta-data'' @ [10]),
        \<lambda>st. riak_pairs_print st (obj_usermeta ob) (obj_n_usermeta ob),
        \<lambda>st. riak_print st (str ''Indexes'' @ [10]),
        \<lambda>st. riak_pairs_print st (obj_indexes ob) (obj_n_indexes ob)] st"

subsection \<open>Accessors\<close>

definition riak_object_get_bucket :: "riak_object \<Rightarrow> riak_binary option" where
  "riak_object_get_bucket ob = obj_bucket ob"

definition riak_object_get_bucket_type :: "riak_object \<Rightarrow> riak_binary option" where
  "riak_object_get_bucket_type ob = obj_bucket_type ob"

definition riak_object_has_bucket_type :: "riak_object \<Rightarrow> bool" where
  "riak_object_has_bucket_type ob = obj_has_bucket_type ob"

definition riak_object_get_has_key :: "riak_object \<Rightarrow> bool" where
  "riak_object_get_has_key ob = obj_has_key ob"

definition riak_object_get_key :: "riak_object \<Rightarrow> riak_binary option" where
  "riak_object_get_key ob = obj_key ob"

definition riak_object_get_value :: "riak_object \<Rightarrow> riak_binary option" where
  "riak_object_get_value ob = obj_value ob"

definition riak_object_get_has_charset :: "riak_object \<Rightarrow> bool" where
  "riak_object_get_has_charset ob = obj_has_charset ob"

definition riak_object_get_charset :: "riak_object \<Rightarrow> riak_binary option" where
  "riak_object_get_charset ob = obj_charset ob"

definition riak_object_get_has_last_mod :: "riak_object \<Rightarrow> bool" where
  "riak_object_get_has_last_mod ob = obj_has_last_mod ob"

definition riak_object_get_last_mod :: "riak_object \<Rightarrow> u32" where
  "riak_object_get_last_mod ob = obj_last_mod ob"

definition riak_object_get_has_last_mod_usecs :: "riak_object \<Rightarrow> bool" where
  "riak_object_get_has_last_mod_usecs ob = obj_has_last_mod_usecs ob"

definition riak_object_get_last_mod_usecs :: "riak_object \<Rightarrow> u32" where
  "riak_object_get_last_mod_usecs ob = obj_last_mod_usecs ob"

definition riak_object_get_has_content_type :: "riak_object \<Rightarrow> bool" where
  "riak_object_get_has_content_type ob = obj_has_content_type ob"

definition riak_object_get_content_type :: "riak_object \<Rightarrow> riak_binary option" where
  "riak_object_get_content_type ob = obj_content_type ob"

definition riak_object_get_has_content_encoding :: "riak_object \<Rightarrow> bool" where
  "riak_object_get_has_content_encoding ob = obj_has_content_encoding ob"

definition riak_object_get_content_encoding :: "riak_object \<Rightarrow> riak_binary option" where
  "riak_object_get_content_encoding ob = obj_encoding ob"

definition riak_object_get_has_deleted :: "riak_object \<Rightarrow> bool" where
  "riak_object_get_has_deleted ob = obj_has_deleted ob"

definition riak_object_get_deleted :: "riak_object \<Rightarrow> bool" where
  "riak_object_get_deleted ob = obj_deleted ob"

definition riak_object_get_has_vtag :: "riak_object \<Rightarrow> bool" where
  "riak_object_get_has_vtag ob = obj_has_vtag ob"

definition riak_object_get_vtag :: "riak_object \<Rightarrow> riak_binary option" where
  "riak_object_get_vtag ob = obj_vtag ob"

definition riak_object_get_n_links :: "riak_object \<Rightarrow> i32" where
  "riak_object_get_n_links ob = obj_n_links ob"

text \<open>The index is unsigned, so the bound is compared as unsigned.\<close>

definition pa_lookup :: "'a parray option \<Rightarrow> u32 \<Rightarrow> u32 \<Rightarrow> (riak_error \<times> 'a option) option" where
  "pa_lookup arr bound n =
     (if n \<ge> bound then Some (ERIAK_OUT_OF_RANGE, None)
      else do { a \<leftarrow> arr; guard (unat n < length (pa_cells a)); Some (ERIAK_OK, pa_cells a ! unat n) })"

definition riak_object_get_link :: "riak_object \<Rightarrow> u32 \<Rightarrow> (riak_error \<times> riak_link option) option" where
  "riak_object_get_link ob n = pa_lookup (obj_links ob) (obj_n_links ob) n"

definition riak_object_get_n_usermeta :: "riak_object \<Rightarrow> i32" where
  "riak_object_get_n_usermeta ob = obj_n_usermeta ob"

definition riak_object_get_usermeta :: "riak_object \<Rightarrow> u32 \<Rightarrow> (riak_error \<times> riak_pair option) option" where
  "riak_object_get_usermeta ob n = pa_lookup (obj_usermeta ob) (obj_n_usermeta ob) n"

definition riak_object_get_n_indexes :: "riak_object \<Rightarrow> i32" where
  "riak_object_get_n_indexes ob = obj_n_indexes ob"

definition riak_object_get_index :: "riak_object \<Rightarrow> u32 \<Rightarrow> (riak_error \<times> riak_pair option) option" where
  "riak_object_get_index ob n = pa_lookup (obj_indexes ob) (obj_n_indexes ob) n"

definition riak_object_set_bucket ::
  "riak_config option \<Rightarrow> riak_object \<Rightarrow> riak_binary option \<Rightarrow> mem \<Rightarrow> (riak_error \<times> riak_object \<times> mem) option"
where
  "riak_object_set_bucket cfg ob v m =
     do { (b, m) \<leftarrow> riak_binary_copy cfg v m;
          Some (if b = None then (ERIAK_OUT_OF_MEMORY, ob\<lparr>obj_bucket := None\<rparr>, m)
                else (ERIAK_OK, ob\<lparr>obj_bucket := b\<rparr>, m)) }"

definition riak_object_set_bucket_type ::
  "riak_config option \<Rightarrow> riak_object \<Rightarrow> riak_binary option \<Rightarrow> mem \<Rightarrow> (riak_error \<times> riak_object \<times> mem) option"
where
  "riak_object_set_bucket_type cfg ob v m =
     do { (b, m) \<leftarrow> riak_binary_copy cfg v m;
          Some (if b = None then (ERIAK_OUT_OF_MEMORY, ob\<lparr>obj_bucket_type := None\<rparr>, m)
                else (ERIAK_OK, ob\<lparr>obj_bucket_type := b, obj_has_bucket_type := True\<rparr>, m)) }"

definition riak_object_set_key ::
  "riak_config option \<Rightarrow> riak_object \<Rightarrow> riak_binary option \<Rightarrow> mem \<Rightarrow> (riak_error \<times> riak_object \<times> mem) option"
where
  "riak_object_set_key cfg ob v m =
     do { (b, m) \<leftarrow> riak_binary_copy cfg v m;
          Some (if b = None then (ERIAK_OUT_OF_MEMORY, ob\<lparr>obj_key := None\<rparr>, m)
                else (ERIAK_OK, ob\<lparr>obj_key := b, obj_has_key := True\<rparr>, m)) }"

definition riak_object_set_value ::
  "riak_config option \<Rightarrow> riak_object \<Rightarrow> riak_binary option \<Rightarrow> mem \<Rightarrow> (riak_error \<times> riak_object \<times> mem) option"
where
  "riak_object_set_value cfg ob v m =
     do { (b, m) \<leftarrow> riak_binary_copy cfg v m;
          Some (if b = None then (ERIAK_OUT_OF_MEMORY, ob\<lparr>obj_value := None\<rparr>, m)
                else (ERIAK_OK, ob\<lparr>obj_value := b\<rparr>, m)) }"

definition riak_object_set_value_shallow_copy ::
  "riak_config option \<Rightarrow> riak_object \<Rightarrow> riak_binary option \<Rightarrow> mem \<Rightarrow> (riak_error \<times> riak_object \<times> mem) option"
where
  "riak_object_set_value_shallow_copy cfg ob v m =
     do { (b, m) \<leftarrow> riak_binary_copy_shallow cfg v m;
          Some (if b = None then (ERIAK_OUT_OF_MEMORY, ob\<lparr>obj_value := None\<rparr>, m)
                else (ERIAK_OK, ob\<lparr>obj_value := b\<rparr>, m)) }"

definition riak_object_set_charset ::
  "riak_config option \<Rightarrow> riak_object \<Rightarrow> riak_binary option \<Rightarrow> mem \<Rightarrow> (riak_error \<times> riak_object \<times> mem) option"
where
  "riak_object_set_charset cfg ob v m =
     do { (b, m) \<leftarrow> riak_binary_copy cfg v m;
          Some (if b = None then (ERIAK_OUT_OF_MEMORY, ob\<lparr>obj_charset := None\<rparr>, m)
                else (ERIAK_OK, ob\<lparr>obj_charset := b, obj_has_charset := True\<rparr>, m)) }"

definition riak_object_set_last_mod :: "riak_object \<Rightarrow> u32 \<Rightarrow> riak_object" where
  "riak_object_set_last_mod ob v = ob\<lparr>obj_last_mod := v, obj_has_last_mod := True\<rparr>"

definition riak_object_set_last_mod_usecs :: "riak_object \<Rightarrow> u32 \<Rightarrow> riak_object" where
  "riak_object_set_last_mod_usecs ob v = ob\<lparr>obj_last_mod_usecs := v, obj_has_last_mod_usecs := True\<rparr>"

definition riak_object_set_content_type ::
  "riak_config option \<Rightarrow> riak_object \<Rightarrow> riak_binary option \<Rightarrow> mem \<Rightarrow> (riak_error \<times> riak_object \<times> mem) option"
where
  "riak_object_set_content_type cfg ob v m =
     do { (b, m) \<leftarrow> riak_binary_copy cfg v m;
          Some (if b = None then (ERIAK_OUT_OF_MEMORY, ob\<lparr>obj_content_type := None\<rparr>, m)
                else (ERIAK_OK, ob\<lparr>obj_content_type := b, obj_has_content_type := True\<rparr>, m)) }"

definition riak_object_set_content_encoding ::
  "riak_config option \<Rightarrow> riak_object \<Rightarrow> riak_binary option \<Rightarrow> mem \<Rightarrow> (riak_error \<times> riak_object \<times> mem) option"
where
  "riak_object_set_content_encoding cfg ob v m =
     do { (b, m) \<leftarrow> riak_binary_copy cfg v m;
          Some (if b = None then (ERIAK_OUT_OF_MEMORY, ob\<lparr>obj_encoding := None\<rparr>, m)
                else (ERIAK_OK, ob\<lparr>obj_encoding := b, obj_has_content_encoding := True\<rparr>, m)) }"

definition riak_object_set_deleted :: "riak_object \<Rightarrow> bool \<Rightarrow> riak_object" where
  "riak_object_set_deleted ob v = ob\<lparr>obj_deleted := v, obj_has_deleted := True\<rparr>"

definition riak_object_set_vtag ::
  "riak_config option \<Rightarrow> riak_object \<Rightarrow> riak_binary option \<Rightarrow> mem \<Rightarrow> (riak_error \<times> riak_object \<times> mem) option"
where
  "riak_object_set_vtag cfg ob v m =
     do { (b, m) \<leftarrow> riak_binary_copy cfg v m;
          Some (if b = None then (ERIAK_OUT_OF_MEMORY, ob\<lparr>obj_vtag := None\<rparr>, m)
                else (ERIAK_OK, ob\<lparr>obj_vtag := b, obj_has_vtag := True\<rparr>, m)) }"

subsection \<open>Adding a link or a pair\<close>

text \<open>
  The array is created or enlarged by one, and the new element, which may be NULL, stored in
  its last place. Whether \<open>riak_array_realloc\<close> succeeded is not looked at.
\<close>

definition array_extend ::
  "riak_config option \<Rightarrow> string \<Rightarrow> 'a parray option \<Rightarrow> i32 \<Rightarrow> mem \<Rightarrow> ('a parray option \<times> mem) option"
where
  "array_extend cfg elt arr n m =
     (if arr = None
      then (let (a, m) = riak_config_clean_allocate cfg (SizeOf elt 1) m
            in Some (map_option (\<lambda>a. \<lparr>pa_addr = a, pa_cells = [None]\<rparr>) a, m))
      else do { (done, arr, m) \<leftarrow> riak_array_realloc cfg arr elt n (n + 1) m; Some (arr, m) })"

definition cell_store :: "'a parray \<Rightarrow> i32 \<Rightarrow> 'a option \<Rightarrow> 'a parray option" where
  "cell_store arr n x =
     do { guard (0 \<le> sint n \<and> nat (sint n) < length (pa_cells arr));
          Some (arr\<lparr>pa_cells := (pa_cells arr)[nat (sint n) := x]\<rparr>) }"

definition riak_object_new_link ::
  "riak_config option \<Rightarrow> riak_object \<Rightarrow> mem \<Rightarrow> (riak_link option \<times> riak_object \<times> mem) option"
where
  "riak_object_new_link cfg ob m =
     do { (arr, m) \<leftarrow> array_extend cfg ''riak_link*'' (obj_links ob) (obj_n_links ob) m;
          (case arr of
             None \<Rightarrow> Some (None, ob\<lparr>obj_links := None\<rparr>, m)
           | Some a \<Rightarrow>
               do { let (x, m) = riak_link_new cfg m;
                    a \<leftarrow> cell_store a (obj_n_links ob) x;
                    let ob = ob\<lparr>obj_links := Some a\<rparr>;
                    Some (x, if x \<noteq> None then ob\<lparr>obj_n_links := obj_n_links ob + 1\<rparr> else ob, m) }) }"

definition riak_object_new_usermeta ::
  "riak_config option \<Rightarrow> riak_object \<Rightarrow> mem \<Rightarrow> (riak_pair option \<times> riak_object \<times> mem) option"
where
  "riak_object_new_usermeta cfg ob m =
     do { (arr, m) \<leftarrow> array_extend cfg ''riak_pair*'' (obj_usermeta ob) (obj_n_usermeta ob) m;
          (case arr of
             None \<Rightarrow> Some (None, ob\<lparr>obj_usermeta := None\<rparr>, m)
           | Some a \<Rightarrow>
               do { let (x, m) = riak_pair_new cfg m;
                    a \<leftarrow> cell_store a (obj_n_usermeta ob) x;
                    let ob = ob\<lparr>obj_usermeta := Some a\<rparr>;
                    Some (x, if x \<noteq> None then ob\<lparr>obj_n_usermeta := obj_n_usermeta ob + 1\<rparr> else ob, m) }) }"

definition riak_object_new_index ::
  "riak_config option \<Rightarrow> riak_object \<Rightarrow> mem \<Rightarrow> (riak_pair option \<times> riak_object \<times> mem) option"
where
  "riak_object_new_index cfg ob m =
     do { (arr, m) \<leftarrow> array_extend cfg ''riak_pair*'' (obj_indexes ob) (obj_n_indexes ob) m;
          (case arr of
             None \<Rightarrow> Some (None, ob\<lparr>obj_indexes := None\<rparr>, m)
           | Some a \<Rightarrow>
               do { let (x, m) = riak_pair_new cfg m;
                    a \<leftarrow> cell_store a (obj_n_indexes ob) x;
                    let ob = ob\<lparr>obj_indexes := Some a\<rparr>;
                    Some (x, if x \<noteq> None then ob\<lparr>obj_n_indexes := obj_n_indexes ob + 1\<rparr> else ob, m) }) }"

subsection \<open>What an object owns\<close>

text \<open>
  An array is in order when its first \<open>n\<close> pointers exist and are not NULL; \<open>arr_elems\<close> are the
  structures they point to.
\<close>

definition arr_ok :: "'a parray option \<Rightarrow> nat \<Rightarrow> bool" where
  "arr_ok p n \<longleftrightarrow> n \<le> length (pa_list p) \<and> None \<notin> set (take n (pa_list p))"

definition arr_elems :: "'a parray option \<Rightarrow> nat \<Rightarrow> 'a list" where
  "arr_elems p n = map the (take n (pa_list p))"

definition arr_owned :: "('a \<Rightarrow> addr list) \<Rightarrow> 'a parray option \<Rightarrow> nat \<Rightarrow> addr list" where
  "arr_owned own p n = concat (map own (arr_elems p n)) @ ptrs (map_option pa_addr p)"

lemma arr_simps [simp]:
  "pa_list None = []" "pa_list (Some a) = pa_cells a"
  "arr_ok p 0" "arr_elems p 0 = []" "arr_owned own None 0 = []"
  by (simp_all add: pa_list_def arr_ok_def arr_elems_def arr_owned_def)

lemma arr_ok_map [simp]: "n = length xs \<Longrightarrow> arr_ok (Some \<lparr>pa_addr = a, pa_cells = map Some xs\<rparr>) n"
  by (auto simp: arr_ok_def)

lemma arr_elems_map [simp]:
  "n = length xs \<Longrightarrow> arr_elems (Some \<lparr>pa_addr = a, pa_cells = map Some xs\<rparr>) n = xs"
  by (simp add: arr_elems_def comp_def)

lemma arr_ok_cells:
  assumes "arr_ok p n"
  obtains rest where "pa_list p = map Some (arr_elems p n) @ rest" "length (arr_elems p n) = n"
proof
  have "map Some (arr_elems p n) = take n (pa_list p)"
    using assms unfolding arr_ok_def arr_elems_def
    by (auto simp: comp_def intro!: map_idI) (metis option.collapse)
  then show "pa_list p = map Some (arr_elems p n) @ drop n (pa_list p)" by simp
  show "length (arr_elems p n) = n" using assms by (simp add: arr_ok_def arr_elems_def)
qed

lemma free_cells_owned:
  "(\<And>x m. x \<in> set xs \<Longrightarrow> f x m = mem_free_all (own x) m) \<Longrightarrow>
   free_cells f (map Some xs @ rest) (length xs) m = mem_free_all (concat (map own xs)) m"
proof (induction xs arbitrary: m)
  case (Cons x xs)
  then have "free_cells f (map Some xs @ rest) (length xs) = mem_free_all (concat (map own xs))"
    by (intro ext) simp
  with Cons.prems show ?case by simp
qed simp

lemma free_array_owned:
  assumes "cfg_ok cfg" "arr_ok p n" "\<And>x m. x \<in> set (arr_elems p n) \<Longrightarrow> f x m = mem_free_all (own x) m"
  shows "free_cells f (pa_list p) n m \<bind> riak_free cfg (map_option pa_addr p) =
    mem_free_all (arr_owned own p n) m"
proof -
  obtain rest where "pa_list p = map Some (arr_elems p n) @ rest" "length (arr_elems p n) = n"
    using arr_ok_cells [OF assms(2)] .
  then have "free_cells f (pa_list p) n m = mem_free_all (concat (map own (arr_elems p n))) m"
    using free_cells_owned [of "arr_elems p n" f own rest m] assms(3) by simp
  then show ?thesis using assms(1) by (simp add: arr_owned_def riak_free_ptrs)
qed

definition pair_owned :: "riak_pair \<Rightarrow> addr list" where
  "pair_owned p = bin.owned_p (pair_key p) @ bin.owned_p (pair_value p) @ [pair_at p]"

definition link_owned :: "riak_link \<Rightarrow> addr list" where
  "link_owned l = bin.owned_p (link_bucket l) @ bin.owned_p (link_key l) @
     bin.owned_p (link_tag l) @ [link_at l]"

abbreviation int_count :: "i32 \<Rightarrow> nat" where
  "int_count n \<equiv> nat (sint n)"

lemma pair_free_owned: "cfg_ok cfg \<Longrightarrow> pair_free cfg p m = mem_free_all (pair_owned p) m"
  by (simp add: pair_free_def pair_owned_def mem_simps)

lemma link_free_owned: "cfg_ok cfg \<Longrightarrow> link_free cfg l m = mem_free_all (link_owned l) m"
  by (simp add: link_free_def link_owned_def mem_simps)

lemma riak_pairs_free_owned:
  "cfg_ok cfg \<Longrightarrow> arr_ok p (int_count n) \<Longrightarrow>
   riak_pairs_free cfg p n m = mem_free_all (arr_owned pair_owned p (int_count n)) m"
  unfolding riak_pairs_free_def by (rule free_array_owned) (simp_all add: pair_free_owned)

lemma riak_links_free_owned:
  "cfg_ok cfg \<Longrightarrow> arr_ok p (int_count n) \<Longrightarrow>
   riak_links_free cfg p n m = mem_free_all (arr_owned link_owned p (int_count n)) m"
  unfolding riak_links_free_def by (rule free_array_owned) (simp_all add: link_free_owned)

definition obj_arrays_ok :: "riak_object \<Rightarrow> bool" where
  "obj_arrays_ok ob \<longleftrightarrow> arr_ok (obj_indexes ob) (int_count (obj_n_indexes ob)) \<and>
     arr_ok (obj_usermeta ob) (int_count (obj_n_usermeta ob)) \<and>
     arr_ok (obj_links ob) (int_count (obj_n_links ob))"

definition obj_owned :: "riak_object \<Rightarrow> addr list" where
  "obj_owned ob =
     bin.owned_p (obj_bucket_type ob) @ bin.owned_p (obj_bucket ob) @ bin.owned_p (obj_charset ob) @
     bin.owned_p (obj_content_type ob) @ bin.owned_p (obj_encoding ob) @ bin.owned_p (obj_key ob) @
     bin.owned_p (obj_value ob) @ bin.owned_p (obj_vtag ob) @
     arr_owned pair_owned (obj_indexes ob) (int_count (obj_n_indexes ob)) @
     arr_owned pair_owned (obj_usermeta ob) (int_count (obj_n_usermeta ob)) @
     arr_owned link_owned (obj_links ob) (int_count (obj_n_links ob)) @ [obj_at ob]"

interpretation obj: owned_ptr obj_arrays_ok obj_owned riak_object_free
proof
  fix cfg and x :: riak_object and m
  assume "cfg_ok cfg" "obj_arrays_ok x"
  then show "riak_object_free cfg (Some x) m = mem_free_all (obj_owned x) m"
    by (simp add: riak_object_free_def obj_owned_def obj_arrays_ok_def mem_simps
        riak_pairs_free_owned riak_links_free_owned)
qed (simp add: riak_object_free_def)

lemma riak_object_free_owned:
  "cfg_ok cfg \<Longrightarrow> pred_option obj_arrays_ok p \<Longrightarrow>
   riak_object_free cfg p m = mem_free_all (obj.owned_p p) m"
  by (rule obj.release_ptr)

lemma free_objects_owned:
  "cfg_ok cfg \<Longrightarrow> list_all (pred_option obj_arrays_ok) xs \<Longrightarrow>
   free_objects cfg (xs @ rest) (length xs) m = mem_free_all (concat (map obj.owned_p xs)) m"
proof (induction xs arbitrary: m)
  case (Cons x xs)
  then have "free_objects cfg (xs @ rest) (length xs) = mem_free_all (concat (map obj.owned_p xs))"
    by (intro ext) simp
  with Cons.prems show ?case by (simp add: riak_object_free_owned)
qed simp

lemma riak_object_free_array_owned:
  assumes "cfg_ok cfg" "list_all (pred_option obj_arrays_ok) (pa_cells a)" "unat len = length (pa_cells a)"
  shows "riak_object_free_array cfg (Some a) len m =
    mem_free_all (concat (map obj.owned_p (pa_cells a)) @ [pa_addr a]) m"
  using free_objects_owned [OF assms(1,2), of "[]" m] assms(1,3)
  by (simp add: riak_object_free_array_def mem_simps)

subsection \<open>The contents of objects and messages\<close>

text \<open>What an object or a message says, without flags, pointers and addresses.\<close>

record content =
  ct_value :: bytes
  ct_charset :: "bytes option"
  ct_encoding :: "bytes option"
  ct_type :: "bytes option"
  ct_vtag :: "bytes option"
  ct_deleted :: "bool option"
  ct_last_mod :: "u32 option"
  ct_usecs :: "u32 option"
  ct_indexes :: "(bytes \<times> bytes option) list"
  ct_usermeta :: "(bytes \<times> bytes option) list"
  ct_links :: "(bytes option \<times> bytes option \<times> bytes option) list"

definition when_flag :: "bool \<Rightarrow> 'a \<Rightarrow> 'a option" where
  "when_flag b x = (if b then Some x else None)"

lemma when_flag_simps [simp]: "when_flag True x = Some x" "when_flag False x = None"
  by (simp_all add: when_flag_def)

definition pbb_wf :: "pb_binary \<Rightarrow> bool" where
  "pbb_wf b \<longleftrightarrow> c_read (pbb_data b) (unat (pbb_len b)) \<noteq> None"

definition pbb_bytes :: "pb_binary \<Rightarrow> bytes" where
  "pbb_bytes b = the (c_read (pbb_data b) (unat (pbb_len b)))"

definition ptr_wf :: "riak_binary option \<Rightarrow> bool" where
  "ptr_wf p \<longleftrightarrow> (case p of None \<Rightarrow> False | Some b \<Rightarrow> bin_wf b)"

definition ptr_bytes :: "riak_binary option \<Rightarrow> bytes" where
  "ptr_bytes p = bin_bytes (the p)"

definition pair_wf :: "riak_pair \<Rightarrow> bool" where
  "pair_wf p \<longleftrightarrow> ptr_wf (pair_key p) \<and> (pair_has_value p \<longrightarrow> ptr_wf (pair_value p))"

definition pair_content :: "riak_pair \<Rightarrow> bytes \<times> bytes option" where
  "pair_content p = (ptr_bytes (pair_key p), when_flag (pair_has_value p) (ptr_bytes (pair_value p)))"

definition link_wf :: "riak_link \<Rightarrow> bool" where
  "link_wf l \<longleftrightarrow> (link_has_bucket l \<longrightarrow> ptr_wf (link_bucket l)) \<and>
     (link_has_key l \<longrightarrow> ptr_wf (link_key l)) \<and> (link_has_tag l \<longrightarrow> ptr_wf (link_tag l))"

definition link_content :: "riak_link \<Rightarrow> bytes option \<times> bytes option \<times> bytes option" where
  "link_content l = (when_flag (link_has_bucket l) (ptr_bytes (link_bucket l)),
     when_flag (link_has_key l) (ptr_bytes (link_key l)),
     when_flag (link_has_tag l) (ptr_bytes (link_tag l)))"

definition rpp_wf :: "rpb_pair \<Rightarrow> bool" where
  "rpp_wf p \<longleftrightarrow> pbb_wf (rpp_key p) \<and> (rpp_has_value p \<longrightarrow> pbb_wf (rpp_value p))"

definition rpp_content :: "rpb_pair \<Rightarrow> bytes \<times> bytes option" where
  "rpp_content p = (pbb_bytes (rpp_key p), when_flag (rpp_has_value p) (pbb_bytes (rpp_value p)))"

definition rpl_wf :: "rpb_link \<Rightarrow> bool" where
  "rpl_wf l \<longleftrightarrow> (rpl_has_bucket l \<longrightarrow> pbb_wf (rpl_bucket l)) \<and>
     (rpl_has_key l \<longrightarrow> pbb_wf (rpl_key l)) \<and> (rpl_has_tag l \<longrightarrow> pbb_wf (rpl_tag l))"

definition rpl_content :: "rpb_link \<Rightarrow> bytes option \<times> bytes option \<times> bytes option" where
  "rpl_content l = (when_flag (rpl_has_bucket l) (pbb_bytes (rpl_bucket l)),
     when_flag (rpl_has_key l) (pbb_bytes (rpl_key l)),
     when_flag (rpl_has_tag l) (pbb_bytes (rpl_tag l)))"

definition object_wf :: "riak_object \<Rightarrow> bool" where
  "object_wf ob \<longleftrightarrow> ptr_wf (obj_value ob) \<and>
     (obj_has_charset ob \<longrightarrow> ptr_wf (obj_charset ob)) \<and>
     (obj_has_content_encoding ob \<longrightarrow> ptr_wf (obj_encoding ob)) \<and>
     (obj_has_content_type ob \<longrightarrow> ptr_wf (obj_content_type ob)) \<and>
     (obj_has_vtag ob \<longrightarrow> ptr_wf (obj_vtag ob)) \<and> obj_arrays_ok ob \<and>
     list_all pair_wf (arr_elems (obj_indexes ob) (int_count (obj_n_indexes ob))) \<and>
     list_all pair_wf (arr_elems (obj_usermeta ob) (int_count (obj_n_usermeta ob))) \<and>
     list_all link_wf (arr_elems (obj_links ob) (int_count (obj_n_links ob)))"

definition object_content :: "riak_object \<Rightarrow> content" where
  "object_content ob =
     \<lparr>ct_value = ptr_bytes (obj_value ob),
      ct_charset = when_flag (obj_has_charset ob) (ptr_bytes (obj_charset ob)),
      ct_encoding = when_flag (obj_has_content_encoding ob) (ptr_bytes (obj_encoding ob)),
      ct_type = when_flag (obj_has_content_type ob) (ptr_bytes (obj_content_type ob)),
      ct_vtag = when_flag (obj_has_vtag ob) (ptr_bytes (obj_vtag ob)),
      ct_deleted = when_flag (obj_has_deleted ob) (obj_deleted ob),
      ct_last_mod = when_flag (obj_has_last_mod ob) (obj_last_mod ob),
      ct_usecs = when_flag (obj_has_last_mod_usecs ob) (obj_last_mod_usecs ob),
      ct_indexes = map pair_content (arr_elems (obj_indexes ob) (int_count (obj_n_indexes ob))),
      ct_usermeta = map pair_content (arr_elems (obj_usermeta ob) (int_count (obj_n_usermeta ob))),
      ct_links = map link_content (arr_elems (obj_links ob) (int_count (obj_n_links ob)))\<rparr>"

definition rpc_wf :: "rpb_content \<Rightarrow> bool" where
  "rpc_wf c \<longleftrightarrow> pbb_wf (rpc_value c) \<and>
     (rpc_has_charset c \<longrightarrow> pbb_wf (rpc_charset c)) \<and>
     (rpc_has_content_encoding c \<longrightarrow> pbb_wf (rpc_content_encoding c)) \<and>
     (rpc_has_content_type c \<longrightarrow> pbb_wf (rpc_content_type c)) \<and>
     (rpc_has_vtag c \<longrightarrow> pbb_wf (rpc_vtag c)) \<and>
     unat (rpc_n_indexes c) < 2 ^ 31 \<and> unat (rpc_n_usermeta c) < 2 ^ 31 \<and>
     unat (rpc_n_links c) < 2 ^ 31 \<and>
     arr_ok (rpc_indexes c) (unat (rpc_n_indexes c)) \<and>
     arr_ok (rpc_usermeta c) (unat (rpc_n_usermeta c)) \<and>
     arr_ok (rpc_links c) (unat (rpc_n_links c)) \<and>
     list_all rpp_wf (arr_elems (rpc_indexes c) (unat (rpc_n_indexes c))) \<and>
     list_all rpp_wf (arr_elems (rpc_usermeta c) (unat (rpc_n_usermeta c))) \<and>
     list_all rpl_wf (arr_elems (rpc_links c) (unat (rpc_n_links c)))"

definition rpb_content_of :: "rpb_content \<Rightarrow> content" where
  "rpb_content_of c =
     \<lparr>ct_value = pbb_bytes (rpc_value c),
      ct_charset = when_flag (rpc_has_charset c) (pbb_bytes (rpc_charset c)),
      ct_encoding = when_flag (rpc_has_content_encoding c) (pbb_bytes (rpc_content_encoding c)),
      ct_type = when_flag (rpc_has_content_type c) (pbb_bytes (rpc_content_type c)),
      ct_vtag = when_flag (rpc_has_vtag c) (pbb_bytes (rpc_vtag c)),
      ct_deleted = when_flag (rpc_has_deleted c) (rpc_deleted c),
      ct_last_mod = when_flag (rpc_has_last_mod c) (rpc_last_mod c),
      ct_usecs = when_flag (rpc_has_last_mod_usecs c) (rpc_last_mod_usecs c),
      ct_indexes = map rpp_content (arr_elems (rpc_indexes c) (unat (rpc_n_indexes c))),
      ct_usermeta = map rpp_content (arr_elems (rpc_usermeta c) (unat (rpc_n_usermeta c))),
      ct_links = map rpl_content (arr_elems (rpc_links c) (unat (rpc_n_links c)))\<rparr>"

text \<open>The blocks a message filled in by \<open>riak_object_to_pb_copy\<close> owns: its three arrays.\<close>

definition rpc_owned :: "rpb_content \<Rightarrow> addr list" where
  "rpc_owned c =
     arr_owned (\<lambda>p. [rpp_at p]) (rpc_indexes c) (unat (rpc_n_indexes c)) @
     arr_owned (\<lambda>p. [rpp_at p]) (rpc_usermeta c) (unat (rpc_n_usermeta c)) @
     arr_owned (\<lambda>p. [rpl_at p]) (rpc_links c) (unat (rpc_n_links c))"

text \<open>What protobuf-c documents of the \<open>init\<close> functions: no flag is set and no array is there.\<close>

definition rpc_empty :: "rpb_content \<Rightarrow> bool" where
  "rpc_empty c \<longleftrightarrow> \<not> rpc_has_charset c \<and> \<not> rpc_has_content_encoding c \<and>
     \<not> rpc_has_content_type c \<and> \<not> rpc_has_vtag c \<and> \<not> rpc_has_deleted c \<and>
     \<not> rpc_has_last_mod c \<and> \<not> rpc_has_last_mod_usecs c \<and> rpc_n_indexes c = 0 \<and>
     rpc_indexes c = None \<and> rpc_n_usermeta c = 0 \<and> rpc_usermeta c = None \<and>
     rpc_n_links c = 0 \<and> rpc_links c = None"

definition inits_empty :: "rpb_inits \<Rightarrow> bool" where
  "inits_empty i \<longleftrightarrow> \<not> rpp_has_value (init_pair i) \<and> \<not> rpl_has_bucket (init_link i) \<and>
     \<not> rpl_has_key (init_link i) \<and> \<not> rpl_has_tag (init_link i)"

subsection \<open>From an object to a message\<close>

lemma ptr_wfE:
  assumes "ptr_wf p" obtains b where "p = Some b" "bin_wf b"
  using assms by (auto simp: ptr_wf_def split: option.splits)

lemma copy_to_pb_ok:
  assumes "ptr_wf p"
  shows "\<exists>b. riak_binary_copy_to_pb p = Some b \<and> pbb_wf b \<and> pbb_bytes b = ptr_bytes p"
  using assms by (elim ptr_wfE)
    (auto simp: riak_binary_copy_to_pb_def pbb_wf_def pbb_bytes_def ptr_bytes_def bin_wf_def bin_bytes_def)

lemma opt_to_pb_ok:
  assumes "has \<longrightarrow> ptr_wf p"
  shows "\<exists>b. opt_to_pb has p (False, b0) = Some (has, b) \<and> (has \<longrightarrow> pbb_wf b) \<and>
    when_flag has (pbb_bytes b) = when_flag has (ptr_bytes p)"
  using copy_to_pb_ok [of p] assms by (cases has) (auto simp: opt_to_pb_def)

lemma mem_allocs_Cons: "mem_allocs (mem_push m) xs m' \<Longrightarrow> mem_allocs m (mem_next m # xs) m'"
  using mem_allocs_trans [OF mem_allocs_push] by fastforce

lemma pairs_to_pb_loop_ok:
  assumes "cfg_grants cfg" "\<not> rpp_has_value ini" "list_all pair_wf ps"
  shows "\<exists>pbs m'. pairs_to_pb_loop cfg ini (map Some ps @ rest) (length ps) m =
      Some (ERIAK_OK, map Some pbs, m') \<and> length pbs = length ps \<and> list_all rpp_wf pbs \<and>
    map rpp_content pbs = map pair_content ps \<and> mem_allocs m (map rpp_at pbs) m'"
  using assms(3)
proof (induction ps arbitrary: m)
  case Nil
  then show ?case by (intro exI [of _ "[]"]) simp
next
  case (Cons p ps)
  obtain k where k: "riak_binary_copy_to_pb (pair_key p) = Some k" "pbb_wf k"
    "pbb_bytes k = ptr_bytes (pair_key p)"
    using copy_to_pb_ok [of "pair_key p"] Cons.prems by (auto simp: pair_wf_def)
  obtain pbs m' where IH: "pairs_to_pb_loop cfg ini (map Some ps @ rest) (length ps) (mem_push m) =
      Some (ERIAK_OK, map Some pbs, m')" "length pbs = length ps" "list_all rpp_wf pbs"
    "map rpp_content pbs = map pair_content ps" "mem_allocs (mem_push m) (map rpp_at pbs) m'"
    using Cons.IH [of "mem_push m"] Cons.prems by auto
  obtain pb where pb: "rpp_at pb = mem_next m" "rpp_wf pb" "rpp_content pb = pair_content p"
    and step: "pairs_to_pb_loop cfg ini (map Some (p # ps) @ rest) (length (p # ps)) m =
      Some (ERIAK_OK, map Some (pb # pbs), m')"
  proof (cases "pair_has_value p")
    case True
    then obtain v where v: "riak_binary_copy_to_pb (pair_value p) = Some v" "pbb_wf v"
      "pbb_bytes v = ptr_bytes (pair_value p)"
      using copy_to_pb_ok [of "pair_value p"] Cons.prems by (auto simp: pair_wf_def)
    show ?thesis
      by (rule that [of "ini\<lparr>rpp_at := mem_next m, rpp_key := k, rpp_has_value := True, rpp_value := v\<rparr>"])
        (simp_all add: k v IH True rpp_wf_def rpp_content_def pair_content_def clean_allocate_eq
          allocate_granted [OF assms(1)])
  next
    case False
    show ?thesis
      by (rule that [of "ini\<lparr>rpp_at := mem_next m, rpp_key := k\<rparr>"])
        (simp_all add: k IH False assms(2) rpp_wf_def rpp_content_def pair_content_def clean_allocate_eq
          allocate_granted [OF assms(1)])
  qed
  show ?case
    using step pb IH mem_allocs_Cons [OF IH(5)] by (intro exI [of _ "pb # pbs"] exI [of _ m']) simp
qed

lemma links_to_pb_loop_ok:
  assumes "cfg_grants cfg" "\<not> rpl_has_bucket ini" "\<not> rpl_has_key ini" "\<not> rpl_has_tag ini"
    "list_all link_wf ls"
  shows "\<exists>pbs m'. links_to_pb_loop cfg ini (map Some ls @ rest) (length ls) m =
      Some (ERIAK_OK, map Some pbs, m') \<and> length pbs = length ls \<and> list_all rpl_wf pbs \<and>
    map rpl_content pbs = map link_content ls \<and> mem_allocs m (map rpl_at pbs) m'"
  using assms(5)
proof (induction ls arbitrary: m)
  case Nil
  then show ?case by (intro exI [of _ "[]"]) simp
next
  case (Cons l ls)
  obtain pbs m' where IH: "links_to_pb_loop cfg ini (map Some ls @ rest) (length ls) (mem_push m) =
      Some (ERIAK_OK, map Some pbs, m')" "length pbs = length ls" "list_all rpl_wf pbs"
    "map rpl_content pbs = map link_content ls" "mem_allocs (mem_push m) (map rpl_at pbs) m'"
    using Cons.IH [of "mem_push m"] Cons.prems by auto
  have wf: "link_has_bucket l \<longrightarrow> ptr_wf (link_bucket l)" "link_has_key l \<longrightarrow> ptr_wf (link_key l)"
    "link_has_tag l \<longrightarrow> ptr_wf (link_tag l)"
    using Cons.prems by (simp_all add: link_wf_def)
  obtain b where b: "opt_to_pb (link_has_bucket l) (link_bucket l) (False, rpl_bucket ini) =
      Some (link_has_bucket l, b)" "link_has_bucket l \<longrightarrow> pbb_wf b"
    "when_flag (link_has_bucket l) (pbb_bytes b) = when_flag (link_has_bucket l) (ptr_bytes (link_bucket l))"
    using opt_to_pb_ok [OF wf(1)] by blast
  obtain k where k: "opt_to_pb (link_has_key l) (link_key l) (False, rpl_key ini) =
      Some (link_has_key l, k)" "link_has_key l \<longrightarrow> pbb_wf k"
    "when_flag (link_has_key l) (pbb_bytes k) = when_flag (link_has_key l) (ptr_bytes (link_key l))"
    using opt_to_pb_ok [OF wf(2)] by blast
  obtain t where t: "opt_to_pb (link_has_tag l) (link_tag l) (False, rpl_tag ini) =
      Some (link_has_tag l, t)" "link_has_tag l \<longrightarrow> pbb_wf t"
    "when_flag (link_has_tag l) (pbb_bytes t) = when_flag (link_has_tag l) (ptr_bytes (link_tag l))"
    using opt_to_pb_ok [OF wf(3)] by blast
  let ?pb = "ini\<lparr>rpl_at := mem_next m, rpl_has_bucket := link_has_bucket l, rpl_bucket := b,
    rpl_has_key := link_has_key l, rpl_key := k, rpl_has_tag := link_has_tag l, rpl_tag := t\<rparr>"
  have "links_to_pb_loop cfg ini (map Some (l # ls) @ rest) (length (l # ls)) m =
      Some (ERIAK_OK, map Some (?pb # pbs), m')"
    using IH(1) b(1) k(1) t(1) assms(2-4)
    by (simp add: link_to_pb_def clean_allocate_eq allocate_granted [OF assms(1)])
  moreover have "rpl_wf ?pb" "rpl_content ?pb = link_content l" "rpl_at ?pb = mem_next m"
    using b k t by (simp_all add: rpl_wf_def rpl_content_def link_content_def)
  ultimately show ?case
    using IH(2-4) mem_allocs_Cons [OF IH(5)] by (intro exI [of _ "?pb # pbs"] exI [of _ m']) simp
qed

lemma scast_count: "0 < sint (n :: i32) \<Longrightarrow> unat (scast n :: u64) = int_count n"
proof -
  assume *: "0 < sint n"
  have "uint (scast n :: u64) = take_bit 64 (sint n)" unfolding scast_eq by (simp only: unsigned_of_int) simp
  also have "\<dots> = sint n" using * sint_lt [of n] by (intro take_bit_int_eq_self) simp_all
  finally show ?thesis by (simp flip: nat_uint_eq)
qed

lemma int_count_less: "int_count n < 2 ^ 31"
  using sint_lt [of n] by simp

lemma mem_allocs_mset: "mem_allocs m xs m' \<Longrightarrow> mset ys = mset xs \<Longrightarrow> mem_allocs m ys m'"
  using mset_eq_setD [of ys xs] mset_eq_imp_distinct_iff [of ys xs]
  by (simp add: mem_allocs_def)

text \<open>
  \<open>copies \<dots> m cs q k m'\<close>: the array \<open>q\<close> of \<open>k\<close> well-formed structures with the contents \<open>cs\<close>
  is all that was allocated between \<open>m\<close> and \<open>m'\<close>.
\<close>

definition copies ::
  "('b \<Rightarrow> bool) \<Rightarrow> ('b \<Rightarrow> 'c) \<Rightarrow> ('b \<Rightarrow> addr list) \<Rightarrow> mem \<Rightarrow> 'c list \<Rightarrow> 'b parray option \<Rightarrow> nat \<Rightarrow>
   mem \<Rightarrow> bool"
where
  "copies good ct own m cs q k m' \<longleftrightarrow> arr_ok q k \<and> list_all good (arr_elems q k) \<and>
     map ct (arr_elems q k) = cs \<and> mem_allocs m (arr_owned own q k) m'"

lemma copies_none [simp]: "copies good ct own m [] None 0 m"
  by (simp add: copies_def)

lemma copiesI:
  assumes "length ys = k" "list_all good ys" "map ct ys = cs" "mem_allocs (mem_push m) (concat (map own ys)) m'"
  shows "copies good ct own m cs (Some \<lparr>pa_addr = mem_next m, pa_cells = map Some ys\<rparr>) k m'"
proof -
  have "mem_allocs m (concat (map own ys) @ [mem_next m]) m'"
    by (rule mem_allocs_mset [OF mem_allocs_Cons [OF assms(4)]]) simp
  then show ?thesis using assms(1-3) by (simp add: copies_def arr_owned_def)
qed

lemma riak_pairs_copy_to_pb_ok:
  assumes "cfg_grants cfg" "\<not> rpp_has_value ini" "arr_ok p (int_count n)"
    "list_all pair_wf (arr_elems p (int_count n))"
  shows "\<exists>q m'. riak_pairs_copy_to_pb cfg ini p n m = Some (ERIAK_OK, q, m') \<and>
    copies rpp_wf rpp_content (\<lambda>p. [rpp_at p]) m
      (map pair_content (arr_elems p (int_count n))) q (int_count n) m'"
proof -
  let ?xs = "arr_elems p (int_count n)"
  obtain rest where p: "pa_list p = map Some ?xs @ rest" "length ?xs = int_count n"
    using arr_ok_cells [OF assms(3)] .
  obtain pbs m' where l: "pairs_to_pb_loop cfg ini (map Some ?xs @ rest) (length ?xs) (mem_push m) =
      Some (ERIAK_OK, map Some pbs, m')" "length pbs = length ?xs" "list_all rpp_wf pbs"
    "map rpp_content pbs = map pair_content ?xs" "mem_allocs (mem_push m) (map rpp_at pbs) m'"
    using pairs_to_pb_loop_ok [OF assms(1,2,4)] by blast
  have "copies rpp_wf rpp_content (\<lambda>p. [rpp_at p]) m (map pair_content ?xs)
      (Some \<lparr>pa_addr = mem_next m, pa_cells = map Some pbs\<rparr>) (int_count n) m'"
    using l p by (intro copiesI) simp_all
  then show ?thesis using l p
    by (simp add: riak_pairs_copy_to_pb_def clean_allocate_eq allocate_granted [OF assms(1)])
qed

lemma riak_links_copy_to_pb_ok:
  assumes "cfg_grants cfg" "\<not> rpl_has_bucket ini" "\<not> rpl_has_key ini" "\<not> rpl_has_tag ini"
    "arr_ok p (int_count n)" "list_all link_wf (arr_elems p (int_count n))"
  shows "\<exists>q m'. riak_links_copy_to_pb cfg ini p n m = Some (ERIAK_OK, q, m') \<and>
    copies rpl_wf rpl_content (\<lambda>p. [rpl_at p]) m
      (map link_content (arr_elems p (int_count n))) q (int_count n) m'"
proof -
  let ?xs = "arr_elems p (int_count n)"
  obtain rest where p: "pa_list p = map Some ?xs @ rest" "length ?xs = int_count n"
    using arr_ok_cells [OF assms(5)] .
  obtain pbs m' where l: "links_to_pb_loop cfg ini (map Some ?xs @ rest) (length ?xs) (mem_push m) =
      Some (ERIAK_OK, map Some pbs, m')" "length pbs = length ?xs" "list_all rpl_wf pbs"
    "map rpl_content pbs = map link_content ?xs" "mem_allocs (mem_push m) (map rpl_at pbs) m'"
    using links_to_pb_loop_ok [OF assms(1-4,6)] by blast
  have "copies rpl_wf rpl_content (\<lambda>p. [rpl_at p]) m (map link_content ?xs)
      (Some \<lparr>pa_addr = mem_next m, pa_cells = map Some pbs\<rparr>) (int_count n) m'"
    using l p by (intro copiesI) simp_all
  then show ?thesis using l p
    by (simp add: riak_links_copy_to_pb_def clean_allocate_eq allocate_granted [OF assms(1)])
qed

lemma content_fields_to_pb_ok:
  assumes wf: "object_wf ob" and empty: "rpc_empty to"
  shows "\<exists>to'. content_fields_to_pb to ob = Some to' \<and> pbb_wf (rpc_value to') \<and>
    (rpc_has_charset to' \<longrightarrow> pbb_wf (rpc_charset to')) \<and>
    (rpc_has_content_encoding to' \<longrightarrow> pbb_wf (rpc_content_encoding to')) \<and>
    (rpc_has_content_type to' \<longrightarrow> pbb_wf (rpc_content_type to')) \<and>
    (rpc_has_vtag to' \<longrightarrow> pbb_wf (rpc_vtag to')) \<and>
    rpb_content_of to' = (object_content ob)\<lparr>ct_indexes := [], ct_usermeta := [], ct_links := []\<rparr> \<and>
    rpc_n_indexes to' = 0 \<and> rpc_indexes to' = None \<and> rpc_n_usermeta to' = 0 \<and>
    rpc_usermeta to' = None \<and> rpc_n_links to' = 0 \<and> rpc_links to' = None"
proof -
  from wf have w: "ptr_wf (obj_value ob)" "obj_has_charset ob \<longrightarrow> ptr_wf (obj_charset ob)"
    "obj_has_content_encoding ob \<longrightarrow> ptr_wf (obj_encoding ob)"
    "obj_has_content_type ob \<longrightarrow> ptr_wf (obj_content_type ob)"
    "obj_has_vtag ob \<longrightarrow> ptr_wf (obj_vtag ob)"
    by (simp_all add: object_wf_def)
  obtain v where v: "riak_binary_copy_to_pb (obj_value ob) = Some v" "pbb_wf v"
    "pbb_bytes v = ptr_bytes (obj_value ob)"
    using copy_to_pb_ok [OF w(1)] by blast
  note o1 = opt_to_pb_ok [OF w(2), of "rpc_charset to"] and o2 = opt_to_pb_ok [OF w(3), of "rpc_content_encoding to"]
    and o3 = opt_to_pb_ok [OF w(4), of "rpc_content_type to"] and o4 = opt_to_pb_ok [OF w(5), of "rpc_vtag to"]
  from o1 obtain b1 where b1: "opt_to_pb (obj_has_charset ob) (obj_charset ob) (False, rpc_charset to) =
      Some (obj_has_charset ob, b1)" "obj_has_charset ob \<longrightarrow> pbb_wf b1"
    "when_flag (obj_has_charset ob) (pbb_bytes b1) = when_flag (obj_has_charset ob) (ptr_bytes (obj_charset ob))"
    by blast
  from o2 obtain b2 where b2: "opt_to_pb (obj_has_content_encoding ob) (obj_encoding ob)
      (False, rpc_content_encoding to) = Some (obj_has_content_encoding ob, b2)"
    "obj_has_content_encoding ob \<longrightarrow> pbb_wf b2"
    "when_flag (obj_has_content_encoding ob) (pbb_bytes b2) =
     when_flag (obj_has_content_encoding ob) (ptr_bytes (obj_encoding ob))"
    by blast
  from o3 obtain b3 where b3: "opt_to_pb (obj_has_content_type ob) (obj_content_type ob)
      (False, rpc_content_type to) = Some (obj_has_content_type ob, b3)"
    "obj_has_content_type ob \<longrightarrow> pbb_wf b3"
    "when_flag (obj_has_content_type ob) (pbb_bytes b3) =
     when_flag (obj_has_content_type ob) (ptr_bytes (obj_content_type ob))"
    by blast
  from o4 obtain b4 where b4: "opt_to_pb (obj_has_vtag ob) (obj_vtag ob) (False, rpc_vtag to) =
      Some (obj_has_vtag ob, b4)" "obj_has_vtag ob \<longrightarrow> pbb_wf b4"
    "when_flag (obj_has_vtag ob) (pbb_bytes b4) = when_flag (obj_has_vtag ob) (ptr_bytes (obj_vtag ob))"
    by blast
  from empty have e: "\<not> rpc_has_charset to" "\<not> rpc_has_content_encoding to"
    "\<not> rpc_has_content_type to" "\<not> rpc_has_vtag to" "\<not> rpc_has_deleted to"
    "\<not> rpc_has_last_mod to" "\<not> rpc_has_last_mod_usecs to" "rpc_n_indexes to = 0"
    "rpc_indexes to = None" "rpc_n_usermeta to = 0" "rpc_usermeta to = None"
    "rpc_n_links to = 0" "rpc_links to = None"
    by (simp_all add: rpc_empty_def)
  show ?thesis
    by (cases "obj_has_deleted ob"; cases "obj_has_last_mod ob"; cases "obj_has_last_mod_usecs ob")
      (simp_all add: content_fields_to_pb_def v b1 b2 b3 b4 e rpb_content_of_def object_content_def Let_def)
qed

lemma indexes_to_pb_ok:
  assumes "cfg_grants cfg" "inits_empty ini" "object_wf ob" "rpc_n_indexes to = 0" "rpc_indexes to = None"
  shows "\<exists>k q m'. indexes_to_pb cfg ini ob (ERIAK_OK, to, m) =
      Some (ERIAK_OK, to\<lparr>rpc_n_indexes := k, rpc_indexes := q\<rparr>, m') \<and> unat k < 2 ^ 31 \<and>
    copies rpp_wf rpp_content (\<lambda>p. [rpp_at p]) m (ct_indexes (object_content ob)) q (unat k) m'"
proof (cases "sint (obj_n_indexes ob) > 0")
  case True
  have "arr_ok (obj_indexes ob) (int_count (obj_n_indexes ob))"
    "list_all pair_wf (arr_elems (obj_indexes ob) (int_count (obj_n_indexes ob)))"
    using assms(3) by (simp_all add: object_wf_def obj_arrays_ok_def)
  from riak_pairs_copy_to_pb_ok [OF assms(1) _ this, of "init_pair ini" m] assms(2) obtain q m' where
    "riak_pairs_copy_to_pb cfg (init_pair ini) (obj_indexes ob) (obj_n_indexes ob) m = Some (ERIAK_OK, q, m')"
    "copies rpp_wf rpp_content (\<lambda>p. [rpp_at p]) m
      (map pair_content (arr_elems (obj_indexes ob) (int_count (obj_n_indexes ob)))) q (int_count (obj_n_indexes ob)) m'"
    by (auto simp: inits_empty_def)
  with True show ?thesis using int_count_less [of "obj_n_indexes ob"]
    by (intro exI [of _ "scast (obj_n_indexes ob)"] exI [of _ q] exI [of _ m'])
      (simp add: indexes_to_pb_def scast_count object_content_def)
next
  case False
  with assms(4,5) show ?thesis
    by (intro exI [of _ 0] exI [of _ None] exI [of _ m])
      (simp add: indexes_to_pb_def object_content_def)
qed

lemma usermeta_to_pb_ok:
  assumes "cfg_grants cfg" "inits_empty ini" "object_wf ob" "rpc_n_usermeta to = 0" "rpc_usermeta to = None"
  shows "\<exists>k q m'. usermeta_to_pb cfg ini ob (ERIAK_OK, to, m) =
      Some (ERIAK_OK, to\<lparr>rpc_n_usermeta := k, rpc_usermeta := q\<rparr>, m') \<and> unat k < 2 ^ 31 \<and>
    copies rpp_wf rpp_content (\<lambda>p. [rpp_at p]) m (ct_usermeta (object_content ob)) q (unat k) m'"
proof (cases "sint (obj_n_usermeta ob) > 0")
  case True
  have "arr_ok (obj_usermeta ob) (int_count (obj_n_usermeta ob))"
    "list_all pair_wf (arr_elems (obj_usermeta ob) (int_count (obj_n_usermeta ob)))"
    using assms(3) by (simp_all add: object_wf_def obj_arrays_ok_def)
  from riak_pairs_copy_to_pb_ok [OF assms(1) _ this, of "init_pair ini" m] assms(2) obtain q m' where
    "riak_pairs_copy_to_pb cfg (init_pair ini) (obj_usermeta ob) (obj_n_usermeta ob) m = Some (ERIAK_OK, q, m')"
    "copies rpp_wf rpp_content (\<lambda>p. [rpp_at p]) m
      (map pair_content (arr_elems (obj_usermeta ob) (int_count (obj_n_usermeta ob)))) q (int_count (obj_n_usermeta ob)) m'"
    by (auto simp: inits_empty_def)
  with True show ?thesis using int_count_less [of "obj_n_usermeta ob"]
    by (intro exI [of _ "scast (obj_n_usermeta ob)"] exI [of _ q] exI [of _ m'])
      (simp add: usermeta_to_pb_def scast_count object_content_def)
next
  case False
  with assms(4,5) show ?thesis
    by (intro exI [of _ 0] exI [of _ None] exI [of _ m])
      (simp add: usermeta_to_pb_def object_content_def)
qed

lemma links_to_pb_ok:
  assumes "cfg_grants cfg" "inits_empty ini" "object_wf ob" "rpc_n_links to = 0" "rpc_links to = None"
  shows "\<exists>k q m'. links_to_pb cfg ini ob (ERIAK_OK, to, m) =
      Some (ERIAK_OK, to\<lparr>rpc_n_links := k, rpc_links := q\<rparr>, m') \<and> unat k < 2 ^ 31 \<and>
    copies rpl_wf rpl_content (\<lambda>p. [rpl_at p]) m (ct_links (object_content ob)) q (unat k) m'"
proof (cases "sint (obj_n_links ob) > 0")
  case True
  have "arr_ok (obj_links ob) (int_count (obj_n_links ob))"
    "list_all link_wf (arr_elems (obj_links ob) (int_count (obj_n_links ob)))"
    using assms(3) by (simp_all add: object_wf_def obj_arrays_ok_def)
  from riak_links_copy_to_pb_ok [OF assms(1) _ _ _ this, of "init_link ini" m] assms(2) obtain q m' where
    "riak_links_copy_to_pb cfg (init_link ini) (obj_links ob) (obj_n_links ob) m = Some (ERIAK_OK, q, m')"
    "copies rpl_wf rpl_content (\<lambda>p. [rpl_at p]) m
      (map link_content (arr_elems (obj_links ob) (int_count (obj_n_links ob)))) q (int_count (obj_n_links ob)) m'"
    by (auto simp: inits_empty_def)
  with True show ?thesis using int_count_less [of "obj_n_links ob"]
    by (intro exI [of _ "scast (obj_n_links ob)"] exI [of _ q] exI [of _ m'])
      (simp add: links_to_pb_def scast_count object_content_def)
next
  case False
  with assms(4,5) show ?thesis
    by (intro exI [of _ 0] exI [of _ None] exI [of _ m])
      (simp add: links_to_pb_def object_content_def)
qed

text \<open>
  The conversion of a well-formed object: the message says what the object says, its bytes are
  shared with the object, and its three arrays are all that was allocated.
\<close>

lemma riak_object_to_pb_ok:
  assumes g: "cfg_grants cfg" and ini: "inits_empty ini" and empty: "rpc_empty to" and wf: "object_wf ob"
  shows "\<exists>to' m'. riak_object_to_pb_copy cfg ini to ob m = Some (ERIAK_OK, to', m') \<and>
    rpc_wf to' \<and> rpb_content_of to' = object_content ob \<and> mem_allocs m (rpc_owned to') m'"
proof -
  obtain to1 where f: "content_fields_to_pb to ob = Some to1" and
    w: "pbb_wf (rpc_value to1)" "rpc_has_charset to1 \<longrightarrow> pbb_wf (rpc_charset to1)"
    "rpc_has_content_encoding to1 \<longrightarrow> pbb_wf (rpc_content_encoding to1)"
    "rpc_has_content_type to1 \<longrightarrow> pbb_wf (rpc_content_type to1)"
    "rpc_has_vtag to1 \<longrightarrow> pbb_wf (rpc_vtag to1)"
    and c: "rpb_content_of to1 = (object_content ob)\<lparr>ct_indexes := [], ct_usermeta := [], ct_links := []\<rparr>"
    and z: "rpc_n_indexes to1 = 0" "rpc_indexes to1 = None" "rpc_n_usermeta to1 = 0"
    "rpc_usermeta to1 = None" "rpc_n_links to1 = 0" "rpc_links to1 = None"
    using content_fields_to_pb_ok [OF wf empty] by blast
  obtain k1 q1 m1 where s1: "indexes_to_pb cfg ini ob (ERIAK_OK, to1, m) =
      Some (ERIAK_OK, to1\<lparr>rpc_n_indexes := k1, rpc_indexes := q1\<rparr>, m1)" "unat k1 < 2 ^ 31"
      "copies rpp_wf rpp_content (\<lambda>p. [rpp_at p]) m (ct_indexes (object_content ob)) q1 (unat k1) m1"
    using indexes_to_pb_ok [OF g ini wf z(1,2)] by blast
  let ?to2 = "to1\<lparr>rpc_n_indexes := k1, rpc_indexes := q1\<rparr>"
  obtain k2 q2 m2 where s2: "usermeta_to_pb cfg ini ob (ERIAK_OK, ?to2, m1) =
      Some (ERIAK_OK, ?to2\<lparr>rpc_n_usermeta := k2, rpc_usermeta := q2\<rparr>, m2)" "unat k2 < 2 ^ 31"
      "copies rpp_wf rpp_content (\<lambda>p. [rpp_at p]) m1 (ct_usermeta (object_content ob)) q2 (unat k2) m2"
    using usermeta_to_pb_ok [OF g ini wf, of ?to2 m1] z by auto
  let ?to3 = "?to2\<lparr>rpc_n_usermeta := k2, rpc_usermeta := q2\<rparr>"
  obtain k3 q3 m3 where s3: "links_to_pb cfg ini ob (ERIAK_OK, ?to3, m2) =
      Some (ERIAK_OK, ?to3\<lparr>rpc_n_links := k3, rpc_links := q3\<rparr>, m3)" "unat k3 < 2 ^ 31"
      "copies rpl_wf rpl_content (\<lambda>p. [rpl_at p]) m2 (ct_links (object_content ob)) q3 (unat k3) m3"
    using links_to_pb_ok [OF g ini wf, of ?to3 m2] z by auto
  let ?to4 = "?to3\<lparr>rpc_n_links := k3, rpc_links := q3\<rparr>"
  have "riak_object_to_pb_copy cfg ini to ob m = Some (ERIAK_OK, ?to4, m3)"
    unfolding riak_object_to_pb_copy_def f using s1(1) s2(1) s3(1) by simp
  moreover have "rpc_wf ?to4"
    using w s1(2,3) s2(2,3) s3(2,3) by (simp add: rpc_wf_def copies_def)
  moreover have "rpb_content_of ?to4 = object_content ob"
  proof -
    have "rpb_content_of ?to4 = (rpb_content_of to1)\<lparr>ct_indexes := ct_indexes (object_content ob),
        ct_usermeta := ct_usermeta (object_content ob), ct_links := ct_links (object_content ob)\<rparr>"
      using s1(3) s2(3) s3(3) by (simp add: rpb_content_of_def copies_def)
    then show ?thesis by (simp add: c)
  qed
  moreover have "mem_allocs m (rpc_owned ?to4) m3"
  proof -
    have "mem_allocs m (arr_owned (\<lambda>p. [rpp_at p]) q1 (unat k1)) m1"
      "mem_allocs m1 (arr_owned (\<lambda>p. [rpp_at p]) q2 (unat k2)) m2"
      "mem_allocs m2 (arr_owned (\<lambda>p. [rpl_at p]) q3 (unat k3)) m3"
      using s1(3) s2(3) s3(3) by (simp_all add: copies_def)
    from mem_allocs_trans [OF mem_allocs_trans [OF this(1,2)] this(3)]
    show ?thesis by (simp add: rpc_owned_def)
  qed
  ultimately show ?thesis by blast
qed

subsection \<open>From a message to an object\<close>

lemma copy_from_pb_ok:
  assumes "cfg_grants cfg" "pbb_wf b"
  shows "\<exists>x. riak_binary_copy_from_pb cfg b m = (Some x, mem_push m) \<and> bin_wf x \<and>
    bin_bytes x = pbb_bytes b \<and> bin_owned x = [mem_next m]"
  using assms
  by (auto simp: riak_binary_copy_from_pb_def allocate_granted Let_def bin_wf_def bin_bytes_def
      pbb_wf_def pbb_bytes_def bin_owned_def c_read_NULL)

lemma opt_from_pb_ok:
  assumes "cfg_grants cfg" "has \<longrightarrow> pbb_wf b"
  shows "\<exists>x m'. (\<forall>next. opt_from_pb cfg has b next m = next (has, x) m') \<and> (has \<longrightarrow> ptr_wf x) \<and>
    when_flag has (ptr_bytes x) = when_flag has (pbb_bytes b) \<and> mem_allocs m (bin.owned_p x) m'"
proof (cases has)
  case True
  with assms obtain x where "riak_binary_copy_from_pb cfg b m = (Some x, mem_push m)" "bin_wf x"
    "bin_bytes x = pbb_bytes b" "bin_owned x = [mem_next m]"
    using copy_from_pb_ok by blast
  with True show ?thesis
    by (intro exI [of _ "Some x"] exI [of _ "mem_push m"])
      (simp add: opt_from_pb_def ptr_wf_def ptr_bytes_def mem_allocs_push)
next
  case False
  then show ?thesis
    by (intro exI [of _ None] exI [of _ m]) (simp add: opt_from_pb_def)
qed

lemma riak_pairs_copy_from_pb_ok:
  assumes g: "cfg_grants cfg" and wf: "rpp_wf pb"
  shows "\<exists>p m'. riak_pairs_copy_from_pb cfg pb m = (ERIAK_OK, Some p, m') \<and> pair_wf p \<and>
    pair_content p = rpp_content pb \<and> mem_allocs m (pair_owned p) m'"
proof -
  obtain k where k: "riak_binary_copy_from_pb cfg (rpp_key pb) (mem_push m) = (Some k, mem_push (mem_push m))"
    "bin_wf k" "bin_bytes k = pbb_bytes (rpp_key pb)" "bin_owned k = [Suc (mem_next m)]"
    using copy_from_pb_ok [OF g, of "rpp_key pb" "mem_push m"] wf by (auto simp: rpp_wf_def)
  show ?thesis
  proof (cases "rpp_has_value pb")
    case True
    then obtain v where "riak_binary_copy_from_pb cfg (rpp_value pb) (mem_push (mem_push m)) =
        (Some v, mem_push (mem_push (mem_push m)))"
      "bin_wf v" "bin_bytes v = pbb_bytes (rpp_value pb)" "bin_owned v = [Suc (Suc (mem_next m))]"
      using copy_from_pb_ok [OF g, of "rpp_value pb" "mem_push (mem_push m)"] wf by (auto simp: rpp_wf_def)
    with True k show ?thesis
      by (auto simp: riak_pairs_copy_from_pb_def clean_allocate_eq allocate_granted [OF g] pair_wf_def
        pair_content_def rpp_content_def ptr_wf_def ptr_bytes_def pair_zero_def pair_owned_def mem_allocs_def)
  next
    case False
    with k show ?thesis
      by (auto simp: riak_pairs_copy_from_pb_def clean_allocate_eq allocate_granted [OF g] pair_wf_def
        pair_content_def rpp_content_def ptr_wf_def ptr_bytes_def pair_zero_def pair_owned_def mem_allocs_def)
  qed
qed

lemma pairs_from_pb_loop_ok:
  assumes "cfg_grants cfg" "list_all rpp_wf pbs"
  shows "\<exists>ps m'. pairs_from_pb_loop cfg (map Some pbs @ rest) (length pbs) m =
      Some (ERIAK_OK, map Some ps, m') \<and> length ps = length pbs \<and> list_all pair_wf ps \<and>
    map pair_content ps = map rpp_content pbs \<and> mem_allocs m (concat (map pair_owned ps)) m'"
  using assms(2)
proof (induction pbs arbitrary: m)
  case Nil
  then show ?case by (intro exI [of _ "[]"]) simp
next
  case (Cons pb pbs)
  obtain p m1 where p: "riak_pairs_copy_from_pb cfg pb m = (ERIAK_OK, Some p, m1)" "pair_wf p"
    "pair_content p = rpp_content pb" "mem_allocs m (pair_owned p) m1"
    using riak_pairs_copy_from_pb_ok [OF assms(1), of pb m] Cons.prems by auto
  obtain ps m' where IH: "pairs_from_pb_loop cfg (map Some pbs @ rest) (length pbs) m1 =
      Some (ERIAK_OK, map Some ps, m')" "length ps = length pbs" "list_all pair_wf ps"
    "map pair_content ps = map rpp_content pbs" "mem_allocs m1 (concat (map pair_owned ps)) m'"
    using Cons.IH [of m1] Cons.prems by auto
  then show ?case
    using p mem_allocs_trans [OF p(4) IH(5)] by (intro exI [of _ "p # ps"] exI [of _ m']) simp
qed

lemma link_from_pb_ok:
  assumes g: "cfg_grants cfg" and wf: "rpl_wf pb"
  shows "\<exists>l m' xs. link_from_pb cfg a pb m = (Some l, m') \<and> link_wf l \<and>
    link_content l = rpl_content pb \<and> link_at l = a \<and> link_owned l = xs @ [a] \<and> mem_allocs m xs m'"
proof -
  from wf have w: "rpl_has_bucket pb \<longrightarrow> pbb_wf (rpl_bucket pb)" "rpl_has_key pb \<longrightarrow> pbb_wf (rpl_key pb)"
    "rpl_has_tag pb \<longrightarrow> pbb_wf (rpl_tag pb)"
    by (simp_all add: rpl_wf_def)
  obtain b m1 where b: "\<forall>next. opt_from_pb cfg (rpl_has_bucket pb) (rpl_bucket pb) next m =
      (next (rpl_has_bucket pb, b) m1 :: riak_link option \<times> mem)"
    "rpl_has_bucket pb \<longrightarrow> ptr_wf b"
    "when_flag (rpl_has_bucket pb) (ptr_bytes b) = when_flag (rpl_has_bucket pb) (pbb_bytes (rpl_bucket pb))"
    "mem_allocs m (bin.owned_p b) m1"
    using opt_from_pb_ok [OF g w(1)] by blast
  obtain k m2 where k: "\<forall>next. opt_from_pb cfg (rpl_has_key pb) (rpl_key pb) next m1 =
      (next (rpl_has_key pb, k) m2 :: riak_link option \<times> mem)"
    "rpl_has_key pb \<longrightarrow> ptr_wf k"
    "when_flag (rpl_has_key pb) (ptr_bytes k) = when_flag (rpl_has_key pb) (pbb_bytes (rpl_key pb))"
    "mem_allocs m1 (bin.owned_p k) m2"
    using opt_from_pb_ok [OF g w(2)] by blast
  obtain t m3 where t: "\<forall>next. opt_from_pb cfg (rpl_has_tag pb) (rpl_tag pb) next m2 =
      (next (rpl_has_tag pb, t) m3 :: riak_link option \<times> mem)"
    "rpl_has_tag pb \<longrightarrow> ptr_wf t"
    "when_flag (rpl_has_tag pb) (ptr_bytes t) = when_flag (rpl_has_tag pb) (pbb_bytes (rpl_tag pb))"
    "mem_allocs m2 (bin.owned_p t) m3"
    using opt_from_pb_ok [OF g w(3)] by blast
  let ?l = "\<lparr>link_at = a, link_has_bucket = rpl_has_bucket pb, link_bucket = b,
    link_has_key = rpl_has_key pb, link_key = k, link_has_tag = rpl_has_tag pb, link_tag = t\<rparr>"
  have "link_from_pb cfg a pb m = (Some ?l, m3)"
    unfolding link_from_pb_def using b(1) k(1) t(1) by simp
  moreover have "mem_allocs m (bin.owned_p b @ bin.owned_p k @ bin.owned_p t) m3"
    using mem_allocs_trans [OF mem_allocs_trans [OF b(4) k(4)] t(4)] by simp
  ultimately show ?thesis using b k t
    by (intro exI [of _ ?l] exI [of _ m3] exI [of _ "bin.owned_p b @ bin.owned_p k @ bin.owned_p t"])
      (simp add: link_wf_def link_content_def rpl_content_def link_owned_def)
qed

lemma links_from_pb_loop_ok:
  assumes "cfg_grants cfg" "list_all rpl_wf pbs"
  shows "\<exists>ls m'. links_from_pb_loop cfg (map Some pbs @ rest) (length pbs) m =
      Some (ERIAK_OK, map Some ls, m') \<and> length ls = length pbs \<and> list_all link_wf ls \<and>
    map link_content ls = map rpl_content pbs \<and> mem_allocs m (concat (map link_owned ls)) m'"
  using assms(2)
proof (induction pbs arbitrary: m)
  case Nil
  then show ?case by (intro exI [of _ "[]"]) simp
next
  case (Cons pb pbs)
  obtain l m1 xs where l: "link_from_pb cfg (mem_next m) pb (mem_push m) = (Some l, m1)" "link_wf l"
    "link_content l = rpl_content pb" "link_owned l = xs @ [mem_next m]" "mem_allocs (mem_push m) xs m1"
    using link_from_pb_ok [OF assms(1), of pb "mem_next m" "mem_push m"] Cons.prems by auto
  have o: "mem_allocs m (link_owned l) m1"
    by (rule mem_allocs_mset [OF mem_allocs_Cons [OF l(5)]]) (simp add: l(4))
  obtain ls m' where IH: "links_from_pb_loop cfg (map Some pbs @ rest) (length pbs) m1 =
      Some (ERIAK_OK, map Some ls, m')" "length ls = length pbs" "list_all link_wf ls"
    "map link_content ls = map rpl_content pbs" "mem_allocs m1 (concat (map link_owned ls)) m'"
    using Cons.IH [of m1] Cons.prems by auto
  then show ?case
    using l(1-3) mem_allocs_trans [OF o IH(5)]
    by (intro exI [of _ "l # ls"] exI [of _ m']) (simp add: clean_allocate_eq allocate_granted [OF assms(1)])
qed

lemma ucast_count: "unat (k :: u64) < 2 ^ 31 \<Longrightarrow> int_count (ucast k) = unat k"
proof -
  assume *: "unat k < 2 ^ 31"
  then have u: "unat (ucast k :: i32) = unat k" by (simp add: unsigned_ucast_eq take_bit_nat_eq_self)
  have "(ucast k :: i32) = of_nat (unat (ucast k :: i32))" by simp
  then have "sint (ucast k :: i32) = sint (of_nat (unat k) :: i32)" unfolding u by (rule arg_cong)
  also have "\<dots> = int (unat k)" using * by (intro sint_of_nat_32)
  finally show ?thesis by simp
qed

lemma riak_pairs_copy_array_from_pb_ok:
  assumes "cfg_grants cfg" "arr_ok p (unat k)" "unat (k :: u64) < 2 ^ 31" "0 < k"
    "list_all rpp_wf (arr_elems p (unat k))"
  shows "\<exists>q m'. riak_pairs_copy_array_from_pb cfg p (ucast k) m = Some (ERIAK_OK, q, m') \<and>
    copies pair_wf pair_content pair_owned m (map rpp_content (arr_elems p (unat k))) q (unat k) m'"
proof -
  let ?xs = "arr_elems p (unat k)"
  obtain rest where p: "pa_list p = map Some ?xs @ rest" "length ?xs = unat k"
    using arr_ok_cells [OF assms(2)] .
  have "p \<noteq> None" using p assms(4) by (cases p) (auto simp: word_less_nat_alt)
  obtain ys m' where l: "pairs_from_pb_loop cfg (map Some ?xs @ rest) (length ?xs) (mem_push m) =
      Some (ERIAK_OK, map Some ys, m')" "length ys = length ?xs" "list_all pair_wf ys"
    "map pair_content ys = map rpp_content ?xs" "mem_allocs (mem_push m) (concat (map pair_owned ys)) m'"
    using pairs_from_pb_loop_ok [OF assms(1,5)] by blast
  have "copies pair_wf pair_content pair_owned m (map rpp_content ?xs)
      (Some \<lparr>pa_addr = mem_next m, pa_cells = map Some ys\<rparr>) (unat k) m'"
    using l p by (intro copiesI) simp_all
  moreover have "riak_pairs_copy_array_from_pb cfg p (ucast k) m =
      Some (ERIAK_OK, Some \<lparr>pa_addr = mem_next m, pa_cells = map Some ys\<rparr>, m')"
    unfolding riak_pairs_copy_array_from_pb_def ucast_count [OF assms(3)] clean_allocate_eq allocate_granted [OF assms(1)]
    using l(1) p \<open>p \<noteq> None\<close> by (auto simp: Let_def)
  ultimately show ?thesis by blast
qed

lemma riak_links_copy_from_pb_ok:
  assumes "cfg_grants cfg" "arr_ok p (unat k)" "unat (k :: u64) < 2 ^ 31" "0 < k"
    "list_all rpl_wf (arr_elems p (unat k))"
  shows "\<exists>q m'. riak_links_copy_from_pb cfg p (ucast k) m = Some (ERIAK_OK, q, m') \<and>
    copies link_wf link_content link_owned m (map rpl_content (arr_elems p (unat k))) q (unat k) m'"
proof -
  let ?xs = "arr_elems p (unat k)"
  obtain rest where p: "pa_list p = map Some ?xs @ rest" "length ?xs = unat k"
    using arr_ok_cells [OF assms(2)] .
  have "p \<noteq> None" using p assms(4) by (cases p) (auto simp: word_less_nat_alt)
  obtain ys m' where l: "links_from_pb_loop cfg (map Some ?xs @ rest) (length ?xs) (mem_push m) =
      Some (ERIAK_OK, map Some ys, m')" "length ys = length ?xs" "list_all link_wf ys"
    "map link_content ys = map rpl_content ?xs" "mem_allocs (mem_push m) (concat (map link_owned ys)) m'"
    using links_from_pb_loop_ok [OF assms(1,5)] by blast
  have "copies link_wf link_content link_owned m (map rpl_content ?xs)
      (Some \<lparr>pa_addr = mem_next m, pa_cells = map Some ys\<rparr>) (unat k) m'"
    using l p by (intro copiesI) simp_all
  moreover have "riak_links_copy_from_pb cfg p (ucast k) m =
      Some (ERIAK_OK, Some \<lparr>pa_addr = mem_next m, pa_cells = map Some ys\<rparr>, m')"
    unfolding riak_links_copy_from_pb_def ucast_count [OF assms(3)] clean_allocate_eq allocate_granted [OF assms(1)]
    using l(1) p \<open>p \<noteq> None\<close> by (auto simp: Let_def)
  ultimately show ?thesis by blast
qed

lemma indexes_from_pb_ok:
  assumes "cfg_grants cfg" "rpc_wf c" "obj_n_indexes to = 0" "obj_indexes to = None"
  shows "\<exists>k q m'. indexes_from_pb cfg c (ERIAK_OK, to, m) =
      Some (ERIAK_OK, to\<lparr>obj_n_indexes := k, obj_indexes := q\<rparr>, m') \<and>
    copies pair_wf pair_content pair_owned m (ct_indexes (rpb_content_of c)) q (int_count k) m'"
proof (cases "rpc_n_indexes c > 0")
  case True
  have w: "arr_ok (rpc_indexes c) (unat (rpc_n_indexes c))" "unat (rpc_n_indexes c) < 2 ^ 31"
    "list_all rpp_wf (arr_elems (rpc_indexes c) (unat (rpc_n_indexes c)))"
    using assms(2) by (simp_all add: rpc_wf_def)
  from riak_pairs_copy_array_from_pb_ok [OF assms(1) w(1,2) True w(3), of m] obtain q m' where
    "riak_pairs_copy_array_from_pb cfg (rpc_indexes c) (ucast (rpc_n_indexes c)) m = Some (ERIAK_OK, q, m')"
    "copies pair_wf pair_content pair_owned m (map rpp_content (arr_elems (rpc_indexes c) (unat (rpc_n_indexes c)))) q (unat (rpc_n_indexes c)) m'"
    by blast
  with True show ?thesis
    by (intro exI [of _ "ucast (rpc_n_indexes c)"] exI [of _ q] exI [of _ m'])
      (simp add: indexes_from_pb_def ucast_count [OF w(2)] rpb_content_of_def)
next
  case False
  then have "rpc_n_indexes c = 0" by (simp add: word_greater_zero_iff)
  with assms(3,4) show ?thesis
    by (intro exI [of _ 0] exI [of _ None] exI [of _ m])
      (simp add: indexes_from_pb_def rpb_content_of_def)
qed

lemma usermeta_from_pb_ok:
  assumes "cfg_grants cfg" "rpc_wf c" "obj_n_usermeta to = 0" "obj_usermeta to = None"
  shows "\<exists>k q m'. usermeta_from_pb cfg c (ERIAK_OK, to, m) =
      Some (ERIAK_OK, to\<lparr>obj_n_usermeta := k, obj_usermeta := q\<rparr>, m') \<and>
    copies pair_wf pair_content pair_owned m (ct_usermeta (rpb_content_of c)) q (int_count k) m'"
proof (cases "rpc_n_usermeta c > 0")
  case True
  have w: "arr_ok (rpc_usermeta c) (unat (rpc_n_usermeta c))" "unat (rpc_n_usermeta c) < 2 ^ 31"
    "list_all rpp_wf (arr_elems (rpc_usermeta c) (unat (rpc_n_usermeta c)))"
    using assms(2) by (simp_all add: rpc_wf_def)
  from riak_pairs_copy_array_from_pb_ok [OF assms(1) w(1,2) True w(3), of m] obtain q m' where
    "riak_pairs_copy_array_from_pb cfg (rpc_usermeta c) (ucast (rpc_n_usermeta c)) m = Some (ERIAK_OK, q, m')"
    "copies pair_wf pair_content pair_owned m (map rpp_content (arr_elems (rpc_usermeta c) (unat (rpc_n_usermeta c)))) q (unat (rpc_n_usermeta c)) m'"
    by blast
  with True show ?thesis
    by (intro exI [of _ "ucast (rpc_n_usermeta c)"] exI [of _ q] exI [of _ m'])
      (simp add: usermeta_from_pb_def ucast_count [OF w(2)] rpb_content_of_def)
next
  case False
  then have "rpc_n_usermeta c = 0" by (simp add: word_greater_zero_iff)
  with assms(3,4) show ?thesis
    by (intro exI [of _ 0] exI [of _ None] exI [of _ m])
      (simp add: usermeta_from_pb_def rpb_content_of_def)
qed

lemma links_from_pb_ok:
  assumes "cfg_grants cfg" "rpc_wf c" "obj_n_links to = 0" "obj_links to = None"
  shows "\<exists>k q m'. links_from_pb cfg c (ERIAK_OK, to, m) =
      Some (ERIAK_OK, to\<lparr>obj_n_links := k, obj_links := q\<rparr>, m') \<and>
    copies link_wf link_content link_owned m (ct_links (rpb_content_of c)) q (int_count k) m'"
proof (cases "rpc_n_links c > 0")
  case True
  have w: "arr_ok (rpc_links c) (unat (rpc_n_links c))" "unat (rpc_n_links c) < 2 ^ 31"
    "list_all rpl_wf (arr_elems (rpc_links c) (unat (rpc_n_links c)))"
    using assms(2) by (simp_all add: rpc_wf_def)
  from riak_links_copy_from_pb_ok [OF assms(1) w(1,2) True w(3), of m] obtain q m' where
    "riak_links_copy_from_pb cfg (rpc_links c) (ucast (rpc_n_links c)) m = Some (ERIAK_OK, q, m')"
    "copies link_wf link_content link_owned m (map rpl_content (arr_elems (rpc_links c) (unat (rpc_n_links c)))) q (unat (rpc_n_links c)) m'"
    by blast
  with True show ?thesis
    by (intro exI [of _ "ucast (rpc_n_links c)"] exI [of _ q] exI [of _ m'])
      (simp add: links_from_pb_def ucast_count [OF w(2)] rpb_content_of_def)
next
  case False
  then have "rpc_n_links c = 0" by (simp add: word_greater_zero_iff)
  with assms(3,4) show ?thesis
    by (intro exI [of _ 0] exI [of _ None] exI [of _ m])
      (simp add: links_from_pb_def rpb_content_of_def)
qed

definition field_owned :: "riak_object \<Rightarrow> addr list" where
  "field_owned ob = bin.owned_p (obj_value ob) @ bin.owned_p (obj_charset ob) @
     bin.owned_p (obj_encoding ob) @ bin.owned_p (obj_content_type ob) @ bin.owned_p (obj_vtag ob)"

lemma object_fields_from_pb_ok:
  assumes g: "cfg_grants cfg" and wf: "rpc_wf c"
  shows "\<exists>ob m'. object_fields_from_pb cfg (object_zero a) c m = (Some ob, m') \<and>
    ptr_wf (obj_value ob) \<and> (obj_has_charset ob \<longrightarrow> ptr_wf (obj_charset ob)) \<and>
    (obj_has_content_encoding ob \<longrightarrow> ptr_wf (obj_encoding ob)) \<and>
    (obj_has_content_type ob \<longrightarrow> ptr_wf (obj_content_type ob)) \<and>
    (obj_has_vtag ob \<longrightarrow> ptr_wf (obj_vtag ob)) \<and>
    object_content ob = (rpb_content_of c)\<lparr>ct_indexes := [], ct_usermeta := [], ct_links := []\<rparr> \<and>
    mem_allocs m (field_owned ob) m' \<and> obj_at ob = a \<and>
    obj_bucket ob = None \<and> obj_bucket_type ob = None \<and> obj_key ob = None \<and>
    obj_n_indexes ob = 0 \<and> obj_indexes ob = None \<and> obj_n_usermeta ob = 0 \<and>
    obj_usermeta ob = None \<and> obj_n_links ob = 0 \<and> obj_links ob = None \<and> \<not> obj_has_bucket_type ob"
proof -
  from wf have w: "pbb_wf (rpc_value c)" "rpc_has_charset c \<longrightarrow> pbb_wf (rpc_charset c)"
    "rpc_has_content_encoding c \<longrightarrow> pbb_wf (rpc_content_encoding c)"
    "rpc_has_content_type c \<longrightarrow> pbb_wf (rpc_content_type c)"
    "rpc_has_vtag c \<longrightarrow> pbb_wf (rpc_vtag c)"
    by (simp_all add: rpc_wf_def)
  obtain v where v: "riak_binary_copy_from_pb cfg (rpc_value c) m = (Some v, mem_push m)" "bin_wf v"
    "bin_bytes v = pbb_bytes (rpc_value c)" "bin_owned v = [mem_next m]"
    using copy_from_pb_ok [OF g w(1)] by blast
  let ?case = "\<lambda>has b x m m'. (\<forall>next. opt_from_pb cfg has b next m =
      (next (has, x) m' :: riak_object option \<times> mem)) \<and> (has \<longrightarrow> ptr_wf x) \<and>
    when_flag has (ptr_bytes x) = when_flag has (pbb_bytes b) \<and> mem_allocs m (bin.owned_p x) m'"
  obtain x1 m1 where x1: "?case (rpc_has_charset c) (rpc_charset c) x1 (mem_push m) m1"
    using opt_from_pb_ok [OF g w(2)] by blast
  obtain x2 m2 where x2: "?case (rpc_has_content_encoding c) (rpc_content_encoding c) x2 m1 m2"
    using opt_from_pb_ok [OF g w(3)] by blast
  obtain x3 m3 where x3: "?case (rpc_has_content_type c) (rpc_content_type c) x3 m2 m3"
    using opt_from_pb_ok [OF g w(4)] by blast
  obtain x4 m4 where x4: "?case (rpc_has_vtag c) (rpc_vtag c) x4 m3 m4"
    using opt_from_pb_ok [OF g w(5)] by blast
  let ?ob = "(object_zero a)\<lparr>obj_value := Some v, obj_has_charset := rpc_has_charset c, obj_charset := x1,
    obj_has_content_encoding := rpc_has_content_encoding c, obj_encoding := x2,
    obj_has_content_type := rpc_has_content_type c, obj_content_type := x3,
    obj_has_vtag := rpc_has_vtag c, obj_vtag := x4,
    obj_has_deleted := rpc_has_deleted c, obj_deleted := rpc_has_deleted c \<and> rpc_deleted c,
    obj_has_last_mod := rpc_has_last_mod c, obj_last_mod := (if rpc_has_last_mod c then rpc_last_mod c else 0),
    obj_has_last_mod_usecs := rpc_has_last_mod_usecs c,
    obj_last_mod_usecs := (if rpc_has_last_mod_usecs c then rpc_last_mod_usecs c else 0)\<rparr>"
  have "object_fields_from_pb cfg (object_zero a) c m = (Some ?ob, m4)"
    using x1 x2 x3 x4 by (auto simp: object_fields_from_pb_def v Let_def object_zero_def)
  moreover have "mem_allocs m (field_owned ?ob) m4"
    using mem_allocs_trans [OF mem_allocs_trans [OF mem_allocs_trans [OF mem_allocs_trans]], OF
      mem_allocs_push [of m], of "bin.owned_p x1" m1 "bin.owned_p x2" m2 "bin.owned_p x3" m3 "bin.owned_p x4" m4]
      x1 x2 x3 x4 v(4) by (simp add: field_owned_def object_zero_def)
  moreover have "object_content ?ob = (rpb_content_of c)\<lparr>ct_indexes := [], ct_usermeta := [], ct_links := []\<rparr>"
    using x1 x2 x3 x4 v(3)
    by (simp add: object_content_def rpb_content_of_def object_zero_def ptr_bytes_def when_flag_def)
  ultimately show ?thesis using x1 x2 x3 x4 v(2)
    by (intro exI [of _ ?ob] exI [of _ m4]) (simp add: object_zero_def ptr_wf_def)
qed

text \<open>
  The conversion of a well-formed message: the object says what the message says, and what it
  owns is all that was allocated, so freeing it gives the memory back.
\<close>

lemma riak_object_new_from_pb_ok:
  assumes g: "cfg_grants cfg" and wf: "rpc_wf c"
  shows "\<exists>ob m'. riak_object_new_from_pb cfg c m = Some (ERIAK_OK, Some ob, m') \<and>
    object_wf ob \<and> object_content ob = rpb_content_of c \<and> mem_allocs m (obj_owned ob) m' \<and>
    obj_bucket ob = None \<and> obj_bucket_type ob = None \<and> obj_key ob = None \<and> \<not> obj_has_bucket_type ob"
proof -
  obtain o1 m0 where f: "object_fields_from_pb cfg (object_zero (mem_next m)) c (mem_push m) = (Some o1, m0)"
    and w: "ptr_wf (obj_value o1)" "obj_has_charset o1 \<longrightarrow> ptr_wf (obj_charset o1)"
    "obj_has_content_encoding o1 \<longrightarrow> ptr_wf (obj_encoding o1)"
    "obj_has_content_type o1 \<longrightarrow> ptr_wf (obj_content_type o1)"
    "obj_has_vtag o1 \<longrightarrow> ptr_wf (obj_vtag o1)"
    and c: "object_content o1 = (rpb_content_of c)\<lparr>ct_indexes := [], ct_usermeta := [], ct_links := []\<rparr>"
    and a: "mem_allocs (mem_push m) (field_owned o1) m0" "obj_at o1 = mem_next m"
    and z: "obj_bucket o1 = None" "obj_bucket_type o1 = None" "obj_key o1 = None"
    "obj_n_indexes o1 = 0" "obj_indexes o1 = None" "obj_n_usermeta o1 = 0"
    "obj_usermeta o1 = None" "obj_n_links o1 = 0" "obj_links o1 = None" "\<not> obj_has_bucket_type o1"
    using object_fields_from_pb_ok [OF g wf] by blast
  obtain k1 q1 m1 where s1: "indexes_from_pb cfg c (ERIAK_OK, o1, m0) =
      Some (ERIAK_OK, o1\<lparr>obj_n_indexes := k1, obj_indexes := q1\<rparr>, m1)"
      "copies pair_wf pair_content pair_owned m0 (ct_indexes (rpb_content_of c)) q1 (int_count k1) m1"
    using indexes_from_pb_ok [OF g wf z(4,5)] by blast
  let ?o2 = "o1\<lparr>obj_n_indexes := k1, obj_indexes := q1\<rparr>"
  obtain k2 q2 m2 where s2: "usermeta_from_pb cfg c (ERIAK_OK, ?o2, m1) =
      Some (ERIAK_OK, ?o2\<lparr>obj_n_usermeta := k2, obj_usermeta := q2\<rparr>, m2)"
      "copies pair_wf pair_content pair_owned m1 (ct_usermeta (rpb_content_of c)) q2 (int_count k2) m2"
    using usermeta_from_pb_ok [OF g wf, of ?o2 m1] z by auto
  let ?o3 = "?o2\<lparr>obj_n_usermeta := k2, obj_usermeta := q2\<rparr>"
  obtain k3 q3 m3 where s3: "links_from_pb cfg c (ERIAK_OK, ?o3, m2) =
      Some (ERIAK_OK, ?o3\<lparr>obj_n_links := k3, obj_links := q3\<rparr>, m3)"
      "copies link_wf link_content link_owned m2 (ct_links (rpb_content_of c)) q3 (int_count k3) m3"
    using links_from_pb_ok [OF g wf, of ?o3 m2] z by auto
  let ?o4 = "?o3\<lparr>obj_n_links := k3, obj_links := q3\<rparr>"
  have "riak_object_new_from_pb cfg c m = Some (ERIAK_OK, Some ?o4, m3)"
    using f s1(1) s2(1) s3(1)
    by (simp add: riak_object_new_from_pb_def riak_object_new_def clean_allocate_eq allocate_granted [OF g])
  moreover have "object_wf ?o4"
    using w s1(2) s2(2) s3(2) by (simp add: object_wf_def obj_arrays_ok_def copies_def)
  moreover have "object_content ?o4 = rpb_content_of c"
  proof -
    have "object_content ?o4 = (object_content o1)\<lparr>ct_indexes := ct_indexes (rpb_content_of c),
        ct_usermeta := ct_usermeta (rpb_content_of c), ct_links := ct_links (rpb_content_of c)\<rparr>"
      using s1(2) s2(2) s3(2) by (simp add: object_content_def copies_def)
    then show ?thesis by (simp add: c)
  qed
  moreover have "mem_allocs m (obj_owned ?o4) m3"
  proof -
    let ?A = "arr_owned pair_owned q1 (int_count k1)" and ?B = "arr_owned pair_owned q2 (int_count k2)"
      and ?C = "arr_owned link_owned q3 (int_count k3)"
    have "mem_allocs m0 ?A m1" "mem_allocs m1 ?B m2" "mem_allocs m2 ?C m3"
      using s1(2) s2(2) s3(2) by (simp_all add: copies_def)
    from mem_allocs_trans [OF mem_allocs_trans [OF mem_allocs_trans [OF a(1) this(1)] this(2)] this(3)]
    have "mem_allocs m (mem_next m # field_owned o1 @ ?A @ ?B @ ?C) m3"
      using mem_allocs_Cons by simp
    then show ?thesis
      by (rule mem_allocs_mset) (simp add: obj_owned_def field_owned_def z a(2))
  qed
  ultimately show ?thesis using z by simp
qed

text \<open>Freeing the arrays of a message that \<open>riak_object_to_pb_copy\<close> filled in.\<close>

lemma riak_object_free_pb_owned:
  assumes "cfg_ok cfg" "rpc_wf c"
  shows "riak_object_free_pb cfg c m = mem_free_all (rpc_owned c) m"
proof -
  have p: "riak_pairs_free_pb cfg p (ucast k) m = mem_free_all (arr_owned (\<lambda>p. [rpp_at p]) p (unat k)) m"
    if "arr_ok p (unat k)" "unat k < 2 ^ 31" for p and k :: u64 and m
    unfolding riak_pairs_free_pb_def ucast_count [OF that(2)]
    by (rule free_array_owned) (simp_all add: assms(1) that riak_free_ptrs)
  have l: "riak_links_free_pb cfg p (ucast k) m = mem_free_all (arr_owned (\<lambda>p. [rpl_at p]) p (unat k)) m"
    if "arr_ok p (unat k)" "unat k < 2 ^ 31" for p and k :: u64 and m
    unfolding riak_links_free_pb_def ucast_count [OF that(2)]
    by (rule free_array_owned) (simp_all add: assms(1) that riak_free_ptrs)
  show ?thesis using assms(2) by (simp add: riak_object_free_pb_def rpc_owned_def rpc_wf_def p l)
qed

subsection \<open>Comparison and printing\<close>

text \<open>
  Without a print state the comparison of binaries is \<open>riak_binary_compare\<close> and dereferences both
  pointers, whether or not the object has the field.
\<close>

lemma compare_binary_NULL [simp]:
  "riak_object_compare_binary msg None b st = None"
  "riak_object_compare_binary msg a None st = None"
  by (cases a; simp add: riak_object_compare_binary_def riak_binary_compare_def)+

lemma riak_object_compare_no_charset:
  assumes "riak_object_compare_binary (str ''Buckets'') (obj_bucket a) (obj_bucket b) None = Some (0, None)"
    "riak_object_compare_binary (str ''Keys'') (obj_key a) (obj_key b) None = Some (0, None)"
    "riak_object_compare_binary (str ''Values'') (obj_value a) (obj_value b) None = Some (0, None)"
    "obj_charset a = None" "obj_has_charset a = obj_has_charset b"
  shows "riak_object_compare a b = None"
  using assms by (simp add: riak_object_compare_def riak_object_compare_internal_def riak_object_compare_int_def
      del: str_simps)

lemma compare_binary_quiet:
  assumes "ptr_wf p" "ptr_wf q"
  shows "riak_object_compare_binary msg p q None = Some (shortlex (ptr_bytes p) (ptr_bytes q), None)"
  using assms by (auto simp: ptr_wf_def ptr_bytes_def riak_object_compare_binary_def
      riak_binary_compare_shortlex split: option.splits)

lemma compare_int_quiet:
  "riak_object_compare_int msg x y None = Some (if x \<noteq> y then 1 else 0, None)"
  by (simp add: riak_object_compare_int_def)

text \<open>A quiet comparison decides an equality: it is defined, silent, and 0 exactly when \<open>P\<close>.\<close>

definition decides :: "comparer \<Rightarrow> bool \<Rightarrow> bool" where
  "decides f P \<longleftrightarrow> (\<exists>r. f None = Some (r, None) \<and> (r = 0 \<longleftrightarrow> P))"

lemma decides_binary:
  "ptr_wf p \<Longrightarrow> ptr_wf q \<Longrightarrow> decides (riak_object_compare_binary msg p q) (ptr_bytes p = ptr_bytes q)"
  by (simp add: decides_def compare_binary_quiet shortlex_0)

lemma decides_int: "decides (riak_object_compare_int msg x y) (x = y)"
  by (simp add: decides_def compare_int_quiet)

lemma decides_when: "(b \<Longrightarrow> decides f P) \<Longrightarrow> decides (compare_when b f) (b \<longrightarrow> P)"
  by (auto simp: decides_def compare_when_def)

lemma decides_Nil: "decides (first_diff []) True"
  by (simp add: decides_def)

lemma decides_Cons:
  "decides f P \<Longrightarrow> (P \<Longrightarrow> decides (first_diff fs) Q) \<Longrightarrow> decides (first_diff (f # fs)) (P \<and> Q)"
  by (auto simp: decides_def)

lemma decides_cells:
  assumes "length xs = length ys"
    "\<And>i. i < length xs \<Longrightarrow> decides (f (xs ! i) (ys ! i)) (g (xs ! i) = g (ys ! i))"
  shows "decides (compare_cells f (map Some xs @ r) (map Some ys @ s) (length xs)) (map g xs = map g ys)"
  using assms
proof (induction xs ys rule: list_induct2)
  case (Cons x xs y ys)
  have "decides (f x y) (g x = g y)" using Cons.prems [of 0] by simp
  moreover have "decides (compare_cells f (map Some xs @ r) (map Some ys @ s) (length xs)) (map g xs = map g ys)"
    using Cons.IH Cons.prems [of "Suc _"] by simp
  ultimately show ?case by (auto simp: decides_def)
qed (simp add: decides_def)

lemma flag_eq [simp]: "flag a = flag b \<longleftrightarrow> a = b"
  by (simp add: flag_def)

lemma decides_pair:
  assumes "pair_wf p" "pair_wf q"
  shows "decides (compare_pair a b c p q) (pair_content p = pair_content q)"
proof -
  have "decides (compare_pair a b c p q) (flag (pair_has_value p) = flag (pair_has_value q) \<and>
      ptr_bytes (pair_key p) = ptr_bytes (pair_key q) \<and>
      (pair_has_value p \<longrightarrow> ptr_bytes (pair_value p) = ptr_bytes (pair_value q)) \<and> True)"
    unfolding compare_pair_def using assms
    by (intro decides_Cons decides_Nil decides_int decides_when decides_binary) (auto simp: pair_wf_def)
  moreover have "(flag (pair_has_value p) = flag (pair_has_value q) \<and>
      ptr_bytes (pair_key p) = ptr_bytes (pair_key q) \<and>
      (pair_has_value p \<longrightarrow> ptr_bytes (pair_value p) = ptr_bytes (pair_value q)) \<and> True) \<longleftrightarrow>
      pair_content p = pair_content q"
    by (auto simp: pair_content_def when_flag_def)
  ultimately show ?thesis by simp
qed

lemma decides_link:
  assumes "link_wf l" "link_wf k"
  shows "decides (compare_link l k) (link_content l = link_content k)"
proof -
  let ?P = "flag (link_has_bucket l) = flag (link_has_bucket k) \<and>
      flag (link_has_key l) = flag (link_has_key k) \<and> flag (link_has_tag l) = flag (link_has_tag k) \<and>
      (link_has_bucket l \<longrightarrow> ptr_bytes (link_bucket l) = ptr_bytes (link_bucket k)) \<and>
      (link_has_key l \<longrightarrow> ptr_bytes (link_key l) = ptr_bytes (link_key k)) \<and>
      (link_has_tag l \<longrightarrow> ptr_bytes (link_tag l) = ptr_bytes (link_tag k)) \<and> True"
  have "decides (compare_link l k) ?P"
    unfolding compare_link_def using assms
    by (intro decides_Cons decides_Nil decides_int decides_when decides_binary) (auto simp: link_wf_def)
  moreover have "?P \<longleftrightarrow> link_content l = link_content k"
    by (auto simp: link_content_def when_flag_def)
  ultimately show ?thesis by simp
qed

lemma print_safe_loop:
  assumes "arr_ok p n" "\<And>x. x \<in> set (arr_elems p n) \<Longrightarrow> print_safe (f x)"
    and "\<And>cells st. g cells 0 st = Some (0, st)"
    and "\<And>x cells n st. g (Some x # cells) (Suc n) st =
      do { (w, st) \<leftarrow> f x st; (ws, st) \<leftarrow> g cells n st; Some (w + ws, st) }"
  shows "print_safe (g (pa_list p) n)"
proof -
  obtain rest where p: "pa_list p = map Some (arr_elems p n) @ rest" "length (arr_elems p n) = n"
    using arr_ok_cells [OF assms(1)] .
  have "g (map Some xs @ rest) (length xs) = print_seq (map f xs)" for xs
    by (induction xs) (auto simp: assms(3,4))
  then have "g (pa_list p) n = print_seq (map f (arr_elems p n))" using p by metis
  then show ?thesis using assms(2) print_safe_seq [of "map f (arr_elems p n)"] by auto
qed

lemma print_safe_links [print_intros]: "link_wf l \<Longrightarrow> print_safe (\<lambda>st. riak_links_print st l)"
  unfolding riak_links_print_def
  by (rule print_safe_seq) (auto simp: link_wf_def ptr_wf_def intro!: print_intros split: option.splits)

lemma decides_array:
  assumes "arr_ok p n" "arr_ok q n" "list_all good (arr_elems p n)" "list_all good (arr_elems q n)"
    and "\<And>x y. good x \<Longrightarrow> good y \<Longrightarrow> decides (f x y) (g x = g y)"
  shows "decides (compare_cells f (pa_list p) (pa_list q) n) (map g (arr_elems p n) = map g (arr_elems q n))"
proof -
  obtain r s where "pa_list p = map Some (arr_elems p n) @ r" "length (arr_elems p n) = n"
    "pa_list q = map Some (arr_elems q n) @ s" "length (arr_elems q n) = n"
    using arr_ok_cells [OF assms(1)] arr_ok_cells [OF assms(2)] by metis
  then show ?thesis
    using decides_cells [of "arr_elems p n" "arr_elems q n" f g r s] assms(3-5)
    by (simp add: list_all_length)
qed

text \<open>
  The comparison dereferences the bucket, key, value, charset, content type and encoding of both
  objects, so these must be there even when the flags say they are not used.
\<close>

definition comparable :: "riak_object \<Rightarrow> bool" where
  "comparable ob \<longleftrightarrow> object_wf ob \<and> ptr_wf (obj_bucket ob) \<and> ptr_wf (obj_key ob) \<and>
     ptr_wf (obj_charset ob) \<and> ptr_wf (obj_content_type ob) \<and> ptr_wf (obj_encoding ob)"

text \<open>The fields in the order in which they are compared.\<close>

definition same_fields :: "riak_object \<Rightarrow> riak_object \<Rightarrow> bool" where
  "same_fields a b \<longleftrightarrow>
     ptr_bytes (obj_bucket a) = ptr_bytes (obj_bucket b) \<and>
     ptr_bytes (obj_key a) = ptr_bytes (obj_key b) \<and>
     ptr_bytes (obj_value a) = ptr_bytes (obj_value b) \<and>
     flag (obj_has_charset a) = flag (obj_has_charset b) \<and>
     ptr_bytes (obj_charset a) = ptr_bytes (obj_charset b) \<and>
     flag (obj_has_content_type a) = flag (obj_has_content_type b) \<and>
     ptr_bytes (obj_content_type a) = ptr_bytes (obj_content_type b) \<and>
     flag (obj_has_content_encoding a) = flag (obj_has_content_encoding b) \<and>
     ptr_bytes (obj_encoding a) = ptr_bytes (obj_encoding b) \<and>
     (obj_has_vtag a \<and> obj_has_vtag b \<longrightarrow> ptr_bytes (obj_vtag a) = ptr_bytes (obj_vtag b)) \<and>
     (obj_has_last_mod a \<and> obj_has_last_mod b \<longrightarrow> obj_last_mod a = obj_last_mod b) \<and>
     (obj_has_last_mod_usecs a \<and> obj_has_last_mod_usecs b \<longrightarrow>
        obj_last_mod_usecs a = obj_last_mod_usecs b) \<and>
     flag (obj_deleted a) = flag (obj_deleted b) \<and>
     obj_n_indexes a = obj_n_indexes b \<and> obj_n_links a = obj_n_links b \<and>
     obj_n_usermeta a = obj_n_usermeta b \<and>
     map pair_content (arr_elems (obj_indexes a) (int_count (obj_n_indexes a))) =
       map pair_content (arr_elems (obj_indexes b) (int_count (obj_n_indexes a))) \<and>
     map link_content (arr_elems (obj_links a) (int_count (obj_n_links a))) =
       map link_content (arr_elems (obj_links b) (int_count (obj_n_links a))) \<and>
     map pair_content (arr_elems (obj_usermeta a) (int_count (obj_n_usermeta a))) =
       map pair_content (arr_elems (obj_usermeta b) (int_count (obj_n_usermeta a))) \<and> True"

text \<open>
  What that means for the values of the objects: they have the same bucket and key and the same
  contents, where a vtag or a time of modification counts only if both have one, the deletion mark
  counts even where it is not set, and so do the charset, content type and encoding. The bucket
  type is not looked at.
\<close>

definition compared_with :: "riak_object \<Rightarrow> riak_object \<Rightarrow> riak_object" where
  "compared_with b a = a\<lparr>obj_has_vtag := obj_has_vtag a \<and> obj_has_vtag b,
     obj_has_last_mod := obj_has_last_mod a \<and> obj_has_last_mod b,
     obj_has_last_mod_usecs := obj_has_last_mod_usecs a \<and> obj_has_last_mod_usecs b, obj_has_deleted := True\<rparr>"

definition same_object :: "riak_object \<Rightarrow> riak_object \<Rightarrow> bool" where
  "same_object a b \<longleftrightarrow>
     ptr_bytes (obj_bucket a) = ptr_bytes (obj_bucket b) \<and> ptr_bytes (obj_key a) = ptr_bytes (obj_key b) \<and>
     object_content (compared_with b a) = object_content (compared_with a b) \<and>
     ptr_bytes (obj_charset a) = ptr_bytes (obj_charset b) \<and>
     ptr_bytes (obj_content_type a) = ptr_bytes (obj_content_type b) \<and>
     ptr_bytes (obj_encoding a) = ptr_bytes (obj_encoding b) \<and>
     (obj_n_indexes a, obj_n_links a, obj_n_usermeta a) = (obj_n_indexes b, obj_n_links b, obj_n_usermeta b)"

lemma when_flag_eq: "when_flag x p = when_flag y q \<longleftrightarrow> x = y \<and> (x \<longrightarrow> p = q)"
  by (simp add: when_flag_def)

lemma same_object_fields: "same_object a b \<longleftrightarrow> same_fields a b"
proof (cases "obj_n_indexes a = obj_n_indexes b \<and> obj_n_links a = obj_n_links b \<and> obj_n_usermeta a = obj_n_usermeta b")
  case True
  have f: "flag x = flag y \<longleftrightarrow> x = y" for x y by (simp add: flag_def)
  have "object_content (compared_with b a) = object_content (compared_with a b) \<longleftrightarrow>
      ptr_bytes (obj_value a) = ptr_bytes (obj_value b) \<and>
      when_flag (obj_has_charset a) (ptr_bytes (obj_charset a)) = when_flag (obj_has_charset b) (ptr_bytes (obj_charset b)) \<and>
      when_flag (obj_has_content_encoding a) (ptr_bytes (obj_encoding a)) =
        when_flag (obj_has_content_encoding b) (ptr_bytes (obj_encoding b)) \<and>
      when_flag (obj_has_content_type a) (ptr_bytes (obj_content_type a)) =
        when_flag (obj_has_content_type b) (ptr_bytes (obj_content_type b)) \<and>
      (obj_has_vtag a \<and> obj_has_vtag b \<longrightarrow> ptr_bytes (obj_vtag a) = ptr_bytes (obj_vtag b)) \<and>
      obj_deleted a = obj_deleted b \<and>
      (obj_has_last_mod a \<and> obj_has_last_mod b \<longrightarrow> obj_last_mod a = obj_last_mod b) \<and>
      (obj_has_last_mod_usecs a \<and> obj_has_last_mod_usecs b \<longrightarrow> obj_last_mod_usecs a = obj_last_mod_usecs b) \<and>
      map pair_content (arr_elems (obj_indexes a) (int_count (obj_n_indexes a))) =
        map pair_content (arr_elems (obj_indexes b) (int_count (obj_n_indexes b))) \<and>
      map pair_content (arr_elems (obj_usermeta a) (int_count (obj_n_usermeta a))) =
        map pair_content (arr_elems (obj_usermeta b) (int_count (obj_n_usermeta b))) \<and>
      map link_content (arr_elems (obj_links a) (int_count (obj_n_links a))) =
        map link_content (arr_elems (obj_links b) (int_count (obj_n_links b)))"
    unfolding object_content_def compared_with_def
    by (simp add: when_flag_eq conj_commute [of "obj_has_vtag b"] conj_commute [of "obj_has_last_mod b"]
        conj_commute [of "obj_has_last_mod_usecs b"])
  with True show ?thesis
    unfolding same_object_def same_fields_def f when_flag_eq by (elim conjE) (simp, blast)
qed (auto simp: same_object_def same_fields_def)

lemma riak_object_compare_decides:
  assumes "comparable a" "comparable b"
  shows "decides (riak_object_compare_internal a b) (same_fields a b)"
proof -
  from assms have w: "ptr_wf (obj_bucket a)" "ptr_wf (obj_bucket b)" "ptr_wf (obj_key a)" "ptr_wf (obj_key b)"
    "ptr_wf (obj_value a)" "ptr_wf (obj_value b)" "ptr_wf (obj_charset a)" "ptr_wf (obj_charset b)"
    "ptr_wf (obj_content_type a)" "ptr_wf (obj_content_type b)" "ptr_wf (obj_encoding a)" "ptr_wf (obj_encoding b)"
    "obj_has_vtag a \<and> obj_has_vtag b \<Longrightarrow> ptr_wf (obj_vtag a)"
    "obj_has_vtag a \<and> obj_has_vtag b \<Longrightarrow> ptr_wf (obj_vtag b)"
    by (simp_all add: comparable_def object_wf_def)
  have arr: "obj_arrays_ok a" "obj_arrays_ok b"
    "list_all pair_wf (arr_elems (obj_indexes a) (int_count (obj_n_indexes a)))"
    "list_all pair_wf (arr_elems (obj_indexes b) (int_count (obj_n_indexes b)))"
    "list_all pair_wf (arr_elems (obj_usermeta a) (int_count (obj_n_usermeta a)))"
    "list_all pair_wf (arr_elems (obj_usermeta b) (int_count (obj_n_usermeta b)))"
    "list_all link_wf (arr_elems (obj_links a) (int_count (obj_n_links a)))"
    "list_all link_wf (arr_elems (obj_links b) (int_count (obj_n_links b)))"
    using assms by (simp_all add: comparable_def object_wf_def)
  have cells:
    "obj_n_indexes a = obj_n_indexes b \<Longrightarrow> decides (compare_cells (compare_pair x y z)
        (pa_list (obj_indexes a)) (pa_list (obj_indexes b)) (int_count (obj_n_indexes a)))
      (map pair_content (arr_elems (obj_indexes a) (int_count (obj_n_indexes a))) =
       map pair_content (arr_elems (obj_indexes b) (int_count (obj_n_indexes a))))"
    "obj_n_links a = obj_n_links b \<Longrightarrow> decides (compare_cells compare_link
        (pa_list (obj_links a)) (pa_list (obj_links b)) (int_count (obj_n_links a)))
      (map link_content (arr_elems (obj_links a) (int_count (obj_n_links a))) =
       map link_content (arr_elems (obj_links b) (int_count (obj_n_links a))))"
    "obj_n_usermeta a = obj_n_usermeta b \<Longrightarrow> decides (compare_cells (compare_pair x y z)
        (pa_list (obj_usermeta a)) (pa_list (obj_usermeta b)) (int_count (obj_n_usermeta a)))
      (map pair_content (arr_elems (obj_usermeta a) (int_count (obj_n_usermeta a))) =
       map pair_content (arr_elems (obj_usermeta b) (int_count (obj_n_usermeta a))))" for x y z
    using arr decides_array [where good = pair_wf and g = pair_content, OF _ _ _ _ decides_pair]
      decides_array [where good = link_wf and g = link_content, OF _ _ _ _ decides_link]
    by (simp_all add: obj_arrays_ok_def)
  show ?thesis
    unfolding riak_object_compare_internal_def same_fields_def
    by (rule decides_Cons decides_Nil decides_int decides_when decides_binary cells w | assumption)+
qed

lemma riak_object_compare_ok:
  assumes "comparable a" "comparable b"
  shows "\<exists>r. riak_object_compare a b = Some r \<and> (r = 0 \<longleftrightarrow> same_object a b)"
  using riak_object_compare_decides [OF assms]
  by (auto simp: decides_def riak_object_compare_def same_object_fields)

text \<open>
  What the comparison is blind to: the bucket type, whether there is a key and a deletion mark,
  and a vtag or time of modification the other object does not have.
\<close>

lemma riak_object_compare_blind:
  assumes "comparable a"
  shows "riak_object_compare a (a\<lparr>obj_has_bucket_type := h, obj_bucket_type := t, obj_has_key := k, obj_has_deleted := d,
      obj_has_vtag := v \<and> obj_has_vtag a, obj_has_last_mod := l \<and> obj_has_last_mod a,
      obj_has_last_mod_usecs := u \<and> obj_has_last_mod_usecs a\<rparr>) = Some 0"
proof -
  let ?b = "a\<lparr>obj_has_bucket_type := h, obj_bucket_type := t, obj_has_key := k, obj_has_deleted := d,
      obj_has_vtag := v \<and> obj_has_vtag a, obj_has_last_mod := l \<and> obj_has_last_mod a,
      obj_has_last_mod_usecs := u \<and> obj_has_last_mod_usecs a\<rparr>"
  have "comparable ?b" using assms by (auto simp: comparable_def object_wf_def obj_arrays_ok_def)
  moreover have "same_object a ?b"
    by (auto simp: same_object_def compared_with_def object_content_def when_flag_def)
  ultimately show ?thesis using riak_object_compare_ok [OF assms] by auto
qed

definition pair_printer :: "riak_pair \<Rightarrow> printer" where
  "pair_printer p = print_seq
     [\<lambda>st. riak_print_label_binary st (str ''Key'') (pair_key p),
      print_when (pair_has_value p) (\<lambda>st. riak_print_label_binary st (str ''Value'') (pair_value p))]"

lemma print_safe_pair: "pair_wf p \<Longrightarrow> print_safe (pair_printer p)"
  unfolding pair_printer_def
  by (rule print_safe_list)
    (auto simp: pair_wf_def ptr_wf_def intro!: print_intros split: option.splits)

lemma print_safe_pairs:
  assumes "arr_ok p (unat n)" "list_all pair_wf (arr_elems p (unat n))"
  shows "print_safe (\<lambda>st. riak_pairs_print st p n)"
proof -
  have "print_safe (pairs_print_loop (pa_list p) (unat n))"
    by (rule print_safe_loop [where f = pair_printer and g = pairs_print_loop])
      (use assms print_safe_pair in \<open>auto simp: list_all_iff pair_printer_def simp del: print_seq.simps str_simps\<close>)
  then show ?thesis by (simp add: print_safe_def riak_pairs_print_def)
qed

text \<open>Printing a well-formed object stays inside the buffer, whatever its size.\<close>

definition printable_object :: "riak_object \<Rightarrow> bool" where
  "printable_object ob \<longleftrightarrow> object_wf ob \<and> (\<forall>b. obj_bucket ob = Some b \<longrightarrow> bin_wf b) \<and>
     (\<forall>b. obj_bucket_type ob = Some b \<longrightarrow> bin_wf b) \<and> (\<forall>b. obj_key ob = Some b \<longrightarrow> bin_wf b) \<and>
     0 \<le> sint (obj_n_indexes ob) \<and> 0 \<le> sint (obj_n_usermeta ob)"

lemma riak_object_print_safe:
  assumes "printable_object ob" "\<And>v. length (strftime v) < 256"
  shows "print_safe (\<lambda>st. riak_object_print strftime st ob)"
proof -
  have bin: "\<And>b. obj_bucket ob = Some b \<Longrightarrow> bin_wf b" "\<And>b. obj_bucket_type ob = Some b \<Longrightarrow> bin_wf b"
    "\<And>b. obj_key ob = Some b \<Longrightarrow> bin_wf b" "\<And>b. obj_value ob = Some b \<Longrightarrow> bin_wf b"
    "\<And>b. obj_has_charset ob \<Longrightarrow> obj_charset ob = Some b \<Longrightarrow> bin_wf b"
    "\<And>b. obj_has_content_type ob \<Longrightarrow> obj_content_type ob = Some b \<Longrightarrow> bin_wf b"
    "\<And>b. obj_has_content_encoding ob \<Longrightarrow> obj_encoding ob = Some b \<Longrightarrow> bin_wf b"
    "\<And>b. obj_has_vtag ob \<Longrightarrow> obj_vtag ob = Some b \<Longrightarrow> bin_wf b"
    using assms(1) by (auto simp: printable_object_def object_wf_def ptr_wf_def)
  have links: "print_safe (links_print_loop (pa_list (obj_links ob)) (int_count (obj_n_links ob)))"
    by (rule print_safe_loop [where f = "\<lambda>l st. riak_links_print st l" and g = links_print_loop])
      (use assms(1) in \<open>simp_all add: printable_object_def object_wf_def obj_arrays_ok_def list_all_iff
        print_safe_links\<close>)
  have pairs: "print_safe (\<lambda>st. riak_pairs_print st (obj_usermeta ob) (obj_n_usermeta ob))"
    "print_safe (\<lambda>st. riak_pairs_print st (obj_indexes ob) (obj_n_indexes ob))"
    using assms(1)
    by (auto simp: printable_object_def object_wf_def obj_arrays_ok_def unat_sint_pos intro!: print_safe_pairs)
  have time: "length (str ''Last Mod'') + length (strftime (obj_last_mod ob)) + 3 < 2 ^ 31"
    using assms(2) [of "obj_last_mod ob"] by simp
  show ?thesis
    unfolding riak_object_print_def
    by (rule print_safe_list, simp only: list.pred_inject)
      (intro conjI TrueI links pairs print_intros time; (erule bin | erule (1) bin | simp))
qed

subsection \<open>Adding to an object\<close>

lemma array_extend_ok:
  assumes g: "cfg_grants cfg" and ok: "arr_ok arr (int_count n)" and n: "0 \<le> sint n" "sint n < 2 ^ 30"
    and own: "arr = None \<longrightarrow> n = 0" "\<And>a. arr = Some a \<Longrightarrow> pa_addr a \<in> mem_live m"
  obtains a m' where "array_extend cfg elt arr n m = Some (Some a, m')"
    "pa_cells a = take (int_count n) (pa_list arr) @ [None]"
proof (cases arr)
  case None
  with own(1) that show ?thesis
    by (auto simp: array_extend_def clean_allocate_eq allocate_granted [OF g])
next
  case (Some f)
  have un: "unat n = int_count n" using n(1) by (rule unat_sint_pos)
  then have un1: "unat (n + 1) = Suc (unat n)" using n by (simp add: unat_word_ariths)
  from riak_array_realloc_granted [OF g, of n f "n + 1" m elt] Some own(2) ok un un1 that
  show ?thesis by (auto simp: array_extend_def arr_ok_def Suc_diff_le)
qed

lemma cell_store_last:
  assumes "pa_cells a = cs @ [None]" "length cs = int_count n" "0 \<le> sint n"
  shows "cell_store a n x = Some (a\<lparr>pa_cells := cs @ [x]\<rparr>)"
  using assms by (simp add: cell_store_def list_update_append flip: assms(2))

lemma int_count_plus_1: "0 \<le> sint (n :: i32) \<Longrightarrow> sint n < 2 ^ 30 \<Longrightarrow> int_count (n + 1) = Suc (int_count n)"
proof -
  assume *: "0 \<le> sint n" "sint n < 2 ^ 30"
  then have "sint (n + 1) = sint n + 1"
    by (simp add: sint_word_ariths signed_take_bit_int_eq_self)
  with * show ?thesis by simp
qed

text \<open>A new link is appended to the links the object has.\<close>

lemma riak_object_new_link_ok:
  assumes g: "cfg_grants cfg" and ok: "arr_ok (obj_links ob) (int_count (obj_n_links ob))"
    and n: "0 \<le> sint (obj_n_links ob)" "sint (obj_n_links ob) < 2 ^ 30"
    and own: "obj_links ob = None \<longrightarrow> obj_n_links ob = 0" "\<And>a. obj_links ob = Some a \<Longrightarrow> pa_addr a \<in> mem_live m"
  shows "\<exists>l ob' m'. riak_object_new_link cfg ob m = Some (Some (link_zero l), ob', m') \<and>
    obj_n_links ob' = obj_n_links ob + 1 \<and>
    arr_ok (obj_links ob') (int_count (obj_n_links ob')) \<and>
    arr_elems (obj_links ob') (int_count (obj_n_links ob')) =
      arr_elems (obj_links ob) (int_count (obj_n_links ob)) @ [link_zero l]"
proof -
  let ?n = "obj_n_links ob" and ?cs = "take (int_count (obj_n_links ob)) (pa_list (obj_links ob))"
  obtain a m' where a: "array_extend cfg ''riak_link*'' (obj_links ob) ?n m = Some (Some a, m')"
    "pa_cells a = ?cs @ [None]"
    using array_extend_ok [OF g ok n own] by metis
  have len: "length ?cs = int_count ?n" using ok by (simp add: arr_ok_def)
  let ?l = "link_zero (mem_next m')"
  let ?ob = "ob\<lparr>obj_links := Some (a\<lparr>pa_cells := ?cs @ [Some ?l]\<rparr>), obj_n_links := ?n + 1\<rparr>"
  have "riak_object_new_link cfg ob m = Some (Some ?l, ?ob, mem_push m')"
    using a cell_store_last [OF a(2) len n(1)]
    by (simp add: riak_object_new_link_def riak_link_new_def clean_allocate_eq allocate_granted [OF g])
  then show ?thesis
    using ok len by (intro exI [of _ "mem_next m'"] exI [of _ ?ob] exI [of _ "mem_push m'"])
      (simp add: int_count_plus_1 [OF n] arr_ok_def arr_elems_def)
qed

text \<open>
  When the enlarged array is refused the old one is kept and the store goes one past its end.
\<close>

lemma riak_object_new_link_refused:
  assumes "obj_links ob = Some a" "int_count (obj_n_links ob) = length (pa_cells a)"
    "riak_config_allocate cfg (SizeOf ''riak_link*'' (unat (obj_n_links ob + 1))) m = (None, m1)"
  shows "riak_object_new_link cfg ob m = None"
proof -
  have "array_extend cfg ''riak_link*'' (obj_links ob) (obj_n_links ob) m = Some (Some a, m1)"
    using assms by (simp add: array_extend_def riak_array_realloc_def clean_allocate_eq)
  then show ?thesis using assms(2)
    by (simp add: riak_object_new_link_def cell_store_def guard_def split: prod.splits)
qed

end
