(* ===== verification/Riak_Bucketprops.thy ===== *)
theory Riak_Bucketprops
  imports Riak_Object
begin

text \<open>
  Bucket properties with their Erlang functions and commit hooks
  (\<^verbatim>\<open>src/riak_bucketprops.c\<close>, \<^verbatim>\<open>src/internal/riak_bucketprops-internal.h\<close>), and their
  conversion from and to \<open>RpbBucketProps\<close>, \<open>RpbCommitHook\<close> and \<open>RpbModFun\<close>.

  Almost every property is an optional field: the flag \<open>has_x\<close> and the value \<open>x\<close> are the two
  components of one pair here.
\<close>

subsection \<open>Data\<close>

type_synonym 'a field = "bool \<times> 'a"

record riak_modfun =
  mf_at :: addr
  mf_module :: "riak_binary option"
  mf_function :: "riak_binary option"

record riak_commit_hook =
  hook_at :: addr
  hook_modfun :: "riak_modfun option"
  hook_has_name :: bool
  hook_name :: "riak_binary option"

record riak_bucketprops =
  bp_at :: addr
  bp_n_val :: "u32 field"
  bp_allow_mult :: "bool field"
  bp_last_write_wins :: "bool field"
  bp_n_precommit :: u64
  bp_precommit :: "riak_commit_hook parray option"
  bp_has_precommit :: "bool field"
  bp_n_postcommit :: u64
  bp_postcommit :: "riak_commit_hook parray option"
  bp_has_postcommit :: "bool field"
  bp_chash_keyfun :: "riak_modfun option"
  bp_linkfun :: "riak_modfun option"
  bp_old_vclock :: "u32 field"
  bp_young_vclock :: "u32 field"
  bp_big_vclock :: "u32 field"
  bp_small_vclock :: "u32 field"
  bp_pr :: "u32 field"
  bp_r :: "u32 field"
  bp_w :: "u32 field"
  bp_pw :: "u32 field"
  bp_dw :: "u32 field"
  bp_rw :: "u32 field"
  bp_basic_quorum :: "bool field"
  bp_notfound_ok :: "bool field"
  bp_backend :: "riak_binary option field"
  bp_search :: "bool field"
  bp_repl :: "i32 field"
  bp_search_index :: "riak_binary option field"

text \<open>
  Messages of the generated code. \<open>rpm_init\<close> and \<open>rph_init\<close> say that the header which protobuf-c
  keeps at the start of every message has been initialised, by its \<open>init\<close> function or by unpacking;
  the functions that measure and pack a message read it.
\<close>

record rpb_modfun =
  rpm_at :: addr
  rpm_init :: bool
  rpm_module :: pb_binary
  rpm_function :: pb_binary

record rpb_commit_hook =
  rph_at :: addr
  rph_init :: bool
  rph_modfun :: "rpb_modfun option"
  rph_has_name :: bool
  rph_name :: pb_binary

record rpb_bucketprops =
  rbp_at :: addr
  rbp_n_val :: "u32 field"
  rbp_allow_mult :: "bool field"
  rbp_last_write_wins :: "bool field"
  rbp_n_precommit :: u64
  rbp_precommit :: "rpb_commit_hook parray option"
  rbp_has_precommit :: "bool field"
  rbp_n_postcommit :: u64
  rbp_postcommit :: "rpb_commit_hook parray option"
  rbp_has_postcommit :: "bool field"
  rbp_chash_keyfun :: "rpb_modfun option"
  rbp_linkfun :: "rpb_modfun option"
  rbp_old_vclock :: "u32 field"
  rbp_young_vclock :: "u32 field"
  rbp_big_vclock :: "u32 field"
  rbp_small_vclock :: "u32 field"
  rbp_pr :: "u32 field"
  rbp_r :: "u32 field"
  rbp_w :: "u32 field"
  rbp_pw :: "u32 field"
  rbp_dw :: "u32 field"
  rbp_rw :: "u32 field"
  rbp_basic_quorum :: "bool field"
  rbp_notfound_ok :: "bool field"
  rbp_backend :: "pb_binary field"
  rbp_search :: "bool field"
  rbp_repl :: "i32 field"
  rbp_search_index :: "pb_binary field"

text \<open>\<open>if (from->has_x) { to->has_x = RIAK_TRUE; to->x = from->x; }\<close>\<close>

definition copy_field :: "'a field \<Rightarrow> 'a field \<Rightarrow> 'a field" where
  "copy_field from to = (if fst from then (True, snd from) else to)"

text \<open>\<open>if (err) return err;\<close>: the next part of a function runs only after \<open>ERIAK_OK\<close>.\<close>

definition then_ok ::
  "(riak_error \<times> 's) option \<Rightarrow> ('s \<Rightarrow> (riak_error \<times> 's) option) \<Rightarrow> (riak_error \<times> 's) option"
where
  "then_ok r f = do { (err, s) \<leftarrow> r; (if err = ERIAK_OK then f s else Some (err, s)) }"

lemma then_ok_simps [simp]:
  "then_ok (Some (ERIAK_OK, s)) f = f s"
  "err \<noteq> ERIAK_OK \<Longrightarrow> then_ok (Some (err, s)) f = Some (err, s)"
  "then_ok None f = None"
  by (simp_all add: then_ok_def)

subsection \<open>Erlang functions\<close>

definition modfun_zero :: "addr \<Rightarrow> riak_modfun" where
  "modfun_zero a = \<lparr>mf_at = a, mf_module = None, mf_function = None\<rparr>"

definition riak_modfun_new :: "riak_config option \<Rightarrow> mem \<Rightarrow> (riak_modfun option \<times> mem) option" where
  "riak_modfun_new cfg m =
     do { (p, m) \<leftarrow> cfg_malloc cfg (SizeOf ''riak_modfun'' 1) m;
          Some (map_option modfun_zero p, m) }"

definition riak_modfun_deep_new ::
  "riak_config option \<Rightarrow> riak_modfun \<Rightarrow> mem \<Rightarrow> (riak_modfun option \<times> mem) option"
where
  "riak_modfun_deep_new cfg from m =
     do { (p, m) \<leftarrow> riak_modfun_new cfg m;
          (case p of
             None \<Rightarrow> Some (None, m)
           | Some fn \<Rightarrow>
               do { (mo, m) \<leftarrow> riak_binary_copy cfg (mf_module from) m;
                    (if mo = None
                     then do { m \<leftarrow> riak_free cfg (Some (mf_at fn)) m; Some (None, m) }
                     else do { (fu, m) \<leftarrow> riak_binary_copy cfg (mf_function from) m;
                               (if fu = None
                                then do { m \<leftarrow> riak_binary_free cfg mo m;
                                          m \<leftarrow> riak_free cfg (Some (mf_at fn)) m;
                                          Some (None, m) }
                                else Some (Some (fn\<lparr>mf_module := mo, mf_function := fu\<rparr>), m)) }) }) }"

text \<open>
  The target keeps its value \<open>to\<close> when there is nothing to copy or no memory. The new message is a
  block from \<open>malloc_fn\<close>; \<open>rpb_mod_fun__init\<close> is not called.
\<close>

definition riak_modfun_copy_to_pb ::
  "riak_config option \<Rightarrow> rpb_modfun option \<Rightarrow> riak_modfun option \<Rightarrow> mem \<Rightarrow>
   (riak_error \<times> rpb_modfun option \<times> mem) option"
where
  "riak_modfun_copy_to_pb cfg to mf m =
     (case mf of
        None \<Rightarrow> Some (ERIAK_OK, to, m)
      | Some f \<Rightarrow>
          do { (p, m) \<leftarrow> cfg_malloc cfg (SizeOf ''RpbModFun'' 1) m;
               (case p of
                  None \<Rightarrow> Some (ERIAK_OUT_OF_MEMORY, to, m)
                | Some a \<Rightarrow>
                    do { mo \<leftarrow> riak_binary_copy_to_pb (mf_module f);
                         fu \<leftarrow> riak_binary_copy_to_pb (mf_function f);
                         Some (ERIAK_OK,
                               Some \<lparr>rpm_at = a, rpm_init = False, rpm_module = mo, rpm_function = fu\<rparr>, m) }) })"

text \<open>
  \<open>riak_modfun_copy_from_pb\<close> tests the source for NULL where it means the block it has just
  allocated: a message without the function is "out of memory", and a failed allocation is
  dereferenced.
\<close>

definition riak_modfun_copy_from_pb ::
  "riak_config option \<Rightarrow> rpb_modfun option \<Rightarrow> mem \<Rightarrow>
   (riak_error \<times> riak_modfun option \<times> mem) option"
where
  "riak_modfun_copy_from_pb cfg pb m =
     do { (p, m) \<leftarrow> cfg_malloc cfg (SizeOf ''riak_modfun'' 1) m;
          (case pb of
             None \<Rightarrow> Some (ERIAK_OUT_OF_MEMORY, None, m)
           | Some pbf \<Rightarrow>
               do { let (mo, m) = riak_binary_copy_from_pb cfg (rpm_module pbf) m;
                    a \<leftarrow> p;
                    (if mo = None then Some (ERIAK_OUT_OF_MEMORY, None, m)
                     else (let (fu, m) = riak_binary_copy_from_pb cfg (rpm_function pbf) m
                           in if fu = None then Some (ERIAK_OUT_OF_MEMORY, None, m)
                              else Some (ERIAK_OK,
                                         Some \<lparr>mf_at = a, mf_module = mo, mf_function = fu\<rparr>, m))) }) }"

definition riak_modfun_free_pb :: "riak_config option \<Rightarrow> rpb_modfun option \<Rightarrow> mem \<Rightarrow> mem option" where
  "riak_modfun_free_pb cfg pb m = riak_free cfg (map_option rpm_at pb) m"

text \<open>A NULL function is dereferenced.\<close>

definition riak_modfun_free :: "riak_config option \<Rightarrow> riak_modfun option \<Rightarrow> mem \<Rightarrow> mem option" where
  "riak_modfun_free cfg mf m =
     do { f \<leftarrow> mf;
          m \<leftarrow> riak_binary_free cfg (mf_module f) m;
          m \<leftarrow> riak_binary_free cfg (mf_function f) m;
          riak_free cfg (Some (mf_at f)) m }"

definition riak_modfun_print ::
  "riak_print_state \<Rightarrow> bytes \<Rightarrow> riak_modfun option \<Rightarrow> (i32 \<times> riak_print_state) option"
where
  "riak_modfun_print st name mf =
     do { (w1, st) \<leftarrow> riak_print st (name @ str '': '');
          f \<leftarrow> mf;
          (w2, st) \<leftarrow> riak_print_label_binary st (str ''Module'') (mf_module f);
          (w3, st) \<leftarrow> riak_print_label_binary st (str ''Function'') (mf_function f);
          Some (w1 + w2 + w3, st) }"

definition riak_modfun_get_module :: "riak_modfun \<Rightarrow> riak_binary option" where
  "riak_modfun_get_module f = mf_module f"

definition riak_modfun_get_function :: "riak_modfun \<Rightarrow> riak_binary option" where
  "riak_modfun_get_function f = mf_function f"

definition riak_modfun_set_module ::
  "riak_config option \<Rightarrow> riak_modfun \<Rightarrow> riak_binary option \<Rightarrow> mem \<Rightarrow> (riak_error \<times> riak_modfun \<times> mem) option"
where
  "riak_modfun_set_module cfg f v m =
     do { (b, m) \<leftarrow> riak_binary_copy cfg v m;
          Some (if b = None then ERIAK_OUT_OF_MEMORY else ERIAK_OK, f\<lparr>mf_module := b\<rparr>, m) }"

definition riak_modfun_set_function ::
  "riak_config option \<Rightarrow> riak_modfun \<Rightarrow> riak_binary option \<Rightarrow> mem \<Rightarrow> (riak_error \<times> riak_modfun \<times> mem) option"
where
  "riak_modfun_set_function cfg f v m =
     do { (b, m) \<leftarrow> riak_binary_copy cfg v m;
          Some (if b = None then ERIAK_OUT_OF_MEMORY else ERIAK_OK, f\<lparr>mf_function := b\<rparr>, m) }"

subsection \<open>Commit hooks\<close>

definition hook_zero :: "addr \<Rightarrow> riak_commit_hook" where
  "hook_zero a = \<lparr>hook_at = a, hook_modfun = None, hook_has_name = False, hook_name = None\<rparr>"

definition riak_commit_hook_new ::
  "riak_config option \<Rightarrow> mem \<Rightarrow> (riak_commit_hook option \<times> mem) option"
where
  "riak_commit_hook_new cfg m =
     do { (p, m) \<leftarrow> cfg_malloc cfg (SizeOf ''riak_commit_hook'' 1) m;
          Some (map_option hook_zero p, m) }"

definition riak_commit_hook_new_array ::
  "riak_config option \<Rightarrow> u64 \<Rightarrow> mem \<Rightarrow>
   (riak_error \<times> riak_commit_hook parray option \<times> mem) option"
where
  "riak_commit_hook_new_array cfg len m =
     do { (p, m) \<leftarrow> cfg_malloc cfg (SizeOf ''riak_commit_hook'' (unat len)) m;
          (case p of
             None \<Rightarrow> Some (ERIAK_OUT_OF_MEMORY, None, m)
           | Some a \<Rightarrow>
               Some (ERIAK_OK, Some \<lparr>pa_addr = a, pa_cells = replicate (unat len) None\<rparr>, m)) }"

definition pb_binary_zero :: pb_binary where
  "pb_binary_zero = \<lparr>pbb_len = 0, pbb_data = None\<rparr>"

text \<open>A hook is cleared, header included, and not initialised.\<close>

fun hooks_to_pb_loop ::
  "riak_config option \<Rightarrow> riak_commit_hook option list \<Rightarrow> nat \<Rightarrow> mem \<Rightarrow>
   (riak_error \<times> rpb_commit_hook option list \<times> mem) option"
where
  "hooks_to_pb_loop cfg cells 0 m = Some (ERIAK_OK, [], m)"
| "hooks_to_pb_loop cfg cells (Suc n) m =
     do { (p, m) \<leftarrow> cfg_malloc cfg (SizeOf ''RpbCommitHook'' 1) m;
          (case p of
             None \<Rightarrow> Some (ERIAK_OUT_OF_MEMORY, [], m)
           | Some a \<Rightarrow>
               do { h \<leftarrow> pa_next cells;
                    (hn, nm) \<leftarrow> opt_to_pb (hook_has_name h) (hook_name h) (False, pb_binary_zero);
                    (err, mf, m) \<leftarrow> riak_modfun_copy_to_pb cfg None (hook_modfun h) m;
                    (if err \<noteq> ERIAK_OK then Some (err, [], m)
                     else do { (err, hs, m) \<leftarrow> hooks_to_pb_loop cfg (tl cells) n m;
                               Some (err, Some \<lparr>rph_at = a, rph_init = False, rph_modfun = mf, rph_has_name = hn,
                                                rph_name = nm\<rparr> # hs, m) }) }) }"

definition riak_commit_hooks_copy_to_pb ::
  "riak_config option \<Rightarrow> rpb_commit_hook parray option \<Rightarrow> riak_commit_hook parray option \<Rightarrow> u32 \<Rightarrow>
   mem \<Rightarrow> (riak_error \<times> rpb_commit_hook parray option \<times> mem) option"
where
  "riak_commit_hooks_copy_to_pb cfg to hooks num m =
     (if hooks = None then Some (ERIAK_OK, to, m)
      else do { (p, m) \<leftarrow> cfg_malloc cfg (SizeOf ''RpbCommitHook*'' (unat num)) m;
                (case p of
                   None \<Rightarrow> Some (ERIAK_OUT_OF_MEMORY, to, m)
                 | Some a \<Rightarrow>
                     do { (err, hs, m) \<leftarrow> hooks_to_pb_loop cfg (pa_list hooks) (unat num) m;
                          Some (err, if err = ERIAK_OK
                                     then Some \<lparr>pa_addr = a, pa_cells = hs\<rparr> else to, m) }) })"

fun hooks_from_pb_loop ::
  "riak_config option \<Rightarrow> rpb_commit_hook option list \<Rightarrow> nat \<Rightarrow> mem \<Rightarrow>
   (riak_error \<times> riak_commit_hook option list \<times> mem) option"
where
  "hooks_from_pb_loop cfg cells 0 m = Some (ERIAK_OK, [], m)"
| "hooks_from_pb_loop cfg cells (Suc n) m =
     do { (p, m) \<leftarrow> cfg_malloc cfg (SizeOf ''riak_commit_hook'' 1) m;
          (case p of
             None \<Rightarrow> Some (ERIAK_OUT_OF_MEMORY, [], m)
           | Some a \<Rightarrow>
               do { pb \<leftarrow> pa_next cells;
                    let (nm, m) = (if rph_has_name pb then riak_binary_copy_from_pb cfg (rph_name pb) m
                                   else (None, m));
                    (if rph_has_name pb \<and> nm = None then Some (ERIAK_OUT_OF_MEMORY, [], m)
                     else do { (err, mf, m) \<leftarrow> riak_modfun_copy_from_pb cfg (rph_modfun pb) m;
                               (if err \<noteq> ERIAK_OK then Some (err, [], m)
                                else do { (err, hs, m) \<leftarrow> hooks_from_pb_loop cfg (tl cells) n m;
                                          Some (err, Some \<lparr>hook_at = a, hook_modfun = mf,
                                                           hook_has_name = rph_has_name pb,
                                                           hook_name = nm\<rparr> # hs, m) }) }) }) }"

definition riak_commit_hooks_copy_from_pb ::
  "riak_config option \<Rightarrow> rpb_commit_hook parray option \<Rightarrow> u32 \<Rightarrow> mem \<Rightarrow>
   (riak_error \<times> riak_commit_hook parray option \<times> mem) option"
where
  "riak_commit_hooks_copy_from_pb cfg pbs num m =
     do { (p, m) \<leftarrow> cfg_malloc cfg (SizeOf ''riak_commit_hook*'' (unat num)) m;
          (case p of
             None \<Rightarrow> Some (ERIAK_OUT_OF_MEMORY, None, m)
           | Some a \<Rightarrow>
               do { (err, hs, m) \<leftarrow> hooks_from_pb_loop cfg (pa_list pbs) (unat num) m;
                    Some (err, if err = ERIAK_OK
                               then Some \<lparr>pa_addr = a, pa_cells = hs\<rparr> else None, m) }) }"

fun hooks_print_loop :: "riak_commit_hook option list \<Rightarrow> nat \<Rightarrow> nat \<Rightarrow> printer" where
  "hooks_print_loop cells i 0 st = Some (0, st)"
| "hooks_print_loop cells i (Suc n) st =
     do { (w1, st) \<leftarrow> riak_print st (str ''Hook '' @ dec_int (int i) @ [10]);
          h \<leftarrow> pa_next cells;
          (w2, st) \<leftarrow> print_when (hook_has_name h)
            (\<lambda>st. riak_print_label_binary st (str ''Name'') (hook_name h)) st;
          (w3, st) \<leftarrow> riak_modfun_print st (str ''Mod Fun'') (hook_modfun h);
          (ws, st) \<leftarrow> hooks_print_loop (tl cells) (Suc i) n st;
          Some (w1 + w2 + w3 + ws, st) }"

definition riak_commit_hooks_print ::
  "riak_print_state \<Rightarrow> riak_commit_hook parray option \<Rightarrow> i32 \<Rightarrow> (i32 \<times> riak_print_state) option"
where
  "riak_commit_hooks_print st hooks num = hooks_print_loop (pa_list hooks) 0 (nat (sint num)) st"

definition riak_commit_hooks_free_pb ::
  "riak_config option \<Rightarrow> rpb_commit_hook parray option \<Rightarrow> u32 \<Rightarrow> mem \<Rightarrow> mem option"
where
  "riak_commit_hooks_free_pb cfg pbs num m =
     do { m \<leftarrow> free_cells (\<lambda>pb m. do { m \<leftarrow> riak_modfun_free_pb cfg (rph_modfun pb) m;
                                     riak_free cfg (Some (rph_at pb)) m })
                 (pa_list pbs) (unat num) m;
          riak_free cfg (map_option pa_addr pbs) m }"

definition hook_free :: "riak_config option \<Rightarrow> riak_commit_hook \<Rightarrow> mem \<Rightarrow> mem option" where
  "hook_free cfg h m =
     do { m \<leftarrow> riak_binary_free cfg (hook_name h) m;
          m \<leftarrow> riak_modfun_free cfg (hook_modfun h) m;
          riak_free cfg (Some (hook_at h)) m }"

definition riak_commit_hooks_free ::
  "riak_config option \<Rightarrow> riak_commit_hook parray option \<Rightarrow> u32 \<Rightarrow> mem \<Rightarrow> mem option"
where
  "riak_commit_hooks_free cfg hooks num m =
     do { m \<leftarrow> free_cells (hook_free cfg) (pa_list hooks) (unat num) m;
          riak_free cfg (map_option pa_addr hooks) m }"

definition riak_commit_hook_get_modfun :: "riak_commit_hook \<Rightarrow> riak_modfun option" where
  "riak_commit_hook_get_modfun h = hook_modfun h"

definition riak_commit_hook_get_has_name :: "riak_commit_hook \<Rightarrow> bool" where
  "riak_commit_hook_get_has_name h = hook_has_name h"

definition riak_commit_hook_get_name :: "riak_commit_hook \<Rightarrow> riak_binary option" where
  "riak_commit_hook_get_name h = hook_name h"

definition riak_commit_hook_set_modfun ::
  "riak_config option \<Rightarrow> riak_commit_hook \<Rightarrow> riak_modfun \<Rightarrow> mem \<Rightarrow>
   (riak_error \<times> riak_commit_hook \<times> mem) option"
where
  "riak_commit_hook_set_modfun cfg h v m =
     do { (f, m) \<leftarrow> riak_modfun_deep_new cfg v m;
          Some (if f = None then ERIAK_OUT_OF_MEMORY else ERIAK_OK, h\<lparr>hook_modfun := f\<rparr>, m) }"

definition riak_commit_hook_set_name ::
  "riak_config option \<Rightarrow> riak_commit_hook \<Rightarrow> riak_binary option \<Rightarrow> mem \<Rightarrow>
   (riak_error \<times> riak_commit_hook \<times> mem) option"
where
  "riak_commit_hook_set_name cfg h v m =
     do { (b, m) \<leftarrow> riak_binary_copy cfg v m;
          Some (if b = None then ERIAK_OUT_OF_MEMORY else ERIAK_OK,
                h\<lparr>hook_has_name := True, hook_name := b\<rparr>, m) }"

subsection \<open>Bucket properties\<close>

definition bucketprops_zero :: "addr \<Rightarrow> riak_bucketprops" where
  "bucketprops_zero a =
     \<lparr>bp_at = a,
      bp_n_val = (False, 0), bp_allow_mult = (False, False), bp_last_write_wins = (False,
      False), bp_n_precommit = 0, bp_precommit = None, bp_has_precommit = (False, False),
      bp_n_postcommit = 0, bp_postcommit = None, bp_has_postcommit = (False, False),
      bp_chash_keyfun = None, bp_linkfun = None, bp_old_vclock = (False, 0), bp_young_vclock =
      (False, 0), bp_big_vclock = (False, 0), bp_small_vclock = (False, 0), bp_pr = (False, 0),
      bp_r = (False, 0), bp_w = (False, 0), bp_pw = (False, 0), bp_dw = (False, 0), bp_rw =
      (False, 0), bp_basic_quorum = (False, False), bp_notfound_ok = (False, False), bp_backend
      = (False, None), bp_search = (False, False), bp_repl = (False, 0), bp_search_index =
      (False, None)\<rparr>"

definition riak_bucketprops_new ::
  "riak_config option \<Rightarrow> mem \<Rightarrow> (riak_bucketprops option \<times> mem) option"
where
  "riak_bucketprops_new cfg m =
     do { (p, m) \<leftarrow> cfg_malloc cfg (SizeOf ''riak_bucketprops'' 1) m;
          Some (map_option bucketprops_zero p, m) }"

text \<open>
  The fields that are copied without allocating, in both directions, in the three groups between
  which the hooks and the binaries are copied.
\<close>

definition limits_to_pb :: "riak_bucketprops \<Rightarrow> rpb_bucketprops \<Rightarrow> rpb_bucketprops" where
  "limits_to_pb from to =
     to\<lparr>rbp_n_val := copy_field (bp_n_val from) (rbp_n_val to),
        rbp_allow_mult := copy_field (bp_allow_mult from) (rbp_allow_mult to),
        rbp_last_write_wins := copy_field (bp_last_write_wins from) (rbp_last_write_wins to)\<rparr>"

definition quorums_to_pb :: "riak_bucketprops \<Rightarrow> rpb_bucketprops \<Rightarrow> rpb_bucketprops" where
  "quorums_to_pb from to =
     to\<lparr>rbp_old_vclock := copy_field (bp_old_vclock from) (rbp_old_vclock to),
        rbp_young_vclock := copy_field (bp_young_vclock from) (rbp_young_vclock to),
        rbp_big_vclock := copy_field (bp_big_vclock from) (rbp_big_vclock to),
        rbp_small_vclock := copy_field (bp_small_vclock from) (rbp_small_vclock to),
        rbp_pr := copy_field (bp_pr from) (rbp_pr to),
        rbp_r := copy_field (bp_r from) (rbp_r to),
        rbp_w := copy_field (bp_w from) (rbp_w to),
        rbp_pw := copy_field (bp_pw from) (rbp_pw to),
        rbp_dw := copy_field (bp_dw from) (rbp_dw to),
        rbp_rw := copy_field (bp_rw from) (rbp_rw to),
        rbp_basic_quorum := copy_field (bp_basic_quorum from) (rbp_basic_quorum to),
        rbp_notfound_ok := copy_field (bp_notfound_ok from) (rbp_notfound_ok to)\<rparr>"

definition search_to_pb :: "riak_bucketprops \<Rightarrow> rpb_bucketprops \<Rightarrow> rpb_bucketprops" where
  "search_to_pb from to =
     to\<lparr>rbp_search := copy_field (bp_search from) (rbp_search to),
        rbp_repl := copy_field (bp_repl from) (rbp_repl to)\<rparr>"

definition limits_from_pb :: "rpb_bucketprops \<Rightarrow> riak_bucketprops \<Rightarrow> riak_bucketprops" where
  "limits_from_pb from to =
     to\<lparr>bp_n_val := copy_field (rbp_n_val from) (bp_n_val to),
        bp_allow_mult := copy_field (rbp_allow_mult from) (bp_allow_mult to),
        bp_last_write_wins := copy_field (rbp_last_write_wins from) (bp_last_write_wins to)\<rparr>"

definition quorums_from_pb :: "rpb_bucketprops \<Rightarrow> riak_bucketprops \<Rightarrow> riak_bucketprops" where
  "quorums_from_pb from to =
     to\<lparr>bp_old_vclock := copy_field (rbp_old_vclock from) (bp_old_vclock to),
        bp_young_vclock := copy_field (rbp_young_vclock from) (bp_young_vclock to),
        bp_big_vclock := copy_field (rbp_big_vclock from) (bp_big_vclock to),
        bp_small_vclock := copy_field (rbp_small_vclock from) (bp_small_vclock to),
        bp_pr := copy_field (rbp_pr from) (bp_pr to),
        bp_r := copy_field (rbp_r from) (bp_r to),
        bp_w := copy_field (rbp_w from) (bp_w to),
        bp_pw := copy_field (rbp_pw from) (bp_pw to),
        bp_dw := copy_field (rbp_dw from) (bp_dw to),
        bp_rw := copy_field (rbp_rw from) (bp_rw to),
        bp_basic_quorum := copy_field (rbp_basic_quorum from) (bp_basic_quorum to),
        bp_notfound_ok := copy_field (rbp_notfound_ok from) (bp_notfound_ok to)\<rparr>"

definition search_from_pb :: "rpb_bucketprops \<Rightarrow> riak_bucketprops \<Rightarrow> riak_bucketprops" where
  "search_from_pb from to =
     to\<lparr>bp_search := copy_field (rbp_search from) (bp_search to),
        bp_repl := copy_field (rbp_repl from) (bp_repl to)\<rparr>"

type_synonym to_pb_step = "rpb_bucketprops \<times> mem \<Rightarrow> (riak_error \<times> rpb_bucketprops \<times> mem) option"
type_synonym from_pb_step = "riak_bucketprops option \<times> mem \<Rightarrow>
  (riak_error \<times> riak_bucketprops option \<times> mem) option"

definition precommit_to_pb :: "riak_config option \<Rightarrow> riak_bucketprops \<Rightarrow> to_pb_step" where
  "precommit_to_pb cfg from = (\<lambda>(to, m).
     if fst (bp_has_precommit from)
     then (if snd (bp_has_precommit from)
           then do { (err, hs, m) \<leftarrow> riak_commit_hooks_copy_to_pb cfg (rbp_precommit to)
                                      (bp_precommit from) (ucast (bp_n_precommit from)) m;
                     Some (err, to\<lparr>rbp_has_precommit := (True, True),
                                   rbp_n_precommit := bp_n_precommit from, rbp_precommit := hs\<rparr>, m) }
           else Some (ERIAK_OK, to\<lparr>rbp_has_precommit := (True, snd (rbp_has_precommit to))\<rparr>, m))
     else Some (ERIAK_OK, to, m))"

definition postcommit_to_pb :: "riak_config option \<Rightarrow> riak_bucketprops \<Rightarrow> to_pb_step" where
  "postcommit_to_pb cfg from = (\<lambda>(to, m).
     if fst (bp_has_postcommit from)
     then (if snd (bp_has_postcommit from)
           then do { (err, hs, m) \<leftarrow> riak_commit_hooks_copy_to_pb cfg (rbp_postcommit to)
                                      (bp_postcommit from) (ucast (bp_n_postcommit from)) m;
                     Some (err, to\<lparr>rbp_has_postcommit := (True, True),
                                   rbp_n_postcommit := bp_n_postcommit from, rbp_postcommit := hs\<rparr>, m) }
           else Some (ERIAK_OK, to\<lparr>rbp_has_postcommit := (True, snd (rbp_has_postcommit to))\<rparr>, m))
     else Some (ERIAK_OK, to, m))"

definition chash_keyfun_to_pb :: "riak_config option \<Rightarrow> riak_bucketprops \<Rightarrow> to_pb_step" where
  "chash_keyfun_to_pb cfg from = (\<lambda>(to, m).
     do { (err, f, m) \<leftarrow> riak_modfun_copy_to_pb cfg (rbp_chash_keyfun to) (bp_chash_keyfun from) m;
          Some (err, to\<lparr>rbp_chash_keyfun := f\<rparr>, m) })"

definition linkfun_to_pb :: "riak_config option \<Rightarrow> riak_bucketprops \<Rightarrow> to_pb_step" where
  "linkfun_to_pb cfg from = (\<lambda>(to, m).
     do { (err, f, m) \<leftarrow> riak_modfun_copy_to_pb cfg (rbp_linkfun to) (bp_linkfun from) m;
          Some (err, to\<lparr>rbp_linkfun := f\<rparr>, m) })"

definition backend_to_pb :: "riak_bucketprops \<Rightarrow> to_pb_step" where
  "backend_to_pb from = (\<lambda>(to, m).
     do { b \<leftarrow> opt_to_pb (fst (bp_backend from)) (snd (bp_backend from)) (rbp_backend to);
          Some (ERIAK_OK, to\<lparr>rbp_backend := b\<rparr>, m) })"

definition search_index_to_pb :: "riak_bucketprops \<Rightarrow> to_pb_step" where
  "search_index_to_pb from = (\<lambda>(to, m).
     do { s \<leftarrow> opt_to_pb (fst (bp_search_index from)) (snd (bp_search_index from)) (rbp_search_index to);
          Some (ERIAK_OK, to\<lparr>rbp_search_index := s\<rparr>, m) })"

text \<open>
  \<open>riak_bucketprops_to_pb_copy\<close>: \<open>ini\<close> is what \<open>rpb_bucket_props__init\<close> stores in the message.
\<close>

definition riak_bucketprops_to_pb_copy ::
  "riak_config option \<Rightarrow> rpb_bucketprops \<Rightarrow> riak_bucketprops \<Rightarrow> mem \<Rightarrow>
   (riak_error \<times> rpb_bucketprops \<times> mem) option"
where
  "riak_bucketprops_to_pb_copy cfg ini from m =
     then_ok (then_ok (then_ok (then_ok (then_ok
       (precommit_to_pb cfg from (limits_to_pb from ini, m))
       (postcommit_to_pb cfg from))
       (\<lambda>(to, m). backend_to_pb from (quorums_to_pb from to, m)))
       (\<lambda>(to, m). search_index_to_pb from (search_to_pb from to, m)))
       (chash_keyfun_to_pb cfg from))
       (linkfun_to_pb cfg from)"

definition precommit_from_pb :: "riak_config option \<Rightarrow> rpb_bucketprops \<Rightarrow> from_pb_step" where
  "precommit_from_pb cfg from = (\<lambda>(t, m).
     do { to \<leftarrow> t;
          (if fst (rbp_has_precommit from)
           then (if snd (rbp_has_precommit from)
                 then do { (err, hs, m) \<leftarrow> riak_commit_hooks_copy_from_pb cfg (rbp_precommit from)
                                            (ucast (rbp_n_precommit from)) m;
                           Some (err, Some (to\<lparr>bp_has_precommit := (True, True),
                                               bp_n_precommit := rbp_n_precommit from,
                                               bp_precommit := (if err = ERIAK_OK then hs
                                                                 else bp_precommit to)\<rparr>), m) }
                 else Some (ERIAK_OK, Some (to\<lparr>bp_has_precommit := (True, False)\<rparr>), m))
           else Some (ERIAK_OK, t, m)) })"

definition postcommit_from_pb :: "riak_config option \<Rightarrow> rpb_bucketprops \<Rightarrow> from_pb_step" where
  "postcommit_from_pb cfg from = (\<lambda>(t, m).
     do { to \<leftarrow> t;
          (if fst (rbp_has_postcommit from)
           then (if snd (rbp_has_postcommit from)
                 then do { (err, hs, m) \<leftarrow> riak_commit_hooks_copy_from_pb cfg (rbp_postcommit from)
                                            (ucast (rbp_n_postcommit from)) m;
                           Some (err, Some (to\<lparr>bp_has_postcommit := (True, True),
                                               bp_n_postcommit := rbp_n_postcommit from,
                                               bp_postcommit := (if err = ERIAK_OK then hs
                                                                 else bp_postcommit to)\<rparr>), m) }
                 else Some (ERIAK_OK, Some (to\<lparr>bp_has_postcommit := (True, False)\<rparr>), m))
           else Some (ERIAK_OK, t, m)) })"

text \<open>When a binary cannot be allocated the structure is freed, but nothing it points to.\<close>

definition backend_from_pb :: "riak_config option \<Rightarrow> rpb_bucketprops \<Rightarrow> from_pb_step" where
  "backend_from_pb cfg from = (\<lambda>(t, m).
     do { to \<leftarrow> t;
          (if fst (rbp_backend from)
           then (let (b, m) = riak_binary_copy_from_pb cfg (snd (rbp_backend from)) m
                 in if b = None
                    then do { m \<leftarrow> riak_free cfg (Some (bp_at to)) m;
                              Some (ERIAK_OUT_OF_MEMORY, None, m) }
                    else Some (ERIAK_OK, Some (to\<lparr>bp_backend := (True, b)\<rparr>), m))
           else Some (ERIAK_OK, t, m)) })"

definition search_index_from_pb :: "riak_config option \<Rightarrow> rpb_bucketprops \<Rightarrow> from_pb_step" where
  "search_index_from_pb cfg from = (\<lambda>(t, m).
     do { to \<leftarrow> t;
          (if fst (rbp_search_index from)
           then (let (b, m) = riak_binary_copy_from_pb cfg (snd (rbp_search_index from)) m
                 in if b = None
                    then do { m \<leftarrow> riak_free cfg (Some (bp_at to)) m;
                              Some (ERIAK_OUT_OF_MEMORY, None, m) }
                    else Some (ERIAK_OK, Some (to\<lparr>bp_search_index := (True, b)\<rparr>), m))
           else Some (ERIAK_OK, t, m)) })"

definition chash_keyfun_from_pb :: "riak_config option \<Rightarrow> rpb_bucketprops \<Rightarrow> from_pb_step" where
  "chash_keyfun_from_pb cfg from = (\<lambda>(t, m).
     do { to \<leftarrow> t;
          (err, f, m) \<leftarrow> riak_modfun_copy_from_pb cfg (rbp_chash_keyfun from) m;
          Some (err, Some (to\<lparr>bp_chash_keyfun := (if err = ERIAK_OK then f else bp_chash_keyfun to)\<rparr>), m) })"

definition linkfun_from_pb :: "riak_config option \<Rightarrow> rpb_bucketprops \<Rightarrow> from_pb_step" where
  "linkfun_from_pb cfg from = (\<lambda>(t, m).
     do { to \<leftarrow> t;
          (err, f, m) \<leftarrow> riak_modfun_copy_from_pb cfg (rbp_linkfun from) m;
          Some (err, Some (to\<lparr>bp_linkfun := (if err = ERIAK_OK then f else bp_linkfun to)\<rparr>), m) })"

definition riak_bucketprops_new_from_pb ::
  "riak_config option \<Rightarrow> rpb_bucketprops \<Rightarrow> mem \<Rightarrow>
   (riak_error \<times> riak_bucketprops option \<times> mem) option"
where
  "riak_bucketprops_new_from_pb cfg from m =
     do { (t, m) \<leftarrow> riak_bucketprops_new cfg m;
          (case t of
             None \<Rightarrow> Some (ERIAK_OUT_OF_MEMORY, None, m)
           | Some to \<Rightarrow>
               then_ok (then_ok (then_ok (then_ok (then_ok
                 (precommit_from_pb cfg from (Some (limits_from_pb from to), m))
                 (postcommit_from_pb cfg from))
                 (\<lambda>(t, m). backend_from_pb cfg from (map_option (quorums_from_pb from) t, m)))
                 (\<lambda>(t, m). search_index_from_pb cfg from (map_option (search_from_pb from) t, m)))
                 (chash_keyfun_from_pb cfg from))
                 (linkfun_from_pb cfg from)) }"

subsection \<open>Quorum names\<close>

definition quorum_decoder :: "string list" where
  "quorum_decoder = [''unknown'', ''one'', ''quorum'', ''all'', ''default'']"

text \<open>\<open>RIAK_MAX_QUORUM\<close> is 4; the difference is unsigned and stored as signed.\<close>

definition riak_bucketprops_quorum :: "u32 \<Rightarrow> string" where
  "riak_bucketprops_quorum q =
     (let offset = (- 1 - q :: i32);
          offset = (if sint offset < 0 \<or> sint offset \<ge> 4 then 0 else offset)
      in quorum_decoder ! unat offset)"

definition repl_names :: "string list" where
  "repl_names = [''False'', ''Real time'', ''Full-Sync'', ''True'']"

definition riak_bucketprops_print ::
  "riak_print_state \<Rightarrow> riak_bucketprops \<Rightarrow> (i32 \<times> riak_print_state) option"
where
  "riak_bucketprops_print st p =
     print_seq
       [print_when (fst (bp_n_val p))
          (\<lambda>st. riak_print_label_int st (str ''N'') (snd (bp_n_val p))),
        print_when (fst (bp_allow_mult p))
          (\<lambda>st. riak_print_label_bool st (str ''Allow Multiple'') (snd (bp_allow_mult p))),
        print_when (fst (bp_last_write_wins p))
          (\<lambda>st. riak_print_label_bool st (str ''LWW'') (snd (bp_last_write_wins p))),
        print_when (fst (bp_has_precommit p) \<and> snd (bp_has_precommit p))
          (\<lambda>st. riak_print_label_int st (str ''# Precommit Hooks'') (ucast (bp_n_precommit p))),
        print_when (fst (bp_has_precommit p) \<and> snd (bp_has_precommit p))
          (\<lambda>st. riak_commit_hooks_print st (bp_precommit p) (ucast (bp_n_precommit p))),
        print_when (fst (bp_has_postcommit p) \<and> snd (bp_has_postcommit p))
          (\<lambda>st. riak_print_label_int st (str ''# Postcommit Hooks'') (ucast (bp_n_postcommit p))),
        print_when (fst (bp_has_postcommit p) \<and> snd (bp_has_postcommit p))
          (\<lambda>st. riak_commit_hooks_print st (bp_postcommit p) (ucast (bp_n_postcommit p))),
        print_when (fst (bp_old_vclock p))
          (\<lambda>st. riak_print_label_int st (str ''Old Vclock'') (snd (bp_old_vclock p))),
        print_when (fst (bp_young_vclock p))
          (\<lambda>st. riak_print_label_int st (str ''Young Vclock'') (snd (bp_young_vclock p))),
        print_when (fst (bp_big_vclock p))
          (\<lambda>st. riak_print_label_int st (str ''Big Vclock'') (snd (bp_big_vclock p))),
        print_when (fst (bp_small_vclock p))
          (\<lambda>st. riak_print_label_int st (str ''Small Vclock'') (snd (bp_small_vclock p))),
        print_when (fst (bp_pr p))
          (\<lambda>st. riak_print_label_string st (str ''PR'') (str (riak_bucketprops_quorum (snd (bp_pr p))))),
        print_when (fst (bp_r p))
          (\<lambda>st. riak_print_label_string st (str ''R'') (str (riak_bucketprops_quorum (snd (bp_r p))))),
        print_when (fst (bp_w p))
          (\<lambda>st. riak_print_label_string st (str ''W'') (str (riak_bucketprops_quorum (snd (bp_w p))))),
        print_when (fst (bp_pw p))
          (\<lambda>st. riak_print_label_string st (str ''PW'') (str (riak_bucketprops_quorum (snd (bp_pw p))))),
        print_when (fst (bp_dw p))
          (\<lambda>st. riak_print_label_string st (str ''DW'') (str (riak_bucketprops_quorum (snd (bp_dw p))))),
        print_when (fst (bp_rw p))
          (\<lambda>st. riak_print_label_string st (str ''RW'') (str (riak_bucketprops_quorum (snd (bp_rw p))))),
        print_when (fst (bp_basic_quorum p))
          (\<lambda>st. riak_print_label_bool st (str ''Basic Quorum'') (snd (bp_basic_quorum p))),
        print_when (fst (bp_notfound_ok p))
          (\<lambda>st. riak_print_label_bool st (str ''Not Found OK'') (snd (bp_notfound_ok p))),
        print_when (fst (bp_backend p))
          (\<lambda>st. riak_print_label_binary st (str ''Backend'') (snd (bp_backend p))),
        print_when (fst (bp_search p))
          (\<lambda>st. riak_print_label_bool st (str ''Search'') (snd (bp_search p))),
        print_when (0 \<le> sint (snd (bp_repl p)) \<and> sint (snd (bp_repl p)) \<le> 3)
          (\<lambda>st. riak_print_label_string st (str ''Repl'') (str (repl_names ! nat (sint (snd (bp_repl p)))))),
        print_when (fst (bp_search_index p))
          (\<lambda>st. riak_print_label_binary st (str ''YZ Index'') (snd (bp_search_index p))),
        \<lambda>st. riak_modfun_print st (str ''C Hash Key Fun'') (bp_chash_keyfun p),
        \<lambda>st. riak_modfun_print st (str ''Link Fun'') (bp_linkfun p)] st"

subsection \<open>Release\<close>

definition riak_bucketprops_free ::
  "riak_config option \<Rightarrow> riak_bucketprops option \<Rightarrow> mem \<Rightarrow> mem option"
where
  "riak_bucketprops_free cfg props m =
     do { p \<leftarrow> props;
          m \<leftarrow> riak_binary_free cfg (snd (bp_backend p)) m;
          m \<leftarrow> riak_modfun_free cfg (bp_chash_keyfun p) m;
          m \<leftarrow> riak_modfun_free cfg (bp_linkfun p) m;
          m \<leftarrow> riak_commit_hooks_free cfg (bp_precommit p) (ucast (bp_n_precommit p)) m;
          m \<leftarrow> riak_commit_hooks_free cfg (bp_postcommit p) (ucast (bp_n_postcommit p)) m;
          m \<leftarrow> riak_binary_free cfg (snd (bp_search_index p)) m;
          riak_free cfg (Some (bp_at p)) m }"

definition riak_bucketprops_free_pb ::
  "riak_config option \<Rightarrow> rpb_bucketprops option \<Rightarrow> mem \<Rightarrow> mem option"
where
  "riak_bucketprops_free_pb cfg props m =
     do { p \<leftarrow> props;
          m \<leftarrow> riak_modfun_free_pb cfg (rbp_chash_keyfun p) m;
          m \<leftarrow> riak_modfun_free_pb cfg (rbp_linkfun p) m;
          m \<leftarrow> riak_commit_hooks_free_pb cfg (rbp_precommit p) (ucast (rbp_n_precommit p)) m;
          m \<leftarrow> riak_commit_hooks_free_pb cfg (rbp_postcommit p) (ucast (rbp_n_postcommit p)) m;
          riak_free cfg (Some (rbp_at p)) m }"

subsection \<open>Accessors\<close>

definition riak_bucketprops_get_has_n_val :: "riak_bucketprops \<Rightarrow> bool" where
  "riak_bucketprops_get_has_n_val p = fst (bp_n_val p)"

definition riak_bucketprops_get_n_val :: "riak_bucketprops \<Rightarrow> u32" where
  "riak_bucketprops_get_n_val p = snd (bp_n_val p)"

definition riak_bucketprops_get_has_allow_mult :: "riak_bucketprops \<Rightarrow> bool" where
  "riak_bucketprops_get_has_allow_mult p = fst (bp_allow_mult p)"

definition riak_bucketprops_get_allow_mult :: "riak_bucketprops \<Rightarrow> bool" where
  "riak_bucketprops_get_allow_mult p = snd (bp_allow_mult p)"

definition riak_bucketprops_get_has_last_write_wins :: "riak_bucketprops \<Rightarrow> bool" where
  "riak_bucketprops_get_has_last_write_wins p = fst (bp_last_write_wins p)"

definition riak_bucketprops_get_last_write_wins :: "riak_bucketprops \<Rightarrow> bool" where
  "riak_bucketprops_get_last_write_wins p = snd (bp_last_write_wins p)"

definition riak_bucketprops_get_n_precommit :: "riak_bucketprops \<Rightarrow> u64" where
  "riak_bucketprops_get_n_precommit p = bp_n_precommit p"

definition riak_bucketprops_get_precommit :: "riak_bucketprops \<Rightarrow> riak_commit_hook parray option" where
  "riak_bucketprops_get_precommit p = bp_precommit p"

definition riak_bucketprops_get_has_precommit :: "riak_bucketprops \<Rightarrow> bool" where
  "riak_bucketprops_get_has_precommit p = (fst (bp_has_precommit p) \<and> snd (bp_has_precommit p))"

definition riak_bucketprops_get_n_postcommit :: "riak_bucketprops \<Rightarrow> u64" where
  "riak_bucketprops_get_n_postcommit p = bp_n_postcommit p"

definition riak_bucketprops_get_postcommit :: "riak_bucketprops \<Rightarrow> riak_commit_hook parray option" where
  "riak_bucketprops_get_postcommit p = bp_postcommit p"

definition riak_bucketprops_get_has_postcommit :: "riak_bucketprops \<Rightarrow> bool" where
  "riak_bucketprops_get_has_postcommit p = (fst (bp_has_postcommit p) \<and> snd (bp_has_postcommit p))"

definition riak_bucketprops_get_chash_keyfun :: "riak_bucketprops \<Rightarrow> riak_modfun option" where
  "riak_bucketprops_get_chash_keyfun p = bp_chash_keyfun p"

definition riak_bucketprops_get_linkfun :: "riak_bucketprops \<Rightarrow> riak_modfun option" where
  "riak_bucketprops_get_linkfun p = bp_linkfun p"

definition riak_bucketprops_get_has_old_vclock :: "riak_bucketprops \<Rightarrow> bool" where
  "riak_bucketprops_get_has_old_vclock p = fst (bp_old_vclock p)"

definition riak_bucketprops_get_old_vclock :: "riak_bucketprops \<Rightarrow> u32" where
  "riak_bucketprops_get_old_vclock p = snd (bp_old_vclock p)"

definition riak_bucketprops_get_has_young_vclock :: "riak_bucketprops \<Rightarrow> bool" where
  "riak_bucketprops_get_has_young_vclock p = fst (bp_young_vclock p)"

definition riak_bucketprops_get_young_vclock :: "riak_bucketprops \<Rightarrow> u32" where
  "riak_bucketprops_get_young_vclock p = snd (bp_young_vclock p)"

definition riak_bucketprops_get_has_big_vclock :: "riak_bucketprops \<Rightarrow> bool" where
  "riak_bucketprops_get_has_big_vclock p = fst (bp_big_vclock p)"

definition riak_bucketprops_get_big_vclock :: "riak_bucketprops \<Rightarrow> u32" where
  "riak_bucketprops_get_big_vclock p = snd (bp_big_vclock p)"

definition riak_bucketprops_get_has_small_vclock :: "riak_bucketprops \<Rightarrow> bool" where
  "riak_bucketprops_get_has_small_vclock p = fst (bp_small_vclock p)"

definition riak_bucketprops_get_small_vclock :: "riak_bucketprops \<Rightarrow> u32" where
  "riak_bucketprops_get_small_vclock p = snd (bp_small_vclock p)"

definition riak_bucketprops_get_has_pr :: "riak_bucketprops \<Rightarrow> bool" where
  "riak_bucketprops_get_has_pr p = fst (bp_pr p)"

definition riak_bucketprops_get_pr :: "riak_bucketprops \<Rightarrow> u32" where
  "riak_bucketprops_get_pr p = snd (bp_pr p)"

definition riak_bucketprops_get_has_r :: "riak_bucketprops \<Rightarrow> bool" where
  "riak_bucketprops_get_has_r p = fst (bp_r p)"

definition riak_bucketprops_get_r :: "riak_bucketprops \<Rightarrow> u32" where
  "riak_bucketprops_get_r p = snd (bp_r p)"

definition riak_bucketprops_get_has_w :: "riak_bucketprops \<Rightarrow> bool" where
  "riak_bucketprops_get_has_w p = fst (bp_w p)"

definition riak_bucketprops_get_w :: "riak_bucketprops \<Rightarrow> u32" where
  "riak_bucketprops_get_w p = snd (bp_w p)"

definition riak_bucketprops_get_has_pw :: "riak_bucketprops \<Rightarrow> bool" where
  "riak_bucketprops_get_has_pw p = fst (bp_pw p)"

definition riak_bucketprops_get_pw :: "riak_bucketprops \<Rightarrow> u32" where
  "riak_bucketprops_get_pw p = snd (bp_pw p)"

definition riak_bucketprops_get_has_dw :: "riak_bucketprops \<Rightarrow> bool" where
  "riak_bucketprops_get_has_dw p = fst (bp_dw p)"

definition riak_bucketprops_get_dw :: "riak_bucketprops \<Rightarrow> u32" where
  "riak_bucketprops_get_dw p = snd (bp_dw p)"

definition riak_bucketprops_get_has_rw :: "riak_bucketprops \<Rightarrow> bool" where
  "riak_bucketprops_get_has_rw p = fst (bp_rw p)"

definition riak_bucketprops_get_rw :: "riak_bucketprops \<Rightarrow> u32" where
  "riak_bucketprops_get_rw p = snd (bp_rw p)"

definition riak_bucketprops_get_has_basic_quorum :: "riak_bucketprops \<Rightarrow> bool" where
  "riak_bucketprops_get_has_basic_quorum p = fst (bp_basic_quorum p)"

definition riak_bucketprops_get_basic_quorum :: "riak_bucketprops \<Rightarrow> bool" where
  "riak_bucketprops_get_basic_quorum p = snd (bp_basic_quorum p)"

definition riak_bucketprops_get_has_notfound_ok :: "riak_bucketprops \<Rightarrow> bool" where
  "riak_bucketprops_get_has_notfound_ok p = fst (bp_notfound_ok p)"

definition riak_bucketprops_get_notfound_ok :: "riak_bucketprops \<Rightarrow> bool" where
  "riak_bucketprops_get_notfound_ok p = snd (bp_notfound_ok p)"

definition riak_bucketprops_get_has_backend :: "riak_bucketprops \<Rightarrow> bool" where
  "riak_bucketprops_get_has_backend p = fst (bp_backend p)"

definition riak_bucketprops_get_backend :: "riak_bucketprops \<Rightarrow> riak_binary option" where
  "riak_bucketprops_get_backend p = snd (bp_backend p)"

definition riak_bucketprops_get_has_search :: "riak_bucketprops \<Rightarrow> bool" where
  "riak_bucketprops_get_has_search p = fst (bp_search p)"

definition riak_bucketprops_get_search :: "riak_bucketprops \<Rightarrow> bool" where
  "riak_bucketprops_get_search p = snd (bp_search p)"

definition riak_bucketprops_get_has_repl :: "riak_bucketprops \<Rightarrow> bool" where
  "riak_bucketprops_get_has_repl p = fst (bp_repl p)"

definition riak_bucketprops_get_repl :: "riak_bucketprops \<Rightarrow> i32" where
  "riak_bucketprops_get_repl p = snd (bp_repl p)"

definition riak_bucketprops_get_has_search_index :: "riak_bucketprops \<Rightarrow> bool" where
  "riak_bucketprops_get_has_search_index p = fst (bp_search_index p)"

definition riak_bucketprops_get_search_index :: "riak_bucketprops \<Rightarrow> riak_binary option" where
  "riak_bucketprops_get_search_index p = snd (bp_search_index p)"

text \<open>Binaries and arrays of hooks are stored without being copied.\<close>

definition riak_bucketprops_set_n_val :: "riak_bucketprops \<Rightarrow> u32 \<Rightarrow> riak_bucketprops" where
  "riak_bucketprops_set_n_val p v = p\<lparr>bp_n_val := (True, v)\<rparr>"

definition riak_bucketprops_set_allow_mult :: "riak_bucketprops \<Rightarrow> bool \<Rightarrow> riak_bucketprops" where
  "riak_bucketprops_set_allow_mult p v = p\<lparr>bp_allow_mult := (True, v)\<rparr>"

definition riak_bucketprops_set_last_write_wins :: "riak_bucketprops \<Rightarrow> bool \<Rightarrow> riak_bucketprops" where
  "riak_bucketprops_set_last_write_wins p v = p\<lparr>bp_last_write_wins := (True, v)\<rparr>"

definition riak_bucketprops_set_precommits ::
  "riak_bucketprops \<Rightarrow> riak_commit_hook parray option \<Rightarrow> u64 \<Rightarrow> riak_bucketprops"
where
  "riak_bucketprops_set_precommits p hooks num =
     p\<lparr>bp_has_precommit := (True, True), bp_n_precommit := num, bp_precommit := hooks\<rparr>"

definition riak_bucketprops_set_postcommits ::
  "riak_bucketprops \<Rightarrow> riak_commit_hook parray option \<Rightarrow> u64 \<Rightarrow> riak_bucketprops"
where
  "riak_bucketprops_set_postcommits p hooks num =
     p\<lparr>bp_has_postcommit := (True, True), bp_n_postcommit := num, bp_postcommit := hooks\<rparr>"

text \<open>The test of the result is inverted.\<close>

definition riak_bucketprops_set_chash_keyfun ::
  "riak_config option \<Rightarrow> riak_bucketprops \<Rightarrow> riak_modfun \<Rightarrow> mem \<Rightarrow>
   (riak_error \<times> riak_bucketprops \<times> mem) option"
where
  "riak_bucketprops_set_chash_keyfun cfg p v m =
     do { (f, m) \<leftarrow> riak_modfun_deep_new cfg v m;
          Some (if f \<noteq> None then ERIAK_OUT_OF_MEMORY else ERIAK_OK, p\<lparr>bp_chash_keyfun := f\<rparr>, m) }"

text \<open>The test of the result is inverted.\<close>

definition riak_bucketprops_set_linkfun ::
  "riak_config option \<Rightarrow> riak_bucketprops \<Rightarrow> riak_modfun \<Rightarrow> mem \<Rightarrow>
   (riak_error \<times> riak_bucketprops \<times> mem) option"
where
  "riak_bucketprops_set_linkfun cfg p v m =
     do { (f, m) \<leftarrow> riak_modfun_deep_new cfg v m;
          Some (if f \<noteq> None then ERIAK_OUT_OF_MEMORY else ERIAK_OK, p\<lparr>bp_linkfun := f\<rparr>, m) }"

definition riak_bucketprops_set_old_vclock :: "riak_bucketprops \<Rightarrow> u32 \<Rightarrow> riak_bucketprops" where
  "riak_bucketprops_set_old_vclock p v = p\<lparr>bp_old_vclock := (True, v)\<rparr>"

definition riak_bucketprops_set_young_vclock :: "riak_bucketprops \<Rightarrow> u32 \<Rightarrow> riak_bucketprops" where
  "riak_bucketprops_set_young_vclock p v = p\<lparr>bp_young_vclock := (True, v)\<rparr>"

definition riak_bucketprops_set_big_vclock :: "riak_bucketprops \<Rightarrow> u32 \<Rightarrow> riak_bucketprops" where
  "riak_bucketprops_set_big_vclock p v = p\<lparr>bp_big_vclock := (True, v)\<rparr>"

definition riak_bucketprops_set_small_vclock :: "riak_bucketprops \<Rightarrow> u32 \<Rightarrow> riak_bucketprops" where
  "riak_bucketprops_set_small_vclock p v = p\<lparr>bp_small_vclock := (True, v)\<rparr>"

definition riak_bucketprops_set_pr :: "riak_bucketprops \<Rightarrow> u32 \<Rightarrow> riak_bucketprops" where
  "riak_bucketprops_set_pr p v = p\<lparr>bp_pr := (True, v)\<rparr>"

definition riak_bucketprops_set_r :: "riak_bucketprops \<Rightarrow> u32 \<Rightarrow> riak_bucketprops" where
  "riak_bucketprops_set_r p v = p\<lparr>bp_r := (True, v)\<rparr>"

definition riak_bucketprops_set_w :: "riak_bucketprops \<Rightarrow> u32 \<Rightarrow> riak_bucketprops" where
  "riak_bucketprops_set_w p v = p\<lparr>bp_w := (True, v)\<rparr>"

definition riak_bucketprops_set_pw :: "riak_bucketprops \<Rightarrow> u32 \<Rightarrow> riak_bucketprops" where
  "riak_bucketprops_set_pw p v = p\<lparr>bp_pw := (True, v)\<rparr>"

definition riak_bucketprops_set_dw :: "riak_bucketprops \<Rightarrow> u32 \<Rightarrow> riak_bucketprops" where
  "riak_bucketprops_set_dw p v = p\<lparr>bp_dw := (True, v)\<rparr>"

definition riak_bucketprops_set_rw :: "riak_bucketprops \<Rightarrow> u32 \<Rightarrow> riak_bucketprops" where
  "riak_bucketprops_set_rw p v = p\<lparr>bp_rw := (True, v)\<rparr>"

definition riak_bucketprops_set_basic_quorum :: "riak_bucketprops \<Rightarrow> bool \<Rightarrow> riak_bucketprops" where
  "riak_bucketprops_set_basic_quorum p v = p\<lparr>bp_basic_quorum := (True, v)\<rparr>"

definition riak_bucketprops_set_notfound_ok :: "riak_bucketprops \<Rightarrow> bool \<Rightarrow> riak_bucketprops" where
  "riak_bucketprops_set_notfound_ok p v = p\<lparr>bp_notfound_ok := (True, v)\<rparr>"

definition riak_bucketprops_set_backend :: "riak_bucketprops \<Rightarrow> riak_binary option \<Rightarrow> riak_bucketprops" where
  "riak_bucketprops_set_backend p v = p\<lparr>bp_backend := (True, v)\<rparr>"

definition riak_bucketprops_set_search :: "riak_bucketprops \<Rightarrow> bool \<Rightarrow> riak_bucketprops" where
  "riak_bucketprops_set_search p v = p\<lparr>bp_search := (True, v)\<rparr>"

definition riak_bucketprops_set_repl :: "riak_bucketprops \<Rightarrow> i32 \<Rightarrow> riak_bucketprops" where
  "riak_bucketprops_set_repl p v = p\<lparr>bp_repl := (True, v)\<rparr>"

definition riak_bucketprops_set_search_index :: "riak_bucketprops \<Rightarrow> riak_binary option \<Rightarrow> riak_bucketprops" where
  "riak_bucketprops_set_search_index p v = p\<lparr>bp_search_index := (True, v)\<rparr>"


subsection \<open>What bucket properties own\<close>

definition mf_owned :: "riak_modfun \<Rightarrow> addr list" where
  "mf_owned f = bin.owned_p (mf_module f) @ bin.owned_p (mf_function f) @ [mf_at f]"

definition mf_owned_p :: "riak_modfun option \<Rightarrow> addr list" where
  "mf_owned_p p = (case p of None \<Rightarrow> [] | Some f \<Rightarrow> mf_owned f)"

definition hook_owned :: "riak_commit_hook \<Rightarrow> addr list" where
  "hook_owned h = bin.owned_p (hook_name h) @ mf_owned_p (hook_modfun h) @ [hook_at h]"

lemma riak_modfun_free_owned:
  "cfg_ok cfg \<Longrightarrow> riak_modfun_free cfg (Some f) m = mem_free_all (mf_owned f) m"
  by (simp add: riak_modfun_free_def mf_owned_def mem_simps)

lemma riak_modfun_free_NULL [simp]: "riak_modfun_free cfg None m = None"
  by (simp add: riak_modfun_free_def)

definition u64_count :: "u64 \<Rightarrow> nat" where
  "u64_count n = unat (ucast n :: u32)"

definition hooks_ok :: "riak_commit_hook parray option \<Rightarrow> u64 \<Rightarrow> bool" where
  "hooks_ok p n \<longleftrightarrow> arr_ok p (u64_count n) \<and>
     list_all (\<lambda>h. hook_modfun h \<noteq> None) (arr_elems p (u64_count n))"

lemma riak_commit_hooks_free_owned:
  assumes "cfg_ok cfg" "hooks_ok p n"
  shows "riak_commit_hooks_free cfg p (ucast n) m = mem_free_all (arr_owned hook_owned p (u64_count n)) m"
proof -
  have "free_cells (hook_free cfg) (pa_list p) (u64_count n) m \<bind> riak_free cfg (map_option pa_addr p) =
      mem_free_all (arr_owned hook_owned p (u64_count n)) m"
    using assms by (intro free_array_owned)
      (auto simp: hooks_ok_def list_all_iff hook_free_def hook_owned_def mf_owned_p_def mem_simps
        riak_modfun_free_owned)
  then show ?thesis by (simp add: riak_commit_hooks_free_def u64_count_def)
qed

text \<open>
  The properties can be freed when both functions are there: a structure fresh from
  \<open>riak_bucketprops_new\<close> cannot.
\<close>

definition bp_releasable :: "riak_bucketprops \<Rightarrow> bool" where
  "bp_releasable p \<longleftrightarrow> bp_chash_keyfun p \<noteq> None \<and> bp_linkfun p \<noteq> None \<and>
     hooks_ok (bp_precommit p) (bp_n_precommit p) \<and> hooks_ok (bp_postcommit p) (bp_n_postcommit p)"

definition bp_owned :: "riak_bucketprops \<Rightarrow> addr list" where
  "bp_owned p = bin.owned_p (snd (bp_backend p)) @ mf_owned_p (bp_chash_keyfun p) @
     mf_owned_p (bp_linkfun p) @
     arr_owned hook_owned (bp_precommit p) (u64_count (bp_n_precommit p)) @
     arr_owned hook_owned (bp_postcommit p) (u64_count (bp_n_postcommit p)) @
     bin.owned_p (snd (bp_search_index p)) @ [bp_at p]"

interpretation bp: owned_struct bp_releasable bp_owned riak_bucketprops_free
proof
  fix cfg and p :: riak_bucketprops and m
  assume "cfg_ok cfg" "bp_releasable p"
  then show "riak_bucketprops_free cfg (Some p) m = mem_free_all (bp_owned p) m"
    by (auto simp: riak_bucketprops_free_def bp_owned_def bp_releasable_def mf_owned_p_def mem_simps
        riak_modfun_free_owned riak_commit_hooks_free_owned)
qed

lemma riak_bucketprops_free_no_modfun:
  assumes "bp_chash_keyfun p = None \<or> bp_linkfun p = None"
  shows "riak_bucketprops_free cfg (Some p) m = None"
  using assms by (auto simp: riak_bucketprops_free_def split: bind_splits)

subsection \<open>The contents of bucket properties\<close>

definition field_opt :: "'a field \<Rightarrow> 'a option" where
  "field_opt f = when_flag (fst f) (snd f)"

lemma field_opt_simps [simp]: "field_opt (True, x) = Some x" "\<not> fst f \<Longrightarrow> field_opt f = None"
  by (simp_all add: field_opt_def)

lemma field_opt_copy [simp]: "\<not> fst to \<Longrightarrow> field_opt (copy_field from to) = field_opt from"
  by (simp add: field_opt_def copy_field_def)

lemma field_opt_None: "\<not> fst f \<Longrightarrow> field_opt f = None"
  by simp

type_synonym mf_content = "bytes \<times> bytes"
type_synonym hook_content = "bytes option \<times> mf_content option"

record bp_content =
  bc_n_val :: "u32 option"
  bc_allow_mult :: "bool option"
  bc_last_write_wins :: "bool option"
  bc_old_vclock :: "u32 option"
  bc_young_vclock :: "u32 option"
  bc_big_vclock :: "u32 option"
  bc_small_vclock :: "u32 option"
  bc_pr :: "u32 option"
  bc_r :: "u32 option"
  bc_w :: "u32 option"
  bc_pw :: "u32 option"
  bc_dw :: "u32 option"
  bc_rw :: "u32 option"
  bc_basic_quorum :: "bool option"
  bc_notfound_ok :: "bool option"
  bc_search :: "bool option"
  bc_repl :: "i32 option"
  bc_backend :: "bytes option"
  bc_search_index :: "bytes option"
  bc_precommit :: "hook_content list option option"
  bc_postcommit :: "hook_content list option option"
  bc_chash_keyfun :: "mf_content option"
  bc_linkfun :: "mf_content option"

definition mf_wf :: "riak_modfun \<Rightarrow> bool" where
  "mf_wf f \<longleftrightarrow> ptr_wf (mf_module f) \<and> ptr_wf (mf_function f)"

definition mf_content_of :: "riak_modfun \<Rightarrow> mf_content" where
  "mf_content_of f = (ptr_bytes (mf_module f), ptr_bytes (mf_function f))"

definition rpm_wf :: "rpb_modfun \<Rightarrow> bool" where
  "rpm_wf f \<longleftrightarrow> pbb_wf (rpm_module f) \<and> pbb_wf (rpm_function f)"

definition rpm_content_of :: "rpb_modfun \<Rightarrow> mf_content" where
  "rpm_content_of f = (pbb_bytes (rpm_module f), pbb_bytes (rpm_function f))"

definition hook_wf :: "riak_commit_hook \<Rightarrow> bool" where
  "hook_wf h \<longleftrightarrow> (hook_has_name h \<longrightarrow> ptr_wf (hook_name h)) \<and> pred_option mf_wf (hook_modfun h)"

definition hook_content_of :: "riak_commit_hook \<Rightarrow> hook_content" where
  "hook_content_of h = (when_flag (hook_has_name h) (ptr_bytes (hook_name h)),
     map_option mf_content_of (hook_modfun h))"

definition rph_wf :: "rpb_commit_hook \<Rightarrow> bool" where
  "rph_wf h \<longleftrightarrow> (rph_has_name h \<longrightarrow> pbb_wf (rph_name h)) \<and> pred_option rpm_wf (rph_modfun h)"

definition rph_content_of :: "rpb_commit_hook \<Rightarrow> hook_content" where
  "rph_content_of h = (when_flag (rph_has_name h) (pbb_bytes (rph_name h)),
     map_option rpm_content_of (rph_modfun h))"

definition hooks_opt :: "bool field \<Rightarrow> 'c list \<Rightarrow> 'c list option option" where
  "hooks_opt f cs = when_flag (fst f) (when_flag (snd f) cs)"

definition bp_content_of :: "riak_bucketprops \<Rightarrow> bp_content" where
  "bp_content_of p =
     \<lparr>bc_n_val = field_opt (bp_n_val p),
      bc_allow_mult = field_opt (bp_allow_mult p),
      bc_last_write_wins = field_opt (bp_last_write_wins p),
      bc_old_vclock = field_opt (bp_old_vclock p),
      bc_young_vclock = field_opt (bp_young_vclock p),
      bc_big_vclock = field_opt (bp_big_vclock p),
      bc_small_vclock = field_opt (bp_small_vclock p),
      bc_pr = field_opt (bp_pr p),
      bc_r = field_opt (bp_r p),
      bc_w = field_opt (bp_w p),
      bc_pw = field_opt (bp_pw p),
      bc_dw = field_opt (bp_dw p),
      bc_rw = field_opt (bp_rw p),
      bc_basic_quorum = field_opt (bp_basic_quorum p),
      bc_notfound_ok = field_opt (bp_notfound_ok p),
      bc_search = field_opt (bp_search p),
      bc_repl = field_opt (bp_repl p),
      bc_backend = when_flag (fst (bp_backend p)) (ptr_bytes (snd (bp_backend p))),
      bc_search_index = when_flag (fst (bp_search_index p)) (ptr_bytes (snd (bp_search_index p))),
      bc_precommit = hooks_opt (bp_has_precommit p) (map hook_content_of (arr_elems (bp_precommit p) (u64_count (bp_n_precommit p)))),
      bc_postcommit = hooks_opt (bp_has_postcommit p) (map hook_content_of (arr_elems (bp_postcommit p) (u64_count (bp_n_postcommit p)))),
      bc_chash_keyfun = map_option mf_content_of (bp_chash_keyfun p),
      bc_linkfun = map_option mf_content_of (bp_linkfun p)\<rparr>"

definition rbp_content_of :: "rpb_bucketprops \<Rightarrow> bp_content" where
  "rbp_content_of p =
     \<lparr>bc_n_val = field_opt (rbp_n_val p),
      bc_allow_mult = field_opt (rbp_allow_mult p),
      bc_last_write_wins = field_opt (rbp_last_write_wins p),
      bc_old_vclock = field_opt (rbp_old_vclock p),
      bc_young_vclock = field_opt (rbp_young_vclock p),
      bc_big_vclock = field_opt (rbp_big_vclock p),
      bc_small_vclock = field_opt (rbp_small_vclock p),
      bc_pr = field_opt (rbp_pr p),
      bc_r = field_opt (rbp_r p),
      bc_w = field_opt (rbp_w p),
      bc_pw = field_opt (rbp_pw p),
      bc_dw = field_opt (rbp_dw p),
      bc_rw = field_opt (rbp_rw p),
      bc_basic_quorum = field_opt (rbp_basic_quorum p),
      bc_notfound_ok = field_opt (rbp_notfound_ok p),
      bc_search = field_opt (rbp_search p),
      bc_repl = field_opt (rbp_repl p),
      bc_backend = when_flag (fst (rbp_backend p)) (pbb_bytes (snd (rbp_backend p))),
      bc_search_index = when_flag (fst (rbp_search_index p)) (pbb_bytes (snd (rbp_search_index p))),
      bc_precommit = hooks_opt (rbp_has_precommit p) (map rph_content_of (arr_elems (rbp_precommit p) (u64_count (rbp_n_precommit p)))),
      bc_postcommit = hooks_opt (rbp_has_postcommit p) (map rph_content_of (arr_elems (rbp_postcommit p) (u64_count (rbp_n_postcommit p)))),
      bc_chash_keyfun = map_option rpm_content_of (rbp_chash_keyfun p),
      bc_linkfun = map_option rpm_content_of (rbp_linkfun p)\<rparr>"

definition bp_wf :: "riak_bucketprops \<Rightarrow> bool" where
  "bp_wf p \<longleftrightarrow> (fst (bp_backend p) \<longrightarrow> ptr_wf (snd (bp_backend p))) \<and>
     (fst (bp_search_index p) \<longrightarrow> ptr_wf (snd (bp_search_index p))) \<and>
     arr_ok (bp_precommit p) (u64_count (bp_n_precommit p)) \<and>
     arr_ok (bp_postcommit p) (u64_count (bp_n_postcommit p)) \<and>
     list_all hook_wf (arr_elems (bp_precommit p) (u64_count (bp_n_precommit p))) \<and>
     list_all hook_wf (arr_elems (bp_postcommit p) (u64_count (bp_n_postcommit p))) \<and>
     pred_option mf_wf (bp_chash_keyfun p) \<and> pred_option mf_wf (bp_linkfun p)"

definition rbp_wf :: "rpb_bucketprops \<Rightarrow> bool" where
  "rbp_wf p \<longleftrightarrow> (fst (rbp_backend p) \<longrightarrow> pbb_wf (snd (rbp_backend p))) \<and>
     (fst (rbp_search_index p) \<longrightarrow> pbb_wf (snd (rbp_search_index p))) \<and>
     arr_ok (rbp_precommit p) (u64_count (rbp_n_precommit p)) \<and>
     arr_ok (rbp_postcommit p) (u64_count (rbp_n_postcommit p)) \<and>
     list_all rph_wf (arr_elems (rbp_precommit p) (u64_count (rbp_n_precommit p))) \<and>
     list_all rph_wf (arr_elems (rbp_postcommit p) (u64_count (rbp_n_postcommit p))) \<and>
     pred_option rpm_wf (rbp_chash_keyfun p) \<and> pred_option rpm_wf (rbp_linkfun p)"

text \<open>What protobuf-c documents of \<open>rpb_bucket_props__init\<close>: no flag is set, nothing is there.\<close>

definition rbp_empty :: "rpb_bucketprops \<Rightarrow> bool" where
  "rbp_empty p \<longleftrightarrow> \<not> fst (rbp_n_val p) \<and> \<not> fst (rbp_allow_mult p) \<and> \<not> fst (rbp_last_write_wins p) \<and> \<not> fst (rbp_old_vclock p) \<and> \<not> fst (rbp_young_vclock p) \<and> \<not> fst (rbp_big_vclock p) \<and> \<not> fst (rbp_small_vclock p) \<and> \<not> fst (rbp_pr p) \<and> \<not> fst (rbp_r p) \<and> \<not> fst (rbp_w p) \<and> \<not> fst (rbp_pw p) \<and> \<not> fst (rbp_dw p) \<and> \<not> fst (rbp_rw p) \<and> \<not> fst (rbp_basic_quorum p) \<and> \<not> fst (rbp_notfound_ok p) \<and> \<not> fst (rbp_search p) \<and> \<not> fst (rbp_repl p) \<and> \<not> fst (rbp_backend p) \<and> \<not> fst (rbp_search_index p) \<and> rbp_has_precommit p = (False, False) \<and>
     rbp_n_precommit p = 0 \<and> rbp_precommit p = None \<and> rbp_has_postcommit p = (False, False) \<and>
     rbp_n_postcommit p = 0 \<and> rbp_postcommit p = None \<and> rbp_chash_keyfun p = None \<and> rbp_linkfun p = None"

subsection \<open>From bucket properties to a message\<close>

lemma cfg_malloc_granted [mem_simps]:
  "cfg_grants cfg \<Longrightarrow> cfg_malloc cfg sz m = Some (Some (mem_next m), mem_push m)"
  by (simp add: cfg_malloc_eq allocate_granted)

definition rpm_owned :: "rpb_modfun option \<Rightarrow> addr list" where
  "rpm_owned p = ptrs (map_option rpm_at p)"

lemma modfun_to_pb_ok:
  assumes "cfg_grants cfg" "pred_option mf_wf p"
  shows "\<exists>q m'. riak_modfun_copy_to_pb cfg None p m = Some (ERIAK_OK, q, m') \<and>
    pred_option rpm_wf q \<and> pred_option (\<lambda>f. \<not> rpm_init f) q \<and> map_option rpm_content_of q = map_option mf_content_of p \<and>
    mem_allocs m (rpm_owned q) m'"
proof (cases p)
  case None
  then show ?thesis by (simp add: riak_modfun_copy_to_pb_def rpm_owned_def)
next
  case (Some f)
  with assms(2) have "ptr_wf (mf_module f)" "ptr_wf (mf_function f)" by (simp_all add: mf_wf_def)
  from this [THEN copy_to_pb_ok] obtain mo fu where
    "riak_binary_copy_to_pb (mf_module f) = Some mo" "pbb_wf mo" "pbb_bytes mo = ptr_bytes (mf_module f)"
    "riak_binary_copy_to_pb (mf_function f) = Some fu" "pbb_wf fu" "pbb_bytes fu = ptr_bytes (mf_function f)"
    by blast
  with Some show ?thesis
    by (simp add: riak_modfun_copy_to_pb_def cfg_malloc_granted [OF assms(1)] rpm_wf_def rpm_content_of_def
        mf_content_of_def rpm_owned_def mem_allocs_push)
qed

text \<open>A hook the library has made: its header is not initialised.\<close>

definition rph_new :: "rpb_commit_hook \<Rightarrow> bool" where
  "rph_new h \<longleftrightarrow> rph_wf h \<and> \<not> rph_init h"

lemma rph_new_wf: "list_all rph_new hs \<Longrightarrow> list_all rph_wf hs"
  by (auto simp: list_all_iff rph_new_def)

definition rph_owned :: "rpb_commit_hook \<Rightarrow> addr list" where
  "rph_owned h = rpm_owned (rph_modfun h) @ [rph_at h]"

lemma hooks_to_pb_loop_ok:
  assumes "cfg_grants cfg" "list_all hook_wf hs"
  shows "\<exists>pbs m'. hooks_to_pb_loop cfg (map Some hs @ rest) (length hs) m =
      Some (ERIAK_OK, map Some pbs, m') \<and> length pbs = length hs \<and> list_all rph_new pbs \<and>
    map rph_content_of pbs = map hook_content_of hs \<and> mem_allocs m (concat (map rph_owned pbs)) m'"
  using assms(2)
proof (induction hs arbitrary: m)
  case Nil
  then show ?case by (intro exI [of _ "[]"]) simp
next
  case (Cons h hs)
  from Cons.prems have w: "hook_has_name h \<longrightarrow> ptr_wf (hook_name h)" "pred_option mf_wf (hook_modfun h)"
    by (simp_all add: hook_wf_def)
  obtain nm where nm: "opt_to_pb (hook_has_name h) (hook_name h) (False, pb_binary_zero) =
      Some (hook_has_name h, nm)" "hook_has_name h \<longrightarrow> pbb_wf nm"
    "when_flag (hook_has_name h) (pbb_bytes nm) = when_flag (hook_has_name h) (ptr_bytes (hook_name h))"
    using opt_to_pb_ok [OF w(1)] by blast
  obtain mf m1 where mf: "riak_modfun_copy_to_pb cfg None (hook_modfun h) (mem_push m) = Some (ERIAK_OK, mf, m1)"
    "pred_option rpm_wf mf" "map_option rpm_content_of mf = map_option mf_content_of (hook_modfun h)"
    "mem_allocs (mem_push m) (rpm_owned mf) m1"
    using modfun_to_pb_ok [OF assms(1) w(2)] by blast
  obtain pbs m' where IH: "hooks_to_pb_loop cfg (map Some hs @ rest) (length hs) m1 =
      Some (ERIAK_OK, map Some pbs, m')" "length pbs = length hs" "list_all rph_new pbs"
    "map rph_content_of pbs = map hook_content_of hs" "mem_allocs m1 (concat (map rph_owned pbs)) m'"
    using Cons.IH [of m1] Cons.prems by auto
  let ?pb = "\<lparr>rph_at = mem_next m, rph_init = False, rph_modfun = mf, rph_has_name = hook_has_name h, rph_name = nm\<rparr>"
  have "mem_allocs m (rph_owned ?pb) m1"
    by (rule mem_allocs_mset [OF mem_allocs_Cons [OF mf(4)]]) (simp add: rph_owned_def)
  from mem_allocs_trans [OF this IH(5)] have "mem_allocs m (concat (map rph_owned (?pb # pbs))) m'" by simp
  moreover have "hooks_to_pb_loop cfg (map Some (h # hs) @ rest) (length (h # hs)) m =
      Some (ERIAK_OK, map Some (?pb # pbs), m')"
    using IH(1) nm(1) mf(1) by (simp add: cfg_malloc_granted [OF assms(1)])
  moreover have "rph_new ?pb" "rph_content_of ?pb = hook_content_of h"
    using nm mf by (simp_all add: rph_new_def rph_wf_def rph_content_of_def hook_content_of_def)
  ultimately show ?case using IH(2-4) by (intro exI [of _ "?pb # pbs"] exI [of _ m']) simp
qed

lemma hooks_copy_to_pb_ok:
  assumes "cfg_grants cfg" "arr_ok p (u64_count n)" "list_all hook_wf (arr_elems p (u64_count n))"
  shows "\<exists>q m'. riak_commit_hooks_copy_to_pb cfg None p (ucast n) m = Some (ERIAK_OK, q, m') \<and>
    copies rph_new rph_content_of rph_owned m (map hook_content_of (arr_elems p (u64_count n))) q (u64_count n) m' \<and>
    length (pa_list q) \<le> u64_count n"
proof (cases p)
  case None
  with assms(2) have "u64_count n = 0" by (simp add: arr_ok_def)
  with None show ?thesis by (simp add: riak_commit_hooks_copy_to_pb_def)
next
  case (Some a)
  let ?xs = "arr_elems p (u64_count n)"
  obtain rest where p: "pa_list p = map Some ?xs @ rest" "length ?xs = u64_count n"
    using arr_ok_cells [OF assms(2)] .
  obtain pbs m' where l: "hooks_to_pb_loop cfg (map Some ?xs @ rest) (length ?xs) (mem_push m) =
      Some (ERIAK_OK, map Some pbs, m')" "length pbs = length ?xs" "list_all rph_new pbs"
    "map rph_content_of pbs = map hook_content_of ?xs" "mem_allocs (mem_push m) (concat (map rph_owned pbs)) m'"
    using hooks_to_pb_loop_ok [OF assms(1,3)] by blast
  have "copies rph_new rph_content_of rph_owned m (map hook_content_of ?xs)
      (Some \<lparr>pa_addr = mem_next m, pa_cells = map Some pbs\<rparr>) (u64_count n) m'"
    using l p by (intro copiesI) simp_all
  moreover have "riak_commit_hooks_copy_to_pb cfg None p (ucast n) m =
      Some (ERIAK_OK, Some \<lparr>pa_addr = mem_next m, pa_cells = map Some pbs\<rparr>, m')"
    using l(1) p Some unfolding riak_commit_hooks_copy_to_pb_def cfg_malloc_granted [OF assms(1)]
    by (simp flip: u64_count_def)
  moreover have "length (map Some pbs) \<le> u64_count n" using l(2) p(2) by simp
  ultimately show ?thesis
    by (intro exI [of _ "Some \<lparr>pa_addr = mem_next m, pa_cells = map Some pbs\<rparr>"] exI [of _ m']) simp
qed

lemma precommit_to_pb_ok:
  assumes "cfg_grants cfg" "bp_wf p" "rbp_has_precommit to = (False, False)" "rbp_n_precommit to = 0" "rbp_precommit to = None"
  shows "\<exists>hf n q m'. precommit_to_pb cfg p (to, m) =
      Some (ERIAK_OK, to\<lparr>rbp_has_precommit := hf, rbp_n_precommit := n, rbp_precommit := q\<rparr>, m') \<and>
    arr_ok q (u64_count n) \<and> list_all rph_new (arr_elems q (u64_count n)) \<and>
    hooks_opt hf (map rph_content_of (arr_elems q (u64_count n))) = bc_precommit (bp_content_of p) \<and>
    mem_allocs m (arr_owned rph_owned q (u64_count n)) m' \<and>
    length (pa_list q) \<le> u64_count n \<and>
    n = (if fst (bp_has_precommit p) \<and> snd (bp_has_precommit p) then bp_n_precommit p else 0)"
proof (cases "fst (bp_has_precommit p) \<and> snd (bp_has_precommit p)")
  case True
  have w: "arr_ok (bp_precommit p) (u64_count (bp_n_precommit p))"
    "list_all hook_wf (arr_elems (bp_precommit p) (u64_count (bp_n_precommit p)))"
    using assms(2) by (simp_all add: bp_wf_def)
  from hooks_copy_to_pb_ok [OF assms(1) w, of m] obtain q m' where
    "riak_commit_hooks_copy_to_pb cfg None (bp_precommit p) (ucast (bp_n_precommit p)) m = Some (ERIAK_OK, q, m')"
    "copies rph_new rph_content_of rph_owned m
      (map hook_content_of (arr_elems (bp_precommit p) (u64_count (bp_n_precommit p)))) q (u64_count (bp_n_precommit p)) m'"
    "length (pa_list q) \<le> u64_count (bp_n_precommit p)"
    by blast
  with True assms(5) show ?thesis
    by (intro exI [of _ "(True, True)"] exI [of _ "bp_n_precommit p"] exI [of _ q] exI [of _ m'])
      (simp add: precommit_to_pb_def copies_def bp_content_of_def hooks_opt_def)
next
  case False
  with assms(3-5) show ?thesis
    by (intro exI [of _ "(fst (bp_has_precommit p), False)"] exI [of _ 0] exI [of _ None] exI [of _ m])
      (auto simp: precommit_to_pb_def bp_content_of_def hooks_opt_def u64_count_def)
qed

lemma postcommit_to_pb_ok:
  assumes "cfg_grants cfg" "bp_wf p" "rbp_has_postcommit to = (False, False)" "rbp_n_postcommit to = 0" "rbp_postcommit to = None"
  shows "\<exists>hf n q m'. postcommit_to_pb cfg p (to, m) =
      Some (ERIAK_OK, to\<lparr>rbp_has_postcommit := hf, rbp_n_postcommit := n, rbp_postcommit := q\<rparr>, m') \<and>
    arr_ok q (u64_count n) \<and> list_all rph_new (arr_elems q (u64_count n)) \<and>
    hooks_opt hf (map rph_content_of (arr_elems q (u64_count n))) = bc_postcommit (bp_content_of p) \<and>
    mem_allocs m (arr_owned rph_owned q (u64_count n)) m' \<and>
    length (pa_list q) \<le> u64_count n \<and>
    n = (if fst (bp_has_postcommit p) \<and> snd (bp_has_postcommit p) then bp_n_postcommit p else 0)"
proof (cases "fst (bp_has_postcommit p) \<and> snd (bp_has_postcommit p)")
  case True
  have w: "arr_ok (bp_postcommit p) (u64_count (bp_n_postcommit p))"
    "list_all hook_wf (arr_elems (bp_postcommit p) (u64_count (bp_n_postcommit p)))"
    using assms(2) by (simp_all add: bp_wf_def)
  from hooks_copy_to_pb_ok [OF assms(1) w, of m] obtain q m' where
    "riak_commit_hooks_copy_to_pb cfg None (bp_postcommit p) (ucast (bp_n_postcommit p)) m = Some (ERIAK_OK, q, m')"
    "copies rph_new rph_content_of rph_owned m
      (map hook_content_of (arr_elems (bp_postcommit p) (u64_count (bp_n_postcommit p)))) q (u64_count (bp_n_postcommit p)) m'"
    "length (pa_list q) \<le> u64_count (bp_n_postcommit p)"
    by blast
  with True assms(5) show ?thesis
    by (intro exI [of _ "(True, True)"] exI [of _ "bp_n_postcommit p"] exI [of _ q] exI [of _ m'])
      (simp add: postcommit_to_pb_def copies_def bp_content_of_def hooks_opt_def)
next
  case False
  with assms(3-5) show ?thesis
    by (intro exI [of _ "(fst (bp_has_postcommit p), False)"] exI [of _ 0] exI [of _ None] exI [of _ m])
      (auto simp: postcommit_to_pb_def bp_content_of_def hooks_opt_def u64_count_def)
qed

lemma backend_to_pb_ok:
  assumes "bp_wf p" "\<not> fst (rbp_backend to)"
  shows "\<exists>b. backend_to_pb p (to, m) = Some (ERIAK_OK, to\<lparr>rbp_backend := b\<rparr>, m) \<and> (fst b \<longrightarrow> pbb_wf (snd b)) \<and>
    when_flag (fst b) (pbb_bytes (snd b)) = bc_backend (bp_content_of p)"
proof -
  from assms(1) have w: "fst (bp_backend p) \<longrightarrow> ptr_wf (snd (bp_backend p))" by (simp add: bp_wf_def)
  have "rbp_backend to = (False, snd (rbp_backend to))" using assms(2) by (auto simp: prod_eq_iff)
  then obtain b where "opt_to_pb (fst (bp_backend p)) (snd (bp_backend p)) (rbp_backend to) = Some (fst (bp_backend p), b)"
    "fst (bp_backend p) \<longrightarrow> pbb_wf b"
    "when_flag (fst (bp_backend p)) (pbb_bytes b) = when_flag (fst (bp_backend p)) (ptr_bytes (snd (bp_backend p)))"
    using opt_to_pb_ok [OF w] by metis
  then show ?thesis
    by (intro exI [of _ "(fst (bp_backend p), b)"]) (simp add: backend_to_pb_def bp_content_of_def)
qed

lemma search_index_to_pb_ok:
  assumes "bp_wf p" "\<not> fst (rbp_search_index to)"
  shows "\<exists>b. search_index_to_pb p (to, m) = Some (ERIAK_OK, to\<lparr>rbp_search_index := b\<rparr>, m) \<and> (fst b \<longrightarrow> pbb_wf (snd b)) \<and>
    when_flag (fst b) (pbb_bytes (snd b)) = bc_search_index (bp_content_of p)"
proof -
  from assms(1) have w: "fst (bp_search_index p) \<longrightarrow> ptr_wf (snd (bp_search_index p))" by (simp add: bp_wf_def)
  have "rbp_search_index to = (False, snd (rbp_search_index to))" using assms(2) by (auto simp: prod_eq_iff)
  then obtain b where "opt_to_pb (fst (bp_search_index p)) (snd (bp_search_index p)) (rbp_search_index to) = Some (fst (bp_search_index p), b)"
    "fst (bp_search_index p) \<longrightarrow> pbb_wf b"
    "when_flag (fst (bp_search_index p)) (pbb_bytes b) = when_flag (fst (bp_search_index p)) (ptr_bytes (snd (bp_search_index p)))"
    using opt_to_pb_ok [OF w] by metis
  then show ?thesis
    by (intro exI [of _ "(fst (bp_search_index p), b)"]) (simp add: search_index_to_pb_def bp_content_of_def)
qed

lemma chash_keyfun_to_pb_ok:
  assumes "cfg_grants cfg" "bp_wf p" "rbp_chash_keyfun to = None"
  shows "\<exists>q m'. chash_keyfun_to_pb cfg p (to, m) = Some (ERIAK_OK, to\<lparr>rbp_chash_keyfun := q\<rparr>, m') \<and>
    pred_option rpm_wf q \<and> (pred_option rpm_init q \<longleftrightarrow> bp_chash_keyfun p = None) \<and>
    map_option rpm_content_of q = bc_chash_keyfun (bp_content_of p) \<and>
    mem_allocs m (rpm_owned q) m'"
proof -
  have "pred_option mf_wf (bp_chash_keyfun p)" using assms(2) by (simp add: bp_wf_def)
  from modfun_to_pb_ok [OF assms(1) this, of m] obtain q m' where
    q: "riak_modfun_copy_to_pb cfg None (bp_chash_keyfun p) m = Some (ERIAK_OK, q, m')" "pred_option rpm_wf q"
      "pred_option (\<lambda>f. \<not> rpm_init f) q" "map_option rpm_content_of q = map_option mf_content_of (bp_chash_keyfun p)"
      "mem_allocs m (rpm_owned q) m'"
    by blast
  from q(3,4) have "pred_option rpm_init q \<longleftrightarrow> bp_chash_keyfun p = None"
    by (cases q; cases "bp_chash_keyfun p") simp_all
  with q(1,2,4,5) assms(3) show ?thesis
    by (intro exI [of _ q] exI [of _ m']) (simp add: chash_keyfun_to_pb_def bp_content_of_def)
qed

lemma linkfun_to_pb_ok:
  assumes "cfg_grants cfg" "bp_wf p" "rbp_linkfun to = None"
  shows "\<exists>q m'. linkfun_to_pb cfg p (to, m) = Some (ERIAK_OK, to\<lparr>rbp_linkfun := q\<rparr>, m') \<and>
    pred_option rpm_wf q \<and> (pred_option rpm_init q \<longleftrightarrow> bp_linkfun p = None) \<and>
    map_option rpm_content_of q = bc_linkfun (bp_content_of p) \<and>
    mem_allocs m (rpm_owned q) m'"
proof -
  have "pred_option mf_wf (bp_linkfun p)" using assms(2) by (simp add: bp_wf_def)
  from modfun_to_pb_ok [OF assms(1) this, of m] obtain q m' where
    q: "riak_modfun_copy_to_pb cfg None (bp_linkfun p) m = Some (ERIAK_OK, q, m')" "pred_option rpm_wf q"
      "pred_option (\<lambda>f. \<not> rpm_init f) q" "map_option rpm_content_of q = map_option mf_content_of (bp_linkfun p)"
      "mem_allocs m (rpm_owned q) m'"
    by blast
  from q(3,4) have "pred_option rpm_init q \<longleftrightarrow> bp_linkfun p = None"
    by (cases q; cases "bp_linkfun p") simp_all
  with q(1,2,4,5) assms(3) show ?thesis
    by (intro exI [of _ q] exI [of _ m']) (simp add: linkfun_to_pb_def bp_content_of_def)
qed

definition rbp_owned :: "rpb_bucketprops \<Rightarrow> addr list" where
  "rbp_owned p = arr_owned rph_owned (rbp_precommit p) (u64_count (rbp_n_precommit p)) @
     arr_owned rph_owned (rbp_postcommit p) (u64_count (rbp_n_postcommit p)) @
     rpm_owned (rbp_chash_keyfun p) @ rpm_owned (rbp_linkfun p)"

lemma limits_to_pb_other [simp]:
  "rbp_at (limits_to_pb p to) = rbp_at to"
  "rbp_n_precommit (limits_to_pb p to) = rbp_n_precommit to"
  "rbp_precommit (limits_to_pb p to) = rbp_precommit to"
  "rbp_has_precommit (limits_to_pb p to) = rbp_has_precommit to"
  "rbp_n_postcommit (limits_to_pb p to) = rbp_n_postcommit to"
  "rbp_postcommit (limits_to_pb p to) = rbp_postcommit to"
  "rbp_has_postcommit (limits_to_pb p to) = rbp_has_postcommit to"
  "rbp_chash_keyfun (limits_to_pb p to) = rbp_chash_keyfun to"
  "rbp_linkfun (limits_to_pb p to) = rbp_linkfun to"
  "rbp_backend (limits_to_pb p to) = rbp_backend to"
  "rbp_search_index (limits_to_pb p to) = rbp_search_index to"
  by (simp_all add: limits_to_pb_def)

lemma quorums_to_pb_other [simp]:
  "rbp_at (quorums_to_pb p to) = rbp_at to"
  "rbp_n_precommit (quorums_to_pb p to) = rbp_n_precommit to"
  "rbp_precommit (quorums_to_pb p to) = rbp_precommit to"
  "rbp_has_precommit (quorums_to_pb p to) = rbp_has_precommit to"
  "rbp_n_postcommit (quorums_to_pb p to) = rbp_n_postcommit to"
  "rbp_postcommit (quorums_to_pb p to) = rbp_postcommit to"
  "rbp_has_postcommit (quorums_to_pb p to) = rbp_has_postcommit to"
  "rbp_chash_keyfun (quorums_to_pb p to) = rbp_chash_keyfun to"
  "rbp_linkfun (quorums_to_pb p to) = rbp_linkfun to"
  "rbp_backend (quorums_to_pb p to) = rbp_backend to"
  "rbp_search_index (quorums_to_pb p to) = rbp_search_index to"
  by (simp_all add: quorums_to_pb_def)

lemma search_to_pb_other [simp]:
  "rbp_at (search_to_pb p to) = rbp_at to"
  "rbp_n_precommit (search_to_pb p to) = rbp_n_precommit to"
  "rbp_precommit (search_to_pb p to) = rbp_precommit to"
  "rbp_has_precommit (search_to_pb p to) = rbp_has_precommit to"
  "rbp_n_postcommit (search_to_pb p to) = rbp_n_postcommit to"
  "rbp_postcommit (search_to_pb p to) = rbp_postcommit to"
  "rbp_has_postcommit (search_to_pb p to) = rbp_has_postcommit to"
  "rbp_chash_keyfun (search_to_pb p to) = rbp_chash_keyfun to"
  "rbp_linkfun (search_to_pb p to) = rbp_linkfun to"
  "rbp_backend (search_to_pb p to) = rbp_backend to"
  "rbp_search_index (search_to_pb p to) = rbp_search_index to"
  by (simp_all add: search_to_pb_def)

text \<open>
  What protobuf-c requires of a message that is measured or packed: the headers of all messages in
  it are initialised, and the arrays have as many elements as their counts say.
\<close>

definition hooks_packable :: "u64 \<Rightarrow> rpb_commit_hook parray option \<Rightarrow> bool" where
  "hooks_packable n hs \<longleftrightarrow> unat n \<le> length (pa_list hs) \<and>
     list_all (pred_option (\<lambda>h. rph_init h \<and> pred_option rpm_init (rph_modfun h))) (take (unat n) (pa_list hs)) \<and>
     None \<notin> set (take (unat n) (pa_list hs))"

definition rbp_packable :: "rpb_bucketprops \<Rightarrow> bool" where
  "rbp_packable p \<longleftrightarrow> hooks_packable (rbp_n_precommit p) (rbp_precommit p) \<and>
     hooks_packable (rbp_n_postcommit p) (rbp_postcommit p) \<and>
     pred_option rpm_init (rbp_chash_keyfun p) \<and> pred_option rpm_init (rbp_linkfun p)"

text \<open>Properties without functions and without hooks.\<close>

definition bp_plain :: "riak_bucketprops \<Rightarrow> bool" where
  "bp_plain p \<longleftrightarrow> (fst (bp_has_precommit p) \<and> snd (bp_has_precommit p) \<longrightarrow> bp_n_precommit p = 0) \<and>
     (fst (bp_has_postcommit p) \<and> snd (bp_has_postcommit p) \<longrightarrow> bp_n_postcommit p = 0) \<and>
     bp_chash_keyfun p = None \<and> bp_linkfun p = None"

lemma new_hooks_packable:
  assumes "arr_ok q (u64_count n)" "list_all rph_new (arr_elems q (u64_count n))" "length (pa_list q) \<le> u64_count n"
  shows "hooks_packable n q \<longleftrightarrow> n = 0"
proof -
  have u: "u64_count n \<le> unat n" unfolding u64_count_def by (simp add: unsigned_ucast_eq take_bit_nat_less_eq_self)
  obtain rest where p: "pa_list q = map Some (arr_elems q (u64_count n)) @ rest" "length (arr_elems q (u64_count n)) = u64_count n"
    using arr_ok_cells [OF assms(1)] .
  with assms(3) have c: "pa_list q = map Some (arr_elems q (u64_count n))" by simp
  have "n = 0" if h: "hooks_packable n q"
  proof (rule ccontr)
    assume "n \<noteq> 0"
    then have "0 < unat n" by (simp add: unat_gt_0)
    moreover have "unat n \<le> u64_count n" using h c p(2) by (simp add: hooks_packable_def)
    ultimately have n: "unat n = u64_count n" "0 < u64_count n" using u by simp_all
    then obtain h hs where hs: "arr_elems q (u64_count n) = h # hs" using p(2) by (cases "arr_elems q (u64_count n)") auto
    with assms(2) have "\<not> rph_init h" by (simp add: rph_new_def)
    moreover have "take (unat n) (pa_list q) = Some h # map Some hs" using c hs n p(2) by simp
    ultimately show False using h by (simp add: hooks_packable_def)
  qed
  then show ?thesis by (auto simp: hooks_packable_def)
qed

text \<open>
  Well-formed properties become a message with the same contents; the hooks and functions are
  all that was allocated. The message can be packed exactly when there are none.
\<close>

lemma riak_bucketprops_to_pb_ok:
  assumes g: "cfg_grants cfg" and ini: "rbp_empty ini" and w: "bp_wf p"
  shows "\<exists>to m'. riak_bucketprops_to_pb_copy cfg ini p m = Some (ERIAK_OK, to, m') \<and>
    rbp_wf to \<and> rbp_content_of to = bp_content_of p \<and> mem_allocs m (rbp_owned to) m' \<and>
    (rbp_packable to \<longleftrightarrow> bp_plain p)"
proof -
  let ?t0 = "limits_to_pb p ini"
  have e: "rbp_has_precommit ini = (False, False)" "rbp_n_precommit ini = 0" "rbp_precommit ini = None"
    "rbp_has_postcommit ini = (False, False)" "rbp_n_postcommit ini = 0" "rbp_postcommit ini = None"
    "rbp_chash_keyfun ini = None" "rbp_linkfun ini = None" "\<not> fst (rbp_backend ini)"
    "\<not> fst (rbp_search_index ini)"
    using ini by (simp_all add: rbp_empty_def)
  obtain h1 n1 q1 m1 where s1: "precommit_to_pb cfg p (?t0, m) = Some (ERIAK_OK,
      ?t0\<lparr>rbp_has_precommit := h1, rbp_n_precommit := n1, rbp_precommit := q1\<rparr>, m1)"
    and c1: "arr_ok q1 (u64_count n1)" "list_all rph_new (arr_elems q1 (u64_count n1))"
    "hooks_opt h1 (map rph_content_of (arr_elems q1 (u64_count n1))) = bc_precommit (bp_content_of p)"
    "mem_allocs m (arr_owned rph_owned q1 (u64_count n1)) m1"
    and l1: "length (pa_list q1) \<le> u64_count n1"
      "n1 = (if fst (bp_has_precommit p) \<and> snd (bp_has_precommit p) then bp_n_precommit p else 0)"
    using precommit_to_pb_ok [OF g w, of ?t0 m] e by auto
  let ?t1 = "?t0\<lparr>rbp_has_precommit := h1, rbp_n_precommit := n1, rbp_precommit := q1\<rparr>"
  obtain h2 n2 q2 m2 where s2: "postcommit_to_pb cfg p (?t1, m1) = Some (ERIAK_OK,
      ?t1\<lparr>rbp_has_postcommit := h2, rbp_n_postcommit := n2, rbp_postcommit := q2\<rparr>, m2)"
    and c2: "arr_ok q2 (u64_count n2)" "list_all rph_new (arr_elems q2 (u64_count n2))"
    "hooks_opt h2 (map rph_content_of (arr_elems q2 (u64_count n2))) = bc_postcommit (bp_content_of p)"
    "mem_allocs m1 (arr_owned rph_owned q2 (u64_count n2)) m2"
    and l2: "length (pa_list q2) \<le> u64_count n2"
      "n2 = (if fst (bp_has_postcommit p) \<and> snd (bp_has_postcommit p) then bp_n_postcommit p else 0)"
    using postcommit_to_pb_ok [OF g w, of ?t1 m1] e by auto
  let ?t2 = "quorums_to_pb p (?t1\<lparr>rbp_has_postcommit := h2, rbp_n_postcommit := n2, rbp_postcommit := q2\<rparr>)"
  obtain b where s3: "backend_to_pb p (?t2, m2) = Some (ERIAK_OK, ?t2\<lparr>rbp_backend := b\<rparr>, m2)"
    and c3: "fst b \<longrightarrow> pbb_wf (snd b)" "when_flag (fst b) (pbb_bytes (snd b)) = bc_backend (bp_content_of p)"
    using backend_to_pb_ok [OF w, of ?t2 m2] e by auto
  let ?t3 = "search_to_pb p (?t2\<lparr>rbp_backend := b\<rparr>)"
  obtain i where s4: "search_index_to_pb p (?t3, m2) = Some (ERIAK_OK, ?t3\<lparr>rbp_search_index := i\<rparr>, m2)"
    and c4: "fst i \<longrightarrow> pbb_wf (snd i)" "when_flag (fst i) (pbb_bytes (snd i)) = bc_search_index (bp_content_of p)"
    using search_index_to_pb_ok [OF w, of ?t3 m2] e by auto
  let ?t4 = "?t3\<lparr>rbp_search_index := i\<rparr>"
  obtain q5 m5 where s5: "chash_keyfun_to_pb cfg p (?t4, m2) = Some (ERIAK_OK, ?t4\<lparr>rbp_chash_keyfun := q5\<rparr>, m5)"
    and c5: "pred_option rpm_wf q5" "map_option rpm_content_of q5 = bc_chash_keyfun (bp_content_of p)"
    "mem_allocs m2 (rpm_owned q5) m5" "pred_option rpm_init q5 \<longleftrightarrow> bp_chash_keyfun p = None"
    using chash_keyfun_to_pb_ok [OF g w, of ?t4 m2] e by auto
  let ?t5 = "?t4\<lparr>rbp_chash_keyfun := q5\<rparr>"
  obtain q6 m6 where s6: "linkfun_to_pb cfg p (?t5, m5) = Some (ERIAK_OK, ?t5\<lparr>rbp_linkfun := q6\<rparr>, m6)"
    and c6: "pred_option rpm_wf q6" "map_option rpm_content_of q6 = bc_linkfun (bp_content_of p)"
    "mem_allocs m5 (rpm_owned q6) m6" "pred_option rpm_init q6 \<longleftrightarrow> bp_linkfun p = None"
    using linkfun_to_pb_ok [OF g w, of ?t5 m5] e by auto
  let ?t6 = "?t5\<lparr>rbp_linkfun := q6\<rparr>"
  have "riak_bucketprops_to_pb_copy cfg ini p m = Some (ERIAK_OK, ?t6, m6)"
    unfolding riak_bucketprops_to_pb_copy_def s1 then_ok_simps(1) s2 prod.case s3 s4 s5 s6 ..
  moreover have "rbp_wf ?t6"
    using c1 c2 c3 c4 c5 c6 rph_new_wf [OF c1(2)] rph_new_wf [OF c2(2)] by (simp add: rbp_wf_def)
  moreover have "rbp_content_of ?t6 = bp_content_of p"
    using c1(3) c2(3) c3(2) c4(2) c5(2) c6(2) ini
    by (simp add: rbp_content_of_def bp_content_of_def limits_to_pb_def quorums_to_pb_def search_to_pb_def rbp_empty_def)
  moreover have "mem_allocs m (rbp_owned ?t6) m6"
    using mem_allocs_trans [OF mem_allocs_trans [OF mem_allocs_trans [OF c1(4) c2(4)] c5(3)] c6(3)]
    by (simp add: rbp_owned_def)
  moreover have "rbp_packable ?t6 \<longleftrightarrow> bp_plain p"
    using new_hooks_packable [OF c1(1,2) l1(1)] new_hooks_packable [OF c2(1,2) l2(1)] l1(2) l2(2) c5(4) c6(4)
    by (auto simp: rbp_packable_def bp_plain_def)
  ultimately show ?thesis by blast
qed

subsection \<open>From a message to bucket properties\<close>

lemma modfun_from_pb_ok:
  assumes g: "cfg_grants cfg" and w: "rpm_wf f"
  shows "\<exists>q m'. riak_modfun_copy_from_pb cfg (Some f) m = Some (ERIAK_OK, Some q, m') \<and> mf_wf q \<and>
    mf_content_of q = rpm_content_of f \<and> mem_allocs m (mf_owned q) m'"
proof -
  obtain a where a: "riak_binary_copy_from_pb cfg (rpm_module f) (mem_push m) = (Some a, mem_push (mem_push m))"
    "bin_wf a" "bin_bytes a = pbb_bytes (rpm_module f)" "bin_owned a = [Suc (mem_next m)]"
    using copy_from_pb_ok [OF g, of "rpm_module f" "mem_push m"] w by (auto simp: rpm_wf_def)
  obtain b where b: "riak_binary_copy_from_pb cfg (rpm_function f) (mem_push (mem_push m)) =
      (Some b, mem_push (mem_push (mem_push m)))"
    "bin_wf b" "bin_bytes b = pbb_bytes (rpm_function f)" "bin_owned b = [Suc (Suc (mem_next m))]"
    using copy_from_pb_ok [OF g, of "rpm_function f" "mem_push (mem_push m)"] w by (auto simp: rpm_wf_def)
  from a b show ?thesis
    by (auto simp: riak_modfun_copy_from_pb_def cfg_malloc_granted [OF g] mf_wf_def mf_content_of_def
      rpm_content_of_def ptr_wf_def ptr_bytes_def mf_owned_def mem_allocs_def)
qed

lemma riak_modfun_copy_from_pb_missing:
  "cfg_grants cfg \<Longrightarrow>
   riak_modfun_copy_from_pb cfg None m = Some (ERIAK_OUT_OF_MEMORY, None, mem_push m)"
  by (simp add: riak_modfun_copy_from_pb_def cfg_malloc_granted)

text \<open>A hook with its function, which the library expects of every hook it receives.\<close>

definition rph_full :: "rpb_commit_hook \<Rightarrow> bool" where
  "rph_full h \<longleftrightarrow> rph_wf h \<and> rph_modfun h \<noteq> None"

definition hook_full :: "riak_commit_hook \<Rightarrow> bool" where
  "hook_full h \<longleftrightarrow> hook_wf h \<and> hook_modfun h \<noteq> None"

lemma hooks_from_pb_loop_ok:
  assumes g: "cfg_grants cfg" and "list_all rph_full pbs"
  shows "\<exists>hs m'. hooks_from_pb_loop cfg (map Some pbs @ rest) (length pbs) m =
      Some (ERIAK_OK, map Some hs, m') \<and> length hs = length pbs \<and> list_all hook_full hs \<and>
    map hook_content_of hs = map rph_content_of pbs \<and> mem_allocs m (concat (map hook_owned hs)) m'"
  using assms(2)
proof (induction pbs arbitrary: m)
  case Nil
  then show ?case by (intro exI [of _ "[]"]) simp
next
  case (Cons pb pbs)
  then obtain f where f: "rph_modfun pb = Some f" "rpm_wf f" "rph_has_name pb \<longrightarrow> pbb_wf (rph_name pb)"
    by (auto simp: rph_full_def rph_wf_def)
  obtain nm m1 where nm: "(if rph_has_name pb then riak_binary_copy_from_pb cfg (rph_name pb) (mem_push m)
      else (None, mem_push m)) = (nm, m1)" "rph_has_name pb \<longrightarrow> ptr_wf nm" "rph_has_name pb \<longrightarrow> nm \<noteq> None"
    "when_flag (rph_has_name pb) (ptr_bytes nm) = when_flag (rph_has_name pb) (pbb_bytes (rph_name pb))"
    "mem_allocs (mem_push m) (bin.owned_p nm) m1"
  proof (cases "rph_has_name pb")
    case True
    with copy_from_pb_ok [OF g, of "rph_name pb" "mem_push m"] f that mem_allocs_push [of "mem_push m"]
    show ?thesis by (auto simp: ptr_wf_def ptr_bytes_def)
  qed (use that in simp)
  obtain q m2 where q: "riak_modfun_copy_from_pb cfg (Some f) m1 = Some (ERIAK_OK, Some q, m2)" "mf_wf q"
    "mf_content_of q = rpm_content_of f" "mem_allocs m1 (mf_owned q) m2"
    using modfun_from_pb_ok [OF g f(2)] by blast
  obtain hs m' where IH: "hooks_from_pb_loop cfg (map Some pbs @ rest) (length pbs) m2 =
      Some (ERIAK_OK, map Some hs, m')" "length hs = length pbs" "list_all hook_full hs"
    "map hook_content_of hs = map rph_content_of pbs" "mem_allocs m2 (concat (map hook_owned hs)) m'"
    using Cons.IH [of m2] Cons.prems by auto
  let ?h = "\<lparr>hook_at = mem_next m, hook_modfun = Some q, hook_has_name = rph_has_name pb, hook_name = nm\<rparr>"
  have "mem_allocs m (hook_owned ?h) m2"
    by (rule mem_allocs_mset [OF mem_allocs_Cons [OF mem_allocs_trans [OF nm(5) q(4)]]])
      (simp add: hook_owned_def mf_owned_p_def)
  from mem_allocs_trans [OF this IH(5)] have "mem_allocs m (concat (map hook_owned (?h # hs))) m'" by simp
  moreover have "hooks_from_pb_loop cfg (map Some (pb # pbs) @ rest) (length (pb # pbs)) m =
      Some (ERIAK_OK, map Some (?h # hs), m')"
    using IH(1) nm(1,3) q(1) f(1) by (auto simp: cfg_malloc_granted [OF g])
  moreover have "hook_full ?h" "hook_content_of ?h = rph_content_of pb"
    using nm q f by (simp_all add: hook_full_def hook_wf_def hook_content_of_def rph_content_of_def)
  ultimately show ?case using IH(2-4) by (intro exI [of _ "?h # hs"] exI [of _ m']) simp
qed

lemma hooks_copy_from_pb_ok:
  assumes "cfg_grants cfg" "arr_ok p (u64_count n)" "list_all rph_full (arr_elems p (u64_count n))"
  shows "\<exists>q m'. riak_commit_hooks_copy_from_pb cfg p (ucast n) m = Some (ERIAK_OK, q, m') \<and>
    copies hook_full hook_content_of hook_owned m (map rph_content_of (arr_elems p (u64_count n))) q
      (u64_count n) m'"
proof -
  let ?xs = "arr_elems p (u64_count n)"
  obtain rest where p: "pa_list p = map Some ?xs @ rest" "length ?xs = u64_count n"
    using arr_ok_cells [OF assms(2)] .
  obtain hs m' where l: "hooks_from_pb_loop cfg (map Some ?xs @ rest) (length ?xs) (mem_push m) =
      Some (ERIAK_OK, map Some hs, m')" "length hs = length ?xs" "list_all hook_full hs"
    "map hook_content_of hs = map rph_content_of ?xs" "mem_allocs (mem_push m) (concat (map hook_owned hs)) m'"
    using hooks_from_pb_loop_ok [OF assms(1,3)] by blast
  have "copies hook_full hook_content_of hook_owned m (map rph_content_of ?xs)
      (Some \<lparr>pa_addr = mem_next m, pa_cells = map Some hs\<rparr>) (u64_count n) m'"
    using l p by (intro copiesI) simp_all
  moreover have "riak_commit_hooks_copy_from_pb cfg p (ucast n) m =
      Some (ERIAK_OK, Some \<lparr>pa_addr = mem_next m, pa_cells = map Some hs\<rparr>, m')"
    using l(1) p unfolding riak_commit_hooks_copy_from_pb_def cfg_malloc_granted [OF assms(1)]
    by (simp flip: u64_count_def)
  ultimately show ?thesis by blast
qed

text \<open>
  What the library expects of the optional fields of a message: both functions are there, and every
  hook of a list that is announced has its function.
\<close>

definition rbp_complete :: "rpb_bucketprops \<Rightarrow> bool" where
  "rbp_complete p \<longleftrightarrow>
     (rbp_has_precommit p = (True, True) \<longrightarrow>
        list_all (\<lambda>h. rph_modfun h \<noteq> None) (arr_elems (rbp_precommit p) (u64_count (rbp_n_precommit p)))) \<and>
     (rbp_has_postcommit p = (True, True) \<longrightarrow>
        list_all (\<lambda>h. rph_modfun h \<noteq> None) (arr_elems (rbp_postcommit p) (u64_count (rbp_n_postcommit p)))) \<and>
     rbp_chash_keyfun p \<noteq> None \<and> rbp_linkfun p \<noteq> None"

definition rbp_full :: "rpb_bucketprops \<Rightarrow> bool" where
  "rbp_full p \<longleftrightarrow> rbp_wf p \<and> rbp_complete p"

lemma list_all_rph_full:
  "list_all rph_full hs \<longleftrightarrow> list_all rph_wf hs \<and> list_all (\<lambda>h. rph_modfun h \<noteq> None) hs"
  by (auto simp: list_all_iff rph_full_def)

lemma precommit_from_pb_ok:
  assumes "cfg_grants cfg" "rbp_full p" "bp_has_precommit to = (False, False)" "bp_n_precommit to = 0" "bp_precommit to = None"
  shows "\<exists>hf n q m'. precommit_from_pb cfg p (Some to, m) =
      Some (ERIAK_OK, Some (to\<lparr>bp_has_precommit := hf, bp_n_precommit := n, bp_precommit := q\<rparr>), m') \<and>
    arr_ok q (u64_count n) \<and> list_all hook_full (arr_elems q (u64_count n)) \<and>
    hooks_opt hf (map hook_content_of (arr_elems q (u64_count n))) = bc_precommit (rbp_content_of p) \<and>
    mem_allocs m (arr_owned hook_owned q (u64_count n)) m'"
proof (cases "fst (rbp_has_precommit p) \<and> snd (rbp_has_precommit p)")
  case True
  have w: "arr_ok (rbp_precommit p) (u64_count (rbp_n_precommit p))"
    "list_all rph_full (arr_elems (rbp_precommit p) (u64_count (rbp_n_precommit p)))"
    using assms(2) True
    by (simp_all add: rbp_full_def rbp_wf_def rbp_complete_def list_all_rph_full prod_eq_iff)
  from hooks_copy_from_pb_ok [OF assms(1) w, of m] obtain q m' where
    "riak_commit_hooks_copy_from_pb cfg (rbp_precommit p) (ucast (rbp_n_precommit p)) m = Some (ERIAK_OK, q, m')"
    "copies hook_full hook_content_of hook_owned m
      (map rph_content_of (arr_elems (rbp_precommit p) (u64_count (rbp_n_precommit p)))) q (u64_count (rbp_n_precommit p)) m'"
    by blast
  with True show ?thesis
    by (intro exI [of _ "(True, True)"] exI [of _ "rbp_n_precommit p"] exI [of _ q] exI [of _ m'])
      (simp add: precommit_from_pb_def copies_def rbp_content_of_def hooks_opt_def)
next
  case False
  with assms(3-5) show ?thesis
    by (intro exI [of _ "(fst (rbp_has_precommit p), False)"] exI [of _ 0] exI [of _ None] exI [of _ m])
      (auto simp: precommit_from_pb_def rbp_content_of_def hooks_opt_def u64_count_def)
qed

lemma postcommit_from_pb_ok:
  assumes "cfg_grants cfg" "rbp_full p" "bp_has_postcommit to = (False, False)" "bp_n_postcommit to = 0" "bp_postcommit to = None"
  shows "\<exists>hf n q m'. postcommit_from_pb cfg p (Some to, m) =
      Some (ERIAK_OK, Some (to\<lparr>bp_has_postcommit := hf, bp_n_postcommit := n, bp_postcommit := q\<rparr>), m') \<and>
    arr_ok q (u64_count n) \<and> list_all hook_full (arr_elems q (u64_count n)) \<and>
    hooks_opt hf (map hook_content_of (arr_elems q (u64_count n))) = bc_postcommit (rbp_content_of p) \<and>
    mem_allocs m (arr_owned hook_owned q (u64_count n)) m'"
proof (cases "fst (rbp_has_postcommit p) \<and> snd (rbp_has_postcommit p)")
  case True
  have w: "arr_ok (rbp_postcommit p) (u64_count (rbp_n_postcommit p))"
    "list_all rph_full (arr_elems (rbp_postcommit p) (u64_count (rbp_n_postcommit p)))"
    using assms(2) True
    by (simp_all add: rbp_full_def rbp_wf_def rbp_complete_def list_all_rph_full prod_eq_iff)
  from hooks_copy_from_pb_ok [OF assms(1) w, of m] obtain q m' where
    "riak_commit_hooks_copy_from_pb cfg (rbp_postcommit p) (ucast (rbp_n_postcommit p)) m = Some (ERIAK_OK, q, m')"
    "copies hook_full hook_content_of hook_owned m
      (map rph_content_of (arr_elems (rbp_postcommit p) (u64_count (rbp_n_postcommit p)))) q (u64_count (rbp_n_postcommit p)) m'"
    by blast
  with True show ?thesis
    by (intro exI [of _ "(True, True)"] exI [of _ "rbp_n_postcommit p"] exI [of _ q] exI [of _ m'])
      (simp add: postcommit_from_pb_def copies_def rbp_content_of_def hooks_opt_def)
next
  case False
  with assms(3-5) show ?thesis
    by (intro exI [of _ "(fst (rbp_has_postcommit p), False)"] exI [of _ 0] exI [of _ None] exI [of _ m])
      (auto simp: postcommit_from_pb_def rbp_content_of_def hooks_opt_def u64_count_def)
qed

lemma backend_from_pb_ok:
  assumes "cfg_grants cfg" "rbp_full p" "bp_backend to = (False, None)"
  shows "\<exists>b m'. backend_from_pb cfg p (Some to, m) = Some (ERIAK_OK, Some (to\<lparr>bp_backend := b\<rparr>), m') \<and>
    (fst b \<longrightarrow> ptr_wf (snd b)) \<and> when_flag (fst b) (ptr_bytes (snd b)) = bc_backend (rbp_content_of p) \<and>
    mem_allocs m (bin.owned_p (snd b)) m'"
proof (cases "fst (rbp_backend p)")
  case True
  with assms(2) have "pbb_wf (snd (rbp_backend p))" by (simp add: rbp_full_def rbp_wf_def)
  from copy_from_pb_ok [OF assms(1) this, of m] obtain x where
    "riak_binary_copy_from_pb cfg (snd (rbp_backend p)) m = (Some x, mem_push m)" "bin_wf x"
    "bin_bytes x = pbb_bytes (snd (rbp_backend p))" "bin_owned x = [mem_next m]"
    by blast
  with True show ?thesis
    by (intro exI [of _ "(True, Some x)"] exI [of _ "mem_push m"])
      (simp add: backend_from_pb_def rbp_content_of_def ptr_wf_def ptr_bytes_def mem_allocs_push)
next
  case False
  with assms(3) show ?thesis
    by (intro exI [of _ "(False, None)"] exI [of _ m]) (simp add: backend_from_pb_def rbp_content_of_def)
qed

lemma search_index_from_pb_ok:
  assumes "cfg_grants cfg" "rbp_full p" "bp_search_index to = (False, None)"
  shows "\<exists>b m'. search_index_from_pb cfg p (Some to, m) = Some (ERIAK_OK, Some (to\<lparr>bp_search_index := b\<rparr>), m') \<and>
    (fst b \<longrightarrow> ptr_wf (snd b)) \<and> when_flag (fst b) (ptr_bytes (snd b)) = bc_search_index (rbp_content_of p) \<and>
    mem_allocs m (bin.owned_p (snd b)) m'"
proof (cases "fst (rbp_search_index p)")
  case True
  with assms(2) have "pbb_wf (snd (rbp_search_index p))" by (simp add: rbp_full_def rbp_wf_def)
  from copy_from_pb_ok [OF assms(1) this, of m] obtain x where
    "riak_binary_copy_from_pb cfg (snd (rbp_search_index p)) m = (Some x, mem_push m)" "bin_wf x"
    "bin_bytes x = pbb_bytes (snd (rbp_search_index p))" "bin_owned x = [mem_next m]"
    by blast
  with True show ?thesis
    by (intro exI [of _ "(True, Some x)"] exI [of _ "mem_push m"])
      (simp add: search_index_from_pb_def rbp_content_of_def ptr_wf_def ptr_bytes_def mem_allocs_push)
next
  case False
  with assms(3) show ?thesis
    by (intro exI [of _ "(False, None)"] exI [of _ m]) (simp add: search_index_from_pb_def rbp_content_of_def)
qed

lemma chash_keyfun_from_pb_ok:
  assumes "cfg_grants cfg" "rbp_full p"
  shows "\<exists>q m'. chash_keyfun_from_pb cfg p (Some to, m) = Some (ERIAK_OK, Some (to\<lparr>bp_chash_keyfun := Some q\<rparr>), m') \<and>
    mf_wf q \<and> Some (mf_content_of q) = bc_chash_keyfun (rbp_content_of p) \<and> mem_allocs m (mf_owned q) m'"
proof -
  obtain f where f: "rbp_chash_keyfun p = Some f" "rpm_wf f"
    using assms(2) by (auto simp: rbp_full_def rbp_wf_def rbp_complete_def)
  from modfun_from_pb_ok [OF assms(1) f(2), of m] f(1) show ?thesis
    by (auto simp: chash_keyfun_from_pb_def rbp_content_of_def)
qed

lemma linkfun_from_pb_ok:
  assumes "cfg_grants cfg" "rbp_full p"
  shows "\<exists>q m'. linkfun_from_pb cfg p (Some to, m) = Some (ERIAK_OK, Some (to\<lparr>bp_linkfun := Some q\<rparr>), m') \<and>
    mf_wf q \<and> Some (mf_content_of q) = bc_linkfun (rbp_content_of p) \<and> mem_allocs m (mf_owned q) m'"
proof -
  obtain f where f: "rbp_linkfun p = Some f" "rpm_wf f"
    using assms(2) by (auto simp: rbp_full_def rbp_wf_def rbp_complete_def)
  from modfun_from_pb_ok [OF assms(1) f(2), of m] f(1) show ?thesis
    by (auto simp: linkfun_from_pb_def rbp_content_of_def)
qed

lemma limits_from_pb_other [simp]:
  "bp_at (limits_from_pb p to) = bp_at to"
  "bp_n_precommit (limits_from_pb p to) = bp_n_precommit to"
  "bp_precommit (limits_from_pb p to) = bp_precommit to"
  "bp_has_precommit (limits_from_pb p to) = bp_has_precommit to"
  "bp_n_postcommit (limits_from_pb p to) = bp_n_postcommit to"
  "bp_postcommit (limits_from_pb p to) = bp_postcommit to"
  "bp_has_postcommit (limits_from_pb p to) = bp_has_postcommit to"
  "bp_chash_keyfun (limits_from_pb p to) = bp_chash_keyfun to"
  "bp_linkfun (limits_from_pb p to) = bp_linkfun to"
  "bp_backend (limits_from_pb p to) = bp_backend to"
  "bp_search_index (limits_from_pb p to) = bp_search_index to"
  by (simp_all add: limits_from_pb_def)

lemma quorums_from_pb_other [simp]:
  "bp_at (quorums_from_pb p to) = bp_at to"
  "bp_n_precommit (quorums_from_pb p to) = bp_n_precommit to"
  "bp_precommit (quorums_from_pb p to) = bp_precommit to"
  "bp_has_precommit (quorums_from_pb p to) = bp_has_precommit to"
  "bp_n_postcommit (quorums_from_pb p to) = bp_n_postcommit to"
  "bp_postcommit (quorums_from_pb p to) = bp_postcommit to"
  "bp_has_postcommit (quorums_from_pb p to) = bp_has_postcommit to"
  "bp_chash_keyfun (quorums_from_pb p to) = bp_chash_keyfun to"
  "bp_linkfun (quorums_from_pb p to) = bp_linkfun to"
  "bp_backend (quorums_from_pb p to) = bp_backend to"
  "bp_search_index (quorums_from_pb p to) = bp_search_index to"
  by (simp_all add: quorums_from_pb_def)

lemma search_from_pb_other [simp]:
  "bp_at (search_from_pb p to) = bp_at to"
  "bp_n_precommit (search_from_pb p to) = bp_n_precommit to"
  "bp_precommit (search_from_pb p to) = bp_precommit to"
  "bp_has_precommit (search_from_pb p to) = bp_has_precommit to"
  "bp_n_postcommit (search_from_pb p to) = bp_n_postcommit to"
  "bp_postcommit (search_from_pb p to) = bp_postcommit to"
  "bp_has_postcommit (search_from_pb p to) = bp_has_postcommit to"
  "bp_chash_keyfun (search_from_pb p to) = bp_chash_keyfun to"
  "bp_linkfun (search_from_pb p to) = bp_linkfun to"
  "bp_backend (search_from_pb p to) = bp_backend to"
  "bp_search_index (search_from_pb p to) = bp_search_index to"
  by (simp_all add: search_from_pb_def)

lemma list_all_full: "list_all hook_full hs \<Longrightarrow> list_all hook_wf hs \<and> list_all (\<lambda>h. hook_modfun h \<noteq> None) hs"
  by (auto simp: list_all_iff hook_full_def)

text \<open>
  A complete message becomes properties with the same contents, which can be freed and own
  exactly what was allocated.
\<close>

lemma riak_bucketprops_new_from_pb_ok:
  assumes g: "cfg_grants cfg" and w: "rbp_full c"
  shows "\<exists>p m'. riak_bucketprops_new_from_pb cfg c m = Some (ERIAK_OK, Some p, m') \<and>
    bp_wf p \<and> bp_releasable p \<and> bp_content_of p = rbp_content_of c \<and> mem_allocs m (bp_owned p) m'"
proof -
  let ?z = "bucketprops_zero (mem_next m)" let ?t0 = "limits_from_pb c ?z"
  have z: "bp_at ?z = mem_next m" "bp_has_precommit ?z = (False, False)" "bp_n_precommit ?z = 0"
    "bp_precommit ?z = None" "bp_has_postcommit ?z = (False, False)" "bp_n_postcommit ?z = 0"
    "bp_postcommit ?z = None" "bp_backend ?z = (False, None)" "bp_search_index ?z = (False, None)"
    by (simp_all add: bucketprops_zero_def)
  obtain h1 n1 q1 m1 where s1: "precommit_from_pb cfg c (Some ?t0, mem_push m) = Some (ERIAK_OK,
      Some (?t0\<lparr>bp_has_precommit := h1, bp_n_precommit := n1, bp_precommit := q1\<rparr>), m1)"
    and c1: "arr_ok q1 (u64_count n1)" "list_all hook_full (arr_elems q1 (u64_count n1))"
    "hooks_opt h1 (map hook_content_of (arr_elems q1 (u64_count n1))) = bc_precommit (rbp_content_of c)"
    "mem_allocs (mem_push m) (arr_owned hook_owned q1 (u64_count n1)) m1"
    using precommit_from_pb_ok [OF g w, of ?t0 "mem_push m"] z by auto
  let ?t1 = "?t0\<lparr>bp_has_precommit := h1, bp_n_precommit := n1, bp_precommit := q1\<rparr>"
  obtain h2 n2 q2 m2 where s2: "postcommit_from_pb cfg c (Some ?t1, m1) = Some (ERIAK_OK,
      Some (?t1\<lparr>bp_has_postcommit := h2, bp_n_postcommit := n2, bp_postcommit := q2\<rparr>), m2)"
    and c2: "arr_ok q2 (u64_count n2)" "list_all hook_full (arr_elems q2 (u64_count n2))"
    "hooks_opt h2 (map hook_content_of (arr_elems q2 (u64_count n2))) = bc_postcommit (rbp_content_of c)"
    "mem_allocs m1 (arr_owned hook_owned q2 (u64_count n2)) m2"
    using postcommit_from_pb_ok [OF g w, of ?t1 m1] z by auto
  let ?t2 = "quorums_from_pb c (?t1\<lparr>bp_has_postcommit := h2, bp_n_postcommit := n2, bp_postcommit := q2\<rparr>)"
  obtain b m3 where s3: "backend_from_pb cfg c (Some ?t2, m2) = Some (ERIAK_OK, Some (?t2\<lparr>bp_backend := b\<rparr>), m3)"
    and c3: "fst b \<longrightarrow> ptr_wf (snd b)" "when_flag (fst b) (ptr_bytes (snd b)) = bc_backend (rbp_content_of c)"
    "mem_allocs m2 (bin.owned_p (snd b)) m3"
    using backend_from_pb_ok [OF g w, of ?t2 m2] z by auto
  let ?t3 = "search_from_pb c (?t2\<lparr>bp_backend := b\<rparr>)"
  obtain s m4 where s4: "search_index_from_pb cfg c (Some ?t3, m3) =
      Some (ERIAK_OK, Some (?t3\<lparr>bp_search_index := s\<rparr>), m4)"
    and c4: "fst s \<longrightarrow> ptr_wf (snd s)" "when_flag (fst s) (ptr_bytes (snd s)) = bc_search_index (rbp_content_of c)"
    "mem_allocs m3 (bin.owned_p (snd s)) m4"
    using search_index_from_pb_ok [OF g w, of ?t3 m3] z by auto
  let ?t4 = "?t3\<lparr>bp_search_index := s\<rparr>"
  obtain f m5 where s5: "chash_keyfun_from_pb cfg c (Some ?t4, m4) =
      Some (ERIAK_OK, Some (?t4\<lparr>bp_chash_keyfun := Some f\<rparr>), m5)"
    and c5: "mf_wf f" "Some (mf_content_of f) = bc_chash_keyfun (rbp_content_of c)" "mem_allocs m4 (mf_owned f) m5"
    using chash_keyfun_from_pb_ok [OF g w] by blast
  let ?t5 = "?t4\<lparr>bp_chash_keyfun := Some f\<rparr>"
  obtain l m6 where s6: "linkfun_from_pb cfg c (Some ?t5, m5) =
      Some (ERIAK_OK, Some (?t5\<lparr>bp_linkfun := Some l\<rparr>), m6)"
    and c6: "mf_wf l" "Some (mf_content_of l) = bc_linkfun (rbp_content_of c)" "mem_allocs m5 (mf_owned l) m6"
    using linkfun_from_pb_ok [OF g w] by blast
  let ?t6 = "?t5\<lparr>bp_linkfun := Some l\<rparr>"
  have "riak_bucketprops_new_from_pb cfg c m = Some (ERIAK_OK, Some ?t6, m6)"
    unfolding riak_bucketprops_new_from_pb_def riak_bucketprops_new_def cfg_malloc_granted [OF g]
    by (simp only: bind.bind_lunit prod.case option.map option.case s1 then_ok_simps(1) s2 s3 s4 s5 s6)
  moreover have "bp_wf ?t6" "bp_releasable ?t6"
    using c1 c2 c3 c4 c5 c6 list_all_full [OF c1(2)] list_all_full [OF c2(2)]
    by (simp_all add: bp_wf_def bp_releasable_def hooks_ok_def)
  moreover have "bp_content_of ?t6 = rbp_content_of c"
    using c1(3) c2(3) c3(2) c4(2) c5(2) c6(2)
    by (simp add: rbp_content_of_def bp_content_of_def limits_from_pb_def quorums_from_pb_def search_from_pb_def bucketprops_zero_def)
  moreover have "mem_allocs m (bp_owned ?t6) m6"
  proof -
    note t = mem_allocs_trans [OF mem_allocs_trans [OF mem_allocs_trans [OF mem_allocs_trans
      [OF mem_allocs_trans [OF c1(4) c2(4)] c3(3)] c4(3)] c5(3)] c6(3)]
    show ?thesis
      by (rule mem_allocs_mset [OF mem_allocs_Cons [OF t]]) (simp add: bp_owned_def mf_owned_p_def z)
  qed
  ultimately show ?thesis by blast
qed

subsection \<open>Messages that lack a function\<close>

text \<open>
  A step that fails with \<open>ERIAK_OUT_OF_MEMORY\<close> unless the message has what it needs, although memory
  is granted. The structure is there in both cases, and nothing has been freed.
\<close>

definition may_lack ::
  "mem \<Rightarrow> bool \<Rightarrow> (riak_error \<times> riak_bucketprops option \<times> mem) option \<Rightarrow> bool"
where
  "may_lack m P r \<longleftrightarrow> (\<exists>to m'. r = Some (if P then ERIAK_OK else ERIAK_OUT_OF_MEMORY, Some to, m') \<and>
     mem_live m \<subseteq> mem_live m')"

lemma may_lack_then_ok:
  assumes "may_lack m P r" "\<And>to m1. may_lack m1 Q (f (Some to, m1))"
  shows "may_lack m (P \<and> Q) (then_ok r f)"
proof -
  obtain to m1 where r: "r = Some (if P then ERIAK_OK else ERIAK_OUT_OF_MEMORY, Some to, m1)" "mem_live m \<subseteq> mem_live m1"
    using assms(1) by (auto simp: may_lack_def)
  show ?thesis
  proof (cases P)
    case True
    from assms(2) [of m1 to] obtain to2 m2 where
      "f (Some to, m1) = Some (if Q then ERIAK_OK else ERIAK_OUT_OF_MEMORY, Some to2, m2)" "mem_live m1 \<subseteq> mem_live m2"
      unfolding may_lack_def by blast
    with r True show ?thesis by (auto simp: may_lack_def)
  qed (use r in \<open>simp add: may_lack_def\<close>)
qed

lemma modfun_from_pb_lacks:
  assumes "cfg_grants cfg" "pred_option rpm_wf f"
  shows "\<exists>q m'. riak_modfun_copy_from_pb cfg f m =
    Some (if f \<noteq> None then ERIAK_OK else ERIAK_OUT_OF_MEMORY, q, m') \<and> mem_live m \<subseteq> mem_live m'"
proof (cases f)
  case None
  then show ?thesis by (auto simp: riak_modfun_copy_from_pb_missing [OF assms(1)])
next
  case (Some pb)
  with modfun_from_pb_ok [OF assms(1), of pb m] assms(2) show ?thesis by (auto dest: mem_allocs_live)
qed

lemma hooks_from_pb_loop_lacks:
  assumes g: "cfg_grants cfg" and "list_all rph_wf pbs"
  shows "\<exists>hs m'. hooks_from_pb_loop cfg (map Some pbs @ rest) (length pbs) m =
    Some (if list_all (\<lambda>h. rph_modfun h \<noteq> None) pbs then ERIAK_OK else ERIAK_OUT_OF_MEMORY, hs, m') \<and>
    mem_live m \<subseteq> mem_live m'"
  using assms(2)
proof (induction pbs arbitrary: m)
  case (Cons pb pbs)
  then have w: "pred_option rpm_wf (rph_modfun pb)" "rph_has_name pb \<longrightarrow> pbb_wf (rph_name pb)"
    by (simp_all add: rph_wf_def)
  obtain nm m1 where nm: "(if rph_has_name pb then riak_binary_copy_from_pb cfg (rph_name pb) (mem_push m)
      else (None, mem_push m)) = (nm, m1)" "rph_has_name pb \<longrightarrow> nm \<noteq> None" "mem_live m \<subseteq> mem_live m1"
  proof (cases "rph_has_name pb")
    case True
    with copy_from_pb_ok [OF g, of "rph_name pb" "mem_push m"] w(2) that show ?thesis by fastforce
  qed (use that in auto)
  obtain q m2 where q: "riak_modfun_copy_from_pb cfg (rph_modfun pb) m1 =
      Some (if rph_modfun pb \<noteq> None then ERIAK_OK else ERIAK_OUT_OF_MEMORY, q, m2)" "mem_live m1 \<subseteq> mem_live m2"
    using modfun_from_pb_lacks [OF g w(1)] by blast
  obtain hs m3 where "hooks_from_pb_loop cfg (map Some pbs @ rest) (length pbs) m2 =
      Some (if list_all (\<lambda>h. rph_modfun h \<noteq> None) pbs then ERIAK_OK else ERIAK_OUT_OF_MEMORY, hs, m3)"
    "mem_live m2 \<subseteq> mem_live m3"
    using Cons by fastforce
  with nm q show ?case by (auto simp: cfg_malloc_granted [OF g])
qed simp

lemma hooks_from_pb_lacks:
  assumes "cfg_grants cfg" "arr_ok p (u64_count n)" "list_all rph_wf (arr_elems p (u64_count n))"
  shows "\<exists>q m'. riak_commit_hooks_copy_from_pb cfg p (ucast n) m =
    Some (if list_all (\<lambda>h. rph_modfun h \<noteq> None) (arr_elems p (u64_count n))
          then ERIAK_OK else ERIAK_OUT_OF_MEMORY, q, m') \<and> mem_live m \<subseteq> mem_live m'"
proof -
  obtain rest where p: "pa_list p = map Some (arr_elems p (u64_count n)) @ rest"
      "length (arr_elems p (u64_count n)) = u64_count n"
    using arr_ok_cells [OF assms(2)] .
  with hooks_from_pb_loop_lacks [OF assms(1,3), of rest "mem_push m"] show ?thesis
    by (auto simp: riak_commit_hooks_copy_from_pb_def cfg_malloc_granted [OF assms(1)] simp flip: u64_count_def)
qed

lemma precommit_from_pb_lacks:
  assumes "cfg_grants cfg" "rbp_wf p"
  shows "may_lack m (rbp_has_precommit p = (True, True) \<longrightarrow>
      list_all (\<lambda>h. rph_modfun h \<noteq> None) (arr_elems (rbp_precommit p) (u64_count (rbp_n_precommit p))))
    (precommit_from_pb cfg p (Some to, m))"
  using hooks_from_pb_lacks [OF assms(1), of "rbp_precommit p" "rbp_n_precommit p" m] assms(2)
  by (auto simp: may_lack_def precommit_from_pb_def rbp_wf_def prod_eq_iff)

lemma postcommit_from_pb_lacks:
  assumes "cfg_grants cfg" "rbp_wf p"
  shows "may_lack m (rbp_has_postcommit p = (True, True) \<longrightarrow>
      list_all (\<lambda>h. rph_modfun h \<noteq> None) (arr_elems (rbp_postcommit p) (u64_count (rbp_n_postcommit p))))
    (postcommit_from_pb cfg p (Some to, m))"
  using hooks_from_pb_lacks [OF assms(1), of "rbp_postcommit p" "rbp_n_postcommit p" m] assms(2)
  by (auto simp: may_lack_def postcommit_from_pb_def rbp_wf_def prod_eq_iff)

lemma backend_from_pb_never_lacks:
  "cfg_grants cfg \<Longrightarrow> rbp_wf p \<Longrightarrow> may_lack m True (backend_from_pb cfg p (Some to, m))"
  using copy_from_pb_ok [of cfg "snd (rbp_backend p)" m]
  by (auto simp: may_lack_def backend_from_pb_def rbp_wf_def)

lemma search_index_from_pb_never_lacks:
  "cfg_grants cfg \<Longrightarrow> rbp_wf p \<Longrightarrow> may_lack m True (search_index_from_pb cfg p (Some to, m))"
  using copy_from_pb_ok [of cfg "snd (rbp_search_index p)" m]
  by (auto simp: may_lack_def search_index_from_pb_def rbp_wf_def)

lemma chash_keyfun_from_pb_lacks:
  assumes "cfg_grants cfg" "rbp_wf p"
  shows "may_lack m (rbp_chash_keyfun p \<noteq> None) (chash_keyfun_from_pb cfg p (Some to, m))"
  using modfun_from_pb_lacks [OF assms(1), of "rbp_chash_keyfun p" m] assms(2)
  by (auto simp: may_lack_def chash_keyfun_from_pb_def rbp_wf_def)

lemma linkfun_from_pb_lacks:
  assumes "cfg_grants cfg" "rbp_wf p"
  shows "may_lack m (rbp_linkfun p \<noteq> None) (linkfun_from_pb cfg p (Some to, m))"
  using modfun_from_pb_lacks [OF assms(1), of "rbp_linkfun p" m] assms(2)
  by (auto simp: may_lack_def linkfun_from_pb_def rbp_wf_def)

text \<open>A well-formed message is converted exactly when it is complete.\<close>

lemma riak_bucketprops_new_from_pb_lacks:
  assumes g: "cfg_grants cfg" and w: "rbp_wf c"
  shows "may_lack m (rbp_complete c) (riak_bucketprops_new_from_pb cfg c m)"
proof -
  let ?t = "limits_from_pb c (bucketprops_zero (mem_next m))"
  let ?r = "then_ok (then_ok (then_ok (then_ok (then_ok
      (precommit_from_pb cfg c (Some ?t, mem_push m))
      (postcommit_from_pb cfg c))
      (\<lambda>(t, m). backend_from_pb cfg c (map_option (quorums_from_pb c) t, m)))
      (\<lambda>(t, m). search_index_from_pb cfg c (map_option (search_from_pb c) t, m)))
      (chash_keyfun_from_pb cfg c))
      (linkfun_from_pb cfg c)"
  have "riak_bucketprops_new_from_pb cfg c m = ?r"
    by (simp add: riak_bucketprops_new_from_pb_def riak_bucketprops_new_def cfg_malloc_granted [OF g])
  moreover have "may_lack (mem_push m) ((((((rbp_has_precommit c = (True, True) \<longrightarrow>
        list_all (\<lambda>h. rph_modfun h \<noteq> None) (arr_elems (rbp_precommit c) (u64_count (rbp_n_precommit c)))) \<and>
      (rbp_has_postcommit c = (True, True) \<longrightarrow>
        list_all (\<lambda>h. rph_modfun h \<noteq> None) (arr_elems (rbp_postcommit c) (u64_count (rbp_n_postcommit c))))) \<and>
      True) \<and> True) \<and> rbp_chash_keyfun c \<noteq> None) \<and> rbp_linkfun c \<noteq> None) ?r"
    by (intro may_lack_then_ok precommit_from_pb_lacks postcommit_from_pb_lacks chash_keyfun_from_pb_lacks
        linkfun_from_pb_lacks g w)
      (simp_all add: backend_from_pb_never_lacks search_index_from_pb_never_lacks g w)
  ultimately have "may_lack (mem_push m) (rbp_complete c) (riak_bucketprops_new_from_pb cfg c m)"
    by (simp add: rbp_complete_def conj_assoc)
  then show ?thesis by (auto simp: may_lack_def)
qed

subsection \<open>Quorum names and setters\<close>

lemma riak_bucketprops_quorum_names:
  "riak_bucketprops_quorum (- 2) = ''one''" "riak_bucketprops_quorum (- 3) = ''quorum''"
  "riak_bucketprops_quorum (- 4) = ''all''" "riak_bucketprops_quorum (- 5) = ''unknown''"
  by code_simp+

text \<open>
  A copy of a binary when memory may run out: either it has the same bytes and owns exactly what was
  allocated, or it is NULL and nothing stays allocated.
\<close>

lemma riak_binary_copy_total:
  assumes ok: "cfg_ok cfg" and wf: "mem_wf m" and b: "bin_wf b"
  obtains q m' where "riak_binary_copy cfg (Some b) m = Some (q, m')" "mem_allocs m (bin.owned_p q) m'"
    "pred_option (\<lambda>c. bin_wf c \<and> bin_bytes c = bin_bytes b) q" "cfg_grants cfg \<longrightarrow> q \<noteq> None"
proof -
  have len: "(if bin_data b = None then 0 else bin_len b) = bin_len b"
    using b by (auto simp: bin_wf_def c_read_NULL word_unat_eq_iff split: if_splits)
  obtain p m1 where p: "riak_config_allocate cfg (SizeOf ''riak_binary'' 1) m = (p, m1)" by fastforce
  obtain d m2 where d: "riak_config_allocate cfg (Bytes (unat (bin_len b))) m1 = (d, m2)" by fastforce
  have "mem_allocs m (ptrs p @ ptrs d) m2"
    using mem_allocs_trans [OF allocate_allocs [OF p] allocate_allocs [OF d]] .
  then have "d = None \<Longrightarrow> riak_free cfg p m2 \<noteq> None"
    using mem_allocs_free_all [of m "ptrs p" m2] wf by (simp add: riak_free_ptrs [OF ok])
  then have "riak_binary_copy cfg (Some b) m \<noteq> None"
    using p d bin_wf_read [OF b] by (auto simp: riak_binary_copy_def riak_binary_new_def len Let_def split: option.splits)
  then obtain q m' where q: "riak_binary_copy cfg (Some b) m = Some (q, m')" by auto
  have "pred_option (\<lambda>c. bin_wf c \<and> bin_bytes c = bin_bytes b) q"
  proof (cases q)
    case (Some c)
    with q have "riak_binary_new cfg (bin_len b) (bin_data b) m = Some (Some c, m')"
      by (simp add: riak_binary_copy_def)
    from riak_binary_new_wf [OF this] bin_wf_read [OF b] Some show ?thesis by (simp add: len)
  qed simp
  moreover have "cfg_grants cfg \<longrightarrow> q \<noteq> None"
    using q bin_wf_read [OF b] riak_binary_new_granted [of cfg "bin_data b" "bin_len b" "bin_bytes b" m]
    by (auto simp: riak_binary_copy_def len)
  ultimately show ?thesis using that q riak_binary_copy_allocs [OF ok wf q] by blast
qed

text \<open>The same of a function, with the two binaries it is made of.\<close>

lemma riak_modfun_deep_new_total:
  assumes ok: "cfg_ok cfg" and wf: "mem_wf m" and f: "mf_wf f"
  obtains q m' where "riak_modfun_deep_new cfg f m = Some (q, m')" "mem_allocs m (mf_owned_p q) m'"
    "pred_option (\<lambda>g. mf_wf g \<and> mf_content_of g = mf_content_of f) q" "cfg_grants cfg \<longrightarrow> q \<noteq> None"
proof -
  obtain x y where xy: "mf_module f = Some x" "bin_wf x" "mf_function f = Some y" "bin_wf y"
    using f by (auto simp: mf_wf_def ptr_wf_def split: option.splits)
  obtain p m1 where p: "riak_config_allocate cfg (SizeOf ''riak_modfun'' 1) m = (p, m1)" by fastforce
  note a1 = allocate_allocs [OF p]
  have new: "riak_modfun_new cfg m = Some (map_option modfun_zero p, m1)"
    using p by (simp add: riak_modfun_new_def cfg_malloc_eq [OF ok])
  show thesis
  proof (cases p)
    case None
    with new a1 p show thesis
      by (intro that [of None m1]) (auto simp: riak_modfun_deep_new_def mf_owned_p_def allocate_granted)
  next
    case (Some at)
    obtain mo m2 where mo: "riak_binary_copy cfg (Some x) m1 = Some (mo, m2)" "mem_allocs m1 (bin.owned_p mo) m2"
      "pred_option (\<lambda>c. bin_wf c \<and> bin_bytes c = bin_bytes x) mo" "cfg_grants cfg \<longrightarrow> mo \<noteq> None"
      using riak_binary_copy_total [OF ok mem_allocs_wf [OF a1 wf] xy(2)] .
    have a2: "mem_allocs m (at # bin.owned_p mo) m2" using mem_allocs_trans [OF a1 mo(2)] Some by simp
    obtain fu m3 where fu: "riak_binary_copy cfg (Some y) m2 = Some (fu, m3)" "mem_allocs m2 (bin.owned_p fu) m3"
      "pred_option (\<lambda>c. bin_wf c \<and> bin_bytes c = bin_bytes y) fu" "cfg_grants cfg \<longrightarrow> fu \<noteq> None"
      using riak_binary_copy_total [OF ok mem_allocs_wf [OF a2 wf] xy(4)] .
    have a3: "mem_allocs m (at # bin.owned_p mo @ bin.owned_p fu) m3"
      using mem_allocs_trans [OF a2 fu(2)] by simp
    show thesis
    proof (cases "mo = None \<or> fu = None")
      case True
      let ?l = "\<lambda>m'. m'\<lparr>mem_live := mem_live m\<rparr>"
      have "riak_modfun_deep_new cfg f m = Some (None, ?l (if mo = None then m2 else m3))"
      proof (cases mo)
        case None
        with mem_allocs_free_all [OF a2 wf, of "[at]"] show ?thesis
          using new mo(1) Some xy by (simp add: riak_modfun_deep_new_def modfun_zero_def mem_simps ok)
      next
        case (Some c)
        with True mem_allocs_free_all [OF a3 wf, of "bin_owned c @ [at]"] show ?thesis
          using new mo(1) fu(1) \<open>p = Some at\<close> xy
          by (auto simp: riak_modfun_deep_new_def modfun_zero_def mem_simps ok split: bind_splits)
      qed
      moreover have "mem_allocs m [] (?l (if mo = None then m2 else m3))"
        using a2 a3 by (auto simp: mem_allocs_def)
      ultimately show thesis
        using that [of None] True mo(4) fu(4) by (auto simp: mf_owned_p_def)
    next
      case False
      then obtain c e where ce: "mo = Some c" "fu = Some e" by auto
      let ?g = "\<lparr>mf_at = at, mf_module = mo, mf_function = fu\<rparr>"
      have "riak_modfun_deep_new cfg f m = Some (Some ?g, m3)"
        using new mo(1) fu(1) Some ce xy by (simp add: riak_modfun_deep_new_def modfun_zero_def)
      moreover have "mem_allocs m (mf_owned ?g) m3"
        by (rule mem_allocs_mset [OF a3]) (simp add: mf_owned_def)
      moreover have "mf_wf ?g" "mf_content_of ?g = mf_content_of f"
        using mo(3) fu(3) ce xy by (simp_all add: mf_wf_def mf_content_of_def ptr_wf_def ptr_bytes_def)
      ultimately show thesis by (intro that [of "Some ?g" m3]) (simp_all add: mf_owned_p_def)
    qed
  qed
qed

end
