(* ===== verification/Riak_Operation.thy ===== *)
theory Riak_Operation
  imports Riak_Bucketprops
begin

text \<open>
  Connections, Protocol Buffers messages, server errors and operations
  (\<^verbatim>\<open>src/riak_connection.c\<close>, \<^verbatim>\<open>src/riak_network.c\<close>, \<^verbatim>\<open>src/riak_messages.c\<close>,
  \<^verbatim>\<open>src/riak_error.c\<close>, \<^verbatim>\<open>src/riak_operation.c\<close>, \<^verbatim>\<open>src/messages/riak_server_error.c\<close>).

  An operation is the state of one request: the connection, the callbacks, the reader's position
  in the message it is receiving and the response built so far. The type \<open>'r\<close> of the response
  and the type \<open>'d\<close> of the decoders (a decoder is stored in the operation as a function pointer)
  are parameters. A call of a user's callback is recorded in a trace.
\<close>

subsection \<open>Messages\<close>

record riak_pb_message =
  pbm_at :: addr
  pbm_len :: u32
  pbm_msgid :: u8
  pbm_data :: "cbuf option"

text \<open>The length is a \<open>size_t\<close> and is cut to 32 bits.\<close>

definition riak_pb_message_new ::
  "riak_config option \<Rightarrow> u8 \<Rightarrow> u64 \<Rightarrow> cbuf option \<Rightarrow> mem \<Rightarrow> riak_pb_message option \<times> mem"
where
  "riak_pb_message_new cfg msgtype msglen buffer m =
     (let (p, m) = riak_config_clean_allocate cfg (SizeOf ''riak_pb_message'' 1) m
      in (map_option (\<lambda>a. \<lparr>pbm_at = a, pbm_len = ucast msglen, pbm_msgid = msgtype,
                           pbm_data = buffer\<rparr>) p, m))"

definition riak_pb_message_free ::
  "riak_config option \<Rightarrow> riak_pb_message option \<Rightarrow> mem \<Rightarrow> mem option"
where
  "riak_pb_message_free cfg pb m =
     do { p \<leftarrow> pb;
          m \<leftarrow> riak_free cfg (map_option buf_addr (pbm_data p)) m;
          riak_free cfg (Some (pbm_at p)) m }"

text \<open>
  The bytes after the message code, which every decoder passes to an \<open>unpack\<close> function: \<open>len-1\<close>
  bytes from \<open>data+1\<close>.
\<close>

definition pbm_payload :: "riak_pb_message option \<Rightarrow> bytes option" where
  "pbm_payload pb =
     do { p \<leftarrow> pb;
          d \<leftarrow> pbm_data p;
          guard (1 \<le> unat (pbm_len p) \<and> unat (pbm_len p) \<le> length (buf_bytes d));
          Some (take (unat (pbm_len p) - 1) (drop 1 (buf_bytes d))) }"

text \<open>
  An \<open>unpack\<close> function of the generated code is a parameter: from the address of the block the
  message will live in and the bytes to the message, or \<open>None\<close> when they are malformed.
\<close>

definition pb_unpack :: "(addr \<Rightarrow> bytes \<Rightarrow> 'm option) \<Rightarrow> bytes \<Rightarrow> mem \<Rightarrow> (addr \<times> 'm) option \<times> mem" where
  "pb_unpack unpack xs m =
     (case unpack (mem_next m) xs of
        None \<Rightarrow> (None, m)
      | Some msg \<Rightarrow> (Some (mem_next m, msg), mem_push m))"

definition pb_free_unpacked :: "addr option \<Rightarrow> mem \<Rightarrow> mem option" where
  "pb_free_unpacked p m = (case p of None \<Rightarrow> Some m | Some a \<Rightarrow> mem_free a m)"

text \<open>
  The generated code for one message type: what \<open>init\<close> stores, the packed size and the packed
  bytes.
\<close>

record 'm pb_api =
  pb_init :: 'm
  pb_packed_size :: "'m \<Rightarrow> u64"
  pb_pack :: "'m \<Rightarrow> bytes"

subsection \<open>Connections\<close>

record 'a riak_connection =
  cxn_at :: addr
  cxn_config :: "riak_config option"
  cxn_hostname :: bytes
  cxn_portnum :: bytes
  cxn_addrinfo :: "'a option"
  cxn_fd :: i32

text \<open>
  The resolver and the socket calls are the operating system's. \<open>resolver\<close> returns an error
  number and the addresses; \<open>socket\<close> a descriptor; \<open>connect\<close> its result and \<open>errno\<close>.
\<close>

record 'a network =
  net_resolver :: "bytes \<Rightarrow> bytes \<Rightarrow> i32 \<times> 'a option"
  net_socket :: "'a \<Rightarrow> i32"
  net_connect :: "i32 \<Rightarrow> 'a \<Rightarrow> i32 \<times> i32"

definition EINPROGRESS :: i32 where "EINPROGRESS = 115"
definition EAGAIN :: i32 where "EAGAIN = 11"

definition riak_resolve_address ::
  "(bytes \<Rightarrow> bytes \<Rightarrow> i32 \<times> 'a option) \<Rightarrow> bytes \<Rightarrow> bytes \<Rightarrow> riak_error \<times> 'a option"
where
  "riak_resolve_address resolver host portnum =
     (let (err, ai) = resolver host portnum
      in if err \<noteq> 0 then (ERIAK_DNS_RESOLUTION, ai) else (ERIAK_OK, ai))"

text \<open>The result is a descriptor or -1; the list is of the descriptors that were closed.\<close>

definition riak_just_open_a_socket :: "'a network \<Rightarrow> 'a option \<Rightarrow> (i32 \<times> i32 list) option" where
  "riak_just_open_a_socket net addrinfo =
     do { ai \<leftarrow> addrinfo;
          let sock = net_socket net ai;
          (if sint sock < 0 then Some (- 1, [])
           else (let (err, errno) = net_connect net sock ai
                 in if err \<noteq> 0 \<and> errno \<noteq> EINPROGRESS \<and> errno \<noteq> EAGAIN then Some (- 1, [sock])
                    else Some (sock, []))) }"

text \<open>
  The address of a host as text, and its port. \<open>inet_ntop\<close> is the system's: it writes the text of
  an address of 4 or 16 bytes to a target of a given length. For another family the port is left
  as it was: the assignment is to the pointer.
\<close>

datatype sockaddr = Inet4 bytes "16 word" | Inet6 bytes "16 word" | Other_family

definition ntohs :: "16 word \<Rightarrow> 16 word" where
  "ntohs p = or (push_bit 8 p) (drop_bit 8 p)"

definition riak_print_host ::
  "(bytes \<Rightarrow> bytes \<Rightarrow> i32 \<Rightarrow> bytes) \<Rightarrow> sockaddr \<Rightarrow> bytes \<Rightarrow> i32 \<Rightarrow> 16 word \<Rightarrow> (bytes \<times> 16 word) option"
where
  "riak_print_host inet_ntop sa target len port =
     (case sa of
        Inet4 a p \<Rightarrow> Some (inet_ntop a target len, ntohs p)
      | Inet6 a p \<Rightarrow> Some (inet_ntop a target len, ntohs p)
      | Other_family \<Rightarrow> do { (n, target) \<leftarrow> riak_strlcpy target (str ''<Unknown>'' @ [0]) (unat (scast len :: u64));
                          Some (target, port) })"

definition RIAK_HOST_MAX_LEN :: nat where "RIAK_HOST_MAX_LEN = 256"

text \<open>
  The two names are copied with the size of their arrays, which leaves no room for the
  terminator of a name that is as long as the array.
\<close>

definition riak_connection_new ::
  "'a network \<Rightarrow> riak_config option \<Rightarrow> bytes \<Rightarrow> bytes \<Rightarrow>
   (bytes \<Rightarrow> bytes \<Rightarrow> i32 \<times> 'a option) option \<Rightarrow> mem \<Rightarrow>
   (riak_error \<times> 'a riak_connection option \<times> mem) option"
where
  "riak_connection_new net cfg hostname portnum resolver m =
     (let (p, m) = riak_config_clean_allocate cfg (SizeOf ''riak_connection'' 1) m
      in case p of
           None \<Rightarrow> Some (ERIAK_OUT_OF_MEMORY, None, m)
         | Some a \<Rightarrow>
             do { let resolver = (case resolver of None \<Rightarrow> net_resolver net | Some f \<Rightarrow> f);
                  (n, host) \<leftarrow> riak_strlcpy (replicate RIAK_HOST_MAX_LEN 0) hostname RIAK_HOST_MAX_LEN;
                  (n, port) \<leftarrow> riak_strlcpy (replicate RIAK_HOST_MAX_LEN 0) portnum RIAK_HOST_MAX_LEN;
                  let (err, ai) = riak_resolve_address resolver hostname portnum;
                  let cxn = \<lparr>cxn_at = a, cxn_config = cfg, cxn_hostname = host, cxn_portnum = port,
                             cxn_addrinfo = ai, cxn_fd = 0\<rparr>;
                  (if err \<noteq> ERIAK_OK then Some (ERIAK_DNS_RESOLUTION, Some cxn, m)
                   else do { (fd, closed) \<leftarrow> riak_just_open_a_socket net ai;
                             Some (if sint fd < 0 then ERIAK_CONNECT else ERIAK_OK,
                                   Some (cxn\<lparr>cxn_fd := fd\<rparr>), m) }) })"

definition riak_connection_get_fd :: "'a riak_connection \<Rightarrow> i32" where
  "riak_connection_get_fd cxn = cxn_fd cxn"

definition riak_connection_get_config :: "'a riak_connection \<Rightarrow> riak_config option" where
  "riak_connection_get_config cxn = cxn_config cxn"

text \<open>The second result is the descriptor that is closed, if any: every one but 0, also -1.\<close>

definition riak_connection_free ::
  "'a riak_connection option \<Rightarrow> mem \<Rightarrow> (i32 list \<times> mem) option"
where
  "riak_connection_free cxn m =
     (case cxn of
        None \<Rightarrow> Some ([], m)
      | Some c \<Rightarrow> do { m \<leftarrow> riak_free (riak_connection_get_config c) (Some (cxn_at c)) m;
                      Some (if cxn_fd c \<noteq> 0 then [cxn_fd c] else [], m) })"

subsection \<open>Server errors\<close>

record riak_server_error =
  se_at :: addr
  se_errcode :: u32
  se_errmsg :: "riak_binary option"

definition riak_server_error_new ::
  "riak_config option \<Rightarrow> riak_server_error option \<Rightarrow> u32 \<Rightarrow> riak_binary option \<Rightarrow> mem \<Rightarrow>
   (riak_error \<times> riak_server_error option \<times> mem) option"
where
  "riak_server_error_new cfg old errcode errmsg m =
     do { (p, m) \<leftarrow> cfg_malloc cfg (SizeOf ''riak_server_error'' 1) m;
          (case p of
             None \<Rightarrow> Some (ERIAK_OUT_OF_MEMORY, old, m)
           | Some a \<Rightarrow>
               do { (b, m) \<leftarrow> riak_binary_copy cfg errmsg m;
                    (if b = None
                     then do { m \<leftarrow> riak_free cfg (Some a) m; Some (ERIAK_OUT_OF_MEMORY, None, m) }
                     else Some (ERIAK_OK,
                                Some \<lparr>se_at = a, se_errcode = errcode, se_errmsg = b\<rparr>, m)) }) }"

definition riak_server_error_free ::
  "riak_config option \<Rightarrow> riak_server_error option \<Rightarrow> mem \<Rightarrow> mem option"
where
  "riak_server_error_free cfg err m =
     (case err of
        None \<Rightarrow> Some m
      | Some e \<Rightarrow> do { m \<leftarrow> riak_binary_free cfg (se_errmsg e) m;
                      riak_free cfg (Some (se_at e)) m })"

definition riak_server_error_get_errcode :: "riak_server_error \<Rightarrow> u32" where
  "riak_server_error_get_errcode err = se_errcode err"

definition riak_server_error_get_errmsg :: "riak_server_error \<Rightarrow> riak_binary option" where
  "riak_server_error_get_errmsg err = se_errmsg err"

subsection \<open>Operations\<close>

record ('r, 'd) riak_operation =
  rop_at :: addr
  rop_config :: "riak_config option" \<comment> \<open>of its connection\<close>
  rop_decoder :: "'d option"
  rop_response_cb :: "addr option"
  rop_error_cb :: "addr option"
  rop_cb_data :: "addr option"
  rop_position :: u32
  rop_msglen :: u32
  rop_msgbuf :: "cbuf option"
  rop_msglen_complete :: bool
  rop_streaming :: bool
  rop_pb_request :: "riak_pb_message option"
  rop_pb_response :: "riak_pb_message option"
  rop_error :: "riak_server_error option"
  rop_response :: "'r option"
  req_bucket_type :: "riak_binary option"
  req_bucket :: "riak_binary option"
  req_key :: "riak_binary option"
  req_index :: "riak_binary option"

definition operation_zero :: "addr \<Rightarrow> ('r, 'd) riak_operation" where
  "operation_zero a =
     \<lparr>rop_at = a, rop_config = None, rop_decoder = None, rop_response_cb = None,
      rop_error_cb = None, rop_cb_data = None, rop_position = 0, rop_msglen = 0,
      rop_msgbuf = None, rop_msglen_complete = False, rop_streaming = False,
      rop_pb_request = None, rop_pb_response = None, rop_error = None, rop_response = None,
      req_bucket_type = None, req_bucket = None, req_key = None, req_index = None\<rparr>"

text \<open>
  The result of the allocation is not checked (the test is of the connection, which has been
  dereferenced by then): a failed allocation is written through.
\<close>

definition riak_operation_new ::
  "'a riak_connection option \<Rightarrow> addr option \<Rightarrow> addr option \<Rightarrow> addr option \<Rightarrow> mem \<Rightarrow>
   (riak_error \<times> ('r, 'd) riak_operation option \<times> mem) option"
where
  "riak_operation_new cxn response_cb error_cb cb_data m =
     do { c \<leftarrow> cxn;
          let cfg = riak_connection_get_config c;
          let (p, m) = riak_config_clean_allocate cfg (SizeOf ''riak_operation'' 1) m;
          a \<leftarrow> p;
          Some (ERIAK_OK,
                Some ((operation_zero a)\<lparr>rop_config := cfg, rop_response_cb := response_cb,
                                         rop_error_cb := error_cb, rop_cb_data := cb_data\<rparr>), m) }"

definition riak_operation_get_config :: "('r, 'd) riak_operation \<Rightarrow> riak_config option" where
  "riak_operation_get_config rop = rop_config rop"

definition riak_operation_free :: "('r, 'd) riak_operation option \<Rightarrow> mem \<Rightarrow> mem option" where
  "riak_operation_free rop m =
     do { r \<leftarrow> rop;
          let cfg = riak_operation_get_config r;
          m \<leftarrow> (if rop_pb_request r \<noteq> None then riak_pb_message_free cfg (rop_pb_request r) m else Some m);
          m \<leftarrow> riak_binary_free cfg (req_bucket_type r) m;
          m \<leftarrow> riak_binary_free cfg (req_bucket r) m;
          m \<leftarrow> riak_binary_free cfg (req_key r) m;
          m \<leftarrow> riak_binary_free cfg (req_index r) m;
          m \<leftarrow> riak_free cfg (map_option buf_addr (rop_msgbuf r)) m;
          m \<leftarrow> riak_server_error_free cfg (rop_error r) m;
          riak_free cfg (Some (rop_at r)) m }"

definition riak_operation_get_server_error :: "('r, 'd) riak_operation \<Rightarrow> riak_server_error option" where
  "riak_operation_get_server_error rop = rop_error rop"

definition riak_operation_set_response_cb ::
  "('r, 'd) riak_operation \<Rightarrow> addr option \<Rightarrow> ('r, 'd) riak_operation" where
  "riak_operation_set_response_cb rop cb = rop\<lparr>rop_response_cb := cb\<rparr>"

definition riak_operation_set_error_cb ::
  "('r, 'd) riak_operation \<Rightarrow> addr option \<Rightarrow> ('r, 'd) riak_operation" where
  "riak_operation_set_error_cb rop cb = rop\<lparr>rop_error_cb := cb\<rparr>"

definition riak_operation_set_cb_data ::
  "('r, 'd) riak_operation \<Rightarrow> addr option \<Rightarrow> ('r, 'd) riak_operation" where
  "riak_operation_set_cb_data rop d = rop\<lparr>rop_cb_data := d\<rparr>"

definition riak_operation_set_response_decoder ::
  "('r, 'd) riak_operation \<Rightarrow> 'd \<Rightarrow> ('r, 'd) riak_operation" where
  "riak_operation_set_response_decoder rop d = rop\<lparr>rop_decoder := Some d\<rparr>"

text \<open>The cached request data are copies; a failed copy is stored as NULL.\<close>

definition riak_operation_set_bucket ::
  "('r, 'd) riak_operation \<Rightarrow> riak_binary option \<Rightarrow> mem \<Rightarrow> (('r, 'd) riak_operation \<times> mem) option"
where
  "riak_operation_set_bucket rop v m =
     do { (b, m) \<leftarrow> riak_binary_copy (rop_config rop) v m; Some (rop\<lparr>req_bucket := b\<rparr>, m) }"

definition riak_operation_set_bucket_type ::
  "('r, 'd) riak_operation \<Rightarrow> riak_binary option \<Rightarrow> mem \<Rightarrow> (('r, 'd) riak_operation \<times> mem) option"
where
  "riak_operation_set_bucket_type rop v m =
     do { (b, m) \<leftarrow> riak_binary_copy (rop_config rop) v m; Some (rop\<lparr>req_bucket_type := b\<rparr>, m) }"

definition riak_operation_set_key ::
  "('r, 'd) riak_operation \<Rightarrow> riak_binary option \<Rightarrow> mem \<Rightarrow> (('r, 'd) riak_operation \<times> mem) option"
where
  "riak_operation_set_key rop v m =
     do { (b, m) \<leftarrow> riak_binary_copy (rop_config rop) v m; Some (rop\<lparr>req_key := b\<rparr>, m) }"

definition riak_operation_set_index ::
  "('r, 'd) riak_operation \<Rightarrow> riak_binary option \<Rightarrow> mem \<Rightarrow> (('r, 'd) riak_operation \<times> mem) option"
where
  "riak_operation_set_index rop v m =
     do { (b, m) \<leftarrow> riak_binary_copy (rop_config rop) v m; Some (rop\<lparr>req_index := b\<rparr>, m) }"

definition riak_operation_get_bucket :: "('r, 'd) riak_operation \<Rightarrow> riak_binary option" where
  "riak_operation_get_bucket rop = req_bucket rop"

definition riak_operation_get_bucket_type :: "('r, 'd) riak_operation \<Rightarrow> riak_binary option" where
  "riak_operation_get_bucket_type rop = req_bucket_type rop"

definition riak_operation_has_bucket_type :: "('r, 'd) riak_operation \<Rightarrow> bool" where
  "riak_operation_has_bucket_type rop = (req_bucket_type rop \<noteq> None)"

definition riak_operation_get_key :: "('r, 'd) riak_operation \<Rightarrow> riak_binary option" where
  "riak_operation_get_key rop = req_key rop"

definition riak_operation_get_index :: "('r, 'd) riak_operation \<Rightarrow> riak_binary option" where
  "riak_operation_get_index rop = req_index rop"

subsection \<open>Error responses\<close>

record rpb_error_resp =
  rer_errmsg :: pb_binary
  rer_errcode :: u32

record riak_server_error_response =
  ser_at :: addr
  ser_errcode :: u32
  ser_errmsg :: "riak_binary option"
  ser_internal :: "addr option"

text \<open>The calls of the user's callbacks, in order: which callback, with what response.\<close>

datatype 'r callback =
  ResponseCb addr "'r option"
| ErrorCb addr "riak_server_error_response option"

definition error_callback ::
  "('r, 'd) riak_operation \<Rightarrow> riak_server_error_response option \<Rightarrow> 'r callback list"
where
  "error_callback rop resp = (case rop_error_cb rop of None \<Rightarrow> [] | Some f \<Rightarrow> [ErrorCb f resp])"

text \<open>
  \<open>riak_server_error_response_decode\<close>. The results are the error code, the operation, the
  response, \<open>done\<close>, the callbacks made and the memory. When the copy for the operation fails the
  response has been freed but is still returned.
\<close>

definition riak_server_error_response_decode ::
  "(addr \<Rightarrow> bytes \<Rightarrow> rpb_error_resp option) \<Rightarrow> ('r, 'd) riak_operation \<Rightarrow> riak_pb_message option \<Rightarrow>
   bool \<Rightarrow> mem \<Rightarrow>
   (riak_error \<times> ('r, 'd) riak_operation \<times> riak_server_error_response option \<times> bool \<times>
    'r callback list \<times> mem) option"
where
  "riak_server_error_response_decode unpack rop pbresp done m =
     do { let cfg = riak_operation_get_config rop;
          xs \<leftarrow> pbm_payload pbresp;
          let (u, m) = pb_unpack unpack xs m;
          (case u of
             None \<Rightarrow> Some (ERIAK_MESSAGE_FORMAT, rop, None, done, [], m)
           | Some (ea, errresp) \<Rightarrow>
               do { (p, m) \<leftarrow> cfg_malloc cfg (SizeOf ''riak_server_error_response'' 1) m;
                    m \<leftarrow> riak_free cfg (map_option pbm_at pbresp) m;
                    (case p of
                       None \<Rightarrow> do { m \<leftarrow> pb_free_unpacked (Some ea) m;
                                   Some (ERIAK_OUT_OF_MEMORY, rop, None, True, [], m) }
                     | Some a \<Rightarrow>
                         do { let (msg, m) = riak_binary_copy_from_pb cfg (rer_errmsg errresp) m;
                              let response = \<lparr>ser_at = a, ser_errcode = rer_errcode errresp,
                                              ser_errmsg = msg, ser_internal = Some ea\<rparr>;
                              (if msg = None
                               then do { m \<leftarrow> riak_free cfg (Some a) m;
                                         m \<leftarrow> pb_free_unpacked (Some ea) m;
                                         Some (ERIAK_OUT_OF_MEMORY, rop, None, True, [], m) }
                               else do { let cbs = error_callback rop (Some response);
                                         (err, se, m) \<leftarrow> riak_server_error_new cfg (rop_error rop)
                                                            (ser_errcode response) (ser_errmsg response) m;
                                         let rop = rop\<lparr>rop_error := se\<rparr>;
                                         (if err \<noteq> ERIAK_OK
                                          then do { m \<leftarrow> riak_free cfg (Some a) m;
                                                    m \<leftarrow> pb_free_unpacked (Some ea) m;
                                                    Some (err, rop, Some response, True, cbs, m) }
                                          else Some (ERIAK_OK, rop, Some response, True, cbs, m)) }) }) }) }"

definition riak_server_error_response_free ::
  "riak_config option \<Rightarrow> riak_server_error_response option \<Rightarrow> mem \<Rightarrow> mem option"
where
  "riak_server_error_response_free cfg resp m =
     (case resp of
        None \<Rightarrow> Some m
      | Some r \<Rightarrow>
          do { c \<leftarrow> cfg;
               m \<leftarrow> pb_free_unpacked (ser_internal r) m;
               m \<leftarrow> riak_free cfg (map_option bin_at (ser_errmsg r)) m;
               riak_free cfg (Some (ser_at r)) m })"

subsection \<open>What these structures own\<close>

lemma pb_free_unpacked_ptrs [mem_simps]: "pb_free_unpacked p = mem_free_all (ptrs p)"
  by (auto simp: pb_free_unpacked_def fun_eq_iff split: option.splits)

definition pbm_owned :: "riak_pb_message \<Rightarrow> addr list" where
  "pbm_owned p = ptrs (map_option buf_addr (pbm_data p)) @ [pbm_at p]"

interpretation pbm: owned_struct "\<lambda>_. True" pbm_owned riak_pb_message_free
proof
  fix cfg and p :: riak_pb_message and m
  assume "cfg_ok cfg"
  then show "riak_pb_message_free cfg (Some p) m = mem_free_all (pbm_owned p) m"
    by (simp add: riak_pb_message_free_def pbm_owned_def mem_simps)
qed

lemma riak_pb_message_free_owned:
  "cfg_ok cfg \<Longrightarrow> riak_pb_message_free cfg (Some p) = mem_free_all (pbm_owned p)"
  by (rule ext) (rule pbm.release_owned, simp_all)

definition se_owned :: "riak_server_error \<Rightarrow> addr list" where
  "se_owned e = bin.owned_p (se_errmsg e) @ [se_at e]"

interpretation se: owned_ptr "\<lambda>_. True" se_owned riak_server_error_free
proof
  fix cfg and e :: riak_server_error and m
  assume "cfg_ok cfg"
  then show "riak_server_error_free cfg (Some e) m = mem_free_all (se_owned e) m"
    by (simp add: riak_server_error_free_def se_owned_def mem_simps)
qed (simp add: riak_server_error_free_def)

lemma riak_server_error_free_owned [mem_simps]:
  "cfg_ok cfg \<Longrightarrow> riak_server_error_free cfg p = mem_free_all (se.owned_p p)"
  using se.release_ptr [of cfg p] by (simp add: fun_eq_iff option.pred_True)

definition ser_owned :: "riak_server_error_response \<Rightarrow> addr list" where
  "ser_owned r = ptrs (ser_internal r) @ ptrs (map_option bin_at (ser_errmsg r)) @ [ser_at r]"

interpretation ser: owned_ptr "\<lambda>_. True" ser_owned riak_server_error_response_free
proof
  fix cfg and r :: riak_server_error_response and m
  assume "cfg_ok cfg"
  then show "riak_server_error_response_free cfg (Some r) m = mem_free_all (ser_owned r) m"
    by (auto simp: riak_server_error_response_free_def ser_owned_def mem_simps cfg_ok_def split: option.splits)
qed (simp add: riak_server_error_response_free_def)

text \<open>An operation owns its request, the cached request data, the message buffer and the error.\<close>

definition rop_owned :: "('r, 'd) riak_operation \<Rightarrow> addr list" where
  "rop_owned r = (case rop_pb_request r of None \<Rightarrow> [] | Some p \<Rightarrow> pbm_owned p) @
     bin.owned_p (req_bucket_type r) @ bin.owned_p (req_bucket r) @ bin.owned_p (req_key r) @
     bin.owned_p (req_index r) @ ptrs (map_option buf_addr (rop_msgbuf r)) @
     se.owned_p (rop_error r) @ [rop_at r]"

interpretation rop: owned_struct "\<lambda>_. True" rop_owned
  "\<lambda>cfg r m. riak_operation_free (map_option (\<lambda>r. r\<lparr>rop_config := cfg\<rparr>) r) m"
proof
  fix cfg and r :: "('r, 'd) riak_operation" and m
  assume "cfg_ok cfg"
  then show "riak_operation_free (map_option (\<lambda>r. r\<lparr>rop_config := cfg\<rparr>) (Some r)) m =
      mem_free_all (rop_owned r) m"
    by (cases "rop_pb_request r")
      (simp_all add: riak_operation_free_def rop_owned_def riak_operation_get_config_def mem_simps
        riak_pb_message_free_owned)
qed

lemma riak_operation_free_owned:
  assumes "cfg_ok (rop_config r)"
  shows "riak_operation_free (Some r) m = mem_free_all (rop_owned r) m"
  using rop.release_owned [OF assms, of r m] by simp

text \<open>A long host name is written past its array.\<close>

lemma riak_connection_new_long_name:
  assumes "riak_config_allocate cfg (SizeOf ''riak_connection'' 1) m = (Some a, m1)"
    and "0 \<notin> set host" "RIAK_HOST_MAX_LEN \<le> length host"
  shows "riak_connection_new net cfg (host @ 0 # rest) portnum resolver m = None"
  using assms riak_strlcpy_spec [OF assms(2), of RIAK_HOST_MAX_LEN "replicate RIAK_HOST_MAX_LEN 0" rest]
  by (simp add: riak_connection_new_def clean_allocate_eq RIAK_HOST_MAX_LEN_def Let_def)

lemma riak_connection_new_names:
  assumes g: "cfg_grants cfg" and host: "0 \<notin> set host" "length host < RIAK_HOST_MAX_LEN"
    and port: "0 \<notin> set port" "length port < RIAK_HOST_MAX_LEN"
    and res: "(case resolver of None \<Rightarrow> net_resolver net | Some f \<Rightarrow> f) (host @ 0 # r1) (port @ 0 # r2) = (0, Some ai)"
    and sock: "0 \<le> sint (net_socket net ai)" "net_connect net (net_socket net ai) ai = (0, e)"
  shows "\<exists>cxn m'. riak_connection_new net cfg (host @ 0 # r1) (port @ 0 # r2) resolver m =
      Some (ERIAK_OK, Some cxn, m') \<and> cxn_fd cxn = net_socket net ai \<and>
    take (Suc (length host)) (cxn_hostname cxn) = host @ [0] \<and>
    take (Suc (length port)) (cxn_portnum cxn) = port @ [0] \<and> length (cxn_hostname cxn) = RIAK_HOST_MAX_LEN"
  using res sock host port
    riak_strlcpy_spec [OF host(1), of RIAK_HOST_MAX_LEN "replicate RIAK_HOST_MAX_LEN 0" r1]
    riak_strlcpy_spec [OF port(1), of RIAK_HOST_MAX_LEN "replicate RIAK_HOST_MAX_LEN 0" r2]
  by (auto simp: riak_connection_new_def clean_allocate_eq allocate_granted [OF g] RIAK_HOST_MAX_LEN_def
      Let_def riak_resolve_address_def riak_just_open_a_socket_def min_def split: option.splits)

end
