(* ===== verification/Riak_IO.thy ===== *)
theory Riak_IO
  imports Riak_Operation
begin

text \<open>
  Sending a request and receiving responses: \<open>riak_write\<close> and \<open>riak_read\<close> of
  \<^verbatim>\<open>src/riak.c\<close>, and the callbacks they are used with in \<^verbatim>\<open>src/riak.c\<close> and
  \<^verbatim>\<open>src/adapters/riak_libevent.h\<close>.

  A frame is the length of the rest in network order (4 bytes), the message code (1 byte) and
  the packed message. The source of bytes is a state \<open>'io\<close> with a callback; \<open>decode\<close> runs the
  decoder that is stored in the operation.
\<close>

subsection \<open>Callbacks\<close>

text \<open>
  A read callback is asked for \<open>n\<close> bytes and yields its \<open>ssize_t\<close> result and the bytes it stored;
  a write callback gets the bytes.
\<close>

type_synonym 'io read_cb = "'io \<Rightarrow> nat \<Rightarrow> int \<times> bytes \<times> 'io"
type_synonym 'io write_cb = "'io \<Rightarrow> bytes \<Rightarrow> int \<times> 'io"

definition read_into :: "'io read_cb \<Rightarrow> 'io \<Rightarrow> bytes \<Rightarrow> nat \<Rightarrow> nat \<Rightarrow> (u64 \<times> bytes \<times> 'io) option" where
  "read_into read_cb io buf off n =
     (let (ret, xs, io) = read_cb io n
      in do { guard (length xs \<le> n);
              buf \<leftarrow> c_write buf off xs;
              Some (word_of_int ret, buf, io) })"

text \<open>\<open>riak_sync_read_cb\<close> and \<open>riak_sync_write_cb\<close>: \<open>sys_read\<close> and \<open>sys_write\<close> are the system's.\<close>

definition riak_sync_read_cb :: "(i32 \<Rightarrow> 'os read_cb) \<Rightarrow> i32 \<times> 'os \<Rightarrow> nat \<Rightarrow> int \<times> bytes \<times> i32 \<times> 'os" where
  "riak_sync_read_cb sys_read = (\<lambda>(fd, os) sz.
     let (result, xs, os) = sys_read fd os sz in (result, xs, fd, os))"

definition riak_sync_write_cb :: "(i32 \<Rightarrow> 'os write_cb) \<Rightarrow> i32 \<times> 'os \<Rightarrow> bytes \<Rightarrow> int \<times> i32 \<times> 'os" where
  "riak_sync_write_cb sys_write = (\<lambda>(fd, os) xs.
     let (result, os) = sys_write fd os xs in (result, fd, os))"

text \<open>The same over a bufferevent \<open>'be\<close>; \<open>bufferevent_write\<close> returns 0 or -1.\<close>

definition riak_libevent_read_cb :: "'be read_cb \<Rightarrow> 'be read_cb" where
  "riak_libevent_read_cb bufferevent_read bev sz = bufferevent_read bev sz"

definition riak_libevent_write_cb :: "'be write_cb \<Rightarrow> 'be write_cb" where
  "riak_libevent_write_cb bufferevent_write bev xs =
     (let (result, bev) = bufferevent_write bev xs
      in (if result = 0 then int (length xs) else 0, bev))"

subsection \<open>Sending a request\<close>

text \<open>The callback's result is stored in 32 bits and only compared with 0.\<close>

definition riak_write ::
  "('r, 'd) riak_operation \<Rightarrow> 'io write_cb \<Rightarrow> 'io \<Rightarrow> (riak_error \<times> 'io) option"
where
  "riak_write rop write_cb io =
     do { msg \<leftarrow> rop_pb_request rop;
          let reqid = pbm_msgid msg;
          let len = pbm_len msg;
          let msglen = ntohl (len + 1);
          let (wrote, io) = write_cb io (u32_bytes msglen);
          (if (word_of_int wrote :: i32) = 0 then Some (ERIAK_WRITE, io)
           else (let (wrote, io) = write_cb io [reqid]
                 in if (word_of_int wrote :: i32) = 0 then Some (ERIAK_WRITE, io)
                    else if len > 0
                    then do { d \<leftarrow> pbm_data msg;
                              guard (unat len \<le> length (buf_bytes d));
                              let (wrote, io) = write_cb io (take (unat len) (buf_bytes d));
                              (if (word_of_int wrote :: i32) = 0 then Some (ERIAK_WRITE, io)
                               else Some (ERIAK_OK, io)) }
                    else Some (ERIAK_OK, io))) }"

subsection \<open>Receiving responses\<close>

record ('io, 'r, 'd) read_state =
  rs_rop :: "('r, 'd) riak_operation"
  rs_done :: bool
  rs_io :: 'io
  rs_mem :: mem
  rs_trace :: "'r callback list"

type_synonym ('r, 'd) decode_fn =
  "'d \<Rightarrow> ('r, 'd) riak_operation \<Rightarrow> riak_pb_message option \<Rightarrow> bool \<Rightarrow> mem \<Rightarrow>
   (riak_error \<times> ('r, 'd) riak_operation \<times> bool \<times> mem) option"

text \<open>
  Each part of the loop body either returns from \<open>riak_read\<close> with an error code or goes on
  (\<open>None\<close>).
\<close>

type_synonym ('io, 'r, 'd) read_result = "(riak_error option \<times> ('io, 'r, 'd) read_state) option"

text \<open>The contents of a block that has been allocated but not written.\<close>

definition fresh_block :: "mem \<Rightarrow> addr \<Rightarrow> nat \<Rightarrow> cbuf" where
  "fresh_block m a n = \<lparr>buf_addr = a, buf_bytes = map (mem_junk m a) [0..<n]\<rparr>"

text \<open>
  The message size. Bytes of it that came with an earlier call are in \<open>rop_msglen\<close>; the next are
  read after them. \<open>rop_position\<close> is set to the number of bytes of this call and is not reset when
  the size is complete.
\<close>

definition read_header :: "'io read_cb \<Rightarrow> ('io, 'r, 'd) read_state \<Rightarrow> ('io, 'r, 'd) read_result" where
  "read_header read_cb st =
     do { let rop = rs_rop st;
          let remaining = (4 - ucast (rop_position rop) :: u64);
          (buflen, inmsglen, io) \<leftarrow>
            read_into read_cb (rs_io st) (u32_bytes (rop_msglen rop)) (unat (rop_position rop))
              (unat remaining);
          let st = st\<lparr>rs_io := io\<rparr>;
          (if buflen \<noteq> remaining
           then Some
             (if buflen = 0 then (Some ERIAK_OK, st)
              else if buflen < 4
              then (Some ERIAK_OK,
                    st\<lparr>rs_rop := rop\<lparr>rop_position := ucast buflen,
                                     rop_msglen := bytes_u32 inmsglen\<rparr>\<rparr>)
              else (Some ERIAK_READ, st))
           else do { let msglen = ntohl (bytes_u32 inmsglen);
                     let (p, m) = riak_config_allocate (rop_config rop) (Bytes (unat msglen)) (rs_mem st);
                     let rop = rop\<lparr>rop_msglen_complete := True, rop_msglen := msglen,
                                   rop_msgbuf := map_option (\<lambda>a. fresh_block m a (unat msglen)) p\<rparr>;
                     Some (if p = None then Some ERIAK_READ else None,
                           st\<lparr>rs_rop := rop, rs_mem := m\<rparr>) }) }"

text \<open>
  The rest of the message. Without a block (its allocation was refused) nothing can be stored, but a
  callback that has nothing to deliver does not touch the NULL pointer. \<open>assert\<close> stops the program
  when the position is past the end.
\<close>

definition read_body :: "'io read_cb \<Rightarrow> ('io, 'r, 'd) read_state \<Rightarrow> ('io, 'r, 'd) read_result" where
  "read_body read_cb st =
     do { let rop = rs_rop st;
          let (block, off) = (case rop_msgbuf rop of
                                None \<Rightarrow> ([], 0)
                              | Some b \<Rightarrow> (buf_bytes b, unat (rop_position rop)));
          (buflen, xs, io) \<leftarrow>
            read_into read_cb (rs_io st) block off (unat (rop_msglen rop - rop_position rop));
          let rop = rop\<lparr>rop_msgbuf := map_option (buf_bytes_update (\<lambda>_. xs)) (rop_msgbuf rop),
                        rop_position := rop_position rop + ucast buflen\<rparr>;
          let st = st\<lparr>rs_rop := rop, rs_io := io\<rparr>;
          (if rop_position rop < rop_msglen rop then Some (Some ERIAK_OK, st)
           else do { guard (rop_position rop = rop_msglen rop); Some (None, st) }) }"

text \<open>
  The server-error branch of \<open>riak_read\<close>: the response is dereferenced for the log whatever the
  decoder returned, and the error callback, which the decoder has called, is called again.
\<close>

definition read_server_error ::
  "(addr \<Rightarrow> bytes \<Rightarrow> rpb_error_resp option) \<Rightarrow> riak_pb_message option \<Rightarrow> ('io, 'r, 'd) read_state \<Rightarrow>
   ('io, 'r, 'd) read_result"
where
  "read_server_error unpack pbresp st =
     do { (result, rop, resp, done, cbs, m) \<leftarrow>
            riak_server_error_response_decode unpack (rs_rop st) pbresp (rs_done st) (rs_mem st);
          r \<leftarrow> resp;
          guard (ser_at r \<in> mem_live m);
          (n, errmsg) \<leftarrow> riak_binary_print (ser_errmsg r) (replicate 2048 0) 0 2048;
          let cbs = cbs @ error_callback rop resp;
          m \<leftarrow> riak_server_error_response_free (rop_config rop) resp m;
          Some (Some ERIAK_SERVER_ERROR,
                st\<lparr>rs_rop := rop\<lparr>rop_response := None\<rparr>, rs_done := done, rs_mem := m,
                   rs_trace := rs_trace st @ cbs\<rparr>) }"

text \<open>Handling a complete message, and getting ready for the next.\<close>

definition read_dispatch ::
  "(addr \<Rightarrow> bytes \<Rightarrow> rpb_error_resp option) \<Rightarrow> ('r, 'd) decode_fn \<Rightarrow> ('io, 'r, 'd) read_state \<Rightarrow>
   ('io, 'r, 'd) read_result"
where
  "read_dispatch unpack_error decode st =
     do { let rop = rs_rop st;
          let cfg = rop_config rop;
          b \<leftarrow> rop_msgbuf rop;
          guard (buf_bytes b \<noteq> []);
          let msgid = buf_bytes b ! 0;
          let (pbresp, m) = riak_pb_message_new cfg msgid (ucast (rop_msglen rop)) (Some b) (rs_mem st);
          let rop = rop\<lparr>rop_position := 0, rop_msglen := 0, rop_msglen_complete := False\<rparr>;
          let st = st\<lparr>rs_rop := rop, rs_done := True, rs_mem := m\<rparr>;
          (case rop_decoder rop of
             None \<Rightarrow> Some (Some ERIAK_READ, st)
           | Some d \<Rightarrow>
               (if msgid = 0 then read_server_error unpack_error pbresp st
                else do { (result, rop, done, m) \<leftarrow> decode d rop pbresp (rs_done st) (rs_mem st);
                          m \<leftarrow> riak_free cfg (map_option pbm_at pbresp) m;
                          m \<leftarrow> riak_free cfg (map_option buf_addr (rop_msgbuf rop)) m;
                          let rop = rop\<lparr>rop_msgbuf := None\<rparr>;
                          let st = st\<lparr>rs_rop := rop, rs_done := done, rs_mem := m\<rparr>;
                          Some
                            (if result \<noteq> ERIAK_OK then (Some ERIAK_READ, st)
                             else if done
                             then (Some ERIAK_OK,
                                   st\<lparr>rs_trace := rs_trace st @
                                        (case rop_response_cb rop of
                                           None \<Rightarrow> [] | Some f \<Rightarrow> [ResponseCb f (rop_response rop)])\<rparr>)
                             else (None, st)) })) }"

definition read_step ::
  "'io read_cb \<Rightarrow> (addr \<Rightarrow> bytes \<Rightarrow> rpb_error_resp option) \<Rightarrow> ('r, 'd) decode_fn \<Rightarrow>
   ('io, 'r, 'd) read_state \<Rightarrow> ('io, 'r, 'd) read_result"
where
  "read_step read_cb unpack_error decode st =
     do { (r, st) \<leftarrow> (if rop_msglen_complete (rs_rop st) then Some (None, st) else read_header read_cb st);
          (if r \<noteq> None then Some (r, st)
           else do { (r, st) \<leftarrow> read_body read_cb st;
                     (if r \<noteq> None then Some (r, st)
                      else read_dispatch unpack_error decode st) }) }"

text \<open>The loop may never end: then, too, there is no result.\<close>

partial_function (option) read_loop ::
  "'io read_cb \<Rightarrow> (addr \<Rightarrow> bytes \<Rightarrow> rpb_error_resp option) \<Rightarrow> ('r, 'd) decode_fn \<Rightarrow>
   ('io, 'r, 'd) read_state \<Rightarrow> (riak_error \<times> ('io, 'r, 'd) read_state) option"
where
  "read_loop read_cb unpack_error decode st =
     do { (r, st) \<leftarrow> read_step read_cb unpack_error decode st;
          (if r \<noteq> None then Some (the r, st) else read_loop read_cb unpack_error decode st) }"

definition riak_read ::
  "'io read_cb \<Rightarrow> (addr \<Rightarrow> bytes \<Rightarrow> rpb_error_resp option) \<Rightarrow> ('r, 'd) decode_fn \<Rightarrow>
   ('io, 'r, 'd) read_state \<Rightarrow> (riak_error \<times> ('io, 'r, 'd) read_state) option"
where
  "riak_read read_cb unpack_error decode st =
     read_loop read_cb unpack_error decode (st\<lparr>rs_done := False\<rparr>)"

text \<open>
  \<open>riak_libevent_result_cb\<close>: libevent calls it whenever input has arrived. The error code is
  dropped; when the response is complete the bufferevent is freed (\<open>None\<close>).
\<close>

definition riak_libevent_result_cb ::
  "'be read_cb \<Rightarrow> (addr \<Rightarrow> bytes \<Rightarrow> rpb_error_resp option) \<Rightarrow> ('r, 'd) decode_fn \<Rightarrow>
   ('be, 'r, 'd) read_state \<Rightarrow> ('be option \<times> ('be, 'r, 'd) read_state) option"
where
  "riak_libevent_result_cb bufferevent_read unpack_error decode st =
     do { (err, st) \<leftarrow> riak_read (riak_libevent_read_cb bufferevent_read) unpack_error decode st;
          Some (if rs_done st then None else Some (rs_io st), st) }"

text \<open>\<open>riak_libevent_send\<close>\<close>

definition riak_libevent_send ::
  "'be write_cb \<Rightarrow> ('r, 'd) riak_operation \<Rightarrow> 'be \<Rightarrow> (riak_error \<times> 'be) option"
where
  "riak_libevent_send bufferevent_write rop bev =
     riak_write rop (riak_libevent_write_cb bufferevent_write) bev"

subsection \<open>Frames\<close>

lemma u32_bytes_ntohl: "u32_bytes (ntohl v) = rev (u32_bytes v)"
  by (simp add: ntohl_def u32_bytes_bytes_u32)

lemma ntohl_bytes: "length h = 4 \<Longrightarrow> ntohl (bytes_u32 h) = v \<longleftrightarrow> h = rev (u32_bytes v)"
  by (metis bytes_u32_u32_bytes ntohl_ntohl u32_bytes_bytes_u32 u32_bytes_ntohl)

text \<open>The frame of a message code and a body: the size is most significant byte first.\<close>

definition frame :: "u8 \<Rightarrow> bytes \<Rightarrow> bytes" where
  "frame code body = rev (u32_bytes (of_nat (length body + 1))) @ code # body"

lemma length_frame [simp]: "length (frame code body) = length body + 5"
  by (simp add: frame_def)

lemma of_nat_u32: "unat (v :: u32) = n \<Longrightarrow> v = of_nat n"
  by auto

lemma unat_u32: "n < 2 ^ 32 \<Longrightarrow> unat (of_nat n :: u32) = n"
  by (simp add: unsigned_of_nat take_bit_nat_eq_self)

lemma u32_of_nat_cmp:
  assumes "i < 2 ^ 32" "j < 2 ^ 32"
  shows "(of_nat i :: u32) < of_nat j \<longleftrightarrow> i < j" "(of_nat i :: u32) = of_nat j \<longleftrightarrow> i = j"
  using assms unat_u32 [of i] unat_u32 [of j] by (auto simp: word_less_nat_alt word_unat_eq_iff)

lemma take_min_length [simp]: "take (min n (length xs)) xs = take n xs"
  by (simp add: min_def)

lemma of_nat_eq_0_small: "n < 2 ^ 31 \<Longrightarrow> (of_nat n :: i32) = 0 \<longleftrightarrow> n = 0"
  by (auto simp: word_of_nat_eq_0_iff dest: nat_dvd_not_less)

text \<open>With a callback that writes everything, the bytes that go out are one frame.\<close>

definition write_all :: "bytes write_cb" where
  "write_all io xs = (int (length xs), io @ xs)"

lemma riak_write_frame:
  assumes "rop_pb_request rop = Some msg" "pbm_data msg = Some d" "buf_bytes d = body @ rest"
    "unat (pbm_len msg) = length body" "length body < 2 ^ 31"
  shows "riak_write rop write_all io = Some (ERIAK_OK, io @ frame (pbm_msgid msg) body)"
proof -
  have len: "pbm_len msg = of_nat (length body)" using of_nat_u32 [OF assms(4)] .
  have hd: "u32_bytes (ntohl (pbm_len msg + 1)) = rev (u32_bytes (of_nat (length body + 1)))"
    by (simp add: u32_bytes_ntohl len add.commute)
  have nz: "0 < pbm_len msg \<longleftrightarrow> body \<noteq> []" using assms(4) by (simp add: word_less_nat_alt)
  show ?thesis
    using assms(1-4) nz of_nat_eq_0_small [OF assms(5)]
    by (auto simp: riak_write_def write_all_def frame_def hd Let_def)
qed

subsection \<open>Sources of bytes\<close>

text \<open>
  What the reader relies on: a callback yields as many bytes of the available input as there are
  and as were asked for, and says how many. \<open>skip k\<close> is the source with \<open>k\<close> bytes consumed.
\<close>

locale byte_source =
  fixes read_cb :: "'io read_cb" and avail :: "'io \<Rightarrow> bytes" and skip :: "nat \<Rightarrow> 'io \<Rightarrow> 'io"
  assumes read_cb: "read_cb io n =
      (int (min n (length (avail io))), take n (avail io), skip (min n (length (avail io))) io)"
    and avail_skip: "avail (skip k io) = drop k (avail io)"
    and skip_0: "skip 0 io = io"
    and skip_skip: "skip j (skip k io) = skip (k + j) io"
begin

lemma read_into_eq:
  assumes "off + min n (length (avail io)) \<le> length buf"
  shows "read_into read_cb io buf off n =
    Some (of_nat (min n (length (avail io))),
      take off buf @ take n (avail io) @ drop (off + min n (length (avail io))) buf,
      skip (min n (length (avail io))) io)"
  using assms by (simp add: read_into_def read_cb Let_def min.commute)

end

text \<open>An in-memory buffer, which is what libevent documents for \<open>bufferevent_read\<close>.\<close>

definition evbuffer_read :: "bytes read_cb" where
  "evbuffer_read buf n = (int (min n (length buf)), take n buf, drop (min n (length buf)) buf)"

interpretation ev: byte_source "riak_libevent_read_cb evbuffer_read" "\<lambda>io. io" drop
  by unfold_locales (simp_all add: riak_libevent_read_cb_def evbuffer_read_def add.commute)

interpretation sock: byte_source "riak_sync_read_cb (\<lambda>fd. evbuffer_read)" snd "\<lambda>k (fd, buf). (fd, drop k buf)"
  by unfold_locales (auto simp: riak_sync_read_cb_def evbuffer_read_def add.commute split: prod.splits)

subsection \<open>Receiving whole messages\<close>

text \<open>The reader is between two messages.\<close>

definition at_boundary :: "('io, 'r, 'd) read_state \<Rightarrow> bool" where
  "at_boundary st \<longleftrightarrow> \<not> rop_msglen_complete (rs_rop st) \<and> rop_position (rs_rop st) = 0"

text \<open>The reader has allocated the block at \<open>a\<close> for \<open>n\<close> bytes and holds the bytes \<open>got\<close> of it.\<close>

definition in_message :: "nat \<Rightarrow> addr \<Rightarrow> bytes \<Rightarrow> ('io, 'r, 'd) read_state \<Rightarrow> ('io, 'r, 'd) read_state" where
  "in_message n a got st =
     st\<lparr>rs_rop := (rs_rop st)\<lparr>rop_msglen_complete := True, rop_msglen := of_nat n,
          rop_position := of_nat (length got),
          rop_msgbuf := Some \<lparr>buf_addr = a,
            buf_bytes = got @ drop (length got) (map (mem_junk (rs_mem st) a) [0..<n])\<rparr>\<rparr>\<rparr>"

lemma in_message_simps [simp]:
  "rs_io (in_message n a got st) = rs_io st" "rs_mem (in_message n a got st) = rs_mem st"
  "rs_trace (in_message n a got st) = rs_trace st" "rs_done (in_message n a got st) = rs_done st"
  "rop_msglen_complete (rs_rop (in_message n a got st))"
  "in_message n a got (in_message n b got' st) = in_message n a got st"
  "in_message n a got (st\<lparr>rs_io := io\<rparr>) = (in_message n a got st)\<lparr>rs_io := io\<rparr>"
  by (simp_all add: in_message_def)

context byte_source
begin

lemma read_header_complete:
  assumes b: "at_boundary st" and g: "cfg_grants (rop_config (rs_rop st))"
    and a: "avail (rs_io st) = rev (u32_bytes (of_nat n)) @ rest" and n: "n < 2 ^ 32"
  shows "read_header read_cb st =
    Some (None, (in_message n (mem_next (rs_mem st)) [] (st\<lparr>rs_mem := mem_push (rs_mem st)\<rparr>))
                  \<lparr>rs_io := skip 4 (rs_io st)\<rparr>)"
proof -
  have r: "read_into read_cb (rs_io st) (u32_bytes v) 0 4 =
      Some (4, rev (u32_bytes (of_nat n)), skip 4 (rs_io st))" for v
    by (subst read_into_eq) (simp_all add: a)
  have "ntohl (bytes_u32 (rev (u32_bytes (of_nat n)))) = of_nat n"
    by (simp add: ntohl_bytes)
  with b n show ?thesis
    by (simp add: read_header_def at_boundary_def r allocate_granted [OF g] in_message_def
        fresh_block_def unat_u32 Let_def)
qed

lemma read_body_in_message:
  assumes got: "length got \<le> n" and n: "n < 2 ^ 32"
  shows "read_body read_cb (in_message n a got st) =
    (let k = min (n - length got) (length (avail (rs_io st)));
         st' = (in_message n a (got @ take k (avail (rs_io st))) st)\<lparr>rs_io := skip k (rs_io st)\<rparr>
     in Some (if length got + k < n then Some ERIAK_OK else None, st'))"
proof -
  let ?junk = "map (mem_junk (rs_mem st) a) [0..<n]"
  obtain k where k: "k = min (n - length got) (length (avail (rs_io st)))" by simp
  then have le: "length got + k \<le> n" and tk: "take (n - length got) (avail (rs_io st)) = take k (avail (rs_io st))"
    and lk: "length (take k (avail (rs_io st))) = k"
    using got by simp_all
  have u: "unat (of_nat n - of_nat (length got) :: u32) = n - length got"
    using got n by (simp flip: of_nat_diff add: unat_u32)
  have p: "(of_nat (length got) + ucast (of_nat k :: u64) :: u32) = of_nat (length got + k)"
    using n le by (simp add: unsigned_of_nat take_bit_nat_eq_self)
  have "length got + k < 2 ^ 32" using n le by simp
  note lt = u32_of_nat_cmp [OF this n]
  have "read_into read_cb (rs_io st) (got @ drop (length got) ?junk) (length got) (n - length got) =
      Some (of_nat k, (got @ take k (avail (rs_io st))) @ drop (length got + k) ?junk, skip k (rs_io st))"
    using got le by (subst read_into_eq) (simp_all add: drop_drop add.commute tk flip: k)
  moreover have "unat (of_nat (length got) :: u32) = length got"
    using got n by (simp add: unat_u32)
  moreover have "length got + k < n \<or> length got + k = n" using le by auto
  ultimately show ?thesis
    unfolding k [symmetric]
    using lk by (auto simp: read_body_def in_message_def u Let_def p lt simp del: of_nat_add)
qed

end

subsection \<open>Any sequence of deliveries\<close>

text \<open>What the reader promises: the messages are handled one after another, until one ends it.\<close>

definition receive_message ::
  "(addr \<Rightarrow> bytes \<Rightarrow> rpb_error_resp option) \<Rightarrow> ('r, 'd) decode_fn \<Rightarrow> u8 \<Rightarrow> bytes \<Rightarrow>
   ('io, 'r, 'd) read_state \<Rightarrow> ('io, 'r, 'd) read_result"
where
  "receive_message unpack_error decode code body st =
     read_dispatch unpack_error decode
       (in_message (Suc (length body)) (mem_next (rs_mem st)) (code # body)
         (st\<lparr>rs_mem := mem_push (rs_mem st)\<rparr>))"

fun receive_messages ::
  "(addr \<Rightarrow> bytes \<Rightarrow> rpb_error_resp option) \<Rightarrow> ('r, 'd) decode_fn \<Rightarrow> (u8 \<times> bytes) list \<Rightarrow>
   ('io, 'r, 'd) read_state \<Rightarrow> (riak_error \<times> ('io, 'r, 'd) read_state) option"
where
  "receive_messages unpack_error decode [] st = Some (ERIAK_OK, st)"
| "receive_messages unpack_error decode ((code, body) # ms) st =
     do { (r, st) \<leftarrow> receive_message unpack_error decode code body st;
          (if r \<noteq> None then Some (the r, st) else receive_messages unpack_error decode ms st) }"

text \<open>The messages that are not handled.\<close>

fun unread_messages ::
  "(addr \<Rightarrow> bytes \<Rightarrow> rpb_error_resp option) \<Rightarrow> ('r, 'd) decode_fn \<Rightarrow> (u8 \<times> bytes) list \<Rightarrow>
   ('io, 'r, 'd) read_state \<Rightarrow> (u8 \<times> bytes) list"
where
  "unread_messages unpack_error decode [] st = []"
| "unread_messages unpack_error decode ((code, body) # ms) st =
     (case receive_message unpack_error decode code body st of
        Some (None, st) \<Rightarrow> unread_messages unpack_error decode ms st
      | _ \<Rightarrow> ms)"

definition frames :: "(u8 \<times> bytes) list \<Rightarrow> bytes" where
  "frames ms = concat (map (\<lambda>(code, body). frame code body) ms)"

text \<open>A cut of the stream after \<open>p\<close> bytes is fine if it is not inside the size of a message.\<close>

fun cut_ok :: "(u8 \<times> bytes) list \<Rightarrow> nat \<Rightarrow> bool" where
  "cut_ok [] p \<longleftrightarrow> p = 0"
| "cut_ok ((code, body) # ms) p \<longleftrightarrow>
     p = 0 \<or> 4 \<le> p \<and> (length body + 5 \<le> p \<longrightarrow> cut_ok ms (p - (length body + 5)))"

text \<open>The reader's state when \<open>off\<close> bytes of the first of the messages have been read.\<close>

definition resume ::
  "nat \<Rightarrow> (u8 \<times> bytes) list \<Rightarrow> ('io, 'r, 'd) read_state \<Rightarrow> ('io, 'r, 'd) read_state"
where
  "resume off ms st =
     (if off = 0 then st
      else let (code, body) = hd ms
           in in_message (Suc (length body)) (mem_next (rs_mem st)) (take (off - 4) (code # body))
                (st\<lparr>rs_mem := mem_push (rs_mem st)\<rparr>))"

lemma resume_io [simp]: "rs_io (resume off ms st) = rs_io st" "rs_done (resume off ms st) = rs_done st"
  "resume off ms (st\<lparr>rs_io := io\<rparr>) = (resume off ms st)\<lparr>rs_io := io\<rparr>"
  by (simp_all add: resume_def in_message_def split: prod.split)

lemma frames_simps [simp]: "frames [] = []" "frames ((code, body) # ms) = frame code body @ frames ms"
  by (simp_all add: frames_def)

lemma drop_frame:
  "4 \<le> off \<Longrightarrow> off \<le> length body + 5 \<Longrightarrow>
   drop off (frame code body @ rest) = drop (off - 4) (code # body) @ rest"
  by (cases "off - 4") (simp_all add: frame_def)

lemma read_server_error_io:
  "read_server_error ue pb (st\<lparr>rs_io := io\<rparr>) =
   map_option (map_prod id (rs_io_update (\<lambda>_. io))) (read_server_error ue pb st)"
  by (cases "riak_server_error_response_decode ue (rs_rop st) pb (rs_done st) (rs_mem st)")
    (auto simp: read_server_error_def split: prod.splits bind_splits)

lemma read_dispatch_io:
  "read_dispatch ue dec (st\<lparr>rs_io := io\<rparr>) =
   map_option (map_prod id (rs_io_update (\<lambda>_. io))) (read_dispatch ue dec st)"
proof -
  have "read_server_error ue pb (st\<lparr>rs_io := io, rs_rop := r, rs_done := d, rs_mem := m\<rparr>) =
      map_option (map_prod id (rs_io_update (\<lambda>_. io)))
        (read_server_error ue pb (st\<lparr>rs_rop := r, rs_done := d, rs_mem := m\<rparr>))" for pb r d m
    using read_server_error_io [of ue pb io "st\<lparr>rs_rop := r, rs_done := d, rs_mem := m\<rparr>"] by (cases st) simp
  then show ?thesis
    by (auto simp: read_dispatch_def Let_def case_prod_unfold split: option.split bind_split)
qed

text \<open>A decoder keeps the fields of the operation the reader works with.\<close>

locale framed_decoder =
  fixes decode :: "('r, 'd) decode_fn"
  assumes keeps: "decode d rop pb done m = Some (e, rop', done', m') \<Longrightarrow>
    rop_config rop' = rop_config rop \<and> rop_position rop' = rop_position rop \<and>
    rop_msglen_complete rop' = rop_msglen_complete rop"
begin

lemma receive_message_boundary:
  assumes "receive_message ue decode code body st = Some (None, st')"
  shows "at_boundary st' \<and> rop_config (rs_rop st') = rop_config (rs_rop st) \<and> \<not> rs_done st'"
  using assms
  by (auto simp: receive_message_def read_dispatch_def in_message_def at_boundary_def Let_def read_server_error_def
      split: prod.splits bind_splits option.splits if_splits dest!: keeps)

lemma receive_message_ends:
  assumes "receive_message ue decode code body st = Some (Some e, st')"
  shows "e \<noteq> ERIAK_OK \<or> rs_done st'"
  using assms
  by (auto simp: receive_message_def read_dispatch_def in_message_def at_boundary_def Let_def read_server_error_def
      split: prod.splits bind_splits option.splits if_splits)

end

lemma cut_ok_skip:
  "cut_ok ((code, body) # ms) p \<Longrightarrow> length body + 5 \<le> p \<Longrightarrow> cut_ok ms (p - (length body + 5))"
  by auto

locale reader = byte_source read_cb avail skip + framed_decoder decode
  for read_cb :: "'io read_cb" and avail :: "'io \<Rightarrow> bytes" and skip :: "nat \<Rightarrow> 'io \<Rightarrow> 'io"
    and decode :: "('r, 'd) decode_fn" +
  fixes unpack_error :: "addr \<Rightarrow> bytes \<Rightarrow> rpb_error_resp option"
begin

abbreviation loop :: "('io, 'r, 'd) read_state \<Rightarrow> (riak_error \<times> ('io, 'r, 'd) read_state) option" where
  "loop \<equiv> read_loop read_cb unpack_error decode"

lemma loop_starved:
  assumes "at_boundary st" "avail (rs_io st) = []" shows "loop st = Some (ERIAK_OK, st)"
proof -
  have "read_into read_cb (rs_io st) buf 0 4 = Some (0, buf, rs_io st)" for buf
    by (subst read_into_eq) (simp_all add: assms(2) skip_0)
  with assms(1) show ?thesis
    by (subst read_loop.simps) (simp add: read_step_def read_header_def at_boundary_def Let_def)
qed

lemma loop_header:
  assumes "at_boundary st" "cfg_grants (rop_config (rs_rop st))" "Suc (length body) < 2 ^ 32"
    and "avail io = rev (u32_bytes (of_nat (Suc (length body)))) @ rest"
  shows "loop (st\<lparr>rs_io := io\<rparr>) = loop ((resume 4 ((code, body) # ms) st)\<lparr>rs_io := skip 4 io\<rparr>)"
proof -
  let ?st = "(resume 4 ((code, body) # ms) st)\<lparr>rs_io := skip 4 io\<rparr>"
  have "read_header read_cb (st\<lparr>rs_io := io\<rparr>) = Some (None, ?st)"
    using assms read_header_complete [of "st\<lparr>rs_io := io\<rparr>" "Suc (length body)" rest]
    by (simp add: at_boundary_def resume_def in_message_def)
  moreover have "\<not> rop_msglen_complete (rs_rop st)" "rop_msglen_complete (rs_rop ?st)"
    using assms(1) by (simp_all add: at_boundary_def resume_def in_message_def)
  ultimately have "read_step read_cb unpack_error decode (st\<lparr>rs_io := io\<rparr>) =
      read_step read_cb unpack_error decode ?st"
    by (simp add: read_step_def)
  then show ?thesis by (subst (1 2) read_loop.simps) simp
qed

lemma resume_body:
  assumes "4 \<le> off" "off < length body + 5" "Suc (length body) < 2 ^ 32"
    and av: "avail io @ later = drop off (frame code body @ rest)"
  shows "read_body read_cb ((resume off ((code, body) # ms) st)\<lparr>rs_io := io\<rparr>) =
    (let k = min (length body + 5 - off) (length (avail io));
         st' = (resume (off + k) ((code, body) # ms) st)\<lparr>rs_io := skip k io\<rparr>
     in Some (if off + k < length body + 5 then Some ERIAK_OK else None, st'))"
proof -
  obtain k where k: "k = min (length body + 5 - off) (length (avail io))" by simp
  let ?g = "take (off - 4) (code # body)"
  have lg: "length ?g = off - 4" using assms(2) by simp
  have n: "Suc (length body) - (off - 4) = length body + 5 - off" using assms(1,2) by simp
  have "take k (avail io) = take k (avail io @ later)" using k by simp
  also have "\<dots> = take k (drop (off - 4) (code # body))"
    unfolding av drop_frame [OF assms(1) order.strict_implies_order [OF assms(2)]]
    using k assms(1,2) by simp
  finally have "?g @ take k (avail io) = take (off + k - 4) (code # body)"
    using assms(1) by (simp add: take_add [symmetric])
  moreover have "off - 4 + k < Suc (length body) \<longleftrightarrow> off + k < length body + 5" using assms(1) by auto
  moreover have "off \<noteq> 0" "off + k \<noteq> 0" using assms(1) by auto
  ultimately show ?thesis
    using read_body_in_message [of ?g "Suc (length body)" "mem_next (rs_mem st)"
        "st\<lparr>rs_mem := mem_push (rs_mem st), rs_io := io\<rparr>"] assms(2,3) lg
    by (simp add: resume_def n Let_def flip: k)
qed

lemma resume_complete: "4 \<le> off \<Longrightarrow> rop_msglen_complete (rs_rop (resume off ms st))"
  by (auto simp: resume_def split: prod.split)

lemma loop_short_body:
  assumes "4 \<le> off" "off + length (avail io) < length body + 5" "Suc (length body) < 2 ^ 32"
    and av: "avail io @ later = drop off (frame code body @ rest)"
  shows "loop ((resume off ((code, body) # ms) st)\<lparr>rs_io := io\<rparr>) =
    Some (ERIAK_OK, (resume (off + length (avail io)) ((code, body) # ms) st)\<lparr>rs_io := skip (length (avail io)) io\<rparr>)"
proof -
  have "min (length body + 5 - off) (length (avail io)) = length (avail io)" "off < length body + 5"
    using assms(2) by auto
  then show ?thesis
    using resume_body [OF assms(1) _ assms(3,4), where st = st and ms = ms] assms(2)
    by (subst read_loop.simps) (simp add: read_step_def Let_def resume_complete [OF assms(1)])
qed

lemma loop_full_body:
  assumes "4 \<le> off" "off < length body + 5" "length body + 5 \<le> off + length (avail io)"
    and len: "Suc (length body) < 2 ^ 32"
    and av: "avail io @ later = drop off (frame code body @ rest)"
  shows "loop ((resume off ((code, body) # ms) st)\<lparr>rs_io := io\<rparr>) =
    do { (r, st') \<leftarrow> receive_message unpack_error decode code body st;
         let st' = st'\<lparr>rs_io := skip (length body + 5 - off) io\<rparr>;
         (if r \<noteq> None then Some (the r, st') else loop st') }"
proof -
  have k: "min (length body + 5 - off) (length (avail io)) = length body + 5 - off"
    "off + (length body + 5 - off) = length body + 5" using assms(2,3) by auto
  have "receive_message unpack_error decode code body st =
      read_dispatch unpack_error decode (resume (length body + 5) ((code, body) # ms) st)"
    by (simp add: receive_message_def resume_def)
  then show ?thesis
    using resume_body [OF assms(1,2) len av, where st = st and ms = ms] k
    by (subst read_loop.simps)
      (auto simp: read_step_def Let_def read_dispatch_io resume_complete [OF assms(1)] split: bind_split)
qed

text \<open>The reader may wait for input with \<open>off\<close> bytes of the first of the messages \<open>ms\<close> read.\<close>

definition pending :: "nat \<Rightarrow> (u8 \<times> bytes) list \<Rightarrow> ('io, 'r, 'd) read_state \<Rightarrow> bool" where
  "pending off ms st \<longleftrightarrow> at_boundary st \<and> cfg_grants (rop_config (rs_rop st)) \<and> \<not> rs_done st \<and>
     (\<forall>(code, body) \<in> set ms. Suc (length body) < 2 ^ 32) \<and>
     (off = 0 \<or> 4 \<le> off \<and> (\<exists>code body ms'. ms = (code, body) # ms' \<and> off < length body + 5))"

lemma pending_tl:
  assumes "pending off ((code, body) # ms) st"
    and "receive_message unpack_error decode code body st = Some (None, st')"
  shows "pending 0 ms st'"
  using assms receive_message_boundary [OF assms(2)] by (auto simp: pending_def)

text \<open>
  When the messages end the reading, what comes after them, and those that are not handled, stay
  in the input.
\<close>

lemma loop_messages:
  assumes "pending 0 ms st" "avail io = frames ms @ beyond"
    and "receive_messages unpack_error decode ms st = Some (e, st')" "e \<noteq> ERIAK_OK \<or> rs_done st'"
  shows "\<exists>n. loop (st\<lparr>rs_io := io\<rparr>) = Some (e, st'\<lparr>rs_io := skip n io\<rparr>) \<and>
    avail (skip n io) = frames (unread_messages unpack_error decode ms st) @ beyond"
  using assms
proof (induction ms arbitrary: st io)
  case Nil
  then show ?case by (simp add: pending_def)
next
  case (Cons msg ms)
  obtain code body where msg: "msg = (code, body)" by (cases msg)
  let ?k = "length body + 5"
  have len: "Suc (length body) < 2 ^ 32" and p: "pending 0 ((code, body) # ms) st"
    using Cons.prems(1) by (simp_all add: pending_def msg)
  have av: "avail io = frame code body @ (frames ms @ beyond)" using Cons.prems(2) by (simp add: msg)
  have hd: "loop (st\<lparr>rs_io := io\<rparr>) = loop ((resume 4 ((code, body) # ms) st)\<lparr>rs_io := skip 4 io\<rparr>)"
    by (rule loop_header [OF _ _ len]) (use p in \<open>simp_all add: pending_def av frame_def\<close>)
  have a4: "avail (skip 4 io) @ [] = drop 4 (frame code body @ (frames ms @ beyond))" by (simp only: avail_skip av append_Nil2)
  have full: "4 < ?k" "?k \<le> 4 + length (avail (skip 4 io))" by (simp_all add: avail_skip av)
  have k: "skip (?k - 4) (skip 4 io) = skip ?k io" by (simp add: skip_skip add.commute)
  obtain r st1 where r: "receive_message unpack_error decode code body st = Some (r, st1)"
    "(if r \<noteq> None then Some (the r, st1) else receive_messages unpack_error decode ms st1) = Some (e, st')"
    using Cons.prems(3) by (auto simp: msg split: bind_splits)
  have lo: "loop (st\<lparr>rs_io := io\<rparr>) =
      (if r \<noteq> None then Some (the r, st1\<lparr>rs_io := skip ?k io\<rparr>) else loop (st1\<lparr>rs_io := skip ?k io\<rparr>))"
    unfolding hd using loop_full_body [OF order.refl full len a4, where st = st and ms = ms] by (simp only: k r(1)) simp
  have rest: "avail (skip ?k io) = frames ms @ beyond" by (simp add: avail_skip av)
  show ?case
  proof (cases r)
    case (Some e')
    with r lo rest show ?thesis by (intro exI [of _ ?k]) (simp add: msg)
  next
    case None
    from r(2) None obtain n where "loop (st1\<lparr>rs_io := skip ?k io\<rparr>) = Some (e, st'\<lparr>rs_io := skip n (skip ?k io)\<rparr>)"
      "avail (skip n (skip ?k io)) = frames (unread_messages unpack_error decode ms st1) @ beyond"
      using Cons.IH [OF pending_tl [OF p r(1) [unfolded None]] rest _ Cons.prems(4)] by auto
    with r lo None show ?thesis by (intro exI [of _ "?k + n"]) (simp add: msg skip_skip)
  qed
qed

text \<open>
  One call of the reader: it ends as the messages would, or it has used up the input and waits
  for the rest of the stream.
\<close>

definition one_delivery ::
  "nat \<Rightarrow> (u8 \<times> bytes) list \<Rightarrow> ('io, 'r, 'd) read_state \<Rightarrow> 'io \<Rightarrow> bytes \<Rightarrow> bool"
where
  "one_delivery off ms st io later \<longleftrightarrow>
     (case loop ((resume off ms st)\<lparr>rs_io := io\<rparr>) of
        None \<Rightarrow> receive_messages unpack_error decode ms st = None
      | Some (e, st') \<Rightarrow>
          (e \<noteq> ERIAK_OK \<or> rs_done st') \<and>
            receive_messages unpack_error decode ms st = Some (e, st'\<lparr>rs_io := rs_io st\<rparr>) \<or>
          e = ERIAK_OK \<and>
            (\<exists>off' ms' st1 io'. st' = (resume off' ms' st1)\<lparr>rs_io := io'\<rparr> \<and> avail io' = [] \<and>
               pending off' ms' st1 \<and> later = drop off' (frames ms') \<and> rs_io st1 = rs_io st \<and>
               receive_messages unpack_error decode ms st = receive_messages unpack_error decode ms' st1 \<and>
               (\<forall>p. cut_ok ms (off + length (avail io) + p) \<longrightarrow> cut_ok ms' (off' + p))))"

lemma one_delivery_waits:
  assumes "loop ((resume off ms st)\<lparr>rs_io := io\<rparr>) = Some (ERIAK_OK, (resume off' ms' st1)\<lparr>rs_io := io'\<rparr>)"
    and "avail io' = []" "pending off' ms' st1" "later = drop off' (frames ms')" "rs_io st1 = rs_io st"
    and "receive_messages unpack_error decode ms st = receive_messages unpack_error decode ms' st1"
    and "\<And>p. cut_ok ms (off + length (avail io) + p) \<Longrightarrow> cut_ok ms' (off' + p)"
  shows "one_delivery off ms st io later"
  using assms unfolding one_delivery_def by (simp del: resume_io) blast

lemma receive_message_io:
  assumes "receive_message unpack_error decode code body st = Some (r, st')"
  shows "rs_io st' = rs_io st"
proof -
  let ?st = "in_message (Suc (length body)) (mem_next (rs_mem st)) (code # body)
         (st\<lparr>rs_mem := mem_push (rs_mem st)\<rparr>)"
  have "?st\<lparr>rs_io := rs_io st\<rparr> = ?st" by (simp add: in_message_def)
  with read_dispatch_io [of unpack_error decode "rs_io st" ?st] assms
  have "st' = st'\<lparr>rs_io := rs_io st\<rparr>" by (auto simp: receive_message_def)
  then show ?thesis by (cases st') simp
qed

lemma one_delivery_body:
  assumes IH: "\<forall>st io. pending 0 ms st \<longrightarrow> avail io @ later = frames ms \<longrightarrow>
      cut_ok ms (length (avail io)) \<longrightarrow> one_delivery 0 ms st io later"
    and p: "pending off ((code, body) # ms) st" and off: "4 \<le> off"
    and av: "avail io @ later = drop off (frames ((code, body) # ms))"
    and cut: "cut_ok ((code, body) # ms) (off + length (avail io))"
  shows "one_delivery off ((code, body) # ms) st io later"
proof -
  have o: "off < length body + 5" and len: "Suc (length body) < 2 ^ 32"
    using p off by (auto simp: pending_def)
  have av1: "avail io @ later = drop off (frame code body @ frames ms)" using av by simp
  show ?thesis
  proof (cases "off + length (avail io) < length body + 5")
    case True
    let ?off = "off + length (avail io)"
    have "pending ?off ((code, body) # ms) st" using p off True by (auto simp: pending_def)
    moreover have "later = drop ?off (frames ((code, body) # ms))"
      using av by (metis add.commute append_eq_conv_conj drop_drop)
    ultimately show ?thesis
      by (rule one_delivery_waits [OF loop_short_body [OF off True len av1], rotated])
        (simp_all add: avail_skip)
  next
    case False
    let ?k = "length body + 5 - off"
    have k: "?k \<le> length (avail io)" and full: "length body + 5 \<le> off + length (avail io)"
      using False o by auto
    have rest: "drop ?k (avail io) @ later = frames ms"
    proof -
      have "drop ?k (avail io) @ later = drop ?k (avail io @ later)" using k by simp
      also have "\<dots> = drop (length body + 5) (frames ((code, body) # ms))"
        using o by (simp add: av)
      finally show ?thesis by simp
    qed
    note lo = loop_full_body [OF off o full len av1]
    show ?thesis
    proof (cases "receive_message unpack_error decode code body st")
      case None
      then show ?thesis by (simp add: one_delivery_def lo)
    next
      case (Some res)
      obtain r st' where res: "res = (r, st')" by (cases res)
      note rm = Some [unfolded res]
      show ?thesis
      proof (cases r)
        case (Some e)
        have "st'\<lparr>rs_io := rs_io st\<rparr> = st'" using receive_message_io [OF rm] by (cases st') simp
        then show ?thesis
          using rm Some receive_message_ends by (fastforce simp: one_delivery_def lo)
      next
        case None
        have c: "cut_ok ((code, body) # ms) (off + length (avail io) + p) \<longleftrightarrow>
            cut_ok ms (length (avail (skip ?k io)) + p)" for p
        proof -
          have "off + length (avail io) + p - (length body + 5) = length (avail (skip ?k io)) + p"
            using full o by (simp add: avail_skip)
          then show ?thesis using full off by simp
        qed
        have d: "one_delivery 0 ms st' (skip ?k io) later"
          using IH pending_tl [OF p] rm None rest cut c [of 0]
          by (simp add: avail_skip)
        have eq: "receive_messages unpack_error decode ((code, body) # ms) st =
            receive_messages unpack_error decode ms st'"
          using rm None by simp
        show ?thesis
          using d rm None
          unfolding one_delivery_def lo c eq add_0 receive_message_io [OF rm] by (simp add: resume_def [of 0])
      qed
    qed
  qed
qed

lemma loop_resting:
  assumes "pending off ms st" "off = 0" "avail io = []"
  shows "loop ((resume off ms st)\<lparr>rs_io := io\<rparr>) = Some (ERIAK_OK, (resume 0 ms' st)\<lparr>rs_io := io\<rparr>)"
  using loop_starved [of "st\<lparr>rs_io := io\<rparr>"] assms
  by (simp add: pending_def at_boundary_def resume_def)

lemma one_delivery:
  assumes "pending off ms st" "avail io @ later = drop off (frames ms)" "cut_ok ms (off + length (avail io))"
  shows "one_delivery off ms st io later"
  using assms
proof (induction ms arbitrary: off st io)
  case Nil
  then have "off = 0" "avail io = []" "later = []" by (auto simp: pending_def)
  with Nil show ?case
    by (intro one_delivery_waits [where off' = 0 and ms' = "[]" and ?st1.0 = st and io' = io] loop_resting) auto
next
  case (Cons msg ms)
  obtain code body where msg: "msg = (code, body)" by (cases msg)
  have "\<forall>st io. pending 0 ms st \<longrightarrow> avail io @ later = frames ms \<longrightarrow>
      cut_ok ms (length (avail io)) \<longrightarrow> one_delivery 0 ms st io later"
    using Cons.IH [of 0] by simp
  note body = one_delivery_body [OF this]
  consider "4 \<le> off" | "off = 0" "avail io = []" | "off = 0" "4 \<le> length (avail io)"
    using Cons.prems by (auto simp: pending_def msg)
  then show ?case
  proof cases
    case 1
    then show ?thesis using body Cons.prems unfolding msg by simp
  next
    case 2
    with Cons.prems show ?thesis
      by (intro one_delivery_waits [where off' = 0 and ms' = "msg # ms" and ?st1.0 = st and io' = io] loop_resting) auto
  next
    case 3
    let ?n = "of_nat (Suc (length body)) :: u32"
    have len: "Suc (length body) < 2 ^ 32" using Cons.prems(1) by (auto simp: pending_def msg)
    have fr: "avail io @ later = rev (u32_bytes ?n) @ code # body @ frames ms"
      using Cons.prems(2) 3 by (simp add: msg frame_def)
    then have hd: "avail io = rev (u32_bytes ?n) @ drop 4 (avail io)"
      using 3 append_eq_append_conv_if [of "rev (u32_bytes ?n)" "drop 4 (avail io)" "avail io" "[]"]
      by (metis (no_types, lifting) append_eq_append_conv2 append_eq_conv_conj append_take_drop_id
          length_rev length_u32_bytes take_append take_all_iff diff_is_0_eq append_Nil2 take_0)
    have p4: "pending 4 (msg # ms) st" using Cons.prems(1) by (auto simp: pending_def msg)
    have a4: "avail (skip 4 io) @ later = drop 4 (frames (msg # ms))"
      using Cons.prems(2) 3 by (simp add: avail_skip)
        (metis drop_append diff_is_0_eq drop0)
    have d4: "one_delivery 4 (msg # ms) st (skip 4 io) later"
      using body [OF p4 [unfolded msg] _ a4 [unfolded msg]] Cons.prems(3) 3
      by (simp add: msg avail_skip)
    have eq: "loop (st\<lparr>rs_io := io\<rparr>) = loop ((resume 4 (msg # ms) st)\<lparr>rs_io := skip 4 io\<rparr>)"
      unfolding msg using loop_header [OF _ _ len hd, of st] Cons.prems(1) by (simp add: pending_def)
    have l: "4 + length (avail (skip 4 io)) = length (avail io)" using 3 by (simp add: avail_skip)
    show ?thesis
      using d4 unfolding one_delivery_def l 3(1) add_0 by (simp add: eq resume_def [of 0])
  qed
qed

subsection \<open>A size field in two deliveries\<close>

text \<open>
  When the first \<open>h\<close> bytes of the size arrive alone they are kept and the position is \<open>h\<close>. It is
  still \<open>h\<close> when the size is complete, so the message is stored \<open>h\<close> bytes too far into its block
  and its last \<open>h\<close> bytes stay in the input.
\<close>

lemma split_size_first:
  assumes "at_boundary st" "0 < length (avail io)" "length (avail io) < 4"
  shows "loop (st\<lparr>rs_io := io\<rparr>) =
    Some (ERIAK_OK, st\<lparr>rs_io := skip (length (avail io)) io,
      rs_rop := (rs_rop st)\<lparr>rop_position := of_nat (length (avail io)),
        rop_msglen := bytes_u32 (avail io @ drop (length (avail io)) (u32_bytes (rop_msglen (rs_rop st))))\<rparr>\<rparr>)"
proof -
  obtain h where h: "h = length (avail io)" by simp
  then consider "h = 1" | "h = 2" | "h = 3" using assms(2,3) by linarith
  then have w: "(of_nat h :: u64) \<noteq> 4" "(of_nat h :: u64) \<noteq> 0" "(of_nat h :: u64) < 4"
    "(ucast (of_nat h :: u64) :: u32) = of_nat h"
    by (cases; simp)+
  have "read_into read_cb io (u32_bytes v) 0 4 =
      Some (of_nat h, avail io @ drop h (u32_bytes v), skip h io)" for v
    using assms(3) h by (subst read_into_eq) simp_all
  then show ?thesis
    using assms(1) w unfolding h [symmetric]
    by (subst read_loop.simps) (simp add: read_step_def read_header_def at_boundary_def Let_def)
qed

lemma split_size_second:
  assumes c: "\<not> rop_msglen_complete (rs_rop st)" "rop_position (rs_rop st) = of_nat h"
    and h: "0 < h" "h < 4" "h \<le> Suc (length body)" and len: "Suc (length body) < 2 ^ 32"
    and old: "rop_msglen (rs_rop st) = bytes_u32 (take h (frame code body) @ xs)" "length xs = 4 - h"
    and av: "avail io = drop h (frame code body) @ rest"
    and g: "cfg_grants (rop_config (rs_rop st))"
  shows "read_step read_cb unpack_error decode (st\<lparr>rs_io := io\<rparr>) =
    read_dispatch unpack_error decode
      ((in_message (Suc (length body)) (mem_next (rs_mem st))
         (map (mem_junk (rs_mem st) (mem_next (rs_mem st))) [0..<h] @ take (Suc (length body) - h) (code # body))
         (st\<lparr>rs_mem := mem_push (rs_mem st)\<rparr>))\<lparr>rs_io := skip (4 - h + (Suc (length body) - h)) io\<rparr>)"
proof -
  let ?n = "Suc (length body)" and ?a = "mem_next (rs_mem st)"
  let ?st = "st\<lparr>rs_mem := mem_push (rs_mem st)\<rparr>" and ?junk = "map (mem_junk (rs_mem st) (mem_next (rs_mem st)))"
  let ?size = "rev (u32_bytes (of_nat ?n :: u32))"
  have fr: "take h (frame code body) = take h ?size" "drop h (frame code body) = drop h ?size @ code # body"
    using h(2) by (simp_all add: frame_def)
  have w: "unat (4 - ucast (of_nat h :: u32) :: u64) = 4 - h" "(of_nat (4 - h) :: u64) = 4 - ucast (of_nat h :: u32)"
    "unat (of_nat h :: u32) = h"
  proof -
    consider "h = 1" | "h = 2" | "h = 3" using h(1,2) by linarith
    then show "unat (4 - ucast (of_nat h :: u32) :: u64) = 4 - h"
      "(of_nat (4 - h) :: u64) = 4 - ucast (of_nat h :: u32)" "unat (of_nat h :: u32) = h"
      by (cases; simp)+
  qed
  have "u32_bytes (rop_msglen (rs_rop st)) = take h ?size @ xs"
    unfolding old(1) fr by (rule u32_bytes_bytes_u32) (use h(2) old(2) in simp)
  then have ri: "read_into read_cb io (u32_bytes (rop_msglen (rs_rop st))) h (4 - h) =
      Some (of_nat (4 - h), ?size, skip (4 - h) io)"
    using h(2) old(2) by (subst read_into_eq) (simp_all add: av fr)
  have "ntohl (bytes_u32 ?size) = of_nat ?n" by (simp add: ntohl_bytes)
  moreover have jk: "?junk [0..<h] = take h (?junk [0..<?n])"
    using h(3) by (simp add: take_map del: upt_Suc)
  ultimately have hd: "read_header read_cb (st\<lparr>rs_io := io\<rparr>) =
      Some (None, (in_message ?n ?a (?junk [0..<h]) ?st)\<lparr>rs_io := skip (4 - h) io\<rparr>)"
    using c ri w unat_u32 [OF len] h(3)
    by (simp add: read_header_def allocate_granted [OF g] in_message_def fresh_block_def jk Let_def del: upt_Suc)
  have "min (?n - h) (length (avail (skip (4 - h) io))) = ?n - h"
    and "take (?n - h) (avail (skip (4 - h) io)) = take (?n - h) (code # body)"
    using h by (auto simp: avail_skip av fr take_Cons')
  then show ?thesis
    using hd c(1) h(3) len read_body_in_message [of "?junk [0..<h]" ?n ?a "?st\<lparr>rs_io := skip (4 - h) io\<rparr>"]
    by (simp add: read_step_def skip_skip Let_def del: upt_Suc)
qed

end

text \<open>Deliveries of input, each followed by a call of the reader, until one of them ends it.\<close>

fun deliveries ::
  "('io \<Rightarrow> bytes \<Rightarrow> 'io) \<Rightarrow> 'io read_cb \<Rightarrow> (addr \<Rightarrow> bytes \<Rightarrow> rpb_error_resp option) \<Rightarrow> ('r, 'd) decode_fn \<Rightarrow>
   bytes list \<Rightarrow> ('io, 'r, 'd) read_state \<Rightarrow> (riak_error \<times> ('io, 'r, 'd) read_state) option"
where
  "deliveries feed read_cb unpack_error decode [] st = Some (ERIAK_OK, st)"
| "deliveries feed read_cb unpack_error decode (x # xs) st =
     do { (e, st) \<leftarrow> riak_read read_cb unpack_error decode (st\<lparr>rs_io := feed (rs_io st) x\<rparr>);
          (if e \<noteq> ERIAK_OK \<or> rs_done st then Some (e, st)
           else deliveries feed read_cb unpack_error decode xs st) }"

text \<open>A result of the reader without the state of its source of bytes.\<close>

abbreviation outcome ::
  "(riak_error \<times> ('io, 'r, 'd) read_state) option \<Rightarrow> (riak_error \<times> (unit, 'r, 'd) read_state) option"
where
  "outcome \<equiv> map_option (map_prod id (\<lambda>st. \<lparr>rs_rop = rs_rop st, rs_done = rs_done st, rs_io = (),
     rs_mem = rs_mem st, rs_trace = rs_trace st\<rparr>))"

fun cuts_ok :: "(u8 \<times> bytes) list \<Rightarrow> nat \<Rightarrow> bytes list \<Rightarrow> bool" where
  "cuts_ok ms off [] \<longleftrightarrow> cut_ok ms off"
| "cuts_ok ms off (x # xs) \<longleftrightarrow> cut_ok ms off \<and> cuts_ok ms (off + length x) xs"

lemma cuts_ok_mono:
  "cuts_ok ms off xs \<Longrightarrow> (\<And>p. cut_ok ms (off + p) \<Longrightarrow> cut_ok ms' (off' + p)) \<Longrightarrow> cuts_ok ms' off' xs"
proof (induction xs arbitrary: off off')
  case Nil
  show ?case using Nil.prems(1) Nil.prems(2) [of 0] by simp
next
  case (Cons x xs)
  have "cut_ok ms (off + length x + p) \<Longrightarrow> cut_ok ms' (off' + length x + p)" for p
    using Cons.prems(2) [of "length x + p"] by (simp add: add.assoc)
  then have "cuts_ok ms' (off' + length x) xs" using Cons.IH Cons.prems(1) by auto
  then show ?case using Cons.prems(1) Cons.prems(2) [of 0] by simp
qed

locale fed_reader = reader read_cb avail skip decode unpack_error
  for read_cb :: "'io read_cb" and avail :: "'io \<Rightarrow> bytes" and skip :: "nat \<Rightarrow> 'io \<Rightarrow> 'io"
    and decode :: "('r, 'd) decode_fn" and unpack_error :: "addr \<Rightarrow> bytes \<Rightarrow> rpb_error_resp option" +
  fixes feed :: "'io \<Rightarrow> bytes \<Rightarrow> 'io"
  assumes avail_feed: "avail (feed io xs) = avail io @ xs"
begin

text \<open>However the stream is cut, outside the size fields, the messages are handled one by one.\<close>

lemma deliveries_resume:
  assumes "pending off ms st" "avail io = []" "concat xs = drop off (frames ms)" "cuts_ok ms off xs"
  shows "outcome (deliveries feed read_cb unpack_error decode xs ((resume off ms st)\<lparr>rs_io := io\<rparr>)) =
    outcome (receive_messages unpack_error decode ms st)"
  using assms
proof (induction xs arbitrary: off ms st io)
  case Nil
  then have "ms = []" "off = 0" by (auto simp: pending_def frame_def neq_Nil_conv) (cases ms; fastforce simp: frame_def)+
  then show ?case by (simp add: resume_def)
next
  case (Cons x xs)
  have d: "one_delivery off ms st (feed io x) (concat xs)"
    using Cons.prems by (intro one_delivery) (auto simp: avail_feed elim: cuts_ok.elims)
  have rd: "rs_done (resume off ms st) = False" using Cons.prems(1) by (simp add: pending_def)
  then have "(resume off ms st)\<lparr>rs_io := feed io x, rs_done := False\<rparr> = (resume off ms st)\<lparr>rs_io := feed io x\<rparr>"
    by (cases "resume off ms st") simp
  then have rr: "riak_read read_cb unpack_error decode ((resume off ms st)\<lparr>rs_io := feed io x\<rparr>) =
      loop ((resume off ms st)\<lparr>rs_io := feed io x\<rparr>)"
    by (simp add: riak_read_def)
  show ?case
  proof (cases "loop ((resume off ms st)\<lparr>rs_io := feed io x\<rparr>)")
    case None
    then show ?thesis using d rr by (simp add: one_delivery_def)
  next
    case (Some res)
    obtain e st' where res: "res = (e, st')" by (cases res)
    from d [unfolded one_delivery_def Some res] consider
        "e \<noteq> ERIAK_OK \<or> rs_done st'"
        "receive_messages unpack_error decode ms st = Some (e, st'\<lparr>rs_io := rs_io st\<rparr>)"
      | off' ms' st1 io' where "e = ERIAK_OK" "st' = (resume off' ms' st1)\<lparr>rs_io := io'\<rparr>" "avail io' = []"
        "pending off' ms' st1" "concat xs = drop off' (frames ms')"
        "receive_messages unpack_error decode ms st = receive_messages unpack_error decode ms' st1"
        "\<And>p. cut_ok ms (off + length (avail (feed io x)) + p) \<Longrightarrow> cut_ok ms' (off' + p)"
      by auto
    then show ?thesis
    proof cases
      case 1
      then show ?thesis using Some res rr by auto
    next
      case 2
      have "cuts_ok ms' off' xs"
        using Cons.prems(2,4) 2(7) by (auto simp: avail_feed intro: cuts_ok_mono)
      then show ?thesis
        using Cons.IH [OF 2(4,3,5)] 2 Some res rr by (auto simp: pending_def)
    qed
  qed
qed

lemma deliveries_messages:
  assumes "at_boundary st" "cfg_grants (rop_config (rs_rop st))" "\<not> rs_done st" "avail (rs_io st) = []"
    and "\<forall>(code, body) \<in> set ms. Suc (length body) < 2 ^ 32"
    and "concat xs = frames ms" "cuts_ok ms 0 xs"
  shows "outcome (deliveries feed read_cb unpack_error decode xs st) =
    outcome (receive_messages unpack_error decode ms st)"
  using deliveries_resume [of 0 ms st "rs_io st" xs] assms by (simp add: pending_def resume_def)

end

end
