(* ===== verification/Riak_Message.thy ===== *)
theory Riak_Message
  imports Riak_IO
begin

text \<open>
  What the messages share, and the simple messages: ping, client ids, server information and
  bucket properties (\<^verbatim>\<open>src/internal/riak_messages-internal.h\<close> and \<^verbatim>\<open>riak_ping.c\<close>,
  \<^verbatim>\<open>riak_get_clientid.c\<close>, \<^verbatim>\<open>riak_set_clientid.c\<close>, \<^verbatim>\<open>riak_serverinfo.c\<close>,
  \<^verbatim>\<open>riak_get_bucketprops.c\<close>, \<^verbatim>\<open>riak_set_bucketprops.c\<close>, \<^verbatim>\<open>riak_reset_bucketprops.c\<close> under
  \<^verbatim>\<open>src/messages/\<close>).

  A request encoder stores the request in \<open>rop->pb_request\<close>, which is where every caller points
  its last argument, and the response decoder in the operation; the decoder is an element of the
  parameter type \<open>'d\<close>. A response decoder yields the error code, the new value of \<open>*resp\<close> and of
  \<open>*done\<close>, and the memory. Unpacking and packing are the generated code's.
\<close>

subsection \<open>Message codes\<close>

definition MSG_RPBERRORRESP :: u8 where "MSG_RPBERRORRESP = 0"
definition MSG_RPBPINGREQ :: u8 where "MSG_RPBPINGREQ = 1"
definition MSG_RPBPINGRESP :: u8 where "MSG_RPBPINGRESP = 2"
definition MSG_RPBGETCLIENTIDREQ :: u8 where "MSG_RPBGETCLIENTIDREQ = 3"
definition MSG_RPBGETCLIENTIDRESP :: u8 where "MSG_RPBGETCLIENTIDRESP = 4"
definition MSG_RPBSETCLIENTIDREQ :: u8 where "MSG_RPBSETCLIENTIDREQ = 5"
definition MSG_RPBSETCLIENTIDRESP :: u8 where "MSG_RPBSETCLIENTIDRESP = 6"
definition MSG_RPBGETSERVERINFOREQ :: u8 where "MSG_RPBGETSERVERINFOREQ = 7"
definition MSG_RPBGETSERVERINFORESP :: u8 where "MSG_RPBGETSERVERINFORESP = 8"
definition MSG_RPBGETREQ :: u8 where "MSG_RPBGETREQ = 9"
definition MSG_RPBGETRESP :: u8 where "MSG_RPBGETRESP = 10"
definition MSG_RPBPUTREQ :: u8 where "MSG_RPBPUTREQ = 11"
definition MSG_RPBPUTRESP :: u8 where "MSG_RPBPUTRESP = 12"
definition MSG_RPBDELREQ :: u8 where "MSG_RPBDELREQ = 13"
definition MSG_RPBDELRESP :: u8 where "MSG_RPBDELRESP = 14"
definition MSG_RPBLISTBUCKETSREQ :: u8 where "MSG_RPBLISTBUCKETSREQ = 15"
definition MSG_RPBLISTBUCKETSRESP :: u8 where "MSG_RPBLISTBUCKETSRESP = 16"
definition MSG_RPBLISTKEYSREQ :: u8 where "MSG_RPBLISTKEYSREQ = 17"
definition MSG_RPBLISTKEYSRESP :: u8 where "MSG_RPBLISTKEYSRESP = 18"
definition MSG_RPBGETBUCKETREQ :: u8 where "MSG_RPBGETBUCKETREQ = 19"
definition MSG_RPBGETBUCKETRESP :: u8 where "MSG_RPBGETBUCKETRESP = 20"
definition MSG_RPBSETBUCKETREQ :: u8 where "MSG_RPBSETBUCKETREQ = 21"
definition MSG_RPBSETBUCKETRESP :: u8 where "MSG_RPBSETBUCKETRESP = 22"
definition MSG_RPBMAPREDREQ :: u8 where "MSG_RPBMAPREDREQ = 23"
definition MSG_RPBMAPREDRESP :: u8 where "MSG_RPBMAPREDRESP = 24"
definition MSG_RPBINDEXREQ :: u8 where "MSG_RPBINDEXREQ = 25"
definition MSG_RPBINDEXRESP :: u8 where "MSG_RPBINDEXRESP = 26"
definition MSG_RPBSEARCHQUERYREQ :: u8 where "MSG_RPBSEARCHQUERYREQ = 27"
definition MSG_RBPSEARCHQUERYRESP :: u8 where "MSG_RBPSEARCHQUERYRESP = 28"
definition MSG_RPBRESETBUCKETREQ :: u8 where "MSG_RPBRESETBUCKETREQ = 29"
definition MSG_RPBRESETBUCKETRESP :: u8 where "MSG_RPBRESETBUCKETRESP = 30"

subsection \<open>Requests\<close>

text \<open>
  The end of every request encoder: a block for the packed message, the message, the
  \<open>riak_pb_message\<close>. \<open>alloc\<close> is the allocation call of the encoder and \<open>oom\<close> what it returns when
  that fails; \<open>cleanup\<close> is what it frees once the message is packed. The packed size is passed as
  the encoder stored it.
\<close>

definition send_packed_then ::
  "(csize \<Rightarrow> mem \<Rightarrow> (addr option \<times> mem) option) \<Rightarrow> riak_error \<Rightarrow> (mem \<Rightarrow> mem option) \<Rightarrow> u8 \<Rightarrow> u64 \<Rightarrow>
   bytes \<Rightarrow> 'd \<Rightarrow> ('r, 'd) riak_operation \<Rightarrow> mem \<Rightarrow>
   (riak_error \<times> ('r, 'd) riak_operation \<times> mem) option"
where
  "send_packed_then alloc oom cleanup code msglen packed decoder rop m =
     do { (p, m) \<leftarrow> alloc (Bytes (unat msglen)) m;
          (case p of
             None \<Rightarrow> Some (oom, rop, m)
           | Some a \<Rightarrow>
               do { guard (length packed \<le> unat msglen);
                    m \<leftarrow> cleanup m;
                    let (req, m) = riak_pb_message_new (rop_config rop) code msglen
                                     (Some \<lparr>buf_addr = a, buf_bytes = packed\<rparr>) m;
                    Some (if req = None then (ERIAK_OUT_OF_MEMORY, rop, m)
                          else (ERIAK_OK,
                                riak_operation_set_response_decoder (rop\<lparr>rop_pb_request := req\<rparr>) decoder,
                                m)) }) }"

definition send_packed ::
  "(csize \<Rightarrow> mem \<Rightarrow> (addr option \<times> mem) option) \<Rightarrow> riak_error \<Rightarrow> u8 \<Rightarrow> u64 \<Rightarrow> bytes \<Rightarrow> 'd \<Rightarrow>
   ('r, 'd) riak_operation \<Rightarrow> mem \<Rightarrow> (riak_error \<times> ('r, 'd) riak_operation \<times> mem) option"
where
  "send_packed alloc oom = send_packed_then alloc oom Some"

text \<open>A packed size that goes through a \<open>riak_uint32_t\<close>.\<close>

definition cut32 :: "u64 \<Rightarrow> u64" where
  "cut32 n = ucast (ucast n :: u32)"

text \<open>A request without a body.\<close>

definition send_empty ::
  "u8 \<Rightarrow> 'd \<Rightarrow> ('r, 'd) riak_operation \<Rightarrow> mem \<Rightarrow> (riak_error \<times> ('r, 'd) riak_operation \<times> mem) option"
where
  "send_empty code decoder rop m =
     (let (req, m) = riak_pb_message_new (rop_config rop) code 0 None m
      in Some (if req = None then (ERIAK_OUT_OF_MEMORY, rop, m)
               else (ERIAK_OK,
                     riak_operation_set_response_decoder (rop\<lparr>rop_pb_request := req\<rparr>) decoder, m)))"

text \<open>\<open>if (x != NULL) { riak_binary_copy_to_pb(&msg.x, x); msg.has_x = RIAK_TRUE; }\<close>\<close>

definition given_to_pb :: "riak_binary option \<Rightarrow> pb_binary field \<Rightarrow> pb_binary field option" where
  "given_to_pb x to =
     (if x \<noteq> None then do { b \<leftarrow> riak_binary_copy_to_pb x; Some (True, b) } else Some to)"

subsection \<open>Empty responses\<close>

text \<open>A response structure without fields.\<close>

record riak_ack =
  ack_at :: addr

definition ack_decode ::
  "string \<Rightarrow> ('r, 'd) riak_operation \<Rightarrow> riak_ack option \<Rightarrow> mem \<Rightarrow>
   (riak_error \<times> riak_ack option \<times> bool \<times> mem) option"
where
  "ack_decode elt rop resp m =
     do { (p, m) \<leftarrow> cfg_malloc (riak_operation_get_config rop) (SizeOf elt 1) m;
          Some (case p of
                  None \<Rightarrow> (ERIAK_OUT_OF_MEMORY, resp, True, m)
                | Some a \<Rightarrow> (ERIAK_OK, Some \<lparr>ack_at = a\<rparr>, True, m)) }"

definition ack_free :: "riak_config option \<Rightarrow> riak_ack option \<Rightarrow> mem \<Rightarrow> mem option" where
  "ack_free cfg resp m = riak_free cfg (map_option ack_at resp) m"

subsection \<open>Ping\<close>

record riak_ping_response =
  ping_at :: addr
  ping_success :: bool

definition riak_ping_request_encode ::
  "'d \<Rightarrow> ('r, 'd) riak_operation \<Rightarrow> mem \<Rightarrow> (riak_error \<times> ('r, 'd) riak_operation \<times> mem) option"
where
  "riak_ping_request_encode decoder rop m = send_empty MSG_RPBPINGREQ decoder rop m"

definition riak_ping_response_decode ::
  "('r, 'd) riak_operation \<Rightarrow> riak_ping_response option \<Rightarrow> mem \<Rightarrow>
   (riak_error \<times> riak_ping_response option \<times> bool \<times> mem) option"
where
  "riak_ping_response_decode rop resp m =
     do { (p, m) \<leftarrow> cfg_malloc (riak_operation_get_config rop) (SizeOf ''riak_ping_response'' 1) m;
          Some (case p of
                  None \<Rightarrow> (ERIAK_OUT_OF_MEMORY, resp, True, m)
                | Some a \<Rightarrow> (ERIAK_OK, Some \<lparr>ping_at = a, ping_success = True\<rparr>, True, m)) }"

definition riak_ping_response_free ::
  "riak_config option \<Rightarrow> riak_ping_response option \<Rightarrow> mem \<Rightarrow> mem option" where
  "riak_ping_response_free cfg resp m = riak_free cfg (map_option ping_at resp) m"

subsection \<open>Client ids\<close>

record riak_get_clientid_response =
  gci_at :: addr
  gci_client_id :: "riak_binary option"
  gci_internal :: "addr option"

definition riak_get_clientid_request_encode ::
  "'d \<Rightarrow> ('r, 'd) riak_operation \<Rightarrow> mem \<Rightarrow> (riak_error \<times> ('r, 'd) riak_operation \<times> mem) option"
where
  "riak_get_clientid_request_encode decoder rop m = send_empty MSG_RPBGETCLIENTIDREQ decoder rop m"

text \<open>The only field of \<open>RpbGetClientIdResp\<close> is the id. Nothing is freed when memory runs out.\<close>

definition riak_get_clientid_response_decode ::
  "(addr \<Rightarrow> bytes \<Rightarrow> pb_binary option) \<Rightarrow> ('r, 'd) riak_operation \<Rightarrow> riak_pb_message option \<Rightarrow>
   riak_get_clientid_response option \<Rightarrow> bool \<Rightarrow> mem \<Rightarrow>
   (riak_error \<times> riak_get_clientid_response option \<times> bool \<times> mem) option"
where
  "riak_get_clientid_response_decode unpack rop pbresp resp done m =
     do { let cfg = riak_operation_get_config rop;
          xs \<leftarrow> pbm_payload pbresp;
          let (u, m) = pb_unpack unpack xs m;
          (case u of
             None \<Rightarrow> Some (ERIAK_MESSAGE_FORMAT, resp, done, m)
           | Some (ua, client_id) \<Rightarrow>
               do { (p, m) \<leftarrow> cfg_malloc cfg (SizeOf ''riak_get_clientid_response'' 1) m;
                    (case p of
                       None \<Rightarrow> Some (ERIAK_OUT_OF_MEMORY, resp, True, m)
                     | Some a \<Rightarrow>
                         (let (b, m) = riak_binary_copy_from_pb cfg client_id m
                          in Some (if b = None then (ERIAK_OUT_OF_MEMORY, resp, True, m)
                                   else (ERIAK_OK, Some \<lparr>gci_at = a, gci_client_id = b,
                                                         gci_internal = Some ua\<rparr>, True, m)))) }) }"

definition riak_get_clientid_response_print ::
  "riak_print_state \<Rightarrow> riak_get_clientid_response \<Rightarrow> (i32 \<times> riak_print_state) option" where
  "riak_get_clientid_response_print st r =
     riak_print_label_binary_hex st (str ''client_id'') (gci_client_id r)"

definition riak_get_clientid_response_free ::
  "riak_config option \<Rightarrow> riak_get_clientid_response option \<Rightarrow> mem \<Rightarrow> mem option"
where
  "riak_get_clientid_response_free cfg resp m =
     (case resp of
        None \<Rightarrow> Some m
      | Some r \<Rightarrow> do { m \<leftarrow> riak_binary_free cfg (gci_client_id r) m;
                      m \<leftarrow> pb_free_unpacked (gci_internal r) m;
                      riak_free cfg (Some (gci_at r)) m })"

definition riak_get_clientid_get_clientid :: "riak_get_clientid_response \<Rightarrow> riak_binary option" where
  "riak_get_clientid_get_clientid resp = gci_client_id resp"

definition riak_set_clientid_response_decode ::
  "('r, 'd) riak_operation \<Rightarrow> riak_ack option \<Rightarrow> mem \<Rightarrow>
   (riak_error \<times> riak_ack option \<times> bool \<times> mem) option"
where
  "riak_set_clientid_response_decode rop resp m = ack_decode ''riak_set_clientid_response'' rop resp m"

text \<open>The request is its one field, the client id.\<close>

definition riak_set_clientid_request_encode ::
  "pb_binary pb_api \<Rightarrow> 'd \<Rightarrow> ('r, 'd) riak_operation \<Rightarrow> riak_binary option \<Rightarrow> mem \<Rightarrow>
   (riak_error \<times> ('r, 'd) riak_operation \<times> mem) option"
where
  "riak_set_clientid_request_encode api decoder rop clientid m =
     do { clidmsg \<leftarrow> riak_binary_copy_to_pb clientid;
          send_packed (cfg_malloc (rop_config rop)) ERIAK_OUT_OF_MEMORY MSG_RPBSETCLIENTIDREQ
            (cut32 (pb_packed_size api clidmsg)) (pb_pack api clidmsg) decoder rop m }"

definition riak_set_clientid_response_free ::
  "riak_config option \<Rightarrow> riak_ack option \<Rightarrow> mem \<Rightarrow> mem option" where
  "riak_set_clientid_response_free cfg resp m = ack_free cfg resp m"

subsection \<open>Server information\<close>

record riak_serverinfo_response =
  si_at :: addr
  si_node :: "riak_binary option field"
  si_server_version :: "riak_binary option field"
  si_internal :: "addr option"

record rpb_serverinfo =
  rsi_node :: "pb_binary field"
  rsi_server_version :: "pb_binary field"

definition riak_serverinfo_request_encode ::
  "'d \<Rightarrow> ('r, 'd) riak_operation \<Rightarrow> mem \<Rightarrow> (riak_error \<times> ('r, 'd) riak_operation \<times> mem) option"
where
  "riak_serverinfo_request_encode decoder rop m = send_empty MSG_RPBGETSERVERINFOREQ decoder rop m"

definition riak_serverinfo_response_decode ::
  "(addr \<Rightarrow> bytes \<Rightarrow> rpb_serverinfo option) \<Rightarrow> ('r, 'd) riak_operation \<Rightarrow> riak_pb_message option \<Rightarrow>
   riak_serverinfo_response option \<Rightarrow> bool \<Rightarrow> mem \<Rightarrow>
   (riak_error \<times> riak_serverinfo_response option \<times> bool \<times> mem) option"
where
  "riak_serverinfo_response_decode unpack rop pbresp resp done m =
     do { let cfg = riak_operation_get_config rop;
          xs \<leftarrow> pbm_payload pbresp;
          let (u, m) = pb_unpack unpack xs m;
          (case u of
             None \<Rightarrow> Some (ERIAK_MESSAGE_FORMAT, resp, done, m)
           | Some (ua, pb) \<Rightarrow>
               do { (p, m) \<leftarrow> cfg_malloc cfg (SizeOf ''riak_serverinfo_response'' 1) m;
                    (case p of
                       None \<Rightarrow> Some (ERIAK_OUT_OF_MEMORY, resp, True, m)
                     | Some a \<Rightarrow>
                         (let (r, m) =
                            opt_from_pb cfg (fst (rsi_node pb)) (snd (rsi_node pb)) (\<lambda>node.
                            opt_from_pb cfg (fst (rsi_server_version pb)) (snd (rsi_server_version pb))
                              (\<lambda>version m. (Some \<lparr>si_at = a, si_node = node, si_server_version = version,
                                                 si_internal = Some ua\<rparr>, m))) m
                          in Some (if r = None then (ERIAK_OUT_OF_MEMORY, resp, True, m)
                                   else (ERIAK_OK, r, True, m)))) }) }"

definition riak_serverinfo_response_print ::
  "riak_print_state \<Rightarrow> riak_serverinfo_response \<Rightarrow> (i32 \<times> riak_print_state) option"
where
  "riak_serverinfo_response_print st r =
     print_seq
       [print_when (fst (si_node r)) (\<lambda>st. riak_print_label_binary st (str ''Node'') (snd (si_node r))),
        print_when (fst (si_server_version r))
          (\<lambda>st. riak_print_label_binary st (str ''Version'') (snd (si_server_version r)))] st"

definition riak_serverinfo_response_free ::
  "riak_config option \<Rightarrow> riak_serverinfo_response option \<Rightarrow> mem \<Rightarrow> mem option"
where
  "riak_serverinfo_response_free cfg resp m =
     (case resp of
        None \<Rightarrow> Some m
      | Some r \<Rightarrow> do { m \<leftarrow> pb_free_unpacked (si_internal r) m;
                      m \<leftarrow> riak_binary_free cfg (snd (si_node r)) m;
                      m \<leftarrow> riak_binary_free cfg (snd (si_server_version r)) m;
                      riak_free cfg (Some (si_at r)) m })"

definition riak_serverinfo_get_has_node :: "riak_serverinfo_response \<Rightarrow> bool" where
  "riak_serverinfo_get_has_node resp = fst (si_node resp)"

definition riak_serverinfo_get_node :: "riak_serverinfo_response \<Rightarrow> riak_binary option" where
  "riak_serverinfo_get_node resp = snd (si_node resp)"

definition riak_serverinfo_get_has_server_version :: "riak_serverinfo_response \<Rightarrow> bool" where
  "riak_serverinfo_get_has_server_version resp = fst (si_server_version resp)"

definition riak_serverinfo_get_server_version :: "riak_serverinfo_response \<Rightarrow> riak_binary option" where
  "riak_serverinfo_get_server_version resp = snd (si_server_version resp)"

subsection \<open>Bucket properties\<close>

record rpb_bucket_req =
  rbq_bucket :: pb_binary
  rbq_type :: "pb_binary field"

record rpb_set_bucket_req =
  rsb_bucket :: pb_binary
  rsb_type :: "pb_binary field"
  rsb_props :: rpb_bucketprops

record riak_get_bucketprops_response =
  gbp_at :: addr
  gbp_props :: "riak_bucketprops option"
  gbp_internal :: "addr option"

text \<open>The error code of a failed allocation is 1 (\<open>ERIAK_TEST_FAILURE\<close>).\<close>

definition riak_get_bucketprops_request_encode ::
  "rpb_bucket_req pb_api \<Rightarrow> 'd \<Rightarrow> ('r, 'd) riak_operation \<Rightarrow> riak_binary option \<Rightarrow>
   riak_binary option \<Rightarrow> mem \<Rightarrow> (riak_error \<times> ('r, 'd) riak_operation \<times> mem) option"
where
  "riak_get_bucketprops_request_encode api decoder rop bucket_type bucket m =
     do { ty \<leftarrow> given_to_pb bucket_type (rbq_type (pb_init api));
          b \<leftarrow> riak_binary_copy_to_pb bucket;
          let bucketreq = (pb_init api)\<lparr>rbq_type := ty, rbq_bucket := b\<rparr>;
          send_packed (cfg_malloc (rop_config rop)) ERIAK_TEST_FAILURE MSG_RPBGETBUCKETREQ
            (pb_packed_size api bucketreq) (pb_pack api bucketreq) decoder rop m }"

text \<open>
  An error of the conversion is not returned: the message and the response are freed and the
  result is \<open>ERIAK_OK\<close> with a NULL response.
\<close>

definition riak_get_bucketprops_response_decode ::
  "(addr \<Rightarrow> bytes \<Rightarrow> rpb_bucketprops option) \<Rightarrow> ('r, 'd) riak_operation \<Rightarrow> riak_pb_message option \<Rightarrow>
   riak_get_bucketprops_response option \<Rightarrow> bool \<Rightarrow> mem \<Rightarrow>
   (riak_error \<times> riak_get_bucketprops_response option \<times> bool \<times> mem) option"
where
  "riak_get_bucketprops_response_decode unpack rop pbresp resp done m =
     do { let cfg = riak_operation_get_config rop;
          xs \<leftarrow> pbm_payload pbresp;
          let (u, m) = pb_unpack unpack xs m;
          (case u of
             None \<Rightarrow> Some (ERIAK_MESSAGE_FORMAT, resp, done, m)
           | Some (ua, pbprops) \<Rightarrow>
               do { (p, m) \<leftarrow> cfg_malloc cfg (SizeOf ''riak_get_bucketprops_response'' 1) m;
                    (case p of
                       None \<Rightarrow> Some (ERIAK_OUT_OF_MEMORY, resp, True, m)
                     | Some a \<Rightarrow>
                         do { (err, props, m) \<leftarrow> riak_bucketprops_new_from_pb cfg pbprops m;
                              (if err \<noteq> ERIAK_OK
                               then do { m \<leftarrow> pb_free_unpacked (Some ua) m;
                                         m \<leftarrow> riak_free cfg (Some a) m;
                                         Some (ERIAK_OK, None, True, m) }
                               else Some (ERIAK_OK, Some \<lparr>gbp_at = a, gbp_props = props,
                                                          gbp_internal = Some ua\<rparr>, True, m)) }) }) }"

text \<open>The unpacked message (\<open>gbp_internal\<close>) is not freed.\<close>

definition riak_get_bucketprops_response_free ::
  "riak_config option \<Rightarrow> riak_get_bucketprops_response option \<Rightarrow> mem \<Rightarrow> mem option"
where
  "riak_get_bucketprops_response_free cfg resp m =
     (case resp of
        None \<Rightarrow> Some m
      | Some r \<Rightarrow> do { m \<leftarrow> riak_bucketprops_free cfg (gbp_props r) m;
                      riak_free cfg (Some (gbp_at r)) m })"

definition riak_get_bucketprops_response_print ::
  "riak_print_state \<Rightarrow> riak_get_bucketprops_response \<Rightarrow> (i32 \<times> riak_print_state) option" where
  "riak_get_bucketprops_response_print st r =
     do { p \<leftarrow> gbp_props r; riak_bucketprops_print st p }"

text \<open>
  The properties are converted into a message on the stack; what the conversion allocated is not
  freed and its error code is not looked at. \<open>init_props\<close> is what \<open>rpb_bucket_props__init\<close> stores.
  protobuf-c follows the headers of the nested messages when it measures and packs.
\<close>

definition riak_set_bucketprops_request_encode ::
  "rpb_set_bucket_req pb_api \<Rightarrow> rpb_bucketprops \<Rightarrow> 'd \<Rightarrow> ('r, 'd) riak_operation \<Rightarrow> riak_binary option \<Rightarrow>
   riak_binary option \<Rightarrow> riak_bucketprops \<Rightarrow> mem \<Rightarrow>
   (riak_error \<times> ('r, 'd) riak_operation \<times> mem) option"
where
  "riak_set_bucketprops_request_encode api init_props decoder rop bucket_type bucket props m =
     do { ty \<leftarrow> given_to_pb bucket_type (rsb_type (pb_init api));
          b \<leftarrow> riak_binary_copy_to_pb bucket;
          (err, pbprops, m) \<leftarrow> riak_bucketprops_to_pb_copy (rop_config rop) init_props props m;
          let setmsg = (pb_init api)\<lparr>rsb_type := ty, rsb_bucket := b, rsb_props := pbprops\<rparr>;
          guard (rbp_packable pbprops);
          send_packed (cfg_malloc (rop_config rop)) ERIAK_OUT_OF_MEMORY MSG_RPBSETBUCKETREQ
            (cut32 (pb_packed_size api setmsg)) (pb_pack api setmsg) decoder rop m }"

definition riak_set_bucketprops_response_decode ::
  "('r, 'd) riak_operation \<Rightarrow> riak_ack option \<Rightarrow> mem \<Rightarrow>
   (riak_error \<times> riak_ack option \<times> bool \<times> mem) option"
where
  "riak_set_bucketprops_response_decode rop resp m =
     ack_decode ''riak_set_bucketprops_response'' rop resp m"

definition riak_set_bucketprops_response_free ::
  "riak_config option \<Rightarrow> riak_ack option \<Rightarrow> mem \<Rightarrow> mem option" where
  "riak_set_bucketprops_response_free cfg resp m = ack_free cfg resp m"

text \<open>
  The code of the request is the one of a set request, and the parameters are in another order
  than in the declaration (bucket type first) that callers compile against.
\<close>

definition riak_reset_bucketprops_request_encode ::
  "rpb_bucket_req pb_api \<Rightarrow> 'd \<Rightarrow> ('r, 'd) riak_operation \<Rightarrow> riak_binary option \<Rightarrow>
   riak_binary option \<Rightarrow> mem \<Rightarrow> (riak_error \<times> ('r, 'd) riak_operation \<times> mem) option"
where
  "riak_reset_bucketprops_request_encode api decoder rop bucket bucket_type m =
     do { ty \<leftarrow> given_to_pb bucket_type (rbq_type (pb_init api));
          b \<leftarrow> riak_binary_copy_to_pb bucket;
          let resetmsg = (pb_init api)\<lparr>rbq_type := ty, rbq_bucket := b\<rparr>;
          send_packed (cfg_malloc (rop_config rop)) ERIAK_OUT_OF_MEMORY MSG_RPBSETBUCKETREQ
            (cut32 (pb_packed_size api resetmsg)) (pb_pack api resetmsg) decoder rop m }"

definition riak_reset_bucketprops_response_decode ::
  "('r, 'd) riak_operation \<Rightarrow> riak_ack option \<Rightarrow> mem \<Rightarrow>
   (riak_error \<times> riak_ack option \<times> bool \<times> mem) option"
where
  "riak_reset_bucketprops_response_decode rop resp m =
     ack_decode ''riak_reset_bucketprops_response'' rop resp m"

definition riak_reset_bucketprops_response_free ::
  "riak_config option \<Rightarrow> riak_ack option \<Rightarrow> mem \<Rightarrow> mem option" where
  "riak_reset_bucketprops_response_free cfg resp m = ack_free cfg resp m"

subsection \<open>What the encoders send\<close>

text \<open>
  A request encoder that started from the operation \<open>rop\<close> has set its request and its decoder,
  and writing the request sends one frame with this code and this body.
\<close>

definition sends ::
  "u8 \<Rightarrow> bytes \<Rightarrow> 'd \<Rightarrow> ('r, 'd) riak_operation \<Rightarrow> mem \<Rightarrow>
   (riak_error \<times> ('r, 'd) riak_operation \<times> mem) option \<Rightarrow> bool"
where
  "sends code body decoder rop m r \<longleftrightarrow>
     (\<exists>p m'. r = Some (ERIAK_OK, rop\<lparr>rop_pb_request := Some p, rop_decoder := Some decoder\<rparr>, m') \<and>
        mem_allocs m (pbm_owned p) m' \<and>
        (\<forall>io. riak_write (rop\<lparr>rop_pb_request := Some p, rop_decoder := Some decoder\<rparr>) write_all io =
           Some (ERIAK_OK, io @ frame code body)))"

lemma send_empty_sends:
  assumes "cfg_grants (rop_config rop)"
  shows "sends code [] decoder rop m (send_empty code decoder rop m)"
proof -
  let ?p = "\<lparr>pbm_at = mem_next m, pbm_len = 0, pbm_msgid = code, pbm_data = None\<rparr>"
  have "riak_write (rop\<lparr>rop_pb_request := Some ?p, rop_decoder := Some decoder\<rparr>) write_all io =
      Some (ERIAK_OK, io @ frame code [])" for io
    by (simp add: riak_write_def write_all_def frame_def u32_bytes_ntohl Let_def)
  moreover have "mem_allocs m (pbm_owned ?p) (mem_push m)" by (auto simp: pbm_owned_def)
  ultimately show ?thesis
    unfolding sends_def
    by (intro exI [of _ ?p] exI [of _ "mem_push m"])
      (simp add: send_empty_def riak_pb_message_new_def clean_allocate_eq
        allocate_granted [OF assms] riak_operation_set_response_decoder_def)
qed

lemma cut32_small: "unat n < 2 ^ 32 \<Longrightarrow> cut32 n = n"
  by (simp add: cut32_def word_unat_eq_iff unsigned_ucast_eq unsigned_take_bit_eq take_bit_nat_eq_self)

lemma mem_allocs_snoc:
  "mem_allocs m as m' \<Longrightarrow> mem_allocs m (as @ [mem_next m']) (mem_push m')"
  using mem_allocs_trans [OF _ mem_allocs_push] by blast

lemma mem_allocs_free_part:
  assumes "mem_allocs m (xs @ as) m'" "mem_wf m" "mset ys = mset xs"
  shows "mem_free_all ys m' = Some (m'\<lparr>mem_live := mem_live m' - set xs\<rparr>)"
    and "mem_allocs m as (m'\<lparr>mem_live := mem_live m' - set xs\<rparr>)"
proof -
  have *: "set ys = set xs" "distinct ys"
    using assms(1,3) by (metis mset_eq_setD, metis distinct_append mem_allocs_def mset_eq_imp_distinct_iff)
  have "set ys \<subseteq> mem_live m'" using mem_allocs_live [OF assms(1)] * by auto
  then show "mem_free_all ys m' = Some (m'\<lparr>mem_live := mem_live m' - set xs\<rparr>)"
    using mem_free_all_Some [OF *(2)] * by simp
  have "set xs \<inter> mem_live m = {}" using mem_allocs_fresh [OF assms(1,2)] by auto
  then show "mem_allocs m as (m'\<lparr>mem_live := mem_live m' - set xs\<rparr>)"
    using assms(1) by (auto simp: mem_allocs_def)
qed

lemma send_packed_then_sends:
  assumes g: "cfg_grants (rop_config rop)" and n: "unat msglen = length body" "length body < 2 ^ 31"
    and alloc: "\<And>sz. alloc sz m = Some (riak_config_allocate (rop_config rop) sz m)"
    and m: "mem_wf m0" "mem_allocs m0 xs m"
    and cleanup: "cleanup = mem_free_all ys" "mset ys = mset xs"
  shows "sends code body decoder rop m0
    (send_packed_then alloc oom cleanup code msglen body decoder rop m)"
proof -
  let ?m = "(mem_push m)\<lparr>mem_live := mem_live (mem_push m) - set xs\<rparr>"
  let ?p = "\<lparr>pbm_at = Suc (mem_next m), pbm_len = ucast msglen, pbm_msgid = code,
    pbm_data = Some \<lparr>buf_addr = mem_next m, buf_bytes = body\<rparr>\<rparr>"
  have "unat (ucast msglen :: u32) = length body"
    using n by (simp add: unsigned_ucast_eq take_bit_nat_eq_self)
  then have w: "riak_write (rop\<lparr>rop_pb_request := Some ?p, rop_decoder := Some decoder\<rparr>) write_all io =
      Some (ERIAK_OK, io @ frame code body)" for io
    using riak_write_frame [of "rop\<lparr>rop_pb_request := Some ?p, rop_decoder := Some decoder\<rparr>" ?p
        "\<lparr>buf_addr = mem_next m, buf_bytes = body\<rparr>" body "[]" io] n
    by simp
  note fr = mem_allocs_free_part [OF mem_allocs_snoc [OF m(2)] m(1) cleanup(2)]
  have "mem_allocs m0 (pbm_owned ?p) (mem_push ?m)"
    using mem_allocs_snoc [OF fr(2)] by (simp add: pbm_owned_def)
  with w show ?thesis
    unfolding sends_def
    by (intro exI [of _ ?p] exI [of _ "mem_push ?m"])
      (simp add: n send_packed_then_def alloc riak_pb_message_new_def clean_allocate_eq
        allocate_granted [OF g] riak_operation_set_response_decoder_def cleanup(1) fr(1))
qed

lemma send_packed_sends:
  assumes g: "cfg_grants (rop_config rop)" and n: "unat msglen = length body" "length body < 2 ^ 31"
    and alloc: "\<And>sz. alloc sz m = Some (riak_config_allocate (rop_config rop) sz m)" and m: "mem_wf m"
  shows "sends code body decoder rop m (send_packed alloc oom code msglen body decoder rop m)"
proof -
  have "Some = mem_free_all []" by (simp add: fun_eq_iff)
  then show ?thesis
    unfolding send_packed_def by (intro send_packed_then_sends [where xs = "[]" and ys = "[]"] g n alloc m) simp_all
qed

text \<open>What the encoders need of the generated code: the size it announces is the size it packs.\<close>

definition packs :: "'m pb_api \<Rightarrow> 'm \<Rightarrow> bool" where
  "packs api msg \<longleftrightarrow> unat (pb_packed_size api msg) = length (pb_pack api msg) \<and> length (pb_pack api msg) < 2 ^ 31"

lemma send_cfg_malloc:
  assumes "cfg_grants (rop_config rop)" "packs api msg" "mem_wf m"
  shows "sends code (pb_pack api msg) decoder rop m
      (send_packed (cfg_malloc (rop_config rop)) oom code (pb_packed_size api msg) (pb_pack api msg) decoder rop m)"
    and "sends code (pb_pack api msg) decoder rop m
      (send_packed (cfg_malloc (rop_config rop)) oom code (cut32 (pb_packed_size api msg)) (pb_pack api msg) decoder rop m)"
  using assms by (auto intro!: send_packed_sends simp: packs_def cfg_malloc_eq cut32_small)

lemma send_clean_allocate:
  assumes "cfg_grants (rop_config rop)" "packs api msg" "mem_wf m"
  shows "sends code (pb_pack api msg) decoder rop m
      (send_packed (\<lambda>sz m. Some (riak_config_clean_allocate (rop_config rop) sz m)) oom code
        (cut32 (pb_packed_size api msg)) (pb_pack api msg) decoder rop m)"
  using assms by (intro send_packed_sends) (auto simp: packs_def clean_allocate_eq cut32_small)

subsection \<open>What the responses own\<close>

definition gci_owned :: "riak_get_clientid_response \<Rightarrow> addr list" where
  "gci_owned r = bin.owned_p (gci_client_id r) @ ptrs (gci_internal r) @ [gci_at r]"

interpretation gci: owned_ptr "\<lambda>_. True" gci_owned riak_get_clientid_response_free
  by unfold_locales (simp_all add: riak_get_clientid_response_free_def gci_owned_def mem_simps)

definition si_owned :: "riak_serverinfo_response \<Rightarrow> addr list" where
  "si_owned r = ptrs (si_internal r) @ bin.owned_p (snd (si_node r)) @
     bin.owned_p (snd (si_server_version r)) @ [si_at r]"

interpretation si: owned_ptr "\<lambda>_. True" si_owned riak_serverinfo_response_free
  by unfold_locales (simp_all add: riak_serverinfo_response_free_def si_owned_def mem_simps)

interpretation ping: owned_ptr "\<lambda>_. True" "\<lambda>r. [ping_at r]" riak_ping_response_free
  by unfold_locales (simp_all add: riak_ping_response_free_def mem_simps)

interpretation ack: owned_ptr "\<lambda>_. True" "\<lambda>r. [ack_at r]" ack_free
  by unfold_locales (simp_all add: ack_free_def mem_simps)

lemma copy_from_pb_granted:
  "cfg_grants cfg \<Longrightarrow> riak_binary_copy_from_pb cfg b m =
   (Some \<lparr>bin_at = mem_next m, bin_len = (if pbb_data b = None then 0 else pbb_len b),
          bin_data = pbb_data b, bin_managed = False\<rparr>, mem_push m)"
  by (simp add: riak_binary_copy_from_pb_def allocate_granted Let_def)

lemma copied_bytes [simp]:
  "pbb_wf b \<Longrightarrow> bin_bytes \<lparr>bin_at = a, bin_len = (if pbb_data b = None then 0 else pbb_len b),
     bin_data = pbb_data b, bin_managed = False\<rparr> = pbb_bytes b"
  by (auto simp: pbb_wf_def pbb_bytes_def bin_bytes_def c_read_def split: if_splits)

text \<open>
  Decoding a response allocates what it owns, so decoding and freeing leave the ledger as it was.
\<close>

lemma riak_serverinfo_response_decode_ok:
  assumes g: "cfg_grants (rop_config rop)" and xs: "pbm_payload pbresp = Some xs"
    and u: "unpack (mem_next m) xs = Some pb"
    and wf: "fst (rsi_node pb) \<Longrightarrow> pbb_wf (snd (rsi_node pb))"
      "fst (rsi_server_version pb) \<Longrightarrow> pbb_wf (snd (rsi_server_version pb))"
  shows "\<exists>r m'. riak_serverinfo_response_decode unpack rop pbresp resp done m = Some (ERIAK_OK, Some r, True, m') \<and>
    mem_allocs m (si_owned r) m' \<and>
    map_option bin_bytes (riak_serverinfo_get_node r) = map_option pbb_bytes (field_opt (rsi_node pb)) \<and>
    map_option bin_bytes (riak_serverinfo_get_server_version r) =
      map_option pbb_bytes (field_opt (rsi_server_version pb))"
  using wf
  by (cases "fst (rsi_node pb)"; cases "fst (rsi_server_version pb)")
    (simp_all add: riak_serverinfo_response_decode_def riak_operation_get_config_def xs u pb_unpack_def
      cfg_malloc_eq [OF cfg_grants_ok [OF g]] allocate_granted [OF g] copy_from_pb_granted [OF g]
      opt_from_pb_def si_owned_def bin_owned_def mem_allocs_def field_opt_def when_flag_def
      riak_serverinfo_get_node_def riak_serverinfo_get_server_version_def insert_commute)

lemma riak_get_clientid_response_decode_ok:
  assumes g: "cfg_grants (rop_config rop)" and xs: "pbm_payload pbresp = Some xs"
    and u: "unpack (mem_next m) xs = Some pb" and wf: "pbb_wf pb"
  shows "\<exists>r m'. riak_get_clientid_response_decode unpack rop pbresp resp done m = Some (ERIAK_OK, Some r, True, m') \<and>
    mem_allocs m (gci_owned r) m' \<and>
    map_option bin_bytes (riak_get_clientid_get_clientid r) = Some (pbb_bytes pb)"
  using wf
  by (simp add: riak_get_clientid_response_decode_def riak_operation_get_config_def xs u pb_unpack_def
      cfg_malloc_eq [OF cfg_grants_ok [OF g]] allocate_granted [OF g] copy_from_pb_granted [OF g]
      gci_owned_def bin_owned_def mem_allocs_def riak_get_clientid_get_clientid_def insert_commute)

text \<open>The simple requests send exactly one frame; a reset is sent with the code of a set.\<close>

lemma riak_set_clientid_request_sends:
  assumes "cfg_grants (rop_config rop)" "riak_binary_copy_to_pb clientid = Some b" "packs api b" "mem_wf m"
  shows "sends MSG_RPBSETCLIENTIDREQ (pb_pack api b) decoder rop m
    (riak_set_clientid_request_encode api decoder rop clientid m)"
  using send_cfg_malloc [OF assms(1,3,4)] by (simp add: riak_set_clientid_request_encode_def assms(2))

lemma given_to_pb_Some [simp]:
  "riak_binary_copy_to_pb (Some x) = Some b \<Longrightarrow> given_to_pb (Some x) to = Some (True, b)"
  "given_to_pb None to = Some to"
  by (simp_all add: given_to_pb_def)

lemma riak_reset_bucketprops_request_sends:
  assumes "cfg_grants (rop_config rop)" "riak_binary_copy_to_pb bucket = Some b"
    and "given_to_pb bucket_type (rbq_type (pb_init api)) = Some ty"
    and "msg = (pb_init api)\<lparr>rbq_type := ty, rbq_bucket := b\<rparr>" "packs api msg" "mem_wf m"
  shows "sends MSG_RPBSETBUCKETREQ (pb_pack api msg) decoder rop m
    (riak_reset_bucketprops_request_encode api decoder rop bucket bucket_type m)"
  using send_cfg_malloc [OF assms(1,5,6)]
  by (simp add: riak_reset_bucketprops_request_encode_def assms(2,3) flip: assms(4))

lemma riak_reset_bucketprops_no_bucket:
  "riak_reset_bucketprops_request_encode api decoder rop None bucket_type m = None"
  by (simp add: riak_reset_bucketprops_request_encode_def riak_binary_copy_to_pb_def split: bind_splits)

lemma riak_get_bucketprops_response_decode_eq:
  assumes g: "cfg_grants (rop_config rop)" and xs: "pbm_payload pbresp = Some xs"
    and u: "unpack (mem_next m) xs = Some pb"
    and ok: "riak_bucketprops_new_from_pb (rop_config rop) pb (mem_push (mem_push m)) = Some (ERIAK_OK, p, m')"
  shows "riak_get_bucketprops_response_decode unpack rop pbresp resp done m =
    Some (ERIAK_OK, Some \<lparr>gbp_at = Suc (mem_next m), gbp_props = p, gbp_internal = Some (mem_next m)\<rparr>, True, m')"
  using ok by (simp add: riak_get_bucketprops_response_decode_def riak_operation_get_config_def xs u
      pb_unpack_def cfg_malloc_eq [OF cfg_grants_ok [OF g]] allocate_granted [OF g])

lemma riak_get_bucketprops_response_decode_error:
  assumes g: "cfg_grants (rop_config rop)" and xs: "pbm_payload pbresp = Some xs"
    and u: "unpack (mem_next m) xs = Some pb"
    and err: "riak_bucketprops_new_from_pb (rop_config rop) pb (mem_push (mem_push m)) = Some (err, p, m')"
      "err \<noteq> ERIAK_OK" "mem_next m \<in> mem_live m'" "Suc (mem_next m) \<in> mem_live m'"
  shows "\<exists>m''. riak_get_bucketprops_response_decode unpack rop pbresp resp done m = Some (ERIAK_OK, None, True, m'')"
  using err by (simp add: riak_get_bucketprops_response_decode_def riak_operation_get_config_def xs u
      pb_unpack_def cfg_malloc_eq [OF cfg_grants_ok [OF g]] allocate_granted [OF g] mem_simps
      cfg_grants_ok [OF g] mem_free_def)

end
