(* ===== verification/Riak_Response.thy ===== *)
theory Riak_Response
  imports Riak_Message
begin

text \<open>
  What the larger responses share: the loops that convert the contents of a reply to objects
  (\<^verbatim>\<open>src/messages/riak_get.c\<close>, \<^verbatim>\<open>src/messages/riak_put.c\<close>), the loops that print an array as long as
  there is room, and the facts about both.
\<close>

subsection \<open>Printing an array\<close>

text \<open>\<open>for (i = 0; (i < n) && (riak_print_len(state) > 0); i++)\<close> over an array of pointers.\<close>

fun print_cells :: "('a \<Rightarrow> printer) \<Rightarrow> 'a option list \<Rightarrow> nat \<Rightarrow> printer" where
  "print_cells f cells 0 st = Some (0, st)"
| "print_cells f cells (Suc n) st =
     (if sint (riak_print_len st) > 0
      then do { x \<leftarrow> pa_next cells;
                (w, st) \<leftarrow> f x st;
                (ws, st) \<leftarrow> print_cells f (tl cells) n st;
                Some (w + ws, st) }
      else Some (0, st))"

lemma print_safe_room:
  assumes "print_safe f" "print_safe g"
  shows "print_safe (\<lambda>st. if sint (riak_print_len st) > 0
    then do { (w, st) \<leftarrow> f st; (ws, st) \<leftarrow> g st; Some (w + ws, st) } else Some (0, st))"
proof -
  have "print_safe (print_seq [f, print_seq [g]])"
    using assms by (intro print_safe_list) (simp add: print_safe_list)
  then show ?thesis unfolding print_safe_def by (auto split: bind_splits)
qed

lemma print_safe_cells:
  assumes "arr_ok p n" "\<And>x. x \<in> set (arr_elems p n) \<Longrightarrow> print_safe (f x)"
  shows "print_safe (print_cells f (pa_list p) n)"
proof -
  obtain rest where p: "pa_list p = map Some (arr_elems p n) @ rest" "length (arr_elems p n) = n"
    using arr_ok_cells [OF assms(1)] .
  have "\<forall>x \<in> set xs. print_safe (f x) \<Longrightarrow> print_safe (print_cells f (map Some xs @ rest) (length xs))" for xs
  proof (induction xs)
    case Nil
    then show ?case using print_safe_list [of "[]"] by (simp add: print_safe_def)
  next
    case (Cons x xs)
    then have "print_safe (f x)" "print_safe (print_cells f (map Some xs @ rest) (length xs))" by simp_all
    then have "print_safe (\<lambda>st. if sint (riak_print_len st) > 0
          then do { (w, st) \<leftarrow> f x st; (ws, st) \<leftarrow> print_cells f (map Some xs @ rest) (length xs) st;
                    Some (w + ws, st) }
          else Some (0, st))"
      by (rule print_safe_room)
    moreover have "print_cells f (map Some (x # xs) @ rest) (length (x # xs)) =
        (\<lambda>st. if sint (riak_print_len st) > 0
          then do { (w, st) \<leftarrow> f x st; (ws, st) \<leftarrow> print_cells f (map Some xs @ rest) (length xs) st;
                    Some (w + ws, st) }
          else Some (0, st))"
      by (simp add: fun_eq_iff)
    ultimately show ?case by (simp only:)
  qed
  then show ?thesis using assms(2) p by metis
qed

subsection \<open>The contents of a reply\<close>

text \<open>
  The loop that converts \<open>n\<close> contents. The objects made so far are \<open>made\<close>; the index is an \<open>int\<close>.
  \<open>name\<close> is what the caller adds to each object. An error stops the loop.
\<close>

fun contents_from_pb ::
  "riak_config option \<Rightarrow> (riak_object \<Rightarrow> mem \<Rightarrow> (riak_object \<times> mem) option) \<Rightarrow> rpb_content option list \<Rightarrow>
   nat \<Rightarrow> riak_object option list \<Rightarrow> mem \<Rightarrow> (riak_error \<times> riak_object option list \<times> mem) option"
where
  "contents_from_pb cfg name cells 0 made m = Some (ERIAK_OK, made, m)"
| "contents_from_pb cfg name cells (Suc n) made m =
     do { guard (length made < 2 ^ 31 - 1);
          c \<leftarrow> pa_next cells;
          (err, ob, m) \<leftarrow> riak_object_new_from_pb cfg c m;
          (if err \<noteq> ERIAK_OK then Some (err, made, m)
           else do { ob \<leftarrow> ob;
                     (ob, m) \<leftarrow> name ob m;
                     contents_from_pb cfg name (tl cells) n (made @ [Some ob]) m }) }"

text \<open>
  The array of objects of a reply. When an object cannot be made, the ones before it and the array
  are freed.
\<close>

definition contents_array ::
  "riak_config option \<Rightarrow> (riak_object \<Rightarrow> mem \<Rightarrow> (riak_object \<times> mem) option) \<Rightarrow>
   rpb_content parray option \<Rightarrow> u64 \<Rightarrow> riak_object parray \<Rightarrow> mem \<Rightarrow>
   (riak_error \<times> riak_object parray option \<times> mem) option"
where
  "contents_array cfg name contents n objs m =
     do { (err, made, m) \<leftarrow> contents_from_pb cfg name (pa_list contents) (unat n) [] m;
          let objs = objs\<lparr>pa_cells := made @ drop (length made) (pa_cells objs)\<rparr>;
          (if err \<noteq> ERIAK_OK
           then do { m \<leftarrow> riak_object_free_array cfg (Some objs) (of_nat (length made)) m;
                     Some (err, None, m) }
           else Some (ERIAK_OK, Some objs, m)) }"

text \<open>What the caller's addition to an object may do: allocate what the object then owns.\<close>

definition names_ok ::
  "(riak_object \<Rightarrow> mem \<Rightarrow> (riak_object \<times> mem) option) \<Rightarrow> (riak_object \<Rightarrow> bool) \<Rightarrow> bool"
where
  "names_ok name named \<longleftrightarrow> (\<forall>ob m. object_wf ob \<longrightarrow> obj_bucket ob = None \<longrightarrow> obj_bucket_type ob = None \<longrightarrow>
     obj_key ob = None \<longrightarrow> \<not> obj_has_bucket_type ob \<longrightarrow>
     (\<exists>ob' m' as. name ob m = Some (ob', m') \<and> object_wf ob' \<and> object_content ob' = object_content ob \<and>
        named ob' \<and> mem_allocs m as m' \<and> mset (obj_owned ob') = mset (obj_owned ob @ as)))"

lemma contents_from_pb_ok:
  assumes g: "cfg_grants cfg" and nm: "names_ok name named" and "list_all rpc_wf cs"
    and "length made + length cs < 2 ^ 31"
  shows "\<exists>obs m'. contents_from_pb cfg name (map Some cs @ rest) (length cs) made m =
      Some (ERIAK_OK, made @ map Some obs, m') \<and> length obs = length cs \<and>
    list_all (\<lambda>ob. object_wf ob \<and> named ob) obs \<and> map object_content obs = map rpb_content_of cs \<and>
    mem_allocs m (concat (map obj_owned obs)) m'"
  using assms(3,4)
proof (induction cs arbitrary: made m)
  case (Cons c cs)
  obtain ob m1 where o: "riak_object_new_from_pb cfg c m = Some (ERIAK_OK, Some ob, m1)" "object_wf ob"
    "object_content ob = rpb_content_of c" "mem_allocs m (obj_owned ob) m1" "obj_bucket ob = None"
    "obj_bucket_type ob = None" "obj_key ob = None" "\<not> obj_has_bucket_type ob"
    using riak_object_new_from_pb_ok [OF g, of c m] Cons.prems(1) by auto
  from nm [unfolded names_ok_def, rule_format, OF o(2,5-8), of m1] obtain ob' m2 as where
    n: "name ob m1 = Some (ob', m2)" "object_wf ob'" "object_content ob' = object_content ob" "named ob'"
    "mem_allocs m1 as m2" "mset (obj_owned ob') = mset (obj_owned ob @ as)"
    by blast
  have a: "mem_allocs m (obj_owned ob') m2"
    by (rule mem_allocs_mset [OF mem_allocs_trans [OF o(4) n(5)] n(6)])
  obtain obs m3 where r: "contents_from_pb cfg name (map Some cs @ rest) (length cs) (made @ [Some ob']) m2 =
      Some (ERIAK_OK, (made @ [Some ob']) @ map Some obs, m3)" "length obs = length cs"
    "list_all (\<lambda>ob. object_wf ob \<and> named ob) obs" "map object_content obs = map rpb_content_of cs"
    "mem_allocs m2 (concat (map obj_owned obs)) m3"
    using Cons.IH [of "made @ [Some ob']" m2] Cons.prems by auto
  from mem_allocs_trans [OF a r(5)] show ?case
    using o n r Cons.prems by (intro exI [of _ "ob' # obs"] exI [of _ m3]) simp
qed auto

lemma contents_array_ok:
  assumes g: "cfg_grants cfg" and nm: "names_ok name named" and "arr_ok contents (unat n)"
    and "list_all rpc_wf (arr_elems contents (unat n))" "unat n < 2 ^ 31"
    and len: "length (pa_cells objs) = unat n"
  shows "\<exists>obs m'. contents_array cfg name contents n objs m =
      Some (ERIAK_OK, Some (objs\<lparr>pa_cells := map Some obs\<rparr>), m') \<and> length obs = unat n \<and>
    list_all (\<lambda>ob. object_wf ob \<and> named ob) obs \<and>
    map object_content obs = map rpb_content_of (arr_elems contents (unat n)) \<and>
    mem_allocs m (concat (map obj_owned obs)) m'"
proof -
  obtain rest where p: "pa_list contents = map Some (arr_elems contents (unat n)) @ rest"
    "length (arr_elems contents (unat n)) = unat n"
    using arr_ok_cells [OF assms(3)] .
  obtain obs m' where "contents_from_pb cfg name (pa_list contents) (unat n) [] m = Some (ERIAK_OK, map Some obs, m')"
    "length obs = unat n" "list_all (\<lambda>ob. object_wf ob \<and> named ob) obs"
    "map object_content obs = map rpb_content_of (arr_elems contents (unat n))"
    "mem_allocs m (concat (map obj_owned obs)) m'"
    using contents_from_pb_ok [OF g nm assms(4), of "[]" rest m] p assms(5) by auto
  then show ?thesis using len by (auto simp: contents_array_def)
qed

text \<open>An array of objects that a response owns while it is not empty.\<close>

definition objs_ok :: "riak_object parray option \<Rightarrow> nat \<Rightarrow> bool" where
  "objs_ok p n \<longleftrightarrow> (0 < n \<longrightarrow> (case p of None \<Rightarrow> False
     | Some a \<Rightarrow> length (pa_cells a) = n \<and> list_all (pred_option obj_arrays_ok) (pa_cells a)))"

definition objs_owned :: "riak_object parray option \<Rightarrow> nat \<Rightarrow> addr list" where
  "objs_owned p n = (if 0 < n then concat (map obj.owned_p (pa_list p)) @ ptrs (map_option pa_addr p) else [])"

lemma objs_free:
  assumes "cfg_ok cfg" "objs_ok p n" "0 < n" "unat len = n"
  shows "riak_object_free_array cfg p len m = mem_free_all (objs_owned p n) m"
  using assms riak_object_free_array_owned [OF assms(1)]
  by (auto simp: objs_ok_def objs_owned_def split: option.splits)

lemma objs_made:
  assumes "list_all object_wf obs" "length obs = n" "0 < n"
  shows "objs_ok (Some \<lparr>pa_addr = a, pa_cells = map Some obs\<rparr>) n"
    and "objs_owned (Some \<lparr>pa_addr = a, pa_cells = map Some obs\<rparr>) n = concat (map obj_owned obs) @ [a]"
  using assms by (auto simp: objs_ok_def objs_owned_def list_all_iff object_wf_def obj.owned_p_def comp_def)

subsection \<open>Fields of a request\<close>

lemma given_to_pb_ok:
  assumes "pred_option bin_wf x" "\<not> fst to"
  shows "\<exists>f. given_to_pb x to = Some f \<and> (fst f \<longrightarrow> pbb_wf (snd f)) \<and>
    map_option pbb_bytes (field_opt f) = map_option bin_bytes x"
proof (cases x)
  case None
  with assms(2) show ?thesis by (simp add: given_to_pb_def)
next
  case (Some a)
  then obtain b where "riak_binary_copy_to_pb x = Some b" "pbb_wf b" "pbb_bytes b = bin_bytes a"
    using copy_to_pb_ok [of x] assms(1) by (auto simp: ptr_wf_def ptr_bytes_def)
  with Some show ?thesis by (intro exI [of _ "(True, b)"]) (simp add: given_to_pb_def)
qed

lemma opt_field_to_pb_ok:
  assumes "fst f \<Longrightarrow> ptr_wf (snd f)" "\<not> fst to"
  shows "\<exists>g. opt_to_pb (fst f) (snd f) to = Some g \<and>
    map_option pbb_bytes (field_opt g) = map_option ptr_bytes (field_opt f)"
proof (cases "fst f")
  case True
  then obtain b where "riak_binary_copy_to_pb (snd f) = Some b" "pbb_bytes b = ptr_bytes (snd f)"
    using copy_to_pb_ok [of "snd f"] assms(1) by blast
  with True show ?thesis
    by (intro exI [of _ "(True, b)"]) (simp add: opt_to_pb_def field_opt_def)
next
  case False
  with assms(2) show ?thesis by (simp add: opt_to_pb_def field_opt_def)
qed

text \<open>A binary of a message has the bytes of one of the options, or both are unset.\<close>

definition same_binary :: "pb_binary field \<Rightarrow> riak_binary option field \<Rightarrow> bool" where
  "same_binary to from \<longleftrightarrow> map_option pbb_bytes (field_opt to) = map_option ptr_bytes (field_opt from)"

lemma opt_to_pb_same:
  "fst f \<longrightarrow> ptr_wf (snd f) \<Longrightarrow> \<not> fst to \<Longrightarrow> \<exists>g. opt_to_pb (fst f) (snd f) to = Some g \<and> same_binary g f"
  using opt_field_to_pb_ok [of f to] by (simp add: same_binary_def)

lemma riak_binary_copy_ok:
  assumes "cfg_grants cfg" "pred_option bin_wf x"
  shows "\<exists>y m'. riak_binary_copy cfg x m = Some (y, m') \<and> pred_option bin_wf y \<and>
    map_option bin_bytes y = map_option bin_bytes x \<and> mem_allocs m (bin.owned_p y) m'"
proof (cases x)
  case None
  then show ?thesis by (simp add: riak_binary_copy_def)
next
  case (Some b)
  then have w: "bin_wf b" using assms(2) by simp
  then have len: "(if bin_data b = None then 0 else bin_len b) = bin_len b"
    by (auto simp: bin_wf_def c_read_NULL word_unat_eq_iff split: if_splits)
  obtain xs where xs: "bin_bytes b = xs" "c_read (bin_data b) (unat (bin_len b)) = Some xs"
    "length xs = unat (bin_len b)"
    using bin_wf_read [OF w] length_bin_bytes [OF w] by blast
  let ?y = "\<lparr>bin_at = mem_next m, bin_len = bin_len b,
    bin_data = Some \<lparr>buf_addr = Suc (mem_next m), buf_bytes = xs\<rparr>, bin_managed = True\<rparr>"
  have "bin_wf ?y" "bin_bytes ?y = xs" by (simp_all add: bin_wf_def bin_bytes_def flip: xs(3))
  moreover have "riak_binary_copy cfg x m = Some (Some ?y, mem_push (mem_push m))"
    using riak_binary_new_granted [OF assms(1), of "bin_data b" "bin_len b" xs m] xs(2) len Some
    by (simp add: riak_binary_copy_def)
  moreover have "mem_allocs m (bin_owned ?y) (mem_push (mem_push m))"
    by (auto simp: bin_owned_def mem_allocs_def)
  ultimately show ?thesis using Some xs(1) by simp
qed

lemma opt_field_from_pb_ok:
  assumes "cfg_grants cfg" "fst f \<Longrightarrow> pbb_wf (snd f)"
  obtains v m' where "\<And>next. opt_from_pb cfg (fst f) (snd f) next m = next (fst f, v) m'"
    and "map_option bin_bytes v = map_option pbb_bytes (field_opt f)" "pred_option bin_wf v"
    and "mem_allocs m (bin.owned_p v) m'" "bin.owned_p v = ptrs (map_option bin_at v)"
proof (cases "fst f")
  case True
  let ?x = "\<lparr>bin_at = mem_next m, bin_len = (if pbb_data (snd f) = None then 0 else pbb_len (snd f)),
    bin_data = pbb_data (snd f), bin_managed = False\<rparr>"
  have c: "riak_binary_copy_from_pb cfg (snd f) m = (Some ?x, mem_push m)"
    by (rule copy_from_pb_granted [OF assms(1)])
  obtain x where x: "riak_binary_copy_from_pb cfg (snd f) m = (Some x, mem_push m)" "bin_wf x"
    "bin_bytes x = pbb_bytes (snd f)" "bin_owned x = [mem_next m]"
    using copy_from_pb_ok [OF assms(1), of "snd f" m] assms(2) True by blast
  moreover have "bin_at x = mem_next m" using c x(1) by auto
  moreover have "field_opt f = Some (snd f)" using True by (simp add: field_opt_def)
  ultimately show thesis
    using True mem_allocs_push [of m] by (intro that [of "Some x" "mem_push m"]) (simp_all add: opt_from_pb_def)
next
  case False
  then show thesis by (intro that [of None m]) (simp_all add: opt_from_pb_def)
qed

end
