(* ===== verification/Riak_Delete.thy ===== *)
theory Riak_Delete
  imports Riak_Response
begin

text \<open>
  Deleting an object (\<^verbatim>\<open>src/messages/riak_delete.c\<close>): the request with its options, and the empty
  response.
\<close>

subsection \<open>Options\<close>

record riak_delete_options =
  dopt_at :: addr
  dopt_vclock :: "riak_binary option field"
  dopt_w :: "u32 field"
  dopt_dw :: "u32 field"
  dopt_pw :: "u32 field"
  dopt_timeout :: "u32 field"
  dopt_sloppy_quorum :: "bool field"
  dopt_n_val :: "u32 field"

definition delete_options_zero :: "addr \<Rightarrow> riak_delete_options" where
  "delete_options_zero a =
     \<lparr>dopt_at = a, dopt_vclock = (False, None), dopt_w = (False, 0), dopt_dw = (False, 0),
      dopt_pw = (False, 0), dopt_timeout = (False, 0), dopt_sloppy_quorum = (False, False),
      dopt_n_val = (False, 0)\<rparr>"

definition riak_delete_options_new :: "riak_config option \<Rightarrow> mem \<Rightarrow> riak_delete_options option \<times> mem" where
  "riak_delete_options_new cfg m =
     (let (p, m) = riak_config_clean_allocate cfg (SizeOf ''riak_delete_options'' 1) m
      in (map_option delete_options_zero p, m))"

text \<open>Whether the quorum flag is printed depends on its value, not on whether it is set.\<close>

definition riak_delete_options_print ::
  "riak_print_state \<Rightarrow> riak_delete_options \<Rightarrow> (i32 \<times> riak_print_state) option"
where
  "riak_delete_options_print st opt =
     print_seq
       [print_when (fst (dopt_vclock opt)) (\<lambda>st. riak_print_label_binary st (str ''Vector Clock'') (snd (dopt_vclock opt))),
        print_when (fst (dopt_w opt)) (\<lambda>st. riak_print_label_int st (str ''W'') (snd (dopt_w opt))),
        print_when (fst (dopt_dw opt)) (\<lambda>st. riak_print_label_int st (str ''DW'') (snd (dopt_dw opt))),
        print_when (fst (dopt_pw opt)) (\<lambda>st. riak_print_label_int st (str ''PW'') (snd (dopt_pw opt))),
        print_when (fst (dopt_timeout opt)) (\<lambda>st. riak_print_label_int st (str ''Timeout'') (snd (dopt_timeout opt))),
        print_when (snd (dopt_sloppy_quorum opt)) (\<lambda>st. riak_print_label_bool st (str ''Sloppy Quorum'') (snd (dopt_sloppy_quorum opt))),
        print_when (fst (dopt_n_val opt)) (\<lambda>st. riak_print_label_int st (str ''N Values'') (snd (dopt_n_val opt)))] st"

definition riak_delete_options_free ::
  "riak_config option \<Rightarrow> riak_delete_options option \<Rightarrow> mem \<Rightarrow> mem option"
where
  "riak_delete_options_free cfg options m =
     do { opt \<leftarrow> options;
          m \<leftarrow> riak_binary_free cfg (snd (dopt_vclock opt)) m;
          riak_free cfg (Some (dopt_at opt)) m }"

definition riak_delete_options_get_has_vclock :: "riak_delete_options \<Rightarrow> bool" where
  "riak_delete_options_get_has_vclock opt = fst (dopt_vclock opt)"

definition riak_delete_options_get_vclock :: "riak_delete_options \<Rightarrow> riak_binary option" where
  "riak_delete_options_get_vclock opt = snd (dopt_vclock opt)"

definition riak_delete_options_get_has_w :: "riak_delete_options \<Rightarrow> bool" where
  "riak_delete_options_get_has_w opt = fst (dopt_w opt)"

definition riak_delete_options_get_w :: "riak_delete_options \<Rightarrow> u32" where
  "riak_delete_options_get_w opt = snd (dopt_w opt)"

definition riak_delete_options_get_has_dw :: "riak_delete_options \<Rightarrow> bool" where
  "riak_delete_options_get_has_dw opt = fst (dopt_dw opt)"

definition riak_delete_options_get_dw :: "riak_delete_options \<Rightarrow> u32" where
  "riak_delete_options_get_dw opt = snd (dopt_dw opt)"

definition riak_delete_options_get_has_pw :: "riak_delete_options \<Rightarrow> bool" where
  "riak_delete_options_get_has_pw opt = fst (dopt_pw opt)"

definition riak_delete_options_get_pw :: "riak_delete_options \<Rightarrow> u32" where
  "riak_delete_options_get_pw opt = snd (dopt_pw opt)"

definition riak_delete_options_get_has_timeout :: "riak_delete_options \<Rightarrow> bool" where
  "riak_delete_options_get_has_timeout opt = fst (dopt_timeout opt)"

definition riak_delete_options_get_timeout :: "riak_delete_options \<Rightarrow> u32" where
  "riak_delete_options_get_timeout opt = snd (dopt_timeout opt)"

definition riak_delete_options_get_has_sloppy_quorum :: "riak_delete_options \<Rightarrow> bool" where
  "riak_delete_options_get_has_sloppy_quorum opt = fst (dopt_sloppy_quorum opt)"

definition riak_delete_options_get_sloppy_quorum :: "riak_delete_options \<Rightarrow> bool" where
  "riak_delete_options_get_sloppy_quorum opt = snd (dopt_sloppy_quorum opt)"

definition riak_delete_options_get_has_n_val :: "riak_delete_options \<Rightarrow> bool" where
  "riak_delete_options_get_has_n_val opt = fst (dopt_n_val opt)"

definition riak_delete_options_get_n_val :: "riak_delete_options \<Rightarrow> u32" where
  "riak_delete_options_get_n_val opt = snd (dopt_n_val opt)"

definition riak_delete_options_set_vclock ::
  "riak_config option \<Rightarrow> riak_delete_options \<Rightarrow> riak_binary option \<Rightarrow> mem \<Rightarrow> (riak_delete_options \<times> mem) option"
where
  "riak_delete_options_set_vclock cfg opt v m =
     do { m \<leftarrow> (if snd (dopt_vclock opt) \<noteq> None then riak_binary_free cfg (snd (dopt_vclock opt)) m else Some m);
          (b, m) \<leftarrow> riak_binary_copy cfg v m;
          Some (opt\<lparr>dopt_vclock := (True, b)\<rparr>, m) }"

definition riak_delete_options_set_w :: "riak_delete_options \<Rightarrow> u32 \<Rightarrow> riak_delete_options" where
  "riak_delete_options_set_w opt v = opt\<lparr>dopt_w := (True, v)\<rparr>"

definition riak_delete_options_set_dw :: "riak_delete_options \<Rightarrow> u32 \<Rightarrow> riak_delete_options" where
  "riak_delete_options_set_dw opt v = opt\<lparr>dopt_dw := (True, v)\<rparr>"

definition riak_delete_options_set_pw :: "riak_delete_options \<Rightarrow> u32 \<Rightarrow> riak_delete_options" where
  "riak_delete_options_set_pw opt v = opt\<lparr>dopt_pw := (True, v)\<rparr>"

definition riak_delete_options_set_timeout :: "riak_delete_options \<Rightarrow> u32 \<Rightarrow> riak_delete_options" where
  "riak_delete_options_set_timeout opt v = opt\<lparr>dopt_timeout := (True, v)\<rparr>"

definition riak_delete_options_set_sloppy_quorum :: "riak_delete_options \<Rightarrow> bool \<Rightarrow> riak_delete_options" where
  "riak_delete_options_set_sloppy_quorum opt v = opt\<lparr>dopt_sloppy_quorum := (True, v)\<rparr>"

definition riak_delete_options_set_n_val :: "riak_delete_options \<Rightarrow> u32 \<Rightarrow> riak_delete_options" where
  "riak_delete_options_set_n_val opt v = opt\<lparr>dopt_n_val := (True, v)\<rparr>"

subsection \<open>The request\<close>

text \<open>The fields of \<open>RpbDelReq\<close> that the encoder writes.\<close>

record rpb_del_req =
  rdr_bucket :: pb_binary
  rdr_key :: pb_binary
  rdr_type :: "pb_binary field"
  rdr_vclock :: "pb_binary field"
  rdr_w :: "u32 field"
  rdr_dw :: "u32 field"
  rdr_pw :: "u32 field"
  rdr_timeout :: "u32 field"
  rdr_sloppy_quorum :: "bool field"
  rdr_n_val :: "u32 field"

definition delete_options_to_pb ::
  "riak_delete_options option \<Rightarrow> rpb_del_req \<Rightarrow> rpb_del_req option"
where
  "delete_options_to_pb options msg =
     (case options of
        None \<Rightarrow> Some msg
      | Some opt \<Rightarrow>
          do { let msg = msg\<lparr>rdr_dw := copy_field (dopt_dw opt) (rdr_dw msg),
                             rdr_n_val := copy_field (dopt_n_val opt) (rdr_n_val msg),
                             rdr_pw := copy_field (dopt_pw opt) (rdr_pw msg),
                             rdr_sloppy_quorum := copy_field (dopt_sloppy_quorum opt) (rdr_sloppy_quorum msg),
                             rdr_timeout := copy_field (dopt_timeout opt) (rdr_timeout msg)\<rparr>;
               v \<leftarrow> opt_to_pb (fst (dopt_vclock opt)) (snd (dopt_vclock opt)) (rdr_vclock msg);
               Some (msg\<lparr>rdr_vclock := v, rdr_w := copy_field (dopt_w opt) (rdr_w msg)\<rparr>) })"

definition riak_delete_request_encode ::
  "rpb_del_req pb_api \<Rightarrow> 'd \<Rightarrow> ('r, 'd) riak_operation \<Rightarrow> riak_binary option \<Rightarrow> riak_binary option \<Rightarrow>
   riak_binary option \<Rightarrow> riak_delete_options option \<Rightarrow> mem \<Rightarrow>
   (riak_error \<times> ('r, 'd) riak_operation \<times> mem) option"
where
  "riak_delete_request_encode api decoder rop bucket_type bucket key options m =
     do { ty \<leftarrow> given_to_pb bucket_type (rdr_type (pb_init api));
          b \<leftarrow> riak_binary_copy_to_pb bucket;
          k \<leftarrow> riak_binary_copy_to_pb key;
          delmsg \<leftarrow> delete_options_to_pb options ((pb_init api)\<lparr>rdr_type := ty, rdr_bucket := b, rdr_key := k\<rparr>);
          send_packed (cfg_malloc (rop_config rop)) ERIAK_OUT_OF_MEMORY MSG_RPBDELREQ
            (cut32 (pb_packed_size api delmsg)) (pb_pack api delmsg) decoder rop m }"

definition riak_delete_response_decode ::
  "('r, 'd) riak_operation \<Rightarrow> riak_ack option \<Rightarrow> mem \<Rightarrow> (riak_error \<times> riak_ack option \<times> bool \<times> mem) option"
where
  "riak_delete_response_decode rop resp m = ack_decode ''riak_delete_response'' rop resp m"

definition riak_delete_response_free :: "riak_config option \<Rightarrow> riak_ack option \<Rightarrow> mem \<Rightarrow> mem option" where
  "riak_delete_response_free cfg resp m = ack_free cfg resp m"

subsection \<open>What is sent\<close>

text \<open>What protobuf-c documents of \<open>RPB_DEL_REQ__INIT\<close>: no optional field is set.\<close>

definition rdr_empty :: "rpb_del_req \<Rightarrow> bool" where
  "rdr_empty msg \<longleftrightarrow> \<not> fst (rdr_type msg) \<and> \<not> fst (rdr_vclock msg) \<and> \<not> fst (rdr_w msg) \<and>
     \<not> fst (rdr_dw msg) \<and> \<not> fst (rdr_pw msg) \<and> \<not> fst (rdr_timeout msg) \<and>
     \<not> fst (rdr_sloppy_quorum msg) \<and> \<not> fst (rdr_n_val msg)"

text \<open>The message asks for what the options ask for; without options it asks for nothing.\<close>

definition delete_says :: "riak_delete_options option \<Rightarrow> rpb_del_req \<Rightarrow> bool" where
  "delete_says options msg \<longleftrightarrow>
     (let asked = (\<lambda>f. Option.bind options (\<lambda>opt. field_opt (f opt)))
      in map_option pbb_bytes (field_opt (rdr_vclock msg)) =
           Option.bind options (\<lambda>opt. map_option ptr_bytes (field_opt (dopt_vclock opt))) \<and>
         field_opt (rdr_w msg) = asked dopt_w \<and> field_opt (rdr_dw msg) = asked dopt_dw \<and>
         field_opt (rdr_pw msg) = asked dopt_pw \<and> field_opt (rdr_timeout msg) = asked dopt_timeout \<and>
         field_opt (rdr_n_val msg) = asked dopt_n_val \<and>
         field_opt (rdr_sloppy_quorum msg) = Option.bind options (\<lambda>opt. field_opt (dopt_sloppy_quorum opt)))"

definition dopt_wf :: "riak_delete_options \<Rightarrow> bool" where
  "dopt_wf opt \<longleftrightarrow> (fst (dopt_vclock opt) \<longrightarrow> ptr_wf (snd (dopt_vclock opt)))"

lemma delete_options_to_pb_ok:
  assumes "pred_option dopt_wf options" "rdr_empty msg"
  shows "\<exists>msg'. delete_options_to_pb options msg = Some msg' \<and> delete_says options msg' \<and>
    rdr_bucket msg' = rdr_bucket msg \<and> rdr_key msg' = rdr_key msg \<and> rdr_type msg' = rdr_type msg"
proof (cases options)
  case None
  with assms(2) show ?thesis by (simp add: delete_options_to_pb_def delete_says_def rdr_empty_def)
next
  case (Some opt)
  obtain v where "opt_to_pb (fst (dopt_vclock opt)) (snd (dopt_vclock opt)) (rdr_vclock msg) = Some v"
    "map_option pbb_bytes (field_opt v) = map_option ptr_bytes (field_opt (dopt_vclock opt))"
    using opt_field_to_pb_ok [of "dopt_vclock opt" "rdr_vclock msg"] assms Some
    by (auto simp: dopt_wf_def rdr_empty_def)
  with Some assms(2) show ?thesis
    by (simp add: delete_options_to_pb_def delete_says_def rdr_empty_def)
qed

lemma riak_delete_request_sends:
  assumes "cfg_grants (rop_config rop)" "mem_wf m" "rdr_empty (pb_init api)"
    and "pred_option bin_wf bucket_type" "bin_wf b" "bin_wf k" "pred_option dopt_wf options"
  shows "\<exists>msg. pbb_bytes (rdr_bucket msg) = bin_bytes b \<and> pbb_bytes (rdr_key msg) = bin_bytes k \<and>
    map_option pbb_bytes (field_opt (rdr_type msg)) = map_option bin_bytes bucket_type \<and>
    delete_says options msg \<and>
    (packs api msg \<longrightarrow> sends MSG_RPBDELREQ (pb_pack api msg) decoder rop m
       (riak_delete_request_encode api decoder rop bucket_type (Some b) (Some k) options m))"
proof -
  obtain ty where t: "given_to_pb bucket_type (rdr_type (pb_init api)) = Some ty"
    "map_option pbb_bytes (field_opt ty) = map_option bin_bytes bucket_type"
    using given_to_pb_ok [of bucket_type "rdr_type (pb_init api)"] assms(3,4) by (auto simp: rdr_empty_def)
  obtain b' k' where bk: "riak_binary_copy_to_pb (Some b) = Some b'" "pbb_bytes b' = bin_bytes b"
    "riak_binary_copy_to_pb (Some k) = Some k'" "pbb_bytes k' = bin_bytes k"
    using copy_to_pb_ok [of "Some b"] copy_to_pb_ok [of "Some k"] assms(5,6) by (auto simp: ptr_wf_def ptr_bytes_def)
  let ?msg = "(pb_init api)\<lparr>rdr_type := ty, rdr_bucket := b', rdr_key := k'\<rparr>"
  obtain msg where o: "delete_options_to_pb options ?msg = Some msg" "delete_says options msg"
    "rdr_bucket msg = b'" "rdr_key msg = k'" "rdr_type msg = ty"
  proof -
    \<comment> \<open>the options do not look at the type, which is set by now\<close>
    have e: "delete_options_to_pb options ?msg = map_option (rdr_type_update (\<lambda>_. ty))
        (delete_options_to_pb options (?msg\<lparr>rdr_type := rdr_type (pb_init api)\<rparr>))"
      by (cases options) (auto simp: delete_options_to_pb_def map_option_case Let_def split: bind_split option.split)
    have "rdr_empty (?msg\<lparr>rdr_type := rdr_type (pb_init api)\<rparr>)" using assms(3) by (simp add: rdr_empty_def)
    from delete_options_to_pb_ok [OF assms(7) this] e that show thesis
      by (auto simp: delete_says_def)
  qed
  have "packs api msg \<Longrightarrow> sends MSG_RPBDELREQ (pb_pack api msg) decoder rop m
      (riak_delete_request_encode api decoder rop bucket_type (Some b) (Some k) options m)"
    using send_cfg_malloc(2) [OF assms(1) _ assms(2)]
    by (simp add: riak_delete_request_encode_def bk t o)
  with bk t o show ?thesis by auto
qed

lemma riak_delete_options_set_vclock_balance:
  assumes "cfg_ok cfg" "mem_wf m" "riak_delete_options_set_vclock cfg opt v m = Some (opt', m')"
    and "snd (dopt_vclock opt) = None"
  shows "mem_allocs m (bin.owned_p (riak_delete_options_get_vclock opt')) m'"
  using assms riak_binary_copy_allocs [OF assms(1,2)]
  by (auto simp: riak_delete_options_set_vclock_def riak_delete_options_get_vclock_def split: bind_splits)

end
