(* ===== verification/Riak_Get.thy ===== *)
theory Riak_Get
  imports Riak_Response
begin

text \<open>
  Fetching an object (\<^verbatim>\<open>src/messages/riak_get.c\<close>): the options, the request and the response with
  its array of siblings.
\<close>

subsection \<open>Options\<close>

record riak_get_options =
  gopt_at :: addr
  gopt_r :: "u32 field"
  gopt_pr :: "u32 field"
  gopt_basic_quorum :: "bool field"
  gopt_notfound_ok :: "bool field"
  gopt_if_modified :: "riak_binary option field"
  gopt_head :: "bool field"
  gopt_deletedvclock :: "bool field"
  gopt_timeout :: "u32 field"
  gopt_sloppy_quorum :: "bool field"
  gopt_n_val :: "u32 field"

definition get_options_zero :: "addr \<Rightarrow> riak_get_options" where
  "get_options_zero a =
     \<lparr>gopt_at = a, gopt_r = (False, 0), gopt_pr = (False, 0),
      gopt_basic_quorum = (False, False), gopt_notfound_ok = (False, False),
      gopt_if_modified = (False, None), gopt_head = (False, False),
      gopt_deletedvclock = (False, False), gopt_timeout = (False, 0),
      gopt_sloppy_quorum = (False, False), gopt_n_val = (False, 0)\<rparr>"

definition riak_get_options_new :: "riak_config option \<Rightarrow> mem \<Rightarrow> riak_get_options option \<times> mem" where
  "riak_get_options_new cfg m =
     (let (p, m) = riak_config_clean_allocate cfg (SizeOf ''riak_get_options'' 1) m
      in (map_option get_options_zero p, m))"

definition riak_get_options_free ::
  "riak_config option \<Rightarrow> riak_get_options option \<Rightarrow> mem \<Rightarrow> mem option"
where
  "riak_get_options_free cfg opt m =
     (case opt of
        None \<Rightarrow> Some m
      | Some options \<Rightarrow> do { m \<leftarrow> riak_binary_free cfg (snd (gopt_if_modified options)) m;
                            riak_free cfg (Some (gopt_at options)) m })"

definition riak_get_options_print ::
  "riak_print_state \<Rightarrow> riak_get_options \<Rightarrow> (i32 \<times> riak_print_state) option"
where
  "riak_get_options_print st opt =
     print_seq
       [print_when (fst (gopt_r opt)) (\<lambda>st. riak_print_label_int st (str ''R'') (snd (gopt_r opt))),
        print_when (fst (gopt_pr opt)) (\<lambda>st. riak_print_label_int st (str ''PR'') (snd (gopt_pr opt))),
        print_when (fst (gopt_basic_quorum opt)) (\<lambda>st. riak_print_label_bool st (str ''Basic Quorum'') (snd (gopt_basic_quorum opt))),
        print_when (fst (gopt_notfound_ok opt)) (\<lambda>st. riak_print_label_bool st (str ''Not Found OK'') (snd (gopt_notfound_ok opt))),
        print_when (fst (gopt_if_modified opt)) (\<lambda>st. riak_print_label_binary st (str ''If Modified'') (snd (gopt_if_modified opt))),
        print_when (fst (gopt_head opt)) (\<lambda>st. riak_print_label_bool st (str ''Head'') (snd (gopt_head opt))),
        print_when (fst (gopt_deletedvclock opt)) (\<lambda>st. riak_print_label_bool st (str ''Deleted VClock'') (snd (gopt_deletedvclock opt))),
        print_when (fst (gopt_timeout opt)) (\<lambda>st. riak_print_label_int st (str ''Timeout'') (snd (gopt_timeout opt))),
        print_when (fst (gopt_sloppy_quorum opt)) (\<lambda>st. riak_print_label_bool st (str ''Sloppy Quorum'') (snd (gopt_sloppy_quorum opt))),
        print_when (fst (gopt_n_val opt)) (\<lambda>st. riak_print_label_int st (str ''N Val'') (snd (gopt_n_val opt)))] st"

definition riak_get_options_get_has_r :: "riak_get_options \<Rightarrow> bool" where
  "riak_get_options_get_has_r opt = fst (gopt_r opt)"

definition riak_get_options_get_r :: "riak_get_options \<Rightarrow> u32" where
  "riak_get_options_get_r opt = snd (gopt_r opt)"

definition riak_get_options_get_has_pr :: "riak_get_options \<Rightarrow> bool" where
  "riak_get_options_get_has_pr opt = fst (gopt_pr opt)"

definition riak_get_options_get_pr :: "riak_get_options \<Rightarrow> u32" where
  "riak_get_options_get_pr opt = snd (gopt_pr opt)"

definition riak_get_options_get_has_basic_quorum :: "riak_get_options \<Rightarrow> bool" where
  "riak_get_options_get_has_basic_quorum opt = fst (gopt_basic_quorum opt)"

definition riak_get_options_get_basic_quorum :: "riak_get_options \<Rightarrow> bool" where
  "riak_get_options_get_basic_quorum opt = snd (gopt_basic_quorum opt)"

definition riak_get_options_get_has_notfound_ok :: "riak_get_options \<Rightarrow> bool" where
  "riak_get_options_get_has_notfound_ok opt = fst (gopt_notfound_ok opt)"

definition riak_get_options_get_notfound_ok :: "riak_get_options \<Rightarrow> bool" where
  "riak_get_options_get_notfound_ok opt = snd (gopt_notfound_ok opt)"

definition riak_get_options_get_has_if_modified :: "riak_get_options \<Rightarrow> bool" where
  "riak_get_options_get_has_if_modified opt = fst (gopt_if_modified opt)"

definition riak_get_options_get_if_modified :: "riak_get_options \<Rightarrow> riak_binary option" where
  "riak_get_options_get_if_modified opt = snd (gopt_if_modified opt)"

definition riak_get_options_get_has_head :: "riak_get_options \<Rightarrow> bool" where
  "riak_get_options_get_has_head opt = fst (gopt_head opt)"

definition riak_get_options_get_head :: "riak_get_options \<Rightarrow> bool" where
  "riak_get_options_get_head opt = snd (gopt_head opt)"

definition riak_get_options_get_has_deletedvclock :: "riak_get_options \<Rightarrow> bool" where
  "riak_get_options_get_has_deletedvclock opt = fst (gopt_deletedvclock opt)"

definition riak_get_options_get_deletedvclock :: "riak_get_options \<Rightarrow> bool" where
  "riak_get_options_get_deletedvclock opt = snd (gopt_deletedvclock opt)"

definition riak_get_options_get_has_timeout :: "riak_get_options \<Rightarrow> bool" where
  "riak_get_options_get_has_timeout opt = fst (gopt_timeout opt)"

definition riak_get_options_get_timeout :: "riak_get_options \<Rightarrow> u32" where
  "riak_get_options_get_timeout opt = snd (gopt_timeout opt)"

definition riak_get_options_get_has_sloppy_quorum :: "riak_get_options \<Rightarrow> bool" where
  "riak_get_options_get_has_sloppy_quorum opt = fst (gopt_sloppy_quorum opt)"

definition riak_get_options_get_sloppy_quorum :: "riak_get_options \<Rightarrow> bool" where
  "riak_get_options_get_sloppy_quorum opt = snd (gopt_sloppy_quorum opt)"

definition riak_get_options_get_has_n_val :: "riak_get_options \<Rightarrow> bool" where
  "riak_get_options_get_has_n_val opt = fst (gopt_n_val opt)"

definition riak_get_options_get_n_val :: "riak_get_options \<Rightarrow> u32" where
  "riak_get_options_get_n_val opt = snd (gopt_n_val opt)"

text \<open>The previous value of \<open>if_modified\<close> is freed without its bytes.\<close>

definition riak_get_options_set_r :: "riak_get_options \<Rightarrow> u32 \<Rightarrow> riak_get_options" where
  "riak_get_options_set_r opt v = opt\<lparr>gopt_r := (True, v)\<rparr>"

definition riak_get_options_set_pr :: "riak_get_options \<Rightarrow> u32 \<Rightarrow> riak_get_options" where
  "riak_get_options_set_pr opt v = opt\<lparr>gopt_pr := (True, v)\<rparr>"

definition riak_get_options_set_basic_quorum :: "riak_get_options \<Rightarrow> bool \<Rightarrow> riak_get_options" where
  "riak_get_options_set_basic_quorum opt v = opt\<lparr>gopt_basic_quorum := (True, v)\<rparr>"

definition riak_get_options_set_notfound_ok :: "riak_get_options \<Rightarrow> bool \<Rightarrow> riak_get_options" where
  "riak_get_options_set_notfound_ok opt v = opt\<lparr>gopt_notfound_ok := (True, v)\<rparr>"

definition riak_get_options_set_if_modified ::
  "riak_config option \<Rightarrow> riak_get_options \<Rightarrow> riak_binary option \<Rightarrow> mem \<Rightarrow> (riak_get_options \<times> mem) option"
where
  "riak_get_options_set_if_modified cfg opt v m =
     do { m \<leftarrow> (if snd (gopt_if_modified opt) \<noteq> None then riak_free cfg (map_option bin_at (snd (gopt_if_modified opt))) m else Some m);
          (b, m) \<leftarrow> riak_binary_copy cfg v m;
          Some (opt\<lparr>gopt_if_modified := (True, b)\<rparr>, m) }"

definition riak_get_options_set_head :: "riak_get_options \<Rightarrow> bool \<Rightarrow> riak_get_options" where
  "riak_get_options_set_head opt v = opt\<lparr>gopt_head := (True, v)\<rparr>"

definition riak_get_options_set_deletedvclock :: "riak_get_options \<Rightarrow> bool \<Rightarrow> riak_get_options" where
  "riak_get_options_set_deletedvclock opt v = opt\<lparr>gopt_deletedvclock := (True, v)\<rparr>"

definition riak_get_options_set_timeout :: "riak_get_options \<Rightarrow> u32 \<Rightarrow> riak_get_options" where
  "riak_get_options_set_timeout opt v = opt\<lparr>gopt_timeout := (True, v)\<rparr>"

definition riak_get_options_set_sloppy_quorum :: "riak_get_options \<Rightarrow> bool \<Rightarrow> riak_get_options" where
  "riak_get_options_set_sloppy_quorum opt v = opt\<lparr>gopt_sloppy_quorum := (True, v)\<rparr>"

definition riak_get_options_set_n_val :: "riak_get_options \<Rightarrow> u32 \<Rightarrow> riak_get_options" where
  "riak_get_options_set_n_val opt v = opt\<lparr>gopt_n_val := (True, v)\<rparr>"

subsection \<open>The request\<close>

record rpb_get_req =
  rgq_bucket :: pb_binary
  rgq_key :: pb_binary
  rgq_type :: "pb_binary field"
  rgq_r :: "u32 field"
  rgq_pr :: "u32 field"
  rgq_basic_quorum :: "bool field"
  rgq_notfound_ok :: "bool field"
  rgq_if_modified :: "pb_binary field"
  rgq_head :: "bool field"
  rgq_deletedvclock :: "bool field"
  rgq_timeout :: "u32 field"
  rgq_sloppy_quorum :: "bool field"
  rgq_n_val :: "u32 field"

text \<open>All options but \<open>if_modified\<close> are copied with their flags.\<close>

definition get_options_to_pb :: "riak_get_options option \<Rightarrow> rpb_get_req \<Rightarrow> rpb_get_req option" where
  "get_options_to_pb options msg =
     (case options of
        None \<Rightarrow> Some msg
      | Some opt \<Rightarrow>
          do { v \<leftarrow> opt_to_pb (fst (gopt_if_modified opt)) (snd (gopt_if_modified opt)) (rgq_if_modified msg);
               Some (msg\<lparr>rgq_r := gopt_r opt, rgq_pr := gopt_pr opt,
                         rgq_basic_quorum := gopt_basic_quorum opt, rgq_notfound_ok := gopt_notfound_ok opt,
                         rgq_if_modified := v, rgq_head := gopt_head opt,
                         rgq_deletedvclock := gopt_deletedvclock opt, rgq_timeout := gopt_timeout opt,
                         rgq_sloppy_quorum := gopt_sloppy_quorum opt, rgq_n_val := gopt_n_val opt\<rparr>) })"

definition riak_get_request_encode ::
  "rpb_get_req pb_api \<Rightarrow> 'd \<Rightarrow> ('r, 'd) riak_operation \<Rightarrow> riak_binary option \<Rightarrow> riak_binary option \<Rightarrow>
   riak_binary option \<Rightarrow> riak_get_options option \<Rightarrow> mem \<Rightarrow>
   (riak_error \<times> ('r, 'd) riak_operation \<times> mem) option"
where
  "riak_get_request_encode api decoder rop bucket_type bucket key get_options m =
     do { (rop, m) \<leftarrow> riak_operation_set_bucket_type rop bucket_type m;
          (rop, m) \<leftarrow> riak_operation_set_bucket rop bucket m;
          (rop, m) \<leftarrow> riak_operation_set_key rop key m;
          b \<leftarrow> riak_binary_copy_to_pb bucket;
          k \<leftarrow> riak_binary_copy_to_pb key;
          ty \<leftarrow> given_to_pb bucket_type (rgq_type (pb_init api));
          getmsg \<leftarrow> get_options_to_pb get_options ((pb_init api)\<lparr>rgq_bucket := b, rgq_key := k, rgq_type := ty\<rparr>);
          send_packed (cfg_malloc (rop_config rop)) ERIAK_OUT_OF_MEMORY MSG_RPBGETREQ
            (cut32 (pb_packed_size api getmsg)) (pb_pack api getmsg) decoder rop m }"

subsection \<open>The response\<close>

record riak_get_response =
  gr_at :: addr
  gr_vclock :: "riak_binary option field"
  gr_unchanged :: "bool field"
  gr_n_content :: i32
  gr_content :: "riak_object parray option"
  gr_internal :: "addr option"

record rpb_get_resp =
  rgr_n_content :: u64
  rgr_content :: "rpb_content parray option"
  rgr_vclock :: "pb_binary field"
  rgr_unchanged :: "bool field"

text \<open>Each object of the response gets copies of the names that were asked for.\<close>

definition get_names ::
  "('r, 'd) riak_operation \<Rightarrow> riak_object \<Rightarrow> mem \<Rightarrow> (riak_object \<times> mem) option"
where
  "get_names rop ob m =
     do { let cfg = riak_operation_get_config rop;
          (b, m) \<leftarrow> riak_binary_copy cfg (riak_operation_get_bucket rop) m;
          let ob = ob\<lparr>obj_bucket := b\<rparr>;
          (ob, m) \<leftarrow> (if riak_operation_has_bucket_type rop
                      then do { (t, m) \<leftarrow> riak_binary_copy cfg (riak_operation_get_bucket_type rop) m;
                                Some (ob\<lparr>obj_bucket_type := t, obj_has_bucket_type := True\<rparr>, m) }
                      else Some (ob, m));
          (k, m) \<leftarrow> riak_binary_copy cfg (riak_operation_get_key rop) m;
          Some (ob\<lparr>obj_key := k, obj_has_key := True\<rparr>, m) }"

text \<open>
  When memory runs out the response is freed, but neither its version clock nor the unpacked
  message. The error of a failed array is 1 (\<open>ERIAK_TEST_FAILURE\<close>).
\<close>

definition riak_get_response_decode ::
  "(addr \<Rightarrow> bytes \<Rightarrow> rpb_get_resp option) \<Rightarrow> ('r, 'd) riak_operation \<Rightarrow> riak_pb_message option \<Rightarrow>
   riak_get_response option \<Rightarrow> bool \<Rightarrow> mem \<Rightarrow>
   (riak_error \<times> riak_get_response option \<times> bool \<times> mem) option"
where
  "riak_get_response_decode unpack rop pbresp resp done m =
     do { let cfg = riak_operation_get_config rop;
          xs \<leftarrow> pbm_payload pbresp;
          let (u, m) = pb_unpack unpack xs m;
          (case u of
             None \<Rightarrow> Some (ERIAK_MESSAGE_FORMAT, resp, done, m)
           | Some (ua, pb) \<Rightarrow>
               (let (p, m) = riak_config_clean_allocate cfg (SizeOf ''riak_get_response'' 1) m
                in case p of
                     None \<Rightarrow> Some (ERIAK_OUT_OF_MEMORY, resp, True, m)
                   | Some a \<Rightarrow>
                       do { let (r, m) = opt_from_pb cfg (fst (rgr_vclock pb)) (snd (rgr_vclock pb))
                              (\<lambda>v m. (Some \<lparr>gr_at = a, gr_vclock = v,
                                 gr_unchanged = copy_field (rgr_unchanged pb) (False, False),
                                 gr_n_content = 0, gr_content = None, gr_internal = Some ua\<rparr>, m)) m;
                            (case r of
                               None \<Rightarrow> do { m \<leftarrow> riak_free cfg (Some a) m;
                                           Some (ERIAK_OUT_OF_MEMORY, resp, True, m) }
                             | Some r \<Rightarrow>
                                 (if rgr_n_content pb > 0
                                  then do { let (err, objs, m) = riak_object_new_array cfg (rgr_n_content pb) m;
                                            (if err \<noteq> ERIAK_OK
                                             then do { m \<leftarrow> riak_free cfg (Some a) m;
                                                       Some (ERIAK_TEST_FAILURE, resp, True, m) }
                                             else do { objs \<leftarrow> objs;
                                                       (err, objs, m) \<leftarrow> contents_array cfg (get_names rop)
                                                         (rgr_content pb) (rgr_n_content pb) objs m;
                                                       (if err \<noteq> ERIAK_OK
                                                        then do { m \<leftarrow> riak_free cfg (Some a) m;
                                                                  Some (err, resp, True, m) }
                                                        else Some (ERIAK_OK,
                                                               Some (r\<lparr>gr_n_content := ucast (rgr_n_content pb),
                                                                       gr_content := objs\<rparr>), True, m)) }) }
                                  else Some (ERIAK_OK, Some r, True, m))) })) }"

definition riak_get_response_print ::
  "(i32 \<Rightarrow> bytes) \<Rightarrow> riak_print_state \<Rightarrow> riak_get_response \<Rightarrow> (i32 \<times> riak_print_state) option"
where
  "riak_get_response_print strftime st r =
     print_seq
       [\<lambda>st. riak_print_label_binary_hex st (str ''V-Clock'') (snd (gr_vclock r)),
        \<lambda>st. riak_print_label_bool st (str ''Unchanged'') (snd (gr_unchanged r)),
        \<lambda>st. riak_print_label_int st (str ''Objects'') (gr_n_content r),
        print_cells (\<lambda>ob st. riak_object_print strftime st ob) (pa_list (gr_content r)) (unat (gr_n_content r))] st"

definition riak_get_response_free ::
  "riak_config option \<Rightarrow> riak_get_response option \<Rightarrow> mem \<Rightarrow> mem option"
where
  "riak_get_response_free cfg resp m =
     (case resp of
        None \<Rightarrow> Some m
      | Some r \<Rightarrow>
          do { m \<leftarrow> (if sint (gr_n_content r) > 0
                    then riak_object_free_array cfg (gr_content r) (scast (gr_n_content r)) m else Some m);
               m \<leftarrow> riak_binary_free cfg (snd (gr_vclock r)) m;
               m \<leftarrow> pb_free_unpacked (gr_internal r) m;
               riak_free cfg (Some (gr_at r)) m })"

definition riak_get_get_has_vclock :: "riak_get_response \<Rightarrow> bool" where
  "riak_get_get_has_vclock response = fst (gr_vclock response)"

definition riak_get_get_vclock :: "riak_get_response \<Rightarrow> riak_binary option" where
  "riak_get_get_vclock response = snd (gr_vclock response)"

definition riak_get_get_has_unmodified :: "riak_get_response \<Rightarrow> bool" where
  "riak_get_get_has_unmodified response = fst (gr_unchanged response)"

definition riak_get_get_unchanged :: "riak_get_response \<Rightarrow> bool" where
  "riak_get_get_unchanged response = snd (gr_unchanged response)"

definition riak_get_get_n_content :: "riak_get_response \<Rightarrow> i32" where
  "riak_get_get_n_content response = gr_n_content response"

definition riak_get_is_found :: "riak_get_response \<Rightarrow> bool" where
  "riak_get_is_found response = (sint (gr_n_content response) > 0)"

definition riak_get_get_content :: "riak_get_response \<Rightarrow> riak_object parray option" where
  "riak_get_get_content response = gr_content response"

subsection \<open>What is sent\<close>

definition rgq_empty :: "rpb_get_req \<Rightarrow> bool" where
  "rgq_empty msg \<longleftrightarrow> \<not> fst (rgq_type msg) \<and>
     \<not> fst (rgq_r msg) \<and>
     \<not> fst (rgq_pr msg) \<and>
     \<not> fst (rgq_basic_quorum msg) \<and>
     \<not> fst (rgq_notfound_ok msg) \<and>
     \<not> fst (rgq_if_modified msg) \<and>
     \<not> fst (rgq_head msg) \<and>
     \<not> fst (rgq_deletedvclock msg) \<and>
     \<not> fst (rgq_timeout msg) \<and>
     \<not> fst (rgq_sloppy_quorum msg) \<and>
     \<not> fst (rgq_n_val msg)"

definition gopt_wf :: "riak_get_options \<Rightarrow> bool" where
  "gopt_wf opt \<longleftrightarrow> (fst (gopt_if_modified opt) \<longrightarrow> ptr_wf (snd (gopt_if_modified opt)))"

text \<open>The message asks for what the options ask for.\<close>

definition get_says :: "riak_get_options option \<Rightarrow> rpb_get_req \<Rightarrow> bool" where
  "get_says options msg \<longleftrightarrow>
     map_option pbb_bytes (field_opt (rgq_if_modified msg)) =
       Option.bind options (\<lambda>opt. map_option ptr_bytes (field_opt (gopt_if_modified opt))) \<and>
     field_opt (rgq_r msg) = Option.bind options (\<lambda>opt. field_opt (gopt_r opt)) \<and>
     field_opt (rgq_pr msg) = Option.bind options (\<lambda>opt. field_opt (gopt_pr opt)) \<and>
     field_opt (rgq_basic_quorum msg) = Option.bind options (\<lambda>opt. field_opt (gopt_basic_quorum opt)) \<and>
     field_opt (rgq_notfound_ok msg) = Option.bind options (\<lambda>opt. field_opt (gopt_notfound_ok opt)) \<and>
     field_opt (rgq_head msg) = Option.bind options (\<lambda>opt. field_opt (gopt_head opt)) \<and>
     field_opt (rgq_deletedvclock msg) = Option.bind options (\<lambda>opt. field_opt (gopt_deletedvclock opt)) \<and>
     field_opt (rgq_timeout msg) = Option.bind options (\<lambda>opt. field_opt (gopt_timeout opt)) \<and>
     field_opt (rgq_sloppy_quorum msg) = Option.bind options (\<lambda>opt. field_opt (gopt_sloppy_quorum opt)) \<and>
     field_opt (rgq_n_val msg) = Option.bind options (\<lambda>opt. field_opt (gopt_n_val opt))"

lemma get_options_to_pb_ok:
  assumes "pred_option gopt_wf options" "rgq_empty (msg\<lparr>rgq_type := (False, t)\<rparr>)"
  shows "\<exists>msg'. get_options_to_pb options msg = Some msg' \<and> get_says options msg' \<and>
    rgq_bucket msg' = rgq_bucket msg \<and> rgq_key msg' = rgq_key msg \<and> rgq_type msg' = rgq_type msg"
proof (cases options)
  case None
  with assms(2) show ?thesis by (simp add: get_options_to_pb_def get_says_def rgq_empty_def)
next
  case (Some opt)
  obtain v where "opt_to_pb (fst (gopt_if_modified opt)) (snd (gopt_if_modified opt)) (rgq_if_modified msg) = Some v"
    "map_option pbb_bytes (field_opt v) = map_option ptr_bytes (field_opt (gopt_if_modified opt))"
    using opt_field_to_pb_ok [of "gopt_if_modified opt" "rgq_if_modified msg"] assms Some
    by (auto simp: gopt_wf_def rgq_empty_def)
  with Some show ?thesis by (simp add: get_options_to_pb_def get_says_def)
qed

text \<open>
  The request sends one frame, for a message that names what the caller named and asks for what
  its options ask for; the operation keeps copies of the names.
\<close>

definition rop_names :: "('r, 'd) riak_operation \<Rightarrow> bytes option \<times> bytes option \<times> bytes option" where
  "rop_names rop = (map_option bin_bytes (req_bucket_type rop), map_option bin_bytes (req_bucket rop),
     map_option bin_bytes (req_key rop))"

lemma riak_get_request_sends:
  assumes g: "cfg_grants (rop_config rop)" and m: "mem_wf m" and ini: "rgq_empty (pb_init api)"
    and wf: "pred_option bin_wf bucket_type" "bin_wf b" "bin_wf k" "pred_option gopt_wf options"
  shows "\<exists>msg rop' m'. pbb_bytes (rgq_bucket msg) = bin_bytes b \<and> pbb_bytes (rgq_key msg) = bin_bytes k \<and>
    map_option pbb_bytes (field_opt (rgq_type msg)) = map_option bin_bytes bucket_type \<and>
    get_says options msg \<and> rop_config rop' = rop_config rop \<and>
    rop_names rop' = (map_option bin_bytes bucket_type, Some (bin_bytes b), Some (bin_bytes k)) \<and>
    pred_option bin_wf (req_bucket_type rop') \<and> pred_option bin_wf (req_bucket rop') \<and>
    pred_option bin_wf (req_key rop') \<and> req_index rop' = req_index rop \<and>
    mem_allocs m (bin.owned_p (req_bucket_type rop') @ bin.owned_p (req_bucket rop') @
      bin.owned_p (req_key rop')) m' \<and>
    (packs api msg \<longrightarrow> sends MSG_RPBGETREQ (pb_pack api msg) decoder rop' m'
       (riak_get_request_encode api decoder rop bucket_type (Some b) (Some k) options m))"
proof -
  obtain t1 m1 where c1: "riak_binary_copy (rop_config rop) bucket_type m = Some (t1, m1)"
    "map_option bin_bytes t1 = map_option bin_bytes bucket_type" "mem_allocs m (bin.owned_p t1) m1"
    "pred_option bin_wf t1"
    using riak_binary_copy_ok [OF g wf(1)] by blast
  obtain b1 m2 where c2: "riak_binary_copy (rop_config rop) (Some b) m1 = Some (b1, m2)"
    "map_option bin_bytes b1 = Some (bin_bytes b)" "mem_allocs m1 (bin.owned_p b1) m2" "pred_option bin_wf b1"
    using riak_binary_copy_ok [OF g, of "Some b" m1] wf(2) by (simp only: option.pred_inject option.map) blast
  obtain k1 m3 where c3: "riak_binary_copy (rop_config rop) (Some k) m2 = Some (k1, m3)"
    "map_option bin_bytes k1 = Some (bin_bytes k)" "mem_allocs m2 (bin.owned_p k1) m3" "pred_option bin_wf k1"
    using riak_binary_copy_ok [OF g, of "Some k" m2] wf(3) by (simp only: option.pred_inject option.map) blast
  note al = mem_allocs_trans [OF mem_allocs_trans [OF c1(3) c2(3)] c3(3)]
  obtain ty where t: "given_to_pb bucket_type (rgq_type (pb_init api)) = Some ty"
    "map_option pbb_bytes (field_opt ty) = map_option bin_bytes bucket_type"
    using given_to_pb_ok [of bucket_type "rgq_type (pb_init api)"] wf(1) ini by (auto simp: rgq_empty_def)
  obtain b' k' where bk: "riak_binary_copy_to_pb (Some b) = Some b'" "pbb_bytes b' = bin_bytes b"
    "riak_binary_copy_to_pb (Some k) = Some k'" "pbb_bytes k' = bin_bytes k"
    using copy_to_pb_ok [of "Some b"] copy_to_pb_ok [of "Some k"] wf(2,3) by (auto simp: ptr_wf_def ptr_bytes_def)
  obtain msg where o: "get_options_to_pb options ((pb_init api)\<lparr>rgq_bucket := b', rgq_key := k', rgq_type := ty\<rparr>) =
      Some msg" "get_says options msg" "rgq_bucket msg = b'" "rgq_key msg = k'" "rgq_type msg = ty"
    using get_options_to_pb_ok [OF wf(4), where msg = "(pb_init api)\<lparr>rgq_bucket := b', rgq_key := k', rgq_type := ty\<rparr>"]
      ini by (auto simp: rgq_empty_def)
  let ?rop = "rop\<lparr>req_bucket_type := t1, req_bucket := b1, req_key := k1\<rparr>"
  have g': "cfg_grants (rop_config ?rop)" using g by simp
  have "packs api msg \<Longrightarrow> sends MSG_RPBGETREQ (pb_pack api msg) decoder ?rop m3
      (riak_get_request_encode api decoder rop bucket_type (Some b) (Some k) options m)"
    using send_cfg_malloc(2) [OF g' _ mem_allocs_wf [OF al m]]
    by (simp add: riak_get_request_encode_def riak_operation_set_bucket_type_def
        riak_operation_set_bucket_def riak_operation_set_key_def c1(1) c2(1) c3(1) bk t o)
  with al bk t o c1 c2 c3 show ?thesis
    by (intro exI [of _ msg] exI [of _ ?rop] exI [of _ m3]) (simp add: rop_names_def)
qed

subsection \<open>What is received\<close>

text \<open>The names of an object are copies of those the operation was asked for.\<close>

definition named_by :: "('r, 'd) riak_operation \<Rightarrow> riak_object \<Rightarrow> bool" where
  "named_by rop ob \<longleftrightarrow> map_option bin_bytes (obj_bucket ob) = map_option bin_bytes (req_bucket rop) \<and>
     map_option bin_bytes (obj_bucket_type ob) = map_option bin_bytes (req_bucket_type rop) \<and>
     map_option bin_bytes (obj_key ob) = map_option bin_bytes (req_key rop) \<and> obj_has_key ob \<and>
     riak_object_has_bucket_type ob = (req_bucket_type rop \<noteq> None) \<and> pred_option bin_wf (obj_bucket ob) \<and>
     pred_option bin_wf (obj_bucket_type ob) \<and> pred_option bin_wf (obj_key ob)"

lemma get_names_ok:
  assumes g: "cfg_grants (rop_config rop)" and "pred_option bin_wf (req_bucket_type rop)"
    "pred_option bin_wf (req_bucket rop)" "pred_option bin_wf (req_key rop)"
  shows "names_ok (get_names rop) (named_by rop)"
  unfolding names_ok_def
proof (intro allI impI)
  fix ob :: riak_object and m
  assume ob: "object_wf ob" "obj_bucket ob = None" "obj_bucket_type ob = None" "obj_key ob = None"
    "\<not> obj_has_bucket_type ob"
  obtain b m1 where c1: "riak_binary_copy (rop_config rop) (req_bucket rop) m = Some (b, m1)"
    "map_option bin_bytes b = map_option bin_bytes (req_bucket rop)" "mem_allocs m (bin.owned_p b) m1"
    "pred_option bin_wf b"
    using riak_binary_copy_ok [OF g assms(3)] by blast
  obtain t m2 where c2: "riak_binary_copy (rop_config rop) (req_bucket_type rop) m1 = Some (t, m2)"
    "map_option bin_bytes t = map_option bin_bytes (req_bucket_type rop)" "mem_allocs m1 (bin.owned_p t) m2"
    "pred_option bin_wf t"
    using riak_binary_copy_ok [OF g assms(2)] by blast
  obtain k m3 where c3: "riak_binary_copy (rop_config rop) (req_key rop) m2 = Some (k, m3)"
    "map_option bin_bytes k = map_option bin_bytes (req_key rop)" "mem_allocs m2 (bin.owned_p k) m3"
    "pred_option bin_wf k"
    using riak_binary_copy_ok [OF g assms(4)] by blast
  note al = mem_allocs_trans [OF mem_allocs_trans [OF c1(3) c2(3)] c3(3)]
  let ?ob = "ob\<lparr>obj_bucket := b, obj_bucket_type := t, obj_has_bucket_type := (if req_bucket_type rop = None
    then obj_has_bucket_type ob else True), obj_key := k, obj_has_key := True\<rparr>"
  have "get_names rop ob m = Some (?ob, m3)"
    using c1(1) c2(1,2) c3(1) ob(3)
    by (cases "req_bucket_type rop")
      (auto simp: get_names_def riak_operation_get_config_def riak_operation_get_bucket_def
        riak_operation_get_bucket_type_def riak_operation_has_bucket_type_def riak_operation_get_key_def
        riak_binary_copy_def)
  moreover have "object_wf ?ob" "object_content ?ob = object_content ob"
    using ob(1) by (simp_all add: object_wf_def object_content_def obj_arrays_ok_def)
  moreover have "mset (obj_owned ?ob) = mset (obj_owned ob @ bin.owned_p b @ bin.owned_p t @ bin.owned_p k)"
    by (simp add: obj_owned_def ob)
  ultimately show "\<exists>ob' m' as. get_names rop ob m = Some (ob', m') \<and> object_wf ob' \<and>
      object_content ob' = object_content ob \<and> named_by rop ob' \<and>
      mem_allocs m as m' \<and> mset (obj_owned ob') = mset (obj_owned ob @ as)"
    using al c1(2,4) c2(2,4) c3(2,4) ob(5)
    by (intro exI [of _ ?ob] exI [of _ m3] exI [of _ "bin.owned_p b @ bin.owned_p t @ bin.owned_p k"])
      (simp add: named_by_def riak_object_has_bucket_type_def)
qed

text \<open>A reply that is in order, and what a response owns.\<close>

definition rgr_wf :: "rpb_get_resp \<Rightarrow> bool" where
  "rgr_wf pb \<longleftrightarrow> (fst (rgr_vclock pb) \<longrightarrow> pbb_wf (snd (rgr_vclock pb))) \<and> unat (rgr_n_content pb) < 2 ^ 31 \<and>
     arr_ok (rgr_content pb) (unat (rgr_n_content pb)) \<and>
     list_all rpc_wf (arr_elems (rgr_content pb) (unat (rgr_n_content pb)))"

definition gr_ok :: "riak_get_response \<Rightarrow> bool" where
  "gr_ok r \<longleftrightarrow> objs_ok (gr_content r) (int_count (gr_n_content r))"

definition gr_owned :: "riak_get_response \<Rightarrow> addr list" where
  "gr_owned r = objs_owned (gr_content r) (int_count (gr_n_content r)) @ bin.owned_p (snd (gr_vclock r)) @
     ptrs (gr_internal r) @ [gr_at r]"

interpretation gr: owned_ptr gr_ok gr_owned riak_get_response_free
proof
  fix cfg and r :: riak_get_response and m
  assume "cfg_ok cfg" "gr_ok r"
  then show "riak_get_response_free cfg (Some r) m = mem_free_all (gr_owned r) m"
    using objs_free [of cfg "gr_content r" "int_count (gr_n_content r)" "scast (gr_n_content r)"]
      scast_count [of "gr_n_content r"]
    by (auto simp: riak_get_response_free_def gr_ok_def gr_owned_def mem_simps objs_owned_def)
qed (simp add: riak_get_response_free_def)

text \<open>
  Decoding a reply that is in order: one object per content, with the contents of the message and
  the names that were asked for; the response owns all that was allocated.
\<close>

lemma riak_get_response_decode_ok:
  assumes g: "cfg_grants (rop_config rop)" and xs: "pbm_payload pbresp = Some xs"
    and u: "unpack (mem_next m) xs = Some pb" and wf: "rgr_wf pb"
    and names: "pred_option bin_wf (req_bucket_type rop)" "pred_option bin_wf (req_bucket rop)"
      "pred_option bin_wf (req_key rop)"
  shows "\<exists>r m'. riak_get_response_decode unpack rop pbresp resp done m = Some (ERIAK_OK, Some r, True, m') \<and>
    gr_ok r \<and> mem_allocs m (gr_owned r) m' \<and>
    map_option bin_bytes (riak_get_get_vclock r) = map_option pbb_bytes (field_opt (rgr_vclock pb)) \<and>
    int_count (riak_get_get_n_content r) = unat (rgr_n_content pb) \<and>
    map object_content (arr_elems (riak_get_get_content r) (unat (rgr_n_content pb))) =
      map rpb_content_of (arr_elems (rgr_content pb) (unat (rgr_n_content pb))) \<and>
    (\<forall>ob \<in> set (arr_elems (riak_get_get_content r) (unat (rgr_n_content pb))). object_wf ob \<and> named_by rop ob)"
proof -
  let ?cfg = "rop_config rop" and ?n = "unat (rgr_n_content pb)" and ?m1 = "mem_push (mem_push m)"
  have wfs: "fst (rgr_vclock pb) \<longrightarrow> pbb_wf (snd (rgr_vclock pb))" "?n < 2 ^ 31"
    "arr_ok (rgr_content pb) ?n" "list_all rpc_wf (arr_elems (rgr_content pb) ?n)"
    using wf by (simp_all add: rgr_wf_def)
  obtain v m2 where v: "\<And>next :: _ \<Rightarrow> _ \<Rightarrow> riak_get_response option \<times> mem. opt_from_pb ?cfg (fst (rgr_vclock pb)) (snd (rgr_vclock pb)) next ?m1 =
      next (fst (rgr_vclock pb), v) m2"
    "map_option bin_bytes v = map_option pbb_bytes (field_opt (rgr_vclock pb))"
    "mem_allocs ?m1 (bin.owned_p v) m2"
    using opt_field_from_pb_ok [OF g, of "rgr_vclock pb" ?m1] wfs(1) by blast
  let ?r = "\<lparr>gr_at = Suc (mem_next m), gr_vclock = (fst (rgr_vclock pb), v),
    gr_unchanged = copy_field (rgr_unchanged pb) (False, False), gr_n_content = 0, gr_content = None,
    gr_internal = Some (mem_next m)\<rparr>"
  have "mem_allocs m [mem_next m, Suc (mem_next m)] ?m1" by (auto simp: mem_allocs_def)
  note al = mem_allocs_trans [OF this v(3)]
  note d = riak_get_response_decode_def riak_operation_get_config_def Let_def xs u pb_unpack_def clean_allocate_eq
    allocate_granted [OF g] v(1) riak_get_get_vclock_def riak_get_get_n_content_def riak_get_get_content_def
  show ?thesis
  proof (cases "rgr_n_content pb > 0")
    case False
    then have "?n = 0" by (simp add: word_less_nat_alt)
    with False al v(2) show ?thesis
      by (intro exI [of _ ?r] exI [of _ m2])
        (auto simp: d gr_ok_def gr_owned_def objs_ok_def objs_owned_def mem_allocs_def)
  next
    case True
    then have n0: "0 < ?n" by (simp add: word_less_nat_alt)
    let ?objs = "\<lparr>pa_addr = mem_next m2, pa_cells = replicate ?n None\<rparr>"
    obtain obs m3 where c: "contents_array ?cfg (get_names rop) (rgr_content pb) (rgr_n_content pb) ?objs (mem_push m2) =
        Some (ERIAK_OK, Some (?objs\<lparr>pa_cells := map Some obs\<rparr>), m3)" "length obs = ?n"
      "list_all (\<lambda>ob. object_wf ob \<and> named_by rop ob) obs"
      "map object_content obs = map rpb_content_of (arr_elems (rgr_content pb) ?n)"
      "mem_allocs (mem_push m2) (concat (map obj_owned obs)) m3"
      using contents_array_ok [OF g get_names_ok [OF g names] wfs(3,4,2), of ?objs "mem_push m2"] by auto
    let ?R = "?r\<lparr>gr_n_content := ucast (rgr_n_content pb), gr_content := Some \<lparr>pa_addr = mem_next m2, pa_cells = map Some obs\<rparr>\<rparr>"
    have ct: "int_count (ucast (rgr_n_content pb)) = ?n" by (rule ucast_count [OF wfs(2)])
    have "list_all object_wf obs" using c(3) by (simp add: list_all_iff)
    note made = objs_made [OF this c(2) n0]
    have "mem_allocs m (gr_owned ?R) m3"
      by (rule mem_allocs_mset [OF mem_allocs_trans [OF al mem_allocs_trans [OF mem_allocs_push [of m2] c(5)]]])
        (simp add: gr_owned_def ct made(2))
    with True c v(2) ct made(1) show ?thesis
      by (intro exI [of _ ?R] exI [of _ m3])
        (auto simp: d riak_object_new_array_def gr_ok_def list_all_iff)
  qed
qed

text \<open>Printing a response stays inside the buffer.\<close>

lemma riak_get_response_print_safe:
  assumes "pred_option bin_wf (snd (gr_vclock r))" "arr_ok (gr_content r) (unat (gr_n_content r))"
    and "\<And>ob. ob \<in> set (arr_elems (gr_content r) (unat (gr_n_content r))) \<Longrightarrow> printable_object ob"
    and "\<And>v. length (strftime v) < 256"
  shows "print_safe (\<lambda>st. riak_get_response_print strftime st r)"
  unfolding riak_get_response_print_def
  by (rule print_safe_list, simp only: list.pred_inject)
    (intro conjI TrueI print_intros print_safe_cells riak_object_print_safe assms; use assms(1) in \<open>auto\<close>)

end
