(* ===== verification/Riak_Put.thy ===== *)
theory Riak_Put
  imports Riak_Response
begin

text \<open>
  Storing an object (\<^verbatim>\<open>src/messages/riak_put.c\<close>): the options, the request with the contents of the
  object, and the response.
\<close>

subsection \<open>Options\<close>

record riak_put_options =
  popt_at :: addr
  popt_vclock :: "riak_binary option field"
  popt_w :: "u32 field"
  popt_dw :: "u32 field"
  popt_return_body :: "bool field"
  popt_pw :: "u32 field"
  popt_if_not_modified :: "bool field"
  popt_if_none_match :: "bool field"
  popt_return_head :: "bool field"
  popt_timeout :: "u32 field"
  popt_asis :: "bool field"
  popt_sloppy_quorum :: "bool field"
  popt_n_val :: "u32 field"

definition put_options_zero :: "addr \<Rightarrow> riak_put_options" where
  "put_options_zero a =
     \<lparr>popt_at = a, popt_vclock = (False, None), popt_w = (False, 0), popt_dw = (False, 0),
      popt_return_body = (False, False), popt_pw = (False, 0),
      popt_if_not_modified = (False, False), popt_if_none_match = (False, False),
      popt_return_head = (False, False), popt_timeout = (False, 0),
      popt_asis = (False, False), popt_sloppy_quorum = (False, False),
      popt_n_val = (False, 0)\<rparr>"

definition riak_put_options_new :: "riak_config option \<Rightarrow> mem \<Rightarrow> riak_put_options option \<times> mem" where
  "riak_put_options_new cfg m =
     (let (p, m) = riak_config_clean_allocate cfg (SizeOf ''riak_put_options'' 1) m
      in (map_option put_options_zero p, m))"

text \<open>The options that are boolean are printed when they are true.\<close>

definition riak_put_options_print ::
  "riak_print_state \<Rightarrow> riak_put_options \<Rightarrow> (i32 \<times> riak_print_state) option"
where
  "riak_put_options_print st opt =
     print_seq
       [print_when (fst (popt_vclock opt)) (\<lambda>st. riak_print_label_binary st (str ''Vector Clock'') (snd (popt_vclock opt))),
        print_when (fst (popt_w opt)) (\<lambda>st. riak_print_label_int st (str ''W'') (snd (popt_w opt))),
        print_when (fst (popt_dw opt)) (\<lambda>st. riak_print_label_int st (str ''DW'') (snd (popt_dw opt))),
        print_when (snd (popt_return_body opt)) (\<lambda>st. riak_print_label_bool st (str ''Return Body'') (snd (popt_return_body opt))),
        print_when (fst (popt_pw opt)) (\<lambda>st. riak_print_label_int st (str ''PW'') (snd (popt_pw opt))),
        print_when (snd (popt_if_not_modified opt)) (\<lambda>st. riak_print_label_bool st (str ''If not Modified'') (snd (popt_if_not_modified opt))),
        print_when (snd (popt_if_none_match opt)) (\<lambda>st. riak_print_label_bool st (str ''If None Match'') (snd (popt_if_none_match opt))),
        print_when (snd (popt_return_head opt)) (\<lambda>st. riak_print_label_bool st (str ''Return Head'') (snd (popt_return_head opt))),
        print_when (fst (popt_timeout opt)) (\<lambda>st. riak_print_label_int st (str ''Timeout'') (snd (popt_timeout opt))),
        print_when (snd (popt_asis opt)) (\<lambda>st. riak_print_label_bool st (str ''As-is'') (snd (popt_asis opt))),
        print_when (snd (popt_sloppy_quorum opt)) (\<lambda>st. riak_print_label_bool st (str ''Sloppy Quorum'') (snd (popt_sloppy_quorum opt))),
        print_when (fst (popt_n_val opt)) (\<lambda>st. riak_print_label_int st (str ''N Values'') (snd (popt_n_val opt)))] st"

text \<open>The version clock is not freed.\<close>

definition riak_put_options_free ::
  "riak_config option \<Rightarrow> riak_put_options option \<Rightarrow> mem \<Rightarrow> mem option"
where
  "riak_put_options_free cfg opt m = riak_free cfg (map_option popt_at opt) m"

definition riak_put_options_get_has_vclock :: "riak_put_options \<Rightarrow> bool" where
  "riak_put_options_get_has_vclock opt = fst (popt_vclock opt)"

definition riak_put_options_get_vclock :: "riak_put_options \<Rightarrow> riak_binary option" where
  "riak_put_options_get_vclock opt = snd (popt_vclock opt)"

definition riak_put_options_get_has_w :: "riak_put_options \<Rightarrow> bool" where
  "riak_put_options_get_has_w opt = fst (popt_w opt)"

definition riak_put_options_get_w :: "riak_put_options \<Rightarrow> u32" where
  "riak_put_options_get_w opt = snd (popt_w opt)"

definition riak_put_options_get_has_dw :: "riak_put_options \<Rightarrow> bool" where
  "riak_put_options_get_has_dw opt = fst (popt_dw opt)"

definition riak_put_options_get_dw :: "riak_put_options \<Rightarrow> u32" where
  "riak_put_options_get_dw opt = snd (popt_dw opt)"

definition riak_put_options_get_has_return_body :: "riak_put_options \<Rightarrow> bool" where
  "riak_put_options_get_has_return_body opt = fst (popt_return_body opt)"

definition riak_put_options_get_return_body :: "riak_put_options \<Rightarrow> bool" where
  "riak_put_options_get_return_body opt = snd (popt_return_body opt)"

definition riak_put_options_get_has_pw :: "riak_put_options \<Rightarrow> bool" where
  "riak_put_options_get_has_pw opt = fst (popt_pw opt)"

definition riak_put_options_get_pw :: "riak_put_options \<Rightarrow> u32" where
  "riak_put_options_get_pw opt = snd (popt_pw opt)"

definition riak_put_options_get_has_if_not_modified :: "riak_put_options \<Rightarrow> bool" where
  "riak_put_options_get_has_if_not_modified opt = fst (popt_if_not_modified opt)"

definition riak_put_options_get_if_not_modified :: "riak_put_options \<Rightarrow> bool" where
  "riak_put_options_get_if_not_modified opt = snd (popt_if_not_modified opt)"

definition riak_put_options_get_has_if_none_match :: "riak_put_options \<Rightarrow> bool" where
  "riak_put_options_get_has_if_none_match opt = fst (popt_if_none_match opt)"

definition riak_put_options_get_if_none_match :: "riak_put_options \<Rightarrow> bool" where
  "riak_put_options_get_if_none_match opt = snd (popt_if_none_match opt)"

definition riak_put_options_get_has_return_head :: "riak_put_options \<Rightarrow> bool" where
  "riak_put_options_get_has_return_head opt = fst (popt_return_head opt)"

definition riak_put_options_get_return_head :: "riak_put_options \<Rightarrow> bool" where
  "riak_put_options_get_return_head opt = snd (popt_return_head opt)"

definition riak_put_options_get_has_timeout :: "riak_put_options \<Rightarrow> bool" where
  "riak_put_options_get_has_timeout opt = fst (popt_timeout opt)"

definition riak_put_options_get_timeout :: "riak_put_options \<Rightarrow> u32" where
  "riak_put_options_get_timeout opt = snd (popt_timeout opt)"

definition riak_put_options_get_has_asis :: "riak_put_options \<Rightarrow> bool" where
  "riak_put_options_get_has_asis opt = fst (popt_asis opt)"

definition riak_put_options_get_asis :: "riak_put_options \<Rightarrow> bool" where
  "riak_put_options_get_asis opt = snd (popt_asis opt)"

definition riak_put_options_get_has_sloppy_quorum :: "riak_put_options \<Rightarrow> bool" where
  "riak_put_options_get_has_sloppy_quorum opt = fst (popt_sloppy_quorum opt)"

definition riak_put_options_get_sloppy_quorum :: "riak_put_options \<Rightarrow> bool" where
  "riak_put_options_get_sloppy_quorum opt = snd (popt_sloppy_quorum opt)"

definition riak_put_options_get_has_n_val :: "riak_put_options \<Rightarrow> bool" where
  "riak_put_options_get_has_n_val opt = fst (popt_n_val opt)"

definition riak_put_options_get_n_val :: "riak_put_options \<Rightarrow> u32" where
  "riak_put_options_get_n_val opt = snd (popt_n_val opt)"

text \<open>The previous version clock is freed without its bytes.\<close>

definition riak_put_options_set_vclock ::
  "riak_config option \<Rightarrow> riak_put_options \<Rightarrow> riak_binary option \<Rightarrow> mem \<Rightarrow> (riak_put_options \<times> mem) option"
where
  "riak_put_options_set_vclock cfg opt v m =
     do { m \<leftarrow> (if snd (popt_vclock opt) \<noteq> None then riak_free cfg (map_option bin_at (snd (popt_vclock opt))) m else Some m);
          (b, m) \<leftarrow> riak_binary_copy cfg v m;
          Some (opt\<lparr>popt_vclock := (True, b)\<rparr>, m) }"

definition riak_put_options_set_w :: "riak_put_options \<Rightarrow> u32 \<Rightarrow> riak_put_options" where
  "riak_put_options_set_w opt v = opt\<lparr>popt_w := (True, v)\<rparr>"

definition riak_put_options_set_dw :: "riak_put_options \<Rightarrow> u32 \<Rightarrow> riak_put_options" where
  "riak_put_options_set_dw opt v = opt\<lparr>popt_dw := (True, v)\<rparr>"

definition riak_put_options_set_return_body :: "riak_put_options \<Rightarrow> bool \<Rightarrow> riak_put_options" where
  "riak_put_options_set_return_body opt v = opt\<lparr>popt_return_body := (True, v)\<rparr>"

definition riak_put_options_set_pw :: "riak_put_options \<Rightarrow> u32 \<Rightarrow> riak_put_options" where
  "riak_put_options_set_pw opt v = opt\<lparr>popt_pw := (True, v)\<rparr>"

definition riak_put_options_set_if_not_modified :: "riak_put_options \<Rightarrow> bool \<Rightarrow> riak_put_options" where
  "riak_put_options_set_if_not_modified opt v = opt\<lparr>popt_if_not_modified := (True, v)\<rparr>"

definition riak_put_options_set_if_none_match :: "riak_put_options \<Rightarrow> bool \<Rightarrow> riak_put_options" where
  "riak_put_options_set_if_none_match opt v = opt\<lparr>popt_if_none_match := (True, v)\<rparr>"

definition riak_put_options_set_return_head :: "riak_put_options \<Rightarrow> bool \<Rightarrow> riak_put_options" where
  "riak_put_options_set_return_head opt v = opt\<lparr>popt_return_head := (True, v)\<rparr>"

definition riak_put_options_set_timeout :: "riak_put_options \<Rightarrow> u32 \<Rightarrow> riak_put_options" where
  "riak_put_options_set_timeout opt v = opt\<lparr>popt_timeout := (True, v)\<rparr>"

definition riak_put_options_set_asis :: "riak_put_options \<Rightarrow> bool \<Rightarrow> riak_put_options" where
  "riak_put_options_set_asis opt v = opt\<lparr>popt_asis := (True, v)\<rparr>"

definition riak_put_options_set_sloppy_quorum :: "riak_put_options \<Rightarrow> bool \<Rightarrow> riak_put_options" where
  "riak_put_options_set_sloppy_quorum opt v = opt\<lparr>popt_sloppy_quorum := (True, v)\<rparr>"

definition riak_put_options_set_n_val :: "riak_put_options \<Rightarrow> u32 \<Rightarrow> riak_put_options" where
  "riak_put_options_set_n_val opt v = opt\<lparr>popt_n_val := (True, v)\<rparr>"

subsection \<open>The request\<close>

record rpb_put_req =
  rpq_bucket :: pb_binary
  rpq_key :: "pb_binary field"
  rpq_type :: "pb_binary field"
  rpq_content :: rpb_content
  rpq_vclock :: "pb_binary field"
  rpq_w :: "u32 field"
  rpq_dw :: "u32 field"
  rpq_return_body :: "bool field"
  rpq_pw :: "u32 field"
  rpq_if_not_modified :: "bool field"
  rpq_if_none_match :: "bool field"
  rpq_return_head :: "bool field"
  rpq_timeout :: "u32 field"
  rpq_asis :: "bool field"
  rpq_sloppy_quorum :: "bool field"
  rpq_n_val :: "u32 field"

text \<open>
  Of \<open>if_none_match\<close> and \<open>if_not_modified\<close> only the flag that they are set is copied, not the value.
\<close>

definition put_options_to_pb :: "riak_put_options option \<Rightarrow> rpb_put_req \<Rightarrow> rpb_put_req option" where
  "put_options_to_pb options msg =
     (case options of
        None \<Rightarrow> Some msg
      | Some opt \<Rightarrow>
          do { v \<leftarrow> opt_to_pb (fst (popt_vclock opt)) (snd (popt_vclock opt)) (rpq_vclock msg);
               Some (msg\<lparr>rpq_asis := copy_field (popt_asis opt) (rpq_asis msg),
                         rpq_dw := copy_field (popt_dw opt) (rpq_dw msg),
                         rpq_if_none_match :=
                           (if fst (popt_if_none_match opt)
                            then (fst (popt_if_none_match opt), snd (rpq_if_none_match msg))
                            else rpq_if_none_match msg),
                         rpq_if_not_modified :=
                           (if fst (popt_if_not_modified opt)
                            then (fst (popt_if_not_modified opt), snd (rpq_if_not_modified msg))
                            else rpq_if_not_modified msg),
                         rpq_n_val := copy_field (popt_n_val opt) (rpq_n_val msg),
                         rpq_pw := copy_field (popt_pw opt) (rpq_pw msg),
                         rpq_return_body := copy_field (popt_return_body opt) (rpq_return_body msg),
                         rpq_return_head := copy_field (popt_return_head opt) (rpq_return_head msg),
                         rpq_sloppy_quorum := copy_field (popt_sloppy_quorum opt) (rpq_sloppy_quorum msg),
                         rpq_timeout := copy_field (popt_timeout opt) (rpq_timeout msg),
                         rpq_vclock := v,
                         rpq_w := copy_field (popt_w opt) (rpq_w msg)\<rparr>) })"

text \<open>
  \<open>ini\<close> and \<open>init_content\<close> are what the \<open>init\<close> functions of the generated code store. The error of
  the conversion is not looked at.
\<close>

definition riak_put_request_encode ::
  "rpb_put_req pb_api \<Rightarrow> rpb_inits \<Rightarrow> rpb_content \<Rightarrow> 'd \<Rightarrow> ('r, 'd) riak_operation \<Rightarrow> riak_object option \<Rightarrow>
   riak_put_options option \<Rightarrow> mem \<Rightarrow> (riak_error \<times> ('r, 'd) riak_operation \<times> mem) option"
where
  "riak_put_request_encode api ini init_content decoder rop riak_obj options m =
     do { ob \<leftarrow> riak_obj;
          let cfg = rop_config rop;
          b \<leftarrow> riak_binary_copy_to_pb (obj_bucket ob);
          ty \<leftarrow> opt_to_pb (riak_object_has_bucket_type ob) (obj_bucket_type ob) (rpq_type (pb_init api));
          k \<leftarrow> opt_to_pb (obj_has_key ob) (obj_key ob) (rpq_key (pb_init api));
          (err, content, m) \<leftarrow> riak_object_to_pb_copy cfg ini init_content ob m;
          putmsg \<leftarrow> put_options_to_pb options
            ((pb_init api)\<lparr>rpq_bucket := b, rpq_type := ty, rpq_key := k, rpq_content := content\<rparr>);
          send_packed_then (cfg_malloc cfg) ERIAK_OUT_OF_MEMORY (riak_object_free_pb cfg content) MSG_RPBPUTREQ
            (cut32 (pb_packed_size api putmsg)) (pb_pack api putmsg) decoder rop m }"

subsection \<open>The response\<close>

record riak_put_response =
  pr_at :: addr
  pr_n_content :: u32
  pr_content :: "riak_object parray option"
  pr_vclock :: "riak_binary option field"
  pr_key :: "riak_binary option field"
  pr_internal :: "addr option"

record rpb_put_resp =
  rpr_n_content :: u64
  rpr_content :: "rpb_content parray option"
  rpr_vclock :: "pb_binary field"
  rpr_key :: "pb_binary field"

text \<open>The objects of a put response get no names.\<close>

definition no_names :: "riak_object \<Rightarrow> mem \<Rightarrow> (riak_object \<times> mem) option" where
  "no_names ob m = Some (ob, m)"

text \<open>When a binary cannot be made, nothing is freed.\<close>

definition riak_put_response_decode ::
  "(addr \<Rightarrow> bytes \<Rightarrow> rpb_put_resp option) \<Rightarrow> ('r, 'd) riak_operation \<Rightarrow> riak_pb_message option \<Rightarrow>
   riak_put_response option \<Rightarrow> bool \<Rightarrow> mem \<Rightarrow>
   (riak_error \<times> riak_put_response option \<times> bool \<times> mem) option"
where
  "riak_put_response_decode unpack rop pbresp resp done m =
     do { let cfg = riak_operation_get_config rop;
          xs \<leftarrow> pbm_payload pbresp;
          let (u, m) = pb_unpack unpack xs m;
          (case u of
             None \<Rightarrow> Some (ERIAK_MESSAGE_FORMAT, resp, done, m)
           | Some (ua, pb) \<Rightarrow>
               do { (p, m) \<leftarrow> cfg_malloc cfg (SizeOf ''riak_put_response'' 1) m;
                    (case p of
                       None \<Rightarrow> Some (ERIAK_OUT_OF_MEMORY, resp, True, m)
                     | Some a \<Rightarrow>
                         do { let (r, m) =
                                opt_from_pb cfg (fst (rpr_vclock pb)) (snd (rpr_vclock pb)) (\<lambda>v.
                                opt_from_pb cfg (fst (rpr_key pb)) (snd (rpr_key pb)) (\<lambda>k m.
                                  (Some \<lparr>pr_at = a, pr_n_content = 0, pr_content = None, pr_vclock = v,
                                         pr_key = k, pr_internal = Some ua\<rparr>, m))) m;
                              (case r of
                                 None \<Rightarrow> Some (ERIAK_OUT_OF_MEMORY, resp, True, m)
                               | Some r \<Rightarrow>
                                   (if rpr_n_content pb > 0
                                    then do { let (err, objs, m) = riak_object_new_array cfg (rpr_n_content pb) m;
                                              (if err \<noteq> ERIAK_OK
                                               then do { m \<leftarrow> riak_free cfg (Some a) m;
                                                         Some (err, resp, True, m) }
                                               else do { objs \<leftarrow> objs;
                                                         (err, objs, m) \<leftarrow> contents_array cfg no_names
                                                           (rpr_content pb) (rpr_n_content pb) objs m;
                                                         (if err \<noteq> ERIAK_OK
                                                          then do { m \<leftarrow> riak_free cfg (Some a) m;
                                                                    Some (err, resp, True, m) }
                                                          else Some (ERIAK_OK,
                                                                 Some (r\<lparr>pr_n_content := ucast (rpr_n_content pb),
                                                                         pr_content := objs\<rparr>), True, m)) }) }
                                    else Some (ERIAK_OK, Some r, True, m))) }) }) }"

definition riak_put_response_print ::
  "(i32 \<Rightarrow> bytes) \<Rightarrow> riak_print_state \<Rightarrow> riak_put_response \<Rightarrow> (i32 \<times> riak_print_state) option"
where
  "riak_put_response_print strftime st r =
     print_seq
       [print_when (fst (pr_vclock r)) (\<lambda>st. riak_print_label_binary_hex st (str ''V-Clock'') (snd (pr_vclock r))),
        print_when (fst (pr_key r)) (\<lambda>st. riak_print_label_binary_hex st (str ''Key'') (snd (pr_key r))),
        \<lambda>st. riak_print_label_int st (str ''Num Objects'') (pr_n_content r),
        print_cells (\<lambda>ob st. riak_object_print strftime st ob) (pa_list (pr_content r)) (unat (pr_n_content r))] st"

text \<open>The binaries of a response are shallow, and freed without looking at their bytes.\<close>

definition riak_put_response_free ::
  "riak_config option \<Rightarrow> riak_put_response option \<Rightarrow> mem \<Rightarrow> mem option"
where
  "riak_put_response_free cfg resp m =
     (case resp of
        None \<Rightarrow> Some m
      | Some r \<Rightarrow>
          do { m \<leftarrow> (if pr_n_content r > 0
                    then riak_object_free_array cfg (pr_content r) (ucast (pr_n_content r)) m else Some m);
               m \<leftarrow> riak_free cfg (map_option bin_at (snd (pr_key r))) m;
               m \<leftarrow> riak_free cfg (map_option bin_at (snd (pr_vclock r))) m;
               m \<leftarrow> pb_free_unpacked (pr_internal r) m;
               riak_free cfg (Some (pr_at r)) m })"

text \<open>Another release of the same structure, which leaves the objects alone.\<close>

definition riak_free_put_request ::
  "riak_config option \<Rightarrow> riak_put_response option \<Rightarrow> mem \<Rightarrow> mem option"
where
  "riak_free_put_request cfg resp m =
     (case resp of
        None \<Rightarrow> Some m
      | Some r \<Rightarrow>
          do { m \<leftarrow> riak_binary_free cfg (snd (pr_key r)) m;
               m \<leftarrow> riak_binary_free cfg (snd (pr_vclock r)) m;
               m \<leftarrow> pb_free_unpacked (pr_internal r) m;
               riak_free cfg (Some (pr_at r)) m })"

definition riak_put_get_has_vclock :: "riak_put_response \<Rightarrow> bool" where
  "riak_put_get_has_vclock response = fst (pr_vclock response)"

definition riak_put_get_vclock :: "riak_put_response \<Rightarrow> riak_binary option" where
  "riak_put_get_vclock response = snd (pr_vclock response)"

definition riak_put_get_has_key :: "riak_put_response \<Rightarrow> bool" where
  "riak_put_get_has_key response = fst (pr_key response)"

definition riak_put_get_key :: "riak_put_response \<Rightarrow> riak_binary option" where
  "riak_put_get_key response = snd (pr_key response)"

definition riak_put_get_n_content :: "riak_put_response \<Rightarrow> u32" where
  "riak_put_get_n_content response = pr_n_content response"

definition riak_put_get_content :: "riak_put_response \<Rightarrow> riak_object parray option" where
  "riak_put_get_content response = pr_content response"

subsection \<open>What is sent\<close>

definition rpq_empty :: "rpb_put_req \<Rightarrow> bool" where
  "rpq_empty msg \<longleftrightarrow> \<not> fst (rpq_type msg) \<and>
     \<not> fst (rpq_key msg) \<and>
     \<not> fst (rpq_vclock msg) \<and>
     \<not> fst (rpq_w msg) \<and>
     \<not> fst (rpq_dw msg) \<and>
     \<not> fst (rpq_return_body msg) \<and>
     \<not> fst (rpq_pw msg) \<and>
     \<not> fst (rpq_if_not_modified msg) \<and>
     \<not> fst (rpq_if_none_match msg) \<and>
     \<not> fst (rpq_return_head msg) \<and>
     \<not> fst (rpq_timeout msg) \<and>
     \<not> fst (rpq_asis msg) \<and>
     \<not> fst (rpq_sloppy_quorum msg) \<and>
     \<not> fst (rpq_n_val msg)"

definition popt_wf :: "riak_put_options \<Rightarrow> bool" where
  "popt_wf opt \<longleftrightarrow> (fst (popt_vclock opt) \<longrightarrow> ptr_wf (snd (popt_vclock opt)))"

text \<open>
  The message asks for what the options ask for, except that the two conditions are there when they
  were set and have the value of the initial message \<open>ini\<close>.
\<close>

definition put_says :: "rpb_put_req \<Rightarrow> riak_put_options option \<Rightarrow> rpb_put_req \<Rightarrow> bool" where
  "put_says ini options msg \<longleftrightarrow>
     map_option pbb_bytes (field_opt (rpq_vclock msg)) =
       Option.bind options (\<lambda>opt. map_option ptr_bytes (field_opt (popt_vclock opt))) \<and>
     field_opt (rpq_w msg) = Option.bind options (\<lambda>opt. field_opt (popt_w opt)) \<and>
     field_opt (rpq_dw msg) = Option.bind options (\<lambda>opt. field_opt (popt_dw opt)) \<and>
     field_opt (rpq_return_body msg) = Option.bind options (\<lambda>opt. field_opt (popt_return_body opt)) \<and>
     field_opt (rpq_pw msg) = Option.bind options (\<lambda>opt. field_opt (popt_pw opt)) \<and>
     field_opt (rpq_return_head msg) = Option.bind options (\<lambda>opt. field_opt (popt_return_head opt)) \<and>
     field_opt (rpq_timeout msg) = Option.bind options (\<lambda>opt. field_opt (popt_timeout opt)) \<and>
     field_opt (rpq_asis msg) = Option.bind options (\<lambda>opt. field_opt (popt_asis opt)) \<and>
     field_opt (rpq_sloppy_quorum msg) = Option.bind options (\<lambda>opt. field_opt (popt_sloppy_quorum opt)) \<and>
     field_opt (rpq_n_val msg) = Option.bind options (\<lambda>opt. field_opt (popt_n_val opt)) \<and>
     field_opt (rpq_if_none_match msg) = Option.bind options (\<lambda>opt.
       map_option (\<lambda>_. snd (rpq_if_none_match ini)) (field_opt (popt_if_none_match opt))) \<and>
     field_opt (rpq_if_not_modified msg) = Option.bind options (\<lambda>opt.
       map_option (\<lambda>_. snd (rpq_if_not_modified ini)) (field_opt (popt_if_not_modified opt)))"

lemma put_options_to_pb_ok:
  assumes "pred_option popt_wf options" "rpq_empty ini"
  shows "\<exists>msg. put_options_to_pb options (ini\<lparr>rpq_bucket := b, rpq_type := ty, rpq_key := k, rpq_content := c\<rparr>) =
      Some msg \<and> put_says ini options msg \<and> rpq_bucket msg = b \<and> rpq_type msg = ty \<and> rpq_key msg = k \<and>
      rpq_content msg = c"
proof (cases options)
  case None
  with assms(2) show ?thesis by (simp add: put_options_to_pb_def put_says_def rpq_empty_def)
next
  case (Some opt)
  obtain v where "opt_to_pb (fst (popt_vclock opt)) (snd (popt_vclock opt)) (rpq_vclock ini) = Some v"
    "map_option pbb_bytes (field_opt v) = map_option ptr_bytes (field_opt (popt_vclock opt))"
    using opt_field_to_pb_ok [of "popt_vclock opt" "rpq_vclock ini"] assms Some
    by (auto simp: popt_wf_def rpq_empty_def)
  with Some assms(2) show ?thesis
    by (simp add: put_options_to_pb_def put_says_def rpq_empty_def)
      (simp add: field_opt_def)
qed

text \<open>An object that can be stored.\<close>

definition storable :: "riak_object \<Rightarrow> bool" where
  "storable ob \<longleftrightarrow> object_wf ob \<and> ptr_wf (obj_bucket ob) \<and> (obj_has_key ob \<longrightarrow> ptr_wf (obj_key ob)) \<and>
     (riak_object_has_bucket_type ob \<longrightarrow> ptr_wf (obj_bucket_type ob))"

lemma riak_put_request_sends:
  assumes g: "cfg_grants (rop_config rop)" and m: "mem_wf m" and ini: "rpq_empty (pb_init api)"
    and ini2: "inits_empty ini" "rpc_empty init_content"
    and ob: "storable ob" and opt: "pred_option popt_wf options"
  shows "\<exists>msg. pbb_bytes (rpq_bucket msg) = ptr_bytes (obj_bucket ob) \<and>
    map_option pbb_bytes (field_opt (rpq_type msg)) =
      when_flag (riak_object_has_bucket_type ob) (ptr_bytes (obj_bucket_type ob)) \<and>
    map_option pbb_bytes (field_opt (rpq_key msg)) = when_flag (obj_has_key ob) (ptr_bytes (obj_key ob)) \<and>
    rpb_content_of (rpq_content msg) = object_content ob \<and> put_says (pb_init api) options msg \<and>
    (packs api msg \<longrightarrow> sends MSG_RPBPUTREQ (pb_pack api msg) decoder rop m
       (riak_put_request_encode api ini init_content decoder rop (Some ob) options m))"
proof -
  let ?cfg = "rop_config rop"
  have w: "object_wf ob" "ptr_wf (obj_bucket ob)" using ob by (simp_all add: storable_def)
  obtain b where b: "riak_binary_copy_to_pb (obj_bucket ob) = Some b" "pbb_bytes b = ptr_bytes (obj_bucket ob)"
    using copy_to_pb_ok [OF w(2)] by auto
  obtain ty where ty: "opt_to_pb (riak_object_has_bucket_type ob) (obj_bucket_type ob) (rpq_type (pb_init api)) = Some ty"
    "map_option pbb_bytes (field_opt ty) = when_flag (riak_object_has_bucket_type ob) (ptr_bytes (obj_bucket_type ob))"
    using opt_field_to_pb_ok [of "(riak_object_has_bucket_type ob, obj_bucket_type ob)" "rpq_type (pb_init api)"] ob ini
    by (cases "riak_object_has_bucket_type ob") (auto simp: storable_def rpq_empty_def)
  obtain k where k: "opt_to_pb (obj_has_key ob) (obj_key ob) (rpq_key (pb_init api)) = Some k"
    "map_option pbb_bytes (field_opt k) = when_flag (obj_has_key ob) (ptr_bytes (obj_key ob))"
    using opt_field_to_pb_ok [of "(obj_has_key ob, obj_key ob)" "rpq_key (pb_init api)"] ob ini
    by (cases "obj_has_key ob") (auto simp: storable_def rpq_empty_def)
  obtain c m1 where c: "riak_object_to_pb_copy ?cfg ini init_content ob m = Some (ERIAK_OK, c, m1)"
    "rpc_wf c" "rpb_content_of c = object_content ob" "mem_allocs m (rpc_owned c) m1"
    using riak_object_to_pb_ok [OF g ini2 w(1)] by blast
  obtain msg where o: "put_options_to_pb options ((pb_init api)\<lparr>rpq_bucket := b, rpq_type := ty, rpq_key := k,
      rpq_content := c\<rparr>) = Some msg" "put_says (pb_init api) options msg"
    "rpq_bucket msg = b" "rpq_type msg = ty" "rpq_key msg = k" "rpq_content msg = c"
    using put_options_to_pb_ok [OF opt ini] by blast
  have cl: "riak_object_free_pb ?cfg c = mem_free_all (rpc_owned c)"
    using riak_object_free_pb_owned [OF cfg_grants_ok [OF g] c(2)] by (simp add: fun_eq_iff)
  have al: "cfg_malloc ?cfg sz m1 = Some (riak_config_allocate ?cfg sz m1)" for sz
    by (rule cfg_malloc_eq [OF cfg_grants_ok [OF g]])
  have "packs api msg \<Longrightarrow> sends MSG_RPBPUTREQ (pb_pack api msg) decoder rop m
      (send_packed_then (cfg_malloc ?cfg) ERIAK_OUT_OF_MEMORY (riak_object_free_pb ?cfg c) MSG_RPBPUTREQ
        (cut32 (pb_packed_size api msg)) (pb_pack api msg) decoder rop m1)"
    by (rule send_packed_then_sends [where alloc = "cfg_malloc ?cfg" and xs = "rpc_owned c" and ys = "rpc_owned c"])
      (simp_all add: g al m c(4) cl packs_def cut32_small)
  then have "packs api msg \<Longrightarrow> sends MSG_RPBPUTREQ (pb_pack api msg) decoder rop m
      (riak_put_request_encode api ini init_content decoder rop (Some ob) options m)"
    by (simp add: riak_put_request_encode_def b ty k c(1) o(1) Let_def)
  with b ty k c o show ?thesis by auto
qed

subsection \<open>What is received\<close>

definition rpr_wf :: "rpb_put_resp \<Rightarrow> bool" where
  "rpr_wf pb \<longleftrightarrow> (fst (rpr_vclock pb) \<longrightarrow> pbb_wf (snd (rpr_vclock pb))) \<and>
     (fst (rpr_key pb) \<longrightarrow> pbb_wf (snd (rpr_key pb))) \<and> unat (rpr_n_content pb) < 2 ^ 31 \<and>
     arr_ok (rpr_content pb) (unat (rpr_n_content pb)) \<and>
     list_all rpc_wf (arr_elems (rpr_content pb) (unat (rpr_n_content pb)))"

definition pr_ok :: "riak_put_response \<Rightarrow> bool" where
  "pr_ok r \<longleftrightarrow> objs_ok (pr_content r) (unat (pr_n_content r))"

definition pr_owned :: "riak_put_response \<Rightarrow> addr list" where
  "pr_owned r = objs_owned (pr_content r) (unat (pr_n_content r)) @ ptrs (map_option bin_at (snd (pr_key r))) @
     ptrs (map_option bin_at (snd (pr_vclock r))) @ ptrs (pr_internal r) @ [pr_at r]"

interpretation pr: owned_ptr pr_ok pr_owned riak_put_response_free
proof
  fix cfg and r :: riak_put_response and m
  assume "cfg_ok cfg" "pr_ok r"
  moreover have "unat (ucast (pr_n_content r) :: u64) = unat (pr_n_content r)"
    using unsigned_less [of "pr_n_content r", where ?'a = nat]
    by (simp add: unsigned_ucast_eq take_bit_nat_eq_self)
  ultimately show "riak_put_response_free cfg (Some r) m = mem_free_all (pr_owned r) m"
    using objs_free [of cfg "pr_content r" "unat (pr_n_content r)" "ucast (pr_n_content r)"]
    by (auto simp: riak_put_response_free_def pr_ok_def pr_owned_def mem_simps objs_owned_def word_less_nat_alt)
qed (simp add: riak_put_response_free_def)

lemma no_names_ok: "names_ok no_names (\<lambda>_. True)"
  unfolding names_ok_def no_names_def by (auto intro!: exI [of _ "[]"])

lemma riak_put_response_decode_ok:
  assumes g: "cfg_grants (rop_config rop)" and xs: "pbm_payload pbresp = Some xs"
    and u: "unpack (mem_next m) xs = Some pb" and wf: "rpr_wf pb"
  shows "\<exists>r m'. riak_put_response_decode unpack rop pbresp resp done m = Some (ERIAK_OK, Some r, True, m') \<and>
    pr_ok r \<and> mem_allocs m (pr_owned r) m' \<and>
    map_option bin_bytes (riak_put_get_vclock r) = map_option pbb_bytes (field_opt (rpr_vclock pb)) \<and>
    map_option bin_bytes (riak_put_get_key r) = map_option pbb_bytes (field_opt (rpr_key pb)) \<and>
    unat (riak_put_get_n_content r) = unat (rpr_n_content pb) \<and>
    map object_content (arr_elems (riak_put_get_content r) (unat (rpr_n_content pb))) =
      map rpb_content_of (arr_elems (rpr_content pb) (unat (rpr_n_content pb)))"
proof -
  let ?cfg = "rop_config rop" and ?n = "unat (rpr_n_content pb)" and ?m1 = "mem_push (mem_push m)"
  have wfs: "fst (rpr_vclock pb) \<Longrightarrow> pbb_wf (snd (rpr_vclock pb))" "fst (rpr_key pb) \<Longrightarrow> pbb_wf (snd (rpr_key pb))"
    "arr_ok (rpr_content pb) ?n" "list_all rpc_wf (arr_elems (rpr_content pb) ?n)" "?n < 2 ^ 31"
    using wf by (simp_all add: rpr_wf_def)
  obtain v m2 where v: "\<And>next :: _ \<Rightarrow> _ \<Rightarrow> riak_put_response option \<times> mem.
      opt_from_pb ?cfg (fst (rpr_vclock pb)) (snd (rpr_vclock pb)) next ?m1 = next (fst (rpr_vclock pb), v) m2"
    "map_option bin_bytes v = map_option pbb_bytes (field_opt (rpr_vclock pb))"
    "mem_allocs ?m1 (bin.owned_p v) m2" "bin.owned_p v = ptrs (map_option bin_at v)"
    using opt_field_from_pb_ok [OF g wfs(1)] by blast
  obtain k m3 where k: "\<And>next :: _ \<Rightarrow> _ \<Rightarrow> riak_put_response option \<times> mem.
      opt_from_pb ?cfg (fst (rpr_key pb)) (snd (rpr_key pb)) next m2 = next (fst (rpr_key pb), k) m3"
    "map_option bin_bytes k = map_option pbb_bytes (field_opt (rpr_key pb))"
    "mem_allocs m2 (bin.owned_p k) m3" "bin.owned_p k = ptrs (map_option bin_at k)"
    using opt_field_from_pb_ok [OF g wfs(2)] by blast
  let ?r = "\<lparr>pr_at = Suc (mem_next m), pr_n_content = 0, pr_content = None, pr_vclock = (fst (rpr_vclock pb), v),
    pr_key = (fst (rpr_key pb), k), pr_internal = Some (mem_next m)\<rparr>"
  have "mem_allocs m [mem_next m, Suc (mem_next m)] ?m1" by (auto simp: mem_allocs_def)
  note al = mem_allocs_trans [OF mem_allocs_trans [OF this v(3)] k(3)]
  note d = riak_put_response_decode_def riak_operation_get_config_def Let_def xs u pb_unpack_def
    cfg_malloc_eq [OF cfg_grants_ok [OF g]] allocate_granted [OF g] v(1) k(1)
    riak_put_get_vclock_def riak_put_get_key_def riak_put_get_n_content_def riak_put_get_content_def
  show ?thesis
  proof (cases "rpr_n_content pb > 0")
    case False
    then have n0: "?n = 0" by (simp add: word_less_nat_alt)
    have "mem_allocs m (pr_owned ?r) m3"
      by (rule mem_allocs_mset [OF al]) (simp add: pr_owned_def objs_owned_def v(4) k(4))
    with False n0 v(2) k(2) show ?thesis
      by (intro exI [of _ ?r] exI [of _ m3]) (simp add: d pr_ok_def objs_ok_def)
  next
    case True
    then have n0: "0 < ?n" by (simp add: word_less_nat_alt)
    let ?objs = "\<lparr>pa_addr = mem_next m3, pa_cells = replicate ?n None\<rparr>"
    obtain obs m4 where c: "contents_array ?cfg no_names (rpr_content pb) (rpr_n_content pb) ?objs (mem_push m3) =
        Some (ERIAK_OK, Some (?objs\<lparr>pa_cells := map Some obs\<rparr>), m4)" "length obs = ?n"
      "list_all object_wf obs"
      "map object_content obs = map rpb_content_of (arr_elems (rpr_content pb) ?n)"
      "mem_allocs (mem_push m3) (concat (map obj_owned obs)) m4"
      using contents_array_ok [OF g no_names_ok wfs(3-5), of ?objs "mem_push m3"] by auto
    let ?R = "?r\<lparr>pr_n_content := ucast (rpr_n_content pb), pr_content := Some \<lparr>pa_addr = mem_next m3, pa_cells = map Some obs\<rparr>\<rparr>"
    have ct: "unat (ucast (rpr_n_content pb) :: u32) = ?n"
      using wfs(5) by (simp add: unsigned_ucast_eq take_bit_nat_eq_self)
    note made = objs_made [OF c(3,2) n0]
    have "mem_allocs m (pr_owned ?R) m4"
      by (rule mem_allocs_mset [OF mem_allocs_trans [OF al mem_allocs_trans [OF mem_allocs_push [of m3] c(5)]]])
        (simp add: pr_owned_def ct made(2) v(4) k(4))
    with True c v(2) k(2) ct made(1) show ?thesis
      by (intro exI [of _ ?R] exI [of _ m4]) (simp add: d riak_object_new_array_def clean_allocate_eq pr_ok_def)
  qed
qed

lemma riak_put_response_print_safe:
  assumes "pred_option bin_wf (snd (pr_vclock r))" "pred_option bin_wf (snd (pr_key r))"
    and "arr_ok (pr_content r) (unat (pr_n_content r))"
    and "\<And>ob. ob \<in> set (arr_elems (pr_content r) (unat (pr_n_content r))) \<Longrightarrow> printable_object ob"
    and "\<And>v. length (strftime v) < 256"
  shows "print_safe (\<lambda>st. riak_put_response_print strftime st r)"
  unfolding riak_put_response_print_def
  by (rule print_safe_list, simp only: list.pred_inject)
    (intro conjI TrueI print_intros print_safe_cells riak_object_print_safe assms; use assms(1,2) in \<open>auto\<close>)

end
