(* ===== verification/Riak_Stream.thy ===== *)
theory Riak_Stream
  imports Riak_Response
begin

text \<open>
  Responses that arrive as several messages (\<^verbatim>\<open>src/messages/riak_listbuckets.c\<close>,
  \<^verbatim>\<open>src/messages/riak_listkeys.c\<close>, \<^verbatim>\<open>src/messages/riak_mapreduce.c\<close>, \<^verbatim>\<open>src/messages/riak_2i.c\<close>): the arrays
  a response grows with each message, and the contract of a decoder that accumulates.

  A response is changed in place, so the response a decoder returns is the one after the changes.
  When the first message fails the new response is not stored and stays allocated. The counters
  are 32-bit words; an \<open>int\<close> that runs below such a count is a natural number.
\<close>

subsection \<open>Growing arrays\<close>

text \<open>The pointer \<open>*resp\<close> after a failure: NULL if it was NULL, else the changed structure.\<close>

definition kept :: "'r option \<Rightarrow> 'r \<Rightarrow> 'r option" where
  "kept resp r = (if resp = None then None else Some r)"

text \<open>
  \<open>if (array != NULL) riak_array_realloc(\<dots>) else array = malloc(\<dots>)\<close>: room for \<open>additional\<close>
  pointers after the \<open>existing\<close> ones.
\<close>

definition extend_array ::
  "riak_config option \<Rightarrow> string \<Rightarrow> 'a parray option \<Rightarrow> u32 \<Rightarrow> u32 \<Rightarrow> mem \<Rightarrow>
   (bool \<times> 'a parray option \<times> mem) option"
where
  "extend_array cfg elt arr existing additional m =
     (if arr \<noteq> None then riak_array_realloc cfg arr elt existing (additional + existing) m
      else do { (p, m) \<leftarrow> cfg_malloc cfg (SizeOf elt (unat additional)) m;
                Some (p \<noteq> None,
                      map_option (\<lambda>a. \<lparr>pa_addr = a, pa_cells = replicate (unat additional) None\<rparr>) p, m) })"

text \<open>The array of the messages a response was made from gets room for one more.\<close>

definition extend_internal ::
  "(csize \<Rightarrow> mem \<Rightarrow> (addr option \<times> mem) option) \<Rightarrow> riak_config option \<Rightarrow> string \<Rightarrow> 'a parray option \<Rightarrow>
   u32 \<Rightarrow> 'a \<Rightarrow> mem \<Rightarrow> (bool \<times> 'a parray option \<times> mem) option"
where
  "extend_internal alloc cfg elt arr existing x m =
     do { (done, arr, m) \<leftarrow>
            (if existing > 0 then riak_array_realloc cfg arr elt existing (existing + 1) m
             else do { (p, m) \<leftarrow> alloc (SizeOf elt 1) m;
                       Some (p \<noteq> None, map_option (\<lambda>a. \<lparr>pa_addr = a, pa_cells = [None]\<rparr>) p, m) });
          (if \<not> done then Some (False, arr, m)
           else do { a \<leftarrow> arr;
                     guard (unat existing < length (pa_cells a));
                     Some (True, Some (a\<lparr>pa_cells := (pa_cells a)[unat existing := Some x]\<rparr>), m) }) }"

text \<open>Freeing the first \<open>n\<close> elements of an array, which may be NULL.\<close>

fun free_each :: "('a option \<Rightarrow> mem \<Rightarrow> mem option) \<Rightarrow> 'a option list \<Rightarrow> nat \<Rightarrow> mem \<Rightarrow> mem option" where
  "free_each f cells 0 m = Some m"
| "free_each f cells (Suc n) m =
     do { guard (cells \<noteq> []); m \<leftarrow> f (hd cells) m; free_each f (tl cells) n m }"

lemma free_each_owned:
  "(\<And>x m. x \<in> set xs \<Longrightarrow> f (Some x) m = mem_free_all (own x) m) \<Longrightarrow>
   free_each f (map Some xs @ rest) (length xs) m = mem_free_all (concat (map own xs)) m"
proof (induction xs arbitrary: m)
  case (Cons x xs)
  then have "free_each f (map Some xs @ rest) (length xs) = mem_free_all (concat (map own xs))"
    by (intro ext) simp
  with Cons.prems show ?case by simp
qed simp

subsection \<open>Growing without failures\<close>

text \<open>
  The ledger of a growing structure: between \<open>m0\<close> and \<open>m\<close> the blocks \<open>as\<close> were added. Replacing
  a block by a larger copy replaces its address.
\<close>

lemma mem_allocs_replace:
  assumes "mem_wf m0" "mem_allocs m0 (xs @ a # ys) m"
  shows "mem_allocs m0 (xs @ mem_next m # ys)
    ((mem_push m)\<lparr>mem_live := insert (mem_next m) (mem_live m) - {a}\<rparr>)"
proof -
  have a: "a \<notin> mem_live m0" using mem_allocs_fresh [OF assms(2,1)] by simp
  have m: "mem_live m = mem_live m0 \<union> set (xs @ a # ys)" "distinct (xs @ a # ys)" "mem_next m0 \<le> mem_next m"
    "\<And>b. b \<in> set (xs @ a # ys) \<Longrightarrow> mem_next m0 \<le> b \<and> b < mem_next m" "mem_junk m = mem_junk m0"
    using assms(2) unfolding mem_allocs_def by blast+
  have "mem_next m \<notin> set (xs @ a # ys)" using m(4) by blast
  then have "distinct (xs @ mem_next m # ys)" "a \<noteq> mem_next m" using m(2) by auto
  moreover have "insert (mem_next m) (mem_live m) - {a} = mem_live m0 \<union> set (xs @ mem_next m # ys)"
    using a m(1,2) \<open>a \<noteq> mem_next m\<close> by auto
  moreover have "\<forall>b \<in> set (xs @ mem_next m # ys). mem_next m0 \<le> b \<and> b < Suc (mem_next m)"
    using m(3,4) by (auto simp: less_Suc_eq)
  ultimately show ?thesis using m(3,5) unfolding mem_allocs_def by simp
qed

lemma mem_free_all_Cons: "mem_free_all (a # xs) = (\<lambda>m. mem_free a m \<bind> mem_free_all xs)"
  using mem_free_all_append [of "[a]" xs] by simp

lemma mem_free_all_mset:
  assumes "mset xs = mset ys"
  shows "mem_free_all xs m = mem_free_all ys m"
proof -
  have "set xs = set ys" "distinct xs \<longleftrightarrow> distinct ys"
    using assms mset_eq_setD mset_eq_imp_distinct_iff by blast+
  then show ?thesis
    using mem_free_all_defined [of xs m] mem_free_all_defined [of ys m] mem_free_all_Some [of xs m]
      mem_free_all_Some [of ys m] by (cases "distinct xs \<and> set xs \<subseteq> mem_live m") auto
qed

lemma extend_array_ok:
  assumes g: "cfg_grants cfg" and len: "length cells = unat k" "unat k + unat n < 2 ^ 32" and wf: "mem_wf m0"
    and arr: "arr = None \<and> cells = [] \<or> (\<exists>a. arr = Some \<lparr>pa_addr = a, pa_cells = cells\<rparr>)"
    and m: "mem_allocs m0 (xs @ ptrs (map_option pa_addr arr) @ ys) m"
  shows "\<exists>a m'. extend_array cfg elt arr k n m =
      Some (True, Some \<lparr>pa_addr = a, pa_cells = cells @ replicate (unat n) None\<rparr>, m') \<and>
    mem_allocs m0 (xs @ a # ys) m'"
proof (cases arr)
  case None
  have "mem_allocs m0 ((xs @ ys) @ [mem_next m]) (mem_push m)"
    using m None mem_allocs_snoc [of m0 "xs @ ys" m] by simp
  then have "mem_allocs m0 (xs @ mem_next m # ys) (mem_push m)" by (rule mem_allocs_mset) simp
  with None arr show ?thesis
    by (simp add: extend_array_def cfg_malloc_eq [OF cfg_grants_ok [OF g]] allocate_granted [OF g])
next
  case (Some f)
  then obtain a where f: "f = \<lparr>pa_addr = a, pa_cells = cells\<rparr>" using arr by auto
  have s: "unat (n + k) = unat k + unat n" using len(2) by (simp add: unat_word_ariths)
  have "a \<in> mem_live m" using m Some f by (simp add: mem_allocs_def)
  with riak_array_realloc_granted [OF g, of k f "n + k" m elt] len(1) s f Some
    mem_allocs_replace [OF wf, of xs a ys m] m
  show ?thesis by (auto simp: extend_array_def)
qed

lemma extend_internal_ok:
  assumes g: "cfg_grants cfg" and alloc: "\<And>sz. alloc sz m = Some (riak_config_allocate cfg sz m)"
    and len: "length cells = unat k" "unat k < 2 ^ 32 - 1" and wf: "mem_wf m0"
    and arr: "arr = None \<and> cells = [] \<or> (\<exists>a. arr = Some \<lparr>pa_addr = a, pa_cells = cells\<rparr>) \<and> cells \<noteq> []"
    and m: "mem_allocs m0 (xs @ ptrs (map_option pa_addr arr) @ ys) m"
  shows "\<exists>a m'. extend_internal alloc cfg elt arr k x m =
      Some (True, Some \<lparr>pa_addr = a, pa_cells = cells @ [Some x]\<rparr>, m') \<and> mem_allocs m0 (xs @ a # ys) m'"
proof (cases arr)
  case None
  have "mem_allocs m0 ((xs @ ys) @ [mem_next m]) (mem_push m)"
    using m None mem_allocs_snoc [of m0 "xs @ ys" m] by simp
  then have "mem_allocs m0 (xs @ mem_next m # ys) (mem_push m)" by (rule mem_allocs_mset) simp
  with None arr len(1) show ?thesis
    by (simp add: extend_internal_def alloc allocate_granted [OF g] word_less_nat_alt)
next
  case (Some f)
  then obtain a where f: "f = \<lparr>pa_addr = a, pa_cells = cells\<rparr>" and ne: "cells \<noteq> []" using arr by auto
  have s: "unat (k + 1) = Suc (unat k)" using len(2) by (simp add: unat_word_ariths)
  have "0 < unat k" using ne by (simp flip: len(1))
  then have k: "0 < k" by (simp add: word_less_nat_alt)
  have "a \<in> mem_live m" using m Some f by (simp add: mem_allocs_def)
  with riak_array_realloc_granted [OF g, of k f "k + 1" m elt] len(1) s f Some k
    mem_allocs_replace [OF wf, of xs a ys m] m
  show ?thesis by (auto simp: extend_internal_def list_update_append)
qed

subsection \<open>Accumulating decoders\<close>

text \<open>The messages of an answer, one after the other.\<close>

fun stream :: "('msg \<Rightarrow> 'resp option \<Rightarrow> mem \<Rightarrow> ('resp \<times> mem) option) \<Rightarrow> 'msg list \<Rightarrow> 'resp option \<Rightarrow> mem \<Rightarrow>
  ('resp option \<times> mem) option"
where
  "stream step [] r m = Some (r, m)"
| "stream step (msg # msgs) r m = do { (r, m) \<leftarrow> step msg r m; stream step msgs (Some r) m }"

text \<open>
  The contract of a decoder of streamed responses: given the response so far and one more message
  it adds the elements of the message at the end (\<open>items\<close>), as long as there are fewer than
  \<open>limit\<close> of them and of messages. \<open>holds m0 r m\<close> says that between \<open>m0\<close> and \<open>m\<close> exactly the blocks
  of the response \<open>r\<close> were allocated.
\<close>

locale stream_decoder =
  fixes step :: "'msg \<Rightarrow> 'resp option \<Rightarrow> mem \<Rightarrow> ('resp \<times> mem) option"
    and fine :: "'msg \<Rightarrow> bool" and adds :: "'msg \<Rightarrow> 'x list"
    and items :: "'resp \<Rightarrow> 'x list" and parts :: "'resp \<Rightarrow> nat" and limit :: nat
    and holds :: "mem \<Rightarrow> 'resp \<Rightarrow> mem \<Rightarrow> bool"
  assumes first: "mem_wf m \<Longrightarrow> fine msg \<Longrightarrow> length (adds msg) < limit \<Longrightarrow>
      \<exists>r m'. step msg None m = Some (r, m') \<and> holds m r m' \<and> items r = adds msg \<and> parts r = 1"
    and more: "holds m0 r m \<Longrightarrow> fine msg \<Longrightarrow> length (items r) + length (adds msg) < limit \<Longrightarrow>
      parts r < limit \<Longrightarrow>
      \<exists>r' m'. step msg (Some r) m = Some (r', m') \<and> holds m0 r' m' \<and> items r' = items r @ adds msg \<and>
        parts r' = Suc (parts r)"
begin

lemma stream_continues:
  assumes "holds m0 r m" "list_all fine msgs" "length (items r) + length (concat (map adds msgs)) < limit"
    and "parts r + length msgs \<le> limit"
  shows "\<exists>r' m'. stream step msgs (Some r) m = Some (Some r', m') \<and> holds m0 r' m' \<and>
    items r' = items r @ concat (map adds msgs) \<and> parts r' = parts r + length msgs"
  using assms
proof (induction msgs arbitrary: r m)
  case (Cons msg msgs)
  then obtain r1 m1 where "step msg (Some r) m = Some (r1, m1)" "holds m0 r1 m1"
    "items r1 = items r @ adds msg" "parts r1 = Suc (parts r)"
    using more [of m0 r m msg] by auto
  with Cons.IH [of r1 m1] Cons.prems show ?case by auto
qed simp

lemma stream_collects:
  assumes "mem_wf m" "list_all fine msgs" "msgs \<noteq> []" "length (concat (map adds msgs)) < limit"
    and "length msgs \<le> limit"
  shows "\<exists>r m'. stream step msgs None m = Some (Some r, m') \<and> holds m r m' \<and>
    items r = concat (map adds msgs) \<and> parts r = length msgs"
proof -
  obtain msg rest where msgs: "msgs = msg # rest" using assms(3) by (cases msgs) auto
  obtain r m' where "step msg None m = Some (r, m')" "holds m r m'" "items r = adds msg" "parts r = 1"
    using first [OF assms(1), of msg] assms msgs by auto
  with stream_continues [of m r m' rest] assms msgs show ?thesis by auto
qed

end

end
