(* ===== verification/Riak_List.thy ===== *)
theory Riak_List
  imports Riak_Stream
begin

text \<open>
  Listing buckets and keys (\<^verbatim>\<open>src/messages/riak_listbuckets.c\<close>, \<^verbatim>\<open>src/messages/riak_listkeys.c\<close>). The two
  responses have the same fields under other names and their functions are the same text, so they
  share the definitions that start with \<open>list_\<close>; \<open>elt\<close> and \<open>internal_elt\<close> are the names of their
  types.
\<close>

record riak_list_response =
  ls_at :: addr
  ls_n :: u32
  ls_items :: "riak_binary parray option"
  ls_done :: bool
  ls_n_responses :: u32
  ls_internal :: "addr parray option"

text \<open>The binaries of a message are an array of structures, not of pointers.\<close>

record rpb_list_resp =
  rlr_n :: u64
  rlr_items :: "pb_binary list"
  rlr_done :: "bool field"

definition list_zero :: "addr \<Rightarrow> riak_list_response" where
  "list_zero a = \<lparr>ls_at = a, ls_n = 0, ls_items = None, ls_done = False, ls_n_responses = 0, ls_internal = None\<rparr>"

subsection \<open>Decoding\<close>

text \<open>
  The copy loop, with \<open>n\<close> binaries to go and the index \<open>i\<close>. A binary that could not be made is
  dereferenced; the test is of its data. The first result is how many were not copied.
\<close>

fun binaries_copy ::
  "riak_config option \<Rightarrow> pb_binary list \<Rightarrow> u32 \<Rightarrow> nat \<Rightarrow> nat \<Rightarrow> riak_binary option list \<Rightarrow> mem \<Rightarrow>
   (nat \<times> riak_binary option list \<times> mem) option"
where
  "binaries_copy cfg bs existing 0 i cells m = Some (0, cells, m)"
| "binaries_copy cfg bs existing (Suc n) i cells m =
     do { guard (i < length bs);
          (x, m) \<leftarrow> riak_binary_new cfg (pbb_len (bs ! i)) (pbb_data (bs ! i)) m;
          let k = unat (of_nat i + existing);
          guard (k < length cells);
          let cells = cells[k := x];
          b \<leftarrow> x;
          (if bin_data b = None then Some (Suc n, cells, m)
           else binaries_copy cfg bs existing n (Suc i) cells m) }"

definition list_append ::
  "string \<Rightarrow> riak_config option \<Rightarrow> addr \<Rightarrow> rpb_list_resp \<Rightarrow> riak_list_response option \<Rightarrow>
   riak_list_response \<Rightarrow> bool \<Rightarrow> mem \<Rightarrow> (riak_error \<times> riak_list_response option \<times> bool \<times> mem) option"
where
  "list_append internal_elt cfg ua pb resp r done m =
     do { let existing = ls_n r;
          let additional = ucast (rlr_n pb);
          (ok, arr, m) \<leftarrow> extend_array cfg ''riak_binary*'' (ls_items r) existing additional m;
          let r = r\<lparr>ls_items := arr\<rparr>;
          (if \<not> ok then Some (ERIAK_OUT_OF_MEMORY, kept resp r, done, m)
           else do { a \<leftarrow> arr;
                     let r = r\<lparr>ls_n := ls_n r + additional\<rparr>;
                     (left, cells, m) \<leftarrow> binaries_copy cfg (rlr_items pb) existing (unat additional) 0 (pa_cells a) m;
                     (if left > 0
                      then do { m \<leftarrow> pb_free_unpacked (Some ua) m;
                                m \<leftarrow> free_each (\<lambda>x. riak_free cfg (map_option bin_at x))
                                      (drop (unat existing) cells) (unat additional - left) m;
                                m \<leftarrow> riak_free cfg (Some (pa_addr a)) m;
                                m \<leftarrow> riak_free cfg (map_option ls_at resp) m;
                                Some (ERIAK_OUT_OF_MEMORY, None, done, m) }
                      else do { let r = r\<lparr>ls_items := Some (a\<lparr>pa_cells := cells\<rparr>),
                                          ls_done := (if fst (rlr_done pb) then snd (rlr_done pb) else False)\<rparr>;
                                (ok, internal, m) \<leftarrow> extend_internal (cfg_malloc cfg) cfg internal_elt
                                                     (ls_internal r) (ls_n_responses r) ua m;
                                let r = r\<lparr>ls_internal := internal\<rparr>;
                                Some (if \<not> ok then (ERIAK_OUT_OF_MEMORY, kept resp r, ls_done r, m)
                                      else (ERIAK_OK, Some (r\<lparr>ls_n_responses := ls_n_responses r + 1\<rparr>),
                                            ls_done r, m)) }) }) }"

definition list_response_decode ::
  "string \<Rightarrow> string \<Rightarrow> (addr \<Rightarrow> bytes \<Rightarrow> rpb_list_resp option) \<Rightarrow> ('r, 'd) riak_operation \<Rightarrow>
   riak_pb_message option \<Rightarrow> riak_list_response option \<Rightarrow> bool \<Rightarrow> mem \<Rightarrow>
   (riak_error \<times> riak_list_response option \<times> bool \<times> mem) option"
where
  "list_response_decode elt internal_elt unpack rop pbresp resp done m =
     do { let cfg = riak_operation_get_config rop;
          xs \<leftarrow> pbm_payload pbresp;
          let (u, m) = pb_unpack unpack xs m;
          (case u of
             None \<Rightarrow> Some (ERIAK_MESSAGE_FORMAT, resp, done, m)
           | Some (ua, pb) \<Rightarrow>
               do { (r, m) \<leftarrow> (case resp of
                                Some r \<Rightarrow> Some (Some r, m)
                              | None \<Rightarrow> do { (p, m) \<leftarrow> cfg_malloc cfg (SizeOf elt 1) m;
                                            Some (map_option list_zero p, m) });
                    (case r of
                       None \<Rightarrow> Some (ERIAK_OUT_OF_MEMORY, resp, done, m)
                     | Some r \<Rightarrow> list_append internal_elt cfg ua pb resp r done m) }) }"

definition list_response_free ::
  "riak_config option \<Rightarrow> riak_list_response option \<Rightarrow> mem \<Rightarrow> mem option"
where
  "list_response_free cfg resp m =
     (case resp of
        None \<Rightarrow> Some m
      | Some r \<Rightarrow>
          do { m \<leftarrow> free_each (riak_binary_free cfg) (pa_list (ls_items r)) (unat (ls_n r)) m;
               m \<leftarrow> riak_free cfg (map_option pa_addr (ls_items r)) m;
               m \<leftarrow> (if ls_n_responses r > 0
                     then do { m \<leftarrow> free_each pb_free_unpacked (pa_list (ls_internal r)) (unat (ls_n_responses r)) m;
                               riak_free cfg (map_option pa_addr (ls_internal r)) m }
                     else Some m);
               riak_free cfg (Some (ls_at r)) m })"

text \<open>The loop that prints the binaries; only its condition looks at the room that is left.\<close>

fun list_print_loop :: "riak_binary option list \<Rightarrow> nat \<Rightarrow> nat \<Rightarrow> printer" where
  "list_print_loop cells i 0 st = Some (0, st)"
| "list_print_loop cells i (Suc n) st =
     (if sint (riak_print_len st) > 0
      then do { guard (cells \<noteq> []);
                (a, st) \<leftarrow> riak_print st (dec_int (int i) @ str '' - '');
                (b, st) \<leftarrow> riak_print_binary st (hd cells);
                (c, st) \<leftarrow> riak_print st [10];
                (ws, st) \<leftarrow> list_print_loop (tl cells) (Suc i) n st;
                Some (a + b + c + ws, st) }
      else Some (0, st))"

definition list_response_print ::
  "string \<Rightarrow> riak_print_state \<Rightarrow> riak_list_response \<Rightarrow> (i32 \<times> riak_print_state) option"
where
  "list_response_print label st r =
     print_seq
       [\<lambda>st. riak_print_label_int st (str label) (ls_n r),
        list_print_loop (pa_list (ls_items r)) 0 (unat (ls_n r)),
        \<lambda>st. riak_print_label_bool st (str ''Done'') (ls_done r)] st"

subsection \<open>Buckets\<close>

record rpb_listbuckets_req =
  rlbq_timeout :: "u32 field"
  rlbq_stream :: "bool field"
  rlbq_type :: "pb_binary field"

text \<open>The block of the packed message is freed when there is no memory for the \<open>riak_pb_message\<close>.\<close>

definition riak_listbuckets_request_encode ::
  "rpb_listbuckets_req pb_api \<Rightarrow> 'd \<Rightarrow> ('r, 'd) riak_operation \<Rightarrow> riak_binary option \<Rightarrow> u32 \<Rightarrow> mem \<Rightarrow>
   (riak_error \<times> ('r, 'd) riak_operation \<times> mem) option"
where
  "riak_listbuckets_request_encode api decoder rop bucket_type timeout m =
     do { let cfg = rop_config rop;
          ty \<leftarrow> given_to_pb bucket_type (rlbq_type (pb_init api));
          let req = (pb_init api)\<lparr>rlbq_stream := (True, True), rlbq_type := ty,
                      rlbq_timeout := (if timeout > 0 then (True, timeout) else rlbq_timeout (pb_init api))\<rparr>;
          let msglen = pb_packed_size api req;
          (p, m) \<leftarrow> cfg_malloc cfg (Bytes (unat msglen)) m;
          (case p of
             None \<Rightarrow> Some (ERIAK_OUT_OF_MEMORY, rop, m)
           | Some a \<Rightarrow>
               do { let packed = pb_pack api req;
                    guard (length packed \<le> unat msglen);
                    let (request, m) = riak_pb_message_new cfg MSG_RPBLISTBUCKETSREQ msglen
                                         (Some \<lparr>buf_addr = a, buf_bytes = packed\<rparr>) m;
                    (if request = None
                     then do { m \<leftarrow> riak_free cfg (Some a) m; Some (ERIAK_OUT_OF_MEMORY, rop, m) }
                     else Some (ERIAK_OK,
                                riak_operation_set_response_decoder (rop\<lparr>rop_pb_request := request\<rparr>) decoder,
                                m)) }) }"

definition riak_listbuckets_response_decode ::
  "(addr \<Rightarrow> bytes \<Rightarrow> rpb_list_resp option) \<Rightarrow> ('r, 'd) riak_operation \<Rightarrow> riak_pb_message option \<Rightarrow>
   riak_list_response option \<Rightarrow> bool \<Rightarrow> mem \<Rightarrow>
   (riak_error \<times> riak_list_response option \<times> bool \<times> mem) option"
where
  "riak_listbuckets_response_decode =
     list_response_decode ''riak_listbuckets_response'' ''RpbListBucketsResp*''"

definition riak_listbuckets_response_free ::
  "riak_config option \<Rightarrow> riak_list_response option \<Rightarrow> mem \<Rightarrow> mem option" where
  "riak_listbuckets_response_free = list_response_free"

definition riak_listbuckets_response_print ::
  "riak_print_state \<Rightarrow> riak_list_response \<Rightarrow> (i32 \<times> riak_print_state) option" where
  "riak_listbuckets_response_print = list_response_print ''Num Buckets''"

definition riak_listbuckets_get_n_buckets :: "riak_list_response \<Rightarrow> u32" where
  "riak_listbuckets_get_n_buckets response = ls_n response"

definition riak_listbuckets_get_buckets :: "riak_list_response \<Rightarrow> riak_binary parray option" where
  "riak_listbuckets_get_buckets response = ls_items response"

subsection \<open>Keys\<close>

record rpb_listkeys_req =
  rlkq_bucket :: pb_binary
  rlkq_timeout :: "u32 field"
  rlkq_type :: "pb_binary field"

text \<open>The error of a failed allocation is 1 (\<open>ERIAK_TEST_FAILURE\<close>).\<close>

definition riak_listkeys_request_encode ::
  "rpb_listkeys_req pb_api \<Rightarrow> 'd \<Rightarrow> ('r, 'd) riak_operation \<Rightarrow> riak_binary option \<Rightarrow>
   riak_binary option \<Rightarrow> u32 \<Rightarrow> mem \<Rightarrow> (riak_error \<times> ('r, 'd) riak_operation \<times> mem) option"
where
  "riak_listkeys_request_encode api decoder rop bucket_type bucket timeout m =
     do { ty \<leftarrow> given_to_pb bucket_type (rlkq_type (pb_init api));
          b \<leftarrow> riak_binary_copy_to_pb bucket;
          let req = (pb_init api)\<lparr>rlkq_type := ty, rlkq_bucket := b,
                      rlkq_timeout := (if timeout > 0 then (True, timeout) else rlkq_timeout (pb_init api))\<rparr>;
          send_packed (cfg_malloc (rop_config rop)) ERIAK_TEST_FAILURE MSG_RPBLISTKEYSREQ
            (pb_packed_size api req) (pb_pack api req) decoder rop m }"

definition riak_listkeys_response_decode ::
  "(addr \<Rightarrow> bytes \<Rightarrow> rpb_list_resp option) \<Rightarrow> ('r, 'd) riak_operation \<Rightarrow> riak_pb_message option \<Rightarrow>
   riak_list_response option \<Rightarrow> bool \<Rightarrow> mem \<Rightarrow>
   (riak_error \<times> riak_list_response option \<times> bool \<times> mem) option"
where
  "riak_listkeys_response_decode = list_response_decode ''riak_listkeys_response'' ''RpbListKeysResp*''"

definition riak_listkeys_response_free ::
  "riak_config option \<Rightarrow> riak_list_response option \<Rightarrow> mem \<Rightarrow> mem option" where
  "riak_listkeys_response_free = list_response_free"

definition riak_listkeys_response_print ::
  "riak_print_state \<Rightarrow> riak_list_response \<Rightarrow> (i32 \<times> riak_print_state) option" where
  "riak_listkeys_response_print = list_response_print ''Num Keys''"

definition riak_listkeys_get_n_keys :: "riak_list_response \<Rightarrow> u32" where
  "riak_listkeys_get_n_keys response = ls_n response"

definition riak_listkeys_get_keys :: "riak_list_response \<Rightarrow> riak_binary parray option" where
  "riak_listkeys_get_keys response = ls_items response"

subsection \<open>What a response holds\<close>

definition list_owned :: "riak_list_response \<Rightarrow> addr list" where
  "list_owned r = arr_owned bin_owned (ls_items r) (unat (ls_n r)) @
     (if ls_n_responses r > 0 then arr_owned (\<lambda>u. [u]) (ls_internal r) (unat (ls_n_responses r)) else []) @
     [ls_at r]"

definition list_ok :: "riak_list_response \<Rightarrow> bool" where
  "list_ok r \<longleftrightarrow> (\<exists>a bs q us. ls_items r = Some \<lparr>pa_addr = a, pa_cells = map Some bs\<rparr> \<and> length bs = unat (ls_n r) \<and>
     ls_internal r = Some \<lparr>pa_addr = q, pa_cells = map Some us\<rparr> \<and> us \<noteq> [] \<and>
     length us = unat (ls_n_responses r) \<and> list_all bin_wf bs)"

definition list_items :: "riak_list_response \<Rightarrow> bytes list" where
  "list_items r = map bin_bytes (arr_elems (ls_items r) (unat (ls_n r)))"

lemma list_okE:
  assumes "list_ok r"
  obtains a bs q us where "ls_items r = Some \<lparr>pa_addr = a, pa_cells = map Some bs\<rparr>" "length bs = unat (ls_n r)"
    "ls_internal r = Some \<lparr>pa_addr = q, pa_cells = map Some us\<rparr>" "us \<noteq> []"
    "length us = unat (ls_n_responses r)" "list_all bin_wf bs" "0 < ls_n_responses r"
    "list_owned r = concat (map bin_owned bs) @ a # us @ [q, ls_at r]" "list_items r = map bin_bytes bs"
proof -
  from assms obtain a bs q us where *: "ls_items r = Some \<lparr>pa_addr = a, pa_cells = map Some bs\<rparr>"
    "length bs = unat (ls_n r)" "ls_internal r = Some \<lparr>pa_addr = q, pa_cells = map Some us\<rparr>" "us \<noteq> []"
    "length us = unat (ls_n_responses r)" "list_all bin_wf bs"
    by (auto simp: list_ok_def)
  have "0 < unat (ls_n_responses r)" using *(4) by (simp flip: *(5))
  then have k: "0 < ls_n_responses r" by (simp add: word_less_nat_alt)
  have e: "arr_elems (ls_items r) (unat (ls_n r)) = bs" "arr_elems (ls_internal r) (unat (ls_n_responses r)) = us"
    unfolding *(1,3) *(2) [symmetric] *(5) [symmetric] by (simp_all add: arr_elems_def comp_def)
  have "list_items r = map bin_bytes bs" unfolding list_items_def e ..
  moreover have "list_owned r = concat (map bin_owned bs) @ a # us @ [q, ls_at r]"
    unfolding list_owned_def arr_owned_def e unfolding *(1,3) using k by simp
  ultimately show thesis using * k by (intro that)
qed

interpretation lsr: owned_ptr list_ok list_owned list_response_free
proof
  fix cfg and r :: riak_list_response and m
  assume ok: "cfg_ok cfg" and "list_ok r"
  obtain a bs q us where r: "ls_items r = Some \<lparr>pa_addr = a, pa_cells = map Some bs\<rparr>"
    "length bs = unat (ls_n r)" "ls_internal r = Some \<lparr>pa_addr = q, pa_cells = map Some us\<rparr>"
    "length us = unat (ls_n_responses r)" "0 < ls_n_responses r"
    "list_owned r = concat (map bin_owned bs) @ a # us @ [q, ls_at r]"
    by (rule list_okE [OF \<open>list_ok r\<close>])
  have "free_each (riak_binary_free cfg) (map Some bs) (unat (ls_n r)) = mem_free_all (concat (map bin_owned bs))"
    using free_each_owned [of bs "riak_binary_free cfg" bin_owned "[]"] ok r(2)
    by (simp add: fun_eq_iff riak_binary_free_owned)
  moreover have "free_each pb_free_unpacked (map Some us) (unat (ls_n_responses r)) = mem_free_all us"
    using free_each_owned [of us pb_free_unpacked "\<lambda>u. [u]" "[]"] r(4)
    by (simp add: fun_eq_iff pb_free_unpacked_def)
  ultimately show "list_response_free cfg (Some r) m = mem_free_all (list_owned r) m"
    using ok r(5) unfolding r(6)
    by (simp add: list_response_free_def r(1,3) riak_free_ptrs mem_free_all_Cons)
qed (simp add: list_response_free_def)

subsection \<open>One more message\<close>

lemma binaries_copy_ok:
  assumes "cfg_grants cfg" "list_all pbb_wf bs" "unat existing + length bs < 2 ^ 32"
  shows "i + n = length bs \<Longrightarrow> length pre = unat existing + i \<Longrightarrow>
    \<exists>ys m'. binaries_copy cfg bs existing n i (pre @ replicate n None) m = Some (0, pre @ map Some ys, m') \<and>
      length ys = n \<and> list_all bin_wf ys \<and> map bin_bytes ys = map pbb_bytes (drop i bs) \<and>
      mem_allocs m (concat (map bin_owned ys)) m'"
proof (induction n arbitrary: i pre m)
  case (Suc n)
  have i: "i < length bs" using Suc.prems by simp
  then have "unat (of_nat i :: u32) = i" using assms(3) by (simp add: unat_u32)
  then have k: "unat (of_nat i + existing) = length pre"
    using i assms(3) Suc.prems(2) by (simp add: unat_word_ariths)
  let ?b = "bs ! i"
  have w: "pbb_wf ?b" using assms(2) i by (simp add: list_all_length)
  then have b: "c_read (pbb_data ?b) (unat (if pbb_data ?b = None then 0 else pbb_len ?b)) = Some (pbb_bytes ?b)"
    using w by (cases "pbb_data ?b") (auto simp: pbb_wf_def pbb_bytes_def c_read_NULL split: if_splits)
  let ?y = "\<lparr>bin_at = mem_next m, bin_len = (if pbb_data ?b = None then 0 else pbb_len ?b),
    bin_data = Some \<lparr>buf_addr = Suc (mem_next m), buf_bytes = pbb_bytes ?b\<rparr>, bin_managed = True\<rparr>"
  have y: "riak_binary_new cfg (pbb_len ?b) (pbb_data ?b) m = Some (Some ?y, mem_push (mem_push m))"
    by (rule riak_binary_new_granted [OF assms(1) b])
  have yw: "bin_wf ?y" "bin_bytes ?y = pbb_bytes ?b"
    using riak_binary_new_wf [OF y] b by auto
  have ym: "mem_allocs m (bin_owned ?y) (mem_push (mem_push m))"
    by (auto simp: bin_owned_def mem_allocs_def)
  obtain ys m' where ys: "binaries_copy cfg bs existing n (Suc i) ((pre @ [Some ?y]) @ replicate n None)
      (mem_push (mem_push m)) = Some (0, (pre @ [Some ?y]) @ map Some ys, m')"
    "length ys = n" "list_all bin_wf ys" "map bin_bytes ys = map pbb_bytes (drop (Suc i) bs)"
    "mem_allocs (mem_push (mem_push m)) (concat (map bin_owned ys)) m'"
    using Suc.IH [of "Suc i" "pre @ [Some ?y]" "mem_push (mem_push m)"] Suc.prems by auto
  have "drop i bs = ?b # drop (Suc i) bs" using i by (simp add: Cons_nth_drop_Suc)
  with ys yw y k i mem_allocs_trans [OF ym ys(5)] show ?case
    by (intro exI [of _ "?y # ys"] exI [of _ m']) (simp add: list_update_append)
qed simp

text \<open>
  A response that has been started: empty, as it is after the allocation, or with the elements of
  the messages so far.
\<close>

definition list_started :: "riak_list_response \<Rightarrow> bool" where
  "list_started r \<longleftrightarrow> r = list_zero (ls_at r) \<or> list_ok r"

lemma list_startedE:
  assumes "list_started r"
  obtains arr bs int us where "ls_items r = arr" "length bs = unat (ls_n r)" "ls_internal r = int"
    "length us = unat (ls_n_responses r)" "list_all bin_wf bs" "list_items r = map bin_bytes bs"
    "arr = None \<and> map Some bs = [] \<or> (\<exists>a. arr = Some \<lparr>pa_addr = a, pa_cells = map Some bs\<rparr>)"
    "int = None \<and> map Some us = [] \<or> (\<exists>q. int = Some \<lparr>pa_addr = q, pa_cells = map Some us\<rparr>) \<and> map Some us \<noteq> []"
    "mset (list_owned r) = mset (concat (map bin_owned bs) @ ptrs (map_option pa_addr arr) @ us @
       ptrs (map_option pa_addr int) @ [ls_at r])"
proof (cases "r = list_zero (ls_at r)")
  case True
  then obtain z where r: "r = list_zero z" by blast
  show thesis
    by (rule that [of None "[]" None "[]"])
      (simp_all add: r list_zero_def list_items_def list_owned_def)
next
  case False
  then have "list_ok r" using assms by (simp add: list_started_def)
  then obtain a bs q us where r: "ls_items r = Some \<lparr>pa_addr = a, pa_cells = map Some bs\<rparr>"
    "length bs = unat (ls_n r)" "ls_internal r = Some \<lparr>pa_addr = q, pa_cells = map Some us\<rparr>" "us \<noteq> []"
    "length us = unat (ls_n_responses r)" "list_all bin_wf bs"
    "list_owned r = concat (map bin_owned bs) @ a # us @ [q, ls_at r]" "list_items r = map bin_bytes bs"
    by (rule list_okE)
  show thesis
  proof (rule that [OF r(1,2,3,5,6,8)])
    show "mset (list_owned r) = mset (concat (map bin_owned bs) @
      ptrs (map_option pa_addr (Some \<lparr>pa_addr = a, pa_cells = map Some bs\<rparr>)) @ us @
      ptrs (map_option pa_addr (Some \<lparr>pa_addr = q, pa_cells = map Some us\<rparr>)) @ [ls_at r])"
      unfolding r(7) by simp
  qed (use r(4) in simp_all)
qed

text \<open>\<open>extra\<close> are other blocks allocated since \<open>m0\<close>; they stay.\<close>

lemma list_append_ok:
  assumes g: "cfg_grants cfg" and r: "list_started r" and wf: "mem_wf m0"
    and m: "mem_allocs m0 (ua # list_owned r @ extra) m"
    and pb: "list_all pbb_wf (rlr_items pb)" "length (rlr_items pb) = unat (rlr_n pb)"
    and lim: "length (list_items r) + length (rlr_items pb) < 2 ^ 31" "unat (ls_n_responses r) < 2 ^ 31"
  shows "\<exists>r' m'. list_append internal_elt cfg ua pb resp r done m =
      Some (ERIAK_OK, Some r', fst (rlr_done pb) \<and> snd (rlr_done pb), m') \<and>
    list_ok r' \<and> list_items r' = list_items r @ map pbb_bytes (rlr_items pb) \<and>
    unat (ls_n_responses r') = Suc (unat (ls_n_responses r)) \<and> mem_allocs m0 (list_owned r' @ extra) m'"
proof -
  obtain arr bs int us where s: "ls_items r = arr" "length bs = unat (ls_n r)" "ls_internal r = int"
    "length us = unat (ls_n_responses r)" "list_all bin_wf bs" "list_items r = map bin_bytes bs"
    "arr = None \<and> map Some bs = [] \<or> (\<exists>a. arr = Some \<lparr>pa_addr = a, pa_cells = map Some bs\<rparr>)"
    "int = None \<and> map Some us = [] \<or> (\<exists>q. int = Some \<lparr>pa_addr = q, pa_cells = map Some us\<rparr>) \<and> map Some us \<noteq> []"
    "mset (list_owned r) = mset (concat (map bin_owned bs) @ ptrs (map_option pa_addr arr) @ us @
       ptrs (map_option pa_addr int) @ [ls_at r])"
    by (rule list_startedE [OF r])
  let ?add = "ucast (rlr_n pb) :: u32" and ?A = "concat (map bin_owned bs)" and ?q = "ptrs (map_option pa_addr int)"
  have n: "unat ?add = length (rlr_items pb)" "unat (ls_n r) + unat ?add < 2 ^ 32"
    using lim(1) pb(2) s(2,6) by (simp_all add: unsigned_ucast_eq take_bit_nat_eq_self)
  have "mem_allocs m0 (?A @ ptrs (map_option pa_addr arr) @ us @ ?q @ [ls_at r, ua] @ extra) m"
    by (rule mem_allocs_mset [OF m]) (simp add: s(9))
  from extend_array_ok [OF g _ n(2) wf s(7) this, of "''riak_binary*''"] s(2) obtain a m1 where
    e1: "extend_array cfg ''riak_binary*'' arr (ls_n r) ?add m =
      Some (True, Some \<lparr>pa_addr = a, pa_cells = map Some bs @ replicate (unat ?add) None\<rparr>, m1)"
    "mem_allocs m0 (?A @ a # us @ ?q @ [ls_at r, ua] @ extra) m1"
    by auto
  obtain ys m2 where c: "binaries_copy cfg (rlr_items pb) (ls_n r) (unat ?add) 0
      (map Some bs @ replicate (unat ?add) None) m1 = Some (0, map Some bs @ map Some ys, m2)"
    "length ys = unat ?add" "list_all bin_wf ys" "map bin_bytes ys = map pbb_bytes (rlr_items pb)"
    "mem_allocs m1 (concat (map bin_owned ys)) m2"
    using binaries_copy_ok [OF g pb(1), of "ls_n r" 0 "unat ?add" "map Some bs" m1] n s(2) by auto
  have "mem_allocs m0 ((?A @ concat (map bin_owned ys) @ a # us) @ ?q @ [ls_at r, ua] @ extra) m2"
    by (rule mem_allocs_mset [OF mem_allocs_trans [OF e1(2) c(5)]]) simp
  from extend_internal_ok [where alloc = "cfg_malloc cfg" and elt = internal_elt and x = ua and k = "ls_n_responses r",
      OF g cfg_malloc_eq [OF cfg_grants_ok [OF g]] _ _ wf s(8) this] s(4) lim(2) obtain q m3 where
    e2: "extend_internal (cfg_malloc cfg) cfg internal_elt int (ls_n_responses r) ua m2 =
      Some (True, Some \<lparr>pa_addr = q, pa_cells = map Some us @ [Some ua]\<rparr>, m3)"
    "mem_allocs m0 ((?A @ concat (map bin_owned ys) @ a # us) @ q # [ls_at r, ua] @ extra) m3"
    by auto
  let ?r = "r\<lparr>ls_items := Some \<lparr>pa_addr = a, pa_cells = map Some (bs @ ys)\<rparr>, ls_n := ls_n r + ?add,
    ls_done := fst (rlr_done pb) \<and> snd (rlr_done pb), ls_internal := Some \<lparr>pa_addr = q, pa_cells = map Some (us @ [ua])\<rparr>,
    ls_n_responses := ls_n_responses r + 1\<rparr>"
  have ln: "unat (ls_n r + ?add) = length (bs @ ys)" "unat (ls_n_responses r + 1) = length (us @ [ua])"
    using n(2) s(2,4) c(2) lim(2) by (simp_all add: unat_word_ariths)
  have ok: "list_ok ?r"
    unfolding list_ok_def using ln s(5) c(3)
    by (intro exI [of _ a] exI [of _ "bs @ ys"] exI [of _ q] exI [of _ "us @ [ua]"]) simp
  have "0 < unat (ls_n_responses r + 1)" by (simp add: ln)
  then have "0 < ls_n_responses r + 1" by (simp add: word_less_nat_alt)
  then have "list_owned ?r = concat (map bin_owned (bs @ ys)) @ a # (us @ [ua]) @ [q, ls_at r]"
    using ln by (simp add: list_owned_def arr_owned_def arr_elems_def comp_def)
  then have "mem_allocs m0 (list_owned ?r @ extra) m3" using e2(2) by (intro mem_allocs_mset [OF e2(2)]) simp
  moreover have "list_items ?r = list_items r @ map pbb_bytes (rlr_items pb)"
    using ln s(6) c(4) by (simp add: list_items_def arr_elems_def comp_def)
  moreover have "list_append internal_elt cfg ua pb resp r done m =
      Some (ERIAK_OK, Some ?r, fst (rlr_done pb) \<and> snd (rlr_done pb), m3)"
    using e1(1) c(1) e2(1) s(1,3) by (simp add: list_append_def Let_def)
  ultimately show ?thesis using ok ln s(4) by auto
qed

text \<open>A message that a decoder accepts, with all its binaries.\<close>

definition rlr_wf :: "rpb_list_resp \<Rightarrow> bool" where
  "rlr_wf pb \<longleftrightarrow> list_all pbb_wf (rlr_items pb) \<and> length (rlr_items pb) = unat (rlr_n pb)"

lemma list_decode_more:
  assumes g: "cfg_grants (rop_config rop)" and xs: "pbm_payload pbresp = Some xs"
    and u: "unpack (mem_next m) xs = Some pb" "rlr_wf pb" and wf: "mem_wf m0"
    and r: "list_ok r" "mem_allocs m0 (list_owned r @ extra) m"
    and lim: "length (list_items r) + length (rlr_items pb) < 2 ^ 31" "unat (ls_n_responses r) < 2 ^ 31"
  shows "\<exists>r' m'. list_response_decode elt internal_elt unpack rop pbresp (Some r) fin m =
      Some (ERIAK_OK, Some r', fst (rlr_done pb) \<and> snd (rlr_done pb), m') \<and>
    list_ok r' \<and> list_items r' = list_items r @ map pbb_bytes (rlr_items pb) \<and>
    unat (ls_n_responses r') = Suc (unat (ls_n_responses r)) \<and> mem_allocs m0 (list_owned r' @ extra) m'"
proof -
  have "mem_allocs m0 (mem_next m # list_owned r @ extra) (mem_push m)"
    by (rule mem_allocs_mset [OF mem_allocs_snoc [OF r(2)]]) simp
  with list_append_ok [OF g, of r m0 "mem_next m" extra "mem_push m" pb] u(2) wf r(1) lim show ?thesis
    by (simp add: list_response_decode_def riak_operation_get_config_def xs u(1) pb_unpack_def
      list_started_def rlr_wf_def)
qed

lemma list_decode_first:
  assumes g: "cfg_grants (rop_config rop)" and xs: "pbm_payload pbresp = Some xs"
    and u: "unpack (mem_next m) xs = Some pb" "rlr_wf pb" and wf: "mem_wf m0"
    and m: "mem_allocs m0 extra m"
    and lim: "length (rlr_items pb) < 2 ^ 31"
  shows "\<exists>r m'. list_response_decode elt internal_elt unpack rop pbresp None fin m =
      Some (ERIAK_OK, Some r, fst (rlr_done pb) \<and> snd (rlr_done pb), m') \<and>
    list_ok r \<and> list_items r = map pbb_bytes (rlr_items pb) \<and>
    unat (ls_n_responses r) = 1 \<and> mem_allocs m0 (list_owned r @ extra) m'"
proof -
  let ?z = "list_zero (Suc (mem_next m))"
  have z: "list_owned ?z = [Suc (mem_next m)]" "list_items ?z = []" "ls_n_responses ?z = 0" "list_started ?z"
    by (simp_all add: list_zero_def list_owned_def list_items_def list_started_def)
  have "mem_allocs m0 (mem_next m # list_owned ?z @ extra) (mem_push (mem_push m))"
    unfolding z by (rule mem_allocs_mset [OF mem_allocs_snoc [OF mem_allocs_snoc [OF m]]]) simp
  with list_append_ok [OF g z(4) wf, of "mem_next m" extra "mem_push (mem_push m)" pb internal_elt None fin] u(2) lim show ?thesis
    by (simp add: list_response_decode_def riak_operation_get_config_def xs u(1) pb_unpack_def z
      rlr_wf_def cfg_malloc_eq [OF cfg_grants_ok [OF g]] allocate_granted [OF g] kept_def)
qed

subsection \<open>A stream of messages\<close>

text \<open>
  A message for the decoder: the operation, how the message unpacks, the bytes. The step has no
  result when the decoder fails.
\<close>

definition list_step ::
  "(('r, 'd) riak_operation \<Rightarrow> riak_pb_message option \<Rightarrow> riak_list_response option \<Rightarrow> bool \<Rightarrow> mem \<Rightarrow>
     (riak_error \<times> riak_list_response option \<times> bool \<times> mem) option) \<Rightarrow>
   ('r, 'd) riak_operation \<Rightarrow> riak_pb_message \<Rightarrow> riak_list_response option \<Rightarrow> mem \<Rightarrow>
   (riak_list_response \<times> mem) option"
where
  "list_step decode rop msg resp m =
     do { (err, resp, _, m) \<leftarrow> decode rop (Some msg) resp False m;
          guard (err = ERIAK_OK);
          r \<leftarrow> resp;
          Some (r, m) }"

text \<open>
  How a message reads does not depend on where it is unpacked; the operation is that of the
  request and has a configuration whose allocations succeed.
\<close>

definition list_msg_fine ::
  "(addr \<Rightarrow> bytes \<Rightarrow> rpb_list_resp option) \<Rightarrow> (riak_pb_message \<times> rpb_list_resp) \<Rightarrow> bool"
where
  "list_msg_fine unpack = (\<lambda>(msg, pb). rlr_wf pb \<and> (\<exists>xs. pbm_payload (Some msg) = Some xs \<and>
     (\<forall>a. unpack a xs = Some pb)))"

definition list_holds :: "mem \<Rightarrow> riak_list_response \<Rightarrow> mem \<Rightarrow> bool" where
  "list_holds m0 r m \<longleftrightarrow> mem_wf m0 \<and> list_ok r \<and> mem_allocs m0 (list_owned r) m"

text \<open>Without a configuration nothing is accepted: then the laws hold for no message.\<close>

lemma list_stream_decoder:
  assumes "\<And>rop pbresp resp done m. decode rop pbresp resp done m =
    list_response_decode elt internal_elt unpack rop pbresp resp done m"
  shows "stream_decoder (\<lambda>(rop, msg, pb). list_step decode rop msg)
    (\<lambda>(rop, msg, pb). cfg_grants (rop_config rop) \<and> list_msg_fine unpack (msg, pb))
    (\<lambda>(rop, msg, pb). map pbb_bytes (rlr_items pb)) list_items (\<lambda>r. unat (ls_n_responses r)) (2 ^ 31) list_holds"
proof
  fix m and x :: "('a, 'b) riak_operation \<times> riak_pb_message \<times> rpb_list_resp"
  assume "mem_wf m" and f: "(\<lambda>(rop, msg, pb). cfg_grants (rop_config rop) \<and> list_msg_fine unpack (msg, pb)) x"
    and l: "length ((\<lambda>(rop, msg, pb). map pbb_bytes (rlr_items pb)) x) < 2 ^ 31"
  obtain rop msg pb where x: "x = (rop, msg, pb)" by (cases x)
  obtain xs where xs: "pbm_payload (Some msg) = Some xs" "unpack (mem_next m) xs = Some pb" "rlr_wf pb"
    using f by (auto simp: x list_msg_fine_def)
  from list_decode_first [where unpack = unpack and rop = rop and elt = elt and internal_elt = internal_elt and fin = False, OF _ xs \<open>mem_wf m\<close> mem_allocs_refl] f l \<open>mem_wf m\<close>
  show "\<exists>r m'. (\<lambda>(rop, msg, pb). list_step decode rop msg) x None m = Some (r, m') \<and> list_holds m r m' \<and>
    list_items r = (\<lambda>(rop, msg, pb). map pbb_bytes (rlr_items pb)) x \<and> unat (ls_n_responses r) = 1"
    by (auto simp: x list_step_def list_holds_def assms)
next
  fix m0 r m and x :: "('a, 'b) riak_operation \<times> riak_pb_message \<times> rpb_list_resp"
  assume h: "list_holds m0 r m" and f: "(\<lambda>(rop, msg, pb). cfg_grants (rop_config rop) \<and> list_msg_fine unpack (msg, pb)) x"
    and l: "length (list_items r) + length ((\<lambda>(rop, msg, pb). map pbb_bytes (rlr_items pb)) x) < 2 ^ 31"
      "unat (ls_n_responses r) < 2 ^ 31"
  obtain rop msg pb where x: "x = (rop, msg, pb)" by (cases x)
  obtain xs where xs: "pbm_payload (Some msg) = Some xs" "unpack (mem_next m) xs = Some pb" "rlr_wf pb"
    using f by (auto simp: x list_msg_fine_def)
  from list_decode_more [where unpack = unpack and rop = rop and elt = elt and internal_elt = internal_elt and fin = False, OF _ xs, of m0 r "[]"] f l h
  show "\<exists>r' m'. (\<lambda>(rop, msg, pb). list_step decode rop msg) x (Some r) m = Some (r', m') \<and> list_holds m0 r' m' \<and>
    list_items r' = list_items r @ (\<lambda>(rop, msg, pb). map pbb_bytes (rlr_items pb)) x \<and>
    unat (ls_n_responses r') = Suc (unat (ls_n_responses r))"
    by (auto simp: x list_step_def list_holds_def assms)
qed

interpretation lb: stream_decoder "\<lambda>(rop, msg, pb). list_step (riak_listbuckets_response_decode unpack) rop msg"
    "\<lambda>(rop, msg, pb). cfg_grants (rop_config rop) \<and> list_msg_fine unpack (msg, pb)"
    "\<lambda>(rop, msg, pb). map pbb_bytes (rlr_items pb)" list_items "\<lambda>r. unat (ls_n_responses r)" "2 ^ 31" list_holds
  for unpack :: "addr \<Rightarrow> bytes \<Rightarrow> rpb_list_resp option"
  by (rule list_stream_decoder) (simp add: riak_listbuckets_response_decode_def)

interpretation lk: stream_decoder "\<lambda>(rop, msg, pb). list_step (riak_listkeys_response_decode unpack) rop msg"
    "\<lambda>(rop, msg, pb). cfg_grants (rop_config rop) \<and> list_msg_fine unpack (msg, pb)"
    "\<lambda>(rop, msg, pb). map pbb_bytes (rlr_items pb)" list_items "\<lambda>r. unat (ls_n_responses r)" "2 ^ 31" list_holds
  for unpack :: "addr \<Rightarrow> bytes \<Rightarrow> rpb_list_resp option"
  by (rule list_stream_decoder) (simp add: riak_listkeys_response_decode_def)

text \<open>The blocks of a response that a stream has filled are all freed by its \<open>free\<close> function.\<close>

lemma list_response_freed:
  assumes "cfg_ok cfg" "list_holds m r m'"
  shows "list_response_free cfg (Some r) m' = Some (m'\<lparr>mem_live := mem_live m\<rparr>)"
  using assms by (auto simp: list_holds_def intro!: lsr.release_balanced)

subsection \<open>Requests\<close>

definition rlkq_empty :: "rpb_listkeys_req \<Rightarrow> bool" where
  "rlkq_empty msg \<longleftrightarrow> \<not> fst (rlkq_timeout msg) \<and> \<not> fst (rlkq_type msg)"

definition rlbq_empty :: "rpb_listbuckets_req \<Rightarrow> bool" where
  "rlbq_empty msg \<longleftrightarrow> \<not> fst (rlbq_timeout msg) \<and> \<not> fst (rlbq_type msg)"

lemma riak_listkeys_request_sends:
  assumes "cfg_grants (rop_config rop)" "mem_wf m" "rlkq_empty (pb_init api)"
    and "pred_option bin_wf bucket_type" "bin_wf b"
  shows "\<exists>msg. pbb_bytes (rlkq_bucket msg) = bin_bytes b \<and>
    map_option pbb_bytes (field_opt (rlkq_type msg)) = map_option bin_bytes bucket_type \<and>
    field_opt (rlkq_timeout msg) = (if timeout = 0 then None else Some timeout) \<and>
    (packs api msg \<longrightarrow> sends MSG_RPBLISTKEYSREQ (pb_pack api msg) decoder rop m
       (riak_listkeys_request_encode api decoder rop bucket_type (Some b) timeout m))"
proof -
  obtain ty where t: "given_to_pb bucket_type (rlkq_type (pb_init api)) = Some ty"
    "map_option pbb_bytes (field_opt ty) = map_option bin_bytes bucket_type"
    using given_to_pb_ok [of bucket_type "rlkq_type (pb_init api)"] assms(3,4) by (auto simp: rlkq_empty_def)
  obtain b' where b: "riak_binary_copy_to_pb (Some b) = Some b'" "pbb_bytes b' = bin_bytes b"
    using copy_to_pb_ok [of "Some b"] assms(5) by (auto simp: ptr_wf_def ptr_bytes_def)
  let ?msg = "(pb_init api)\<lparr>rlkq_type := ty, rlkq_bucket := b',
    rlkq_timeout := (if timeout > 0 then (True, timeout) else rlkq_timeout (pb_init api))\<rparr>"
  have "packs api ?msg \<Longrightarrow> sends MSG_RPBLISTKEYSREQ (pb_pack api ?msg) decoder rop m
      (riak_listkeys_request_encode api decoder rop bucket_type (Some b) timeout m)"
    using send_cfg_malloc(1) [OF assms(1) _ assms(2), of api ?msg]
    by (cases "timeout > 0") (simp_all add: riak_listkeys_request_encode_def b t Let_def)
  with b t assms(3) show ?thesis
    by (intro exI [of _ ?msg]) (auto simp: rlkq_empty_def field_opt_def word_gt_0)
qed

lemma riak_listbuckets_request_sends:
  assumes "cfg_grants (rop_config rop)" "mem_wf m" "rlbq_empty (pb_init api)" "pred_option bin_wf bucket_type"
  shows "\<exists>msg. rlbq_stream msg = (True, True) \<and>
    map_option pbb_bytes (field_opt (rlbq_type msg)) = map_option bin_bytes bucket_type \<and>
    field_opt (rlbq_timeout msg) = (if timeout = 0 then None else Some timeout) \<and>
    (packs api msg \<longrightarrow> sends MSG_RPBLISTBUCKETSREQ (pb_pack api msg) decoder rop m
       (riak_listbuckets_request_encode api decoder rop bucket_type timeout m))"
proof -
  obtain ty where t: "given_to_pb bucket_type (rlbq_type (pb_init api)) = Some ty"
    "map_option pbb_bytes (field_opt ty) = map_option bin_bytes bucket_type"
    using given_to_pb_ok [of bucket_type "rlbq_type (pb_init api)"] assms(3,4) by (auto simp: rlbq_empty_def)
  let ?msg = "(pb_init api)\<lparr>rlbq_stream := (True, True), rlbq_type := ty,
    rlbq_timeout := (if timeout > 0 then (True, timeout) else rlbq_timeout (pb_init api))\<rparr>"
  have "packs api ?msg \<Longrightarrow> sends MSG_RPBLISTBUCKETSREQ (pb_pack api ?msg) decoder rop m
      (riak_listbuckets_request_encode api decoder rop bucket_type timeout m)"
    using send_cfg_malloc(1) [OF assms(1) _ assms(2), of api ?msg MSG_RPBLISTBUCKETSREQ decoder]
    by (cases "timeout > 0")
      (simp_all add: riak_listbuckets_request_encode_def t send_packed_def send_packed_then_def
        cfg_malloc_eq [OF cfg_grants_ok [OF assms(1)]] allocate_granted [OF assms(1)] clean_allocate_eq riak_pb_message_new_def Let_def)
  with t assms(3) show ?thesis
    by (intro exI [of _ ?msg]) (auto simp: rlbq_empty_def field_opt_def word_gt_0)
qed

subsection \<open>Printing\<close>

text \<open>
  The loop prints the binary without looking at the room again: when the text before it has used
  up the buffer and the binary is longer than one byte it writes behind the buffer.
\<close>

lemma list_print_loop_overflow:
  assumes "riak_print st (dec_int (int i) @ str '' - '') = Some (k, st')" "sint (riak_print_len st) > 0"
    and "riak_print_binary st' (Some b) = None"
  shows "list_print_loop (Some b # cells) i (Suc n) st = None"
  using assms by simp

end
