(* ===== verification/Riak_Mapreduce.thy ===== *)
theory Riak_Mapreduce
  imports Riak_Stream
begin

text \<open>
  Map/reduce (\<^verbatim>\<open>src/messages/riak_mapreduce.c\<close>). The messages of an answer are collected as they
  were received; the messages for the user are made from all of them when the last one has come, or
  after each one when the operation is streaming.
\<close>

record riak_mapreduce_message =
  mm_at :: addr
  mm_phase :: "u32 field"
  mm_response :: "riak_binary option field"
  mm_done :: "bool field"

record rpb_map_red_resp =
  rmr_phase :: "u32 field"
  rmr_response :: "pb_binary field"
  rmr_done :: "bool field"

text \<open>Of the unpacked messages both the address and the contents are used.\<close>

record riak_mapreduce_response =
  mr_at :: addr
  mr_msg :: "riak_mapreduce_message parray option"
  mr_n_responses :: u32
  mr_internal :: "(addr \<times> rpb_map_red_resp) parray option"

record rpb_map_red_req =
  rmq_request :: pb_binary
  rmq_content_type :: pb_binary

definition mapreduce_zero :: "addr \<Rightarrow> riak_mapreduce_response" where
  "mapreduce_zero a = \<lparr>mr_at = a, mr_msg = None, mr_n_responses = 0, mr_internal = None\<rparr>"

definition riak_mapreduce_request_encode ::
  "rpb_map_red_req pb_api \<Rightarrow> 'd \<Rightarrow> ('r, 'd) riak_operation \<Rightarrow> riak_binary option \<Rightarrow>
   riak_binary option \<Rightarrow> mem \<Rightarrow> (riak_error \<times> ('r, 'd) riak_operation \<times> mem) option"
where
  "riak_mapreduce_request_encode api decoder rop content_type map_request m =
     do { r \<leftarrow> riak_binary_copy_to_pb map_request;
          c \<leftarrow> riak_binary_copy_to_pb content_type;
          let mapmsg = (pb_init api)\<lparr>rmq_request := r, rmq_content_type := c\<rparr>;
          send_packed (cfg_malloc (rop_config rop)) ERIAK_OUT_OF_MEMORY MSG_RPBMAPREDREQ
            (cut32 (pb_packed_size api mapmsg)) (pb_pack api mapmsg) decoder rop m }"

subsection \<open>Decoding\<close>

text \<open>
  The loop that makes the messages for the user, with \<open>n\<close> to go from index \<open>i\<close>. Whether the copy
  of the response could be allocated is not looked at. The first result is whether the loop ended.
\<close>

fun mapreduce_messages ::
  "riak_config option \<Rightarrow> (addr \<times> rpb_map_red_resp) option list \<Rightarrow> nat \<Rightarrow> nat \<Rightarrow>
   riak_mapreduce_message option list \<Rightarrow> mem \<Rightarrow> (bool \<times> riak_mapreduce_message option list \<times> mem) option"
where
  "mapreduce_messages cfg us i 0 cells m = Some (True, cells, m)"
| "mapreduce_messages cfg us i (Suc n) cells m =
     do { guard (i < length us \<and> i < length cells);
          let (p, m) = riak_config_clean_allocate cfg (SizeOf ''riak_mapreduce_message'' 1) m;
          (case p of
             None \<Rightarrow> Some (False, cells, m)
           | Some a \<Rightarrow>
               do { (_, pb) \<leftarrow> us ! i;
                    let (b, m) = riak_binary_copy_from_pb cfg (snd (rmr_response pb)) m;
                    let msg = \<lparr>mm_at = a, mm_phase = rmr_phase pb,
                               mm_response = (fst (rmr_response pb), b), mm_done = rmr_done pb\<rparr>;
                    mapreduce_messages cfg us (Suc i) n (cells[i := Some msg]) m }) }"

definition mapreduce_assemble ::
  "riak_config option \<Rightarrow> riak_mapreduce_response \<Rightarrow> mem \<Rightarrow>
   (bool \<times> riak_mapreduce_response \<times> mem) option"
where
  "mapreduce_assemble cfg r m =
     (let n = unat (mr_n_responses r);
          (p, m) = riak_config_clean_allocate cfg (SizeOf ''riak_mapreduce_message*'' n) m
      in case p of
           None \<Rightarrow> Some (False, r\<lparr>mr_msg := None\<rparr>, m)
         | Some a \<Rightarrow>
             do { us \<leftarrow> mr_internal r;
                  (ok, cells, m) \<leftarrow> mapreduce_messages cfg (pa_cells us) 0 n (replicate n None) m;
                  (if ok then Some (True, r\<lparr>mr_msg := Some \<lparr>pa_addr = a, pa_cells = cells\<rparr>\<rparr>, m)
                   else do { m \<leftarrow> riak_free cfg (Some a) m; Some (False, r\<lparr>mr_msg := None\<rparr>, m) }) })"

definition mapreduce_append ::
  "bool \<Rightarrow> riak_config option \<Rightarrow> addr \<Rightarrow> rpb_map_red_resp \<Rightarrow> riak_mapreduce_response option \<Rightarrow>
   riak_mapreduce_response \<Rightarrow> mem \<Rightarrow> (riak_error \<times> riak_mapreduce_response option \<times> bool \<times> mem) option"
where
  "mapreduce_append streaming cfg ua pb resp r m =
     do { let fin = (if fst (rmr_done pb) then snd (rmr_done pb) else False);
          (ok, internal, m) \<leftarrow> extend_internal (\<lambda>sz m. Some (riak_config_allocate cfg sz m)) cfg
                                 ''RpbMapRedResp*'' (mr_internal r) (mr_n_responses r) (ua, pb) m;
          let r = r\<lparr>mr_internal := internal\<rparr>;
          (if \<not> ok then Some (ERIAK_OUT_OF_MEMORY, kept resp r, fin, m)
           else do { let r = r\<lparr>mr_n_responses := mr_n_responses r + 1\<rparr>;
                     (ok, r, m) \<leftarrow> (if streaming \<or> fin then mapreduce_assemble cfg r m else Some (True, r, m));
                     Some (if ok then (ERIAK_OK, Some r, fin, m)
                           else (ERIAK_OUT_OF_MEMORY, kept resp r, fin, m)) }) }"

definition riak_mapreduce_response_decode ::
  "(addr \<Rightarrow> bytes \<Rightarrow> rpb_map_red_resp option) \<Rightarrow> ('r, 'd) riak_operation \<Rightarrow> riak_pb_message option \<Rightarrow>
   riak_mapreduce_response option \<Rightarrow> bool \<Rightarrow> mem \<Rightarrow>
   (riak_error \<times> riak_mapreduce_response option \<times> bool \<times> mem) option"
where
  "riak_mapreduce_response_decode unpack rop pbresp resp done m =
     do { let cfg = riak_operation_get_config rop;
          xs \<leftarrow> pbm_payload pbresp;
          let (u, m) = pb_unpack unpack xs m;
          (case u of
             None \<Rightarrow> Some (ERIAK_MESSAGE_FORMAT, resp, done, m)
           | Some (ua, pb) \<Rightarrow>
               (let (r, m) = (case resp of
                                Some r \<Rightarrow> (Some r, m)
                              | None \<Rightarrow> (let (p, m) = riak_config_clean_allocate cfg
                                                        (SizeOf ''riak_mapreduce_response'' 1) m
                                         in (map_option mapreduce_zero p, m)))
                in case r of
                     None \<Rightarrow> Some (ERIAK_OUT_OF_MEMORY, resp, done, m)
                   | Some r \<Rightarrow> mapreduce_append (rop_streaming rop) cfg ua pb resp r m)) }"

subsection \<open>Printing, release, accessors\<close>

fun mapreduce_print_loop :: "riak_mapreduce_message option list \<Rightarrow> nat \<Rightarrow> nat \<Rightarrow> printer" where
  "mapreduce_print_loop cells i 0 st = Some (0, st)"
| "mapreduce_print_loop cells i (Suc n) st =
     (if sint (riak_print_len st) > 0
      then do { msg \<leftarrow> pa_next cells;
                (w, st) \<leftarrow> print_seq
                  [\<lambda>st. riak_print_label_int st (str ''Response'') (of_nat i),
                   print_when (fst (mm_phase msg)) (\<lambda>st. riak_print_label_int st (str ''phase'') (snd (mm_phase msg))),
                   print_when (fst (mm_response msg))
                     (\<lambda>st. riak_print_label_binary st (str ''response'') (snd (mm_response msg))),
                   print_when (fst (mm_done msg)) (\<lambda>st. riak_print_label_bool st (str ''done'') (snd (mm_done msg)))] st;
                (ws, st) \<leftarrow> mapreduce_print_loop (tl cells) (Suc i) n st;
                Some (w + ws, st) }
      else Some (0, st))"

definition riak_mapreduce_response_print ::
  "riak_print_state \<Rightarrow> riak_mapreduce_response \<Rightarrow> (i32 \<times> riak_print_state) option"
where
  "riak_mapreduce_response_print st r =
     print_seq
       [\<lambda>st. riak_print_label_int st (str ''Num Responses'') (mr_n_responses r),
        print_when (mr_msg r \<noteq> None) (mapreduce_print_loop (pa_list (mr_msg r)) 0 (unat (mr_n_responses r)))] st"

text \<open>The loop frees message \<open>i\<close> and the unpacked message \<open>i\<close>; a NULL response is dereferenced.\<close>

fun mapreduce_free_loop ::
  "riak_config option \<Rightarrow> riak_mapreduce_message option list \<Rightarrow> (addr \<times> rpb_map_red_resp) option list \<Rightarrow>
   nat \<Rightarrow> mem \<Rightarrow> mem option"
where
  "mapreduce_free_loop cfg cells us 0 m = Some m"
| "mapreduce_free_loop cfg cells us (Suc n) m =
     do { msg \<leftarrow> pa_next cells;
          m \<leftarrow> riak_binary_free cfg (snd (mm_response msg)) m;
          m \<leftarrow> riak_free cfg (Some (mm_at msg)) m;
          guard (us \<noteq> []);
          m \<leftarrow> pb_free_unpacked (map_option fst (hd us)) m;
          mapreduce_free_loop cfg (tl cells) (tl us) n m }"

definition riak_mapreduce_response_free ::
  "riak_config option \<Rightarrow> riak_mapreduce_response option \<Rightarrow> mem \<Rightarrow> mem option"
where
  "riak_mapreduce_response_free cfg resp m =
     do { r \<leftarrow> resp;
          m \<leftarrow> mapreduce_free_loop cfg (pa_list (mr_msg r)) (pa_list (mr_internal r)) (unat (mr_n_responses r)) m;
          m \<leftarrow> riak_free cfg (map_option pa_addr (mr_msg r)) m;
          m \<leftarrow> riak_free cfg (map_option pa_addr (mr_internal r)) m;
          riak_free cfg (Some (mr_at r)) m }"

definition riak_mapreduce_get_n_messages :: "riak_mapreduce_response \<Rightarrow> i32" where
  "riak_mapreduce_get_n_messages response = mr_n_responses response"

definition riak_mapreduce_get_messages :: "riak_mapreduce_response \<Rightarrow> riak_mapreduce_message parray option" where
  "riak_mapreduce_get_messages response = mr_msg response"

definition riak_mapreduce_message_get_has_phase :: "riak_mapreduce_message \<Rightarrow> bool" where
  "riak_mapreduce_message_get_has_phase msg = fst (mm_phase msg)"

definition riak_mapreduce_message_get_phase :: "riak_mapreduce_message \<Rightarrow> u32" where
  "riak_mapreduce_message_get_phase msg = snd (mm_phase msg)"

definition riak_mapreduce_message_get_has_response :: "riak_mapreduce_message \<Rightarrow> bool" where
  "riak_mapreduce_message_get_has_response msg = fst (mm_response msg)"

definition riak_mapreduce_message_get_response :: "riak_mapreduce_message \<Rightarrow> riak_binary option" where
  "riak_mapreduce_message_get_response msg = snd (mm_response msg)"

definition riak_mapreduce_message_get_has_done :: "riak_mapreduce_message \<Rightarrow> bool" where
  "riak_mapreduce_message_get_has_done msg = fst (mm_done msg)"

definition riak_mapreduce_message_get_done :: "riak_mapreduce_message \<Rightarrow> bool" where
  "riak_mapreduce_message_get_done msg = snd (mm_done msg)"

subsection \<open>What a response holds\<close>

definition rmr_wf :: "rpb_map_red_resp \<Rightarrow> bool" where
  "rmr_wf pb \<longleftrightarrow> (fst (rmr_response pb) \<longrightarrow> pbb_wf (snd (rmr_response pb)))"

type_synonym mapreduce_content = "u32 option \<times> bytes option \<times> bool option"

definition rmr_content :: "rpb_map_red_resp \<Rightarrow> mapreduce_content" where
  "rmr_content pb = (field_opt (rmr_phase pb), map_option pbb_bytes (field_opt (rmr_response pb)), field_opt (rmr_done pb))"

definition mm_content :: "riak_mapreduce_message \<Rightarrow> mapreduce_content" where
  "mm_content msg = (field_opt (mm_phase msg), map_option ptr_bytes (field_opt (mm_response msg)), field_opt (mm_done msg))"

definition mm_owned :: "riak_mapreduce_message \<Rightarrow> addr list" where
  "mm_owned msg = bin.owned_p (snd (mm_response msg)) @ [mm_at msg]"

definition mr_shown :: "riak_mapreduce_response \<Rightarrow> addr list" where
  "mr_shown r = arr_owned mm_owned (mr_msg r) (unat (mr_n_responses r))"

definition mr_owned :: "riak_mapreduce_response \<Rightarrow> addr list" where
  "mr_owned r = mr_shown r @ arr_owned (\<lambda>u. [fst u]) (mr_internal r) (unat (mr_n_responses r)) @ [mr_at r]"

definition mr_items :: "riak_mapreduce_response \<Rightarrow> mapreduce_content list" where
  "mr_items r = map (rmr_content \<circ> snd) (arr_elems (mr_internal r) (unat (mr_n_responses r)))"

text \<open>All messages so far are kept; those for the user, when they are there, say the same.\<close>

definition mr_ok :: "riak_mapreduce_response \<Rightarrow> bool" where
  "mr_ok r \<longleftrightarrow> (\<exists>q us. mr_internal r = Some \<lparr>pa_addr = q, pa_cells = map Some us\<rparr> \<and> us \<noteq> [] \<and>
     length us = unat (mr_n_responses r) \<and> list_all (rmr_wf \<circ> snd) us \<and>
     (mr_msg r = None \<or> (\<exists>a ms. mr_msg r = Some \<lparr>pa_addr = a, pa_cells = map Some ms\<rparr> \<and>
        map mm_content ms = map (rmr_content \<circ> snd) us)))"

lemma mr_okE:
  assumes "mr_ok r"
  obtains q us where "mr_internal r = Some \<lparr>pa_addr = q, pa_cells = map Some us\<rparr>" "us \<noteq> []"
    "length us = unat (mr_n_responses r)"
    "mr_msg r = None \<or> (\<exists>a ms. mr_msg r = Some \<lparr>pa_addr = a, pa_cells = map Some ms\<rparr> \<and>
        map mm_content ms = map (rmr_content \<circ> snd) us)"
    "mr_items r = map (rmr_content \<circ> snd) us" "mr_owned r = mr_shown r @ map fst us @ [q, mr_at r]"
    "list_all (rmr_wf \<circ> snd) us"
proof -
  from assms obtain q us where *: "mr_internal r = Some \<lparr>pa_addr = q, pa_cells = map Some us\<rparr>" "us \<noteq> []"
    "length us = unat (mr_n_responses r)" "list_all (rmr_wf \<circ> snd) us"
    "mr_msg r = None \<or> (\<exists>a ms. mr_msg r = Some \<lparr>pa_addr = a, pa_cells = map Some ms\<rparr> \<and>
        map mm_content ms = map (rmr_content \<circ> snd) us)"
    unfolding mr_ok_def by blast
  have e: "arr_elems (mr_internal r) (unat (mr_n_responses r)) = us"
    unfolding *(1) *(3) [symmetric] by (simp add: arr_elems_def comp_def)
  have "mr_items r = map (rmr_content \<circ> snd) us" unfolding mr_items_def e ..
  moreover have "mr_owned r = mr_shown r @ map fst us @ [q, mr_at r]"
    unfolding mr_owned_def arr_owned_def e unfolding *(1) by simp
  ultimately show thesis using * by (intro that)
qed

text \<open>A response can be freed once the messages for the user have been made.\<close>

lemma mapreduce_free_loop_owned:
  assumes "cfg_ok cfg" "length ms = length us"
  shows "mapreduce_free_loop cfg (map Some ms @ xs) (map Some us @ ys) (length us) m =
    mem_free_all (concat (map2 (\<lambda>m u. mm_owned m @ [fst u]) ms us)) m"
  using assms(2)
proof (induction us arbitrary: ms m)
  case (Cons u us)
  then obtain x xs' where ms: "ms = x # xs'" "length xs' = length us" by (cases ms) auto
  from Cons.IH [OF ms(2)] have "mapreduce_free_loop cfg (map Some xs' @ xs) (map Some us @ ys) (length us) =
      mem_free_all (concat (map2 (\<lambda>m u. mm_owned m @ [fst u]) xs' us))" by (intro ext)
  with assms(1) show ?case
    by (simp add: ms mm_owned_def mem_simps mem_free_all_Cons)
qed simp

lemma mset_map2_owned:
  "length ms = length us \<Longrightarrow>
   mset (concat (map2 (\<lambda>m u. mm_owned m @ [fst u]) ms us)) = mset (concat (map mm_owned ms) @ map fst us)"
  by (induction ms us rule: list_induct2) simp_all

interpretation mr: owned_struct "\<lambda>r. mr_ok r \<and> mr_msg r \<noteq> None" mr_owned riak_mapreduce_response_free
proof
  fix cfg and r :: riak_mapreduce_response and m
  assume ok: "cfg_ok cfg" and r: "mr_ok r \<and> mr_msg r \<noteq> None"
  obtain q us where i: "mr_internal r = Some \<lparr>pa_addr = q, pa_cells = map Some us\<rparr>"
    "length us = unat (mr_n_responses r)"
    "mr_msg r = None \<or> (\<exists>a ms. mr_msg r = Some \<lparr>pa_addr = a, pa_cells = map Some ms\<rparr> \<and>
        map mm_content ms = map (rmr_content \<circ> snd) us)"
    "mr_owned r = mr_shown r @ map fst us @ [q, mr_at r]"
    by (rule mr_okE [OF conjunct1 [OF r]])
  obtain a ms where s: "mr_msg r = Some \<lparr>pa_addr = a, pa_cells = map Some ms\<rparr>"
    "map mm_content ms = map (rmr_content \<circ> snd) us"
    using i(3) r by blast
  have l: "length ms = length us" using s(2) by (metis length_map)
  have sh: "mr_shown r = concat (map mm_owned ms) @ [a]"
    unfolding mr_shown_def s(1) i(2) [symmetric] l [symmetric] by (simp add: arr_owned_def arr_elems_def comp_def)
  have "riak_mapreduce_response_free cfg (Some r) m =
      mem_free_all (concat (map2 (\<lambda>m u. mm_owned m @ [fst u]) ms us) @ [a, q, mr_at r]) m"
    using mapreduce_free_loop_owned [OF ok l, of "[]" "[]"] ok
    by (simp add: riak_mapreduce_response_free_def s(1) i(1) i(2) [symmetric] riak_free_ptrs
        mem_free_all_Cons)
  also have "\<dots> = mem_free_all (mr_owned r) m"
    by (rule mem_free_all_mset) (simp add: i(4) sh mset_map2_owned [OF l])
  finally show "riak_mapreduce_response_free cfg (Some r) m = mem_free_all (mr_owned r) m" .
qed

text \<open>Before that the first message for the user is looked up in an array that is NULL.\<close>

lemma riak_mapreduce_response_free_unfinished:
  assumes "mr_ok r" "mr_msg r = None"
  shows "riak_mapreduce_response_free cfg (Some r) m = None"
proof -
  obtain us :: "(addr \<times> rpb_map_red_resp) list" where "us \<noteq> []" "length us = unat (mr_n_responses r)"
    by (rule mr_okE [OF assms(1)])
  then obtain n where "unat (mr_n_responses r) = Suc n" by (cases us) (auto dest: sym)
  then show ?thesis using assms(2) by (simp add: riak_mapreduce_response_free_def)
qed

subsection \<open>One more message\<close>

lemma mapreduce_messages_ok:
  assumes "cfg_grants cfg" "list_all (rmr_wf \<circ> snd) us"
  shows "i + n = length us \<Longrightarrow> length pre = i \<Longrightarrow>
    \<exists>ms m'. mapreduce_messages cfg (map Some us) i n (pre @ replicate n None) m = Some (True, pre @ map Some ms, m') \<and>
      map mm_content ms = map (rmr_content \<circ> snd) (drop i us) \<and> mem_allocs m (concat (map mm_owned ms)) m'"
proof (induction n arbitrary: i pre m)
  case (Suc n)
  then have i: "i < length us" by simp
  obtain a pb where u: "us ! i = (a, pb)" by (cases "us ! i")
  have w: "rmr_wf pb" using assms(2) i u by (auto simp: list_all_length)
  let ?b = "snd (rmr_response pb)"
  let ?y = "\<lparr>mm_at = mem_next m, mm_phase = rmr_phase pb, mm_response = (fst (rmr_response pb),
      Some \<lparr>bin_at = Suc (mem_next m), bin_len = (if pbb_data ?b = None then 0 else pbb_len ?b),
            bin_data = pbb_data ?b, bin_managed = False\<rparr>), mm_done = rmr_done pb\<rparr>"
  let ?m = "mem_push (mem_push m)"
  have c: "mm_content ?y = rmr_content pb"
    using w by (cases "fst (rmr_response pb)")
      (simp_all add: mm_content_def rmr_content_def rmr_wf_def field_opt_def ptr_bytes_def)
  have o: "mem_allocs m (mm_owned ?y) ?m" by (auto simp: mm_owned_def bin_owned_def mem_allocs_def)
  obtain ms m' where ms: "mapreduce_messages cfg (map Some us) (Suc i) n ((pre @ [Some ?y]) @ replicate n None) ?m =
      Some (True, (pre @ [Some ?y]) @ map Some ms, m')"
    "map mm_content ms = map (rmr_content \<circ> snd) (drop (Suc i) us)" "mem_allocs ?m (concat (map mm_owned ms)) m'"
    using Suc.IH [of "Suc i" "pre @ [Some ?y]" ?m] Suc.prems by auto
  have "drop i us = us ! i # drop (Suc i) us" using i by (simp add: Cons_nth_drop_Suc)
  then have "map mm_content (?y # ms) = map (rmr_content \<circ> snd) (drop i us)"
    using ms(2) c by (simp add: u)
  moreover have "mapreduce_messages cfg (map Some us) i (Suc n) (pre @ replicate (Suc n) None) m =
      Some (True, pre @ map Some (?y # ms), m')"
    using ms(1) i u Suc.prems
    by (simp add: clean_allocate_eq allocate_granted [OF assms(1)] copy_from_pb_granted [OF assms(1)]
        list_update_append)
  ultimately show ?case using mem_allocs_trans [OF o ms(3)] by (intro exI [of _ "?y # ms"] exI [of _ m']) simp
qed simp

definition mr_started :: "riak_mapreduce_response \<Rightarrow> bool" where
  "mr_started r \<longleftrightarrow> r = mapreduce_zero (mr_at r) \<or> mr_ok r"

lemma mr_startedE:
  assumes "mr_started r"
  obtains int us where "mr_internal r = int" "length us = unat (mr_n_responses r)"
    "int = None \<and> map Some us = [] \<or> (\<exists>q. int = Some \<lparr>pa_addr = q, pa_cells = map Some us\<rparr>) \<and> map Some us \<noteq> []"
    "mr_items r = map (rmr_content \<circ> snd) us" "list_all (rmr_wf \<circ> snd) us"
    "mset (mr_owned r) = mset (mr_shown r @ map fst us @ ptrs (map_option pa_addr int) @ [mr_at r])"
proof (cases "r = mapreduce_zero (mr_at r)")
  case True
  then obtain z where r: "r = mapreduce_zero z" by blast
  show thesis
    by (rule that [of None "[]"])
      (simp_all add: r mapreduce_zero_def mr_items_def mr_owned_def)
next
  case False
  then have "mr_ok r" using assms by (simp add: mr_started_def)
  then obtain q us where r: "mr_internal r = Some \<lparr>pa_addr = q, pa_cells = map Some us\<rparr>" "us \<noteq> []"
    "length us = unat (mr_n_responses r)"
    "mr_items r = map (rmr_content \<circ> snd) us" "mr_owned r = mr_shown r @ map fst us @ [q, mr_at r]"
    "list_all (rmr_wf \<circ> snd) us"
    by (rule mr_okE)
  show thesis
  proof (rule that [OF r(1,3) _ r(4,6)])
    show "mset (mr_owned r) = mset (mr_shown r @ map fst us @
        ptrs (map_option pa_addr (Some \<lparr>pa_addr = q, pa_cells = map Some us\<rparr>)) @ [mr_at r])"
      unfolding r(5) by simp
  qed (use r(2) in simp)
qed

text \<open>
  One more message is kept. If the operation streams or this is the last message, the messages for
  the user are made anew; those that were made before (\<open>mr_shown r\<close>) stay allocated.
\<close>

lemma mapreduce_append_ok:
  assumes g: "cfg_grants cfg" and r: "mr_started r" and wf: "mem_wf m0"
    and m: "mem_allocs m0 (lost @ ua # mr_owned r) m"
    and pb: "rmr_wf pb" and lim: "unat (mr_n_responses r) < 2 ^ 31"
    and fin: "fin = (fst (rmr_done pb) \<and> snd (rmr_done pb))" "streaming \<or> fin \<or> mr_msg r = None"
  shows "\<exists>r' m'. mapreduce_append streaming cfg ua pb resp r m = Some (ERIAK_OK, Some r', fin, m') \<and>
    mr_ok r' \<and> (mr_msg r' \<noteq> None \<longleftrightarrow> streaming \<or> fin) \<and> mr_items r' = mr_items r @ [rmr_content pb] \<and>
    unat (mr_n_responses r') = Suc (unat (mr_n_responses r)) \<and>
    mem_allocs m0 (lost @ mr_shown r @ mr_owned r') m'"
proof -
  obtain int us where s: "mr_internal r = int" "length us = unat (mr_n_responses r)"
    "int = None \<and> map Some us = [] \<or> (\<exists>q. int = Some \<lparr>pa_addr = q, pa_cells = map Some us\<rparr>) \<and> map Some us \<noteq> []"
    "mr_items r = map (rmr_content \<circ> snd) us" "list_all (rmr_wf \<circ> snd) us"
    "mset (mr_owned r) = mset (mr_shown r @ map fst us @ ptrs (map_option pa_addr int) @ [mr_at r])"
    by (rule mr_startedE [OF r])
  have "mem_allocs m0 ((lost @ mr_shown r @ map fst us) @ ptrs (map_option pa_addr int) @ [mr_at r, ua]) m"
    by (rule mem_allocs_mset [OF m]) (simp add: s(6))
  from extend_internal_ok [where alloc = "\<lambda>sz m. Some (riak_config_allocate cfg sz m)" and
      elt = "''RpbMapRedResp*''" and x = "(ua, pb)" and k = "mr_n_responses r",
      OF g refl _ _ wf s(3) this] s(2) lim obtain q m1 where
    e: "extend_internal (\<lambda>sz m. Some (riak_config_allocate cfg sz m)) cfg ''RpbMapRedResp*'' int
        (mr_n_responses r) (ua, pb) m =
      Some (True, Some \<lparr>pa_addr = q, pa_cells = map Some us @ [Some (ua, pb)]\<rparr>, m1)"
    "mem_allocs m0 ((lost @ mr_shown r @ map fst us) @ q # [mr_at r, ua]) m1"
    by auto
  let ?us = "us @ [(ua, pb)]" and ?n = "mr_n_responses r + 1"
  let ?r1 = "r\<lparr>mr_internal := Some \<lparr>pa_addr = q, pa_cells = map Some ?us\<rparr>, mr_n_responses := ?n\<rparr>"
  have ln: "unat ?n = length ?us" using s(2) lim by (simp add: unat_word_ariths)
  have w: "list_all (rmr_wf \<circ> snd) ?us" using pb s(5) by simp
  have items: "mr_items (?r1\<lparr>mr_msg := p\<rparr>) = mr_items r @ [rmr_content pb]" for p
    using ln s(4) by (simp add: mr_items_def arr_elems_def comp_def)
  have own: "mset (mr_owned (?r1\<lparr>mr_msg := p\<rparr>)) =
      mset (mr_shown (?r1\<lparr>mr_msg := p\<rparr>) @ map fst us @ [ua, q, mr_at r])" for p
    using ln by (simp add: mr_owned_def mr_shown_def arr_owned_def arr_elems_def comp_def concat_map_singleton)
  have f: "(if fst (rmr_done pb) then snd (rmr_done pb) else False) = fin" using fin(1) by simp
  have ap: "mapreduce_append streaming cfg ua pb resp r m =
      (if streaming \<or> fin then do { (ok, r, m) \<leftarrow> mapreduce_assemble cfg ?r1 m1;
         Some (if ok then (ERIAK_OK, Some r, fin, m) else (ERIAK_OUT_OF_MEMORY, kept resp r, fin, m)) }
       else Some (ERIAK_OK, Some ?r1, fin, m1))"
    unfolding mapreduce_append_def Let_def f s(1) e(1) by simp
  show ?thesis
  proof (cases "streaming \<or> fin")
    case False
    then have none: "mr_msg r = None" using fin(2) by blast
    have "mr_msg ?r1 = None" using none by simp
    then have r1: "?r1 = ?r1\<lparr>mr_msg := None\<rparr>" by simp
    have "mr_shown ?r1 = []" "mr_shown r = []" using none by (simp_all add: mr_shown_def arr_owned_def arr_elems_def)
    then have "mem_allocs m0 (lost @ mr_shown r @ mr_owned ?r1) m1"
      using own [of None] r1 by (intro mem_allocs_mset [OF e(2)]) simp
    moreover have "mr_ok ?r1" unfolding mr_ok_def using ln none w by (intro exI [of _ q] exI [of _ ?us]) simp
    ultimately show ?thesis
      using False none items [of None] ln s(2) unfolding ap r1 [symmetric] by auto
  next
    case True
    let ?a = "mem_next m1"
    obtain ms m2 where ms: "mapreduce_messages cfg (map Some ?us) 0 (length ?us) (replicate (length ?us) None)
        (mem_push m1) = Some (True, map Some ms, m2)"
      "map mm_content ms = map (rmr_content \<circ> snd) ?us" "mem_allocs (mem_push m1) (concat (map mm_owned ms)) m2"
      using mapreduce_messages_ok [OF g w, of 0 "length ?us" "[]" "mem_push m1"] by auto
    let ?p = "Some \<lparr>pa_addr = ?a, pa_cells = map Some ms\<rparr>"
    have l: "length ms = length ?us" using ms(2) by (metis length_map)
    have "mapreduce_assemble cfg ?r1 m1 = Some (True, ?r1\<lparr>mr_msg := ?p\<rparr>, m2)"
      using ms(1) ln by (simp add: mapreduce_assemble_def clean_allocate_eq allocate_granted [OF g] Let_def)
    then have a: "mapreduce_append streaming cfg ua pb resp r m = Some (ERIAK_OK, Some (?r1\<lparr>mr_msg := ?p\<rparr>), fin, m2)"
      using True by (simp add: ap)
    have sh: "mr_shown (?r1\<lparr>mr_msg := ?p\<rparr>) = concat (map mm_owned ms) @ [?a]"
      using ln l by (simp add: mr_shown_def arr_owned_def arr_elems_def comp_def)
    have "mem_allocs m0 (lost @ mr_shown r @ mr_owned (?r1\<lparr>mr_msg := ?p\<rparr>)) m2"
      using own [of ?p] sh
      by (intro mem_allocs_mset [OF mem_allocs_trans [OF mem_allocs_snoc [OF e(2)] ms(3)]]) simp
    moreover have "mr_ok (?r1\<lparr>mr_msg := ?p\<rparr>)" unfolding mr_ok_def using ln ms(2) w by (intro exI [of _ q] exI [of _ ?us]) simp
    ultimately show ?thesis
      using a True items [of ?p] ln s(2)
      by (intro exI [of _ "?r1\<lparr>mr_msg := ?p\<rparr>"] exI [of _ m2]) simp
  qed
qed

subsection \<open>A stream of messages\<close>

lemma mapreduce_decode_more:
  assumes g: "cfg_grants (rop_config rop)" and xs: "pbm_payload pbresp = Some xs"
    and u: "unpack (mem_next m) xs = Some pb" "rmr_wf pb" and wf: "mem_wf m0"
    and r: "mr_ok r" "mem_allocs m0 (lost @ mr_owned r) m" and lim: "unat (mr_n_responses r) < 2 ^ 31"
    and fin: "fin = (fst (rmr_done pb) \<and> snd (rmr_done pb))" "rop_streaming rop \<or> fin \<or> mr_msg r = None"
  shows "\<exists>r' m'. riak_mapreduce_response_decode unpack rop pbresp (Some r) d m = Some (ERIAK_OK, Some r', fin, m') \<and>
    mr_ok r' \<and> (mr_msg r' \<noteq> None \<longleftrightarrow> rop_streaming rop \<or> fin) \<and> mr_items r' = mr_items r @ [rmr_content pb] \<and>
    unat (mr_n_responses r') = Suc (unat (mr_n_responses r)) \<and>
    mem_allocs m0 (lost @ mr_shown r @ mr_owned r') m'"
proof -
  have "mem_allocs m0 (lost @ mem_next m # mr_owned r) (mem_push m)"
    by (rule mem_allocs_mset [OF mem_allocs_snoc [OF r(2)]]) simp
  with mapreduce_append_ok [OF g, of r m0 lost "mem_next m" "mem_push m" pb fin] u(2) wf r(1) lim fin show ?thesis
    by (simp add: riak_mapreduce_response_decode_def riak_operation_get_config_def xs u(1) pb_unpack_def
      mr_started_def)
qed

lemma mapreduce_decode_first:
  assumes g: "cfg_grants (rop_config rop)" and xs: "pbm_payload pbresp = Some xs"
    and u: "unpack (mem_next m) xs = Some pb" "rmr_wf pb" and wf: "mem_wf m"
    and fin: "fin = (fst (rmr_done pb) \<and> snd (rmr_done pb))"
  shows "\<exists>r' m'. riak_mapreduce_response_decode unpack rop pbresp None d m = Some (ERIAK_OK, Some r', fin, m') \<and>
    mr_ok r' \<and> (mr_msg r' \<noteq> None \<longleftrightarrow> rop_streaming rop \<or> fin) \<and> mr_items r' = [rmr_content pb] \<and>
    unat (mr_n_responses r') = 1 \<and> mem_allocs m (mr_owned r') m'"
proof -
  let ?z = "mapreduce_zero (Suc (mem_next m))"
  have z: "mr_owned ?z = [Suc (mem_next m)]" "mr_items ?z = []" "mr_n_responses ?z = 0" "mr_started ?z"
    "mr_shown ?z = []" "mr_msg ?z = None"
    by (simp_all add: mapreduce_zero_def mr_owned_def mr_items_def mr_started_def mr_shown_def)
  have "mem_allocs m ([] @ mem_next m # mr_owned ?z) (mem_push (mem_push m))"
    by (auto simp: z mem_allocs_def)
  from mapreduce_append_ok [OF g z(4) wf this u(2) _ fin, of "rop_streaming rop" None] show ?thesis
    by (simp add: riak_mapreduce_response_decode_def riak_operation_get_config_def xs u(1) pb_unpack_def z
      clean_allocate_eq allocate_granted [OF g] kept_def)
qed

text \<open>The decoder without its error: there is no result when it fails.\<close>

definition mapreduce_step ::
  "(addr \<Rightarrow> bytes \<Rightarrow> rpb_map_red_resp option) \<Rightarrow> ('r, 'd) riak_operation \<Rightarrow> riak_pb_message \<Rightarrow>
   riak_mapreduce_response option \<Rightarrow> mem \<Rightarrow> (riak_mapreduce_response \<times> mem) option"
where
  "mapreduce_step unpack rop msg resp m =
     do { (err, resp, _, m) \<leftarrow> riak_mapreduce_response_decode unpack rop (Some msg) resp False m;
          guard (err = ERIAK_OK);
          r \<leftarrow> resp;
          Some (r, m) }"

definition mapreduce_msg_fine ::
  "(addr \<Rightarrow> bytes \<Rightarrow> rpb_map_red_resp option) \<Rightarrow> (riak_pb_message \<times> rpb_map_red_resp) \<Rightarrow> bool"
where
  "mapreduce_msg_fine unpack = (\<lambda>(msg, pb). rmr_wf pb \<and> (\<exists>xs. pbm_payload (Some msg) = Some xs \<and>
     (\<forall>a. unpack a xs = Some pb)))"

definition mapreduce_holds :: "mem \<Rightarrow> riak_mapreduce_response \<Rightarrow> mem \<Rightarrow> bool" where
  "mapreduce_holds m0 r m \<longleftrightarrow> mem_wf m0 \<and> mr_ok r \<and> mr_msg r = None \<and> mem_allocs m0 (mr_owned r) m"

text \<open>Without streaming the messages before the last one are collected.\<close>

interpretation mrs: stream_decoder "\<lambda>(rop, msg, pb). mapreduce_step unpack rop msg"
    "\<lambda>(rop, msg, pb). cfg_grants (rop_config rop) \<and> \<not> rop_streaming rop \<and> mapreduce_msg_fine unpack (msg, pb) \<and>
       \<not> (fst (rmr_done pb) \<and> snd (rmr_done pb))"
    "\<lambda>(rop, msg, pb). [rmr_content pb]" mr_items "\<lambda>r. unat (mr_n_responses r)" "2 ^ 31" mapreduce_holds
  for unpack :: "addr \<Rightarrow> bytes \<Rightarrow> rpb_map_red_resp option"
proof (unfold_locales, goal_cases)
  case (1 m msg)
  obtain rop msg' pb where x: "msg = (rop, msg', pb)" by (cases msg)
  with 1 obtain xs where xs: "pbm_payload (Some msg') = Some xs" "unpack (mem_next m) xs = Some pb" "rmr_wf pb"
    "cfg_grants (rop_config rop)" "\<not> rop_streaming rop" "\<not> (fst (rmr_done pb) \<and> snd (rmr_done pb))"
    by (auto simp: mapreduce_msg_fine_def)
  from mapreduce_decode_first [where unpack = unpack and rop = rop and d = False, OF xs(4,1,2,3) 1(1) refl] xs(5,6) 1(1)
  show ?case by (auto simp: x mapreduce_step_def mapreduce_holds_def)
next
  case (2 m0 r m msg)
  obtain rop msg' pb where x: "msg = (rop, msg', pb)" by (cases msg)
  with 2 obtain xs where xs: "pbm_payload (Some msg') = Some xs" "unpack (mem_next m) xs = Some pb" "rmr_wf pb"
    "cfg_grants (rop_config rop)" "\<not> rop_streaming rop" "\<not> (fst (rmr_done pb) \<and> snd (rmr_done pb))"
    by (auto simp: mapreduce_msg_fine_def)
  have h: "mem_wf m0" "mr_ok r" "mr_msg r = None" "mem_allocs m0 ([] @ mr_owned r) m" "mr_shown r = []"
    using 2(1) by (simp_all add: mapreduce_holds_def mr_shown_def arr_owned_def arr_elems_def)
  from mapreduce_decode_more [where unpack = unpack and rop = rop and d = False, OF xs(4,1,2,3) h(1,2,4) _ refl]
    xs(5,6) 2(4) h
  show ?case by (auto simp: x mapreduce_step_def mapreduce_holds_def)
qed

end
