(* ===== verification/Riak_2i.thy ===== *)
theory Riak_2i
  imports Riak_Stream
begin

text \<open>
  Secondary index queries (\<^verbatim>\<open>src/messages/riak_2i.c\<close>): options, request, and the response, which
  is made of the chunks that were received.
\<close>

subsection \<open>Options\<close>

text \<open>\<open>i2o_range\<close> is whether the type of the query is \<open>RPB_INDEX_REQ__INDEX_QUERY_TYPE__range\<close>.\<close>

record riak_2i_options =
  i2o_at :: addr
  i2o_range :: bool
  i2o_key :: "riak_binary option field"
  i2o_range_min :: "riak_binary option field"
  i2o_range_max :: "riak_binary option field"
  i2o_return_terms :: "bool field"
  i2o_stream :: "bool field"
  i2o_max_results :: "u32 field"
  i2o_continuation :: "riak_binary option field"
  i2o_timeout :: "u32 field"
  i2o_type :: "riak_binary option field"
  i2o_term_regex :: "riak_binary option field"
  i2o_pagination_sort :: "bool field"

definition index_options_zero :: "addr \<Rightarrow> riak_2i_options" where
  "index_options_zero a =
     \<lparr>i2o_at = a, i2o_range = False, i2o_key = (False, None), i2o_range_min = (False, None),
      i2o_range_max = (False, None), i2o_return_terms = (False, False),
      i2o_stream = (False, False), i2o_max_results = (False, 0),
      i2o_continuation = (False, None), i2o_timeout = (False, 0), i2o_type = (False, None),
      i2o_term_regex = (False, None), i2o_pagination_sort = (False, False)\<rparr>"

definition riak_2i_options_get_has_key :: "riak_2i_options \<Rightarrow> bool" where
  "riak_2i_options_get_has_key opt = fst (i2o_key opt)"

definition riak_2i_options_get_key :: "riak_2i_options \<Rightarrow> riak_binary option" where
  "riak_2i_options_get_key opt = snd (i2o_key opt)"

definition riak_2i_options_get_has_range_min :: "riak_2i_options \<Rightarrow> bool" where
  "riak_2i_options_get_has_range_min opt = fst (i2o_range_min opt)"

definition riak_2i_options_get_range_min :: "riak_2i_options \<Rightarrow> riak_binary option" where
  "riak_2i_options_get_range_min opt = snd (i2o_range_min opt)"

definition riak_2i_options_get_has_range_max :: "riak_2i_options \<Rightarrow> bool" where
  "riak_2i_options_get_has_range_max opt = fst (i2o_range_max opt)"

definition riak_2i_options_get_range_max :: "riak_2i_options \<Rightarrow> riak_binary option" where
  "riak_2i_options_get_range_max opt = snd (i2o_range_max opt)"

definition riak_2i_options_get_has_return_terms :: "riak_2i_options \<Rightarrow> bool" where
  "riak_2i_options_get_has_return_terms opt = fst (i2o_return_terms opt)"

definition riak_2i_options_get_return_terms :: "riak_2i_options \<Rightarrow> bool" where
  "riak_2i_options_get_return_terms opt = snd (i2o_return_terms opt)"

definition riak_2i_options_get_has_stream :: "riak_2i_options \<Rightarrow> bool" where
  "riak_2i_options_get_has_stream opt = fst (i2o_stream opt)"

definition riak_2i_options_get_stream :: "riak_2i_options \<Rightarrow> bool" where
  "riak_2i_options_get_stream opt = snd (i2o_stream opt)"

definition riak_2i_options_get_has_max_results :: "riak_2i_options \<Rightarrow> bool" where
  "riak_2i_options_get_has_max_results opt = fst (i2o_max_results opt)"

definition riak_2i_options_get_max_results :: "riak_2i_options \<Rightarrow> u32" where
  "riak_2i_options_get_max_results opt = snd (i2o_max_results opt)"

definition riak_2i_options_get_has_continuation :: "riak_2i_options \<Rightarrow> bool" where
  "riak_2i_options_get_has_continuation opt = fst (i2o_continuation opt)"

definition riak_2i_options_get_continuation :: "riak_2i_options \<Rightarrow> riak_binary option" where
  "riak_2i_options_get_continuation opt = snd (i2o_continuation opt)"

definition riak_2i_options_get_has_timeout :: "riak_2i_options \<Rightarrow> bool" where
  "riak_2i_options_get_has_timeout opt = fst (i2o_timeout opt)"

definition riak_2i_options_get_timeout :: "riak_2i_options \<Rightarrow> u32" where
  "riak_2i_options_get_timeout opt = snd (i2o_timeout opt)"

definition riak_2i_options_get_has_type :: "riak_2i_options \<Rightarrow> bool" where
  "riak_2i_options_get_has_type opt = fst (i2o_type opt)"

definition riak_2i_options_get_type :: "riak_2i_options \<Rightarrow> riak_binary option" where
  "riak_2i_options_get_type opt = snd (i2o_type opt)"

definition riak_2i_options_get_has_term_regex :: "riak_2i_options \<Rightarrow> bool" where
  "riak_2i_options_get_has_term_regex opt = fst (i2o_term_regex opt)"

definition riak_2i_options_get_term_regex :: "riak_2i_options \<Rightarrow> riak_binary option" where
  "riak_2i_options_get_term_regex opt = snd (i2o_term_regex opt)"

definition riak_2i_options_get_has_pagination_sort :: "riak_2i_options \<Rightarrow> bool" where
  "riak_2i_options_get_has_pagination_sort opt = fst (i2o_pagination_sort opt)"

definition riak_2i_options_get_pagination_sort :: "riak_2i_options \<Rightarrow> bool" where
  "riak_2i_options_get_pagination_sort opt = snd (i2o_pagination_sort opt)"

definition riak_2i_options_get_is_range_query :: "riak_2i_options \<Rightarrow> bool" where
  "riak_2i_options_get_is_range_query opt = i2o_range opt"

definition riak_2i_options_set_range_query :: "riak_2i_options \<Rightarrow> riak_2i_options" where
  "riak_2i_options_set_range_query opt = opt\<lparr>i2o_range := True\<rparr>"

text \<open>Setters of binaries leave what the field pointed to allocated.\<close>

definition riak_2i_options_set_key ::
  "riak_config option \<Rightarrow> riak_2i_options \<Rightarrow> riak_binary option \<Rightarrow> mem \<Rightarrow>
   (riak_error \<times> riak_2i_options \<times> mem) option"
where
  "riak_2i_options_set_key cfg opt v m =
     do { (b, m) \<leftarrow> riak_binary_copy cfg v m;
          Some (if b = None then ERIAK_OUT_OF_MEMORY else ERIAK_OK, opt\<lparr>i2o_key := (True, b)\<rparr>, m) }"

definition riak_2i_options_set_range_min ::
  "riak_config option \<Rightarrow> riak_2i_options \<Rightarrow> riak_binary option \<Rightarrow> mem \<Rightarrow>
   (riak_error \<times> riak_2i_options \<times> mem) option"
where
  "riak_2i_options_set_range_min cfg opt v m =
     do { (b, m) \<leftarrow> riak_binary_copy cfg v m;
          Some (if b = None then ERIAK_OUT_OF_MEMORY else ERIAK_OK, opt\<lparr>i2o_range_min := (True, b)\<rparr>, m) }"

definition riak_2i_options_set_range_max ::
  "riak_config option \<Rightarrow> riak_2i_options \<Rightarrow> riak_binary option \<Rightarrow> mem \<Rightarrow>
   (riak_error \<times> riak_2i_options \<times> mem) option"
where
  "riak_2i_options_set_range_max cfg opt v m =
     do { (b, m) \<leftarrow> riak_binary_copy cfg v m;
          Some (if b = None then ERIAK_OUT_OF_MEMORY else ERIAK_OK, opt\<lparr>i2o_range_max := (True, b)\<rparr>, m) }"

definition riak_2i_options_set_return_terms :: "riak_2i_options \<Rightarrow> bool \<Rightarrow> riak_2i_options" where
  "riak_2i_options_set_return_terms opt v = opt\<lparr>i2o_return_terms := (True, v)\<rparr>"

definition riak_2i_options_set_stream :: "riak_2i_options \<Rightarrow> bool \<Rightarrow> riak_2i_options" where
  "riak_2i_options_set_stream opt v = opt\<lparr>i2o_stream := (True, v)\<rparr>"

definition riak_2i_options_set_max_results :: "riak_2i_options \<Rightarrow> u32 \<Rightarrow> riak_2i_options" where
  "riak_2i_options_set_max_results opt v = opt\<lparr>i2o_max_results := (True, v)\<rparr>"

definition riak_2i_options_set_continuation ::
  "riak_config option \<Rightarrow> riak_2i_options \<Rightarrow> riak_binary option \<Rightarrow> mem \<Rightarrow>
   (riak_error \<times> riak_2i_options \<times> mem) option"
where
  "riak_2i_options_set_continuation cfg opt v m =
     do { (b, m) \<leftarrow> riak_binary_copy cfg v m;
          Some (if b = None then ERIAK_OUT_OF_MEMORY else ERIAK_OK, opt\<lparr>i2o_continuation := (True, b)\<rparr>, m) }"

definition riak_2i_options_set_timeout :: "riak_2i_options \<Rightarrow> u32 \<Rightarrow> riak_2i_options" where
  "riak_2i_options_set_timeout opt v = opt\<lparr>i2o_timeout := (True, v)\<rparr>"

definition riak_2i_options_set_type ::
  "riak_config option \<Rightarrow> riak_2i_options \<Rightarrow> riak_binary option \<Rightarrow> mem \<Rightarrow>
   (riak_error \<times> riak_2i_options \<times> mem) option"
where
  "riak_2i_options_set_type cfg opt v m =
     do { (b, m) \<leftarrow> riak_binary_copy cfg v m;
          Some (if b = None then ERIAK_OUT_OF_MEMORY else ERIAK_OK, opt\<lparr>i2o_type := (True, b)\<rparr>, m) }"

definition riak_2i_options_set_term_regex ::
  "riak_config option \<Rightarrow> riak_2i_options \<Rightarrow> riak_binary option \<Rightarrow> mem \<Rightarrow>
   (riak_error \<times> riak_2i_options \<times> mem) option"
where
  "riak_2i_options_set_term_regex cfg opt v m =
     do { (b, m) \<leftarrow> riak_binary_copy cfg v m;
          Some (if b = None then ERIAK_OUT_OF_MEMORY else ERIAK_OK, opt\<lparr>i2o_term_regex := (True, b)\<rparr>, m) }"

definition riak_2i_options_set_pagination_sort :: "riak_2i_options \<Rightarrow> bool \<Rightarrow> riak_2i_options" where
  "riak_2i_options_set_pagination_sort opt v = opt\<lparr>i2o_pagination_sort := (True, v)\<rparr>"

definition riak_2i_options_new :: "riak_config option \<Rightarrow> mem \<Rightarrow> riak_2i_options option \<times> mem" where
  "riak_2i_options_new cfg m =
     (let (p, m) = riak_config_clean_allocate cfg (SizeOf ''riak_2i_options'' 1) m
      in (map_option (\<lambda>a. riak_2i_options_set_stream (index_options_zero a) True) p, m))"

definition riak_2i_options_free ::
  "riak_config option \<Rightarrow> riak_2i_options option \<Rightarrow> mem \<Rightarrow> mem option"
where
  "riak_2i_options_free cfg options m =
     do { opt \<leftarrow> options;
          m \<leftarrow> riak_binary_free cfg (snd (i2o_key opt)) m;
          m \<leftarrow> riak_binary_free cfg (snd (i2o_range_min opt)) m;
          m \<leftarrow> riak_binary_free cfg (snd (i2o_range_max opt)) m;
          m \<leftarrow> riak_binary_free cfg (snd (i2o_type opt)) m;
          m \<leftarrow> riak_binary_free cfg (snd (i2o_continuation opt)) m;
          m \<leftarrow> riak_binary_free cfg (snd (i2o_term_regex opt)) m;
          riak_free cfg (Some (i2o_at opt)) m }"

subsection \<open>The request\<close>

record rpb_index_req =
  riq_bucket :: pb_binary
  riq_index :: pb_binary
  riq_range :: bool
  riq_key :: "pb_binary field"
  riq_range_min :: "pb_binary field"
  riq_range_max :: "pb_binary field"
  riq_return_terms :: "bool field"
  riq_stream :: "bool field"
  riq_max_results :: "u32 field"
  riq_continuation :: "pb_binary field"
  riq_timeout :: "u32 field"
  riq_type :: "pb_binary field"
  riq_term_regex :: "pb_binary field"
  riq_pagination_sort :: "bool field"

text \<open>The flag of a binary is copied in any case, its value only when the flag is set.\<close>

definition flag_to_pb :: "riak_binary option field \<Rightarrow> pb_binary field \<Rightarrow> pb_binary field option" where
  "flag_to_pb from to =
     (if fst from then do { b \<leftarrow> riak_binary_copy_to_pb (snd from); Some (True, b) }
      else Some (False, snd to))"

text \<open>The type of the options replaces the bucket type the request was called with.\<close>

definition index_options_to_pb :: "riak_2i_options option \<Rightarrow> rpb_index_req \<Rightarrow> rpb_index_req option" where
  "index_options_to_pb options msg =
     (case options of
        None \<Rightarrow> Some msg
      | Some opt \<Rightarrow>
          do { key \<leftarrow> flag_to_pb (i2o_key opt) (riq_key msg);
               range_min \<leftarrow> flag_to_pb (i2o_range_min opt) (riq_range_min msg);
               range_max \<leftarrow> flag_to_pb (i2o_range_max opt) (riq_range_max msg);
               continuation \<leftarrow> flag_to_pb (i2o_continuation opt) (riq_continuation msg);
               term_regex \<leftarrow> flag_to_pb (i2o_term_regex opt) (riq_term_regex msg);
               ty \<leftarrow> flag_to_pb (i2o_type opt) (riq_type msg);
               Some (msg\<lparr>riq_range := i2o_range opt,
                         riq_key := key,
                         riq_range_min := range_min,
                         riq_range_max := range_max,
                         riq_return_terms := i2o_return_terms opt,
                         riq_stream := i2o_stream opt,
                         riq_max_results := i2o_max_results opt,
                         riq_continuation := continuation,
                         riq_timeout := i2o_timeout opt,
                         riq_type := ty,
                         riq_term_regex := term_regex,
                         riq_pagination_sort := i2o_pagination_sort opt\<rparr>) })"

definition riak_2i_request_encode ::
  "rpb_index_req pb_api \<Rightarrow> 'd \<Rightarrow> ('r, 'd) riak_operation \<Rightarrow> riak_binary option \<Rightarrow> riak_binary option \<Rightarrow>
   riak_binary option \<Rightarrow> riak_2i_options option \<Rightarrow> mem \<Rightarrow>
   (riak_error \<times> ('r, 'd) riak_operation \<times> mem) option"
where
  "riak_2i_request_encode api decoder rop bucket_type bucket index index_options m =
     do { (rop, m) \<leftarrow> riak_operation_set_bucket_type rop bucket_type m;
          (rop, m) \<leftarrow> riak_operation_set_bucket rop bucket m;
          (rop, m) \<leftarrow> riak_operation_set_index rop index m;
          b \<leftarrow> riak_binary_copy_to_pb bucket;
          i \<leftarrow> riak_binary_copy_to_pb index;
          ty \<leftarrow> given_to_pb bucket_type (riq_type (pb_init api));
          twoimsg \<leftarrow> index_options_to_pb index_options
                      ((pb_init api)\<lparr>riq_bucket := b, riq_index := i, riq_type := ty\<rparr>);
          send_packed (\<lambda>sz m. Some (riak_config_clean_allocate (rop_config rop) sz m)) ERIAK_OUT_OF_MEMORY
            MSG_RPBINDEXREQ (cut32 (pb_packed_size api twoimsg)) (pb_pack api twoimsg) decoder rop m }"

subsection \<open>The response\<close>

record rpb_index_resp =
  rir_n_keys :: u64
  rir_keys :: "pb_binary list"
  rir_n_results :: u64
  rir_results :: "rpb_pair option list"
  rir_continuation :: "pb_binary field"
  rir_done :: "bool field"

record riak_2i_response =
  i2_at :: addr
  i2_n_keys :: u32
  i2_keys :: "riak_binary parray option"
  i2_n_results :: u32
  i2_results :: "riak_pair parray option"
  i2_continuation :: "riak_binary option field"
  i2_done :: "bool field"
  i2_n_responses :: u32
  i2_internal :: "(addr \<times> rpb_index_resp) parray option"

definition index_zero :: "addr \<Rightarrow> riak_2i_response" where
  "index_zero a =
     \<lparr>i2_at = a, i2_n_keys = 0, i2_keys = None, i2_n_results = 0, i2_results = None,
      i2_continuation = (False, None), i2_done = (False, False), i2_n_responses = 0, i2_internal = None\<rparr>"

text \<open>
  The sums over the chunks are kept in 32 bits. Both copy loops walk through the chunks with
  \<open>chunk\<close> and \<open>j\<close>; \<open>n\<close> elements are to go. A chunk is left when \<open>j\<close> reaches the number of
  its keys, also in the loop over the results; the first element of a chunk is read before it is
  known to be there.
\<close>

fun chunk_total :: "(rpb_index_resp \<Rightarrow> u64) \<Rightarrow> (addr \<times> rpb_index_resp) option list \<Rightarrow> nat \<Rightarrow> u32 option" where
  "chunk_total f us 0 = Some 0"
| "chunk_total f us (Suc n) =
     do { (_, pb) \<leftarrow> pa_next us; t \<leftarrow> chunk_total f (tl us) n; Some (ucast (f pb) + t) }"

definition next_chunk :: "rpb_index_resp \<Rightarrow> nat \<Rightarrow> nat \<Rightarrow> nat \<times> nat" where
  "next_chunk pb chunk j = (if unat (rir_n_keys pb) \<le> Suc j then (Suc chunk, 0) else (chunk, Suc j))"

fun index_keys ::
  "riak_config option \<Rightarrow> (addr \<times> rpb_index_resp) option list \<Rightarrow> nat \<Rightarrow> nat \<Rightarrow> nat \<Rightarrow> nat \<Rightarrow>
   riak_binary option list \<Rightarrow> mem \<Rightarrow> (bool \<times> riak_binary option list \<times> mem) option"
where
  "index_keys cfg us 0 i j chunk cells m = Some (True, cells, m)"
| "index_keys cfg us (Suc n) i j chunk cells m =
     do { guard (chunk < length us \<and> i < length cells);
          (_, pb) \<leftarrow> us ! chunk;
          guard (j < length (rir_keys pb));
          let (b, m) = riak_binary_copy_from_pb cfg (rir_keys pb ! j) m;
          let cells = cells[i := b];
          (if b = None then Some (False, cells, m)
           else (let (chunk, j) = next_chunk pb chunk j in index_keys cfg us n (Suc i) j chunk cells m)) }"

text \<open>The test of the error is inverted: the first result that could be copied ends the loop.\<close>

fun index_results ::
  "riak_config option \<Rightarrow> (addr \<times> rpb_index_resp) option list \<Rightarrow> nat \<Rightarrow> nat \<Rightarrow> nat \<Rightarrow> nat \<Rightarrow>
   riak_pair option list \<Rightarrow> mem \<Rightarrow> (bool \<times> riak_pair option list \<times> mem) option"
where
  "index_results cfg us 0 i j chunk cells m = Some (True, cells, m)"
| "index_results cfg us (Suc n) i j chunk cells m =
     do { guard (chunk < length us \<and> i < length cells);
          (_, pb) \<leftarrow> us ! chunk;
          guard (j < length (rir_results pb));
          q \<leftarrow> rir_results pb ! j;
          let (err, p, m) = riak_pairs_copy_from_pb cfg q m;
          (if err = ERIAK_OK then Some (False, cells[i := p], m)
           else (let (chunk, j) = next_chunk pb chunk j in index_results cfg us n (Suc i) j chunk cells m)) }"

text \<open>What the response shows to the user is made from all chunks.\<close>

definition index_assemble ::
  "riak_config option \<Rightarrow> riak_2i_response \<Rightarrow> mem \<Rightarrow> (bool \<times> riak_2i_response \<times> mem) option"
where
  "index_assemble cfg r m =
     do { let n = unat (i2_n_responses r);
          tk \<leftarrow> chunk_total rir_n_keys (pa_list (i2_internal r)) n;
          tr \<leftarrow> chunk_total rir_n_results (pa_list (i2_internal r)) n;
          let (p, m) = riak_config_clean_allocate cfg (SizeOf ''riak_binary*'' (unat tk)) m;
          (case p of
             None \<Rightarrow> Some (False, r\<lparr>i2_keys := None\<rparr>, m)
           | Some a \<Rightarrow>
               do { let r = r\<lparr>i2_n_keys := tk\<rparr>;
                    let keys = replicate (unat tk) None;
                    let (p, m) = riak_config_clean_allocate cfg (SizeOf ''riak_pair*'' (unat tr)) m;
                    (case p of
                       None \<Rightarrow> Some (False, r\<lparr>i2_keys := Some \<lparr>pa_addr = a, pa_cells = keys\<rparr>, i2_results := None\<rparr>, m)
                     | Some b \<Rightarrow>
                         do { let r = r\<lparr>i2_n_results := tr\<rparr>;
                              let results = replicate (unat tr) None;
                              (ok, keys, m) \<leftarrow> index_keys cfg (pa_list (i2_internal r)) (unat tk) 0 0 0 keys m;
                              (if \<not> ok
                               then do { m \<leftarrow> riak_free cfg (Some a) m;
                                         Some (False, r\<lparr>i2_keys := None,
                                                        i2_results := Some \<lparr>pa_addr = b, pa_cells = results\<rparr>\<rparr>, m) }
                               else do { let r = r\<lparr>i2_keys := Some \<lparr>pa_addr = a, pa_cells = keys\<rparr>\<rparr>;
                                         (ok, results, m) \<leftarrow> index_results cfg (pa_list (i2_internal r)) (unat tr)
                                                                0 0 0 results m;
                                         (if ok
                                          then Some (True, r\<lparr>i2_results := Some \<lparr>pa_addr = b, pa_cells = results\<rparr>\<rparr>, m)
                                          else do { m \<leftarrow> riak_free cfg (Some b) m;
                                                    Some (False, r\<lparr>i2_results := None\<rparr>, m) }) }) }) }) }"

definition index_append ::
  "bool \<Rightarrow> riak_config option \<Rightarrow> addr \<Rightarrow> rpb_index_resp \<Rightarrow> riak_2i_response option \<Rightarrow>
   riak_2i_response \<Rightarrow> mem \<Rightarrow> (riak_error \<times> riak_2i_response option \<times> bool \<times> mem) option"
where
  "index_append streaming cfg ua pb resp r m =
     do { let fin = (if fst (rir_done pb) then snd (rir_done pb) else False);
          (ok, internal, m) \<leftarrow> extend_internal (\<lambda>sz m. Some (riak_config_allocate cfg sz m)) cfg
                                 ''RpbIndexResp*'' (i2_internal r) (i2_n_responses r) (ua, pb) m;
          let r = r\<lparr>i2_internal := internal\<rparr>;
          (if \<not> ok then Some (ERIAK_OUT_OF_MEMORY, kept resp r, fin, m)
           else do { let r = r\<lparr>i2_n_responses := i2_n_responses r + 1\<rparr>;
                     (ok, r, m) \<leftarrow> (if streaming \<or> fin then index_assemble cfg r m else Some (True, r, m));
                     (if \<not> ok then Some (ERIAK_OUT_OF_MEMORY, kept resp r, fin, m)
                      else (let (b, m) = riak_binary_copy_from_pb cfg (snd (rir_continuation pb)) m
                            in Some (ERIAK_OK, Some (r\<lparr>i2_continuation := (fst (rir_continuation pb), b),
                                                       i2_done := rir_done pb\<rparr>), fin, m))) }) }"

definition riak_2i_response_decode ::
  "(addr \<Rightarrow> bytes \<Rightarrow> rpb_index_resp option) \<Rightarrow> ('r, 'd) riak_operation \<Rightarrow> riak_pb_message option \<Rightarrow>
   riak_2i_response option \<Rightarrow> bool \<Rightarrow> mem \<Rightarrow> (riak_error \<times> riak_2i_response option \<times> bool \<times> mem) option"
where
  "riak_2i_response_decode unpack rop pbresp resp done m =
     do { let cfg = riak_operation_get_config rop;
          xs \<leftarrow> pbm_payload pbresp;
          let (u, m) = pb_unpack unpack xs m;
          (case u of
             None \<Rightarrow> Some (ERIAK_MESSAGE_FORMAT, resp, done, m)
           | Some (ua, pb) \<Rightarrow>
               (let (r, m) = (case resp of
                                Some r \<Rightarrow> (Some r, m)
                              | None \<Rightarrow> (let (p, m) = riak_config_clean_allocate cfg
                                                        (SizeOf ''riak_2i_response'' 1) m
                                         in (map_option index_zero p, m)))
                in case r of
                     None \<Rightarrow> Some (ERIAK_OUT_OF_MEMORY, resp, done, m)
                   | Some r \<Rightarrow> index_append (rop_streaming rop) cfg ua pb resp r m)) }"

text \<open>The pointer to a key is passed on; \<open>riak_binary_print\<close> accepts NULL.\<close>

fun index_keys_print :: "riak_binary option list \<Rightarrow> nat \<Rightarrow> printer" where
  "index_keys_print cells 0 st = Some (0, st)"
| "index_keys_print cells (Suc n) st =
     (if sint (riak_print_len st) > 0
      then do { guard (cells \<noteq> []);
                (w, st) \<leftarrow> riak_print_label_binary st (str ''key'') (hd cells);
                (ws, st) \<leftarrow> index_keys_print (tl cells) n st;
                Some (w + ws, st) }
      else Some (0, st))"

definition riak_2i_response_print ::
  "riak_print_state \<Rightarrow> riak_2i_response \<Rightarrow> (i32 \<times> riak_print_state) option"
where
  "riak_2i_response_print st r =
     print_seq
       [\<lambda>st. riak_print_label_int st (str ''n_keys'') (i2_n_keys r),
        index_keys_print (pa_list (i2_keys r)) (unat (i2_n_keys r)),
        \<lambda>st. riak_print_label_int st (str ''n_results'') (i2_n_results r),
        \<lambda>st. riak_pairs_print st (i2_results r) (i2_n_results r),
        \<lambda>st. riak_print_label_bool st (str ''has_continuation'') (fst (i2_continuation r)),
        \<lambda>st. riak_print_label_binary st (str ''continuation'') (snd (i2_continuation r)),
        \<lambda>st. riak_print_label_bool st (str ''has_done'') (fst (i2_done r)),
        \<lambda>st. riak_print_label_bool st (str ''done'') (snd (i2_done r))] st"

text \<open>The continuation is not freed.\<close>

definition riak_2i_response_free ::
  "riak_config option \<Rightarrow> riak_2i_response option \<Rightarrow> mem \<Rightarrow> mem option"
where
  "riak_2i_response_free cfg resp m =
     (case resp of
        None \<Rightarrow> Some m
      | Some r \<Rightarrow>
          do { m \<leftarrow> free_each (riak_binary_free cfg) (pa_list (i2_keys r)) (unat (i2_n_keys r)) m;
               m \<leftarrow> riak_free cfg (map_option pa_addr (i2_keys r)) m;
               m \<leftarrow> riak_pairs_free cfg (i2_results r) (i2_n_results r) m;
               m \<leftarrow> free_each pb_free_unpacked (map (map_option fst) (pa_list (i2_internal r)))
                      (unat (i2_n_responses r)) m;
               m \<leftarrow> riak_free cfg (map_option pa_addr (i2_internal r)) m;
               riak_free cfg (Some (i2_at r)) m })"

definition riak_2i_get_n_keys :: "riak_2i_response \<Rightarrow> u32" where
  "riak_2i_get_n_keys response = i2_n_keys response"

definition riak_2i_get_keys :: "riak_2i_response \<Rightarrow> riak_binary parray option" where
  "riak_2i_get_keys response = i2_keys response"

definition riak_2i_get_n_results :: "riak_2i_response \<Rightarrow> u32" where
  "riak_2i_get_n_results response = i2_n_results response"

definition riak_2i_get_results :: "riak_2i_response \<Rightarrow> riak_pair parray option" where
  "riak_2i_get_results response = i2_results response"

definition riak_2i_get_has_continuation :: "riak_2i_response \<Rightarrow> bool" where
  "riak_2i_get_has_continuation response = fst (i2_continuation response)"

definition riak_2i_get_continuation :: "riak_2i_response \<Rightarrow> riak_binary option" where
  "riak_2i_get_continuation response = snd (i2_continuation response)"

definition riak_2i_get_has_done :: "riak_2i_response \<Rightarrow> bool" where
  "riak_2i_get_has_done response = fst (i2_done response)"

definition riak_2i_get_done :: "riak_2i_response \<Rightarrow> bool" where
  "riak_2i_get_done response = snd (i2_done response)"

subsection \<open>The keys of the chunks\<close>

definition chunk_wf :: "rpb_index_resp \<Rightarrow> bool" where
  "chunk_wf pb \<longleftrightarrow> unat (rir_n_keys pb) = length (rir_keys pb) \<and> rir_keys pb \<noteq> [] \<and> list_all pbb_wf (rir_keys pb)"

text \<open>The keys from position \<open>j\<close> of chunk \<open>chunk\<close> on.\<close>

definition keys_from :: "(addr \<times> rpb_index_resp) list \<Rightarrow> nat \<Rightarrow> nat \<Rightarrow> pb_binary list" where
  "keys_from us chunk j =
     (if chunk < length us then drop j (rir_keys (snd (us ! chunk))) @ concat (map (rir_keys \<circ> snd) (drop (Suc chunk) us))
      else [])"

lemma keys_from_step:
  assumes "chunk < length us" "j < length (rir_keys (snd (us ! chunk)))" "list_all (chunk_wf \<circ> snd) us"
    and "next_chunk (snd (us ! chunk)) chunk j = (chunk', j')"
  shows "keys_from us chunk j = rir_keys (snd (us ! chunk)) ! j # keys_from us chunk' j'"
    and "chunk' < length us \<Longrightarrow> j' < length (rir_keys (snd (us ! chunk')))"
proof -
  let ?ks = "rir_keys (snd (us ! chunk))"
  have d: "drop j ?ks = ?ks ! j # drop (Suc j) ?ks" using assms(2) by (simp add: Cons_nth_drop_Suc)
  have w: "c < length us \<Longrightarrow> chunk_wf (snd (us ! c))" for c using assms(3) by (simp add: list_all_length)
  have n: "unat (rir_n_keys (snd (us ! chunk))) = length ?ks" using w [OF assms(1)] by (simp add: chunk_wf_def)
  have c: "chunk' < length us \<Longrightarrow> rir_keys (snd (us ! chunk')) \<noteq> []" using w by (simp add: chunk_wf_def)
  show "keys_from us chunk j = ?ks ! j # keys_from us chunk' j'"
  proof (cases "length ?ks \<le> Suc j")
    case True
    then have "chunk' = Suc chunk" "j' = 0" using assms(4) n by (simp_all add: next_chunk_def)
    moreover have "drop (Suc j) ?ks = []" using True by simp
    moreover have "concat (map (rir_keys \<circ> snd) (drop (Suc chunk) us)) = keys_from us (Suc chunk) 0"
      by (cases "Suc chunk < length us") (simp_all add: keys_from_def Cons_nth_drop_Suc [symmetric])
    ultimately show ?thesis using d assms(1) by (simp add: keys_from_def)
  next
    case False
    then have "chunk' = chunk" "j' = Suc j" using assms(4) n by (simp_all add: next_chunk_def)
    then show ?thesis using d assms(1) by (simp add: keys_from_def)
  qed
  show "chunk' < length us \<Longrightarrow> j' < length (rir_keys (snd (us ! chunk')))"
    using assms(4) n c by (auto simp: next_chunk_def split: if_splits)
qed

lemma index_keys_ok:
  assumes "cfg_grants cfg" "list_all (chunk_wf \<circ> snd) us"
  shows "length (keys_from us chunk j) = n \<Longrightarrow> (chunk < length us \<Longrightarrow> j < length (rir_keys (snd (us ! chunk)))) \<Longrightarrow>
    length pre = i \<Longrightarrow>
    \<exists>bs m'. index_keys cfg (map Some us) n i j chunk (pre @ replicate n None) m = Some (True, pre @ map Some bs, m') \<and>
      map bin_bytes bs = map pbb_bytes (keys_from us chunk j) \<and> mem_allocs m (concat (map bin_owned bs)) m'"
proof (induction n arbitrary: i j chunk pre m)
  case (Suc n)
  then have c: "chunk < length us" by (auto simp: keys_from_def split: if_splits)
  then have j: "j < length (rir_keys (snd (us ! chunk)))" using Suc.prems(2) by blast
  obtain a pb where u: "us ! chunk = (a, pb)" by (cases "us ! chunk")
  obtain chunk' j' where nx: "next_chunk pb chunk j = (chunk', j')" by (cases "next_chunk pb chunk j")
  have "next_chunk (snd (us ! chunk)) chunk j = (chunk', j')" using nx u by simp
  note st = keys_from_step [OF c j assms(2) this]
  let ?k = "rir_keys pb ! j"
  let ?y = "\<lparr>bin_at = mem_next m, bin_len = (if pbb_data ?k = None then 0 else pbb_len ?k),
    bin_data = pbb_data ?k, bin_managed = False\<rparr>"
  have w: "pbb_wf ?k" using assms(2) c j u by (force simp: list_all_length chunk_wf_def)
  obtain bs m' where bs: "index_keys cfg (map Some us) n (Suc i) j' chunk' ((pre @ [Some ?y]) @ replicate n None) (mem_push m) =
      Some (True, (pre @ [Some ?y]) @ map Some bs, m')"
    "map bin_bytes bs = map pbb_bytes (keys_from us chunk' j')" "mem_allocs (mem_push m) (concat (map bin_owned bs)) m'"
    using Suc.IH [of chunk' j' "pre @ [Some ?y]" "Suc i" "mem_push m"] Suc.prems st by auto
  have "index_keys cfg (map Some us) (Suc n) i j chunk (pre @ replicate (Suc n) None) m =
      Some (True, pre @ map Some (?y # bs), m')"
    using bs(1) c j u nx Suc.prems(3)
    by (simp add: copy_from_pb_granted [OF assms(1)] list_update_append)
  moreover have "map bin_bytes (?y # bs) = map pbb_bytes (keys_from us chunk j)"
    using st(1) bs(2) w u by simp
  moreover have "mem_allocs m (concat (map bin_owned (?y # bs))) m'"
    using mem_allocs_trans [OF mem_allocs_push bs(3)] by (simp add: bin_owned_def)
  ultimately show ?case by blast
qed simp

lemma chunk_total_ok:
  "chunk_total f (map Some us) (length us) = Some (\<Sum>u\<leftarrow>us. ucast (f (snd u)))"
  by (induction us) (auto simp: split_beta)

lemma chunk_total_keys:
  "list_all (chunk_wf \<circ> snd) us \<Longrightarrow>
   (\<Sum>u\<leftarrow>us. ucast (rir_n_keys (snd u)) :: u32) = of_nat (length (concat (map (rir_keys \<circ> snd) us)))"
proof (induction us)
  case (Cons u us)
  then have "(ucast (rir_n_keys (snd u)) :: u32) = of_nat (length (rir_keys (snd u)))"
    by (simp add: chunk_wf_def) (metis of_nat_unat)
  with Cons show ?case by simp
qed simp

text \<open>Chunks of keys are shown one after the other.\<close>

lemma index_assemble_keys:
  assumes g: "cfg_grants cfg" and i: "i2_internal r = Some \<lparr>pa_addr = q, pa_cells = map Some us\<rparr>"
    "length us = unat (i2_n_responses r)" "us \<noteq> []"
    and w: "list_all (chunk_wf \<circ> snd) us" "list_all (\<lambda>u. rir_n_results (snd u) = 0) us"
    and lim: "length (concat (map (rir_keys \<circ> snd) us)) < 2 ^ 32"
  shows "\<exists>a b bs m'. index_assemble cfg r m = Some (True, r\<lparr>i2_keys := Some \<lparr>pa_addr = a, pa_cells = map Some bs\<rparr>,
      i2_n_keys := of_nat (length bs), i2_results := Some \<lparr>pa_addr = b, pa_cells = []\<rparr>, i2_n_results := 0\<rparr>, m') \<and>
    map bin_bytes bs = map pbb_bytes (concat (map (rir_keys \<circ> snd) us)) \<and>
    mem_allocs m ([a, b] @ concat (map bin_owned bs)) m'"
proof -
  let ?n = "length (concat (map (rir_keys \<circ> snd) us))"
  have kf: "keys_from us 0 0 = concat (map (rir_keys \<circ> snd) us)"
    using i(3) by (cases us) (simp_all add: keys_from_def)
  have "us ! 0 \<in> set us" using i(3) by simp
  then have k0: "0 < length (rir_keys (snd (us ! 0)))" using w(1) by (auto simp: list_all_iff chunk_wf_def)
  obtain bs m' where bs: "index_keys cfg (map Some us) ?n 0 0 0 (replicate ?n None) (mem_push (mem_push m)) =
      Some (True, map Some bs, m')" "map bin_bytes bs = map pbb_bytes (concat (map (rir_keys \<circ> snd) us))"
    "mem_allocs (mem_push (mem_push m)) (concat (map bin_owned bs)) m'"
    using index_keys_ok [OF g w(1), of 0 0 ?n "[]" 0 "mem_push (mem_push m)"] k0 kf by auto
  have l: "length bs = ?n" using bs(2) by (metis length_map)
  have r0: "(\<Sum>u\<leftarrow>us. ucast (rir_n_results (snd u)) :: u32) = 0" using w(2) by (induction us) simp_all
  have un: "unat (of_nat ?n :: u32) = ?n" using lim by (rule unat_u32)
  have "index_assemble cfg r m = Some (True, r\<lparr>i2_keys := Some \<lparr>pa_addr = mem_next m, pa_cells = map Some bs\<rparr>,
      i2_n_keys := of_nat (length bs), i2_results := Some \<lparr>pa_addr = Suc (mem_next m), pa_cells = []\<rparr>,
      i2_n_results := 0\<rparr>, m')"
    unfolding index_assemble_def Let_def i(1) i(2) [symmetric] arr_simps parray.simps
      chunk_total_ok chunk_total_keys [OF w(1)] r0 bind.bind_lunit clean_allocate_eq allocate_granted [OF g]
      prod.case option.case un
    using bs(1) l by (simp add: i(1) allocate_granted [OF g])
  moreover have "mem_allocs m [mem_next m, Suc (mem_next m)] (mem_push (mem_push m))" by (auto simp: mem_allocs_def)
  from mem_allocs_trans [OF this bs(3)]
  have "mem_allocs m ([mem_next m, Suc (mem_next m)] @ concat (map bin_owned bs)) m'" .
  ultimately show ?thesis using bs(2) by blast
qed

subsection \<open>A complete reply\<close>

lemma index_append_first:
  assumes "cfg_grants cfg" "rir_done pb = (True, True)"
  shows "index_append streaming cfg ua pb resp (index_zero z) m =
    do { (ok, r, m) \<leftarrow> index_assemble cfg ((index_zero z)\<lparr>i2_internal := Some \<lparr>pa_addr = mem_next m,
           pa_cells = [Some (ua, pb)]\<rparr>, i2_n_responses := 1\<rparr>) (mem_push m);
         if \<not> ok then Some (ERIAK_OUT_OF_MEMORY, kept resp r, True, m)
         else let (b, m) = riak_binary_copy_from_pb cfg (snd (rir_continuation pb)) m
              in Some (ERIAK_OK, Some (r\<lparr>i2_continuation := (fst (rir_continuation pb), b), i2_done := rir_done pb\<rparr>), True, m) }"
proof -
  have "extend_internal (\<lambda>sz m. Some (riak_config_allocate cfg sz m)) cfg ''RpbIndexResp*'' None 0 (ua, pb) m =
      Some (True, Some \<lparr>pa_addr = mem_next m, pa_cells = [Some (ua, pb)]\<rparr>, mem_push m)"
    by (simp add: extend_internal_def allocate_granted [OF assms(1)])
  then show ?thesis by (simp add: index_append_def index_zero_def assms(2))
qed

text \<open>What a response owns; its continuation is not among it.\<close>

definition i2_ok :: "riak_2i_response \<Rightarrow> bool" where
  "i2_ok r \<longleftrightarrow> arr_ok (i2_keys r) (unat (i2_n_keys r)) \<and> arr_ok (i2_results r) (int_count (i2_n_results r)) \<and>
     arr_ok (i2_internal r) (unat (i2_n_responses r))"

definition i2_owned :: "riak_2i_response \<Rightarrow> addr list" where
  "i2_owned r = arr_owned bin_owned (i2_keys r) (unat (i2_n_keys r)) @
     arr_owned pair_owned (i2_results r) (int_count (i2_n_results r)) @
     arr_owned (\<lambda>u. [fst u]) (i2_internal r) (unat (i2_n_responses r)) @ [i2_at r]"

lemma free_each_array:
  assumes "arr_ok p n" "\<And>x m. f (Some (g x)) m = mem_free_all (own x) m"
  shows "free_each f (map (map_option g) (pa_list p)) n m = mem_free_all (concat (map own (arr_elems p n))) m"
proof -
  obtain rest where r: "pa_list p = map Some (arr_elems p n) @ rest" "length (arr_elems p n) = n"
    using arr_ok_cells [OF assms(1)] .
  have "free_each (\<lambda>x. f (map_option g x)) (map Some (arr_elems p n) @ rest) (length (arr_elems p n)) m =
      mem_free_all (concat (map own (arr_elems p n))) m"
    by (rule free_each_owned) (simp add: assms(2))
  moreover have "free_each f (map (map_option g) cells) k m = free_each (\<lambda>x. f (map_option g x)) cells k m" for cells k m
  proof (induction k arbitrary: cells m)
    case (Suc k)
    show ?case by (cases cells) (simp_all add: Suc cong: Option.bind_cong)
  qed simp
  ultimately show ?thesis by (simp only: r)
qed

interpretation i2: owned_ptr i2_ok i2_owned riak_2i_response_free
proof
  fix cfg and r :: riak_2i_response and m
  assume ok: "cfg_ok cfg" and r: "i2_ok r"
  then have a: "arr_ok (i2_keys r) (unat (i2_n_keys r))" "arr_ok (i2_results r) (int_count (i2_n_results r))"
    "arr_ok (i2_internal r) (unat (i2_n_responses r))" by (simp_all add: i2_ok_def)
  have k: "free_each (riak_binary_free cfg) (pa_list (i2_keys r)) (unat (i2_n_keys r)) =
      mem_free_all (concat (map bin_owned (arr_elems (i2_keys r) (unat (i2_n_keys r)))))"
    using free_each_array [OF a(1), where g = "\<lambda>x. x" and f = "riak_binary_free cfg" and own = bin_owned]
    by (simp add: fun_eq_iff riak_binary_free_owned [OF ok] option.map_ident option.map_id0 [unfolded id_def])
  have u: "free_each pb_free_unpacked (map (map_option fst) (pa_list (i2_internal r))) (unat (i2_n_responses r)) =
      mem_free_all (concat (map (\<lambda>u. [fst u]) (arr_elems (i2_internal r) (unat (i2_n_responses r)))))"
    by (intro ext free_each_array a(3)) (simp add: pb_free_unpacked_def)
  show "riak_2i_response_free cfg (Some r) m = mem_free_all (i2_owned r) m"
    by (simp add: riak_2i_response_free_def k u riak_pairs_free_owned [OF ok a(2)] riak_free_ptrs [OF ok] i2_owned_def
        arr_owned_def del: concat_map_singleton map_eq_conv)
qed (simp add: riak_2i_response_free_def)

text \<open>The keys of a reply in one message are shown; its continuation is not part of what is given back.\<close>

lemma riak_2i_response_decode_ok:
  assumes g: "cfg_grants (rop_config rop)" and xs: "pbm_payload pbresp = Some xs"
    and u: "unpack (mem_next m) xs = Some pb" and w: "chunk_wf pb" "rir_n_results pb = 0"
    and lim: "length (rir_keys pb) < 2 ^ 32" and fin: "rir_done pb = (True, True)"
  shows "\<exists>r m' b. riak_2i_response_decode unpack rop pbresp None d m = Some (ERIAK_OK, Some r, True, m') \<and>
    i2_ok r \<and> mem_allocs m (i2_owned r @ [bin_at b]) m' \<and> riak_2i_get_continuation r = Some b \<and>
    map bin_bytes (arr_elems (riak_2i_get_keys r) (unat (riak_2i_get_n_keys r))) = map pbb_bytes (rir_keys pb)"
proof -
  let ?cfg = "rop_config rop" and ?u = "mem_next m" and ?z = "Suc (mem_next m)"
    and ?q = "Suc (Suc (mem_next m))" and ?m3 = "mem_push (mem_push (mem_push m))"
  let ?r = "(index_zero ?z)\<lparr>i2_internal := Some \<lparr>pa_addr = ?q, pa_cells = map Some [(?u, pb)]\<rparr>, i2_n_responses := 1\<rparr>"
  obtain a b bs m4 where as: "index_assemble ?cfg ?r ?m3 = Some (True, ?r\<lparr>i2_keys := Some \<lparr>pa_addr = a, pa_cells = map Some bs\<rparr>,
      i2_n_keys := of_nat (length bs), i2_results := Some \<lparr>pa_addr = b, pa_cells = []\<rparr>, i2_n_results := 0\<rparr>, m4)"
    "map bin_bytes bs = map pbb_bytes (concat (map (rir_keys \<circ> snd) [(?u, pb)]))"
    "mem_allocs ?m3 ([a, b] @ concat (map bin_owned bs)) m4"
    using index_assemble_keys [OF g, of ?r ?q "[(?u, pb)]" ?m3] w lim by auto
  let ?k = "snd (rir_continuation pb)" and ?c = "mem_next m4"
  let ?b = "\<lparr>bin_at = ?c, bin_len = (if pbb_data ?k = None then 0 else pbb_len ?k), bin_data = pbb_data ?k, bin_managed = False\<rparr>"
  let ?r' = "?r\<lparr>i2_keys := Some \<lparr>pa_addr = a, pa_cells = map Some bs\<rparr>, i2_n_keys := of_nat (length bs),
    i2_results := Some \<lparr>pa_addr = b, pa_cells = []\<rparr>, i2_n_results := 0,
    i2_continuation := (fst (rir_continuation pb), Some ?b), i2_done := rir_done pb\<rparr>"
  have d: "riak_2i_response_decode unpack rop pbresp None d m = Some (ERIAK_OK, Some ?r', True, mem_push m4)"
    using as(1) by (simp add: riak_2i_response_decode_def riak_operation_get_config_def xs u pb_unpack_def
        clean_allocate_eq allocate_granted [OF g] index_append_first [OF g fin] copy_from_pb_granted [OF g])
  have l: "length bs = length (rir_keys pb)" using as(2) by (metis length_map concat.simps append_Nil2 list.simps(8,9) comp_apply snd_conv)
  have un: "unat (of_nat (length bs) :: u32) = length bs" using lim unfolding l by (rule unat_u32)
  have "mem_allocs m [?u, ?z, ?q] ?m3" by (auto simp: mem_allocs_def)
  from mem_allocs_snoc [OF mem_allocs_trans [OF this as(3)]]
  have "mem_allocs m (i2_owned ?r' @ [?c]) (mem_push m4)"
    by (rule mem_allocs_mset) (simp add: i2_owned_def arr_owned_def arr_elems_def un index_zero_def comp_def)
  moreover have "i2_ok ?r'" by (simp add: i2_ok_def arr_ok_def un index_zero_def)
  moreover have "map bin_bytes (arr_elems (riak_2i_get_keys ?r') (unat (riak_2i_get_n_keys ?r'))) = map pbb_bytes (rir_keys pb)"
    using as(2) by (simp add: riak_2i_get_keys_def riak_2i_get_n_keys_def un arr_elems_def comp_def)
  ultimately show ?thesis
    using d by (intro exI [of _ ?r'] exI [of _ "mem_push m4"] exI [of _ ?b]) (simp add: riak_2i_get_continuation_def)
qed

text \<open>So all but the continuation is given back.\<close>

lemma riak_2i_response_freed:
  assumes g: "cfg_ok cfg" and m: "mem_wf m" and r: "i2_ok r" "mem_allocs m (i2_owned r @ [a]) m'"
  shows "\<exists>m''. riak_2i_response_free cfg (Some r) m' = Some m'' \<and> mem_live m'' = insert a (mem_live m) \<and> a \<notin> mem_live m"
proof -
  have "mem_live m' - set (i2_owned r) = insert a (mem_live m)" "a \<notin> mem_live m"
    using r(2) mem_allocs_fresh [OF r(2) m] by (auto simp: mem_allocs_def)
  then show ?thesis
    using mem_allocs_free_part(1) [OF r(2) m refl] i2.release_owned [OF g r(1)] by auto
qed

lemma riak_2i_response_decode_keys:
  assumes g: "cfg_grants (rop_config rop)" and m: "mem_wf m" and xs: "pbm_payload pbresp = Some xs"
    and u: "unpack (mem_next m) xs = Some pb" and w: "chunk_wf pb" "rir_n_results pb = 0"
    and lim: "length (rir_keys pb) < 2 ^ 32" and fin: "rir_done pb = (True, True)"
  shows "\<exists>r m' m'' c. riak_2i_response_decode unpack rop pbresp None d m = Some (ERIAK_OK, Some r, True, m') \<and>
    map bin_bytes (arr_elems (riak_2i_get_keys r) (unat (riak_2i_get_n_keys r))) = map pbb_bytes (rir_keys pb) \<and>
    map_option bin_at (riak_2i_get_continuation r) = Some c \<and> c \<notin> mem_live m \<and>
    riak_2i_response_free (rop_config rop) (Some r) m' = Some m'' \<and> mem_live m'' = insert c (mem_live m)"
proof -
  obtain r m' b where d: "riak_2i_response_decode unpack rop pbresp None d m = Some (ERIAK_OK, Some r, True, m')"
    "i2_ok r" "mem_allocs m (i2_owned r @ [bin_at b]) m'" "riak_2i_get_continuation r = Some b"
    "map bin_bytes (arr_elems (riak_2i_get_keys r) (unat (riak_2i_get_n_keys r))) = map pbb_bytes (rir_keys pb)"
    using riak_2i_response_decode_ok [where unpack = unpack and d = d, OF g xs u w lim fin] by auto
  with riak_2i_response_freed [OF cfg_grants_ok [OF g] m d(2,3)] show ?thesis by auto
qed

text \<open>A reply with results is refused: each result that can be copied counts as an error.\<close>

lemma riak_2i_response_decode_results:
  assumes g: "cfg_grants (rop_config rop)" and xs: "pbm_payload pbresp = Some xs"
    and u: "unpack (mem_next m) xs = Some pb" and w: "rir_n_keys pb = 0" "rir_results pb = Some q # rs" "rpp_wf q"
    and n: "unat (rir_n_results pb) = length (rir_results pb)" "length (rir_results pb) < 2 ^ 32"
    and fin: "rir_done pb = (True, True)"
  shows "\<exists>m'. riak_2i_response_decode unpack rop pbresp None d m = Some (ERIAK_OUT_OF_MEMORY, None, True, m')"
proof -
  let ?cfg = "rop_config rop" and ?u = "mem_next m" and ?z = "Suc (mem_next m)"
    and ?q = "Suc (Suc (mem_next m))" and ?m3 = "mem_push (mem_push (mem_push m))"
  let ?r = "(index_zero ?z)\<lparr>i2_internal := Some \<lparr>pa_addr = ?q, pa_cells = [Some (?u, pb)]\<rparr>, i2_n_responses := 1\<rparr>"
  let ?n = "ucast (rir_n_results pb) :: u32"
  have un: "unat ?n = Suc (length rs)"
    using n w(2) by (simp add: unsigned_ucast_eq take_bit_nat_eq_self)
  obtain p m5 where p: "riak_pairs_copy_from_pb ?cfg q (mem_push (mem_push ?m3)) = (ERIAK_OK, Some p, m5)"
    "mem_allocs (mem_push (mem_push ?m3)) (pair_owned p) m5"
    using riak_pairs_copy_from_pb_ok [OF g w(3)] by blast
  have "mem_next (mem_push ?m3) \<in> mem_live m5" using mem_allocs_live [OF p(2)] by simp
  then have "\<exists>r m'. index_assemble ?cfg ?r ?m3 = Some (False, r, m')"
    using w p(1) un g
    by (simp add: index_assemble_def index_zero_def clean_allocate_eq allocate_granted [OF g] Let_def
        riak_free_ptrs mem_free_def)
  then obtain r m' where "index_assemble ?cfg ?r ?m3 = Some (False, r, m')" by blast
  then show ?thesis
    by (simp add: riak_2i_response_decode_def riak_operation_get_config_def xs u pb_unpack_def
        clean_allocate_eq allocate_granted [OF g] index_append_first [OF g fin] kept_def)
qed

subsection \<open>What is sent\<close>

definition riq_empty :: "rpb_index_req \<Rightarrow> bool" where
  "riq_empty msg \<longleftrightarrow> \<not> fst (riq_key msg) \<and> \<not> fst (riq_range_min msg) \<and> \<not> fst (riq_range_max msg) \<and>
     \<not> fst (riq_return_terms msg) \<and> \<not> fst (riq_stream msg) \<and> \<not> fst (riq_max_results msg) \<and>
     \<not> fst (riq_continuation msg) \<and> \<not> fst (riq_timeout msg) \<and> \<not> fst (riq_type msg) \<and>
     \<not> fst (riq_term_regex msg) \<and> \<not> fst (riq_pagination_sort msg)"

definition i2o_wf :: "riak_2i_options \<Rightarrow> bool" where
  "i2o_wf opt \<longleftrightarrow> list_all (\<lambda>f. fst f \<longrightarrow> ptr_wf (snd f))
     [i2o_key opt, i2o_range_min opt, i2o_range_max opt, i2o_continuation opt, i2o_type opt, i2o_term_regex opt]"

text \<open>
  The message asks for what the options ask for, of the bucket type that goes with them: with
  options it is theirs, whatever type the call was given.
\<close>

definition index_says :: "riak_binary option \<Rightarrow> riak_2i_options option \<Rightarrow> rpb_index_req \<Rightarrow> bool" where
  "index_says bucket_type options msg \<longleftrightarrow>
     (case options of
        None \<Rightarrow> riq_empty (msg\<lparr>riq_type := (False, snd (riq_type msg))\<rparr>) \<and>
          map_option pbb_bytes (field_opt (riq_type msg)) = map_option bin_bytes bucket_type
      | Some opt \<Rightarrow>
          riq_range msg = i2o_range opt \<and> same_binary (riq_key msg) (i2o_key opt) \<and>
          same_binary (riq_range_min msg) (i2o_range_min opt) \<and> same_binary (riq_range_max msg) (i2o_range_max opt) \<and>
          same_binary (riq_continuation msg) (i2o_continuation opt) \<and> same_binary (riq_type msg) (i2o_type opt) \<and>
          same_binary (riq_term_regex msg) (i2o_term_regex opt) \<and> riq_return_terms msg = i2o_return_terms opt \<and>
          riq_stream msg = i2o_stream opt \<and> riq_max_results msg = i2o_max_results opt \<and>
          riq_timeout msg = i2o_timeout opt \<and> riq_pagination_sort msg = i2o_pagination_sort opt)"

lemma flag_to_pb_ok:
  assumes "fst src \<longrightarrow> ptr_wf (snd src)"
  shows "\<exists>f. flag_to_pb src to = Some f \<and> same_binary f src"
proof (cases "fst src")
  case True
  then obtain b where "riak_binary_copy_to_pb (snd src) = Some b" "pbb_bytes b = ptr_bytes (snd src)"
    using copy_to_pb_ok [of "snd src"] assms by blast
  then show ?thesis using True by (intro exI [of _ "(True, b)"]) (simp add: flag_to_pb_def same_binary_def field_opt_def)
qed (simp add: flag_to_pb_def same_binary_def field_opt_def)

lemma index_options_to_pb_ok:
  assumes "pred_option i2o_wf options" "riq_empty (msg\<lparr>riq_type := (False, snd (riq_type msg))\<rparr>)"
    and "map_option pbb_bytes (field_opt (riq_type msg)) = map_option bin_bytes bucket_type"
  shows "\<exists>msg'. index_options_to_pb options msg = Some msg' \<and> index_says bucket_type options msg' \<and>
    riq_bucket msg' = riq_bucket msg \<and> riq_index msg' = riq_index msg"
proof (cases options)
  case None
  with assms show ?thesis by (simp add: index_options_to_pb_def index_says_def)
next
  case (Some opt)
  with assms(1) have w: "fst (i2o_key opt) \<longrightarrow> ptr_wf (snd (i2o_key opt))"
    "fst (i2o_range_min opt) \<longrightarrow> ptr_wf (snd (i2o_range_min opt))"
    "fst (i2o_range_max opt) \<longrightarrow> ptr_wf (snd (i2o_range_max opt))"
    "fst (i2o_continuation opt) \<longrightarrow> ptr_wf (snd (i2o_continuation opt))"
    "fst (i2o_type opt) \<longrightarrow> ptr_wf (snd (i2o_type opt))"
    "fst (i2o_term_regex opt) \<longrightarrow> ptr_wf (snd (i2o_term_regex opt))"
    by (simp_all add: i2o_wf_def)
  obtain k where k: "flag_to_pb (i2o_key opt) (riq_key msg) = Some k" "same_binary k (i2o_key opt)"
    using flag_to_pb_ok [OF w(1)] by blast
  obtain a where a: "flag_to_pb (i2o_range_min opt) (riq_range_min msg) = Some a" "same_binary a (i2o_range_min opt)"
    using flag_to_pb_ok [OF w(2)] by blast
  obtain b where b: "flag_to_pb (i2o_range_max opt) (riq_range_max msg) = Some b" "same_binary b (i2o_range_max opt)"
    using flag_to_pb_ok [OF w(3)] by blast
  obtain c where c: "flag_to_pb (i2o_continuation opt) (riq_continuation msg) = Some c" "same_binary c (i2o_continuation opt)"
    using flag_to_pb_ok [OF w(4)] by blast
  obtain t where t: "flag_to_pb (i2o_type opt) (riq_type msg) = Some t" "same_binary t (i2o_type opt)"
    using flag_to_pb_ok [OF w(5)] by blast
  obtain x where x: "flag_to_pb (i2o_term_regex opt) (riq_term_regex msg) = Some x" "same_binary x (i2o_term_regex opt)"
    using flag_to_pb_ok [OF w(6)] by blast
  show ?thesis using k a b c t x by (simp add: index_options_to_pb_def index_says_def Some)
qed

lemma riak_2i_request_sends:
  assumes g: "cfg_grants (rop_config rop)" and m: "mem_wf m" and ini: "riq_empty (pb_init api)"
    and wf: "pred_option bin_wf bucket_type" "bin_wf b" "bin_wf i" "pred_option i2o_wf options"
  shows "\<exists>msg rop' m'. pbb_bytes (riq_bucket msg) = bin_bytes b \<and> pbb_bytes (riq_index msg) = bin_bytes i \<and>
    index_says bucket_type options msg \<and> rop_config rop' = rop_config rop \<and> req_key rop' = req_key rop \<and>
    mem_allocs m (bin.owned_p (req_bucket_type rop') @ bin.owned_p (req_bucket rop') @
      bin.owned_p (req_index rop')) m' \<and>
    (packs api msg \<longrightarrow> sends MSG_RPBINDEXREQ (pb_pack api msg) decoder rop' m'
       (riak_2i_request_encode api decoder rop bucket_type (Some b) (Some i) options m))"
proof -
  obtain t1 m1 where c1: "riak_binary_copy (rop_config rop) bucket_type m = Some (t1, m1)"
    "mem_allocs m (bin.owned_p t1) m1"
    using riak_binary_copy_ok [OF g wf(1)] by blast
  obtain b1 m2 where c2: "riak_binary_copy (rop_config rop) (Some b) m1 = Some (b1, m2)"
    "mem_allocs m1 (bin.owned_p b1) m2"
    using riak_binary_copy_ok [OF g, of "Some b" m1] wf(2) by (simp only: option.pred_inject option.map) blast
  obtain i1 m3 where c3: "riak_binary_copy (rop_config rop) (Some i) m2 = Some (i1, m3)"
    "mem_allocs m2 (bin.owned_p i1) m3"
    using riak_binary_copy_ok [OF g, of "Some i" m2] wf(3) by (simp only: option.pred_inject option.map) blast
  note al = mem_allocs_trans [OF mem_allocs_trans [OF c1(2) c2(2)] c3(2)]
  obtain ty where t: "given_to_pb bucket_type (riq_type (pb_init api)) = Some ty"
    "map_option pbb_bytes (field_opt ty) = map_option bin_bytes bucket_type"
    using given_to_pb_ok [of bucket_type "riq_type (pb_init api)"] wf(1) ini by (auto simp: riq_empty_def)
  obtain b' i' where bi: "riak_binary_copy_to_pb (Some b) = Some b'" "pbb_bytes b' = bin_bytes b"
    "riak_binary_copy_to_pb (Some i) = Some i'" "pbb_bytes i' = bin_bytes i"
    using copy_to_pb_ok [of "Some b"] copy_to_pb_ok [of "Some i"] wf(2,3) by (auto simp: ptr_wf_def ptr_bytes_def)
  obtain msg where o: "index_options_to_pb options ((pb_init api)\<lparr>riq_bucket := b', riq_index := i', riq_type := ty\<rparr>) =
      Some msg" "index_says bucket_type options msg" "riq_bucket msg = b'" "riq_index msg = i'"
    using index_options_to_pb_ok [OF wf(4), where msg = "(pb_init api)\<lparr>riq_bucket := b', riq_index := i', riq_type := ty\<rparr>"
        and bucket_type = bucket_type] ini t(2) by (auto simp: riq_empty_def)
  let ?rop = "rop\<lparr>req_bucket_type := t1, req_bucket := b1, req_index := i1\<rparr>"
  have g': "cfg_grants (rop_config ?rop)" using g by simp
  have "packs api msg \<Longrightarrow> sends MSG_RPBINDEXREQ (pb_pack api msg) decoder ?rop m3
      (riak_2i_request_encode api decoder rop bucket_type (Some b) (Some i) options m)"
    using send_clean_allocate [OF g' _ mem_allocs_wf [OF al m]]
    by (simp add: riak_2i_request_encode_def riak_operation_set_bucket_type_def
        riak_operation_set_bucket_def riak_operation_set_index_def c1(1) c2(1) c3(1) bi t o)
  with al bi o show ?thesis by (intro exI [of _ msg] exI [of _ ?rop] exI [of _ m3]) simp
qed

subsection \<open>The type of the options\<close>

lemma index_options_drop_type:
  assumes "index_options_to_pb (Some opt) msg = Some msg'" "\<not> fst (i2o_type opt)"
  shows "\<not> fst (riq_type msg')"
  using assms by (auto simp: index_options_to_pb_def flag_to_pb_def split: bind_splits)

end
