(* ===== verification/Riak_Search.thy ===== *)
theory Riak_Search
  imports Riak_Stream
begin

text \<open>
  Search queries (\<^verbatim>\<open>src/messages/riak_search.c\<close>): options, request, and the response with its
  documents. \<open>'f\<close> is the type of the scores.
\<close>

subsection \<open>Options\<close>

record riak_search_options =
  so_at :: addr
  so_n_fl :: u64
  so_fl :: "riak_binary parray option"
  so_rows :: "u32 field"
  so_start :: "u32 field"
  so_sort :: "riak_binary option field"
  so_filter :: "riak_binary option field"
  so_df :: "riak_binary option field"
  so_op :: "riak_binary option field"
  so_presort :: "riak_binary option field"

definition search_options_zero :: "addr \<Rightarrow> riak_search_options" where
  "search_options_zero a =
     \<lparr>so_at = a, so_n_fl = 0, so_fl = None, so_rows = (False, 0), so_start = (False, 0),
      so_sort = (False, None), so_filter = (False, None), so_df = (False, None),
      so_op = (False, None), so_presort = (False, None)\<rparr>"

definition riak_search_options_new :: "riak_config option \<Rightarrow> mem \<Rightarrow> riak_search_options option \<times> mem" where
  "riak_search_options_new cfg m =
     (let (p, m) = riak_config_clean_allocate cfg (SizeOf ''riak_search_options'' 1) m
      in (map_option search_options_zero p, m))"

definition riak_search_options_free ::
  "riak_config option \<Rightarrow> riak_search_options option \<Rightarrow> mem \<Rightarrow> mem option"
where
  "riak_search_options_free cfg options m =
     do { opt \<leftarrow> options;
          m \<leftarrow> riak_binary_free cfg (snd (so_sort opt)) m;
          m \<leftarrow> riak_binary_free cfg (snd (so_filter opt)) m;
          m \<leftarrow> riak_binary_free cfg (snd (so_df opt)) m;
          m \<leftarrow> riak_binary_free cfg (snd (so_op opt)) m;
          m \<leftarrow> riak_binary_free cfg (snd (so_presort opt)) m;
          m \<leftarrow> free_each (riak_binary_free cfg) (pa_list (so_fl opt)) (unat (so_n_fl opt)) m;
          m \<leftarrow> riak_free cfg (map_option pa_addr (so_fl opt)) m;
          riak_free cfg (Some (so_at opt)) m }"

definition riak_search_options_get_has_rows :: "riak_search_options \<Rightarrow> bool" where
  "riak_search_options_get_has_rows opt = fst (so_rows opt)"

definition riak_search_options_get_rows :: "riak_search_options \<Rightarrow> u32" where
  "riak_search_options_get_rows opt = snd (so_rows opt)"

definition riak_search_options_get_has_start :: "riak_search_options \<Rightarrow> bool" where
  "riak_search_options_get_has_start opt = fst (so_start opt)"

definition riak_search_options_get_start :: "riak_search_options \<Rightarrow> u32" where
  "riak_search_options_get_start opt = snd (so_start opt)"

definition riak_search_options_get_has_sort :: "riak_search_options \<Rightarrow> bool" where
  "riak_search_options_get_has_sort opt = fst (so_sort opt)"

definition riak_search_options_get_sort :: "riak_search_options \<Rightarrow> riak_binary option" where
  "riak_search_options_get_sort opt = snd (so_sort opt)"

definition riak_search_options_get_has_filter :: "riak_search_options \<Rightarrow> bool" where
  "riak_search_options_get_has_filter opt = fst (so_filter opt)"

definition riak_search_options_get_filter :: "riak_search_options \<Rightarrow> riak_binary option" where
  "riak_search_options_get_filter opt = snd (so_filter opt)"

definition riak_search_options_get_has_df :: "riak_search_options \<Rightarrow> bool" where
  "riak_search_options_get_has_df opt = fst (so_df opt)"

definition riak_search_options_get_df :: "riak_search_options \<Rightarrow> riak_binary option" where
  "riak_search_options_get_df opt = snd (so_df opt)"

definition riak_search_options_get_has_op :: "riak_search_options \<Rightarrow> bool" where
  "riak_search_options_get_has_op opt = fst (so_op opt)"

definition riak_search_options_get_op :: "riak_search_options \<Rightarrow> riak_binary option" where
  "riak_search_options_get_op opt = snd (so_op opt)"

definition riak_search_options_get_has_presort :: "riak_search_options \<Rightarrow> bool" where
  "riak_search_options_get_has_presort opt = fst (so_presort opt)"

definition riak_search_options_get_presort :: "riak_search_options \<Rightarrow> riak_binary option" where
  "riak_search_options_get_presort opt = snd (so_presort opt)"

definition riak_search_options_get_n_fl :: "riak_search_options \<Rightarrow> u64" where
  "riak_search_options_get_n_fl opt = so_n_fl opt"

definition riak_search_options_get_fl :: "riak_search_options \<Rightarrow> riak_binary parray option" where
  "riak_search_options_get_fl opt = so_fl opt"

text \<open>A setter frees the structure of the previous value, not its bytes.\<close>

definition riak_search_options_set_rows :: "riak_search_options \<Rightarrow> u32 \<Rightarrow> riak_search_options" where
  "riak_search_options_set_rows opt v = opt\<lparr>so_rows := (True, v)\<rparr>"

definition riak_search_options_set_start :: "riak_search_options \<Rightarrow> u32 \<Rightarrow> riak_search_options" where
  "riak_search_options_set_start opt v = opt\<lparr>so_start := (True, v)\<rparr>"

definition riak_search_options_set_sort ::
  "riak_config option \<Rightarrow> riak_search_options \<Rightarrow> riak_binary option \<Rightarrow> mem \<Rightarrow>
   (riak_error \<times> riak_search_options \<times> mem) option"
where
  "riak_search_options_set_sort cfg opt v m =
     do { m \<leftarrow> (if snd (so_sort opt) \<noteq> None then riak_free cfg (map_option bin_at (snd (so_sort opt))) m else Some m);
          (b, m) \<leftarrow> riak_binary_copy cfg v m;
          Some (if b = None then ERIAK_OUT_OF_MEMORY else ERIAK_OK, opt\<lparr>so_sort := (True, b)\<rparr>, m) }"

definition riak_search_options_set_filter ::
  "riak_config option \<Rightarrow> riak_search_options \<Rightarrow> riak_binary option \<Rightarrow> mem \<Rightarrow>
   (riak_error \<times> riak_search_options \<times> mem) option"
where
  "riak_search_options_set_filter cfg opt v m =
     do { m \<leftarrow> (if snd (so_filter opt) \<noteq> None then riak_free cfg (map_option bin_at (snd (so_filter opt))) m else Some m);
          (b, m) \<leftarrow> riak_binary_copy cfg v m;
          Some (if b = None then ERIAK_OUT_OF_MEMORY else ERIAK_OK, opt\<lparr>so_filter := (True, b)\<rparr>, m) }"

definition riak_search_options_set_df ::
  "riak_config option \<Rightarrow> riak_search_options \<Rightarrow> riak_binary option \<Rightarrow> mem \<Rightarrow>
   (riak_error \<times> riak_search_options \<times> mem) option"
where
  "riak_search_options_set_df cfg opt v m =
     do { m \<leftarrow> (if snd (so_df opt) \<noteq> None then riak_free cfg (map_option bin_at (snd (so_df opt))) m else Some m);
          (b, m) \<leftarrow> riak_binary_copy cfg v m;
          Some (if b = None then ERIAK_OUT_OF_MEMORY else ERIAK_OK, opt\<lparr>so_df := (True, b)\<rparr>, m) }"

definition riak_search_options_set_op ::
  "riak_config option \<Rightarrow> riak_search_options \<Rightarrow> riak_binary option \<Rightarrow> mem \<Rightarrow>
   (riak_error \<times> riak_search_options \<times> mem) option"
where
  "riak_search_options_set_op cfg opt v m =
     do { m \<leftarrow> (if snd (so_op opt) \<noteq> None then riak_free cfg (map_option bin_at (snd (so_op opt))) m else Some m);
          (b, m) \<leftarrow> riak_binary_copy cfg v m;
          Some (if b = None then ERIAK_OUT_OF_MEMORY else ERIAK_OK, opt\<lparr>so_op := (True, b)\<rparr>, m) }"

definition riak_search_options_set_presort ::
  "riak_config option \<Rightarrow> riak_search_options \<Rightarrow> riak_binary option \<Rightarrow> mem \<Rightarrow>
   (riak_error \<times> riak_search_options \<times> mem) option"
where
  "riak_search_options_set_presort cfg opt v m =
     do { m \<leftarrow> (if snd (so_presort opt) \<noteq> None then riak_free cfg (map_option bin_at (snd (so_presort opt))) m else Some m);
          (b, m) \<leftarrow> riak_binary_copy cfg v m;
          Some (if b = None then ERIAK_OUT_OF_MEMORY else ERIAK_OK, opt\<lparr>so_presort := (True, b)\<rparr>, m) }"

text \<open>
  Adding a field to be returned. Whether the array could be enlarged is not looked at: the old
  one is still there.
\<close>

definition riak_search_options_add_fl ::
  "riak_config option \<Rightarrow> riak_search_options \<Rightarrow> riak_binary option \<Rightarrow> mem \<Rightarrow>
   (riak_error \<times> riak_search_options \<times> mem) option"
where
  "riak_search_options_add_fl cfg opt v m =
     do { (fl, m) \<leftarrow> (case so_fl opt of
                         None \<Rightarrow> (let (p, m) = riak_config_clean_allocate cfg (SizeOf ''riak_binary*'' 1) m
                                  in Some (map_option (\<lambda>a. \<lparr>pa_addr = a, pa_cells = [None]\<rparr>) p, m))
                       | Some _ \<Rightarrow> do { (_, fl, m) \<leftarrow> riak_array_realloc cfg (so_fl opt) ''riak_binary*''
                                                         (ucast (so_n_fl opt)) (ucast (so_n_fl opt + 1)) m;
                                        Some (fl, m) });
          (case fl of
             None \<Rightarrow> Some (ERIAK_OUT_OF_MEMORY, opt\<lparr>so_fl := None\<rparr>, m)
           | Some a \<Rightarrow>
               do { (b, m) \<leftarrow> riak_binary_copy cfg v m;
                    let i = unat (so_n_fl opt);
                    guard (i < length (pa_cells a));
                    let opt = opt\<lparr>so_fl := Some (a\<lparr>pa_cells := (pa_cells a)[i := b]\<rparr>)\<rparr>;
                    Some (if b = None then (ERIAK_OUT_OF_MEMORY, opt, m)
                          else (ERIAK_OK, opt\<lparr>so_n_fl := so_n_fl opt + 1\<rparr>, m)) }) }"

subsection \<open>The request\<close>

text \<open>\<open>rsq_fl\<close> is an array of structures in a block of its own.\<close>

record rpb_search_req =
  rsq_q :: pb_binary
  rsq_index :: pb_binary
  rsq_rows :: "u32 field"
  rsq_start :: "u32 field"
  rsq_sort :: "pb_binary field"
  rsq_filter :: "pb_binary field"
  rsq_df :: "pb_binary field"
  rsq_op :: "pb_binary field"
  rsq_presort :: "pb_binary field"
  rsq_n_fl :: u64
  rsq_fl :: "(addr \<times> pb_binary list) option"

definition search_options_to_pb :: "riak_search_options option \<Rightarrow> rpb_search_req \<Rightarrow> rpb_search_req option" where
  "search_options_to_pb options msg =
     (case options of
        None \<Rightarrow> Some msg
      | Some opt \<Rightarrow>
          do { sort \<leftarrow> opt_to_pb (fst (so_sort opt)) (snd (so_sort opt)) (rsq_sort msg);
               filter \<leftarrow> opt_to_pb (fst (so_filter opt)) (snd (so_filter opt)) (rsq_filter msg);
               df \<leftarrow> opt_to_pb (fst (so_df opt)) (snd (so_df opt)) (rsq_df msg);
               op \<leftarrow> opt_to_pb (fst (so_op opt)) (snd (so_op opt)) (rsq_op msg);
               presort \<leftarrow> opt_to_pb (fst (so_presort opt)) (snd (so_presort opt)) (rsq_presort msg);
               Some (msg\<lparr>rsq_rows := so_rows opt, rsq_start := so_start opt,
                         rsq_sort := sort,
                         rsq_filter := filter,
                         rsq_df := df,
                         rsq_op := op,
                         rsq_presort := presort\<rparr>) })"

fun binary_cells_to_pb :: "riak_binary option list \<Rightarrow> nat \<Rightarrow> pb_binary list option" where
  "binary_cells_to_pb cells 0 = Some []"
| "binary_cells_to_pb cells (Suc n) =
     do { guard (cells \<noteq> []);
          b \<leftarrow> riak_binary_copy_to_pb (hd cells);
          bs \<leftarrow> binary_cells_to_pb (tl cells) n;
          Some (b # bs) }"

text \<open>The names of the fields go to a new block. The result tells whether there was memory for it.\<close>

definition search_fields_to_pb ::
  "riak_config option \<Rightarrow> riak_search_options option \<Rightarrow> rpb_search_req \<Rightarrow> mem \<Rightarrow>
   (bool \<times> rpb_search_req \<times> mem) option"
where
  "search_fields_to_pb cfg options msg m =
     (case options of
        None \<Rightarrow> Some (True, msg, m)
      | Some opt \<Rightarrow>
          (if so_n_fl opt > 0
           then (let (p, m) = riak_config_clean_allocate cfg (SizeOf ''ProtobufCBinaryData'' (unat (so_n_fl opt))) m
                 in case p of
                      None \<Rightarrow> Some (False, msg, m)
                    | Some a \<Rightarrow> do { bs \<leftarrow> binary_cells_to_pb (pa_list (so_fl opt)) (unat (so_n_fl opt));
                                     Some (True, msg\<lparr>rsq_n_fl := so_n_fl opt, rsq_fl := Some (a, bs)\<rparr>, m) })
           else Some (True, msg, m)))"

definition riak_search_request_encode ::
  "rpb_search_req pb_api \<Rightarrow> 'd \<Rightarrow> ('r, 'd) riak_operation \<Rightarrow> riak_binary option \<Rightarrow> riak_binary option \<Rightarrow>
   riak_search_options option \<Rightarrow> mem \<Rightarrow> (riak_error \<times> ('r, 'd) riak_operation \<times> mem) option"
where
  "riak_search_request_encode api decoder rop bucket query search_options m =
     do { (rop, m) \<leftarrow> riak_operation_set_bucket rop bucket m;
          q \<leftarrow> riak_binary_copy_to_pb query;
          i \<leftarrow> riak_binary_copy_to_pb bucket;
          srchmsg \<leftarrow> search_options_to_pb search_options ((pb_init api)\<lparr>rsq_q := q, rsq_index := i\<rparr>);
          (ok, srchmsg, m) \<leftarrow> search_fields_to_pb (rop_config rop) search_options srchmsg m;
          (if \<not> ok then Some (ERIAK_OUT_OF_MEMORY, rop, m)
           else send_packed_then (\<lambda>sz m. Some (riak_config_clean_allocate (rop_config rop) sz m))
                  ERIAK_OUT_OF_MEMORY (riak_free (rop_config rop) (map_option fst (rsq_fl srchmsg)))
                  MSG_RPBSEARCHQUERYREQ (cut32 (pb_packed_size api srchmsg)) (pb_pack api srchmsg) decoder rop m) }"

subsection \<open>The response\<close>

record rpb_search_doc =
  rsd_n_fields :: u64
  rsd_fields :: "rpb_pair parray option"

record 'f rpb_search_resp =
  rsr_n_docs :: u64
  rsr_docs :: "rpb_search_doc option list"
  rsr_max_score :: "'f field"
  rsr_num_found :: "u32 field"

record riak_search_doc =
  sd_n_fields :: u64
  sd_fields :: "riak_pair parray option"

record 'f riak_search_response =
  sr_at :: addr
  sr_n_docs :: u64
  sr_docs :: "(addr \<times> riak_search_doc list) option"
  sr_max_score :: "'f field"
  sr_num_found :: "u32 field"
  sr_internal :: "addr option"

definition search_zero :: "'f \<Rightarrow> addr \<Rightarrow> 'f riak_search_response" where
  "search_zero z a =
     \<lparr>sr_at = a, sr_n_docs = 0, sr_docs = None, sr_max_score = (False, z), sr_num_found = (False, 0), sr_internal = None\<rparr>"

text \<open>The documents that are left stay zero when one cannot be copied.\<close>

fun search_docs_from_pb ::
  "riak_config option \<Rightarrow> rpb_search_doc option list \<Rightarrow> nat \<Rightarrow> mem \<Rightarrow>
   (riak_error \<times> riak_search_doc list \<times> mem) option"
where
  "search_docs_from_pb cfg docs 0 m = Some (ERIAK_OK, [], m)"
| "search_docs_from_pb cfg docs (Suc n) m =
     do { d \<leftarrow> pa_next docs;
          (err, fields, m) \<leftarrow> riak_pairs_copy_array_from_pb cfg (rsd_fields d) (ucast (rsd_n_fields d)) m;
          (if err \<noteq> ERIAK_OK
           then Some (err, replicate (Suc n) \<lparr>sd_n_fields = 0, sd_fields = None\<rparr>, m)
           else do { (err, ds, m) \<leftarrow> search_docs_from_pb cfg (tl docs) n m;
                     Some (err, \<lparr>sd_n_fields = rsd_n_fields d, sd_fields = fields\<rparr> # ds, m) }) }"

text \<open>
  After a failure the response was freed; \<open>*resp\<close> is what it was (a dangling pointer if there was a
  response).
\<close>

definition riak_search_response_decode ::
  "'f \<Rightarrow> (addr \<Rightarrow> bytes \<Rightarrow> 'f rpb_search_resp option) \<Rightarrow> ('r, 'd) riak_operation \<Rightarrow> riak_pb_message option \<Rightarrow>
   'f riak_search_response option \<Rightarrow> bool \<Rightarrow> mem \<Rightarrow>
   (riak_error \<times> 'f riak_search_response option \<times> bool \<times> mem) option"
where
  "riak_search_response_decode z unpack rop pbresp resp done m =
     do { let cfg = riak_operation_get_config rop;
          xs \<leftarrow> pbm_payload pbresp;
          let (u, m) = pb_unpack unpack xs m;
          (case u of
             None \<Rightarrow> Some (ERIAK_MESSAGE_FORMAT, resp, done, m)
           | Some (ua, pb) \<Rightarrow>
               (let (r, m) = (case resp of
                                Some r \<Rightarrow> (Some r, m)
                              | None \<Rightarrow> (let (p, m) = riak_config_clean_allocate cfg
                                                        (SizeOf ''riak_search_response'' 1) m
                                         in (map_option (search_zero z) p, m)))
                in case r of
                     None \<Rightarrow> Some (ERIAK_OUT_OF_MEMORY, resp, done, m)
                   | Some r \<Rightarrow>
                       do { let r = r\<lparr>sr_max_score := rsr_max_score pb, sr_num_found := rsr_num_found pb,
                                      sr_n_docs := rsr_n_docs pb\<rparr>;
                            (if rsr_n_docs pb > 0
                             then (let (p, m) = riak_config_clean_allocate cfg
                                                  (SizeOf ''riak_search_doc'' (unat (rsr_n_docs pb))) m
                                   in case p of
                                        None \<Rightarrow> do { m \<leftarrow> riak_free cfg (Some (sr_at r)) m;
                                                     Some (ERIAK_OUT_OF_MEMORY, resp, True, m) }
                                      | Some a \<Rightarrow>
                                          do { (err, ds, m) \<leftarrow> search_docs_from_pb cfg (rsr_docs pb)
                                                                 (unat (rsr_n_docs pb)) m;
                                               (if err \<noteq> ERIAK_OK
                                                then do { m \<leftarrow> riak_free cfg (Some a) m;
                                                          m \<leftarrow> riak_free cfg (Some (sr_at r)) m;
                                                          Some (err, resp, True, m) }
                                                else Some (ERIAK_OK, Some (r\<lparr>sr_docs := Some (a, ds),
                                                             sr_internal := Some ua\<rparr>), True, m)) })
                             else Some (ERIAK_OK, Some (r\<lparr>sr_internal := Some ua\<rparr>), True, m)) })) }"

fun search_docs_print :: "riak_search_doc list \<Rightarrow> nat \<Rightarrow> nat \<Rightarrow> printer" where
  "search_docs_print ds i 0 st = Some (0, st)"
| "search_docs_print ds i (Suc n) st =
     (if sint (riak_print_len st) > 0
      then do { guard (ds \<noteq> []);
                let d = hd ds;
                (w, st) \<leftarrow> print_seq
                  [\<lambda>st. riak_print_label_int st (str ''Document'') (of_nat i),
                   \<lambda>st. riak_print_label_int st (str ''n_fields'') (ucast (sd_n_fields d)),
                   \<lambda>st. riak_pairs_print st (sd_fields d) (ucast (sd_n_fields d))] st;
                (ws, st) \<leftarrow> search_docs_print (tl ds) (Suc i) n st;
                Some (w + ws, st) }
      else Some (0, st))"

definition riak_search_response_print ::
  "('f \<Rightarrow> bytes) \<Rightarrow> riak_print_state \<Rightarrow> 'f riak_search_response \<Rightarrow> (i32 \<times> riak_print_state) option"
where
  "riak_search_response_print fmt st r =
     print_seq
       [\<lambda>st. riak_print_label_bool st (str ''has_max_score'') (fst (sr_max_score r)),
        \<lambda>st. riak_print_label_float fmt st (str ''max_score'') (snd (sr_max_score r)),
        \<lambda>st. riak_print_label_bool st (str ''has_num_found'') (fst (sr_num_found r)),
        \<lambda>st. riak_print_label_int st (str ''num_found'') (snd (sr_num_found r)),
        \<lambda>st. riak_print_label_int st (str ''n_docs'') (ucast (sr_n_docs r)),
        print_when (sr_docs r \<noteq> None)
          (search_docs_print (case sr_docs r of None \<Rightarrow> [] | Some (_, ds) \<Rightarrow> ds) 0 (unat (sr_n_docs r)))] st"

fun search_docs_free :: "riak_config option \<Rightarrow> riak_search_doc list \<Rightarrow> nat \<Rightarrow> mem \<Rightarrow> mem option" where
  "search_docs_free cfg ds 0 m = Some m"
| "search_docs_free cfg ds (Suc n) m =
     do { guard (ds \<noteq> []);
          m \<leftarrow> riak_pairs_free cfg (sd_fields (hd ds)) (ucast (sd_n_fields (hd ds))) m;
          search_docs_free cfg (tl ds) n m }"

definition riak_search_response_free ::
  "riak_config option \<Rightarrow> 'f riak_search_response option \<Rightarrow> mem \<Rightarrow> mem option"
where
  "riak_search_response_free cfg resp m =
     (case resp of
        None \<Rightarrow> Some m
      | Some r \<Rightarrow>
          do { m \<leftarrow> search_docs_free cfg (case sr_docs r of None \<Rightarrow> [] | Some (_, ds) \<Rightarrow> ds) (unat (sr_n_docs r)) m;
               m \<leftarrow> riak_free cfg (map_option fst (sr_docs r)) m;
               m \<leftarrow> pb_free_unpacked (sr_internal r) m;
               riak_free cfg (Some (sr_at r)) m })"

definition riak_search_get_n_docs :: "'f riak_search_response \<Rightarrow> u64" where
  "riak_search_get_n_docs response = sr_n_docs response"

definition riak_search_get_doc :: "'f riak_search_response \<Rightarrow> u32 \<Rightarrow> riak_search_doc option option" where
  "riak_search_get_doc response n =
     (if sr_n_docs response \<le> ucast n then Some None
      else do { (_, ds) \<leftarrow> sr_docs response;
                guard (unat n < length ds);
                Some (Some (ds ! unat n)) })"

definition riak_search_get_has_max_score :: "'f riak_search_response \<Rightarrow> bool" where
  "riak_search_get_has_max_score response = fst (sr_max_score response)"

definition riak_search_get_max_score :: "'f riak_search_response \<Rightarrow> 'f" where
  "riak_search_get_max_score response = snd (sr_max_score response)"

definition riak_search_get_has_num_found :: "'f riak_search_response \<Rightarrow> bool" where
  "riak_search_get_has_num_found response = fst (sr_num_found response)"

definition riak_search_get_num_found :: "'f riak_search_response \<Rightarrow> u32" where
  "riak_search_get_num_found response = snd (sr_num_found response)"

definition riak_search_doc_get_n_fields :: "riak_search_doc \<Rightarrow> u64" where
  "riak_search_doc_get_n_fields doc = sd_n_fields doc"

definition riak_search_doc_get_field :: "riak_search_doc \<Rightarrow> u32 \<Rightarrow> riak_pair option option" where
  "riak_search_doc_get_field doc n =
     (if sd_n_fields doc \<le> ucast n then Some None
      else do { a \<leftarrow> sd_fields doc;
                guard (unat n < length (pa_cells a));
                Some (pa_cells a ! unat n) })"

subsection \<open>Documents\<close>

lemma pairs_array_from_pb_ok:
  assumes g: "cfg_grants cfg" and w: "arr_ok p (unat k)" "unat (k :: u64) < 2 ^ 31" "list_all rpp_wf (arr_elems p (unat k))"
  shows "\<exists>q m'. riak_pairs_copy_array_from_pb cfg p (ucast k) m = Some (ERIAK_OK, q, m') \<and>
    arr_ok q (unat k) \<and> map pair_content (arr_elems q (unat k)) = map rpp_content (arr_elems p (unat k)) \<and>
    mem_allocs m (arr_owned pair_owned q (unat k)) m'"
proof (cases "0 < k")
  case True
  with riak_pairs_copy_array_from_pb_ok [OF g w(1,2) _ w(3)] show ?thesis
    by (fastforce simp: copies_def)
next
  case False
  then have k: "k = 0" by (simp add: word_gt_0)
  show ?thesis
    by (auto simp: k riak_pairs_copy_array_from_pb_def clean_allocate_eq allocate_granted [OF g] arr_ok_def
        arr_elems_def arr_owned_def)
qed

definition rsd_wf :: "rpb_search_doc \<Rightarrow> bool" where
  "rsd_wf d \<longleftrightarrow> arr_ok (rsd_fields d) (unat (rsd_n_fields d)) \<and> unat (rsd_n_fields d) < 2 ^ 31 \<and>
     list_all rpp_wf (arr_elems (rsd_fields d) (unat (rsd_n_fields d)))"

definition rsd_content :: "rpb_search_doc \<Rightarrow> (bytes \<times> bytes option) list" where
  "rsd_content d = map rpp_content (arr_elems (rsd_fields d) (unat (rsd_n_fields d)))"

definition sd_ok :: "riak_search_doc \<Rightarrow> bool" where
  "sd_ok d \<longleftrightarrow> arr_ok (sd_fields d) (unat (sd_n_fields d)) \<and> unat (sd_n_fields d) < 2 ^ 31"

definition sd_content :: "riak_search_doc \<Rightarrow> (bytes \<times> bytes option) list" where
  "sd_content d = map pair_content (arr_elems (sd_fields d) (unat (sd_n_fields d)))"

definition sd_owned :: "riak_search_doc \<Rightarrow> addr list" where
  "sd_owned d = arr_owned pair_owned (sd_fields d) (unat (sd_n_fields d))"

lemma search_docs_from_pb_ok:
  assumes g: "cfg_grants cfg"
  shows "list_all rsd_wf rds \<Longrightarrow> \<exists>ds m'. search_docs_from_pb cfg (map Some rds @ rest) (length rds) m = Some (ERIAK_OK, ds, m') \<and>
    length ds = length rds \<and> list_all sd_ok ds \<and> map sd_content ds = map rsd_content rds \<and>
    mem_allocs m (concat (map sd_owned ds)) m'"
proof (induction rds arbitrary: m)
  case (Cons d rds)
  obtain q m1 where q: "riak_pairs_copy_array_from_pb cfg (rsd_fields d) (ucast (rsd_n_fields d)) m = Some (ERIAK_OK, q, m1)"
    "arr_ok q (unat (rsd_n_fields d))" "mem_allocs m (arr_owned pair_owned q (unat (rsd_n_fields d))) m1"
    "map pair_content (arr_elems q (unat (rsd_n_fields d))) = rsd_content d"
    using pairs_array_from_pb_ok [OF g, of "rsd_fields d" "rsd_n_fields d" m] Cons.prems
    by (auto simp: rsd_wf_def rsd_content_def)
  obtain ds m2 where ds: "search_docs_from_pb cfg (map Some rds @ rest) (length rds) m1 = Some (ERIAK_OK, ds, m2)"
    "length ds = length rds" "list_all sd_ok ds" "map sd_content ds = map rsd_content rds"
    "mem_allocs m1 (concat (map sd_owned ds)) m2"
    using Cons.IH [of m1] Cons.prems by auto
  let ?d = "\<lparr>sd_n_fields = rsd_n_fields d, sd_fields = q\<rparr>"
  have "mem_allocs m (concat (map sd_owned (?d # ds))) m2"
    using mem_allocs_trans [OF q(3) ds(5)] by (simp add: sd_owned_def)
  moreover have "sd_ok ?d" "sd_content ?d = rsd_content d"
    using q(2,4) Cons.prems by (simp_all add: sd_ok_def sd_content_def rsd_wf_def)
  ultimately show ?case using q(1) ds(1-4) by (intro exI [of _ "?d # ds"] exI [of _ m2]) simp
qed simp

lemma search_docs_free_owned:
  assumes "cfg_ok cfg"
  shows "list_all sd_ok ds \<Longrightarrow> n = length ds \<Longrightarrow> search_docs_free cfg ds n m = mem_free_all (concat (map sd_owned ds)) m"
proof (induction ds arbitrary: n m)
  case (Cons d ds)
  then have IH: "search_docs_free cfg ds (length ds) = mem_free_all (concat (map sd_owned ds))"
    by (intro ext) simp
  have "int_count (ucast (sd_n_fields d)) = unat (sd_n_fields d)"
    using Cons.prems by (intro ucast_count) (simp add: sd_ok_def)
  then have "riak_pairs_free cfg (sd_fields d) (ucast (sd_n_fields d)) m = mem_free_all (sd_owned d) m"
    using riak_pairs_free_owned [OF assms, of "sd_fields d" "ucast (sd_n_fields d)" m] Cons.prems
    by (simp add: sd_ok_def sd_owned_def)
  with IH Cons.prems show ?case by simp
qed simp

subsection \<open>What is received\<close>

definition sr_ok :: "'f riak_search_response \<Rightarrow> bool" where
  "sr_ok r \<longleftrightarrow> (case sr_docs r of None \<Rightarrow> sr_n_docs r = 0
     | Some (_, ds) \<Rightarrow> length ds = unat (sr_n_docs r) \<and> list_all sd_ok ds)"

definition sr_owned :: "'f riak_search_response \<Rightarrow> addr list" where
  "sr_owned r = (case sr_docs r of None \<Rightarrow> [] | Some (a, ds) \<Rightarrow> concat (map sd_owned ds) @ [a]) @
     ptrs (sr_internal r) @ [sr_at r]"

interpretation sr: owned_ptr sr_ok sr_owned riak_search_response_free
proof
  fix cfg and r :: "'f riak_search_response" and m
  assume "cfg_ok cfg" "sr_ok r"
  then show "riak_search_response_free cfg (Some r) m = mem_free_all (sr_owned r) m"
    by (auto simp: riak_search_response_free_def sr_ok_def sr_owned_def mem_simps search_docs_free_owned
        mem_free_all_Cons split: option.splits)
qed (simp add: riak_search_response_free_def)

definition sr_contents :: "'f riak_search_response \<Rightarrow> (bytes \<times> bytes option) list list" where
  "sr_contents r = (case sr_docs r of None \<Rightarrow> [] | Some (_, ds) \<Rightarrow> map sd_content ds)"

lemma riak_search_response_decode_ok:
  assumes g: "cfg_grants (rop_config rop)" and xs: "pbm_payload pbresp = Some xs"
    and u: "unpack (mem_next m) xs = Some pb"
    and w: "rsr_docs pb = map Some rds" "length rds = unat (rsr_n_docs pb)" "list_all rsd_wf rds"
  shows "\<exists>r m'. riak_search_response_decode z unpack rop pbresp None d m = Some (ERIAK_OK, Some r, True, m') \<and>
    sr_ok r \<and> mem_allocs m (sr_owned r) m' \<and> riak_search_get_n_docs r = rsr_n_docs pb \<and>
    sr_contents r = map rsd_content rds \<and> sr_max_score r = rsr_max_score pb \<and> sr_num_found r = rsr_num_found pb"
proof (cases "rsr_n_docs pb > 0")
  case False
  then have "rsr_n_docs pb = 0" "rds = []" using w(2) by (simp_all add: word_gt_0)
  then show ?thesis
    by (auto simp: riak_search_response_decode_def riak_operation_get_config_def xs u pb_unpack_def
        clean_allocate_eq allocate_granted [OF g] search_zero_def sr_ok_def sr_owned_def sr_contents_def
        riak_search_get_n_docs_def mem_allocs_def)
next
  case True
  let ?m3 = "mem_push (mem_push (mem_push m))"
  obtain ds m4 where ds: "search_docs_from_pb (rop_config rop) (map Some rds) (length rds) ?m3 = Some (ERIAK_OK, ds, m4)"
    "length ds = length rds" "list_all sd_ok ds" "map sd_content ds = map rsd_content rds"
    "mem_allocs ?m3 (concat (map sd_owned ds)) m4"
    using search_docs_from_pb_ok [OF g w(3), of "[]" ?m3] by auto
  let ?a = "Suc (Suc (mem_next m))"
  let ?r = "(search_zero z (Suc (mem_next m)))\<lparr>sr_max_score := rsr_max_score pb, sr_num_found := rsr_num_found pb,
    sr_n_docs := rsr_n_docs pb, sr_docs := Some (?a, ds), sr_internal := Some (mem_next m)\<rparr>"
  have "mem_allocs m [mem_next m, Suc (mem_next m), ?a] ?m3" by (auto simp: mem_allocs_def)
  from mem_allocs_trans [OF this ds(5)]
  have "mem_allocs m (sr_owned ?r) m4" by (rule mem_allocs_mset) (simp add: sr_owned_def search_zero_def)
  moreover have "riak_search_response_decode z unpack rop pbresp None d m = Some (ERIAK_OK, Some ?r, True, m4)"
    using True ds(1) w(2)
    by (simp add: riak_search_response_decode_def riak_operation_get_config_def xs u pb_unpack_def
        clean_allocate_eq allocate_granted [OF g] w(1))
  ultimately show ?thesis
    using ds(2-4) w(2) by (intro exI [of _ ?r] exI [of _ m4])
      (simp add: sr_ok_def sr_contents_def riak_search_get_n_docs_def)
qed

subsection \<open>What is sent\<close>

definition rsq_empty :: "rpb_search_req \<Rightarrow> bool" where
  "rsq_empty msg \<longleftrightarrow> \<not> fst (rsq_rows msg) \<and> \<not> fst (rsq_start msg) \<and> \<not> fst (rsq_sort msg) \<and>
     \<not> fst (rsq_filter msg) \<and> \<not> fst (rsq_df msg) \<and> \<not> fst (rsq_op msg) \<and> \<not> fst (rsq_presort msg) \<and>
     rsq_n_fl msg = 0 \<and> rsq_fl msg = None"

definition so_wf :: "riak_search_options \<Rightarrow> bool" where
  "so_wf opt \<longleftrightarrow> list_all (\<lambda>f. fst f \<longrightarrow> ptr_wf (snd f)) [so_sort opt, so_filter opt, so_df opt, so_op opt, so_presort opt] \<and>
     arr_ok (so_fl opt) (unat (so_n_fl opt)) \<and> list_all bin_wf (arr_elems (so_fl opt) (unat (so_n_fl opt)))"

definition search_says :: "riak_search_options option \<Rightarrow> rpb_search_req \<Rightarrow> bool" where
  "search_says options msg \<longleftrightarrow>
     (case options of
        None \<Rightarrow> rsq_empty msg
      | Some opt \<Rightarrow>
          rsq_rows msg = so_rows opt \<and> rsq_start msg = so_start opt \<and> same_binary (rsq_sort msg) (so_sort opt) \<and>
          same_binary (rsq_filter msg) (so_filter opt) \<and> same_binary (rsq_df msg) (so_df opt) \<and>
          same_binary (rsq_op msg) (so_op opt) \<and> same_binary (rsq_presort msg) (so_presort opt) \<and>
          rsq_n_fl msg = so_n_fl opt \<and>
          (case rsq_fl msg of None \<Rightarrow> [] | Some (_, xs) \<Rightarrow> map pbb_bytes xs) =
            map bin_bytes (arr_elems (so_fl opt) (unat (so_n_fl opt))))"

lemma binary_cells_to_pb_ok:
  "list_all bin_wf bs \<Longrightarrow> \<exists>xs. binary_cells_to_pb (map Some bs @ rest) (length bs) = Some xs \<and>
     map pbb_bytes xs = map bin_bytes bs"
proof (induction bs)
  case (Cons b bs)
  then obtain xs x where "binary_cells_to_pb (map Some bs @ rest) (length bs) = Some xs" "map pbb_bytes xs = map bin_bytes bs"
    "riak_binary_copy_to_pb (Some b) = Some x" "pbb_bytes x = bin_bytes b"
    using copy_to_pb_ok [of "Some b"] by (auto simp: ptr_wf_def ptr_bytes_def)
  then show ?case by (intro exI [of _ "x # xs"]) simp
qed simp

lemma search_options_to_pb_ok:
  assumes "pred_option so_wf options" "rsq_empty msg"
  shows "\<exists>msg'. search_options_to_pb options msg = Some msg' \<and> rsq_q msg' = rsq_q msg \<and> rsq_index msg' = rsq_index msg \<and>
    rsq_n_fl msg' = 0 \<and> rsq_fl msg' = None \<and>
    (options = None \<longrightarrow> rsq_empty msg') \<and>
    (\<forall>opt. options = Some opt \<longrightarrow> rsq_rows msg' = so_rows opt \<and> rsq_start msg' = so_start opt \<and>
      same_binary (rsq_sort msg') (so_sort opt) \<and> same_binary (rsq_filter msg') (so_filter opt) \<and>
      same_binary (rsq_df msg') (so_df opt) \<and> same_binary (rsq_op msg') (so_op opt) \<and>
      same_binary (rsq_presort msg') (so_presort opt))"
proof (cases options)
  case None
  with assms show ?thesis by (simp add: search_options_to_pb_def rsq_empty_def)
next
  case (Some opt)
  with assms(1) have "so_wf opt" by simp
  then have w: "fst (so_sort opt) \<longrightarrow> ptr_wf (snd (so_sort opt))" "fst (so_filter opt) \<longrightarrow> ptr_wf (snd (so_filter opt))"
    "fst (so_df opt) \<longrightarrow> ptr_wf (snd (so_df opt))" "fst (so_op opt) \<longrightarrow> ptr_wf (snd (so_op opt))"
    "fst (so_presort opt) \<longrightarrow> ptr_wf (snd (so_presort opt))" by (simp_all add: so_wf_def)
  have e: "\<not> fst (rsq_sort msg)" "\<not> fst (rsq_filter msg)" "\<not> fst (rsq_df msg)" "\<not> fst (rsq_op msg)" "\<not> fst (rsq_presort msg)"
    using assms(2) by (simp_all add: rsq_empty_def)
  note o = opt_to_pb_same [OF w(1) e(1)] opt_to_pb_same [OF w(2) e(2)] opt_to_pb_same [OF w(3) e(3)]
    opt_to_pb_same [OF w(4) e(4)] opt_to_pb_same [OF w(5) e(5)]
  show ?thesis
    using o assms(2) unfolding Some by (elim exE conjE) (simp add: search_options_to_pb_def rsq_empty_def)
qed

lemma fields_unset: "rsq_n_fl msg = 0 \<Longrightarrow> rsq_fl msg = None \<Longrightarrow> msg\<lparr>rsq_n_fl := 0, rsq_fl := None\<rparr> = msg"
  by (cases msg) simp

lemma search_fields_to_pb_ok:
  assumes g: "cfg_grants cfg" and w: "pred_option so_wf options" and e: "rsq_n_fl msg = 0" "rsq_fl msg = None"
  shows "\<exists>fl n m'. search_fields_to_pb cfg options msg m = Some (True, msg\<lparr>rsq_n_fl := n, rsq_fl := fl\<rparr>, m') \<and>
    mem_allocs m (ptrs (map_option fst fl)) m' \<and>
    (options = None \<longrightarrow> fl = None \<and> n = 0) \<and>
    (\<forall>opt. options = Some opt \<longrightarrow> n = so_n_fl opt \<and>
      (case fl of None \<Rightarrow> [] | Some (_, xs) \<Rightarrow> map pbb_bytes xs) = map bin_bytes (arr_elems (so_fl opt) (unat (so_n_fl opt))))"
proof (cases options)
  case None
  then show ?thesis
    by (intro exI [of _ None] exI [of _ 0] exI [of _ m]) (simp add: search_fields_to_pb_def fields_unset [OF e])
next
  case (Some opt)
  with w have wo: "arr_ok (so_fl opt) (unat (so_n_fl opt))" "list_all bin_wf (arr_elems (so_fl opt) (unat (so_n_fl opt)))"
    by (simp_all add: so_wf_def)
  obtain rest where r: "pa_list (so_fl opt) = map Some (arr_elems (so_fl opt) (unat (so_n_fl opt))) @ rest"
    "length (arr_elems (so_fl opt) (unat (so_n_fl opt))) = unat (so_n_fl opt)"
    using arr_ok_cells [OF wo(1)] .
  obtain xs where xs: "binary_cells_to_pb (pa_list (so_fl opt)) (unat (so_n_fl opt)) = Some xs"
    "map pbb_bytes xs = map bin_bytes (arr_elems (so_fl opt) (unat (so_n_fl opt)))"
    using binary_cells_to_pb_ok [OF wo(2), of rest] unfolding r by auto
  show ?thesis
  proof (cases "so_n_fl opt > 0")
    case True
    then show ?thesis
      using xs by (intro exI [of _ "Some (mem_next m, xs)"] exI [of _ "so_n_fl opt"] exI [of _ "mem_push m"])
        (simp add: search_fields_to_pb_def Some clean_allocate_eq allocate_granted [OF g] mem_allocs_push)
  next
    case False
    then have "so_n_fl opt = 0" by (simp add: word_gt_0)
    then show ?thesis
      using r(2) by (intro exI [of _ None] exI [of _ 0] exI [of _ m]) (simp add: search_fields_to_pb_def Some fields_unset [OF e])
  qed
qed

lemma riak_search_request_sends:
  assumes g: "cfg_grants (rop_config rop)" and m: "mem_wf m" and ini: "rsq_empty (pb_init api)"
    and wf: "bin_wf b" "bin_wf q" "pred_option so_wf options"
  shows "\<exists>msg rop' m'. pbb_bytes (rsq_index msg) = bin_bytes b \<and> pbb_bytes (rsq_q msg) = bin_bytes q \<and>
    search_says options msg \<and> rop_config rop' = rop_config rop \<and> req_bucket_type rop' = req_bucket_type rop \<and>
    req_key rop' = req_key rop \<and> req_index rop' = req_index rop \<and> mem_allocs m (bin.owned_p (req_bucket rop')) m' \<and>
    (packs api msg \<longrightarrow> sends MSG_RPBSEARCHQUERYREQ (pb_pack api msg) decoder rop' m'
       (riak_search_request_encode api decoder rop (Some b) (Some q) options m))"
proof -
  obtain b1 m1 where c: "riak_binary_copy (rop_config rop) (Some b) m = Some (b1, m1)"
    "mem_allocs m (bin.owned_p b1) m1"
    using riak_binary_copy_ok [OF g, of "Some b" m] wf(1) by (simp only: option.pred_inject option.map) blast
  obtain b' q' where bq: "riak_binary_copy_to_pb (Some b) = Some b'" "pbb_bytes b' = bin_bytes b"
    "riak_binary_copy_to_pb (Some q) = Some q'" "pbb_bytes q' = bin_bytes q"
    using copy_to_pb_ok [of "Some b"] copy_to_pb_ok [of "Some q"] wf(1,2) by (auto simp: ptr_wf_def ptr_bytes_def)
  have e: "rsq_empty ((pb_init api)\<lparr>rsq_q := q', rsq_index := b'\<rparr>)" using ini by (simp add: rsq_empty_def)
  obtain msg0 where o: "search_options_to_pb options ((pb_init api)\<lparr>rsq_q := q', rsq_index := b'\<rparr>) = Some msg0"
    "rsq_q msg0 = q'" "rsq_index msg0 = b'" "rsq_n_fl msg0 = 0" "rsq_fl msg0 = None" "options = None \<longrightarrow> rsq_empty msg0"
    "\<forall>opt. options = Some opt \<longrightarrow> rsq_rows msg0 = so_rows opt \<and> rsq_start msg0 = so_start opt \<and>
      same_binary (rsq_sort msg0) (so_sort opt) \<and> same_binary (rsq_filter msg0) (so_filter opt) \<and>
      same_binary (rsq_df msg0) (so_df opt) \<and> same_binary (rsq_op msg0) (so_op opt) \<and>
      same_binary (rsq_presort msg0) (so_presort opt)"
    using search_options_to_pb_ok [OF wf(3) e] by auto
  let ?rop = "rop\<lparr>req_bucket := b1\<rparr>"
  have g': "cfg_grants (rop_config ?rop)" using g by simp
  obtain fl n m2 where f: "search_fields_to_pb (rop_config ?rop) options msg0 m1 =
      Some (True, msg0\<lparr>rsq_n_fl := n, rsq_fl := fl\<rparr>, m2)" "mem_allocs m1 (ptrs (map_option fst fl)) m2"
    "options = None \<longrightarrow> fl = None \<and> n = 0"
    "\<forall>opt. options = Some opt \<longrightarrow> n = so_n_fl opt \<and>
      (case fl of None \<Rightarrow> [] | Some (_, xs) \<Rightarrow> map pbb_bytes xs) = map bin_bytes (arr_elems (so_fl opt) (unat (so_n_fl opt)))"
    using search_fields_to_pb_ok [OF g' wf(3) o(4,5)] by blast
  let ?msg = "msg0\<lparr>rsq_n_fl := n, rsq_fl := fl\<rparr>"
  have says: "search_says options ?msg"
  proof (cases options)
    case None
    with o(6) f(3) show ?thesis by (simp add: search_says_def rsq_empty_def)
  next
    case (Some opt)
    with o(7) f(4) show ?thesis by (simp add: search_says_def)
  qed
  have "riak_free (rop_config ?rop) (map_option fst fl) = mem_free_all (ptrs (map_option fst fl))"
    using g' by (intro ext) (simp add: riak_free_ptrs)
  then have "packs api ?msg \<Longrightarrow> sends MSG_RPBSEARCHQUERYREQ (pb_pack api ?msg) decoder ?rop m1
      (send_packed_then (\<lambda>sz m. Some (riak_config_clean_allocate (rop_config ?rop) sz m)) ERIAK_OUT_OF_MEMORY
         (riak_free (rop_config ?rop) (map_option fst fl)) MSG_RPBSEARCHQUERYREQ (cut32 (pb_packed_size api ?msg))
         (pb_pack api ?msg) decoder ?rop m2)"
    by (intro send_packed_then_sends [OF g' _ _ _ mem_allocs_wf [OF c(2) m] f(2) _ refl])
      (auto simp: packs_def clean_allocate_eq cut32_small)
  then have "packs api ?msg \<Longrightarrow> sends MSG_RPBSEARCHQUERYREQ (pb_pack api ?msg) decoder ?rop m1
      (riak_search_request_encode api decoder rop (Some b) (Some q) options m)"
    using f(1) by (simp add: riak_search_request_encode_def riak_operation_set_bucket_def c(1) bq o)
  with c says bq o(2,3) show ?thesis by (intro exI [of _ ?msg] exI [of _ ?rop] exI [of _ m1]) simp
qed

subsection \<open>Fields to return\<close>

lemma riak_search_options_add_fl_ok:
  assumes g: "cfg_grants cfg" and fl: "so_fl opt = Some \<lparr>pa_addr = a, pa_cells = map Some bs\<rparr>" "length bs = unat (so_n_fl opt)"
    and n: "length bs < 2 ^ 31" and live: "a \<in> mem_live m" and v: "bin_wf v"
  shows "\<exists>opt' m' b' a'. riak_search_options_add_fl cfg opt (Some v) m = Some (ERIAK_OK, opt', m') \<and>
    so_fl opt' = Some \<lparr>pa_addr = a', pa_cells = map Some (bs @ [b'])\<rparr> \<and> bin_bytes b' = bin_bytes v \<and>
    unat (so_n_fl opt') = length (bs @ [b'])"
proof -
  let ?n = "so_n_fl opt"
  have u: "unat (ucast ?n :: u32) = length bs" "unat (ucast (?n + 1) :: u32) = Suc (length bs)" "unat (?n + 1) = Suc (length bs)"
    using n fl(2) by (simp_all add: unsigned_ucast_eq take_bit_nat_eq_self unat_word_ariths)
  obtain m1 where r: "riak_array_realloc cfg (so_fl opt) ''riak_binary*'' (ucast ?n) (ucast (?n + 1)) m =
      Some (True, Some \<lparr>pa_addr = mem_next m, pa_cells = map Some bs @ [None]\<rparr>, m1)"
    using riak_array_realloc_granted [OF g, of "ucast ?n" "\<lparr>pa_addr = a, pa_cells = map Some bs\<rparr>" "ucast (?n + 1)" m] fl live u
    by auto
  obtain y m2 where c: "riak_binary_copy cfg (Some v) m1 = Some (y, m2)"
    "map_option bin_bytes y = Some (bin_bytes v)"
    using riak_binary_copy_ok [OF g, of "Some v" m1] v by auto
  then obtain b' where b: "y = Some b'" "bin_bytes b' = bin_bytes v" by (cases y) auto
  have "riak_search_options_add_fl cfg opt (Some v) m = Some (ERIAK_OK,
      opt\<lparr>so_fl := Some \<lparr>pa_addr = mem_next m, pa_cells = map Some (bs @ [b'])\<rparr>, so_n_fl := ?n + 1\<rparr>, m2)"
    using r c(1) b(1) fl by (simp add: riak_search_options_add_fl_def list_update_append flip: fl(2))
  then show ?thesis using u(3) b(2) by auto
qed

text \<open>When the enlarged array is refused the field is stored behind the old one.\<close>

lemma riak_search_options_add_fl_refused:
  assumes "so_fl opt = Some \<lparr>pa_addr = a, pa_cells = map Some bs\<rparr>" "length bs = unat (so_n_fl opt)"
    and "\<And>sz. riak_config_allocate cfg (SizeOf ''riak_binary*'' sz) m = (None, m1)"
  shows "riak_search_options_add_fl cfg opt v m = None"
  using assms
  by (auto simp: riak_search_options_add_fl_def riak_array_realloc_def clean_allocate_eq guard_def split: bind_splits)

end
