(* ===== verification/Riak_Client.thy ===== *)
theory Riak_Client
  imports Riak_Delete Riak_Get Riak_Put Riak_List Riak_Mapreduce Riak_2i Riak_Search
begin

text \<open>
  The library's own calls: the synchronous functions of \<^verbatim>\<open>src/riak.c\<close>, the functions of
  \<^verbatim>\<open>src/riak_async.c\<close> that register an asynchronous request, and the life of a
  \<open>riak_libevent\<close> (\<^verbatim>\<open>src/adapters/riak_libevent.h\<close>).

  An operation holds a pointer to the decoder of its response, and the response itself behind a
  \<open>void*\<close>. Here a decoder is a value of \<open>riak_decoder\<close> and the response one of \<open>riak_response\<close>;
  reading a response of another type through the \<open>void*\<close> has no result.
\<close>

subsection \<open>Decoders and responses\<close>

datatype 'f riak_response =
  PingResponse riak_ping_response
| ServerinfoResponse riak_serverinfo_response
| GetClientidResponse riak_get_clientid_response
| AckResponse riak_ack \<comment> \<open>delete, set client id, set and reset bucket properties\<close>
| GetResponse riak_get_response
| PutResponse riak_put_response
| ListResponse riak_list_response \<comment> \<open>buckets and keys\<close>
| BucketpropsResponse riak_get_bucketprops_response
| MapreduceResponse riak_mapreduce_response
| IndexResponse riak_2i_response
| SearchResponse "'f riak_search_response"

datatype riak_decoder =
  DecodePing | DecodeServerinfo | DecodeGetClientid | DecodeSetClientid | DecodeGet | DecodePut
| DecodeDelete | DecodeListbuckets | DecodeListkeys | DecodeGetBucketprops | DecodeSetBucketprops
| DecodeResetBucketprops | DecodeMapreduce | Decode2i | DecodeSearch

text \<open>The casts from \<open>void*\<close>. A NULL pointer is one of any type.\<close>

fun as_ping :: "'f riak_response option \<Rightarrow> riak_ping_response option option" where
  "as_ping None = Some None"
| "as_ping (Some (PingResponse r)) = Some (Some r)"
| "as_ping (Some _) = None"

fun as_serverinfo :: "'f riak_response option \<Rightarrow> riak_serverinfo_response option option" where
  "as_serverinfo None = Some None"
| "as_serverinfo (Some (ServerinfoResponse r)) = Some (Some r)"
| "as_serverinfo (Some _) = None"

fun as_clientid :: "'f riak_response option \<Rightarrow> riak_get_clientid_response option option" where
  "as_clientid None = Some None"
| "as_clientid (Some (GetClientidResponse r)) = Some (Some r)"
| "as_clientid (Some _) = None"

fun as_ack :: "'f riak_response option \<Rightarrow> riak_ack option option" where
  "as_ack None = Some None"
| "as_ack (Some (AckResponse r)) = Some (Some r)"
| "as_ack (Some _) = None"

fun as_get :: "'f riak_response option \<Rightarrow> riak_get_response option option" where
  "as_get None = Some None"
| "as_get (Some (GetResponse r)) = Some (Some r)"
| "as_get (Some _) = None"

fun as_put :: "'f riak_response option \<Rightarrow> riak_put_response option option" where
  "as_put None = Some None"
| "as_put (Some (PutResponse r)) = Some (Some r)"
| "as_put (Some _) = None"

fun as_list :: "'f riak_response option \<Rightarrow> riak_list_response option option" where
  "as_list None = Some None"
| "as_list (Some (ListResponse r)) = Some (Some r)"
| "as_list (Some _) = None"

fun as_bucketprops :: "'f riak_response option \<Rightarrow> riak_get_bucketprops_response option option" where
  "as_bucketprops None = Some None"
| "as_bucketprops (Some (BucketpropsResponse r)) = Some (Some r)"
| "as_bucketprops (Some _) = None"

fun as_mapreduce :: "'f riak_response option \<Rightarrow> riak_mapreduce_response option option" where
  "as_mapreduce None = Some None"
| "as_mapreduce (Some (MapreduceResponse r)) = Some (Some r)"
| "as_mapreduce (Some _) = None"

fun as_2i :: "'f riak_response option \<Rightarrow> riak_2i_response option option" where
  "as_2i None = Some None"
| "as_2i (Some (IndexResponse r)) = Some (Some r)"
| "as_2i (Some _) = None"

fun as_search :: "'f riak_response option \<Rightarrow> 'f riak_search_response option option" where
  "as_search None = Some None"
| "as_search (Some (SearchResponse r)) = Some (Some r)"
| "as_search (Some _) = None"

text \<open>The unpacking functions of the generated code, and the score of a cleared response.\<close>

record 'f generated =
  up_error :: "addr \<Rightarrow> bytes \<Rightarrow> rpb_error_resp option"
  up_serverinfo :: "addr \<Rightarrow> bytes \<Rightarrow> rpb_serverinfo option"
  up_clientid :: "addr \<Rightarrow> bytes \<Rightarrow> pb_binary option"
  up_get :: "addr \<Rightarrow> bytes \<Rightarrow> rpb_get_resp option"
  up_put :: "addr \<Rightarrow> bytes \<Rightarrow> rpb_put_resp option"
  up_listbuckets :: "addr \<Rightarrow> bytes \<Rightarrow> rpb_list_resp option"
  up_listkeys :: "addr \<Rightarrow> bytes \<Rightarrow> rpb_list_resp option"
  up_bucketprops :: "addr \<Rightarrow> bytes \<Rightarrow> rpb_bucketprops option"
  up_mapreduce :: "addr \<Rightarrow> bytes \<Rightarrow> rpb_map_red_resp option"
  up_2i :: "addr \<Rightarrow> bytes \<Rightarrow> rpb_index_resp option"
  up_search :: "addr \<Rightarrow> bytes \<Rightarrow> 'f rpb_search_resp option"
  up_no_score :: 'f

text \<open>
  \<open>(rop->response_decoder)(rop, pbresp, &(rop->response), &done)\<close>: the decoder works on the
  response the operation already has.
\<close>

definition decode_into ::
  "('f riak_response option \<Rightarrow> 'x option option) \<Rightarrow> ('x \<Rightarrow> 'f riak_response) \<Rightarrow>
   ('x option \<Rightarrow> (riak_error \<times> 'x option \<times> bool \<times> mem) option) \<Rightarrow> ('f riak_response, 'd) riak_operation \<Rightarrow>
   (riak_error \<times> ('f riak_response, 'd) riak_operation \<times> bool \<times> mem) option"
where
  "decode_into as mk f rop =
     do { old \<leftarrow> as (rop_response rop);
          (err, resp, fin, m) \<leftarrow> f old;
          Some (err, rop\<lparr>rop_response := map_option mk resp\<rparr>, fin, m) }"

definition riak_decode :: "'f generated \<Rightarrow> ('f riak_response, riak_decoder) decode_fn" where
  "riak_decode g d rop pb fin m =
     (case d of
        DecodePing \<Rightarrow> decode_into as_ping PingResponse (\<lambda>r. riak_ping_response_decode rop r m) rop
      | DecodeServerinfo \<Rightarrow> decode_into as_serverinfo ServerinfoResponse
          (\<lambda>r. riak_serverinfo_response_decode (up_serverinfo g) rop pb r fin m) rop
      | DecodeGetClientid \<Rightarrow> decode_into as_clientid GetClientidResponse
          (\<lambda>r. riak_get_clientid_response_decode (up_clientid g) rop pb r fin m) rop
      | DecodeSetClientid \<Rightarrow> decode_into as_ack AckResponse (\<lambda>r. riak_set_clientid_response_decode rop r m) rop
      | DecodeGet \<Rightarrow> decode_into as_get GetResponse (\<lambda>r. riak_get_response_decode (up_get g) rop pb r fin m) rop
      | DecodePut \<Rightarrow> decode_into as_put PutResponse (\<lambda>r. riak_put_response_decode (up_put g) rop pb r fin m) rop
      | DecodeDelete \<Rightarrow> decode_into as_ack AckResponse (\<lambda>r. riak_delete_response_decode rop r m) rop
      | DecodeListbuckets \<Rightarrow> decode_into as_list ListResponse
          (\<lambda>r. riak_listbuckets_response_decode (up_listbuckets g) rop pb r fin m) rop
      | DecodeListkeys \<Rightarrow> decode_into as_list ListResponse
          (\<lambda>r. riak_listkeys_response_decode (up_listkeys g) rop pb r fin m) rop
      | DecodeGetBucketprops \<Rightarrow> decode_into as_bucketprops BucketpropsResponse
          (\<lambda>r. riak_get_bucketprops_response_decode (up_bucketprops g) rop pb r fin m) rop
      | DecodeSetBucketprops \<Rightarrow> decode_into as_ack AckResponse
          (\<lambda>r. riak_set_bucketprops_response_decode rop r m) rop
      | DecodeResetBucketprops \<Rightarrow> decode_into as_ack AckResponse
          (\<lambda>r. riak_reset_bucketprops_response_decode rop r m) rop
      | DecodeMapreduce \<Rightarrow> decode_into as_mapreduce MapreduceResponse
          (\<lambda>r. riak_mapreduce_response_decode (up_mapreduce g) rop pb r fin m) rop
      | Decode2i \<Rightarrow> decode_into as_2i IndexResponse (\<lambda>r. riak_2i_response_decode (up_2i g) rop pb r fin m) rop
      | DecodeSearch \<Rightarrow> decode_into as_search SearchResponse
          (\<lambda>r. riak_search_response_decode (up_no_score g) (up_search g) rop pb r fin m) rop)"

subsection \<open>Synchronous calls\<close>

text \<open>\<open>read\<close> and \<open>write\<close> of the operating system, and its state.\<close>

record 'os system =
  sys_read :: "i32 \<Rightarrow> 'os read_cb"
  sys_write :: "i32 \<Rightarrow> 'os write_cb"

text \<open>
  The operation is freed in any case. What the reader returned is passed on, and so is the
  response, also when there is none.
\<close>

definition riak_sync_request ::
  "'os system \<Rightarrow> 'f generated \<Rightarrow> 'a riak_connection \<Rightarrow> ('f riak_response, riak_decoder) riak_operation \<Rightarrow>
   'f riak_response option \<Rightarrow> 'os \<Rightarrow> mem \<Rightarrow> (riak_error \<times> 'f riak_response option \<times> 'os \<times> mem) option"
where
  "riak_sync_request sys g cxn rop response os m =
     do { let rop = riak_operation_set_cb_data rop (Some (rop_at rop));
          (err, fd, os) \<leftarrow> riak_write rop (riak_sync_write_cb (sys_write sys)) (riak_connection_get_fd cxn, os);
          (if err \<noteq> ERIAK_OK
           then do { m \<leftarrow> riak_operation_free (Some rop) m; Some (err, response, os, m) }
           else do { (err, st) \<leftarrow> riak_read (riak_sync_read_cb (sys_read sys)) (up_error g) (riak_decode g)
                       \<lparr>rs_rop = rop, rs_done = False, rs_io = (riak_connection_get_fd cxn, os), rs_mem = m,
                        rs_trace = []\<rparr>;
                     m \<leftarrow> riak_operation_free (Some (rs_rop st)) (rs_mem st);
                     Some (err, rop_response (rs_rop st), snd (rs_io st), m) }) }"

text \<open>
  What every synchronous call does: make an operation, encode the request, send it and read the
  response. When the encoder fails the operation is not freed.
\<close>

definition sync_call ::
  "'os system \<Rightarrow> 'f generated \<Rightarrow> 'a riak_connection option \<Rightarrow>
   (('f riak_response, riak_decoder) riak_operation \<Rightarrow> mem \<Rightarrow>
     (riak_error \<times> ('f riak_response, riak_decoder) riak_operation \<times> mem) option) \<Rightarrow>
   'f riak_response option \<Rightarrow> 'os \<Rightarrow> mem \<Rightarrow> (riak_error \<times> 'f riak_response option \<times> 'os \<times> mem) option"
where
  "sync_call sys g cxn encode response os m =
     do { (err, rop, m) \<leftarrow> riak_operation_new cxn None None None m;
          (if err \<noteq> ERIAK_OK then Some (err, response, os, m)
           else do { rop \<leftarrow> rop;
                     (err, rop, m) \<leftarrow> encode rop m;
                     (if err \<noteq> ERIAK_OK then Some (err, response, os, m)
                      else do { c \<leftarrow> cxn; riak_sync_request sys g c rop response os m }) }) }"

definition riak_ping ::
  "'os system \<Rightarrow> 'f generated \<Rightarrow> 'a riak_connection option \<Rightarrow> 'os \<Rightarrow> mem \<Rightarrow> (riak_error \<times> 'os \<times> mem) option"
where
  "riak_ping sys g cxn os m =
     do { (err, response, os, m) \<leftarrow> sync_call sys g cxn (riak_ping_request_encode DecodePing) None os m;
          (if err \<noteq> ERIAK_OK then Some (err, os, m)
           else do { resp \<leftarrow> as_ping response;
                     r \<leftarrow> resp;
                     c \<leftarrow> cxn;
                     m \<leftarrow> riak_free (riak_connection_get_config c) (Some (ping_at r)) m;
                     Some (if ping_success r then ERIAK_OK else ERIAK_NO_PING, os, m) }) }"

definition riak_serverinfo ::
  "'os system \<Rightarrow> 'f generated \<Rightarrow> 'a riak_connection option \<Rightarrow> 'f riak_response option \<Rightarrow> 'os \<Rightarrow> mem \<Rightarrow>
   (riak_error \<times> 'f riak_response option \<times> 'os \<times> mem) option"
where
  "riak_serverinfo sys g cxn = sync_call sys g cxn (riak_serverinfo_request_encode DecodeServerinfo)"

definition riak_get ::
  "'os system \<Rightarrow> 'f generated \<Rightarrow> rpb_get_req pb_api \<Rightarrow> 'a riak_connection option \<Rightarrow> riak_binary option \<Rightarrow>
   riak_binary option \<Rightarrow> riak_binary option \<Rightarrow> riak_get_options option \<Rightarrow> 'f riak_response option \<Rightarrow> 'os \<Rightarrow>
   mem \<Rightarrow> (riak_error \<times> 'f riak_response option \<times> 'os \<times> mem) option"
where
  "riak_get sys g api cxn bucket_type bucket key opts =
     sync_call sys g cxn (\<lambda>rop. riak_get_request_encode api DecodeGet rop bucket_type bucket key opts)"

definition riak_put ::
  "'os system \<Rightarrow> 'f generated \<Rightarrow> rpb_put_req pb_api \<Rightarrow> rpb_inits \<Rightarrow> rpb_content \<Rightarrow> 'a riak_connection option \<Rightarrow>
   riak_object option \<Rightarrow> riak_put_options option \<Rightarrow> 'f riak_response option \<Rightarrow> 'os \<Rightarrow> mem \<Rightarrow>
   (riak_error \<times> 'f riak_response option \<times> 'os \<times> mem) option"
where
  "riak_put sys g api ini init_content cxn obj opts =
     sync_call sys g cxn (\<lambda>rop. riak_put_request_encode api ini init_content DecodePut rop obj opts)"

text \<open>The response of a delete or of a new client id is freed before the error is looked at.\<close>

definition sync_ack ::
  "(riak_config option \<Rightarrow> riak_ack option \<Rightarrow> mem \<Rightarrow> mem option) \<Rightarrow> 'a riak_connection option \<Rightarrow>
   (riak_error \<times> 'f riak_response option \<times> 'os \<times> mem) option \<Rightarrow> (riak_error \<times> 'os \<times> mem) option"
where
  "sync_ack release cxn result =
     do { (err, response, os, m) \<leftarrow> result;
          c \<leftarrow> cxn;
          r \<leftarrow> as_ack response;
          m \<leftarrow> release (riak_connection_get_config c) r m;
          Some (err, os, m) }"

definition riak_delete ::
  "'os system \<Rightarrow> 'f generated \<Rightarrow> rpb_del_req pb_api \<Rightarrow> 'a riak_connection option \<Rightarrow> riak_binary option \<Rightarrow>
   riak_binary option \<Rightarrow> riak_binary option \<Rightarrow> riak_delete_options option \<Rightarrow> 'os \<Rightarrow> mem \<Rightarrow>
   (riak_error \<times> 'os \<times> mem) option"
where
  "riak_delete sys g api cxn bucket_type bucket key opts os m =
     sync_ack riak_delete_response_free cxn
       (sync_call sys g cxn (\<lambda>rop. riak_delete_request_encode api DecodeDelete rop bucket_type bucket key opts)
          None os m)"

definition riak_listbuckets ::
  "'os system \<Rightarrow> 'f generated \<Rightarrow> rpb_listbuckets_req pb_api \<Rightarrow> 'a riak_connection option \<Rightarrow> riak_binary option \<Rightarrow>
   u32 \<Rightarrow> 'f riak_response option \<Rightarrow> 'os \<Rightarrow> mem \<Rightarrow> (riak_error \<times> 'f riak_response option \<times> 'os \<times> mem) option"
where
  "riak_listbuckets sys g api cxn bucket_type timeout =
     sync_call sys g cxn (\<lambda>rop. riak_listbuckets_request_encode api DecodeListbuckets rop bucket_type timeout)"

definition riak_listkeys ::
  "'os system \<Rightarrow> 'f generated \<Rightarrow> rpb_listkeys_req pb_api \<Rightarrow> 'a riak_connection option \<Rightarrow> riak_binary option \<Rightarrow>
   riak_binary option \<Rightarrow> u32 \<Rightarrow> 'f riak_response option \<Rightarrow> 'os \<Rightarrow> mem \<Rightarrow>
   (riak_error \<times> 'f riak_response option \<times> 'os \<times> mem) option"
where
  "riak_listkeys sys g api cxn bucket_type bucket timeout =
     sync_call sys g cxn (\<lambda>rop. riak_listkeys_request_encode api DecodeListkeys rop bucket_type bucket timeout)"

definition riak_get_clientid ::
  "'os system \<Rightarrow> 'f generated \<Rightarrow> 'a riak_connection option \<Rightarrow> 'f riak_response option \<Rightarrow> 'os \<Rightarrow> mem \<Rightarrow>
   (riak_error \<times> 'f riak_response option \<times> 'os \<times> mem) option"
where
  "riak_get_clientid sys g cxn = sync_call sys g cxn (riak_get_clientid_request_encode DecodeGetClientid)"

definition riak_set_clientid ::
  "'os system \<Rightarrow> 'f generated \<Rightarrow> pb_binary pb_api \<Rightarrow> 'a riak_connection option \<Rightarrow> riak_binary option \<Rightarrow> 'os \<Rightarrow>
   mem \<Rightarrow> (riak_error \<times> 'os \<times> mem) option"
where
  "riak_set_clientid sys g api cxn clientid os m =
     sync_ack riak_set_clientid_response_free cxn
       (sync_call sys g cxn (\<lambda>rop. riak_set_clientid_request_encode api DecodeSetClientid rop clientid) None os m)"

definition riak_get_bucketprops ::
  "'os system \<Rightarrow> 'f generated \<Rightarrow> rpb_bucket_req pb_api \<Rightarrow> 'a riak_connection option \<Rightarrow> riak_binary option \<Rightarrow>
   riak_binary option \<Rightarrow> 'f riak_response option \<Rightarrow> 'os \<Rightarrow> mem \<Rightarrow>
   (riak_error \<times> 'f riak_response option \<times> 'os \<times> mem) option"
where
  "riak_get_bucketprops sys g api cxn bucket_type bucket =
     sync_call sys g cxn (\<lambda>rop. riak_get_bucketprops_request_encode api DecodeGetBucketprops rop bucket_type bucket)"

text \<open>The encoder takes the bucket before the bucket type; the two are passed the other way round.\<close>

definition riak_reset_bucketprops ::
  "'os system \<Rightarrow> 'f generated \<Rightarrow> rpb_bucket_req pb_api \<Rightarrow> 'a riak_connection option \<Rightarrow> riak_binary option \<Rightarrow>
   riak_binary option \<Rightarrow> 'f riak_response option \<Rightarrow> 'os \<Rightarrow> mem \<Rightarrow>
   (riak_error \<times> 'f riak_response option \<times> 'os \<times> mem) option"
where
  "riak_reset_bucketprops sys g api cxn bucket_type bucket =
     sync_call sys g cxn
       (\<lambda>rop. riak_reset_bucketprops_request_encode api DecodeResetBucketprops rop bucket_type bucket)"

definition riak_set_bucketprops ::
  "'os system \<Rightarrow> 'f generated \<Rightarrow> rpb_set_bucket_req pb_api \<Rightarrow> rpb_bucketprops \<Rightarrow> 'a riak_connection option \<Rightarrow>
   riak_binary option \<Rightarrow> riak_binary option \<Rightarrow> riak_bucketprops \<Rightarrow> 'f riak_response option \<Rightarrow> 'os \<Rightarrow> mem \<Rightarrow>
   (riak_error \<times> 'f riak_response option \<times> 'os \<times> mem) option"
where
  "riak_set_bucketprops sys g api init_props cxn bucket_type bucket props =
     sync_call sys g cxn
       (\<lambda>rop. riak_set_bucketprops_request_encode api init_props DecodeSetBucketprops rop bucket_type bucket props)"

definition riak_mapreduce ::
  "'os system \<Rightarrow> 'f generated \<Rightarrow> rpb_map_red_req pb_api \<Rightarrow> 'a riak_connection option \<Rightarrow> riak_binary option \<Rightarrow>
   riak_binary option \<Rightarrow> 'f riak_response option \<Rightarrow> 'os \<Rightarrow> mem \<Rightarrow>
   (riak_error \<times> 'f riak_response option \<times> 'os \<times> mem) option"
where
  "riak_mapreduce sys g api cxn content_type map_request =
     sync_call sys g cxn (\<lambda>rop. riak_mapreduce_request_encode api DecodeMapreduce rop content_type map_request)"

definition riak_2i ::
  "'os system \<Rightarrow> 'f generated \<Rightarrow> rpb_index_req pb_api \<Rightarrow> 'a riak_connection option \<Rightarrow> riak_binary option \<Rightarrow>
   riak_binary option \<Rightarrow> riak_binary option \<Rightarrow> riak_2i_options option \<Rightarrow> 'f riak_response option \<Rightarrow> 'os \<Rightarrow> mem \<Rightarrow>
   (riak_error \<times> 'f riak_response option \<times> 'os \<times> mem) option"
where
  "riak_2i sys g api cxn bucket_type bucket index opts =
     sync_call sys g cxn (\<lambda>rop. riak_2i_request_encode api Decode2i rop bucket_type bucket index opts)"

definition riak_search ::
  "'os system \<Rightarrow> 'f generated \<Rightarrow> rpb_search_req pb_api \<Rightarrow> 'a riak_connection option \<Rightarrow> riak_binary option \<Rightarrow>
   riak_binary option \<Rightarrow> riak_search_options option \<Rightarrow> 'f riak_response option \<Rightarrow> 'os \<Rightarrow> mem \<Rightarrow>
   (riak_error \<times> 'f riak_response option \<times> 'os \<times> mem) option"
where
  "riak_search sys g api cxn bucket query opts =
     sync_call sys g cxn (\<lambda>rop. riak_search_request_encode api DecodeSearch rop bucket query opts)"

subsection \<open>Asynchronous requests\<close>

text \<open>
  The request is stored in the caller's operation, with the callback for the response. The options
  of a delete are not passed on, and nothing is done with the \<open>streaming\<close> of a map/reduce request.
\<close>

definition riak_async_register_ping ::
  "'d \<Rightarrow> ('r, 'd) riak_operation \<Rightarrow> addr option \<Rightarrow> mem \<Rightarrow>
   (riak_error \<times> ('r, 'd) riak_operation \<times> mem) option"
where
  "riak_async_register_ping decoder rop cb =
     riak_ping_request_encode decoder (riak_operation_set_response_cb rop cb)"

definition riak_async_register_serverinfo ::
  "'d \<Rightarrow> ('r, 'd) riak_operation \<Rightarrow> addr option \<Rightarrow> mem \<Rightarrow>
   (riak_error \<times> ('r, 'd) riak_operation \<times> mem) option"
where
  "riak_async_register_serverinfo decoder rop cb =
     riak_serverinfo_request_encode decoder (riak_operation_set_response_cb rop cb)"

definition riak_async_register_get ::
  "rpb_get_req pb_api \<Rightarrow> 'd \<Rightarrow> ('r, 'd) riak_operation \<Rightarrow> riak_binary option \<Rightarrow>
   riak_binary option \<Rightarrow> riak_binary option \<Rightarrow> riak_get_options option \<Rightarrow> addr option \<Rightarrow> mem \<Rightarrow>
   (riak_error \<times> ('r, 'd) riak_operation \<times> mem) option"
where
  "riak_async_register_get api decoder rop bucket_type bucket key get_options cb =
     riak_get_request_encode api decoder (riak_operation_set_response_cb rop cb) bucket_type bucket key get_options"

definition riak_async_register_put ::
  "rpb_put_req pb_api \<Rightarrow> rpb_inits \<Rightarrow> rpb_content \<Rightarrow> 'd \<Rightarrow> ('r, 'd) riak_operation \<Rightarrow>
   riak_object option \<Rightarrow> riak_put_options option \<Rightarrow> addr option \<Rightarrow> mem \<Rightarrow>
   (riak_error \<times> ('r, 'd) riak_operation \<times> mem) option"
where
  "riak_async_register_put api ini init_content decoder rop riak_obj options cb =
     riak_put_request_encode api ini init_content decoder (riak_operation_set_response_cb rop cb) riak_obj options"

definition riak_async_register_delete ::
  "rpb_del_req pb_api \<Rightarrow> 'd \<Rightarrow> ('r, 'd) riak_operation \<Rightarrow> riak_binary option \<Rightarrow>
   riak_binary option \<Rightarrow> riak_binary option \<Rightarrow> riak_delete_options option \<Rightarrow> addr option \<Rightarrow>
   mem \<Rightarrow> (riak_error \<times> ('r, 'd) riak_operation \<times> mem) option"
where
  "riak_async_register_delete api decoder rop bucket_type bucket key options cb =
     riak_delete_request_encode api decoder (riak_operation_set_response_cb rop cb) bucket_type bucket key None"

definition riak_async_register_listbuckets ::
  "rpb_listbuckets_req pb_api \<Rightarrow> 'd \<Rightarrow> ('r, 'd) riak_operation \<Rightarrow> riak_binary option \<Rightarrow> u32 \<Rightarrow>
   addr option \<Rightarrow> mem \<Rightarrow> (riak_error \<times> ('r, 'd) riak_operation \<times> mem) option"
where
  "riak_async_register_listbuckets api decoder rop bucket_type timeout cb =
     riak_listbuckets_request_encode api decoder (riak_operation_set_response_cb rop cb) bucket_type timeout"

definition riak_async_register_listkeys ::
  "rpb_listkeys_req pb_api \<Rightarrow> 'd \<Rightarrow> ('r, 'd) riak_operation \<Rightarrow> riak_binary option \<Rightarrow>
   riak_binary option \<Rightarrow> u32 \<Rightarrow> addr option \<Rightarrow> mem \<Rightarrow>
   (riak_error \<times> ('r, 'd) riak_operation \<times> mem) option"
where
  "riak_async_register_listkeys api decoder rop bucket_type bucket timeout cb =
     riak_listkeys_request_encode api decoder (riak_operation_set_response_cb rop cb) bucket_type bucket timeout"

definition riak_async_register_get_clientid ::
  "'d \<Rightarrow> ('r, 'd) riak_operation \<Rightarrow> addr option \<Rightarrow> mem \<Rightarrow>
   (riak_error \<times> ('r, 'd) riak_operation \<times> mem) option"
where
  "riak_async_register_get_clientid decoder rop cb =
     riak_get_clientid_request_encode decoder (riak_operation_set_response_cb rop cb)"

definition riak_async_register_set_clientid ::
  "pb_binary pb_api \<Rightarrow> 'd \<Rightarrow> ('r, 'd) riak_operation \<Rightarrow> riak_binary option \<Rightarrow> addr option \<Rightarrow>
   mem \<Rightarrow> (riak_error \<times> ('r, 'd) riak_operation \<times> mem) option"
where
  "riak_async_register_set_clientid api decoder rop clientid cb =
     riak_set_clientid_request_encode api decoder (riak_operation_set_response_cb rop cb) clientid"

definition riak_async_register_get_bucketprops ::
  "rpb_bucket_req pb_api \<Rightarrow> 'd \<Rightarrow> ('r, 'd) riak_operation \<Rightarrow> riak_binary option \<Rightarrow>
   riak_binary option \<Rightarrow> addr option \<Rightarrow> mem \<Rightarrow>
   (riak_error \<times> ('r, 'd) riak_operation \<times> mem) option"
where
  "riak_async_register_get_bucketprops api decoder rop bucket_type bucket cb =
     riak_get_bucketprops_request_encode api decoder (riak_operation_set_response_cb rop cb) bucket_type bucket"

definition riak_async_register_reset_bucketprops ::
  "rpb_bucket_req pb_api \<Rightarrow> 'd \<Rightarrow> ('r, 'd) riak_operation \<Rightarrow> riak_binary option \<Rightarrow>
   riak_binary option \<Rightarrow> addr option \<Rightarrow> mem \<Rightarrow>
   (riak_error \<times> ('r, 'd) riak_operation \<times> mem) option"
where
  "riak_async_register_reset_bucketprops api decoder rop bucket_type bucket cb =
     riak_reset_bucketprops_request_encode api decoder (riak_operation_set_response_cb rop cb) bucket_type bucket"

definition riak_async_register_set_bucketprops ::
  "rpb_set_bucket_req pb_api \<Rightarrow> rpb_bucketprops \<Rightarrow> 'd \<Rightarrow> ('r, 'd) riak_operation \<Rightarrow>
   riak_binary option \<Rightarrow> riak_binary option \<Rightarrow> riak_bucketprops \<Rightarrow> addr option \<Rightarrow> mem \<Rightarrow>
   (riak_error \<times> ('r, 'd) riak_operation \<times> mem) option"
where
  "riak_async_register_set_bucketprops api init_props decoder rop bucket_type bucket props cb =
     riak_set_bucketprops_request_encode api init_props decoder (riak_operation_set_response_cb rop cb) bucket_type bucket props"

definition riak_async_register_mapreduce ::
  "rpb_map_red_req pb_api \<Rightarrow> 'd \<Rightarrow> ('r, 'd) riak_operation \<Rightarrow> riak_binary option \<Rightarrow>
   riak_binary option \<Rightarrow> bool \<Rightarrow> addr option \<Rightarrow> mem \<Rightarrow>
   (riak_error \<times> ('r, 'd) riak_operation \<times> mem) option"
where
  "riak_async_register_mapreduce api decoder rop content_type map_request streaming cb =
     riak_mapreduce_request_encode api decoder (riak_operation_set_response_cb rop cb) content_type map_request"

definition riak_async_register_2i ::
  "rpb_index_req pb_api \<Rightarrow> 'd \<Rightarrow> ('r, 'd) riak_operation \<Rightarrow> riak_binary option \<Rightarrow>
   riak_binary option \<Rightarrow> riak_binary option \<Rightarrow> riak_2i_options option \<Rightarrow> addr option \<Rightarrow> mem \<Rightarrow>
   (riak_error \<times> ('r, 'd) riak_operation \<times> mem) option"
where
  "riak_async_register_2i api decoder rop bucket_type bucket index index_options cb =
     riak_2i_request_encode api decoder (riak_operation_set_response_cb rop cb) bucket_type bucket index index_options"

definition riak_async_register_search ::
  "rpb_search_req pb_api \<Rightarrow> 'd \<Rightarrow> ('r, 'd) riak_operation \<Rightarrow> riak_binary option \<Rightarrow>
   riak_binary option \<Rightarrow> riak_search_options option \<Rightarrow> addr option \<Rightarrow> mem \<Rightarrow>
   (riak_error \<times> ('r, 'd) riak_operation \<times> mem) option"
where
  "riak_async_register_search api decoder rop bucket query search_options cb =
     riak_search_request_encode api decoder (riak_operation_set_response_cb rop cb) bucket query search_options"

subsection \<open>Libevent\<close>

text \<open>
  The calls of libevent that make a bufferevent on a descriptor. Each is the answer of the library:
  a new bufferevent, if any, and the results of setting its base and of enabling it.
\<close>

record ('b, 'e) libevent =
  bufferevent_socket_new :: "'b \<Rightarrow> i32 \<Rightarrow> 'e option"
  bufferevent_base_set :: "'b \<Rightarrow> 'e \<Rightarrow> i32"
  bufferevent_enable :: "'e \<Rightarrow> i32"

record ('b, 'e, 'r, 'd) riak_libevent =
  rev_at :: addr
  rev_base :: 'b
  rev_bevent :: "'e option"
  rev_rop :: "('r, 'd) riak_operation"

text \<open>
  The last result tells whether the callbacks were set. In every case but the first the caller has
  a \<open>riak_libevent\<close> to free.
\<close>

definition riak_libevent_new ::
  "('b, 'e) libevent \<Rightarrow> 'a riak_connection \<Rightarrow> ('r, 'd) riak_operation \<Rightarrow> 'b \<Rightarrow> mem \<Rightarrow>
   riak_error \<times> ('b, 'e, 'r, 'd) riak_libevent option \<times> mem \<times> bool"
where
  "riak_libevent_new lib cxn rop base m =
     (let (p, m) = riak_config_clean_allocate (riak_operation_get_config rop) (SizeOf ''riak_libevent'' 1) m
      in case p of
           None \<Rightarrow> (ERIAK_OUT_OF_MEMORY, None, m, False)
         | Some a \<Rightarrow>
             (let bevent = bufferevent_socket_new lib base (riak_connection_get_fd cxn);
                  rev = \<lparr>rev_at = a, rev_base = base, rev_bevent = bevent, rev_rop = rop\<rparr>
              in case bevent of
                   None \<Rightarrow> (ERIAK_OUT_OF_MEMORY, Some rev, m, False)
                 | Some e \<Rightarrow>
                     (if sint (bufferevent_base_set lib base e) < 0 then (ERIAK_EVENT, Some rev, m, False)
                      else if bufferevent_enable lib e \<noteq> 0 then (ERIAK_EVENT, Some rev, m, False)
                      else (ERIAK_OK, Some rev, m, True))))"

text \<open>The first result is the bufferevent that is given back to libevent.\<close>

definition riak_libevent_free ::
  "riak_config option \<Rightarrow> ('b, 'e, 'r, 'd) riak_libevent option \<Rightarrow> mem \<Rightarrow> ('e option \<times> mem) option"
where
  "riak_libevent_free cfg rev_target m =
     (case rev_target of
        None \<Rightarrow> Some (None, m)
      | Some r \<Rightarrow> do { m \<leftarrow> riak_free cfg (Some (rev_at r)) m; Some (rev_bevent r, m) })"

text \<open>
  The events of a connection are a mask. Apart from the log, the callback frees the bufferevent
  and ends the loop of its base, in this order, when the connection failed, ended or timed out.
\<close>

record event_flags =
  BEV_EVENT_CONNECTED :: "16 word"
  BEV_EVENT_ERROR :: "16 word"
  BEV_EVENT_EOF :: "16 word"
  BEV_EVENT_TIMEOUT :: "16 word"

datatype libevent_call = Bufferevent_free | Event_base_loopexit

definition riak_libevent_connection_cb :: "event_flags \<Rightarrow> 16 word \<Rightarrow> libevent_call list" where
  "riak_libevent_connection_cb fl events =
     (if and events (BEV_EVENT_CONNECTED fl) \<noteq> 0 then []
      else if and events (or (BEV_EVENT_ERROR fl) (BEV_EVENT_EOF fl)) \<noteq> 0
      then [Bufferevent_free, Event_base_loopexit]
      else if and events (BEV_EVENT_TIMEOUT fl) \<noteq> 0 then [Bufferevent_free, Event_base_loopexit]
      else [])"

end
