(* ===== verification/Riak_Exchange.thy ===== *)
theory Riak_Exchange
  imports Riak_Client
begin

text \<open>
  What the calls of \<open>Riak_Client\<close> do: the reader of \<open>Riak_IO\<close> with the library's own decoders over
  the two transports (the locale \<open>fed_reader\<close> is interpreted for both), and whole exchanges of the
  synchronous calls with a server that answers: what goes out, what comes back and which memory is
  left.
\<close>

subsection \<open>The reader with the library's decoders\<close>

lemma decode_into_keeps:
  "decode_into as mk f rop = Some (e, rop', fin, m) \<Longrightarrow> \<exists>r. rop' = rop\<lparr>rop_response := r\<rparr>"
  by (auto simp: decode_into_def split: bind_splits prod.splits)

lemma riak_decode_keeps:
  assumes "riak_decode g d rop pb fin m = Some (e, rop', fin', m')"
  shows "\<exists>r. rop' = rop\<lparr>rop_response := r\<rparr>"
  using assms unfolding riak_decode_def by (cases d) (auto dest: decode_into_keeps)

interpretation decoders: framed_decoder "riak_decode g" for g :: "'f generated"
  by unfold_locales (auto dest!: riak_decode_keeps)

text \<open>Over libevent input arrives in a buffer.\<close>

interpretation libevent_reader: fed_reader "riak_libevent_read_cb evbuffer_read" "\<lambda>io. io" drop "riak_decode g"
    "up_error g" "(@)"
  for g :: "'f generated"
  by unfold_locales simp

text \<open>
  A blocking socket whose peer has answered: the bytes that are there to be read, and those that
  were written. A write takes all bytes, and a read returns as many bytes as were asked for while
  there are so many. (\<^verbatim>\<open>read(2)\<close> may return fewer of them, after which \<open>riak_read\<close> reports success without
  a response; for the reader that is an answer which ends there.)
\<close>

definition peer :: "(bytes \<times> bytes) system" where
  "peer = \<lparr>sys_read = (\<lambda>fd (inp, out) n. let (ret, xs, inp) = evbuffer_read inp n in (ret, xs, inp, out)),
           sys_write = (\<lambda>fd (inp, out) xs. let (ret, out) = write_all out xs in (ret, inp, out))\<rparr>"

interpretation peer_reader: fed_reader "riak_sync_read_cb (sys_read peer)" "\<lambda>(fd, inp, out). inp"
    "\<lambda>k (fd, inp, out). (fd, drop k inp, out)" "riak_decode g" "up_error g" "\<lambda>(fd, inp, out) xs. (fd, inp @ xs, out)"
  for g :: "'f generated"
  by unfold_locales (auto simp: riak_sync_read_cb_def peer_def evbuffer_read_def add.commute split: prod.splits)

text \<open>Reading keeps whatever each call of the callback keeps.\<close>

lemma read_into_io:
  assumes "read_into rc io buf off n = Some (k, buf', io')" "P io"
    and "\<And>io n ret xs io'. rc io n = (ret, xs, io') \<Longrightarrow> P io \<Longrightarrow> P io'"
  shows "P io'"
  using assms by (auto simp: read_into_def split: prod.splits bind_splits)

lemma read_dispatch_keeps_io: "read_dispatch ue dec st = Some (r, st') \<Longrightarrow> rs_io st' = rs_io st"
  using read_dispatch_io [of ue dec "rs_io st" st] by (cases st; cases st') auto

lemma read_step_io:
  assumes "read_step rc ue dec st = Some (r, st')" "P (rs_io st)"
    and rc: "\<And>io n ret xs io'. rc io n = (ret, xs, io') \<Longrightarrow> P io \<Longrightarrow> P io'"
  shows "P (rs_io st')"
proof -
  have h: "P (rs_io st1)" if "read_header rc st = Some (e, st1)" for e st1
    using that assms(2) rc
    by (auto simp: read_header_def Let_def split: bind_splits prod.splits if_splits dest!: read_into_io [where P = P])
  have b: "P (rs_io st2)" if "read_body rc st1 = Some (e, st2)" "P (rs_io st1)" for e st1 st2
    using that rc
    by (auto simp: read_body_def Let_def split: bind_splits prod.splits if_splits dest!: read_into_io [where P = P])
  from assms(1,2) show ?thesis
    by (auto simp: read_step_def split: bind_splits prod.splits if_splits
        dest!: read_dispatch_keeps_io dest: h b)
qed

lemma read_loop_io:
  assumes "read_loop rc ue dec st = Some (e, st')" "P (rs_io st)"
    and rc: "\<And>io n ret xs io'. rc io n = (ret, xs, io') \<Longrightarrow> P io \<Longrightarrow> P io'"
  shows "P (rs_io st')"
proof -
  let ?Q = "\<lambda>rc ue dec st res. (\<forall>io n ret xs io'. rc io n = (ret, xs, io') \<longrightarrow> P io \<longrightarrow> P io') \<longrightarrow>
      P (rs_io st) \<longrightarrow> P (rs_io (snd res))"
  have "?Q rc ue dec st (e, st')"
  proof (rule read_loop.raw_induct [where P = ?Q, OF _ assms(1)])
    fix loop rc ue dec st res
    assume IH: "\<And>rc ue dec st res. loop rc ue dec st = Some res \<Longrightarrow> ?Q rc ue dec st res"
      and step: "read_step rc ue dec st \<bind> (\<lambda>(r, st). if r \<noteq> None then Some (the r, st) else loop rc ue dec st) = Some res"
    obtain r st1 where st1: "read_step rc ue dec st = Some (r, st1)"
      "(if r \<noteq> None then Some (the r, st1) else loop rc ue dec st1) = Some res"
      using step by (auto split: bind_splits)
    show "?Q rc ue dec st res"
    proof (intro impI)
      assume rc: "\<forall>io n ret xs io'. rc io n = (ret, xs, io') \<longrightarrow> P io \<longrightarrow> P io'" and "P (rs_io st)"
      then have "P (rs_io st1)" by (intro read_step_io [where P = P, OF st1(1)]) blast+
      with st1(2) IH [of rc ue dec st1 res] rc show "P (rs_io (snd res))" by (auto split: if_splits)
    qed
  qed
  with assms show ?thesis by auto
qed

context reader
begin

lemma cut_ok_frames: "cut_ok ms (length (frames ms))"
  by (induction ms) auto

text \<open>When the whole answer is there, the messages are handled one after another.\<close>

lemma riak_read_messages:
  assumes b: "at_boundary st" and g: "cfg_grants (rop_config (rs_rop st))" and av: "avail (rs_io st) = frames ms"
    and len: "\<forall>(code, body) \<in> set ms. Suc (length body) < 2 ^ 32"
  shows "outcome (riak_read read_cb unpack_error decode st) =
    outcome (receive_messages unpack_error decode ms (st\<lparr>rs_done := False\<rparr>))"
proof -
  let ?st = "st\<lparr>rs_done := False\<rparr>"
  have p: "pending 0 ms ?st" using b g len by (simp add: pending_def at_boundary_def)
  have d: "one_delivery 0 ms ?st (rs_io st) []"
    by (rule one_delivery [OF p]) (simp_all add: av cut_ok_frames)
  have r: "riak_read read_cb unpack_error decode st = loop ((resume 0 ms ?st)\<lparr>rs_io := rs_io st\<rparr>)"
    by (simp add: riak_read_def resume_def)
  show ?thesis
  proof (cases "loop ((resume 0 ms ?st)\<lparr>rs_io := rs_io st\<rparr>)")
    case None
    with d r show ?thesis by (simp add: one_delivery_def)
  next
    case (Some res)
    obtain e st' where res: "res = (e, st')" by (cases res)
    from d [unfolded one_delivery_def Some res] consider
        "receive_messages unpack_error decode ms ?st = Some (e, st'\<lparr>rs_io := rs_io ?st\<rparr>)"
      | off' ms' st1 io' where "e = ERIAK_OK" "st' = (resume off' ms' st1)\<lparr>rs_io := io'\<rparr>"
        "pending off' ms' st1" "[] = drop off' (frames ms')"
        "receive_messages unpack_error decode ms ?st = receive_messages unpack_error decode ms' st1"
      by auto
    then show ?thesis
    proof cases
      case 1
      with r Some res show ?thesis by simp
    next
      case 2
      then have "ms' = []" "off' = 0"
        by (auto simp: pending_def frame_def neq_Nil_conv) (cases ms'; fastforce simp: frame_def)+
      with 2 r Some res show ?thesis by (simp add: resume_def)
    qed
  qed
qed

text \<open>Messages that end the reading are handled the same way whatever comes after them.\<close>

lemma riak_read_ended:
  assumes b: "at_boundary st" and g: "cfg_grants (rop_config (rs_rop st))" and av: "avail (rs_io st) = frames ms @ beyond"
    and len: "\<forall>(code, body) \<in> set ms. Suc (length body) < 2 ^ 32"
    and recv: "receive_messages unpack_error decode ms (st\<lparr>rs_done := False\<rparr>) = Some (e, st')" "e \<noteq> ERIAK_OK \<or> rs_done st'"
  shows "\<exists>n. riak_read read_cb unpack_error decode st = Some (e, st'\<lparr>rs_io := skip n (rs_io st)\<rparr>) \<and>
    avail (skip n (rs_io st)) = frames (unread_messages unpack_error decode ms (st\<lparr>rs_done := False\<rparr>)) @ beyond"
proof -
  have p: "pending 0 ms (st\<lparr>rs_done := False\<rparr>)" using b g len by (simp add: pending_def at_boundary_def)
  have "st\<lparr>rs_done := False, rs_io := rs_io st\<rparr> = st\<lparr>rs_done := False\<rparr>" by simp
  with loop_messages [OF p av recv] show ?thesis by (simp add: riak_read_def)
qed

end

subsection \<open>One message\<close>

text \<open>The operation and the message a decoder is given when a message has arrived.\<close>

definition arrived :: "mem \<Rightarrow> u8 \<Rightarrow> bytes \<Rightarrow> ('r, 'd) riak_operation \<Rightarrow> ('r, 'd) riak_operation" where
  "arrived m code body rop =
     rop\<lparr>rop_msgbuf := Some \<lparr>buf_addr = mem_next m, buf_bytes = code # body\<rparr>, rop_position := 0,
         rop_msglen := 0, rop_msglen_complete := False\<rparr>"

definition arrived_msg :: "mem \<Rightarrow> u8 \<Rightarrow> bytes \<Rightarrow> riak_pb_message" where
  "arrived_msg m code body =
     \<lparr>pbm_at = Suc (mem_next m), pbm_len = of_nat (Suc (length body)), pbm_msgid = code,
      pbm_data = Some \<lparr>buf_addr = mem_next m, buf_bytes = code # body\<rparr>\<rparr>"

lemma arrived_simps [simp]:
  "rop_config (arrived m code body rop) = rop_config rop" "rop_response (arrived m code body rop) = rop_response rop"
  "rop_streaming (arrived m code body rop) = rop_streaming rop"
  "req_bucket_type (arrived m code body rop) = req_bucket_type rop"
  "req_bucket (arrived m code body rop) = req_bucket rop" "req_key (arrived m code body rop) = req_key rop"
  "rop_names (arrived m code body rop) = rop_names rop"
  by (simp_all add: arrived_def rop_names_def)

lemma arrived_payload [simp]:
  "Suc (length body) < 2 ^ 32 \<Longrightarrow> pbm_payload (Some (arrived_msg m code body)) = Some body"
  by (simp add: pbm_payload_def arrived_msg_def unat_u32 del: of_nat_Suc)

text \<open>The operation once its message has been handled.\<close>

definition handled :: "'r option \<Rightarrow> ('r, 'd) riak_operation \<Rightarrow> ('r, 'd) riak_operation" where
  "handled resp rop =
     rop\<lparr>rop_response := resp, rop_msgbuf := None, rop_position := 0, rop_msglen := 0, rop_msglen_complete := False\<rparr>"

lemma handled_simps [simp]:
  "rop_config (handled resp rop) = rop_config rop" "rop_response (handled resp rop) = resp"
  "rop_decoder (handled resp rop) = rop_decoder rop" "rop_streaming (handled resp rop) = rop_streaming rop"
  "rop_response_cb (handled resp rop) = rop_response_cb rop"
  "handled resp (handled resp' rop) = handled resp rop"
  by (simp_all add: handled_def)

lemma handled_owned: "rop_msgbuf rop = None \<Longrightarrow> rop_owned (handled resp rop) = rop_owned rop"
  by (simp add: rop_owned_def handled_def)

text \<open>
  A message whose decoder succeeds: its block and that of its \<open>riak_pb_message\<close> are freed; if it is
  the last one the response callback is called. Its code only has to be none of an error.
\<close>

lemma receive_message_decodes:
  fixes st :: "('io, 'r, 'd) read_state"
  assumes g: "cfg_grants (rop_config (rs_rop st))" and d: "rop_decoder (rs_rop st) = Some d"
    and code: "code \<noteq> 0" and len: "Suc (length body) < 2 ^ 32"
    and dec: "decode d (arrived (rs_mem st) code body (rs_rop st)) (Some (arrived_msg (rs_mem st) code body)) True
        (mem_push (mem_push (rs_mem st))) =
      Some (ERIAK_OK, (arrived (rs_mem st) code body (rs_rop st))\<lparr>rop_response := resp\<rparr>, fin, m')"
    and m': "{mem_next (rs_mem st), Suc (mem_next (rs_mem st))} \<subseteq> mem_live m'"
  shows "receive_message ue decode code body st =
    Some (if fin then Some ERIAK_OK else None,
      st\<lparr>rs_rop := handled resp (rs_rop st), rs_done := fin,
         rs_mem := m'\<lparr>mem_live := mem_live m' - {mem_next (rs_mem st), Suc (mem_next (rs_mem st))}\<rparr>,
         rs_trace := rs_trace st @ (if fin then (case rop_response_cb (rs_rop st) of None \<Rightarrow> []
           | Some f \<Rightarrow> [ResponseCb f resp]) else [])\<rparr>)"
proof -
  let ?a = "mem_next (rs_mem st)"
  have ok: "cfg_ok (rop_config (rs_rop st))" using g by simp
  have u: "(ucast (ucast (x :: u32) :: u64) :: u32) = x" for x
    by (rule bit_word_eqI) (simp add: bit_simps)
  have "mem_live m' - {Suc ?a} - {?a} = mem_live m' - {?a, Suc ?a}" by auto
  then show ?thesis
    using d code dec m' len
    by (simp add: receive_message_def read_dispatch_def in_message_def riak_pb_message_new_def clean_allocate_eq
        allocate_granted [OF g] arrived_def arrived_msg_def handled_def riak_free_ptrs [OF ok] mem_free_def Let_def
        unat_u32 u del: of_nat_Suc split: option.split)
qed

subsection \<open>A request and its answer\<close>

lemma riak_write_sim:
  assumes "\<And>io xs. write_cb (f io) xs = map_prod id f (cb io xs)"
  shows "riak_write rop write_cb (f io) = map_option (map_prod id f) (riak_write rop cb io)"
  by (auto simp: riak_write_def assms Let_def split: prod.split bind_split)

lemma riak_write_peer:
  assumes "riak_write rop write_all out = Some (e, out')"
  shows "riak_write rop (riak_sync_write_cb (sys_write peer)) (fd, inp, out) = Some (e, fd, inp, out')"
  using riak_write_sim [of "riak_sync_write_cb (sys_write peer)" "\<lambda>out. (fd, inp, out)" write_all rop out] assms
  by (simp add: riak_sync_write_cb_def peer_def split: prod.split)

lemma peer_read_out:
  "riak_sync_read_cb (sys_read peer) (fd, inp, out) n = (ret, xs, fd', inp', out') \<Longrightarrow> out' = out"
  by (auto simp: riak_sync_read_cb_def peer_def split: prod.splits)

text \<open>
  The reader's result is what a synchronous request returns, and the operation is gone.
\<close>

lemma riak_sync_request_reads:
  fixes rop :: "('f riak_response, riak_decoder) riak_operation"
  assumes w: "\<And>out. riak_write rop write_all out = Some (ERIAK_OK, out @ req)"
    and read: "riak_read (riak_sync_read_cb (sys_read peer)) (up_error g) (riak_decode g)
        \<lparr>rs_rop = rop\<lparr>rop_cb_data := Some (rop_at rop)\<rparr>, rs_done = False,
         rs_io = (riak_connection_get_fd cxn, inp, out @ req), rs_mem = m, rs_trace = []\<rparr> = Some (e, st)"
    and m: "mem_wf m0" "mem_allocs m0 (rop_owned (rs_rop st) @ own) (rs_mem st)"
    and c: "cfg_ok (rop_config (rs_rop st))"
  shows "\<exists>m'. riak_sync_request peer g cxn rop response (inp, out) m =
      Some (e, rop_response (rs_rop st), (fst (snd (rs_io st)), out @ req), m') \<and> mem_allocs m0 own m'"
proof -
  let ?rop = "rop\<lparr>rop_cb_data := Some (rop_at rop)\<rparr>" and ?fd = "riak_connection_get_fd cxn"
  have "riak_write ?rop write_all out = riak_write rop write_all out" by (simp add: riak_write_def)
  then have wr: "riak_write ?rop (riak_sync_write_cb (sys_write peer)) (?fd, inp, out) =
      Some (ERIAK_OK, ?fd, inp, out @ req)"
    by (intro riak_write_peer) (simp add: w)
  have "snd (snd (rs_io st)) = out @ req"
    using read unfolding riak_read_def
    by (rule read_loop_io [where P = "\<lambda>io. snd (snd io) = out @ req"]) (auto dest: peer_read_out)
  then obtain fd inp' where io: "rs_io st = (fd, inp', out @ req)" by (cases "rs_io st") auto
  have "riak_operation_free (Some (rs_rop st)) (rs_mem st) =
      Some ((rs_mem st)\<lparr>mem_live := mem_live (rs_mem st) - set (rop_owned (rs_rop st))\<rparr>)"
    using mem_allocs_free_part(1) [OF m(2,1) refl] riak_operation_free_owned [OF c] by simp
  with wr read io mem_allocs_free_part(2) [OF m(2,1) refl] show ?thesis
    by (simp add: riak_sync_request_def riak_operation_set_cb_data_def)
qed

text \<open>
  The exchange is what handling the messages gives. Of the memory the operation took nothing is
  left; \<open>own\<close> are the blocks of the response.
\<close>

lemma riak_sync_request_exchange:
  fixes rop :: "('f riak_response, riak_decoder) riak_operation"
  assumes rop: "rop_position rop = 0" "\<not> rop_msglen_complete rop" "cfg_grants (rop_config rop)"
    and w: "\<And>out. riak_write rop write_all out = Some (ERIAK_OK, out @ req)"
    and len: "\<forall>(code, body) \<in> set ms. Suc (length body) < 2 ^ 32"
    and st: "st = \<lparr>rs_rop = rop\<lparr>rop_cb_data := Some (rop_at rop)\<rparr>, rs_done = False,
         rs_io = (riak_connection_get_fd cxn, frames ms @ beyond, out @ req), rs_mem = m, rs_trace = []\<rparr>"
    and recv: "receive_messages (up_error g) (riak_decode g) ms st = Some (e, st')" "e \<noteq> ERIAK_OK \<or> rs_done st'"
    and m: "mem_wf m0" "mem_allocs m0 (rop_owned (rs_rop st') @ own) (rs_mem st')"
    and c: "cfg_ok (rop_config (rs_rop st'))"
  shows "\<exists>m'. riak_sync_request peer g cxn rop response (frames ms @ beyond, out) m =
      Some (e, rop_response (rs_rop st'),
        (frames (unread_messages (up_error g) (riak_decode g) ms st) @ beyond, out @ req), m') \<and> mem_allocs m0 own m'"
proof -
  have b: "at_boundary st" and io: "(case rs_io st of (fd, inp, out) \<Rightarrow> inp) = frames ms @ beyond"
    and fresh: "st\<lparr>rs_done := False\<rparr> = st" and grants: "cfg_grants (rop_config (rs_rop st))"
    using rop by (simp_all add: at_boundary_def st)
  obtain n where n: "riak_read (riak_sync_read_cb (sys_read peer)) (up_error g) (riak_decode g) st =
      Some (e, st'\<lparr>rs_io := (riak_connection_get_fd cxn, drop n (frames ms @ beyond), out @ req)\<rparr>)"
    "drop n (frames ms @ beyond) = frames (unread_messages (up_error g) (riak_decode g) ms st) @ beyond"
    using peer_reader.riak_read_ended [OF b grants io len, of g] recv unfolding fresh by (auto simp: st)
  from riak_sync_request_reads [OF w n(1) [unfolded st] m(1), of own] m(2) c
  show ?thesis by (simp only: n(2)) simp
qed

subsection \<open>What an encoder leaves alone\<close>

text \<open>An operation without its request, the decoder and the copies of the names.\<close>

definition reader_part :: "('r, 'd) riak_operation \<Rightarrow> ('r, 'd) riak_operation" where
  "reader_part rop = rop\<lparr>rop_pb_request := None, rop_decoder := None, req_bucket_type := None, req_bucket := None,
     req_key := None, req_index := None\<rparr>"

lemma reader_part_updates [simp]:
  "reader_part (rop\<lparr>rop_pb_request := p\<rparr>) = reader_part rop" "reader_part (rop\<lparr>rop_decoder := d\<rparr>) = reader_part rop"
  "reader_part (rop\<lparr>req_bucket_type := b\<rparr>) = reader_part rop" "reader_part (rop\<lparr>req_bucket := b\<rparr>) = reader_part rop"
  "reader_part (rop\<lparr>req_key := b\<rparr>) = reader_part rop" "reader_part (rop\<lparr>req_index := b\<rparr>) = reader_part rop"
  by (simp_all add: reader_part_def)

lemma reader_part_fields:
    "rop_at (reader_part rop) = rop_at rop" "rop_config (reader_part rop) = rop_config rop"
    "rop_position (reader_part rop) = rop_position rop"
    "rop_msglen_complete (reader_part rop) = rop_msglen_complete rop"
    "rop_msgbuf (reader_part rop) = rop_msgbuf rop" "rop_response (reader_part rop) = rop_response rop"
    "rop_streaming (reader_part rop) = rop_streaming rop"
    "rop_response_cb (reader_part rop) = rop_response_cb rop"
    "rop_error_cb (reader_part rop) = rop_error_cb rop" "rop_error (reader_part rop) = rop_error rop"
  by (simp_all add: reader_part_def)

lemma reader_partD:
  assumes "reader_part rop' = reader_part rop"
  shows
    "rop_at rop' = rop_at rop" "rop_config rop' = rop_config rop" "rop_position rop' = rop_position rop"
    "rop_msglen_complete rop' = rop_msglen_complete rop" "rop_msgbuf rop' = rop_msgbuf rop"
    "rop_response rop' = rop_response rop" "rop_streaming rop' = rop_streaming rop"
    "rop_response_cb rop' = rop_response_cb rop" "rop_error_cb rop' = rop_error_cb rop"
    "rop_error rop' = rop_error rop"
  using assms by (metis reader_part_fields)+

named_theorems part_dest

lemma set_names_part [part_dest]:
  "riak_operation_set_bucket rop v m = Some (rop', m') \<Longrightarrow> reader_part rop' = reader_part rop"
  "riak_operation_set_bucket_type rop v m = Some (rop', m') \<Longrightarrow> reader_part rop' = reader_part rop"
  "riak_operation_set_key rop v m = Some (rop', m') \<Longrightarrow> reader_part rop' = reader_part rop"
  "riak_operation_set_index rop v m = Some (rop', m') \<Longrightarrow> reader_part rop' = reader_part rop"
  by (auto simp: riak_operation_set_bucket_def riak_operation_set_bucket_type_def riak_operation_set_key_def
      riak_operation_set_index_def split: bind_splits prod.splits)

lemma send_packed_then_part [part_dest]:
  "send_packed_then alloc oom cleanup code msglen packed decoder rop m = Some (e, rop', m') \<Longrightarrow>
   reader_part rop' = reader_part rop"
  by (auto simp: send_packed_then_def riak_operation_set_response_decoder_def Let_def
      split: bind_splits prod.splits option.splits if_splits)

lemma send_packed_part [part_dest]:
  "send_packed alloc oom code msglen packed decoder rop m = Some (e, rop', m') \<Longrightarrow> reader_part rop' = reader_part rop"
  unfolding send_packed_def by (rule send_packed_then_part)

lemma send_empty_part [part_dest]:
  "send_empty code decoder rop m = Some (e, rop', m') \<Longrightarrow> reader_part rop' = reader_part rop"
  by (auto simp: send_empty_def riak_operation_set_response_decoder_def split: prod.splits if_splits)

text \<open>Every encoder writes only the request, the decoder and the names.\<close>

lemma riak_get_request_part:
  "riak_get_request_encode api d rop bt b k opts m = Some (e, rop', m') \<Longrightarrow> reader_part rop' = reader_part rop"
  by (auto simp: riak_get_request_encode_def Let_def split: bind_splits prod.splits dest!: part_dest)

lemma riak_put_request_part:
  "riak_put_request_encode api ini ic d rop ob opts m = Some (e, rop', m') \<Longrightarrow> reader_part rop' = reader_part rop"
  by (auto simp: riak_put_request_encode_def Let_def split: bind_splits prod.splits if_splits dest!: part_dest)

lemma riak_delete_request_part:
  "riak_delete_request_encode api d rop bt b k opts m = Some (e, rop', m') \<Longrightarrow> reader_part rop' = reader_part rop"
  by (auto simp: riak_delete_request_encode_def Let_def split: bind_splits prod.splits dest!: part_dest)

lemma riak_2i_request_part:
  "riak_2i_request_encode api d rop bt b i opts m = Some (e, rop', m') \<Longrightarrow> reader_part rop' = reader_part rop"
  by (auto simp: riak_2i_request_encode_def Let_def split: bind_splits prod.splits dest!: part_dest)

lemma riak_search_request_part:
  "riak_search_request_encode api d rop b q opts m = Some (e, rop', m') \<Longrightarrow> reader_part rop' = reader_part rop"
  by (auto simp: riak_search_request_encode_def Let_def split: bind_splits prod.splits if_splits dest!: part_dest)

lemma riak_list_request_part:
  "riak_listkeys_request_encode lapi d rop bt b t m = Some (e, rop', m') \<Longrightarrow> reader_part rop' = reader_part rop"
  "riak_listbuckets_request_encode bapi d rop bt t m = Some (e, rop', m') \<Longrightarrow> reader_part rop' = reader_part rop"
  by (auto simp: riak_listkeys_request_encode_def riak_listbuckets_request_encode_def Let_def
      riak_operation_set_response_decoder_def
      split: bind_splits prod.splits if_splits option.splits dest!: part_dest)

subsection \<open>A synchronous call\<close>

definition fresh_operation :: "'a riak_connection \<Rightarrow> mem \<Rightarrow> ('r, 'd) riak_operation" where
  "fresh_operation c m = (operation_zero (mem_next m))\<lparr>rop_config := cxn_config c\<rparr>"

lemma fresh_operation_simps [simp]:
  "rop_at (fresh_operation c m) = mem_next m" "rop_config (fresh_operation c m) = cxn_config c"
  "rop_position (fresh_operation c m) = 0" "\<not> rop_msglen_complete (fresh_operation c m)"
  "rop_msgbuf (fresh_operation c m) = None" "rop_response (fresh_operation c m) = None"
  "\<not> rop_streaming (fresh_operation c m)" "rop_response_cb (fresh_operation c m) = None"
  "rop_error_cb (fresh_operation c m) = None" "rop_error (fresh_operation c m) = None"
  "req_bucket_type (fresh_operation c m) = None" "req_bucket (fresh_operation c m) = None"
  "req_key (fresh_operation c m) = None" "req_index (fresh_operation c m) = None"
  "rop_pb_request (fresh_operation c m) = None"
  by (simp_all add: fresh_operation_def operation_zero_def)

lemma riak_operation_new_fresh:
  "cfg_grants (cxn_config c) \<Longrightarrow>
   riak_operation_new (Some c) None None None m = Some (ERIAK_OK, Some (fresh_operation c m), mem_push m)"
  by (simp add: riak_operation_new_def riak_connection_get_config_def clean_allocate_eq allocate_granted
      fresh_operation_def operation_zero_def Let_def)

text \<open>
  A call whose encoder makes the operation \<open>rop\<close> and whose answer is the messages \<open>ms\<close>. \<open>xs\<close> is
  what the operation owns besides its own block, \<open>own\<close> what the response owns.
\<close>

lemma sync_call_exchange:
  assumes g: "cfg_grants (cxn_config c)" and m: "mem_wf m"
    and enc: "encode (fresh_operation c m) (mem_push m) = Some (ERIAK_OK, rop, m1)"
    and part: "reader_part rop = reader_part (fresh_operation c m)"
    and w: "\<And>out. riak_write rop write_all out = Some (ERIAK_OK, out @ req)"
    and len: "\<forall>(code, body) \<in> set ms. Suc (length body) < 2 ^ 32"
    and st: "st = \<lparr>rs_rop = rop\<lparr>rop_cb_data := Some (rop_at rop)\<rparr>, rs_done = False,
         rs_io = (cxn_fd c, frames ms @ beyond, out @ req), rs_mem = m1, rs_trace = []\<rparr>"
    and recv: "receive_messages (up_error gen) (riak_decode gen) ms st = Some (e, st')" "e \<noteq> ERIAK_OK \<or> rs_done st'"
    and own: "rop_config (rs_rop st') = cxn_config c" "mem_allocs m (rop_owned (rs_rop st') @ own) (rs_mem st')"
  shows "\<exists>m'. sync_call peer gen (Some c) encode response (frames ms @ beyond, out) m =
      Some (e, rop_response (rs_rop st'),
        (frames (unread_messages (up_error gen) (riak_decode gen) ms st) @ beyond, out @ req), m') \<and> mem_allocs m own m'"
proof -
  note p = reader_partD [OF part]
  have "\<exists>m'. riak_sync_request peer gen c rop response (frames ms @ beyond, out) m1 =
      Some (e, rop_response (rs_rop st'),
        (frames (unread_messages (up_error gen) (riak_decode gen) ms st) @ beyond, out @ req), m') \<and> mem_allocs m own m'"
    by (rule riak_sync_request_exchange [where rop = rop and m = m1, OF _ _ _ w len _ recv m own(2)])
      (use p g own(1) in \<open>simp_all add: riak_connection_get_fd_def st\<close>)
  then show ?thesis
    by (simp add: sync_call_def riak_operation_new_fresh [OF g] enc)
qed

text \<open>What the operation owns once its answer has been handled.\<close>

lemma handled_call_owned:
  assumes "reader_part rop = reader_part (fresh_operation c m)"
  shows "mset (rop_owned (handled resp (rop\<lparr>rop_cb_data := d\<rparr>))) =
    mset (mem_next m # (case rop_pb_request rop of None \<Rightarrow> [] | Some p \<Rightarrow> pbm_owned p) @
      bin.owned_p (req_bucket_type rop) @ bin.owned_p (req_bucket rop) @ bin.owned_p (req_key rop) @
      bin.owned_p (req_index rop))"
  using reader_partD [OF assms] by (simp add: rop_owned_def handled_def se.owned_p_def)

text \<open>The usual case: one message, which is the last one.\<close>

lemma sync_call_one_message:
  assumes g: "cfg_grants (cxn_config c)" and m: "mem_wf m"
    and enc: "encode (fresh_operation c m) (mem_push m) =
        Some (ERIAK_OK, rop\<lparr>rop_pb_request := Some p, rop_decoder := Some d\<rparr>, m1)"
    and part: "reader_part rop = reader_part (fresh_operation c m)"
    and w: "\<And>out. riak_write (rop\<lparr>rop_pb_request := Some p, rop_decoder := Some d\<rparr>) write_all out =
        Some (ERIAK_OK, out @ req)"
    and m1: "mem_allocs (mem_push m) (bin.owned_p (req_bucket_type rop) @ bin.owned_p (req_bucket rop) @
        bin.owned_p (req_key rop) @ bin.owned_p (req_index rop) @ pbm_owned p @ leak) m1"
    and code: "code \<noteq> 0" and len: "Suc (length body) < 2 ^ 32"
    and dec: "\<And>rop'. reader_part rop' = reader_part (arrived m1 code body (rop\<lparr>rop_cb_data := Some (mem_next m)\<rparr>)) \<Longrightarrow>
        req_bucket_type rop' = req_bucket_type rop \<Longrightarrow> req_bucket rop' = req_bucket rop \<Longrightarrow> req_key rop' = req_key rop \<Longrightarrow>
      \<exists>r m2. riak_decode gen d rop' (Some (arrived_msg m1 code body)) True (mem_push (mem_push m1)) =
        Some (ERIAK_OK, rop'\<lparr>rop_response := Some r\<rparr>, True, m2) \<and> mem_allocs (mem_push (mem_push m1)) (own r) m2 \<and> Q r"
  shows "\<exists>r m'. sync_call peer gen (Some c) encode response (frame code body @ beyond, out) m =
      Some (ERIAK_OK, Some r, (beyond, out @ req), m') \<and> mem_allocs m (own r @ leak) m' \<and> Q r"
proof -
  let ?rop = "rop\<lparr>rop_pb_request := Some p, rop_decoder := Some d\<rparr>"
  let ?a = "mem_next m1" and ?ropc = "?rop\<lparr>rop_cb_data := Some (rop_at ?rop)\<rparr>"
  let ?st = "\<lparr>rs_rop = ?ropc, rs_done = False, rs_io = (cxn_fd c, frames [(code, body)] @ beyond, out @ req), rs_mem = m1,
    rs_trace = []\<rparr>"
  note pt = reader_partD [OF part]
  have part': "reader_part ?rop = reader_part (fresh_operation c m)" using part by simp
  obtain r m2 where d: "riak_decode gen d (arrived m1 code body ?ropc) (Some (arrived_msg m1 code body)) True
      (mem_push (mem_push m1)) = Some (ERIAK_OK, (arrived m1 code body ?ropc)\<lparr>rop_response := Some r\<rparr>, True, m2)"
    and own: "mem_allocs (mem_push (mem_push m1)) (own r) m2" and Q: "Q r"
    using dec [of "arrived m1 code body ?ropc"] by (auto simp: arrived_def reader_part_def pt(1))
  have all: "mem_allocs m ([?a, Suc ?a] @ rop_owned (handled (Some r) ?ropc) @ own r @ leak) m2"
    by (rule mem_allocs_mset [OF mem_allocs_trans [OF mem_allocs_trans [OF mem_allocs_trans [OF mem_allocs_push m1]
          mem_allocs_trans [OF mem_allocs_push mem_allocs_push]] own]])
      (simp add: handled_call_owned [OF part'])
  let ?m3 = "m2\<lparr>mem_live := mem_live m2 - {?a, Suc ?a}\<rparr>"
  have "{?a, Suc ?a} \<subseteq> mem_live m2" using mem_allocs_live [OF all] by auto
  then have "receive_message (up_error gen) (riak_decode gen) code body ?st =
      Some (Some ERIAK_OK, ?st\<lparr>rs_rop := handled (Some r) ?ropc, rs_done := True, rs_mem := ?m3\<rparr>)"
    using receive_message_decodes [where st = ?st and d = d and decode = "riak_decode gen" and fin = True and m' = m2
        and resp = "Some r" and code = code and body = body and ue = "up_error gen"] d code len g
    by (simp add: pt)
  then have recv: "receive_messages (up_error gen) (riak_decode gen) [(code, body)] ?st =
      Some (ERIAK_OK, ?st\<lparr>rs_rop := handled (Some r) ?ropc, rs_done := True, rs_mem := ?m3\<rparr>)"
    and all_read: "unread_messages (up_error gen) (riak_decode gen) [(code, body)] ?st = []"
    by simp_all
  have left: "mem_allocs m (rop_owned (handled (Some r) ?ropc) @ own r @ leak) ?m3"
    using mem_allocs_free_part(2) [OF all m refl] by simp
  have len1: "\<forall>(code, body) \<in> set [(code, body)]. Suc (length body) < 2 ^ 32" using len by simp
  have "\<exists>m'. sync_call peer gen (Some c) encode response (frames [(code, body)] @ beyond, out) m =
      Some (ERIAK_OK, Some r, (frames [] @ beyond, out @ req), m') \<and> mem_allocs m (own r @ leak) m'"
    using sync_call_exchange [where encode = encode and response = response, OF g m enc part' w len1 refl recv] left pt
    by (simp only: all_read) (simp add: handled_simps)
  with Q show ?thesis by (intro exI [of _ r]) simp
qed

text \<open>With \<open>leak\<close>, the blocks the encoder leaves behind.\<close>

lemma sync_call_leaks:
  assumes g: "cfg_grants (cxn_config c)" and m: "mem_wf m"
    and part: "reader_part rop = reader_part (fresh_operation c m)"
    and names: "mem_allocs (mem_push m) (bin.owned_p (req_bucket_type rop) @ bin.owned_p (req_bucket rop) @
        bin.owned_p (req_key rop) @ bin.owned_p (req_index rop) @ leak) m1"
    and enc: "sends req_code req d rop m1 (encode (fresh_operation c m) (mem_push m))"
    and code: "code \<noteq> 0" and len: "Suc (length body) < 2 ^ 32"
    and dec: "\<And>rop' m1. rop_config rop' = cxn_config c \<Longrightarrow> rop_response rop' = None \<Longrightarrow> \<not> rop_streaming rop' \<Longrightarrow>
        req_bucket_type rop' = req_bucket_type rop \<Longrightarrow> req_bucket rop' = req_bucket rop \<Longrightarrow> req_key rop' = req_key rop \<Longrightarrow>
      \<exists>r m2. riak_decode gen d rop' (Some (arrived_msg m1 code body)) True (mem_push (mem_push m1)) =
        Some (ERIAK_OK, rop'\<lparr>rop_response := Some r\<rparr>, True, m2) \<and> mem_allocs (mem_push (mem_push m1)) (own r) m2 \<and> Q r"
  shows "\<exists>r m'. sync_call peer gen (Some c) encode response (frame code body @ beyond, out) m =
      Some (ERIAK_OK, Some r, (beyond, out @ frame req_code req), m') \<and> mem_allocs m (own r @ leak) m' \<and> Q r"
proof -
  obtain p m2 where p: "encode (fresh_operation c m) (mem_push m) =
      Some (ERIAK_OK, rop\<lparr>rop_pb_request := Some p, rop_decoder := Some d\<rparr>, m2)" "mem_allocs m1 (pbm_owned p) m2"
    "\<forall>out. riak_write (rop\<lparr>rop_pb_request := Some p, rop_decoder := Some d\<rparr>) write_all out =
      Some (ERIAK_OK, out @ frame req_code req)"
    using enc unfolding sends_def by blast
  note pt = reader_partD [OF part]
  show ?thesis
  proof (rule sync_call_one_message [where rop = rop and p = p and d = d and ?m1.0 = m2 and encode = encode, OF g m p(1) part _ _ code len])
    show "mem_allocs (mem_push m) (bin.owned_p (req_bucket_type rop) @ bin.owned_p (req_bucket rop) @
        bin.owned_p (req_key rop) @ bin.owned_p (req_index rop) @ pbm_owned p @ leak) m2"
      by (rule mem_allocs_mset [OF mem_allocs_trans [OF names p(2)]]) simp
    fix rop' assume r: "reader_part rop' = reader_part (arrived m2 code body (rop\<lparr>rop_cb_data := Some (mem_next m)\<rparr>))"
      and n: "req_bucket_type rop' = req_bucket_type rop" "req_bucket rop' = req_bucket rop" "req_key rop' = req_key rop"
    show "\<exists>r m3. riak_decode gen d rop' (Some (arrived_msg m2 code body)) True (mem_push (mem_push m2)) =
        Some (ERIAK_OK, rop'\<lparr>rop_response := Some r\<rparr>, True, m3) \<and> mem_allocs (mem_push (mem_push m2)) (own r) m3 \<and> Q r"
      using reader_partD [OF r] pt n by (intro dec) simp_all
  qed (use p(3) in simp)
qed

lemma sync_call_sends:
  assumes g: "cfg_grants (cxn_config c)" and m: "mem_wf m"
    and part: "reader_part rop = reader_part (fresh_operation c m)"
    and names: "mem_allocs (mem_push m) (bin.owned_p (req_bucket_type rop) @ bin.owned_p (req_bucket rop) @
        bin.owned_p (req_key rop) @ bin.owned_p (req_index rop)) m1"
    and enc: "sends req_code req d rop m1 (encode (fresh_operation c m) (mem_push m))"
    and code: "code \<noteq> 0" and len: "Suc (length body) < 2 ^ 32"
    and dec: "\<And>rop' m1. rop_config rop' = cxn_config c \<Longrightarrow> rop_response rop' = None \<Longrightarrow> \<not> rop_streaming rop' \<Longrightarrow>
        req_bucket_type rop' = req_bucket_type rop \<Longrightarrow> req_bucket rop' = req_bucket rop \<Longrightarrow> req_key rop' = req_key rop \<Longrightarrow>
      \<exists>r m2. riak_decode gen d rop' (Some (arrived_msg m1 code body)) True (mem_push (mem_push m1)) =
        Some (ERIAK_OK, rop'\<lparr>rop_response := Some r\<rparr>, True, m2) \<and> mem_allocs (mem_push (mem_push m1)) (own r) m2 \<and> Q r"
  shows "\<exists>r m'. sync_call peer gen (Some c) encode response (frame code body @ beyond, out) m =
      Some (ERIAK_OK, Some r, (beyond, out @ frame req_code req), m') \<and> mem_allocs m (own r) m' \<and> Q r"
  by (rule sync_call_leaks [where leak = "[]" and rop = rop and d = d and own = own and Q = Q and encode = encode and c = c and m = m, unfolded append_Nil2,
      OF g m part names enc code len]) (rule dec; assumption)

lemma mem_allocs_returned: "mem_allocs m xs m' \<Longrightarrow> mem_allocs m [] (m'\<lparr>mem_live := mem_live m\<rparr>)"
  by (simp add: mem_allocs_def)

text \<open>A ping leaves no memory behind.\<close>

lemma riak_ping_answered:
  fixes gen :: "'f generated"
  assumes g: "cfg_grants (cxn_config c)" and m: "mem_wf m" and code: "code \<noteq> 0" and len: "Suc (length body) < 2 ^ 32"
  shows "\<exists>m'. riak_ping peer gen (Some c) (frame code body @ beyond, out) m =
      Some (ERIAK_OK, (beyond, out @ frame MSG_RPBPINGREQ []), m') \<and> mem_allocs m [] m'"
proof -
  let ?own = "\<lambda>r. case r of PingResponse p \<Rightarrow> [ping_at p] | _ \<Rightarrow> []"
  have "\<exists>r m'. sync_call peer gen (Some c) (riak_ping_request_encode DecodePing) None (frame code body @ beyond, out) m =
      Some (ERIAK_OK, Some r, (beyond, out @ frame MSG_RPBPINGREQ []), m') \<and> mem_allocs m (?own r) m' \<and>
      (\<exists>a. r = PingResponse \<lparr>ping_at = a, ping_success = True\<rparr>)"
  proof (rule sync_call_sends [OF g m refl _ _ code len])
    fix rop' :: "('f riak_response, riak_decoder) riak_operation" and m1 :: mem
    assume r: "rop_config rop' = cxn_config c" "rop_response rop' = None"
    let ?p = "PingResponse \<lparr>ping_at = mem_next (mem_push (mem_push m1)), ping_success = True\<rparr>"
    have "mem_allocs (mem_push (mem_push m1)) (?own ?p) (mem_push (mem_push (mem_push m1)))"
      by (simp only: riak_response.case riak_ping_response.select_convs) (rule mem_allocs_push)
    with r g show "\<exists>r m2. riak_decode gen DecodePing rop' (Some (arrived_msg m1 code body)) True (mem_push (mem_push m1)) =
        Some (ERIAK_OK, rop'\<lparr>rop_response := Some r\<rparr>, True, m2) \<and> mem_allocs (mem_push (mem_push m1)) (?own r) m2 \<and>
        (\<exists>a. r = PingResponse \<lparr>ping_at = a, ping_success = True\<rparr>)"
      by (intro exI [of _ ?p]) (simp add: riak_decode_def decode_into_def riak_ping_response_decode_def
          riak_operation_get_config_def cfg_malloc_eq allocate_granted)
  qed (use g in \<open>auto simp: riak_ping_request_encode_def intro: send_empty_sends\<close>)
  then obtain a m' where r: "sync_call peer gen (Some c) (riak_ping_request_encode DecodePing) None
      (frame code body @ beyond, out) m =
      Some (ERIAK_OK, Some (PingResponse \<lparr>ping_at = a, ping_success = True\<rparr>), (beyond, out @ frame MSG_RPBPINGREQ []), m')"
    "mem_allocs m [a] m'" by auto
  with mem_allocs_free_all [OF r(2) m refl] mem_allocs_returned [OF r(2)] show ?thesis
    by (simp add: riak_ping_def riak_connection_get_config_def riak_free_ptrs [OF cfg_grants_ok [OF g]])
qed

text \<open>
  A get: the names and options that were given go out in one frame, and whatever the code of the
  answer (if it is not an error) its message becomes the response.
\<close>

text \<open>An object with the names of an operation that has a bucket and a key can be stored again.\<close>

lemma named_storable:
  assumes "object_wf ob" "named_by rop ob" "rop_names rop = (t, Some b, Some k)"
  shows "storable ob \<and> obj_has_key ob \<and> map_option bin_bytes (obj_bucket_type ob) = t \<and>
    map_option bin_bytes (obj_bucket ob) = Some b \<and> map_option bin_bytes (obj_key ob) = Some k"
  using assms
  by (auto simp: named_by_def rop_names_def storable_def ptr_wf_def split: option.splits)

lemma riak_get_answered_objects:
  fixes gen :: "'f generated"
  assumes g: "cfg_grants (cxn_config c)" and m: "mem_wf m" and code: "code \<noteq> 0" and len: "Suc (length body) < 2 ^ 32"
    and ini: "rgq_empty (pb_init api)"
    and wf: "pred_option bin_wf bucket_type" "bin_wf b" "bin_wf k" "pred_option gopt_wf options"
    and pb: "\<And>a. up_get gen a body = Some pb" "rgr_wf pb"
  shows "\<exists>msg. pbb_bytes (rgq_bucket msg) = bin_bytes b \<and> pbb_bytes (rgq_key msg) = bin_bytes k \<and>
    map_option pbb_bytes (field_opt (rgq_type msg)) = map_option bin_bytes bucket_type \<and> get_says options msg \<and>
    (packs api msg \<longrightarrow> (\<exists>r m'.
       riak_get peer gen api (Some c) bucket_type (Some b) (Some k) options response (frame code body @ beyond, out) m =
         Some (ERIAK_OK, Some (GetResponse r), (beyond, out @ frame MSG_RPBGETREQ (pb_pack api msg)), m') \<and>
       gr_ok r \<and> mem_allocs m (gr_owned r) m' \<and>
       map_option bin_bytes (riak_get_get_vclock r) = map_option pbb_bytes (field_opt (rgr_vclock pb)) \<and>
       int_count (riak_get_get_n_content r) = unat (rgr_n_content pb) \<and>
       map object_content (arr_elems (riak_get_get_content r) (unat (rgr_n_content pb))) =
         map rpb_content_of (arr_elems (rgr_content pb) (unat (rgr_n_content pb))) \<and>
       (\<forall>ob \<in> set (arr_elems (riak_get_get_content r) (unat (rgr_n_content pb))).
         storable ob \<and> obj_has_key ob \<and>
         map_option bin_bytes (obj_bucket_type ob) = map_option bin_bytes bucket_type \<and>
         map_option bin_bytes (obj_bucket ob) = Some (bin_bytes b) \<and>
         map_option bin_bytes (obj_key ob) = Some (bin_bytes k))))"
proof -
  let ?rop0 = "fresh_operation c m :: ('f riak_response, riak_decoder) riak_operation"
  have g0: "cfg_grants (rop_config ?rop0)" using g by simp
  have m0: "mem_wf (mem_push m)" using mem_allocs_wf [OF mem_allocs_push m] .
  obtain msg rop m1 where msg: "pbb_bytes (rgq_bucket msg) = bin_bytes b" "pbb_bytes (rgq_key msg) = bin_bytes k"
    "map_option pbb_bytes (field_opt (rgq_type msg)) = map_option bin_bytes bucket_type" "get_says options msg"
    and names: "rop_names rop = (map_option bin_bytes bucket_type, Some (bin_bytes b), Some (bin_bytes k))"
    "pred_option bin_wf (req_bucket_type rop)" "pred_option bin_wf (req_bucket rop)" "pred_option bin_wf (req_key rop)"
    "req_index rop = None"
    and al: "mem_allocs (mem_push m) (bin.owned_p (req_bucket_type rop) @ bin.owned_p (req_bucket rop) @
      bin.owned_p (req_key rop)) m1"
    and s: "packs api msg \<Longrightarrow> sends MSG_RPBGETREQ (pb_pack api msg) DecodeGet rop m1
       (riak_get_request_encode api DecodeGet ?rop0 bucket_type (Some b) (Some k) options (mem_push m))"
    using riak_get_request_sends [OF g0 m0 ini wf, of DecodeGet] by auto
  let ?own = "\<lambda>r. case r of GetResponse x \<Rightarrow> gr_owned x | _ \<Rightarrow> []"
  let ?Q = "\<lambda>r. gr_ok r \<and> map_option bin_bytes (riak_get_get_vclock r) = map_option pbb_bytes (field_opt (rgr_vclock pb)) \<and>
       int_count (riak_get_get_n_content r) = unat (rgr_n_content pb) \<and>
       map object_content (arr_elems (riak_get_get_content r) (unat (rgr_n_content pb))) =
         map rpb_content_of (arr_elems (rgr_content pb) (unat (rgr_n_content pb))) \<and>
       (\<forall>ob \<in> set (arr_elems (riak_get_get_content r) (unat (rgr_n_content pb))). object_wf ob \<and> named_by rop ob)"
  have "\<exists>r m'. sync_call peer gen (Some c) (\<lambda>rop. riak_get_request_encode api DecodeGet rop bucket_type (Some b)
        (Some k) options) response (frame code body @ beyond, out) m =
      Some (ERIAK_OK, Some r, (beyond, out @ frame MSG_RPBGETREQ (pb_pack api msg)), m') \<and> mem_allocs m (?own r) m' \<and>
      (\<exists>x. r = GetResponse x \<and> ?Q x)" if p: "packs api msg"
  proof (rule sync_call_sends [OF g m _ _ _ code len])
    show "reader_part rop = reader_part ?rop0"
      using s [OF p] by (auto simp: sends_def dest: riak_get_request_part)
    fix rop' :: "('f riak_response, riak_decoder) riak_operation" and m1 :: mem
    assume r: "rop_config rop' = cxn_config c" "rop_response rop' = None" "req_bucket_type rop' = req_bucket_type rop"
      "req_bucket rop' = req_bucket rop" "req_key rop' = req_key rop"
    have "named_by rop' = named_by rop" by (simp add: named_by_def r fun_eq_iff)
    with riak_get_response_decode_ok [of rop' "Some (arrived_msg m1 code body)" body "up_get gen"
        "mem_push (mem_push m1)" pb None True] g r names pb len
    obtain x m2 where x: "riak_get_response_decode (up_get gen) rop' (Some (arrived_msg m1 code body)) None True
        (mem_push (mem_push m1)) = Some (ERIAK_OK, Some x, True, m2)"
      "mem_allocs (mem_push (mem_push m1)) (gr_owned x) m2" "?Q x" by auto
    then show "\<exists>r m2. riak_decode gen DecodeGet rop' (Some (arrived_msg m1 code body)) True (mem_push (mem_push m1)) =
        Some (ERIAK_OK, rop'\<lparr>rop_response := Some r\<rparr>, True, m2) \<and> mem_allocs (mem_push (mem_push m1)) (?own r) m2 \<and>
        (\<exists>x. r = GetResponse x \<and> ?Q x)"
      by (intro exI [of _ "GetResponse x"]) (simp add: riak_decode_def decode_into_def r)
  qed (use al names s [OF p] in simp_all)
  then have "packs api msg \<longrightarrow> (\<exists>r m'.
       riak_get peer gen api (Some c) bucket_type (Some b) (Some k) options response (frame code body @ beyond, out) m =
         Some (ERIAK_OK, Some (GetResponse r), (beyond, out @ frame MSG_RPBGETREQ (pb_pack api msg)), m') \<and>
       mem_allocs m (gr_owned r) m' \<and> ?Q r)"
    unfolding riak_get_def by fastforce
  moreover have "storable ob \<and> obj_has_key ob \<and>
      map_option bin_bytes (obj_bucket_type ob) = map_option bin_bytes bucket_type \<and>
      map_option bin_bytes (obj_bucket ob) = Some (bin_bytes b) \<and> map_option bin_bytes (obj_key ob) = Some (bin_bytes k)"
    if "object_wf ob" "named_by rop ob" for ob
    using that names(1) by (rule named_storable)
  ultimately show ?thesis using msg by (intro exI [of _ msg]) (auto; fastforce)
qed

lemma riak_get_answered:
  fixes gen :: "'f generated"
  assumes g: "cfg_grants (cxn_config c)" and m: "mem_wf m" and code: "code \<noteq> 0" and len: "Suc (length body) < 2 ^ 32"
    and ini: "rgq_empty (pb_init api)"
    and wf: "pred_option bin_wf bucket_type" "bin_wf b" "bin_wf k" "pred_option gopt_wf options"
    and pb: "\<And>a. up_get gen a body = Some pb" "rgr_wf pb"
  shows "\<exists>msg. pbb_bytes (rgq_bucket msg) = bin_bytes b \<and> pbb_bytes (rgq_key msg) = bin_bytes k \<and>
    map_option pbb_bytes (field_opt (rgq_type msg)) = map_option bin_bytes bucket_type \<and> get_says options msg \<and>
    (packs api msg \<longrightarrow> (\<exists>r m'.
       riak_get peer gen api (Some c) bucket_type (Some b) (Some k) options response (frame code body @ beyond, out) m =
         Some (ERIAK_OK, Some (GetResponse r), (beyond, out @ frame MSG_RPBGETREQ (pb_pack api msg)), m') \<and>
       gr_ok r \<and> mem_allocs m (gr_owned r) m' \<and>
       map_option bin_bytes (riak_get_get_vclock r) = map_option pbb_bytes (field_opt (rgr_vclock pb)) \<and>
       int_count (riak_get_get_n_content r) = unat (rgr_n_content pb) \<and>
       map object_content (arr_elems (riak_get_get_content r) (unat (rgr_n_content pb))) =
         map rpb_content_of (arr_elems (rgr_content pb) (unat (rgr_n_content pb))) \<and>
       (\<forall>ob \<in> set (arr_elems (riak_get_get_content r) (unat (rgr_n_content pb))).
         map_option bin_bytes (obj_bucket_type ob) = map_option bin_bytes bucket_type \<and>
         map_option bin_bytes (obj_bucket ob) = Some (bin_bytes b) \<and>
         map_option bin_bytes (obj_key ob) = Some (bin_bytes k))))"
proof -
  from riak_get_answered_objects [where gen = gen and c = c and m = m and response = response and out = out and
      beyond = beyond, OF g m code len ini wf pb]
  show ?thesis by (elim ex_forward conj_forward imp_forward) (assumption | simp)+
qed

text \<open>The encoders that keep no names.\<close>

lemmas sync_call_nameless = sync_call_sends [OF _ _ refl]

lemma riak_put_answered:
  fixes gen :: "'f generated"
  assumes g: "cfg_grants (cxn_config c)" and m: "mem_wf m" and code: "code \<noteq> 0" and len: "Suc (length body) < 2 ^ 32"
    and ini: "rpq_empty (pb_init api)" "inits_empty ini" "rpc_empty init_content"
    and ob: "storable ob" "pred_option popt_wf options"
    and pb: "\<And>a. up_put gen a body = Some pb" "rpr_wf pb"
  shows "\<exists>msg. pbb_bytes (rpq_bucket msg) = ptr_bytes (obj_bucket ob) \<and>
    map_option pbb_bytes (field_opt (rpq_key msg)) = when_flag (obj_has_key ob) (ptr_bytes (obj_key ob)) \<and>
    rpb_content_of (rpq_content msg) = object_content ob \<and> put_says (pb_init api) options msg \<and>
    (packs api msg \<longrightarrow> (\<exists>r m'.
       riak_put peer gen api ini init_content (Some c) (Some ob) options response (frame code body @ beyond, out) m =
         Some (ERIAK_OK, Some (PutResponse r), (beyond, out @ frame MSG_RPBPUTREQ (pb_pack api msg)), m') \<and>
       pr_ok r \<and> mem_allocs m (pr_owned r) m' \<and>
       map_option bin_bytes (riak_put_get_vclock r) = map_option pbb_bytes (field_opt (rpr_vclock pb)) \<and>
       map_option bin_bytes (riak_put_get_key r) = map_option pbb_bytes (field_opt (rpr_key pb)) \<and>
       map object_content (arr_elems (riak_put_get_content r) (unat (rpr_n_content pb))) =
         map rpb_content_of (arr_elems (rpr_content pb) (unat (rpr_n_content pb)))))"
proof -
  let ?rop0 = "fresh_operation c m :: ('f riak_response, riak_decoder) riak_operation"
  have g0: "cfg_grants (rop_config ?rop0)" using g by simp
  have m0: "mem_wf (mem_push m)" using mem_allocs_wf [OF mem_allocs_push m] .
  obtain msg where msg: "pbb_bytes (rpq_bucket msg) = ptr_bytes (obj_bucket ob)"
    "map_option pbb_bytes (field_opt (rpq_key msg)) = when_flag (obj_has_key ob) (ptr_bytes (obj_key ob))"
    "rpb_content_of (rpq_content msg) = object_content ob" "put_says (pb_init api) options msg"
    and s: "packs api msg \<Longrightarrow> sends MSG_RPBPUTREQ (pb_pack api msg) DecodePut ?rop0 (mem_push m)
       (riak_put_request_encode api ini init_content DecodePut ?rop0 (Some ob) options (mem_push m))"
    using riak_put_request_sends [OF g0 m0 ini ob, of DecodePut] by auto
  let ?own = "\<lambda>r. case r of PutResponse x \<Rightarrow> pr_owned x | _ \<Rightarrow> []"
  let ?Q = "\<lambda>r. pr_ok r \<and> map_option bin_bytes (riak_put_get_vclock r) = map_option pbb_bytes (field_opt (rpr_vclock pb)) \<and>
       map_option bin_bytes (riak_put_get_key r) = map_option pbb_bytes (field_opt (rpr_key pb)) \<and>
       map object_content (arr_elems (riak_put_get_content r) (unat (rpr_n_content pb))) =
         map rpb_content_of (arr_elems (rpr_content pb) (unat (rpr_n_content pb)))"
  have "\<exists>r m'. sync_call peer gen (Some c) (\<lambda>rop. riak_put_request_encode api ini init_content DecodePut rop (Some ob)
        options) response (frame code body @ beyond, out) m =
      Some (ERIAK_OK, Some r, (beyond, out @ frame MSG_RPBPUTREQ (pb_pack api msg)), m') \<and> mem_allocs m (?own r) m' \<and>
      (\<exists>x. r = PutResponse x \<and> ?Q x)" if p: "packs api msg"
  proof (rule sync_call_nameless [OF g m _ _ code len])
    fix rop' :: "('f riak_response, riak_decoder) riak_operation" and m1 :: mem
    assume r: "rop_config rop' = cxn_config c" "rop_response rop' = None"
    with riak_put_response_decode_ok [of rop' "Some (arrived_msg m1 code body)" body "up_put gen"
        "mem_push (mem_push m1)" pb None True] g pb len
    obtain x m2 where x: "riak_put_response_decode (up_put gen) rop' (Some (arrived_msg m1 code body)) None True
        (mem_push (mem_push m1)) = Some (ERIAK_OK, Some x, True, m2)"
      "mem_allocs (mem_push (mem_push m1)) (pr_owned x) m2" "?Q x" by auto
    then show "\<exists>r m2. riak_decode gen DecodePut rop' (Some (arrived_msg m1 code body)) True (mem_push (mem_push m1)) =
        Some (ERIAK_OK, rop'\<lparr>rop_response := Some r\<rparr>, True, m2) \<and> mem_allocs (mem_push (mem_push m1)) (?own r) m2 \<and>
        (\<exists>x. r = PutResponse x \<and> ?Q x)"
      by (intro exI [of _ "PutResponse x"]) (simp add: riak_decode_def decode_into_def r)
  qed (use s [OF p] in simp_all)
  then have "packs api msg \<longrightarrow> (\<exists>r m'.
       riak_put peer gen api ini init_content (Some c) (Some ob) options response (frame code body @ beyond, out) m =
         Some (ERIAK_OK, Some (PutResponse r), (beyond, out @ frame MSG_RPBPUTREQ (pb_pack api msg)), m') \<and>
       mem_allocs m (pr_owned r) m' \<and> ?Q r)"
    unfolding riak_put_def by fastforce
  with msg show ?thesis by (intro exI [of _ msg]) (auto; fastforce)
qed

text \<open>A call whose answer has no content: the response is one block, and a call that frees it gives back all memory.\<close>

lemma sync_call_acked:
  fixes gen :: "'f generated"
  assumes g: "cfg_grants (cxn_config c)" and m: "mem_wf m" and code: "code \<noteq> 0" and len: "Suc (length body) < 2 ^ 32"
    and s: "sends req_code req d (fresh_operation c m) (mem_push m) (encode (fresh_operation c m) (mem_push m))"
    and d: "\<And>rop pb fin m. riak_decode gen d rop pb fin m = decode_into as_ack AckResponse (\<lambda>r. ack_decode elt rop r m) rop"
  shows "\<exists>a m'. sync_call peer gen (Some c) encode response (frame code body @ beyond, out) m =
      Some (ERIAK_OK, Some (AckResponse \<lparr>ack_at = a\<rparr>), (beyond, out @ frame req_code req), m') \<and> mem_allocs m [a] m'"
proof -
  let ?own = "\<lambda>r. case r of AckResponse a \<Rightarrow> [ack_at a] | _ \<Rightarrow> []"
  have "\<exists>r m'. sync_call peer gen (Some c) encode response (frame code body @ beyond, out) m =
      Some (ERIAK_OK, Some r, (beyond, out @ frame req_code req), m') \<and> mem_allocs m (?own r) m' \<and>
      (\<exists>a. r = AckResponse \<lparr>ack_at = a\<rparr>)"
  proof (rule sync_call_nameless [where encode = encode, OF g m _ s code len])
    fix rop' :: "('f riak_response, riak_decoder) riak_operation" and m1 :: mem
    assume r: "rop_config rop' = cxn_config c" "rop_response rop' = None"
    let ?p = "AckResponse \<lparr>ack_at = mem_next (mem_push (mem_push m1))\<rparr>"
    have "mem_allocs (mem_push (mem_push m1)) (?own ?p) (mem_push (mem_push (mem_push m1)))"
      by (simp only: riak_response.case riak_ack.select_convs) (rule mem_allocs_push)
    with r g show "\<exists>r m2. riak_decode gen d rop' (Some (arrived_msg m1 code body)) True (mem_push (mem_push m1)) =
        Some (ERIAK_OK, rop'\<lparr>rop_response := Some r\<rparr>, True, m2) \<and> mem_allocs (mem_push (mem_push m1)) (?own r) m2 \<and>
        (\<exists>a. r = AckResponse \<lparr>ack_at = a\<rparr>)"
      by (intro exI [of _ ?p]) (simp add: d decode_into_def ack_decode_def riak_operation_get_config_def
          cfg_malloc_eq allocate_granted)
  qed simp
  then show ?thesis by auto
qed

lemma sync_ack_answered:
  fixes gen :: "'f generated"
  assumes g: "cfg_grants (cxn_config c)" and m: "mem_wf m" and code: "code \<noteq> 0" and len: "Suc (length body) < 2 ^ 32"
    and s: "sends req_code req d (fresh_operation c m) (mem_push m) (encode (fresh_operation c m) (mem_push m))"
    and d: "\<And>rop pb fin m. riak_decode gen d rop pb fin m = decode_into as_ack AckResponse (\<lambda>r. ack_decode elt rop r m) rop"
    and f: "release = ack_free"
  shows "\<exists>m'. sync_ack release (Some c) (sync_call peer gen (Some c) encode None (frame code body @ beyond, out) m) =
      Some (ERIAK_OK, (beyond, out @ frame req_code req), m') \<and> mem_allocs m [] m'"
proof -
  obtain a m' where r: "sync_call peer gen (Some c) encode None (frame code body @ beyond, out) m =
      Some (ERIAK_OK, Some (AckResponse \<lparr>ack_at = a\<rparr>), (beyond, out @ frame req_code req), m')" "mem_allocs m [a] m'"
    using sync_call_acked [where encode = encode, OF g m code len s d] by blast
  with mem_allocs_free_all [OF r(2) m refl] mem_allocs_returned [OF r(2)] show ?thesis
    by (simp add: sync_ack_def f ack_free_def riak_connection_get_config_def riak_free_ptrs [OF cfg_grants_ok [OF g]])
qed

lemma riak_delete_answered:
  fixes gen :: "'f generated"
  assumes g: "cfg_grants (cxn_config c)" and m: "mem_wf m" and code: "code \<noteq> 0" and len: "Suc (length body) < 2 ^ 32"
    and ini: "rdr_empty (pb_init api)"
    and wf: "pred_option bin_wf bucket_type" "bin_wf b" "bin_wf k" "pred_option dopt_wf options"
  shows "\<exists>msg. pbb_bytes (rdr_bucket msg) = bin_bytes b \<and> pbb_bytes (rdr_key msg) = bin_bytes k \<and>
    map_option pbb_bytes (field_opt (rdr_type msg)) = map_option bin_bytes bucket_type \<and> delete_says options msg \<and>
    (packs api msg \<longrightarrow> (\<exists>m'.
       riak_delete peer gen api (Some c) bucket_type (Some b) (Some k) options (frame code body @ beyond, out) m =
         Some (ERIAK_OK, (beyond, out @ frame MSG_RPBDELREQ (pb_pack api msg)), m') \<and> mem_allocs m [] m'))"
proof -
  let ?rop0 = "fresh_operation c m :: ('f riak_response, riak_decoder) riak_operation"
  have g0: "cfg_grants (rop_config ?rop0)" using g by simp
  have m0: "mem_wf (mem_push m)" using mem_allocs_wf [OF mem_allocs_push m] .
  obtain msg where msg: "pbb_bytes (rdr_bucket msg) = bin_bytes b" "pbb_bytes (rdr_key msg) = bin_bytes k"
    "map_option pbb_bytes (field_opt (rdr_type msg)) = map_option bin_bytes bucket_type" "delete_says options msg"
    and s: "packs api msg \<Longrightarrow> sends MSG_RPBDELREQ (pb_pack api msg) DecodeDelete ?rop0 (mem_push m)
       (riak_delete_request_encode api DecodeDelete ?rop0 bucket_type (Some b) (Some k) options (mem_push m))"
    using riak_delete_request_sends [OF g0 m0 ini wf, of DecodeDelete] by auto
  have "\<exists>m'. riak_delete peer gen api (Some c) bucket_type (Some b) (Some k) options (frame code body @ beyond, out) m =
         Some (ERIAK_OK, (beyond, out @ frame MSG_RPBDELREQ (pb_pack api msg)), m') \<and> mem_allocs m [] m'"
    if "packs api msg"
    unfolding riak_delete_def
    by (rule sync_ack_answered [where elt = "''riak_delete_response''" and d = DecodeDelete and
        encode = "\<lambda>rop. riak_delete_request_encode api DecodeDelete rop bucket_type (Some b) (Some k) options",
        OF g m code len s [OF that]])
      (simp_all add: riak_decode_def riak_delete_response_decode_def riak_delete_response_free_def fun_eq_iff)
  with msg show ?thesis by blast
qed

text \<open>A connection is asked for the server's node and version.\<close>

lemma riak_serverinfo_answered:
  fixes gen :: "'f generated"
  assumes g: "cfg_grants (cxn_config c)" and m: "mem_wf m" and code: "code \<noteq> 0" and len: "Suc (length body) < 2 ^ 32"
    and pb: "\<And>a. up_serverinfo gen a body = Some pb" "fst (rsi_node pb) \<Longrightarrow> pbb_wf (snd (rsi_node pb))"
      "fst (rsi_server_version pb) \<Longrightarrow> pbb_wf (snd (rsi_server_version pb))"
  shows "\<exists>r m'. riak_serverinfo peer gen (Some c) response (frame code body @ beyond, out) m =
      Some (ERIAK_OK, Some (ServerinfoResponse r), (beyond, out @ frame MSG_RPBGETSERVERINFOREQ []), m') \<and>
    mem_allocs m (si_owned r) m' \<and>
    map_option bin_bytes (riak_serverinfo_get_node r) = map_option pbb_bytes (field_opt (rsi_node pb)) \<and>
    map_option bin_bytes (riak_serverinfo_get_server_version r) =
      map_option pbb_bytes (field_opt (rsi_server_version pb))"
proof -
  let ?own = "\<lambda>r. case r of ServerinfoResponse x \<Rightarrow> si_owned x | _ \<Rightarrow> []"
  let ?Q = "\<lambda>r. map_option bin_bytes (riak_serverinfo_get_node r) = map_option pbb_bytes (field_opt (rsi_node pb)) \<and>
    map_option bin_bytes (riak_serverinfo_get_server_version r) =
      map_option pbb_bytes (field_opt (rsi_server_version pb))"
  have "\<exists>r m'. sync_call peer gen (Some c) (riak_serverinfo_request_encode DecodeServerinfo) response
        (frame code body @ beyond, out) m =
      Some (ERIAK_OK, Some r, (beyond, out @ frame MSG_RPBGETSERVERINFOREQ []), m') \<and> mem_allocs m (?own r) m' \<and>
      (\<exists>x. r = ServerinfoResponse x \<and> ?Q x)"
  proof (rule sync_call_nameless [OF g m _ _ code len])
    fix rop' :: "('f riak_response, riak_decoder) riak_operation" and m1 :: mem
    assume r: "rop_config rop' = cxn_config c" "rop_response rop' = None"
    with riak_serverinfo_response_decode_ok [of rop' "Some (arrived_msg m1 code body)" body "up_serverinfo gen"
        "mem_push (mem_push m1)" pb None True] g pb len
    obtain x m2 where x: "riak_serverinfo_response_decode (up_serverinfo gen) rop' (Some (arrived_msg m1 code body)) None True
        (mem_push (mem_push m1)) = Some (ERIAK_OK, Some x, True, m2)"
      "mem_allocs (mem_push (mem_push m1)) (si_owned x) m2" "?Q x" by auto
    then show "\<exists>r m2. riak_decode gen DecodeServerinfo rop' (Some (arrived_msg m1 code body)) True (mem_push (mem_push m1)) =
        Some (ERIAK_OK, rop'\<lparr>rop_response := Some r\<rparr>, True, m2) \<and> mem_allocs (mem_push (mem_push m1)) (?own r) m2 \<and>
        (\<exists>x. r = ServerinfoResponse x \<and> ?Q x)"
      by (intro exI [of _ "ServerinfoResponse x"]) (simp add: riak_decode_def decode_into_def r)
  qed (use g in \<open>auto simp: riak_serverinfo_request_encode_def intro: send_empty_sends\<close>)
  then show ?thesis unfolding riak_serverinfo_def by fastforce
qed

end
