(* ===== verification/Riak_Events.thy ===== *)
theory Riak_Events
  imports Riak_Exchange
begin

text \<open>
  An asynchronous client over libevent as a state machine (\<^verbatim>\<open>src/adapters/riak_libevent.h\<close>): each
  arrival of input is followed by a call of \<open>riak_libevent_result_cb\<close>, until the bufferevent is
  freed. The invariant of the reader's state, the callbacks a client can see, and that a complete
  answer ends the client.
\<close>

subsection \<open>The state of the reader\<close>

text \<open>
  Between two calls the reader either holds fewer than 4 bytes of a size, or it has a block of the
  announced size and a position inside it.
\<close>

definition reader_inv :: "('r, 'd) riak_operation \<Rightarrow> bool" where
  "reader_inv rop \<longleftrightarrow>
     (if rop_msglen_complete rop
      then rop_position rop < rop_msglen rop \<and>
        (\<exists>b. rop_msgbuf rop = Some b \<and> length (buf_bytes b) = unat (rop_msglen rop))
      else rop_position rop < 4)"

text \<open>The size is known and its block is there; the position may be anywhere.\<close>

definition has_block :: "('r, 'd) riak_operation \<Rightarrow> bool" where
  "has_block rop \<longleftrightarrow> rop_msglen_complete rop \<and>
     (\<exists>b. rop_msgbuf rop = Some b \<and> length (buf_bytes b) = unat (rop_msglen rop))"

lemma has_block_inv: "has_block rop \<Longrightarrow> reader_inv rop \<longleftrightarrow> rop_position rop < rop_msglen rop"
  by (auto simp: has_block_def reader_inv_def)

lemma reader_inv_fresh: "rop_position rop = 0 \<Longrightarrow> \<not> rop_msglen_complete rop \<Longrightarrow> reader_inv rop"
  by (simp add: reader_inv_def)

lemma length_fresh_block [simp]: "length (buf_bytes (fresh_block m a n)) = n"
  by (simp add: fresh_block_def)

lemma ucast_less_4: "(x :: u64) < 4 \<Longrightarrow> (ucast x :: u32) < 4"
proof -
  assume "x < 4"
  then have "unat x < 4" by (simp add: word_less_nat_alt)
  then show ?thesis by (simp add: word_less_nat_alt unsigned_ucast_eq take_bit_nat_eq_self)
qed

lemma read_header_inv:
  assumes h: "read_header rc st = Some (r, st')" and g: "cfg_grants (rop_config (rs_rop st))"
    and inv: "\<not> rop_msglen_complete (rs_rop st)" "rop_position (rs_rop st) < 4"
  shows "rop_config (rs_rop st') = rop_config (rs_rop st) \<and> rs_trace st' = rs_trace st \<and> rs_done st' = rs_done st \<and>
    (if r = None then has_block (rs_rop st') else reader_inv (rs_rop st'))"
  using h inv
  by (auto simp: read_header_def Let_def allocate_granted [OF g] has_block_def reader_inv_def
      split: bind_splits prod.splits if_splits intro: ucast_less_4)

lemma read_body_inv:
  assumes "read_body rc st = Some (r, st')" "has_block (rs_rop st)"
  shows "rop_config (rs_rop st') = rop_config (rs_rop st) \<and> rs_trace st' = rs_trace st \<and> rs_done st' = rs_done st \<and>
    has_block (rs_rop st') \<and> (r \<noteq> None \<longrightarrow> reader_inv (rs_rop st'))"
  using assms
  by (auto simp: read_body_def has_block_def reader_inv_def read_into_def Let_def dest: c_write_length
      split: bind_splits prod.splits if_splits)

text \<open>What a call of the reader adds to the calls of the user's functions.\<close>

definition callbacks_ok :: "('io, 'r, 'd) read_state \<Rightarrow> ('io, 'r, 'd) read_state \<Rightarrow> bool" where
  "callbacks_ok st st' \<longleftrightarrow>
     rs_trace st' = rs_trace st \<or>
     rs_done st' \<and> ((\<exists>f. rs_trace st' = rs_trace st @ [ResponseCb f (rop_response (rs_rop st'))]) \<or>
       (\<exists>f r. rs_trace st' = rs_trace st @ [ErrorCb f r, ErrorCb f r] \<and> rop_response (rs_rop st') = None))"

lemma server_error_done:
  assumes "riak_server_error_response_decode unpack rop pb fin m = Some (e, rop', Some r, fin', cbs, m')"
  shows "fin' \<and> cbs = error_callback rop (Some r) \<and> (\<exists>x. rop' = rop\<lparr>rop_error := x\<rparr>)"
  using assms
  by (auto simp: riak_server_error_response_decode_def Let_def split: bind_splits prod.splits option.splits if_splits)

lemma read_server_error_inv:
  assumes "read_server_error ue pb st = Some (r, st')"
  shows "rop_config (rs_rop st') = rop_config (rs_rop st) \<and> rop_position (rs_rop st') = rop_position (rs_rop st) \<and>
    rop_msglen_complete (rs_rop st') = rop_msglen_complete (rs_rop st) \<and> r = Some ERIAK_SERVER_ERROR \<and> rs_done st' \<and>
    callbacks_ok st st'"
  using assms
  by (auto simp: read_server_error_def callbacks_ok_def error_callback_def split: bind_splits option.splits
      dest!: server_error_done)

context framed_decoder
begin

lemma read_dispatch_inv:
  assumes "read_dispatch ue decode st = Some (r, st')"
  shows "rop_config (rs_rop st') = rop_config (rs_rop st) \<and> reader_inv (rs_rop st') \<and>
    (if r = None then \<not> rs_done st' \<and> rs_trace st' = rs_trace st else callbacks_ok st st')"
proof -
  have e: "rop_config (rs_rop st') = rop_config rop \<and> reader_inv (rs_rop st') \<and> r = Some ERIAK_SERVER_ERROR \<and>
      callbacks_ok st st'"
    if "read_server_error ue pb (st\<lparr>rs_rop := rop, rs_done := True, rs_mem := m\<rparr>) = Some (r, st')"
      "rop_position rop = 0" "\<not> rop_msglen_complete rop" for pb rop m
    using read_server_error_inv [OF that(1)] that(2,3) by (auto simp: reader_inv_def callbacks_ok_def)
  obtain b where b: "rop_msgbuf (rs_rop st) = Some b"
    using assms by (cases "rop_msgbuf (rs_rop st)") (simp_all add: read_dispatch_def Let_def)
  have ne: "buf_bytes b \<noteq> []"
    using assms by (rule contrapos_pn) (simp add: read_dispatch_def Let_def b)
  obtain pb m where pb: "riak_pb_message_new (rop_config (rs_rop st)) (buf_bytes b ! 0)
      (ucast (rop_msglen (rs_rop st))) (Some b) (rs_mem st) = (pb, m)" by fastforce
  let ?rop = "(rs_rop st)\<lparr>rop_position := 0, rop_msglen := 0, rop_msglen_complete := False\<rparr>"
  note d = assms [unfolded read_dispatch_def, simplified b ne pb Let_def, simplified]
  show ?thesis
  proof (cases "rop_decoder (rs_rop st)")
    case None
    with d b ne pb show ?thesis by (auto simp: reader_inv_def callbacks_ok_def)
  next
    case (Some dec)
    show ?thesis
    proof (cases "buf_bytes b ! 0 = 0")
      case True
      with d b ne pb Some have "read_server_error ue pb (st\<lparr>rs_rop := ?rop, rs_done := True, rs_mem := m\<rparr>) = Some (r, st')"
        by simp
      from e [OF this] show ?thesis by simp
    next
      case False
      with d b ne pb Some show ?thesis
        by (auto simp: reader_inv_def callbacks_ok_def split: bind_splits option.splits if_splits dest!: keeps)
    qed
  qed
qed

lemma read_step_inv:
  assumes step: "read_step rc ue decode st = Some (r, st')" and g: "cfg_grants (rop_config (rs_rop st))"
    and inv: "reader_inv (rs_rop st)"
  shows "rop_config (rs_rop st') = rop_config (rs_rop st) \<and> reader_inv (rs_rop st') \<and>
    (if r = None then rs_trace st' = rs_trace st else callbacks_ok st st')"
proof -
  obtain r1 st1 where 1: "(if rop_msglen_complete (rs_rop st) then Some (None, st) else read_header rc st) =
      Some (r1, st1)"
    using step by (auto simp: read_step_def split: bind_splits)
  have h: "rop_config (rs_rop st1) = rop_config (rs_rop st) \<and> rs_trace st1 = rs_trace st \<and>
      (if r1 = None then has_block (rs_rop st1) else reader_inv (rs_rop st1))"
    using 1 read_header_inv [of rc st r1 st1] g inv by (auto simp: reader_inv_def has_block_def split: if_splits)
  show ?thesis
  proof (cases "r1 = None")
    case False
    with step 1 h show ?thesis by (auto simp: read_step_def callbacks_ok_def)
  next
    case True
    with step 1 obtain r2 st2 where 2: "read_body rc st1 = Some (r2, st2)"
      "(if r2 \<noteq> None then Some (r2, st2) else read_dispatch ue decode st2) = Some (r, st')"
      by (auto simp: read_step_def split: bind_splits)
    have b: "rop_config (rs_rop st2) = rop_config (rs_rop st1) \<and> rs_trace st2 = rs_trace st1 \<and>
        (r2 \<noteq> None \<longrightarrow> reader_inv (rs_rop st2))"
      using read_body_inv [OF 2(1)] h True by simp
    have "callbacks_ok st2 st' \<longleftrightarrow> callbacks_ok st st'" using b h by (simp add: callbacks_ok_def)
    with 2(2) b h show ?thesis
      by (auto simp: callbacks_ok_def split: if_splits dest!: read_dispatch_inv)
  qed
qed

lemma riak_read_inv:
  assumes r: "riak_read rc ue decode st = Some (e, st')" and g: "cfg_grants (rop_config (rs_rop st))"
    and inv: "reader_inv (rs_rop st)"
  shows "rop_config (rs_rop st') = rop_config (rs_rop st) \<and> reader_inv (rs_rop st') \<and> callbacks_ok st st'"
proof -
  let ?P = "\<lambda>st st'. rop_config (rs_rop st') = rop_config (rs_rop st) \<and> reader_inv (rs_rop st') \<and> callbacks_ok st st'"
  let ?Q = "\<lambda>rc ue dec st res. dec = decode \<longrightarrow> cfg_grants (rop_config (rs_rop st)) \<longrightarrow> reader_inv (rs_rop st) \<longrightarrow>
      ?P st (snd res)"
  have "?Q rc ue decode (st\<lparr>rs_done := False\<rparr>) (e, st')"
  proof (rule read_loop.raw_induct [where P = ?Q, OF _ r [unfolded riak_read_def]])
    fix loop rc ue dec st res
    assume IH: "\<And>rc ue dec st res. loop rc ue dec st = Some res \<Longrightarrow> ?Q rc ue dec st res"
      and step: "read_step rc ue dec st \<bind> (\<lambda>(r, st). if r \<noteq> None then Some (the r, st) else loop rc ue dec st) = Some res"
    obtain r st1 where st1: "read_step rc ue dec st = Some (r, st1)"
      "(if r \<noteq> None then Some (the r, st1) else loop rc ue dec st1) = Some res"
      using step by (auto split: bind_splits)
    show "?Q rc ue dec st res"
    proof (intro impI)
      assume dec: "dec = decode" and g: "cfg_grants (rop_config (rs_rop st))" and inv: "reader_inv (rs_rop st)"
      note s = read_step_inv [OF st1(1) [unfolded dec] g inv]
      show "?P st (snd res)"
      proof (cases "r = None")
        case True
        with IH [of rc ue dec st1 res] s st1(2) dec g show ?thesis by (auto simp: callbacks_ok_def)
      next
        case False
        with s st1(2) show ?thesis by auto
      qed
    qed
  qed
  with g inv show ?thesis by (simp add: callbacks_ok_def)
qed

end

subsection \<open>A client\<close>

text \<open>
  A state of a client: the reader's state and whether there still is a bufferevent. Input that
  arrives is followed by the callback; when the bufferevent is freed nothing arrives any more.
\<close>

type_synonym 'f client = "(bytes, 'f riak_response, riak_decoder) read_state \<times> bool"

inductive client_step :: "'f generated \<Rightarrow> 'f client \<Rightarrow> bytes \<Rightarrow> 'f client \<Rightarrow> bool" for gen :: "'f generated" where
  arrive: "riak_libevent_result_cb evbuffer_read (up_error gen) (riak_decode gen) (st\<lparr>rs_io := rs_io st @ xs\<rparr>) =
    Some (bev, st') \<Longrightarrow> client_step gen (st, True) xs (st', bev \<noteq> None)"

inductive_cases client_stepE: "client_step gen c xs c'"

inductive_simps client_step_closed [simp]: "client_step gen (st, False) xs c'"

inductive client_run :: "'f generated \<Rightarrow> 'f client \<Rightarrow> bytes list \<Rightarrow> 'f client \<Rightarrow> bool" for gen :: "'f generated" where
  none: "client_run gen c [] c"
| step: "client_step gen c x c1 \<Longrightarrow> client_run gen c1 xs c' \<Longrightarrow> client_run gen c (x # xs) c'"

inductive_simps client_run_Nil [simp]: "client_run gen c [] c'"

lemma client_step_read:
  assumes "riak_read (riak_libevent_read_cb evbuffer_read) (up_error gen) (riak_decode gen)
      (st\<lparr>rs_io := rs_io st @ xs\<rparr>) = Some (e, st')"
  shows "client_step gen (st, True) xs (st', \<not> rs_done st')"
proof -
  have "riak_libevent_result_cb evbuffer_read (up_error gen) (riak_decode gen) (st\<lparr>rs_io := rs_io st @ xs\<rparr>) =
      Some (if rs_done st' then None else Some (rs_io st'), st')"
    using assms by (simp add: riak_libevent_result_cb_def)
  then have "client_step gen (st, True) xs (st', (if rs_done st' then None else Some (rs_io st')) \<noteq> None)"
    by (rule arrive)
  then show ?thesis by (cases "rs_done st'") simp_all
qed

text \<open>
  The invariant: the reader's state is in order; as long as there is a bufferevent no function of
  the user has been called; afterwards the response callback has been called once, or the error
  callback twice with the same error, or none.
\<close>

definition client_inv :: "'f client \<Rightarrow> bool" where
  "client_inv = (\<lambda>(st, open). cfg_grants (rop_config (rs_rop st)) \<and> reader_inv (rs_rop st) \<and>
     (rs_trace st = [] \<or> \<not> open \<and>
       ((\<exists>f. rs_trace st = [ResponseCb f (rop_response (rs_rop st))]) \<or>
        (\<exists>f r. rs_trace st = [ErrorCb f r, ErrorCb f r] \<and> rop_response (rs_rop st) = None))))"

lemma client_step_inv:
  assumes "client_step gen c xs c'" "client_inv c"
  shows "client_inv c'"
  using assms(1)
proof cases
  case (arrive st bev st')
  then obtain e where r: "riak_read (riak_libevent_read_cb evbuffer_read) (up_error gen) (riak_decode gen)
      (st\<lparr>rs_io := rs_io st @ xs\<rparr>) = Some (e, st')" and bev: "bev = (if rs_done st' then None else Some (rs_io st'))"
    by (auto simp: riak_libevent_result_cb_def split: bind_splits)
  have "cfg_grants (rop_config (rs_rop st))" "reader_inv (rs_rop st)" "rs_trace st = []"
    using assms(2) arrive(1) by (auto simp: client_inv_def)
  with decoders.riak_read_inv [OF r] arrive(2) bev show ?thesis
    by (auto simp: client_inv_def callbacks_ok_def)
qed

lemma client_run_inv: "client_run gen c xs c' \<Longrightarrow> client_inv c \<Longrightarrow> client_inv c'"
  by (induction rule: client_run.induct) (auto intro: client_step_inv)

text \<open>Deliveries that end without an error are a run.\<close>

lemma deliveries_run:
  assumes "deliveries (@) (riak_libevent_read_cb evbuffer_read) (up_error gen) (riak_decode gen) xs st = Some (e, st')"
    and "\<not> rs_done st"
  shows "\<exists>ys zs. xs = ys @ zs \<and> client_run gen (st, True) ys (st', \<not> rs_done st')"
  using assms
proof (induction xs arbitrary: st)
  case Nil
  then show ?case by (intro exI [of _ "[]"]) simp
next
  case (Cons x xs)
  obtain e1 st1 where r: "riak_read (riak_libevent_read_cb evbuffer_read) (up_error gen) (riak_decode gen)
      (st\<lparr>rs_io := rs_io st @ x\<rparr>) = Some (e1, st1)"
    and rest: "(if e1 \<noteq> ERIAK_OK \<or> rs_done st1 then Some (e1, st1)
        else deliveries (@) (riak_libevent_read_cb evbuffer_read) (up_error gen) (riak_decode gen) xs st1) = Some (e, st')"
    using Cons.prems(1) by (auto split: bind_splits)
  note s = client_step_read [OF r]
  show ?case
  proof (cases "e1 \<noteq> ERIAK_OK \<or> rs_done st1")
    case True
    then have "st1 = st'" using rest by auto
    with s have "client_run gen (st, True) [x] (st', \<not> rs_done st')" by (auto intro: client_run.intros)
    then show ?thesis by (intro exI [of _ "[x]"] exI [of _ xs]) simp
  next
    case False
    with Cons.IH [of st1] rest obtain ys zs where "xs = ys @ zs" "client_run gen (st1, True) ys (st', \<not> rs_done st')"
      by auto
    with s False show ?thesis by (intro exI [of _ "x # ys"] exI [of _ zs]) (auto intro: client_run.step)
  qed
qed

text \<open>An answer that ends the exchange ends the client, however it is cut outside the size fields.\<close>

lemma client_completes:
  assumes st: "at_boundary st" "cfg_grants (rop_config (rs_rop st))" "\<not> rs_done st" "rs_io st = []"
    and ms: "\<forall>(code, body) \<in> set ms. Suc (length body) < 2 ^ 32" "concat xs = frames ms" "cuts_ok ms 0 xs"
    and r: "receive_messages (up_error gen) (riak_decode gen) ms st = Some (e, st1)" "rs_done st1"
  shows "\<exists>ys zs st'. xs = ys @ zs \<and> client_run gen (st, True) ys (st', False) \<and> rs_trace st' = rs_trace st1 \<and>
    rs_rop st' = rs_rop st1 \<and> rs_mem st' = rs_mem st1"
proof -
  have "outcome (deliveries (@) (riak_libevent_read_cb evbuffer_read) (up_error gen) (riak_decode gen) xs st) =
      outcome (receive_messages (up_error gen) (riak_decode gen) ms st)"
    by (rule libevent_reader.deliveries_messages [OF st(1-3) _ ms]) (simp add: st(4))
  with r(1) obtain st' where d: "deliveries (@) (riak_libevent_read_cb evbuffer_read) (up_error gen) (riak_decode gen) xs st =
      Some (e, st')" "rs_rop st' = rs_rop st1" "rs_done st' = rs_done st1" "rs_mem st' = rs_mem st1" "rs_trace st' = rs_trace st1"
    by auto
  from deliveries_run [OF d(1) st(3)] d(2-5) r(2) show ?thesis by auto
qed

end
