(* ===== verification/Riak_Faults.thy ===== *)
theory Riak_Faults
  imports Riak_Events
begin

text \<open>
  What the library does when something goes wrong: an answer that is cut off, a size field that
  arrives in two parts, an allocation that is refused, an error from the server
  (\<^verbatim>\<open>src/riak.c\<close>).
\<close>

subsection \<open>A cut answer\<close>

context reader
begin

text \<open>
  When the input ends inside a message, \<open>riak_read\<close> reports success and the operation has no new
  response. The block of the message, if there is one, belongs to the operation.
\<close>

lemma read_cut_answer:
  assumes b: "at_boundary st" and g: "cfg_grants (rop_config (rs_rop st))" and len: "Suc (length body) < 2 ^ 32"
    and av: "avail (rs_io st) = take n (frame code body)" and n: "n < length body + 5"
    and none: "rop_msgbuf (rs_rop st) = None"
  shows "\<exists>st' xs. riak_read read_cb unpack_error decode st = Some (ERIAK_OK, st') \<and> \<not> rs_done st' \<and>
    rop_response (rs_rop st') = rop_response (rs_rop st) \<and> rop_config (rs_rop st') = rop_config (rs_rop st) \<and>
    rs_trace st' = rs_trace st \<and> mem_allocs (rs_mem st) xs (rs_mem st') \<and>
    mset (rop_owned (rs_rop st')) = mset (rop_owned (rs_rop st) @ xs) \<and> avail (rs_io st') = []"
proof -
  let ?st = "st\<lparr>rs_done := False\<rparr>" and ?io = "rs_io st"
  have len_io: "length (avail ?io) = n" using av n by simp
  have b': "at_boundary ?st" using b by (simp add: at_boundary_def)
  have r: "riak_read read_cb unpack_error decode st = loop (?st\<lparr>rs_io := ?io\<rparr>)" by (simp add: riak_read_def)
  consider "n = 0" | "0 < n" "n < 4" | "4 \<le> n" by linarith
  then show ?thesis
  proof cases
    case 1
    then have e: "avail ?io = []" using len_io by simp
    from 1 have "loop ?st = Some (ERIAK_OK, ?st)" using loop_starved [OF b'] len_io by simp
    then show ?thesis using r by (intro exI [of _ ?st] exI [of _ "[]"]) (simp add: mem_allocs_refl e)
  next
    case 2
    then show ?thesis using r split_size_first [OF b', of ?io] len_io
      by (intro exI [of _ "[] :: addr list"] exI) (auto simp: mem_allocs_refl rop_owned_def avail_skip)
  next
    case 3
    let ?st4 = "(resume 4 [(code, body)] ?st)\<lparr>rs_io := skip 4 ?io\<rparr>"
    have "avail ?io = rev (u32_bytes (of_nat (Suc (length body)))) @ take (n - 4) (code # body)"
      using av 3 by (simp add: frame_def)
    then have h: "loop (?st\<lparr>rs_io := ?io\<rparr>) = loop ?st4"
      by (intro loop_header [where ms = "[]"]) (use b' g len in simp_all)
    have l4: "length (avail (skip 4 ?io)) = n - 4" using len_io by (simp add: avail_skip)
    have rest: "take (n - 4) (drop 4 (frame code body)) @ drop n (frame code body) = drop 4 (frame code body)"
      using append_take_drop_id [of "n - 4" "drop 4 (frame code body)"] 3 by simp
    have "loop ?st4 = Some (ERIAK_OK,
        (resume (4 + length (avail (skip 4 ?io))) [(code, body)] ?st)\<lparr>rs_io := skip (length (avail (skip 4 ?io))) (skip 4 ?io)\<rparr>)"
      by (rule loop_short_body [where later = "drop n (frame code body)" and rest = "[]"])
        (use l4 3 n len rest in \<open>simp_all add: avail_skip av frames_def drop_take flip: drop_append\<close>)
    then show ?thesis using r h mem_allocs_push [of "rs_mem st"] none
      by (intro exI [of _ "[mem_next (rs_mem st)]"] exI) (auto simp: resume_def in_message_def rop_owned_def avail_skip l4 len_io)
  qed
qed

end

text \<open>A synchronous call then returns success without a response, and \<open>riak_ping\<close> dereferences it.\<close>

lemma sync_call_cut_answer:
  fixes gen :: "'f generated"
  assumes g: "cfg_grants (cxn_config c)" and m: "mem_wf m"
    and s: "sends req_code req d (fresh_operation c m) (mem_push m) (encode (fresh_operation c m) (mem_push m))"
    and len: "Suc (length body) < 2 ^ 32" and n: "n < length body + 5"
  shows "\<exists>m'. sync_call peer gen (Some c) encode response (take n (frame code body), out) m =
      Some (ERIAK_OK, None, ([], out @ frame req_code req), m') \<and> mem_live m' = mem_live m"
proof -
  let ?fresh = "fresh_operation c m :: ('f riak_response, riak_decoder) riak_operation"
  obtain p m1 where p: "encode ?fresh (mem_push m) =
      Some (ERIAK_OK, ?fresh\<lparr>rop_pb_request := Some p, rop_decoder := Some d\<rparr>, m1)"
    "mem_allocs (mem_push m) (pbm_owned p) m1"
    and w: "\<And>out. riak_write (?fresh\<lparr>rop_pb_request := Some p, rop_decoder := Some d\<rparr>) write_all out =
      Some (ERIAK_OK, out @ frame req_code req)"
    using s unfolding sends_def by blast
  let ?op = "?fresh\<lparr>rop_pb_request := Some p, rop_decoder := Some d\<rparr>"
  let ?st = "\<lparr>rs_rop = ?op\<lparr>rop_cb_data := Some (rop_at ?op)\<rparr>, rs_done = False,
    rs_io = (riak_connection_get_fd c, take n (frame code body), out @ frame req_code req), rs_mem = m1, rs_trace = []\<rparr>"
  have "at_boundary ?st" by (simp add: at_boundary_def)
  from peer_reader.read_cut_answer [OF this, of body n code gen] g len n obtain st' xs where
    r: "riak_read (riak_sync_read_cb (sys_read peer)) (up_error gen) (riak_decode gen) ?st = Some (ERIAK_OK, st')"
      "rop_response (rs_rop st') = None" "rop_config (rs_rop st') = cxn_config c" "mem_allocs m1 xs (rs_mem st')"
      "mset (rop_owned (rs_rop st')) = mset (rop_owned (rs_rop ?st) @ xs)" "fst (snd (rs_io st')) = []"
    by (auto simp: case_prod_unfold)
  have own: "mem_allocs m (([mem_next m] @ pbm_owned p) @ xs) (rs_mem st')"
    by (rule mem_allocs_trans [OF mem_allocs_trans [OF mem_allocs_push p(2)] r(4)])
  have "mem_allocs m (rop_owned (rs_rop st') @ []) (rs_mem st')"
    by (rule mem_allocs_mset [OF own]) (simp add: r(5), simp add: rop_owned_def fresh_operation_def operation_zero_def se.owned_p_def)
  then have "\<exists>m'. riak_sync_request peer gen c ?op response (take n (frame code body), out) m1 =
      Some (ERIAK_OK, rop_response (rs_rop st'), (fst (snd (rs_io st')), out @ frame req_code req), m') \<and> mem_allocs m [] m'"
    by (rule riak_sync_request_reads [OF w r(1) m]) (use g r(3) in simp)
  then show ?thesis
    by (auto simp: sync_call_def riak_operation_new_fresh [OF g] p(1) r(2,6) dest: mem_allocs_live)
qed

subsection \<open>A size in two parts\<close>

text \<open>
  After the first part of a size the position is not reset: the rest of the message is stored
  behind as many bytes of the block as there were in the first part, and as many bytes of the
  message stay unread. What is handled starts with whatever the block held.
\<close>

context reader
begin

lemma read_split_size:
  assumes b: "at_boundary st" and g: "cfg_grants (rop_config (rs_rop st))" and len: "Suc (length body) < 2 ^ 32"
    and h: "0 < h" "h < 4" "h \<le> Suc (length body)"
    and av: "avail (rs_io st) = take h (frame code body)"
    and av2: "avail io = drop h (frame code body) @ rest"
  shows "\<exists>st1 io'. riak_read read_cb unpack_error decode st = Some (ERIAK_OK, st1) \<and>
    avail (rs_io st1) = [] \<and> avail io' = drop (Suc (length body) - h) (code # body) @ rest \<and>
    read_step read_cb unpack_error decode (st1\<lparr>rs_io := io\<rparr>) =
      read_dispatch unpack_error decode
        ((in_message (Suc (length body)) (mem_next (rs_mem st))
           (map (mem_junk (rs_mem st) (mem_next (rs_mem st))) [0..<h] @ take (Suc (length body) - h) (code # body))
           (st1\<lparr>rs_mem := mem_push (rs_mem st)\<rparr>))\<lparr>rs_io := io'\<rparr>)"
proof -
  let ?st = "st\<lparr>rs_done := False\<rparr>"
  have b': "at_boundary ?st" using b by (simp add: at_boundary_def)
  have l: "length (avail (rs_io st)) = h" using av h by simp
  let ?old = "drop h (u32_bytes (rop_msglen (rs_rop st)))"
  let ?st1 = "?st\<lparr>rs_io := skip h (rs_io st), rs_rop := (rs_rop st)\<lparr>rop_position := of_nat h,
      rop_msglen := bytes_u32 (take h (frame code body) @ ?old)\<rparr>\<rparr>"
  have r: "riak_read read_cb unpack_error decode st = Some (ERIAK_OK, ?st1)"
    using split_size_first [OF b', of "rs_io st"] l h(1,2) by (simp add: riak_read_def av)
  have "read_step read_cb unpack_error decode (?st1\<lparr>rs_io := io\<rparr>) =
    read_dispatch unpack_error decode
      ((in_message (Suc (length body)) (mem_next (rs_mem ?st1))
         (map (mem_junk (rs_mem ?st1) (mem_next (rs_mem ?st1))) [0..<h] @ take (Suc (length body) - h) (code # body))
         (?st1\<lparr>rs_mem := mem_push (rs_mem ?st1)\<rparr>))\<lparr>rs_io := skip (4 - h + (Suc (length body) - h)) io\<rparr>)"
    by (rule split_size_second [where rest = rest and xs = ?old])
      (use b g h len av2 in \<open>simp_all add: at_boundary_def length_u32_bytes\<close>)
  moreover have "avail (skip (4 - h + (Suc (length body) - h)) io) = drop (Suc (length body) - h) (code # body) @ rest"
    using h drop_append [of "Suc (length body) - h" "code # body" rest] by (simp add: avail_skip av2 frame_def)
  moreover have "avail (rs_io ?st1) = []" by (simp add: avail_skip av)
  moreover have "?st1\<lparr>rs_mem := mem_push (rs_mem ?st1)\<rparr> = ?st1\<lparr>rs_mem := mem_push (rs_mem st)\<rparr>" "rs_mem ?st1 = rs_mem st"
    by simp_all
  ultimately show ?thesis using r by metis
qed

end

subsection \<open>An error from the server\<close>

text \<open>
  With memory enough, the operation keeps the server's code and text, the error callback is called
  twice with the same response, which is freed after that, and \<open>rop->response\<close> is dropped. The
  block of the message stays with the operation.
\<close>

lemma server_error_decoded:
  assumes g: "cfg_grants (rop_config rop)" and xs: "pbm_payload (Some pb) = Some xs" "pbm_at pb \<in> mem_live m" and m: "mem_wf m"
    and u: "ue (mem_next m) xs = Some er" "pbb_wf (rer_errmsg er)"
  shows "\<exists>r e m'. riak_server_error_response_decode ue rop (Some pb) fin m =
      Some (ERIAK_OK, rop\<lparr>rop_error := Some e\<rparr>, Some r, True, error_callback rop (Some r), m') \<and>
    ser_errcode r = rer_errcode er \<and> pred_option bin_wf (ser_errmsg r) \<and>
    map_option bin_bytes (ser_errmsg r) = Some (pbb_bytes (rer_errmsg er)) \<and>
    se_errcode e = rer_errcode er \<and> map_option bin_bytes (se_errmsg e) = Some (pbb_bytes (rer_errmsg er)) \<and>
    mem_allocs (m\<lparr>mem_live := mem_live m - {pbm_at pb}\<rparr>) (ser_owned r @ se_owned e) m'"
proof -
  let ?m2 = "mem_push (mem_push m)"
  let ?m3 = "?m2\<lparr>mem_live := mem_live ?m2 - {pbm_at pb}\<rparr>"
  let ?cfg = "rop_config rop"
  obtain x where x: "riak_binary_copy_from_pb ?cfg (rer_errmsg er) ?m3 = (Some x, mem_push ?m3)" "bin_wf x"
    "bin_bytes x = pbb_bytes (rer_errmsg er)" "bin_owned x = [mem_next ?m3]"
    using copy_from_pb_ok [OF g u(2)] by blast
  let ?m5 = "mem_push (mem_push ?m3)"
  obtain y m6 where y: "riak_binary_copy ?cfg (Some x) ?m5 = Some (Some y, m6)" "bin_bytes y = bin_bytes x"
    "mem_allocs ?m5 (bin.owned_p (Some y)) m6"
    using riak_binary_copy_ok [OF g, of "Some x" ?m5] x(2) by auto
  have lt: "pbm_at pb < mem_next m" using xs(2) m by (simp add: mem_wf_def)
  have f: "mem_free (pbm_at pb) ?m2 = Some ?m3" using xs(2) by (simp add: mem_free_def)
  let ?r = "\<lparr>ser_at = Suc (mem_next m), ser_errcode = rer_errcode er, ser_errmsg = Some x, ser_internal = Some (mem_next m)\<rparr>"
  let ?e = "\<lparr>se_at = mem_next (mem_push ?m3), se_errcode = rer_errcode er, se_errmsg = Some y\<rparr>"
  have d: "riak_server_error_response_decode ue rop (Some pb) fin m =
      Some (ERIAK_OK, rop\<lparr>rop_error := Some ?e\<rparr>, Some ?r, True, error_callback rop (Some ?r), m6)"
    using g xs(1) u(1) f x(1) y(1)
    by (simp add: riak_server_error_response_decode_def riak_operation_get_config_def pb_unpack_def cfg_malloc_eq
        allocate_granted riak_free_ptrs riak_server_error_new_def Let_def)
  let ?m0 = "m\<lparr>mem_live := mem_live m - {pbm_at pb}\<rparr>"
  have "insert (Suc (mem_next m)) (insert (mem_next m) (mem_live m)) - {pbm_at pb} =
      insert (Suc (mem_next m)) (insert (mem_next m) (mem_live m - {pbm_at pb}))" using lt by auto
  then have "?m3 = mem_push (mem_push ?m0)" by (simp add: mem_push_def)
  then have p: "mem_allocs ?m0 [mem_next m, Suc (mem_next m)] ?m3"
    using mem_allocs_snoc [OF mem_allocs_push [of ?m0]] by simp
  have q: "mem_allocs ?m3 ([mem_next ?m3] @ [mem_next (mem_push ?m3)]) ?m5"
    by (rule mem_allocs_snoc [OF mem_allocs_push])
  have "mem_allocs ?m0 (ser_owned ?r @ se_owned ?e) m6"
    by (rule mem_allocs_mset [OF mem_allocs_trans [OF mem_allocs_trans [OF p q] y(3)]])
      (use x(4) in \<open>simp add: ser_owned_def se_owned_def bin_owned_def ptrs_def\<close>)
  with d x(2,3) y(2) show ?thesis by (intro exI [of _ ?r] exI [of _ ?e] exI [of _ m6]) simp
qed

lemma receive_server_error:
  fixes st :: "('io, 'r, 'd) read_state"
  assumes g: "cfg_grants (rop_config (rs_rop st))" and d: "rop_decoder (rs_rop st) = Some d" and m: "mem_wf (rs_mem st)"
    and len: "Suc (length body) < 2 ^ 32" and u: "\<And>a. ue a body = Some er" "pbb_wf (rer_errmsg er)"
    and short: "length (pbb_bytes (rer_errmsg er)) < 2 ^ 32"
  shows "\<exists>r e st'. receive_message ue decode 0 body st = Some (Some ERIAK_SERVER_ERROR, st') \<and>
    rs_trace st' = rs_trace st @
      (case rop_error_cb (rs_rop st) of None \<Rightarrow> [] | Some f \<Rightarrow> [ErrorCb f (Some r), ErrorCb f (Some r)]) \<and>
    ser_errcode r = rer_errcode er \<and> map_option bin_bytes (ser_errmsg r) = Some (pbb_bytes (rer_errmsg er)) \<and>
    rop_error (rs_rop st') = Some e \<and> se_errcode e = rer_errcode er \<and>
    map_option bin_bytes (se_errmsg e) = Some (pbb_bytes (rer_errmsg er)) \<and>
    rop_response (rs_rop st') = None \<and> rs_done st' \<and>
    mem_live (rs_mem st') = mem_live (rs_mem st) \<union> set (mem_next (rs_mem st) # se_owned e)"
proof -
  let ?m = "mem_push (rs_mem st)" and ?a = "mem_next (rs_mem st)"
  let ?rop = "arrived (rs_mem st) 0 body (rs_rop st)" and ?pb = "arrived_msg (rs_mem st) 0 body"
  have wf: "mem_wf (mem_push ?m)" using mem_allocs_wf [OF mem_allocs_push mem_allocs_wf [OF mem_allocs_push m]] .
  have at: "pbm_at ?pb = Suc ?a" by (simp add: arrived_msg_def)
  have pre: "cfg_grants (rop_config ?rop)" "pbm_payload (Some ?pb) = Some body" "pbm_at ?pb \<in> mem_live (mem_push ?m)"
    using g len by (simp_all add: at)
  obtain r e m1 where r: "riak_server_error_response_decode ue ?rop (Some ?pb) True (mem_push ?m) =
      Some (ERIAK_OK, ?rop\<lparr>rop_error := Some e\<rparr>, Some r, True, error_callback ?rop (Some r), m1)"
    "ser_errcode r = rer_errcode er" "pred_option bin_wf (ser_errmsg r)"
    "map_option bin_bytes (ser_errmsg r) = Some (pbb_bytes (rer_errmsg er))"
    "se_errcode e = rer_errcode er" "map_option bin_bytes (se_errmsg e) = Some (pbb_bytes (rer_errmsg er))"
    "mem_allocs ((mem_push ?m)\<lparr>mem_live := mem_live (mem_push ?m) - {Suc ?a}\<rparr>) (ser_owned r @ se_owned e) m1"
    using server_error_decoded [where ue = ue and fin = True, OF pre wf u] unfolding at by blast
  obtain b where b: "ser_errmsg r = Some b" "bin_wf b" using r(3,4) by (cases "ser_errmsg r") auto
  obtain n t where pr: "riak_binary_print (Some b) (replicate 2048 0) 0 2048 = Some (n, t)"
    using riak_binary_print_spec [OF b(2), of 2048 _ 0 "replicate 2048 0"] by fastforce
  let ?m0 = "(mem_push ?m)\<lparr>mem_live := mem_live (mem_push ?m) - {Suc ?a}\<rparr>"
  have wf0: "mem_wf ?m0" using wf by (auto simp: mem_wf_def)
  have live: "ser_at r \<in> mem_live m1" using mem_allocs_live [OF r(7)] by (simp add: ser_owned_def)
  have ok: "cfg_ok (rop_config (rs_rop st))" using g by simp
  let ?m2 = "m1\<lparr>mem_live := mem_live m1 - set (ser_owned r)\<rparr>"
  have fr: "riak_server_error_response_free (rop_config (rs_rop st)) (Some r) m1 = Some ?m2"
    using ser.release_owned [OF ok] mem_allocs_free_part(1) [OF r(7) wf0 refl] by simp
  have l2: "mem_live ?m2 = mem_live (rs_mem st) \<union> set (?a # se_owned e)"
    using mem_allocs_live [OF mem_allocs_free_part(2) [OF r(7) wf0 refl]] m by (auto simp: mem_wf_def)
  have x: "(ucast (ucast (x :: u32) :: u64) :: u32) = x" for x
    by (rule bit_word_eqI) (simp add: bit_simps)
  have "receive_message ue decode 0 body st = Some (Some ERIAK_SERVER_ERROR,
      st\<lparr>rs_rop := ?rop\<lparr>rop_error := Some e, rop_response := None\<rparr>, rs_done := True, rs_mem := ?m2,
        rs_trace := rs_trace st @ error_callback ?rop (Some r) @ error_callback ?rop (Some r)\<rparr>)"
    using d r(1) b(1) pr live fr len
    by (simp add: receive_message_def read_dispatch_def in_message_def riak_pb_message_new_def clean_allocate_eq
        allocate_granted [OF g] arrived_def arrived_msg_def read_server_error_def error_callback_def Let_def
        unat_u32 x del: of_nat_Suc split: option.split)
  with r(2,4-6) l2 show ?thesis by (auto simp: error_callback_def arrived_def split: option.split)
qed

subsection \<open>Refused allocations\<close>

text \<open>
  Without a block for the message \<open>riak_read\<close> returns an error, but the operation says that its
  size is known: the next call asks for the rest of the message at the NULL pointer. It does no harm
  as long as nothing arrives, and it is undefined with the first byte. (The rest of a message of
  length zero is nothing; its code is then read from the NULL pointer.)
\<close>

context byte_source
begin

lemma read_refused_block:
  assumes b: "at_boundary st" and av: "avail (rs_io st) = rev (u32_bytes v) @ rest"
    and no: "riak_config_allocate (rop_config (rs_rop st)) (Bytes (unat v)) (rs_mem st) = (None, m)"
  shows "\<exists>st1. riak_read read_cb ue decode st = Some (ERIAK_READ, st1) \<and> \<not> rs_done st1 \<and>
    (\<forall>io. riak_read read_cb ue decode (st1\<lparr>rs_io := io\<rparr>) =
       (if v \<noteq> 0 \<and> avail io = [] then Some (ERIAK_OK, st1\<lparr>rs_io := skip 0 io\<rparr>) else None))"
proof -
  have r: "read_into read_cb (rs_io st) (u32_bytes x) 0 4 = Some (4, rev (u32_bytes v), skip 4 (rs_io st))" for x
    by (subst read_into_eq) (simp_all add: av)
  have n: "ntohl (bytes_u32 (rev (u32_bytes v))) = v" by (simp add: ntohl_bytes)
  let ?st1 = "st\<lparr>rs_done := False, rs_io := skip 4 (rs_io st), rs_mem := m,
    rs_rop := (rs_rop st)\<lparr>rop_msglen_complete := True, rop_msglen := v, rop_msgbuf := None\<rparr>\<rparr>"
  have "riak_read read_cb ue decode st = Some (ERIAK_READ, ?st1)"
    using b by (simp add: riak_read_def read_loop.simps [of read_cb ue decode "st\<lparr>rs_done := False\<rparr>"] read_step_def
        read_header_def at_boundary_def r n no Let_def)
  moreover have "riak_read read_cb ue decode (?st1\<lparr>rs_io := io\<rparr>) =
      (if v \<noteq> 0 \<and> avail io = [] then Some (ERIAK_OK, ?st1\<lparr>rs_io := skip 0 io\<rparr>) else None)" for io
  proof -
    have l: "riak_read read_cb ue decode (?st1\<lparr>rs_io := io\<rparr>) = read_loop read_cb ue decode (?st1\<lparr>rs_io := io\<rparr>)"
      unfolding riak_read_def by (rule arg_cong [where f = "read_loop read_cb ue decode"]) (cases st; simp)
    show ?thesis
    proof (cases "v = 0 \<or> avail io = []")
      case True
      then have "read_into read_cb io [] 0 (unat v) = Some (0, [], skip 0 io)"
        by (subst read_into_eq) auto
      with b True show ?thesis
        unfolding l read_loop.simps [of read_cb ue decode "?st1\<lparr>rs_io := io\<rparr>"]
        by (auto simp: at_boundary_def read_step_def read_body_def read_dispatch_def word_gt_0 Let_def)
    next
      case False
      then have "unat v \<noteq> 0" "avail io \<noteq> []" by (simp_all add: unat_eq_zero)
      then have "read_into read_cb io [] 0 (unat v) = None"
        by (simp add: read_into_def read_cb c_write_def Let_def min_def guard_def)
      with b False show ?thesis
        unfolding l read_loop.simps [of read_cb ue decode "?st1\<lparr>rs_io := io\<rparr>"]
        by (auto simp: at_boundary_def read_step_def read_body_def Let_def)
    qed
  qed
  ultimately show ?thesis by (intro exI [of _ ?st1]) simp
qed

end

text \<open>An operation that cannot be allocated is written through; one whose request cannot be is lost.\<close>

lemma riak_ping_refused:
  assumes c: "cxn_config c = Some cf" "malloc_fn cf = Some f"
  shows "\<not> f (mem_calls m) (SizeOf ''riak_operation'' 1) \<Longrightarrow> riak_ping sys gen (Some c) os m = None"
    and "f (mem_calls m) (SizeOf ''riak_operation'' 1) \<Longrightarrow> \<not> f (Suc (mem_calls m)) (SizeOf ''riak_pb_message'' 1) \<Longrightarrow>
      \<exists>m'. riak_ping sys gen (Some c) os m = Some (ERIAK_OUT_OF_MEMORY, os, m') \<and>
        mem_live m' = insert (mem_next m) (mem_live m)"
  using c
  by (simp_all add: riak_ping_def sync_call_def riak_operation_new_def riak_connection_get_config_def
      riak_config_clean_allocate_def mem_request_def riak_ping_request_encode_def send_empty_def
      riak_pb_message_new_def Let_def)

end
