(* ===== verification/Riak_Listing.thy ===== *)
theory Riak_Listing
  imports Riak_Exchange
begin

text \<open>
  Whole calls whose answer is a stream of messages, the last of which says so: listings of buckets
  and of keys, and map/reduce (\<^verbatim>\<open>src/riak.c\<close>, \<^verbatim>\<open>src/messages/riak_listbuckets.c\<close>,
  \<^verbatim>\<open>riak_listkeys.c\<close>, \<^verbatim>\<open>riak_mapreduce.c\<close>). The locale \<open>streamed_answer\<close> holds what is needed of a
  decoder; each of the three is an interpretation.
\<close>

text \<open>Of the messages the last one, and no other, is marked as the last.\<close>

fun ends_last :: "('pb \<Rightarrow> bool) \<Rightarrow> 'pb list \<Rightarrow> bool" where
  "ends_last ended [] \<longleftrightarrow> False"
| "ends_last ended (pb # pbs) \<longleftrightarrow> (if pbs = [] then ended pb else \<not> ended pb \<and> ends_last ended pbs)"

text \<open>The response so far, and the memory it takes besides the blocks \<open>extra\<close>.\<close>

definition so_far :: "('r \<Rightarrow> 'x list) \<Rightarrow> 'r option \<Rightarrow> 'x list" where
  "so_far contents resp = (case resp of None \<Rightarrow> [] | Some r \<Rightarrow> contents r)"

definition so_many :: "('r \<Rightarrow> nat) \<Rightarrow> 'r option \<Rightarrow> nat" where
  "so_many pages resp = (case resp of None \<Rightarrow> 0 | Some r \<Rightarrow> pages r)"

definition under_way :: "('r \<Rightarrow> bool) \<Rightarrow> ('r \<Rightarrow> addr list) \<Rightarrow> mem \<Rightarrow> 'r option \<Rightarrow> addr list \<Rightarrow> mem \<Rightarrow> bool" where
  "under_way okay owned m0 resp extra m \<longleftrightarrow>
     (case resp of None \<Rightarrow> mem_allocs m0 extra m | Some r \<Rightarrow> okay r \<and> mem_allocs m0 (owned r @ extra) m)"

lemma so_far_simps [simp]:
  "so_far contents None = []" "so_far contents (Some r) = contents r"
  "so_many pages None = 0" "so_many pages (Some r) = pages r"
  "under_way okay owned m0 None extra m \<longleftrightarrow> mem_allocs m0 extra m"
  "under_way okay owned m0 (Some r) extra m \<longleftrightarrow> okay r \<and> mem_allocs m0 (owned r @ extra) m"
  by (simp_all add: so_far_def so_many_def under_way_def)

lemma under_way_snoc:
  assumes "under_way okay owned m0 resp extra m"
  shows "under_way okay owned m0 resp (extra @ [mem_next m]) (mem_push m)"
proof (cases resp)
  case (Some r)
  have "mem_allocs m0 ((owned r @ extra) @ [mem_next m]) (mem_push m)"
    by (rule mem_allocs_snoc) (use assms Some in simp)
  with assms Some show ?thesis by simp
qed (use assms mem_allocs_snoc in simp)

subsection \<open>The contract of a decoder of streams\<close>

text \<open>
  \<open>fits\<close> says what a message reads as, \<open>okay\<close> is the invariant of the response before and after
  the last message. A message adds its items to the contents, and it is the last one when it says so.
\<close>

locale streamed_answer =
  fixes gen :: "'f generated" and d :: riak_decoder and wrap :: "'r \<Rightarrow> 'f riak_response"
    and fits :: "bytes \<Rightarrow> 'pb \<Rightarrow> bool" and items :: "'pb \<Rightarrow> 'x list" and ended :: "'pb \<Rightarrow> bool"
    and contents :: "'r \<Rightarrow> 'x list" and pages :: "'r \<Rightarrow> nat"
    and okay :: "bool \<Rightarrow> 'r \<Rightarrow> bool" and owned :: "'r \<Rightarrow> addr list"
  assumes decode_step: "cfg_grants (rop_config rop) \<Longrightarrow> \<not> rop_streaming rop \<Longrightarrow> pbm_payload pbresp = Some body \<Longrightarrow>
    fits body pb \<Longrightarrow> mem_wf m0 \<Longrightarrow> under_way (okay False) owned m0 resp extra m \<Longrightarrow>
    rop_response rop = map_option wrap resp \<Longrightarrow>
    length (so_far contents resp) + length (items pb) < 2 ^ 31 \<Longrightarrow> so_many pages resp < 2 ^ 31 \<Longrightarrow>
    \<exists>r m'. riak_decode gen d rop pbresp True m =
        Some (ERIAK_OK, rop\<lparr>rop_response := Some (wrap r)\<rparr>, ended pb, m') \<and>
      okay (ended pb) r \<and> contents r = so_far contents resp @ items pb \<and> pages r = Suc (so_many pages resp) \<and>
      mem_allocs m0 (owned r @ extra) m'"
begin

text \<open>One message: the blocks of the message itself are freed again.\<close>

lemma receive_one:
  fixes st :: "('io, 'f riak_response, riak_decoder) read_state"
  assumes g: "cfg_grants (rop_config (rs_rop st))" and d: "rop_decoder (rs_rop st) = Some d"
    and str: "\<not> rop_streaming (rs_rop st)" and code: "code \<noteq> 0" and wf: "mem_wf m0"
    and resp: "rop_response (rs_rop st) = map_option wrap resp" "under_way (okay False) owned m0 resp extra (rs_mem st)"
    and msg: "Suc (length body) < 2 ^ 32" "fits body pb"
    and lim: "length (so_far contents resp) + length (items pb) < 2 ^ 31" "so_many pages resp < 2 ^ 31"
  shows "\<exists>r st1. receive_message (up_error gen) (riak_decode gen) code body st =
      Some (if ended pb then Some ERIAK_OK else None, st1) \<and> rs_rop st1 = handled (Some (wrap r)) (rs_rop st) \<and>
    okay (ended pb) r \<and> contents r = so_far contents resp @ items pb \<and> pages r = Suc (so_many pages resp) \<and>
    mem_allocs m0 (owned r @ extra) (rs_mem st1) \<and> rs_done st1 = ended pb \<and>
    rs_trace st1 = rs_trace st @ (if ended pb then (case rop_response_cb (rs_rop st) of None \<Rightarrow> []
      | Some f \<Rightarrow> [ResponseCb f (Some (wrap r))]) else [])"
proof -
  let ?m = "rs_mem st" and ?rop = "rs_rop st"
  let ?rop1 = "arrived ?m code body ?rop" and ?pb = "arrived_msg ?m code body" and ?two = "[mem_next ?m, Suc (mem_next ?m)]"
  have "under_way (okay False) owned m0 resp ((extra @ [mem_next ?m]) @ [mem_next (mem_push ?m)]) (mem_push (mem_push ?m))"
    by (intro under_way_snoc resp(2))
  then have ext: "under_way (okay False) owned m0 resp (extra @ ?two) (mem_push (mem_push ?m))" by simp
  obtain r m1 where r: "riak_decode gen d ?rop1 (Some ?pb) True (mem_push (mem_push ?m)) =
      Some (ERIAK_OK, ?rop1\<lparr>rop_response := Some (wrap r)\<rparr>, ended pb, m1)"
    "okay (ended pb) r" "contents r = so_far contents resp @ items pb" "pages r = Suc (so_many pages resp)"
    "mem_allocs m0 (owned r @ extra @ ?two) m1"
    using decode_step [where rop = ?rop1 and pbresp = "Some ?pb", OF _ _ arrived_payload [OF msg(1)] msg(2) wf ext _ lim]
      g str resp(1) by (elim meta_impE exE conjE) simp_all
  have all: "mem_allocs m0 (?two @ owned r @ extra) m1" by (rule mem_allocs_mset [OF r(5)]) simp
  then have live: "{mem_next ?m, Suc (mem_next ?m)} \<subseteq> mem_live m1" using mem_allocs_live [OF all] by auto
  have "mem_allocs m0 (owned r @ extra) (m1\<lparr>mem_live := mem_live m1 - {mem_next ?m, Suc (mem_next ?m)}\<rparr>)"
    using mem_allocs_free_part(2) [OF all wf refl] by simp
  with r receive_message_decodes [where decode = "riak_decode gen" and ue = "up_error gen" and st = st, OF g d code msg(1) r(1) live]
  show ?thesis by (intro exI [of _ r]) simp
qed

text \<open>The reader turns the messages into one response.\<close>

lemma receive_stream:
  fixes st :: "('io, 'f riak_response, riak_decoder) read_state"
  assumes g: "cfg_grants (rop_config (rs_rop st))" and d: "rop_decoder (rs_rop st) = Some d"
    and str: "\<not> rop_streaming (rs_rop st)" and code: "code \<noteq> 0" and wf: "mem_wf m0"
    and resp: "rop_response (rs_rop st) = map_option wrap resp" "under_way (okay False) owned m0 resp extra (rs_mem st)"
    and msgs: "list_all (\<lambda>(body, pb). Suc (length body) < 2 ^ 32 \<and> fits body pb) msgs" "ends_last ended (map snd msgs)"
    and lim: "length (so_far contents resp) + length (concat (map (\<lambda>(_, pb). items pb) msgs)) < 2 ^ 31"
      "so_many pages resp + length msgs \<le> 2 ^ 31"
  shows "\<exists>r st'. receive_messages (up_error gen) (riak_decode gen) (map (\<lambda>(body, pb). (code, body)) msgs) st =
      Some (ERIAK_OK, st') \<and>
    unread_messages (up_error gen) (riak_decode gen) (map (\<lambda>(body, pb). (code, body)) msgs) st = [] \<and> rs_rop st' = handled (Some (wrap r)) (rs_rop st) \<and> okay True r \<and>
    contents r = so_far contents resp @ concat (map (\<lambda>(_, pb). items pb) msgs) \<and>
    mem_allocs m0 (owned r @ extra) (rs_mem st') \<and> rs_done st' \<and>
    rs_trace st' = rs_trace st @ (case rop_response_cb (rs_rop st) of None \<Rightarrow> [] | Some f \<Rightarrow> [ResponseCb f (Some (wrap r))])"
  using g d str resp msgs lim
proof (induction msgs arbitrary: st resp)
  case (Cons msg msgs)
  obtain body pb where msg: "msg = (body, pb)" by (cases msg)
  obtain r st1 where r: "receive_message (up_error gen) (riak_decode gen) code body st =
      Some (if ended pb then Some ERIAK_OK else None, st1)" "rs_rop st1 = handled (Some (wrap r)) (rs_rop st)"
    "okay (ended pb) r" "contents r = so_far contents resp @ items pb" "pages r = Suc (so_many pages resp)"
    "mem_allocs m0 (owned r @ extra) (rs_mem st1)" "rs_done st1 = ended pb"
    "rs_trace st1 = rs_trace st @ (if ended pb then (case rop_response_cb (rs_rop st) of None \<Rightarrow> []
      | Some f \<Rightarrow> [ResponseCb f (Some (wrap r))]) else [])"
    using receive_one [where st = st and body = body and pb = pb, OF Cons.prems(1-3) code wf Cons.prems(4,5)] Cons.prems(6,8,9)
    by (auto simp: msg)
  show ?case
  proof (cases "msgs = []")
    case True
    with Cons.prems(7) have "ended pb" by (simp add: msg)
    with r True show ?thesis by (intro exI [of _ r] exI [of _ st1]) (simp add: msg)
  next
    case False
    with Cons.prems(7) have nd: "\<not> ended pb" "ends_last ended (map snd msgs)" by (simp_all add: msg)
    have "\<exists>r' st'. receive_messages (up_error gen) (riak_decode gen) (map (\<lambda>(body, pb). (code, body)) msgs) st1 =
        Some (ERIAK_OK, st') \<and>
      unread_messages (up_error gen) (riak_decode gen) (map (\<lambda>(body, pb). (code, body)) msgs) st1 = [] \<and>
      rs_rop st' = handled (Some (wrap r')) (rs_rop st1) \<and> okay True r' \<and>
      contents r' = so_far contents (Some r) @ concat (map (\<lambda>(_, pb). items pb) msgs) \<and>
      mem_allocs m0 (owned r' @ extra) (rs_mem st') \<and> rs_done st' \<and>
      rs_trace st' = rs_trace st1 @ (case rop_response_cb (rs_rop st1) of None \<Rightarrow> [] | Some f \<Rightarrow> [ResponseCb f (Some (wrap r'))])"
      by (rule Cons.IH) (use Cons.prems r nd in \<open>simp_all add: msg\<close>)
    then obtain r' st' where "receive_messages (up_error gen) (riak_decode gen) (map (\<lambda>(body, pb). (code, body)) msgs) st1 =
        Some (ERIAK_OK, st')"
      "unread_messages (up_error gen) (riak_decode gen) (map (\<lambda>(body, pb). (code, body)) msgs) st1 = []"
      "rs_rop st' = handled (Some (wrap r')) (rs_rop st1)" "okay True r'"
      "contents r' = contents r @ concat (map (\<lambda>(_, pb). items pb) msgs)"
      "mem_allocs m0 (owned r' @ extra) (rs_mem st')" "rs_done st'"
      "rs_trace st' = rs_trace st1 @ (case rop_response_cb (rs_rop st1) of None \<Rightarrow> [] | Some f \<Rightarrow> [ResponseCb f (Some (wrap r'))])"
      by auto
    with r nd(1) show ?thesis by (intro exI [of _ r'] exI [of _ st']) (simp add: msg)
  qed
qed simp

text \<open>A call that sends a request and is answered by such a stream.\<close>

lemma call_answered:
  assumes g: "cfg_grants (cxn_config c)" and m: "mem_wf m" and code: "code \<noteq> 0"
    and s: "sends req_code req d (fresh_operation c m) (mem_push m) (encode (fresh_operation c m) (mem_push m))"
    and msgs: "list_all (\<lambda>(body, pb). Suc (length body) < 2 ^ 32 \<and> fits body pb) msgs" "ends_last ended (map snd msgs)"
    and lim: "length (concat (map (\<lambda>(_, pb). items pb) msgs)) < 2 ^ 31" "length msgs \<le> 2 ^ 31"
  shows "\<exists>r m'. sync_call peer gen (Some c) encode response (frames (map (\<lambda>(body, pb). (code, body)) msgs) @ beyond, out) m =
      Some (ERIAK_OK, Some (wrap r), (beyond, out @ frame req_code req), m') \<and> okay True r \<and>
    contents r = concat (map (\<lambda>(_, pb). items pb) msgs) \<and> mem_allocs m (owned r) m'"
proof -
  let ?fresh = "fresh_operation c m :: ('f riak_response, riak_decoder) riak_operation"
  let ?ms = "map (\<lambda>(body, pb). (code, body)) msgs"
  obtain p m1 where p: "encode ?fresh (mem_push m) = Some (ERIAK_OK, ?fresh\<lparr>rop_pb_request := Some p, rop_decoder := Some d\<rparr>, m1)"
    "mem_allocs (mem_push m) (pbm_owned p) m1"
    and w: "\<forall>out. riak_write (?fresh\<lparr>rop_pb_request := Some p, rop_decoder := Some d\<rparr>) write_all out =
      Some (ERIAK_OK, out @ frame req_code req)"
    using s unfolding sends_def by blast
  let ?rop = "?fresh\<lparr>rop_pb_request := Some p, rop_decoder := Some d\<rparr>"
  let ?ropc = "?rop\<lparr>rop_cb_data := Some (rop_at ?rop)\<rparr>"
  let ?st = "\<lparr>rs_rop = ?ropc, rs_done = False,
    rs_io = (cxn_fd c, frames ?ms @ beyond, out @ frame req_code req), rs_mem = m1, rs_trace = []\<rparr>"
  have part: "reader_part ?rop = reader_part ?fresh" by simp
  let ?extra = "rop_owned (handled None ?ropc)"
  have l: "mem_allocs m ?extra m1"
    by (rule mem_allocs_mset [OF mem_allocs_trans [OF mem_allocs_push p(2)]]) (simp add: handled_call_owned [OF part])
  obtain r st' where r: "receive_messages (up_error gen) (riak_decode gen) ?ms ?st = Some (ERIAK_OK, st')"
    "rs_rop st' = handled (Some (wrap r)) ?ropc" "okay True r" "contents r = concat (map (\<lambda>(_, pb). items pb) msgs)"
    "mem_allocs m (owned r @ ?extra) (rs_mem st')" "rs_done st'"
    "unread_messages (up_error gen) (riak_decode gen) ?ms ?st = []"
    using receive_stream [where st = ?st and resp = None and extra = ?extra, OF _ _ _ code m _ _ msgs] g l lim by auto
  have own: "mem_allocs m (rop_owned (rs_rop st') @ owned r) (rs_mem st')"
    by (rule mem_allocs_mset [OF r(5)]) (simp add: r(2) handled_call_owned [OF part])
  have len: "\<forall>(code, body) \<in> set ?ms. Suc (length body) < 2 ^ 32" using msgs(1) by (auto simp: list_all_iff)
  have "\<exists>m'. sync_call peer gen (Some c) encode response (frames ?ms @ beyond, out) m =
      Some (ERIAK_OK, rop_response (rs_rop st'),
        (frames (unread_messages (up_error gen) (riak_decode gen) ?ms ?st) @ beyond, out @ frame req_code req), m') \<and>
      mem_allocs m (owned r) m'"
    by (rule sync_call_exchange [where rop = ?rop and ?m1.0 = m1 and encode = encode, OF g m p(1) part _ len refl r(1) _ _ own])
      (use w r g in simp_all)
  with r show ?thesis by auto
qed

end

subsection \<open>Listings\<close>

definition says_done :: "rpb_list_resp \<Rightarrow> bool" where
  "says_done pb \<longleftrightarrow> fst (rlr_done pb) \<and> snd (rlr_done pb)"

abbreviation last_only :: "rpb_list_resp list \<Rightarrow> bool" where
  "last_only \<equiv> ends_last says_done"

lemma list_decode_step:
  assumes g: "cfg_grants (rop_config rop)" and xs: "pbm_payload pbresp = Some xs"
    and u: "unpack (mem_next m) xs = Some pb" "rlr_wf pb" and wf: "mem_wf m0"
    and l: "under_way list_ok list_owned m0 resp extra m"
    and lim: "length (so_far list_items resp) + length (rlr_items pb) < 2 ^ 31"
      "so_many (\<lambda>r. unat (ls_n_responses r)) resp < 2 ^ 31"
  shows "\<exists>r m'. list_response_decode elt internal_elt unpack rop pbresp resp fin m =
      Some (ERIAK_OK, Some r, says_done pb, m') \<and> list_ok r \<and>
    list_items r = so_far list_items resp @ map pbb_bytes (rlr_items pb) \<and>
    unat (ls_n_responses r) = Suc (so_many (\<lambda>r. unat (ls_n_responses r)) resp) \<and> mem_allocs m0 (list_owned r @ extra) m'"
proof (cases resp)
  case None
  with list_decode_first [where unpack = unpack and elt = elt and internal_elt = internal_elt and fin = fin,
      OF g xs u wf, of extra] l lim(1)
  show ?thesis by (auto simp: says_done_def)
next
  case (Some r)
  with list_decode_more [where unpack = unpack and elt = elt and internal_elt = internal_elt and fin = fin,
      OF g xs u wf, of r extra] l lim
  show ?thesis by (auto simp: says_done_def)
qed

lemma as_list_wrapped [simp]: "as_list (map_option ListResponse resp) = Some resp"
  by (cases resp) simp_all

interpretation keys_answer: streamed_answer gen DecodeListkeys ListResponse
    "\<lambda>body pb. rlr_wf pb \<and> (\<forall>a. up_listkeys gen a body = Some pb)" "\<lambda>pb. map pbb_bytes (rlr_items pb)" says_done
    list_items "\<lambda>r. unat (ls_n_responses r)" "\<lambda>_. list_ok" list_owned
  for gen :: "'f generated"
proof
  fix rop :: "('f riak_response, riak_decoder) riak_operation" and pbresp body pb m0 resp extra m
  assume a: "cfg_grants (rop_config rop)" "pbm_payload pbresp = Some body"
    "rlr_wf pb \<and> (\<forall>a. up_listkeys gen a body = Some pb)" "mem_wf m0" "under_way list_ok list_owned m0 resp extra m"
    "rop_response rop = map_option ListResponse resp"
    "length (so_far list_items resp) + length (map pbb_bytes (rlr_items pb)) < 2 ^ 31"
    "so_many (\<lambda>r. unat (ls_n_responses r)) resp < 2 ^ 31"
  with list_decode_step [where unpack = "up_listkeys gen" and fin = True and elt = "''riak_listkeys_response''" and
      internal_elt = "''RpbListKeysResp*''", OF a(1,2) _ _ a(4,5)]
  show "\<exists>r m'. riak_decode gen DecodeListkeys rop pbresp True m =
        Some (ERIAK_OK, rop\<lparr>rop_response := Some (ListResponse r)\<rparr>, says_done pb, m') \<and> list_ok r \<and>
      list_items r = so_far list_items resp @ map pbb_bytes (rlr_items pb) \<and>
      unat (ls_n_responses r) = Suc (so_many (\<lambda>r. unat (ls_n_responses r)) resp) \<and> mem_allocs m0 (list_owned r @ extra) m'"
    by (fastforce simp: riak_decode_def decode_into_def riak_listkeys_response_decode_def)
qed

interpretation buckets_answer: streamed_answer gen DecodeListbuckets ListResponse
    "\<lambda>body pb. rlr_wf pb \<and> (\<forall>a. up_listbuckets gen a body = Some pb)" "\<lambda>pb. map pbb_bytes (rlr_items pb)" says_done
    list_items "\<lambda>r. unat (ls_n_responses r)" "\<lambda>_. list_ok" list_owned
  for gen :: "'f generated"
proof
  fix rop :: "('f riak_response, riak_decoder) riak_operation" and pbresp body pb m0 resp extra m
  assume a: "cfg_grants (rop_config rop)" "pbm_payload pbresp = Some body"
    "rlr_wf pb \<and> (\<forall>a. up_listbuckets gen a body = Some pb)" "mem_wf m0" "under_way list_ok list_owned m0 resp extra m"
    "rop_response rop = map_option ListResponse resp"
    "length (so_far list_items resp) + length (map pbb_bytes (rlr_items pb)) < 2 ^ 31"
    "so_many (\<lambda>r. unat (ls_n_responses r)) resp < 2 ^ 31"
  with list_decode_step [where unpack = "up_listbuckets gen" and fin = True and elt = "''riak_listbuckets_response''" and
      internal_elt = "''RpbListBucketsResp*''", OF a(1,2) _ _ a(4,5)]
  show "\<exists>r m'. riak_decode gen DecodeListbuckets rop pbresp True m =
        Some (ERIAK_OK, rop\<lparr>rop_response := Some (ListResponse r)\<rparr>, says_done pb, m') \<and> list_ok r \<and>
      list_items r = so_far list_items resp @ map pbb_bytes (rlr_items pb) \<and>
      unat (ls_n_responses r) = Suc (so_many (\<lambda>r. unat (ls_n_responses r)) resp) \<and> mem_allocs m0 (list_owned r @ extra) m'"
    by (fastforce simp: riak_decode_def decode_into_def riak_listbuckets_response_decode_def)
qed

text \<open>The whole calls.\<close>

lemma items_concat: "concat (map (\<lambda>(_, pb). map f (g pb)) msgs) = map f (concat (map (\<lambda>(_, pb). g pb) msgs))"
  by (induction msgs) auto

lemma items_length: "length (concat (map (\<lambda>(_, pb). map f (g pb)) msgs)) = length (concat (map (\<lambda>(_, pb). g pb) msgs))"
  by (simp add: items_concat)

lemma riak_listkeys_answered:
  fixes gen :: "'f generated"
  assumes g: "cfg_grants (cxn_config c)" and m: "mem_wf m" and code: "code \<noteq> 0"
    and ini: "rlkq_empty (pb_init api)" and wf: "pred_option bin_wf bucket_type" "bin_wf b"
    and msgs: "list_all (\<lambda>(body, pb). Suc (length body) < 2 ^ 32 \<and> rlr_wf pb \<and> (\<forall>a. up_listkeys gen a body = Some pb)) msgs"
      "last_only (map snd msgs)"
    and lim: "length (concat (map (\<lambda>(_, pb). rlr_items pb) msgs)) < 2 ^ 31" "length msgs \<le> 2 ^ 31"
  shows "\<exists>msg. pbb_bytes (rlkq_bucket msg) = bin_bytes b \<and>
    map_option pbb_bytes (field_opt (rlkq_type msg)) = map_option bin_bytes bucket_type \<and>
    field_opt (rlkq_timeout msg) = (if timeout = 0 then None else Some timeout) \<and>
    (packs api msg \<longrightarrow> (\<exists>r m'.
       riak_listkeys peer gen api (Some c) bucket_type (Some b) timeout response
           (frames (map (\<lambda>(body, pb). (code, body)) msgs) @ beyond, out) m =
         Some (ERIAK_OK, Some (ListResponse r), (beyond, out @ frame MSG_RPBLISTKEYSREQ (pb_pack api msg)), m') \<and>
       map bin_bytes (arr_elems (riak_listkeys_get_keys r) (unat (riak_listkeys_get_n_keys r))) =
         map pbb_bytes (concat (map (\<lambda>(_, pb). rlr_items pb) msgs)) \<and>
       list_holds m r m'))"
proof -
  let ?fresh = "fresh_operation c m :: ('f riak_response, riak_decoder) riak_operation"
  have g0: "cfg_grants (rop_config ?fresh)" using g by simp
  have m0: "mem_wf (mem_push m)" using mem_allocs_wf [OF mem_allocs_push m] .
  obtain msg where msg: "pbb_bytes (rlkq_bucket msg) = bin_bytes b"
    "map_option pbb_bytes (field_opt (rlkq_type msg)) = map_option bin_bytes bucket_type"
    "field_opt (rlkq_timeout msg) = (if timeout = 0 then None else Some timeout)"
    and s: "packs api msg \<Longrightarrow> sends MSG_RPBLISTKEYSREQ (pb_pack api msg) DecodeListkeys ?fresh (mem_push m)
       (riak_listkeys_request_encode api DecodeListkeys ?fresh bucket_type (Some b) timeout (mem_push m))"
    using riak_listkeys_request_sends [OF g0 m0 ini wf, of timeout DecodeListkeys] by auto
  note call = keys_answer.call_answered [where gen = gen and response = response and out = out and code = code
      and encode = "\<lambda>rop. riak_listkeys_request_encode api DecodeListkeys rop bucket_type (Some b) timeout",
      unfolded items_length, OF g m code _ msgs lim, unfolded items_concat]
  show ?thesis
    using call s m msg
    by (intro exI [of _ msg])
      (fastforce simp: riak_listkeys_def list_holds_def list_items_def riak_listkeys_get_keys_def riak_listkeys_get_n_keys_def)
qed

lemma riak_listbuckets_answered:
  fixes gen :: "'f generated"
  assumes g: "cfg_grants (cxn_config c)" and m: "mem_wf m" and code: "code \<noteq> 0"
    and ini: "rlbq_empty (pb_init api)" and wf: "pred_option bin_wf bucket_type"
    and msgs: "list_all (\<lambda>(body, pb). Suc (length body) < 2 ^ 32 \<and> rlr_wf pb \<and> (\<forall>a. up_listbuckets gen a body = Some pb)) msgs"
      "last_only (map snd msgs)"
    and lim: "length (concat (map (\<lambda>(_, pb). rlr_items pb) msgs)) < 2 ^ 31" "length msgs \<le> 2 ^ 31"
  shows "\<exists>msg. rlbq_stream msg = (True, True) \<and>
    map_option pbb_bytes (field_opt (rlbq_type msg)) = map_option bin_bytes bucket_type \<and>
    field_opt (rlbq_timeout msg) = (if timeout = 0 then None else Some timeout) \<and>
    (packs api msg \<longrightarrow> (\<exists>r m'.
       riak_listbuckets peer gen api (Some c) bucket_type timeout response
           (frames (map (\<lambda>(body, pb). (code, body)) msgs) @ beyond, out) m =
         Some (ERIAK_OK, Some (ListResponse r), (beyond, out @ frame MSG_RPBLISTBUCKETSREQ (pb_pack api msg)), m') \<and>
       list_items r = map pbb_bytes (concat (map (\<lambda>(_, pb). rlr_items pb) msgs)) \<and> list_holds m r m'))"
proof -
  let ?fresh = "fresh_operation c m :: ('f riak_response, riak_decoder) riak_operation"
  have g0: "cfg_grants (rop_config ?fresh)" using g by simp
  have m0: "mem_wf (mem_push m)" using mem_allocs_wf [OF mem_allocs_push m] .
  obtain msg where msg: "rlbq_stream msg = (True, True)"
    "map_option pbb_bytes (field_opt (rlbq_type msg)) = map_option bin_bytes bucket_type"
    "field_opt (rlbq_timeout msg) = (if timeout = 0 then None else Some timeout)"
    and s: "packs api msg \<Longrightarrow> sends MSG_RPBLISTBUCKETSREQ (pb_pack api msg) DecodeListbuckets ?fresh (mem_push m)
       (riak_listbuckets_request_encode api DecodeListbuckets ?fresh bucket_type timeout (mem_push m))"
    using riak_listbuckets_request_sends [OF g0 m0 ini wf, of timeout DecodeListbuckets] by auto
  note call = buckets_answer.call_answered [where gen = gen and response = response and out = out and code = code
      and encode = "\<lambda>rop. riak_listbuckets_request_encode api DecodeListbuckets rop bucket_type timeout",
      unfolded items_length, OF g m code _ msgs lim, unfolded items_concat]
  show ?thesis
    using call s m msg by (intro exI [of _ msg]) (fastforce simp: riak_listbuckets_def list_holds_def)
qed

subsection \<open>Map/reduce\<close>

definition mr_says_done :: "rpb_map_red_resp \<Rightarrow> bool" where
  "mr_says_done pb \<longleftrightarrow> fst (rmr_done pb) \<and> snd (rmr_done pb)"

text \<open>The messages for the user are there exactly when the last message has come.\<close>

definition mr_okay :: "bool \<Rightarrow> riak_mapreduce_response \<Rightarrow> bool" where
  "mr_okay finished r \<longleftrightarrow> mr_ok r \<and> (mr_msg r \<noteq> None \<longleftrightarrow> finished)"

lemma mr_shown_none: "mr_msg r = None \<Longrightarrow> mr_shown r = []"
  by (simp add: mr_shown_def arr_owned_def arr_elems_def)

lemma as_mapreduce_wrapped [simp]: "as_mapreduce (map_option MapreduceResponse resp) = Some resp"
  by (cases resp) simp_all

interpretation mapreduce_answer: streamed_answer gen DecodeMapreduce MapreduceResponse
    "\<lambda>body pb. rmr_wf pb \<and> (\<forall>a. up_mapreduce gen a body = Some pb)" "\<lambda>pb. [rmr_content pb]" mr_says_done
    mr_items "\<lambda>r. unat (mr_n_responses r)" mr_okay mr_owned
  for gen :: "'f generated"
proof
  fix rop :: "('f riak_response, riak_decoder) riak_operation" and pbresp body pb m0 resp extra m
  assume a: "cfg_grants (rop_config rop)" "\<not> rop_streaming rop" "pbm_payload pbresp = Some body"
    "rmr_wf pb \<and> (\<forall>a. up_mapreduce gen a body = Some pb)" "mem_wf m0" "under_way (mr_okay False) mr_owned m0 resp extra m"
    "rop_response rop = map_option MapreduceResponse resp" "so_many (\<lambda>r. unat (mr_n_responses r)) resp < 2 ^ 31"
  have "\<exists>r m'. riak_mapreduce_response_decode (up_mapreduce gen) rop pbresp resp True m =
        Some (ERIAK_OK, Some r, mr_says_done pb, m') \<and> mr_okay (mr_says_done pb) r \<and>
      mr_items r = so_far mr_items resp @ [rmr_content pb] \<and>
      unat (mr_n_responses r) = Suc (so_many (\<lambda>r. unat (mr_n_responses r)) resp) \<and> mem_allocs m0 (mr_owned r @ extra) m'"
  proof (cases resp)
    case None
    have "mem_wf m" using mem_allocs_wf [OF _ a(5)] a(6) None by auto
    obtain r m' where r: "riak_mapreduce_response_decode (up_mapreduce gen) rop pbresp None True m =
        Some (ERIAK_OK, Some r, mr_says_done pb, m')" "mr_ok r" "mr_msg r \<noteq> None \<longleftrightarrow> mr_says_done pb"
      "mr_items r = [rmr_content pb]" "unat (mr_n_responses r) = 1" "mem_allocs m (mr_owned r) m'"
      using mapreduce_decode_first [where unpack = "up_mapreduce gen" and d = True and m = m and pb = pb, OF a(1,3) _ _ \<open>mem_wf m\<close> refl] a(2,4)
      by (auto simp: mr_says_done_def)
    have "mem_allocs m0 (mr_owned r @ extra) m'"
      by (rule mem_allocs_mset [OF mem_allocs_trans [OF _ r(6)]]) (use a(6) None in auto)
    with r None show ?thesis by (auto simp: mr_okay_def)
  next
    case (Some r)
    with a(6) have r: "mr_ok r" "mr_msg r = None" "mem_allocs m0 (mr_owned r @ extra) m" by (auto simp: mr_okay_def)
    have "mem_allocs m0 (extra @ mr_owned r) m" by (rule mem_allocs_mset [OF r(3)]) simp
    then obtain r' m' where r': "riak_mapreduce_response_decode (up_mapreduce gen) rop pbresp (Some r) True m =
        Some (ERIAK_OK, Some r', mr_says_done pb, m')" "mr_ok r'" "mr_msg r' \<noteq> None \<longleftrightarrow> mr_says_done pb"
      "mr_items r' = mr_items r @ [rmr_content pb]" "unat (mr_n_responses r') = Suc (unat (mr_n_responses r))"
      "mem_allocs m0 (extra @ mr_shown r @ mr_owned r') m'"
      using mapreduce_decode_more [where unpack = "up_mapreduce gen" and d = True and m = m and pb = pb and lost = extra,
          OF a(1,3) _ _ a(5) r(1) _ _ refl] a(2,4,8) r(2) Some
      by (auto simp: mr_says_done_def)
    have "mem_allocs m0 (mr_owned r' @ extra) m'"
      by (rule mem_allocs_mset [OF r'(6)]) (simp add: mr_shown_none [OF r(2)])
    with r' Some show ?thesis by (auto simp: mr_okay_def)
  qed
  then show "\<exists>r m'. riak_decode gen DecodeMapreduce rop pbresp True m =
        Some (ERIAK_OK, rop\<lparr>rop_response := Some (MapreduceResponse r)\<rparr>, mr_says_done pb, m') \<and> mr_okay (mr_says_done pb) r \<and>
      mr_items r = so_far mr_items resp @ [rmr_content pb] \<and>
      unat (mr_n_responses r) = Suc (so_many (\<lambda>r. unat (mr_n_responses r)) resp) \<and> mem_allocs m0 (mr_owned r @ extra) m'"
    by (elim ex_forward conj_forward) (simp_all add: riak_decode_def decode_into_def a(7))
qed

lemma riak_mapreduce_request_sends:
  assumes "cfg_grants (rop_config rop)" "mem_wf m" "bin_wf t" "bin_wf q"
  shows "\<exists>msg. pbb_bytes (rmq_request msg) = bin_bytes q \<and> pbb_bytes (rmq_content_type msg) = bin_bytes t \<and>
    (packs api msg \<longrightarrow> sends MSG_RPBMAPREDREQ (pb_pack api msg) decoder rop m
       (riak_mapreduce_request_encode api decoder rop (Some t) (Some q) m))"
proof -
  obtain q' t' where b: "riak_binary_copy_to_pb (Some q) = Some q'" "pbb_bytes q' = bin_bytes q"
    "riak_binary_copy_to_pb (Some t) = Some t'" "pbb_bytes t' = bin_bytes t"
    using copy_to_pb_ok [of "Some q"] copy_to_pb_ok [of "Some t"] assms(3,4) by (auto simp: ptr_wf_def ptr_bytes_def)
  let ?msg = "(pb_init api)\<lparr>rmq_request := q', rmq_content_type := t'\<rparr>"
  have "packs api ?msg \<Longrightarrow> sends MSG_RPBMAPREDREQ (pb_pack api ?msg) decoder rop m
      (riak_mapreduce_request_encode api decoder rop (Some t) (Some q) m)"
    using send_cfg_malloc(2) [OF assms(1) _ assms(2)] by (simp add: riak_mapreduce_request_encode_def b Let_def)
  with b show ?thesis by (intro exI [of _ ?msg]) simp
qed

text \<open>What the user sees of a finished response.\<close>

lemma mr_okay_messages:
  assumes "mr_okay True r"
  shows "map mm_content (arr_elems (riak_mapreduce_get_messages r) (unat (riak_mapreduce_get_n_messages r))) = mr_items r"
proof -
  have "mr_ok r" "mr_msg r \<noteq> None" using assms by (simp_all add: mr_okay_def)
  obtain us :: "(addr \<times> rpb_map_red_resp) list" where us: "length us = unat (mr_n_responses r)" "mr_items r = map (rmr_content \<circ> snd) us"
    "mr_msg r = None \<or> (\<exists>a ms. mr_msg r = Some \<lparr>pa_addr = a, pa_cells = map Some ms\<rparr> \<and>
        map mm_content ms = map (rmr_content \<circ> snd) us)"
    by (rule mr_okE [OF \<open>mr_ok r\<close>]) (rule that; assumption)
  then obtain a ms where ms: "mr_msg r = Some \<lparr>pa_addr = a, pa_cells = map Some ms\<rparr>"
    "map mm_content ms = map (rmr_content \<circ> snd) us" using \<open>mr_msg r \<noteq> None\<close> by blast
  have "length ms = unat (mr_n_responses r)" using ms(2) us(1) by (metis length_map)
  then show ?thesis
    using ms us(2) by (simp add: riak_mapreduce_get_messages_def riak_mapreduce_get_n_messages_def arr_elems_def comp_def
        flip: \<open>length ms = unat (mr_n_responses r)\<close>)
qed

lemma riak_mapreduce_answered:
  fixes gen :: "'f generated"
  assumes g: "cfg_grants (cxn_config c)" and m: "mem_wf m" and code: "code \<noteq> 0" and wf: "bin_wf t" "bin_wf q"
    and msgs: "list_all (\<lambda>(body, pb). Suc (length body) < 2 ^ 32 \<and> rmr_wf pb \<and> (\<forall>a. up_mapreduce gen a body = Some pb)) msgs"
      "ends_last mr_says_done (map snd msgs)" and lim: "length msgs < 2 ^ 31"
  shows "\<exists>msg. pbb_bytes (rmq_request msg) = bin_bytes q \<and> pbb_bytes (rmq_content_type msg) = bin_bytes t \<and>
    (packs api msg \<longrightarrow> (\<exists>r m' m''.
       riak_mapreduce peer gen api (Some c) (Some t) (Some q) response (frames (map (\<lambda>(body, pb). (code, body)) msgs) @ beyond, out) m =
         Some (ERIAK_OK, Some (MapreduceResponse r), (beyond, out @ frame MSG_RPBMAPREDREQ (pb_pack api msg)), m') \<and>
       map mm_content (arr_elems (riak_mapreduce_get_messages r) (unat (riak_mapreduce_get_n_messages r))) =
         map (rmr_content \<circ> snd) msgs \<and>
       riak_mapreduce_response_free (cxn_config c) (Some r) m' = Some m'' \<and> mem_live m'' = mem_live m))"
proof -
  let ?fresh = "fresh_operation c m :: ('f riak_response, riak_decoder) riak_operation"
  have g0: "cfg_grants (rop_config ?fresh)" using g by simp
  have m0: "mem_wf (mem_push m)" using mem_allocs_wf [OF mem_allocs_push m] .
  obtain msg where msg: "pbb_bytes (rmq_request msg) = bin_bytes q" "pbb_bytes (rmq_content_type msg) = bin_bytes t"
    and s: "packs api msg \<Longrightarrow> sends MSG_RPBMAPREDREQ (pb_pack api msg) DecodeMapreduce ?fresh (mem_push m)
       (riak_mapreduce_request_encode api DecodeMapreduce ?fresh (Some t) (Some q) (mem_push m))"
    using riak_mapreduce_request_sends [where decoder = DecodeMapreduce, OF g0 m0 wf] by blast
  have c: "concat (map (\<lambda>(_, pb). [rmr_content pb]) msgs) = map (rmr_content \<circ> snd) msgs" by (induction msgs) auto
  have "\<exists>r m' m''.
       riak_mapreduce peer gen api (Some c) (Some t) (Some q) response (frames (map (\<lambda>(body, pb). (code, body)) msgs) @ beyond, out) m =
         Some (ERIAK_OK, Some (MapreduceResponse r), (beyond, out @ frame MSG_RPBMAPREDREQ (pb_pack api msg)), m') \<and>
       map mm_content (arr_elems (riak_mapreduce_get_messages r) (unat (riak_mapreduce_get_n_messages r))) =
         map (rmr_content \<circ> snd) msgs \<and>
       riak_mapreduce_response_free (cxn_config c) (Some r) m' = Some m'' \<and> mem_live m'' = mem_live m" if pk: "packs api msg"
  proof -
    obtain r m' where r: "sync_call peer gen (Some c) (\<lambda>rop. riak_mapreduce_request_encode api DecodeMapreduce rop (Some t) (Some q))
        response (frames (map (\<lambda>(body, pb). (code, body)) msgs) @ beyond, out) m =
        Some (ERIAK_OK, Some (MapreduceResponse r), (beyond, out @ frame MSG_RPBMAPREDREQ (pb_pack api msg)), m')"
      "mr_okay True r" "mr_items r = map (rmr_content \<circ> snd) msgs" "mem_allocs m (mr_owned r) m'"
      using mapreduce_answer.call_answered [where gen = gen and response = response and out = out and code = code
          and beyond = beyond and encode = "\<lambda>rop. riak_mapreduce_request_encode api DecodeMapreduce rop (Some t) (Some q)",
          OF g m code s [OF pk] msgs, unfolded c] lim by auto
    obtain m'' where "riak_mapreduce_response_free (cxn_config c) (Some r) m' = Some m''" "mem_live m'' = mem_live m"
      using mr.release_balanced [OF cfg_grants_ok [OF g] _ m r(4) refl] r(2) by (auto simp: mr_okay_def)
    with r mr_okay_messages [OF r(2)] show ?thesis by (auto simp: riak_mapreduce_def)
  qed
  with msg show ?thesis by blast
qed

end
