(* ===== verification/Riak_Async.thy ===== *)
theory Riak_Async
  imports Riak_Events Riak_Listing
begin

text \<open>
  Whole asynchronous requests over libevent (\<^verbatim>\<open>src/riak_async.c\<close>,
  \<^verbatim>\<open>src/adapters/riak_libevent.h\<close>): from the operation to the response callback, and
  giving back the memory.
\<close>

text \<open>The answer is one message that the decoder accepts and that ends the exchange.\<close>

lemma async_one_message:
  fixes rop :: "('f riak_response, riak_decoder) riak_operation"
  assumes g: "cfg_grants (rop_config rop)" and d: "rop_decoder rop = Some d" and cb: "rop_response_cb rop = Some cb"
    and rop: "rop_position rop = 0" "\<not> rop_msglen_complete rop" "rop_msgbuf rop = None"
    and m: "mem_wf m0" "mem_allocs m0 (rop_owned rop) m"
    and ms: "code \<noteq> 0" "Suc (length body) < 2 ^ 32" "concat xs = frame code body" "cuts_ok [(code, body)] 0 xs"
    and dec: "\<exists>r m2. riak_decode gen d (arrived m code body rop) (Some (arrived_msg m code body)) True (mem_push (mem_push m)) =
        Some (ERIAK_OK, (arrived m code body rop)\<lparr>rop_response := Some r\<rparr>, True, m2) \<and>
        mem_allocs (mem_push (mem_push m)) (own r) m2 \<and> Q r"
  shows "\<exists>ys zs st' r. xs = ys @ zs \<and>
    client_run gen (\<lparr>rs_rop = rop, rs_done = False, rs_io = [], rs_mem = m, rs_trace = []\<rparr>, True) ys (st', False) \<and>
    rs_trace st' = [ResponseCb cb (Some r)] \<and> rs_rop st' = handled (Some r) rop \<and>
    mem_allocs m0 (rop_owned rop @ own r) (rs_mem st') \<and> Q r"
proof -
  let ?st = "\<lparr>rs_rop = rop, rs_done = False, rs_io = [] :: bytes, rs_mem = m, rs_trace = []\<rparr>" and ?a = "mem_next m"
  obtain r m2 where r: "riak_decode gen d (arrived m code body rop) (Some (arrived_msg m code body)) True (mem_push (mem_push m)) =
      Some (ERIAK_OK, (arrived m code body rop)\<lparr>rop_response := Some r\<rparr>, True, m2)"
    "mem_allocs (mem_push (mem_push m)) (own r) m2" "Q r"
    using dec by blast
  have all: "mem_allocs m0 ([?a, Suc ?a] @ rop_owned rop @ own r) m2"
    by (rule mem_allocs_mset [OF mem_allocs_trans [OF mem_allocs_trans [OF m(2)
          mem_allocs_trans [OF mem_allocs_push mem_allocs_push]] r(2)]]) simp
  let ?m3 = "m2\<lparr>mem_live := mem_live m2 - {?a, Suc ?a}\<rparr>"
  let ?st1 = "?st\<lparr>rs_rop := handled (Some r) rop, rs_done := True, rs_mem := ?m3, rs_trace := [ResponseCb cb (Some r)]\<rparr>"
  have "{?a, Suc ?a} \<subseteq> mem_live m2" using mem_allocs_live [OF all] by auto
  then have "receive_message (up_error gen) (riak_decode gen) code body ?st = Some (Some ERIAK_OK, ?st1)"
    using receive_message_decodes [where st = ?st and d = d and decode = "riak_decode gen" and fin = True and m' = m2
        and resp = "Some r" and code = code and body = body and ue = "up_error gen"] ms(1,2) g d cb r(1)
    by simp
  then have rms: "receive_messages (up_error gen) (riak_decode gen) [(code, body)] ?st = Some (ERIAK_OK, ?st1)"
    by simp
  have b: "at_boundary ?st" using rop by (simp add: at_boundary_def)
  have "\<exists>ys zs st'. xs = ys @ zs \<and> client_run gen (?st, True) ys (st', False) \<and> rs_trace st' = rs_trace ?st1 \<and>
      rs_rop st' = rs_rop ?st1 \<and> rs_mem st' = rs_mem ?st1"
    by (rule client_completes [OF b _ _ _ _ _ ms(4) rms]) (use g ms in simp_all)
  moreover have "mem_allocs m0 (rop_owned rop @ own r) ?m3"
    using mem_allocs_free_part(2) [OF all m(1) refl] by simp
  ultimately show ?thesis using r(3) by fastforce
qed

text \<open>The operation that \<open>riak_operation_new\<close> makes, and the memory of a finished one.\<close>

lemma riak_operation_new_granted:
  "cfg_grants (cxn_config c) \<Longrightarrow>
   riak_operation_new (Some c) response_cb error_cb cb_data m = Some (ERIAK_OK,
     Some ((operation_zero (mem_next m))\<lparr>rop_config := cxn_config c, rop_response_cb := response_cb,
       rop_error_cb := error_cb, rop_cb_data := cb_data\<rparr>), mem_push m)"
  by (simp add: riak_operation_new_def riak_connection_get_config_def clean_allocate_eq allocate_granted Let_def)

lemma mem_allocs_free_two:
  assumes "mem_wf m0" "mem_allocs m0 (xs @ ys) m"
  shows "mem_free_all ys m = Some (m\<lparr>mem_live := mem_live m - set ys\<rparr>)"
    and "mem_free_all xs (m\<lparr>mem_live := mem_live m - set ys\<rparr>) = Some (m\<lparr>mem_live := mem_live m0\<rparr>)"
proof -
  have a: "mem_allocs m0 (ys @ xs) m" by (rule mem_allocs_mset [OF assms(2)]) simp
  show "mem_free_all ys m = Some (m\<lparr>mem_live := mem_live m - set ys\<rparr>)"
    by (rule mem_allocs_free_part(1) [OF a assms(1) refl])
  show "mem_free_all xs (m\<lparr>mem_live := mem_live m - set ys\<rparr>) = Some (m\<lparr>mem_live := mem_live m0\<rparr>)"
    using mem_allocs_free_all [OF mem_allocs_free_part(2) [OF a assms(1) refl] assms(1) refl] by simp
qed

text \<open>A ping.\<close>

lemma async_ping_completes:
  fixes gen :: "'f generated"
  assumes g: "cfg_grants (cxn_config c)" and m: "mem_wf m"
    and ms: "code \<noteq> 0" "Suc (length body) < 2 ^ 32" "concat xs = frame code body" "cuts_ok [(code, body)] 0 xs"
  shows "\<exists>rop m1 rop' m2 ys zs st' a.
    riak_operation_new (Some c) None error_cb cb_data m = Some (ERIAK_OK, Some rop, m1) \<and>
    riak_async_register_ping DecodePing rop (Some cb) m1 = Some (ERIAK_OK, rop', m2) \<and>
    (\<forall>out. riak_write rop' write_all out = Some (ERIAK_OK, out @ frame MSG_RPBPINGREQ [])) \<and>
    xs = ys @ zs \<and>
    client_run gen (\<lparr>rs_rop = rop', rs_done = False, rs_io = [], rs_mem = m2, rs_trace = []\<rparr>, True) ys (st', False) \<and>
    rs_trace st' = [ResponseCb cb (Some (PingResponse \<lparr>ping_at = a, ping_success = True\<rparr>))]"
proof -
  let ?rop = "(operation_zero (mem_next m))\<lparr>rop_config := cxn_config c, rop_response_cb := None, rop_error_cb := error_cb,
    rop_cb_data := cb_data\<rparr> :: ('f riak_response, riak_decoder) riak_operation"
  let ?rc = "?rop\<lparr>rop_response_cb := Some cb\<rparr>"
  have "cfg_grants (rop_config ?rc)" using g by simp
  then obtain p m2 where p: "riak_async_register_ping DecodePing ?rop (Some cb) (mem_push m) =
      Some (ERIAK_OK, ?rc\<lparr>rop_pb_request := Some p, rop_decoder := Some DecodePing\<rparr>, m2)"
    "mem_allocs (mem_push m) (pbm_owned p) m2"
    and w: "\<forall>out. riak_write (?rc\<lparr>rop_pb_request := Some p, rop_decoder := Some DecodePing\<rparr>) write_all out =
      Some (ERIAK_OK, out @ frame MSG_RPBPINGREQ [])"
    using send_empty_sends [of ?rc MSG_RPBPINGREQ DecodePing "mem_push m"]
    unfolding sends_def riak_async_register_ping_def riak_ping_request_encode_def riak_operation_set_response_cb_def
    by blast
  let ?op = "?rc\<lparr>rop_pb_request := Some p, rop_decoder := Some DecodePing\<rparr>"
  have own: "mem_allocs m (rop_owned ?op) m2"
    by (rule mem_allocs_mset [OF mem_allocs_trans [OF mem_allocs_push p(2)]])
      (simp add: rop_owned_def operation_zero_def se.owned_p_def)
  let ?m = "mem_push (mem_push m2)" and ?arr = "arrived m2 code body ?op"
  let ?own = "\<lambda>r. case r of PingResponse x \<Rightarrow> [ping_at x] | _ \<Rightarrow> []"
  let ?r = "PingResponse \<lparr>ping_at = mem_next ?m, ping_success = True\<rparr> :: 'f riak_response"
  have "riak_decode gen DecodePing ?arr (Some (arrived_msg m2 code body)) True ?m =
      Some (ERIAK_OK, ?arr\<lparr>rop_response := Some ?r\<rparr>, True, mem_push ?m)"
    using g by (simp add: riak_decode_def decode_into_def riak_ping_response_decode_def riak_operation_get_config_def
        cfg_malloc_eq allocate_granted operation_zero_def)
  moreover have "mem_allocs ?m (?own ?r) (mem_push ?m)"
    by (simp only: riak_response.case riak_ping_response.select_convs) (rule mem_allocs_push)
  ultimately have dec: "\<exists>r m3. riak_decode gen DecodePing ?arr (Some (arrived_msg m2 code body)) True ?m =
      Some (ERIAK_OK, ?arr\<lparr>rop_response := Some r\<rparr>, True, m3) \<and> mem_allocs ?m (?own r) m3 \<and> r = ?r" by blast
  have "\<exists>ys zs st' r. xs = ys @ zs \<and>
    client_run gen (\<lparr>rs_rop = ?op, rs_done = False, rs_io = [], rs_mem = m2, rs_trace = []\<rparr>, True) ys (st', False) \<and>
    rs_trace st' = [ResponseCb cb (Some r)] \<and> rs_rop st' = handled (Some r) ?op \<and>
    mem_allocs m (rop_owned ?op @ ?own r) (rs_mem st') \<and> r = ?r"
    by (rule async_one_message [OF _ _ _ _ _ _ m own ms dec]) (use g in \<open>simp_all add: operation_zero_def\<close>)
  then obtain ys zs st' where c: "xs = ys @ zs"
    "client_run gen (\<lparr>rs_rop = ?op, rs_done = False, rs_io = [], rs_mem = m2, rs_trace = []\<rparr>, True) ys (st', False)"
    "rs_trace st' = [ResponseCb cb (Some ?r)]" by (elim exE conjE) simp
  show ?thesis
    by (rule exI [of _ ?rop], rule exI [of _ "mem_push m"], rule exI [of _ ?op], rule exI [of _ m2], rule exI [of _ ys],
        rule exI [of _ zs], rule exI [of _ st'], rule exI [of _ "mem_next ?m"], intro conjI p(1) w c
        riak_operation_new_granted [OF g])
qed

text \<open>A get.\<close>

lemma async_get_completes:
  fixes gen :: "'f generated"
  assumes g: "cfg_grants (cxn_config c)" and m: "mem_wf m"
    and ms: "code \<noteq> 0" "Suc (length body) < 2 ^ 32" "concat xs = frame code body" "cuts_ok [(code, body)] 0 xs"
    and ini: "rgq_empty (pb_init api)"
    and wf: "pred_option bin_wf bucket_type" "bin_wf b" "bin_wf k" "pred_option gopt_wf options"
    and pb: "\<And>a. up_get gen a body = Some pb" "rgr_wf pb"
  shows "\<exists>rop m1 msg. riak_operation_new (Some c) None error_cb cb_data m = Some (ERIAK_OK, Some rop, m1) \<and>
    pbb_bytes (rgq_bucket msg) = bin_bytes b \<and> pbb_bytes (rgq_key msg) = bin_bytes k \<and>
    map_option pbb_bytes (field_opt (rgq_type msg)) = map_option bin_bytes bucket_type \<and> get_says options msg \<and>
    (packs api msg \<longrightarrow> (\<exists>rop' m2 ys zs st' r m3 m4.
       riak_async_register_get api DecodeGet rop bucket_type (Some b) (Some k) options (Some cb) m1 = Some (ERIAK_OK, rop', m2) \<and>
       (\<forall>out. riak_write rop' write_all out = Some (ERIAK_OK, out @ frame MSG_RPBGETREQ (pb_pack api msg))) \<and>
       xs = ys @ zs \<and>
       client_run gen (\<lparr>rs_rop = rop', rs_done = False, rs_io = [], rs_mem = m2, rs_trace = []\<rparr>, True) ys (st', False) \<and>
       rs_trace st' = [ResponseCb cb (Some (GetResponse r))] \<and>
       map_option bin_bytes (riak_get_get_vclock r) = map_option pbb_bytes (field_opt (rgr_vclock pb)) \<and>
       map object_content (arr_elems (riak_get_get_content r) (unat (rgr_n_content pb))) =
         map rpb_content_of (arr_elems (rgr_content pb) (unat (rgr_n_content pb))) \<and>
       riak_get_response_free (cxn_config c) (Some r) (rs_mem st') = Some m3 \<and>
       riak_operation_free (Some (rs_rop st')) m3 = Some m4 \<and> mem_live m4 = mem_live m))"
proof -
  let ?rop = "(operation_zero (mem_next m))\<lparr>rop_config := cxn_config c, rop_response_cb := None, rop_error_cb := error_cb,
    rop_cb_data := cb_data\<rparr> :: ('f riak_response, riak_decoder) riak_operation"
  let ?ropc = "?rop\<lparr>rop_response_cb := Some cb\<rparr>"
  have g0: "cfg_grants (rop_config ?ropc)" using g by simp
  have m0: "mem_wf (mem_push m)" using mem_allocs_wf [OF mem_allocs_push m] .
  obtain msg rop m1 where msg: "pbb_bytes (rgq_bucket msg) = bin_bytes b" "pbb_bytes (rgq_key msg) = bin_bytes k"
    "map_option pbb_bytes (field_opt (rgq_type msg)) = map_option bin_bytes bucket_type" "get_says options msg"
    and names: "pred_option bin_wf (req_bucket_type rop)" "pred_option bin_wf (req_bucket rop)" "pred_option bin_wf (req_key rop)"
      "req_index rop = None"
    and al: "mem_allocs (mem_push m) (bin.owned_p (req_bucket_type rop) @ bin.owned_p (req_bucket rop) @
      bin.owned_p (req_key rop)) m1"
    and s: "packs api msg \<Longrightarrow> sends MSG_RPBGETREQ (pb_pack api msg) DecodeGet rop m1
       (riak_get_request_encode api DecodeGet ?ropc bucket_type (Some b) (Some k) options (mem_push m))"
    using riak_get_request_sends [OF g0 m0 ini wf, of DecodeGet] by (auto simp: operation_zero_def)
  have "\<exists>rop' m2 ys zs st' r m3 m4.
       riak_async_register_get api DecodeGet ?rop bucket_type (Some b) (Some k) options (Some cb) (mem_push m) =
         Some (ERIAK_OK, rop', m2) \<and>
       (\<forall>out. riak_write rop' write_all out = Some (ERIAK_OK, out @ frame MSG_RPBGETREQ (pb_pack api msg))) \<and>
       xs = ys @ zs \<and>
       client_run gen (\<lparr>rs_rop = rop', rs_done = False, rs_io = [], rs_mem = m2, rs_trace = []\<rparr>, True) ys (st', False) \<and>
       rs_trace st' = [ResponseCb cb (Some (GetResponse r))] \<and>
       map_option bin_bytes (riak_get_get_vclock r) = map_option pbb_bytes (field_opt (rgr_vclock pb)) \<and>
       map object_content (arr_elems (riak_get_get_content r) (unat (rgr_n_content pb))) =
         map rpb_content_of (arr_elems (rgr_content pb) (unat (rgr_n_content pb))) \<and>
       riak_get_response_free (cxn_config c) (Some r) (rs_mem st') = Some m3 \<and>
       riak_operation_free (Some (rs_rop st')) m3 = Some m4 \<and> mem_live m4 = mem_live m" if pk: "packs api msg"
  proof -
    obtain p m2 where p: "riak_get_request_encode api DecodeGet ?ropc bucket_type (Some b) (Some k) options (mem_push m) =
        Some (ERIAK_OK, rop\<lparr>rop_pb_request := Some p, rop_decoder := Some DecodeGet\<rparr>, m2)"
      "mem_allocs m1 (pbm_owned p) m2"
      and w: "\<forall>out. riak_write (rop\<lparr>rop_pb_request := Some p, rop_decoder := Some DecodeGet\<rparr>) write_all out =
        Some (ERIAK_OK, out @ frame MSG_RPBGETREQ (pb_pack api msg))"
      using s [OF pk] unfolding sends_def by blast
    let ?op = "rop\<lparr>rop_pb_request := Some p, rop_decoder := Some DecodeGet\<rparr>"
    have part: "reader_part ?op = reader_part ?ropc" using riak_get_request_part [OF p(1)] .
    note pt = reader_partD [OF part, simplified]
    have own: "mem_allocs m (rop_owned ?op) m2"
      by (rule mem_allocs_mset [OF mem_allocs_trans [OF mem_allocs_trans [OF mem_allocs_push al] p(2)]])
        (use pt names(4) in \<open>simp add: rop_owned_def operation_zero_def se.owned_p_def\<close>)
    let ?own = "\<lambda>r. case r of GetResponse x \<Rightarrow> gr_owned x | _ \<Rightarrow> []"
    let ?Q = "\<lambda>r. gr_ok r \<and> map_option bin_bytes (riak_get_get_vclock r) = map_option pbb_bytes (field_opt (rgr_vclock pb)) \<and>
       map object_content (arr_elems (riak_get_get_content r) (unat (rgr_n_content pb))) =
         map rpb_content_of (arr_elems (rgr_content pb) (unat (rgr_n_content pb)))"
    let ?arr = "arrived m2 code body ?op"
    obtain x m3 where x: "riak_get_response_decode (up_get gen) ?arr (Some (arrived_msg m2 code body)) None True
        (mem_push (mem_push m2)) = Some (ERIAK_OK, Some x, True, m3)"
      "mem_allocs (mem_push (mem_push m2)) (gr_owned x) m3" "?Q x"
      using riak_get_response_decode_ok [of ?arr "Some (arrived_msg m2 code body)" body "up_get gen"
          "mem_push (mem_push m2)" pb None True] g pt names pb ms(2) by auto
    have dec: "\<exists>r m3. riak_decode gen DecodeGet ?arr (Some (arrived_msg m2 code body)) True (mem_push (mem_push m2)) =
        Some (ERIAK_OK, ?arr\<lparr>rop_response := Some r\<rparr>, True, m3) \<and> mem_allocs (mem_push (mem_push m2)) (?own r) m3 \<and>
        (\<exists>x. r = GetResponse x \<and> ?Q x)"
      using x pt by (intro exI [of _ "GetResponse x"]) (simp add: riak_decode_def decode_into_def operation_zero_def)
    have "\<exists>ys zs st' r. xs = ys @ zs \<and>
      client_run gen (\<lparr>rs_rop = ?op, rs_done = False, rs_io = [], rs_mem = m2, rs_trace = []\<rparr>, True) ys (st', False) \<and>
      rs_trace st' = [ResponseCb cb (Some r)] \<and> rs_rop st' = handled (Some r) ?op \<and>
      mem_allocs m (rop_owned ?op @ ?own r) (rs_mem st') \<and> (\<exists>x. r = GetResponse x \<and> ?Q x)"
      by (rule async_one_message [OF _ _ _ _ _ _ m own ms dec]) (use g pt in \<open>simp_all add: operation_zero_def\<close>)
    then obtain ys zs st' r where c: "xs = ys @ zs"
      "client_run gen (\<lparr>rs_rop = ?op, rs_done = False, rs_io = [], rs_mem = m2, rs_trace = []\<rparr>, True) ys (st', False)"
      "rs_trace st' = [ResponseCb cb (Some (GetResponse r))]" "rs_rop st' = handled (Some (GetResponse r)) ?op"
      "mem_allocs m (rop_owned ?op @ gr_owned r) (rs_mem st')" "?Q r" by auto
    have ok: "cfg_ok (cxn_config c)" "cfg_ok (rop_config (rs_rop st'))" using g pt c(4) by simp_all
    have "rop_owned (rs_rop st') = rop_owned ?op" unfolding c(4) by (rule handled_owned) (use pt in \<open>simp add: operation_zero_def\<close>)
    then have "\<exists>m3 m4. riak_get_response_free (cxn_config c) (Some r) (rs_mem st') = Some m3 \<and>
        riak_operation_free (Some (rs_rop st')) m3 = Some m4 \<and> mem_live m4 = mem_live m"
      using mem_allocs_free_two [OF m c(5)] gr.release_owned [OF ok(1), of r] c(6) riak_operation_free_owned [OF ok(2)] by simp
    with p(1) w c(1,2,3,6) show ?thesis
      by (simp only: riak_async_register_get_def riak_operation_set_response_cb_def) blast
  qed
  with msg riak_operation_new_granted [OF g, of None error_cb cb_data m] show ?thesis by blast
qed

subsection \<open>Streams\<close>

context streamed_answer
begin

text \<open>The callback gets the one response the whole stream has filled.\<close>

lemma async_answered:
  fixes rop :: "('f riak_response, riak_decoder) riak_operation"
  assumes g: "cfg_grants (rop_config rop)" and d: "rop_decoder rop = Some d" and cb: "rop_response_cb rop = Some cb"
    and rop: "rop_position rop = 0" "\<not> rop_msglen_complete rop" "rop_msgbuf rop = None" "rop_response rop = None"
      "\<not> rop_streaming rop"
    and m: "mem_wf m0" "mem_allocs m0 (rop_owned rop) m" and code: "code \<noteq> 0"
    and msgs: "list_all (\<lambda>(body, pb). Suc (length body) < 2 ^ 32 \<and> fits body pb) msgs" "ends_last ended (map snd msgs)"
    and lim: "length (concat (map (\<lambda>(_, pb). items pb) msgs)) < 2 ^ 31" "length msgs \<le> 2 ^ 31"
    and xs: "concat xs = frames (map (\<lambda>(body, pb). (code, body)) msgs)"
      "cuts_ok (map (\<lambda>(body, pb). (code, body)) msgs) 0 xs"
  shows "\<exists>ys zs st' r. xs = ys @ zs \<and>
    client_run gen (\<lparr>rs_rop = rop, rs_done = False, rs_io = [], rs_mem = m, rs_trace = []\<rparr>, True) ys (st', False) \<and>
    rs_trace st' = [ResponseCb cb (Some (wrap r))] \<and> rs_rop st' = handled (Some (wrap r)) rop \<and> okay True r \<and>
    contents r = concat (map (\<lambda>(_, pb). items pb) msgs) \<and> mem_allocs m0 (owned r @ rop_owned rop) (rs_mem st')"
proof -
  let ?st = "\<lparr>rs_rop = rop, rs_done = False, rs_io = [] :: bytes, rs_mem = m, rs_trace = []\<rparr>"
    and ?ms = "map (\<lambda>(body, pb). (code, body)) msgs"
  obtain r st1 where r: "receive_messages (up_error gen) (riak_decode gen) ?ms ?st = Some (ERIAK_OK, st1)"
    "rs_rop st1 = handled (Some (wrap r)) rop" "okay True r" "contents r = concat (map (\<lambda>(_, pb). items pb) msgs)"
    "mem_allocs m0 (owned r @ rop_owned rop) (rs_mem st1)" "rs_done st1" "rs_trace st1 = [ResponseCb cb (Some (wrap r))]"
    using receive_stream [where st = ?st and resp = None and extra = "rop_owned rop", OF _ _ _ code m(1) _ _ msgs]
      g d cb rop m(2) lim by auto
  have b: "at_boundary ?st" using rop by (simp add: at_boundary_def)
  have len: "\<forall>(code, body) \<in> set ?ms. Suc (length body) < 2 ^ 32" using msgs(1) by (auto simp: list_all_iff)
  have "\<exists>ys zs st'. xs = ys @ zs \<and> client_run gen (?st, True) ys (st', False) \<and> rs_trace st' = rs_trace st1 \<and>
      rs_rop st' = rs_rop st1 \<and> rs_mem st' = rs_mem st1"
    by (rule client_completes [OF b _ _ _ len xs r(1,6)]) (use g in simp_all)
  with r show ?thesis by fastforce
qed

end

lemma async_listkeys_completes:
  fixes gen :: "'f generated"
  assumes g: "cfg_grants (cxn_config c)" and m: "mem_wf m" and code: "code \<noteq> 0"
    and ini: "rlkq_empty (pb_init api)" and wf: "pred_option bin_wf bucket_type" "bin_wf b"
    and msgs: "list_all (\<lambda>(body, pb). Suc (length body) < 2 ^ 32 \<and> rlr_wf pb \<and> (\<forall>a. up_listkeys gen a body = Some pb)) msgs"
      "last_only (map snd msgs)"
    and lim: "length (concat (map (\<lambda>(_, pb). rlr_items pb) msgs)) < 2 ^ 31" "length msgs \<le> 2 ^ 31"
    and xs: "concat xs = frames (map (\<lambda>(body, pb). (code, body)) msgs)"
      "cuts_ok (map (\<lambda>(body, pb). (code, body)) msgs) 0 xs"
  shows "\<exists>rop m1 msg. riak_operation_new (Some c) None error_cb cb_data m = Some (ERIAK_OK, Some rop, m1) \<and>
    pbb_bytes (rlkq_bucket msg) = bin_bytes b \<and>
    (packs api msg \<longrightarrow> (\<exists>rop' m2 ys zs st' r m3 m4.
       riak_async_register_listkeys api DecodeListkeys rop bucket_type (Some b) timeout (Some cb) m1 = Some (ERIAK_OK, rop', m2) \<and>
       (\<forall>out. riak_write rop' write_all out = Some (ERIAK_OK, out @ frame MSG_RPBLISTKEYSREQ (pb_pack api msg))) \<and>
       xs = ys @ zs \<and>
       client_run gen (\<lparr>rs_rop = rop', rs_done = False, rs_io = [], rs_mem = m2, rs_trace = []\<rparr>, True) ys (st', False) \<and>
       rs_trace st' = [ResponseCb cb (Some (ListResponse r))] \<and>
       map bin_bytes (arr_elems (riak_listkeys_get_keys r) (unat (riak_listkeys_get_n_keys r))) =
         map pbb_bytes (concat (map (\<lambda>(_, pb). rlr_items pb) msgs)) \<and>
       riak_listkeys_response_free (cxn_config c) (Some r) (rs_mem st') = Some m3 \<and>
       riak_operation_free (Some (rs_rop st')) m3 = Some m4 \<and> mem_live m4 = mem_live m))"
proof -
  let ?rop = "(operation_zero (mem_next m))\<lparr>rop_config := cxn_config c, rop_response_cb := None, rop_error_cb := error_cb,
    rop_cb_data := cb_data\<rparr> :: ('f riak_response, riak_decoder) riak_operation"
  let ?rc = "?rop\<lparr>rop_response_cb := Some cb\<rparr>" and ?ms = "map (\<lambda>(body, pb). (code, body)) msgs"
  have g0: "cfg_grants (rop_config ?rc)" using g by simp
  have m0: "mem_wf (mem_push m)" using mem_allocs_wf [OF mem_allocs_push m] .
  obtain msg where msg: "pbb_bytes (rlkq_bucket msg) = bin_bytes b"
    and s: "packs api msg \<Longrightarrow> sends MSG_RPBLISTKEYSREQ (pb_pack api msg) DecodeListkeys ?rc (mem_push m)
       (riak_listkeys_request_encode api DecodeListkeys ?rc bucket_type (Some b) timeout (mem_push m))"
    using riak_listkeys_request_sends [OF g0 m0 ini wf, of timeout DecodeListkeys] by blast
  have "\<exists>rop' m2 ys zs st' r m3 m4.
       riak_async_register_listkeys api DecodeListkeys ?rop bucket_type (Some b) timeout (Some cb) (mem_push m) =
         Some (ERIAK_OK, rop', m2) \<and>
       (\<forall>out. riak_write rop' write_all out = Some (ERIAK_OK, out @ frame MSG_RPBLISTKEYSREQ (pb_pack api msg))) \<and>
       xs = ys @ zs \<and>
       client_run gen (\<lparr>rs_rop = rop', rs_done = False, rs_io = [], rs_mem = m2, rs_trace = []\<rparr>, True) ys (st', False) \<and>
       rs_trace st' = [ResponseCb cb (Some (ListResponse r))] \<and>
       map bin_bytes (arr_elems (riak_listkeys_get_keys r) (unat (riak_listkeys_get_n_keys r))) =
         map pbb_bytes (concat (map (\<lambda>(_, pb). rlr_items pb) msgs)) \<and>
       riak_listkeys_response_free (cxn_config c) (Some r) (rs_mem st') = Some m3 \<and>
       riak_operation_free (Some (rs_rop st')) m3 = Some m4 \<and> mem_live m4 = mem_live m" if pk: "packs api msg"
  proof -
    obtain p m2 where p: "riak_listkeys_request_encode api DecodeListkeys ?rc bucket_type (Some b) timeout (mem_push m) =
        Some (ERIAK_OK, ?rc\<lparr>rop_pb_request := Some p, rop_decoder := Some DecodeListkeys\<rparr>, m2)"
      "mem_allocs (mem_push m) (pbm_owned p) m2"
      and w: "\<forall>out. riak_write (?rc\<lparr>rop_pb_request := Some p, rop_decoder := Some DecodeListkeys\<rparr>) write_all out =
        Some (ERIAK_OK, out @ frame MSG_RPBLISTKEYSREQ (pb_pack api msg))"
      using s [OF pk] unfolding sends_def by blast
    let ?op = "?rc\<lparr>rop_pb_request := Some p, rop_decoder := Some DecodeListkeys\<rparr>"
    have own: "mem_allocs m (rop_owned ?op) m2"
      by (rule mem_allocs_mset [OF mem_allocs_trans [OF mem_allocs_push p(2)]])
        (simp add: rop_owned_def operation_zero_def se.owned_p_def)
    obtain ys zs st' r where c: "xs = ys @ zs"
      "client_run gen (\<lparr>rs_rop = ?op, rs_done = False, rs_io = [], rs_mem = m2, rs_trace = []\<rparr>, True) ys (st', False)"
      "rs_trace st' = [ResponseCb cb (Some (ListResponse r))]" "rs_rop st' = handled (Some (ListResponse r)) ?op" "list_ok r"
      "list_items r = map pbb_bytes (concat (map (\<lambda>(_, pb). rlr_items pb) msgs))"
      "mem_allocs m (list_owned r @ rop_owned ?op) (rs_mem st')"
      using keys_answer.async_answered [where gen = gen and rop = ?op and cb = cb and msgs = msgs and code = code,
          unfolded items_length, OF _ _ _ _ _ _ _ _ m own code msgs lim xs, unfolded items_concat] g
      by (auto simp: operation_zero_def)
    have ok: "cfg_ok (cxn_config c)" "cfg_ok (rop_config (rs_rop st'))" using g c(4) by simp_all
    have own': "mem_allocs m (rop_owned ?op @ list_owned r) (rs_mem st')" by (rule mem_allocs_mset [OF c(7)]) simp
    have "rop_owned (rs_rop st') = rop_owned ?op" unfolding c(4) by (rule handled_owned) (simp add: operation_zero_def)
    then have "\<exists>m3 m4. riak_listkeys_response_free (cxn_config c) (Some r) (rs_mem st') = Some m3 \<and>
        riak_operation_free (Some (rs_rop st')) m3 = Some m4 \<and> mem_live m4 = mem_live m"
      using mem_allocs_free_two [OF m own'] lsr.release_owned [OF ok(1) c(5)] riak_operation_free_owned [OF ok(2)]
      by (simp add: riak_listkeys_response_free_def)
    with p(1) w c(1,2,3,6) show ?thesis
      by (simp only: riak_async_register_listkeys_def riak_operation_set_response_cb_def list_items_def
          riak_listkeys_get_keys_def riak_listkeys_get_n_keys_def) blast
  qed
  with msg riak_operation_new_granted [OF g, of None error_cb cb_data m] show ?thesis by blast
qed

end
