(* ===== verification/Riak_Requests.thy ===== *)
theory Riak_Requests
  imports Riak_Exchange
begin

text \<open>
  Whole calls over a socket: an index query, a search, and setting and resetting bucket properties
  (\<^verbatim>\<open>src/riak.c\<close>). The frame that goes out, the response that comes back, and what memory is left.
\<close>

subsection \<open>Index queries\<close>

lemma riak_2i_answered:
  fixes gen :: "'f generated"
  assumes g: "cfg_grants (cxn_config c)" and m: "mem_wf m" and code: "code \<noteq> 0" and len: "Suc (length body) < 2 ^ 32"
    and ini: "riq_empty (pb_init api)"
    and wf: "pred_option bin_wf bucket_type" "bin_wf b" "bin_wf i" "pred_option i2o_wf options"
    and pb: "\<And>a. up_2i gen a body = Some pb" "chunk_wf pb" "rir_n_results pb = 0" "length (rir_keys pb) < 2 ^ 32"
      "rir_done pb = (True, True)"
  shows "\<exists>msg. pbb_bytes (riq_bucket msg) = bin_bytes b \<and> pbb_bytes (riq_index msg) = bin_bytes i \<and>
    index_says bucket_type options msg \<and>
    (packs api msg \<longrightarrow> (\<exists>r m' m'' k.
       riak_2i peer gen api (Some c) bucket_type (Some b) (Some i) options response (frame code body @ beyond, out) m =
         Some (ERIAK_OK, Some (IndexResponse r), (beyond, out @ frame MSG_RPBINDEXREQ (pb_pack api msg)), m') \<and>
       map bin_bytes (arr_elems (riak_2i_get_keys r) (unat (riak_2i_get_n_keys r))) = map pbb_bytes (rir_keys pb) \<and>
       riak_2i_get_continuation r = Some k \<and> riak_2i_response_free (cxn_config c) (Some r) m' = Some m'' \<and>
       mem_live m'' = insert (bin_at k) (mem_live m) \<and> bin_at k \<notin> mem_live m))"
proof -
  let ?rop0 = "fresh_operation c m :: ('f riak_response, riak_decoder) riak_operation"
  have g0: "cfg_grants (rop_config ?rop0)" using g by simp
  have m0: "mem_wf (mem_push m)" using mem_allocs_wf [OF mem_allocs_push m] .
  obtain msg rop m1 where msg: "pbb_bytes (riq_bucket msg) = bin_bytes b" "pbb_bytes (riq_index msg) = bin_bytes i"
    "index_says bucket_type options msg" and names: "req_key rop = None"
    and al: "mem_allocs (mem_push m) (bin.owned_p (req_bucket_type rop) @ bin.owned_p (req_bucket rop) @
      bin.owned_p (req_index rop)) m1"
    and s: "packs api msg \<Longrightarrow> sends MSG_RPBINDEXREQ (pb_pack api msg) Decode2i rop m1
       (riak_2i_request_encode api Decode2i ?rop0 bucket_type (Some b) (Some i) options (mem_push m))"
    using riak_2i_request_sends [OF g0 m0 ini wf, of Decode2i] by auto
  let ?own = "\<lambda>r. case r of IndexResponse x \<Rightarrow> i2_owned x @ map bin_at (case riak_2i_get_continuation x of None \<Rightarrow> [] | Some k \<Rightarrow> [k]) | _ \<Rightarrow> []"
  let ?Q = "\<lambda>r. i2_ok r \<and> (\<exists>k. riak_2i_get_continuation r = Some k) \<and>
       map bin_bytes (arr_elems (riak_2i_get_keys r) (unat (riak_2i_get_n_keys r))) = map pbb_bytes (rir_keys pb)"
  have "\<exists>r m'. sync_call peer gen (Some c) (\<lambda>rop. riak_2i_request_encode api Decode2i rop bucket_type (Some b)
        (Some i) options) response (frame code body @ beyond, out) m =
      Some (ERIAK_OK, Some r, (beyond, out @ frame MSG_RPBINDEXREQ (pb_pack api msg)), m') \<and> mem_allocs m (?own r) m' \<and>
      (\<exists>x. r = IndexResponse x \<and> ?Q x)" if p: "packs api msg"
  proof (rule sync_call_sends [OF g m _ _ _ code len])
    show "reader_part rop = reader_part ?rop0"
      using s [OF p] by (auto simp: sends_def dest: riak_2i_request_part)
    fix rop' :: "('f riak_response, riak_decoder) riak_operation" and m1 :: mem
    assume r: "rop_config rop' = cxn_config c" "rop_response rop' = None"
    have "cfg_grants (rop_config rop')" using g r by simp
    then obtain x m2 k where x: "riak_2i_response_decode (up_2i gen) rop' (Some (arrived_msg m1 code body)) None True
        (mem_push (mem_push m1)) = Some (ERIAK_OK, Some x, True, m2)" "i2_ok x"
      "mem_allocs (mem_push (mem_push m1)) (i2_owned x @ [bin_at k]) m2" "riak_2i_get_continuation x = Some k"
      "map bin_bytes (arr_elems (riak_2i_get_keys x) (unat (riak_2i_get_n_keys x))) = map pbb_bytes (rir_keys pb)"
      using riak_2i_response_decode_ok [where unpack = "up_2i gen" and d = True and m = "mem_push (mem_push m1)",
          OF _ arrived_payload [OF len] pb(1) pb(2,3,4,5)] by blast
    then show "\<exists>r m2. riak_decode gen Decode2i rop' (Some (arrived_msg m1 code body)) True (mem_push (mem_push m1)) =
        Some (ERIAK_OK, rop'\<lparr>rop_response := Some r\<rparr>, True, m2) \<and> mem_allocs (mem_push (mem_push m1)) (?own r) m2 \<and>
        (\<exists>x. r = IndexResponse x \<and> ?Q x)"
      by (intro exI [of _ "IndexResponse x"] exI [of _ m2]) (simp add: riak_decode_def decode_into_def r)
  qed (use al names s [OF p] in simp_all)
  then have "\<exists>r m' k.
       riak_2i peer gen api (Some c) bucket_type (Some b) (Some i) options response (frame code body @ beyond, out) m =
         Some (ERIAK_OK, Some (IndexResponse r), (beyond, out @ frame MSG_RPBINDEXREQ (pb_pack api msg)), m') \<and>
       i2_ok r \<and> mem_allocs m (i2_owned r @ [bin_at k]) m' \<and> riak_2i_get_continuation r = Some k \<and>
       map bin_bytes (arr_elems (riak_2i_get_keys r) (unat (riak_2i_get_n_keys r))) = map pbb_bytes (rir_keys pb)"
    if "packs api msg" using that unfolding riak_2i_def by fastforce
  with msg riak_2i_response_freed [OF cfg_grants_ok [OF g] m] show ?thesis by blast
qed

subsection \<open>Search\<close>

lemma riak_search_answered:
  fixes gen :: "'f generated"
  assumes g: "cfg_grants (cxn_config c)" and m: "mem_wf m" and code: "code \<noteq> 0" and len: "Suc (length body) < 2 ^ 32"
    and ini: "rsq_empty (pb_init api)" and wf: "bin_wf b" "bin_wf q" "pred_option so_wf options"
    and pb: "\<And>a. up_search gen a body = Some pb" "rsr_docs pb = map Some rds" "length rds = unat (rsr_n_docs pb)"
      "list_all rsd_wf rds"
  shows "\<exists>msg. pbb_bytes (rsq_index msg) = bin_bytes b \<and> pbb_bytes (rsq_q msg) = bin_bytes q \<and>
    search_says options msg \<and>
    (packs api msg \<longrightarrow> (\<exists>r m' m''.
       riak_search peer gen api (Some c) (Some b) (Some q) options response (frame code body @ beyond, out) m =
         Some (ERIAK_OK, Some (SearchResponse r), (beyond, out @ frame MSG_RPBSEARCHQUERYREQ (pb_pack api msg)), m') \<and>
       sr_contents r = map rsd_content rds \<and> sr_max_score r = rsr_max_score pb \<and> sr_num_found r = rsr_num_found pb \<and>
       riak_search_response_free (cxn_config c) (Some r) m' = Some m'' \<and> mem_live m'' = mem_live m))"
proof -
  let ?rop0 = "fresh_operation c m :: ('f riak_response, riak_decoder) riak_operation"
  have g0: "cfg_grants (rop_config ?rop0)" using g by simp
  have m0: "mem_wf (mem_push m)" using mem_allocs_wf [OF mem_allocs_push m] .
  obtain msg rop m1 where msg: "pbb_bytes (rsq_index msg) = bin_bytes b" "pbb_bytes (rsq_q msg) = bin_bytes q"
    "search_says options msg" and names: "req_bucket_type rop = None" "req_key rop = None" "req_index rop = None"
    and al: "mem_allocs (mem_push m) (bin.owned_p (req_bucket rop)) m1"
    and s: "packs api msg \<Longrightarrow> sends MSG_RPBSEARCHQUERYREQ (pb_pack api msg) DecodeSearch rop m1
       (riak_search_request_encode api DecodeSearch ?rop0 (Some b) (Some q) options (mem_push m))"
    using riak_search_request_sends [OF g0 m0 ini wf, of DecodeSearch] by auto
  let ?own = "\<lambda>r. case r of SearchResponse x \<Rightarrow> sr_owned x | _ \<Rightarrow> []"
  let ?Q = "\<lambda>r. sr_ok r \<and> sr_contents r = map rsd_content rds \<and> sr_max_score r = rsr_max_score pb \<and>
    sr_num_found r = rsr_num_found pb"
  have call: "\<exists>r m'. sync_call peer gen (Some c) (\<lambda>rop. riak_search_request_encode api DecodeSearch rop (Some b)
        (Some q) options) response (frame code body @ beyond, out) m =
      Some (ERIAK_OK, Some r, (beyond, out @ frame MSG_RPBSEARCHQUERYREQ (pb_pack api msg)), m') \<and> mem_allocs m (?own r) m' \<and>
      (\<exists>x. r = SearchResponse x \<and> ?Q x)" if p: "packs api msg"
  proof (rule sync_call_sends [OF g m _ _ _ code len])
    show "reader_part rop = reader_part ?rop0"
      using s [OF p] by (auto simp: sends_def dest: riak_search_request_part)
    fix rop' :: "('f riak_response, riak_decoder) riak_operation" and m1 :: mem
    assume r: "rop_config rop' = cxn_config c" "rop_response rop' = None"
    have "cfg_grants (rop_config rop')" using g r by simp
    then obtain x m2 where x: "riak_search_response_decode (up_no_score gen) (up_search gen) rop'
        (Some (arrived_msg m1 code body)) None True (mem_push (mem_push m1)) = Some (ERIAK_OK, Some x, True, m2)"
      "mem_allocs (mem_push (mem_push m1)) (sr_owned x) m2" "?Q x"
      using riak_search_response_decode_ok [where unpack = "up_search gen" and d = True and z = "up_no_score gen"
          and m = "mem_push (mem_push m1)", OF _ arrived_payload [OF len] pb(1) pb(2,3,4)] by blast
    then show "\<exists>r m2. riak_decode gen DecodeSearch rop' (Some (arrived_msg m1 code body)) True (mem_push (mem_push m1)) =
        Some (ERIAK_OK, rop'\<lparr>rop_response := Some r\<rparr>, True, m2) \<and> mem_allocs (mem_push (mem_push m1)) (?own r) m2 \<and>
        (\<exists>x. r = SearchResponse x \<and> ?Q x)"
      by (intro exI [of _ "SearchResponse x"] exI [of _ m2]) (simp add: riak_decode_def decode_into_def r)
  qed (use al names s [OF p] in simp_all)
  have "\<exists>r m' m''.
       riak_search peer gen api (Some c) (Some b) (Some q) options response (frame code body @ beyond, out) m =
         Some (ERIAK_OK, Some (SearchResponse r), (beyond, out @ frame MSG_RPBSEARCHQUERYREQ (pb_pack api msg)), m') \<and>
       sr_contents r = map rsd_content rds \<and> sr_max_score r = rsr_max_score pb \<and> sr_num_found r = rsr_num_found pb \<and>
       riak_search_response_free (cxn_config c) (Some r) m' = Some m'' \<and> mem_live m'' = mem_live m"
    if "packs api msg"
  proof -
    from call [OF that] obtain x m' where x:
      "riak_search peer gen api (Some c) (Some b) (Some q) options response (frame code body @ beyond, out) m =
         Some (ERIAK_OK, Some (SearchResponse x), (beyond, out @ frame MSG_RPBSEARCHQUERYREQ (pb_pack api msg)), m')"
      "mem_allocs m (sr_owned x) m'" "?Q x" unfolding riak_search_def by fastforce
    then obtain m'' where "riak_search_response_free (cxn_config c) (Some x) m' = Some m''" "mem_live m'' = mem_live m"
      using sr.release_balanced [OF cfg_grants_ok [OF g] _ m x(2) refl] by auto
    with x show ?thesis by blast
  qed
  with msg show ?thesis by blast
qed

subsection \<open>Setting bucket properties\<close>

text \<open>
  Properties with a hook or a function cannot be sent: the headers of the messages made for them are
  not initialised, and protobuf-c follows them.
\<close>

lemma riak_set_bucketprops_request_undefined:
  assumes "cfg_grants (rop_config rop)" "rbp_empty init_props" "bp_wf props" "\<not> bp_plain props"
  shows "riak_set_bucketprops_request_encode api init_props decoder rop bucket_type bucket props m = None"
  using riak_bucketprops_to_pb_ok [OF assms(1-3), of m] assms(4)
  by (auto simp: riak_set_bucketprops_request_encode_def split: bind_splits)

lemma riak_set_bucketprops_undefined:
  assumes "cfg_grants (cxn_config c)" "rbp_empty init_props" "bp_wf props" "\<not> bp_plain props"
  shows "riak_set_bucketprops sys gen api init_props (Some c) bucket_type bucket props response os m = None"
  using assms
  by (simp add: riak_set_bucketprops_def sync_call_def riak_operation_new_fresh riak_set_bucketprops_request_undefined)

text \<open>Of other properties, the empty arrays that were made are on the ledger for good: nobody frees them.\<close>

lemma riak_set_bucketprops_request_leaks:
  assumes g: "cfg_grants (rop_config rop)" and m: "mem_wf m"
    and ini: "\<not> fst (rsb_type (pb_init api))" "rbp_empty init_props"
    and wf: "pred_option bin_wf bucket_type" "bin_wf b" "bp_wf props" "bp_plain props"
  shows "\<exists>msg m'. pbb_bytes (rsb_bucket msg) = bin_bytes b \<and>
    map_option pbb_bytes (field_opt (rsb_type msg)) = map_option bin_bytes bucket_type \<and>
    rbp_content_of (rsb_props msg) = bp_content_of props \<and> mem_allocs m (rbp_owned (rsb_props msg)) m' \<and>
    (packs api msg \<longrightarrow> sends MSG_RPBSETBUCKETREQ (pb_pack api msg) decoder rop m'
       (riak_set_bucketprops_request_encode api init_props decoder rop bucket_type (Some b) props m))"
proof -
  obtain ty where t: "given_to_pb bucket_type (rsb_type (pb_init api)) = Some ty"
    "map_option pbb_bytes (field_opt ty) = map_option bin_bytes bucket_type"
    using given_to_pb_ok [OF wf(1) ini(1)] by blast
  obtain b' where b: "riak_binary_copy_to_pb (Some b) = Some b'" "pbb_bytes b' = bin_bytes b"
    using copy_to_pb_ok [of "Some b"] wf(2) by (auto simp: ptr_wf_def ptr_bytes_def)
  obtain q m' where q: "riak_bucketprops_to_pb_copy (rop_config rop) init_props props m = Some (ERIAK_OK, q, m')"
    "rbp_content_of q = bp_content_of props" "mem_allocs m (rbp_owned q) m'" "rbp_packable q"
    using riak_bucketprops_to_pb_ok [OF g ini(2) wf(3)] wf(4) by blast
  let ?msg = "(pb_init api)\<lparr>rsb_type := ty, rsb_bucket := b', rsb_props := q\<rparr>"
  have "packs api ?msg \<Longrightarrow> sends MSG_RPBSETBUCKETREQ (pb_pack api ?msg) decoder rop m'
      (riak_set_bucketprops_request_encode api init_props decoder rop bucket_type (Some b) props m)"
    using send_cfg_malloc(2) [OF g _ mem_allocs_wf [OF q(3) m]]
    by (simp add: riak_set_bucketprops_request_encode_def t(1) b(1) q(1,4) Let_def)
  with t b q show ?thesis by (intro exI [of _ ?msg] exI [of _ m']) simp
qed

lemma riak_set_bucketprops_answered:
  fixes gen :: "'f generated"
  assumes g: "cfg_grants (cxn_config c)" and m: "mem_wf m" and code: "code \<noteq> 0" and len: "Suc (length body) < 2 ^ 32"
    and ini: "\<not> fst (rsb_type (pb_init api))" "rbp_empty init_props"
    and wf: "pred_option bin_wf bucket_type" "bin_wf b" "bp_wf props" "bp_plain props"
  shows "\<exists>msg. pbb_bytes (rsb_bucket msg) = bin_bytes b \<and>
    map_option pbb_bytes (field_opt (rsb_type msg)) = map_option bin_bytes bucket_type \<and>
    rbp_content_of (rsb_props msg) = bp_content_of props \<and>
    (packs api msg \<longrightarrow> (\<exists>r m' m''.
       riak_set_bucketprops peer gen api init_props (Some c) bucket_type (Some b) props response (frame code body @ beyond, out) m =
         Some (ERIAK_OK, Some (AckResponse r), (beyond, out @ frame MSG_RPBSETBUCKETREQ (pb_pack api msg)), m') \<and>
       riak_set_bucketprops_response_free (cxn_config c) (Some r) m' = Some m'' \<and>
       mem_live m'' = mem_live m \<union> set (rbp_owned (rsb_props msg)) \<and>
       mem_live m \<inter> set (rbp_owned (rsb_props msg)) = {}))"
proof -
  let ?rop = "fresh_operation c m :: ('f riak_response, riak_decoder) riak_operation"
  have g0: "cfg_grants (rop_config ?rop)" using g by simp
  have m0: "mem_wf (mem_push m)" using mem_allocs_wf [OF mem_allocs_push m] .
  obtain msg m1 where msg: "pbb_bytes (rsb_bucket msg) = bin_bytes b"
    "map_option pbb_bytes (field_opt (rsb_type msg)) = map_option bin_bytes bucket_type"
    "rbp_content_of (rsb_props msg) = bp_content_of props"
    and al: "mem_allocs (mem_push m) (rbp_owned (rsb_props msg)) m1"
    and s: "packs api msg \<Longrightarrow> sends MSG_RPBSETBUCKETREQ (pb_pack api msg) DecodeSetBucketprops ?rop m1
       (riak_set_bucketprops_request_encode api init_props DecodeSetBucketprops ?rop bucket_type (Some b) props (mem_push m))"
    using riak_set_bucketprops_request_leaks [OF g0 m0 ini wf, of DecodeSetBucketprops] by blast
  let ?leak = "rbp_owned (rsb_props msg)" and ?own = "\<lambda>r. case r of AckResponse a \<Rightarrow> [ack_at a] | _ \<Rightarrow> []"
  let ?encode = "\<lambda>rop. riak_set_bucketprops_request_encode api init_props DecodeSetBucketprops rop bucket_type (Some b) props"
  have call: "\<exists>r m'. sync_call peer gen (Some c) ?encode response (frame code body @ beyond, out) m =
      Some (ERIAK_OK, Some r, (beyond, out @ frame MSG_RPBSETBUCKETREQ (pb_pack api msg)), m') \<and>
      mem_allocs m (?own r @ ?leak) m' \<and> (\<exists>a. r = AckResponse \<lparr>ack_at = a\<rparr>)" if p: "packs api msg"
  proof (rule sync_call_leaks [where encode = ?encode and leak = ?leak, OF g m refl _ s [OF p] code len])
    fix rop' :: "('f riak_response, riak_decoder) riak_operation" and m1 :: mem
    assume r: "rop_config rop' = cxn_config c" "rop_response rop' = None"
    let ?p = "AckResponse \<lparr>ack_at = mem_next (mem_push (mem_push m1))\<rparr>"
    have "mem_allocs (mem_push (mem_push m1)) (?own ?p) (mem_push (mem_push (mem_push m1)))"
      by (simp only: riak_response.case riak_ack.select_convs) (rule mem_allocs_push)
    with r g show "\<exists>r m2. riak_decode gen DecodeSetBucketprops rop' (Some (arrived_msg m1 code body)) True
          (mem_push (mem_push m1)) = Some (ERIAK_OK, rop'\<lparr>rop_response := Some r\<rparr>, True, m2) \<and>
        mem_allocs (mem_push (mem_push m1)) (?own r) m2 \<and> (\<exists>a. r = AckResponse \<lparr>ack_at = a\<rparr>)"
      by (intro exI [of _ ?p]) (simp add: riak_decode_def riak_set_bucketprops_response_decode_def decode_into_def
          ack_decode_def riak_operation_get_config_def cfg_malloc_eq allocate_granted)
  qed (use al in simp)
  have "\<exists>r m' m''.
       riak_set_bucketprops peer gen api init_props (Some c) bucket_type (Some b) props response (frame code body @ beyond, out) m =
         Some (ERIAK_OK, Some (AckResponse r), (beyond, out @ frame MSG_RPBSETBUCKETREQ (pb_pack api msg)), m') \<and>
       riak_set_bucketprops_response_free (cxn_config c) (Some r) m' = Some m'' \<and>
       mem_live m'' = mem_live m \<union> set ?leak \<and> mem_live m \<inter> set ?leak = {}"
    if "packs api msg"
  proof -
    from call [OF that] obtain a m' where x: "riak_set_bucketprops peer gen api init_props (Some c) bucket_type (Some b) props response
        (frame code body @ beyond, out) m = Some (ERIAK_OK, Some (AckResponse \<lparr>ack_at = a\<rparr>),
          (beyond, out @ frame MSG_RPBSETBUCKETREQ (pb_pack api msg)), m')" "mem_allocs m ([a] @ ?leak) m'"
      unfolding riak_set_bucketprops_def by fastforce
    have "riak_set_bucketprops_response_free (cxn_config c) (Some \<lparr>ack_at = a\<rparr>) m' =
        Some (m'\<lparr>mem_live := mem_live m' - {a}\<rparr>)"
      using mem_allocs_free_part(1) [OF x(2) m refl]
      by (simp add: riak_set_bucketprops_response_free_def ack_free_def riak_free_ptrs [OF cfg_grants_ok [OF g]])
    moreover have "mem_live m' - {a} = mem_live m \<union> set ?leak" "mem_live m \<inter> set ?leak = {}"
      using x(2) mem_allocs_fresh [OF x(2) m] by (auto simp: mem_allocs_def)
    ultimately show ?thesis using x(1) by (intro exI conjI) (assumption | simp)+
  qed
  with msg show ?thesis by blast
qed

subsection \<open>Resetting bucket properties\<close>

text \<open>
  The call hands the bucket type and the bucket to its encoder in each other's place, so that the
  properties of another bucket are reset; and the code is that of a request that sets properties.
\<close>

lemma riak_reset_bucketprops_answered:
  fixes gen :: "'f generated"
  assumes g: "cfg_grants (cxn_config c)" and m: "mem_wf m" and code: "code \<noteq> 0" and len: "Suc (length body) < 2 ^ 32"
    and ini: "\<not> fst (rbq_type (pb_init api))" and wf: "bin_wf bt" "pred_option bin_wf bucket"
  shows "\<exists>msg. pbb_bytes (rbq_bucket msg) = bin_bytes bt \<and>
    map_option pbb_bytes (field_opt (rbq_type msg)) = map_option bin_bytes bucket \<and>
    (packs api msg \<longrightarrow> (\<exists>r m' m''.
       riak_reset_bucketprops peer gen api (Some c) (Some bt) bucket response (frame code body @ beyond, out) m =
         Some (ERIAK_OK, Some (AckResponse r), (beyond, out @ frame MSG_RPBSETBUCKETREQ (pb_pack api msg)), m') \<and>
       riak_reset_bucketprops_response_free (cxn_config c) (Some r) m' = Some m'' \<and> mem_live m'' = mem_live m))"
proof -
  let ?rop = "fresh_operation c m :: ('f riak_response, riak_decoder) riak_operation"
  have g0: "cfg_grants (rop_config ?rop)" using g by simp
  have m0: "mem_wf (mem_push m)" using mem_allocs_wf [OF mem_allocs_push m] .
  obtain x where x: "riak_binary_copy_to_pb (Some bt) = Some x" "pbb_bytes x = bin_bytes bt"
    using copy_to_pb_ok [of "Some bt"] wf(1) by (auto simp: ptr_wf_def ptr_bytes_def)
  obtain ty where ty: "given_to_pb bucket (rbq_type (pb_init api)) = Some ty"
    "map_option pbb_bytes (field_opt ty) = map_option bin_bytes bucket"
    using given_to_pb_ok [OF wf(2) ini] by blast
  let ?msg = "(pb_init api)\<lparr>rbq_type := ty, rbq_bucket := x\<rparr>"
  let ?encode = "\<lambda>rop. riak_reset_bucketprops_request_encode api DecodeResetBucketprops rop (Some bt) bucket"
  have "\<exists>r m' m''. riak_reset_bucketprops peer gen api (Some c) (Some bt) bucket response (frame code body @ beyond, out) m =
         Some (ERIAK_OK, Some (AckResponse r), (beyond, out @ frame MSG_RPBSETBUCKETREQ (pb_pack api ?msg)), m') \<and>
       riak_reset_bucketprops_response_free (cxn_config c) (Some r) m' = Some m'' \<and> mem_live m'' = mem_live m"
    if p: "packs api ?msg"
  proof -
    note s = riak_reset_bucketprops_request_sends [OF g0 x(1) ty(1) refl p m0, of DecodeResetBucketprops]
    have d: "riak_decode gen DecodeResetBucketprops rop pb fin m =
        decode_into as_ack AckResponse (\<lambda>r. ack_decode ''riak_reset_bucketprops_response'' rop r m) rop" for rop pb fin m
      by (simp add: riak_decode_def riak_reset_bucketprops_response_decode_def)
    obtain a m' where r: "riak_reset_bucketprops peer gen api (Some c) (Some bt) bucket response
        (frame code body @ beyond, out) m = Some (ERIAK_OK, Some (AckResponse \<lparr>ack_at = a\<rparr>),
          (beyond, out @ frame MSG_RPBSETBUCKETREQ (pb_pack api ?msg)), m')" "mem_allocs m [a] m'"
      using sync_call_acked [where encode = ?encode, OF g m code len s d] unfolding riak_reset_bucketprops_def by blast
    have "riak_reset_bucketprops_response_free (cxn_config c) (Some \<lparr>ack_at = a\<rparr>) m' =
        Some (m'\<lparr>mem_live := mem_live m\<rparr>)"
      using mem_allocs_free_all [OF r(2) m refl]
      by (simp add: riak_reset_bucketprops_response_free_def ack_free_def riak_free_ptrs [OF cfg_grants_ok [OF g]])
    with r(1) show ?thesis by (intro exI conjI) (assumption | simp)+
  qed
  with x(2) ty(2) show ?thesis by (intro exI [of _ ?msg]) simp
qed

lemma riak_reset_bucketprops_no_type:
  assumes "cfg_grants (cxn_config c)"
  shows "riak_reset_bucketprops sys gen api (Some c) None bucket response os m = None"
  by (simp add: riak_reset_bucketprops_def sync_call_def riak_operation_new_fresh [OF assms]
      riak_reset_bucketprops_no_bucket)

end
