(* ===== verification/Riak_Session.thy ===== *)
theory Riak_Session
  imports Riak_Exchange
begin

text \<open>
  Several synchronous calls on one connection (\<^verbatim>\<open>src/riak.c\<close>): pings, deletes and gets in any
  order. Each call reads its own answer and no byte behind it, so that the answers find their
  calls, and between two calls no memory of the library is in use. And a get followed by a put of an
  object it returned.
\<close>

datatype session_call =
    PingCall
  | DeleteCall "riak_binary option" riak_binary riak_binary "riak_delete_options option"
  | GetCall "riak_binary option" riak_binary riak_binary "riak_get_options option"

text \<open>What the program does with a call: of a get it keeps the contents and frees the response.\<close>

fun perform_call ::
  "'f generated \<Rightarrow> rpb_del_req pb_api \<Rightarrow> rpb_get_req pb_api \<Rightarrow> 'a riak_connection \<Rightarrow> session_call \<Rightarrow>
   bytes \<times> bytes \<Rightarrow> mem \<Rightarrow> ((riak_error \<times> _ list) \<times> (bytes \<times> bytes) \<times> mem) option"
where
  "perform_call gen dapi gapi c PingCall os m =
     do { (e, os, m) \<leftarrow> riak_ping peer gen (Some c) os m; Some ((e, []), os, m) }"
| "perform_call gen dapi gapi c (DeleteCall t b k opts) os m =
     do { (e, os, m) \<leftarrow> riak_delete peer gen dapi (Some c) t (Some b) (Some k) opts os m; Some ((e, []), os, m) }"
| "perform_call gen dapi gapi c (GetCall t b k opts) os m =
     do { (e, response, os, m) \<leftarrow> riak_get peer gen gapi (Some c) t (Some b) (Some k) opts None os m;
          resp \<leftarrow> as_get response;
          r \<leftarrow> resp;
          let contents = map object_content (arr_elems (riak_get_get_content r) (int_count (riak_get_get_n_content r)));
          m \<leftarrow> riak_get_response_free (cxn_config c) resp m;
          Some ((e, contents), os, m) }"

fun session ::
  "'f generated \<Rightarrow> rpb_del_req pb_api \<Rightarrow> rpb_get_req pb_api \<Rightarrow> 'a riak_connection \<Rightarrow> session_call list \<Rightarrow>
   bytes \<times> bytes \<Rightarrow> mem \<Rightarrow> ((riak_error \<times> _ list) list \<times> (bytes \<times> bytes) \<times> mem) option"
where
  "session gen dapi gapi c [] os m = Some ([], os, m)"
| "session gen dapi gapi c (q # qs) os m =
     do { (x, os, m) \<leftarrow> perform_call gen dapi gapi c q os m;
          (xs, os, m) \<leftarrow> session gen dapi gapi c qs os m;
          Some (x # xs, os, m) }"

text \<open>What the message of a delete or a get says.\<close>

definition delete_asks ::
  "riak_binary option \<Rightarrow> riak_binary \<Rightarrow> riak_binary \<Rightarrow> riak_delete_options option \<Rightarrow> rpb_del_req \<Rightarrow> bool"
where
  "delete_asks t b k opts msg \<longleftrightarrow> pbb_bytes (rdr_bucket msg) = bin_bytes b \<and> pbb_bytes (rdr_key msg) = bin_bytes k \<and>
     map_option pbb_bytes (field_opt (rdr_type msg)) = map_option bin_bytes t \<and> delete_says opts msg"

definition get_asks ::
  "riak_binary option \<Rightarrow> riak_binary \<Rightarrow> riak_binary \<Rightarrow> riak_get_options option \<Rightarrow> rpb_get_req \<Rightarrow> bool"
where
  "get_asks t b k opts msg \<longleftrightarrow> pbb_bytes (rgq_bucket msg) = bin_bytes b \<and> pbb_bytes (rgq_key msg) = bin_bytes k \<and>
     map_option pbb_bytes (field_opt (rgq_type msg)) = map_option bin_bytes t \<and> get_says opts msg"

text \<open>The frame that goes out for a call.\<close>

fun call_sends :: "rpb_del_req pb_api \<Rightarrow> rpb_get_req pb_api \<Rightarrow> session_call \<Rightarrow> u8 \<times> bytes \<Rightarrow> bool" where
  "call_sends dapi gapi PingCall f \<longleftrightarrow> f = (MSG_RPBPINGREQ, [])"
| "call_sends dapi gapi (DeleteCall t b k opts) f \<longleftrightarrow>
     (\<exists>msg. f = (MSG_RPBDELREQ, pb_pack dapi msg) \<and> delete_asks t b k opts msg)"
| "call_sends dapi gapi (GetCall t b k opts) f \<longleftrightarrow>
     (\<exists>msg. f = (MSG_RPBGETREQ, pb_pack gapi msg) \<and> get_asks t b k opts msg)"

text \<open>A call with binaries in order, whose message can be packed.\<close>

fun call_wf :: "rpb_del_req pb_api \<Rightarrow> rpb_get_req pb_api \<Rightarrow> session_call \<Rightarrow> bool" where
  "call_wf dapi gapi PingCall \<longleftrightarrow> True"
| "call_wf dapi gapi (DeleteCall t b k opts) \<longleftrightarrow> pred_option bin_wf t \<and> bin_wf b \<and> bin_wf k \<and> pred_option dopt_wf opts \<and>
     (\<forall>msg. delete_asks t b k opts msg \<longrightarrow> packs dapi msg)"
| "call_wf dapi gapi (GetCall t b k opts) \<longleftrightarrow> pred_option bin_wf t \<and> bin_wf b \<and> bin_wf k \<and> pred_option gopt_wf opts \<and>
     (\<forall>msg. get_asks t b k opts msg \<longrightarrow> packs gapi msg)"

text \<open>An answer with the contents \<open>xs\<close>: any message that is no error, for a get one that can be read.\<close>

fun call_answer :: "'f generated \<Rightarrow> session_call \<Rightarrow> u8 \<times> bytes \<Rightarrow> _ list \<Rightarrow> bool" where
  "call_answer gen q (code, body) xs \<longleftrightarrow> code \<noteq> 0 \<and> Suc (length body) < 2 ^ 32 \<and>
     (case q of
        GetCall t b k opts \<Rightarrow> \<exists>pb. (\<forall>a. up_get gen a body = Some pb) \<and> rgr_wf pb \<and>
          xs = map rpb_content_of (arr_elems (rgr_content pb) (unat (rgr_n_content pb)))
      | _ \<Rightarrow> xs = [])"

text \<open>One call.\<close>

lemma perform_call_answered:
  fixes gen :: "'f generated"
  assumes g: "cfg_grants (cxn_config c)" and m: "mem_wf m" and ini: "rdr_empty (pb_init dapi)" "rgq_empty (pb_init gapi)"
    and q: "call_wf dapi gapi q" "call_answer gen q (code, body) xs"
  shows "\<exists>f m'. perform_call gen dapi gapi c q (frame code body @ beyond, out) m =
      Some ((ERIAK_OK, xs), (beyond, out @ frames [f]), m') \<and> call_sends dapi gapi q f \<and> mem_allocs m [] m'"
proof (cases q)
  case PingCall
  obtain m' where "riak_ping peer gen (Some c) (frame code body @ beyond, out) m =
      Some (ERIAK_OK, (beyond, out @ frame MSG_RPBPINGREQ []), m')" "mem_allocs m [] m'"
    using riak_ping_answered [OF g m, where gen = gen and code = code and body = body] q(2) by (auto simp: PingCall)
  with q(2) show ?thesis by (intro exI [of _ "(MSG_RPBPINGREQ, [])"]) (simp add: PingCall)
next
  case (DeleteCall t b k opts)
  obtain msg where msg: "delete_asks t b k opts msg"
    "packs dapi msg \<longrightarrow> (\<exists>m'. riak_delete peer gen dapi (Some c) t (Some b) (Some k) opts (frame code body @ beyond, out) m =
       Some (ERIAK_OK, (beyond, out @ frame MSG_RPBDELREQ (pb_pack dapi msg)), m') \<and> mem_allocs m [] m')"
    using riak_delete_answered [OF g m _ _ ini(1), where gen = gen and code = code and body = body and bucket_type = t
        and b = b and k = k and options = opts and out = out and beyond = beyond] q
    unfolding DeleteCall by (auto simp: delete_asks_def)
  with q show ?thesis
    by (intro exI [of _ "(MSG_RPBDELREQ, pb_pack dapi msg)"]) (auto simp: DeleteCall)
next
  case (GetCall t b k opts)
  obtain pb where pb: "\<And>a. up_get gen a body = Some pb" "rgr_wf pb"
    "xs = map rpb_content_of (arr_elems (rgr_content pb) (unat (rgr_n_content pb)))"
    using q(2) by (auto simp: GetCall)
  obtain msg where msg: "get_asks t b k opts msg"
    "packs gapi msg \<longrightarrow> (\<exists>r m'. riak_get peer gen gapi (Some c) t (Some b) (Some k) opts None (frame code body @ beyond, out) m =
       Some (ERIAK_OK, Some (GetResponse r), (beyond, out @ frame MSG_RPBGETREQ (pb_pack gapi msg)), m') \<and>
       gr_ok r \<and> mem_allocs m (gr_owned r) m' \<and> int_count (riak_get_get_n_content r) = unat (rgr_n_content pb) \<and>
       map object_content (arr_elems (riak_get_get_content r) (unat (rgr_n_content pb))) = xs)"
    using riak_get_answered [OF g m _ _ ini(2), where gen = gen and code = code and body = body and bucket_type = t
        and b = b and k = k and options = opts and out = out and beyond = beyond and response = None and pb = pb] q(1,2) pb
    unfolding GetCall by (auto simp: get_asks_def; blast)
  then obtain r m' where r: "riak_get peer gen gapi (Some c) t (Some b) (Some k) opts None (frame code body @ beyond, out) m =
       Some (ERIAK_OK, Some (GetResponse r), (beyond, out @ frame MSG_RPBGETREQ (pb_pack gapi msg)), m')"
    "gr_ok r" "mem_allocs m (gr_owned r) m'" "int_count (riak_get_get_n_content r) = unat (rgr_n_content pb)"
    "map object_content (arr_elems (riak_get_get_content r) (unat (rgr_n_content pb))) = xs"
    using q(1) by (auto simp: GetCall)
  with gr.release_balanced [OF cfg_grants_ok [OF g] r(2) m r(3) refl] mem_allocs_returned [OF r(3)] msg(1) show ?thesis
    by (intro exI [of _ "(MSG_RPBGETREQ, pb_pack gapi msg)"]) (auto simp: GetCall)
qed

lemma session_answered:
  fixes gen :: "'f generated"
  assumes g: "cfg_grants (cxn_config c)" and m: "mem_wf m" and ini: "rdr_empty (pb_init dapi)" "rgq_empty (pb_init gapi)"
    and cs: "list_all (\<lambda>(q, f, xs). call_wf dapi gapi q \<and> call_answer gen q f xs) cs"
  shows "\<exists>sent m'. session gen dapi gapi c (map fst cs) (frames (map (\<lambda>(q, f, xs). f) cs) @ beyond, out) m =
      Some (map (\<lambda>(q, f, xs). (ERIAK_OK, xs)) cs, (beyond, out @ frames sent), m') \<and>
    list_all2 (call_sends dapi gapi) (map fst cs) sent \<and> mem_allocs m [] m'"
  using m cs
proof (induction cs arbitrary: m out)
  case (Cons qc cs)
  obtain q code body xs where qc: "qc = (q, (code, body), xs)" by (cases qc) auto
  have q: "call_wf dapi gapi q" "call_answer gen q (code, body) xs"
    and rest: "list_all (\<lambda>(q, f, xs). call_wf dapi gapi q \<and> call_answer gen q f xs) cs"
    using Cons.prems(2) by (simp_all add: qc)
  obtain f m1 where f: "perform_call gen dapi gapi c q (frame code body @ (frames (map (\<lambda>(q, f, xs). f) cs) @ beyond), out) m =
      Some ((ERIAK_OK, xs), (frames (map (\<lambda>(q, f, xs). f) cs) @ beyond, out @ frames [f]), m1)" "call_sends dapi gapi q f"
    "mem_allocs m [] m1"
    using perform_call_answered [OF g Cons.prems(1) ini q] by blast
  obtain sent m' where sent: "session gen dapi gapi c (map fst cs) (frames (map (\<lambda>(q, f, xs). f) cs) @ beyond, out @ frames [f]) m1 =
      Some (map (\<lambda>(q, f, xs). (ERIAK_OK, xs)) cs, (beyond, (out @ frames [f]) @ frames sent), m')"
    "list_all2 (call_sends dapi gapi) (map fst cs) sent" "mem_allocs m1 [] m'"
    using Cons.IH [OF mem_allocs_wf [OF f(3) Cons.prems(1)] rest] by blast
  have "frames [f] @ frames sent = frames (f # sent)" by (simp add: frames_def)
  then show ?case using f sent mem_allocs_trans [OF f(3) sent(3)]
    by (intro exI [of _ "f # sent"] exI [of _ m']) (simp add: qc)
qed simp

subsection \<open>Reading and writing back\<close>

text \<open>
  An object of the response to a get can be given to a put as it is: the put sends the names that
  were asked for and the contents that were received. The response is freed at the end.
\<close>

lemma get_put_answered:
  fixes gen :: "'f generated"
  assumes g: "cfg_grants (cxn_config c)" and m: "mem_wf m"
    and ini: "rgq_empty (pb_init gapi)" "rpq_empty (pb_init papi)" "inits_empty ini" "rpc_empty init_content"
    and wf: "pred_option bin_wf bucket_type" "bin_wf b" "bin_wf k" "pred_option gopt_wf gopts" "pred_option popt_wf popts"
    and got: "code \<noteq> 0" "Suc (length body) < 2 ^ 32" "\<And>a. up_get gen a body = Some pb" "rgr_wf pb"
    and put: "code2 \<noteq> 0" "Suc (length body2) < 2 ^ 32" "\<And>a. up_put gen a body2 = Some pb2" "rpr_wf pb2"
    and i: "i < unat (rgr_n_content pb)"
  shows "\<exists>gmsg. get_asks bucket_type b k gopts gmsg \<and> (packs gapi gmsg \<longrightarrow> (\<exists>r m1.
    riak_get peer gen gapi (Some c) bucket_type (Some b) (Some k) gopts None
        (frame code body @ frame code2 body2 @ beyond, out) m =
      Some (ERIAK_OK, Some (GetResponse r), (frame code2 body2 @ beyond, out @ frame MSG_RPBGETREQ (pb_pack gapi gmsg)), m1) \<and>
    (\<exists>pmsg. pbb_bytes (rpq_bucket pmsg) = bin_bytes b \<and>
       map_option pbb_bytes (field_opt (rpq_key pmsg)) = Some (bin_bytes k) \<and>
       rpb_content_of (rpq_content pmsg) = rpb_content_of (arr_elems (rgr_content pb) (unat (rgr_n_content pb)) ! i) \<and>
       put_says (pb_init papi) popts pmsg \<and> (packs papi pmsg \<longrightarrow> (\<exists>s m2 m3 m4.
         riak_put peer gen papi ini init_content (Some c)
             (Some (arr_elems (riak_get_get_content r) (unat (rgr_n_content pb)) ! i)) popts None
             (frame code2 body2 @ beyond, out @ frame MSG_RPBGETREQ (pb_pack gapi gmsg)) m1 =
           Some (ERIAK_OK, Some (PutResponse s), (beyond,
             (out @ frame MSG_RPBGETREQ (pb_pack gapi gmsg)) @ frame MSG_RPBPUTREQ (pb_pack papi pmsg)), m2) \<and>
         riak_put_response_free (cxn_config c) (Some s) m2 = Some m3 \<and>
         riak_get_response_free (cxn_config c) (Some r) m3 = Some m4 \<and> mem_live m4 = mem_live m)))))"
proof -
  let ?n = "unat (rgr_n_content pb)" and ?in = "frame code2 body2 @ beyond"
  obtain gmsg where gm: "get_asks bucket_type b k gopts gmsg"
    and get: "packs gapi gmsg \<longrightarrow> (\<exists>r m1.
      riak_get peer gen gapi (Some c) bucket_type (Some b) (Some k) gopts None (frame code body @ ?in, out) m =
        Some (ERIAK_OK, Some (GetResponse r), (?in, out @ frame MSG_RPBGETREQ (pb_pack gapi gmsg)), m1) \<and>
      gr_ok r \<and> mem_allocs m (gr_owned r) m1 \<and>
      map object_content (arr_elems (riak_get_get_content r) ?n) = map rpb_content_of (arr_elems (rgr_content pb) ?n) \<and>
      (\<forall>ob \<in> set (arr_elems (riak_get_get_content r) ?n). storable ob \<and> obj_has_key ob \<and>
        map_option bin_bytes (obj_bucket ob) = Some (bin_bytes b) \<and> map_option bin_bytes (obj_key ob) = Some (bin_bytes k)))"
    using riak_get_answered_objects [OF g m got(1,2) ini(1) wf(1-4) got(3,4), where response = None and out = out and
        beyond = ?in]
    by (simp only: get_asks_def) blast
  have "\<exists>pmsg. pbb_bytes (rpq_bucket pmsg) = bin_bytes b \<and>
       map_option pbb_bytes (field_opt (rpq_key pmsg)) = Some (bin_bytes k) \<and>
       rpb_content_of (rpq_content pmsg) = rpb_content_of (arr_elems (rgr_content pb) ?n ! i) \<and>
       put_says (pb_init papi) popts pmsg \<and> (packs papi pmsg \<longrightarrow> (\<exists>s m2 m3 m4.
         riak_put peer gen papi ini init_content (Some c) (Some (arr_elems (riak_get_get_content r) ?n ! i)) popts None
             (?in, sent) m1 =
           Some (ERIAK_OK, Some (PutResponse s), (beyond, sent @ frame MSG_RPBPUTREQ (pb_pack papi pmsg)), m2) \<and>
         riak_put_response_free (cxn_config c) (Some s) m2 = Some m3 \<and>
         riak_get_response_free (cxn_config c) (Some r) m3 = Some m4 \<and> mem_live m4 = mem_live m))"
    if r: "gr_ok r" "mem_allocs m (gr_owned r) m1"
      "map object_content (arr_elems (riak_get_get_content r) ?n) = map rpb_content_of (arr_elems (rgr_content pb) ?n)"
      "\<forall>ob \<in> set (arr_elems (riak_get_get_content r) ?n). storable ob \<and> obj_has_key ob \<and>
        map_option bin_bytes (obj_bucket ob) = Some (bin_bytes b) \<and> map_option bin_bytes (obj_key ob) = Some (bin_bytes k)"
    for r m1 sent
  proof -
    let ?ob = "arr_elems (riak_get_get_content r) ?n ! i"
    have m1: "mem_wf m1" using mem_allocs_wf [OF r(2) m] .
    have "length (arr_elems (rgr_content pb) ?n) = ?n"
      using got(4) arr_ok_cells [of "rgr_content pb" ?n] unfolding rgr_wf_def by metis
    then have len: "i < length (arr_elems (riak_get_get_content r) ?n)" "i < length (arr_elems (rgr_content pb) ?n)"
      using i arg_cong [OF r(3), of length] by simp_all
    with r(4) have ob: "storable ?ob" "obj_has_key ?ob" "map_option bin_bytes (obj_bucket ?ob) = Some (bin_bytes b)"
      "map_option bin_bytes (obj_key ?ob) = Some (bin_bytes k)" by simp_all
    have ct: "object_content ?ob = rpb_content_of (arr_elems (rgr_content pb) ?n ! i)"
      using arg_cong [OF r(3), of "\<lambda>xs. xs ! i"] len by simp
    have free: "\<exists>m3 m4. riak_put_response_free (cxn_config c) (Some s) m2 = Some m3 \<and>
        riak_get_response_free (cxn_config c) (Some r) m3 = Some m4 \<and> mem_live m4 = mem_live m"
      if "pr_ok s" "mem_allocs m1 (pr_owned s) m2" for s m2
    proof -
      have ok: "cfg_ok (cxn_config c)" using g by simp
      have "mem_allocs m (gr_owned r @ []) (m2\<lparr>mem_live := mem_live m1\<rparr>)"
        using mem_allocs_trans [OF r(2) mem_allocs_returned [OF that(2)]] .
      then show ?thesis
        using pr.release_balanced [OF ok that(1) m1 that(2) refl] gr.release_balanced [OF ok r(1) m _ refl] by auto
    qed
    from riak_put_answered [OF g m1 put(1,2) ini(2-4) ob(1) wf(5) put(3,4), where response = None and out = sent and
        beyond = beyond]
    obtain pmsg where "pbb_bytes (rpq_bucket pmsg) = ptr_bytes (obj_bucket ?ob)"
      "map_option pbb_bytes (field_opt (rpq_key pmsg)) = when_flag (obj_has_key ?ob) (ptr_bytes (obj_key ?ob))"
      "rpb_content_of (rpq_content pmsg) = object_content ?ob" "put_says (pb_init papi) popts pmsg"
      "packs papi pmsg \<longrightarrow> (\<exists>s m2. riak_put peer gen papi ini init_content (Some c) (Some ?ob) popts None (?in, sent) m1 =
         Some (ERIAK_OK, Some (PutResponse s), (beyond, sent @ frame MSG_RPBPUTREQ (pb_pack papi pmsg)), m2) \<and>
         pr_ok s \<and> mem_allocs m1 (pr_owned s) m2)"
      by blast
    moreover have "ptr_bytes (obj_bucket ?ob) = bin_bytes b" "ptr_bytes (obj_key ?ob) = bin_bytes k"
      using ob(3,4) by (auto simp: ptr_bytes_def)
    ultimately show ?thesis using ob(2) ct free by (intro exI [of _ pmsg]) (simp, blast)
  qed
  with gm get show ?thesis by (intro exI [of _ gmsg]) blast
qed

end
