(* ===== verification/Spec2Isabelle.thy ===== *)
theory Spec2Isabelle
  imports Riak_Array
    Riak_Faults
    Riak_Listing
    Riak_Async
    Riak_Requests
    Riak_Session
begin

text \<open>
A model of the Riak C client (\<^verbatim>\<open>src/src\<close>): the library that turns calls like "get this key"
  into Protocol Buffers messages, frames them on a socket, reassembles the replies and hands the
  decoded responses to the caller.

  \<^bold>\<open>How the parts interact.\<close> A connection (\<^verbatim>\<open>riak_connection.c\<close>) is made from a configuration
  (\<^verbatim>\<open>riak_config.c\<close>) that carries the user's allocation functions. For each call an operation
  (\<^verbatim>\<open>riak_operation.c\<close>) is made; an encoder (\<^verbatim>\<open>messages/*.c\<close>) converts the arguments
  (binaries, objects, bucket properties) to a message of the generated Protocol Buffers code,
  packs it and stores it in the operation together with the decoder of the reply.
  \<open>riak_write\<close> sends the message in a frame: its length in network order, its code, its bytes.
  \<open>riak_read\<close> reassembles frames from what the transport delivers, calls the decoder, and
  calls the user's callback. The transport is a blocking socket or libevent.

  \<^bold>\<open>Conventions.\<close> A function that may do something undefined (dereference NULL, leave a block,
  free twice) returns an \<open>option\<close>; \<open>None\<close> is that undefined behaviour, and also a loop that never
  ends. The library's own errors are the values of \<open>riak_error\<close>. A pointer is an \<open>option\<close>; a
  pointer to a structure is the structure, with the address of its block as first field. Memory
  is a ledger (\<open>mem\<close>): the live blocks, the next fresh address and how often the user's
  allocation function was asked, since it may refuse any request. Integers have the
  width they have in C. An \<open>int\<close> that only counts up to such a number is a natural number.
  The generated Protocol Buffers code is not in the repository: \<open>init\<close>, \<open>get_packed_size\<close>,
  \<open>pack\<close> and \<open>unpack\<close> are parameters (\<open>pb_api\<close>), and what is documented of them is a named
  hypothesis (\<open>packs\<close>: the size is the number of bytes packed; \<open>x_empty\<close>: a fresh message has no
  optional field set). \<open>qsort\<close>, the resolver, sockets, \<open>strftime\<close> and the transports are
  parameters too.

  \<^bold>\<open>Theories.\<close>
  \<^item> \<open>Riak_Prelude\<close>: machine types, C blocks and their accesses, byte order.
  \<^item> \<open>Riak_Error\<close> (\<^verbatim>\<open>riak_error.c\<close>): error codes and messages.
  \<^item> \<open>Riak_Config\<close> (\<^verbatim>\<open>riak_config.c\<close>, \<^verbatim>\<open>riak_utils.c\<close>): allocation, \<open>riak_free\<close>, arrays of
    pointers, \<open>riak_strlcpy\<close>; the locales \<open>owned_struct\<close> and \<open>owned_ptr\<close>, the contract of a \<open>free\<close>
    function, which every structure of the library interprets.
  \<^item> \<open>Riak_Binary\<close> (\<^verbatim>\<open>riak_binary.c\<close>), \<open>Riak_Print\<close> (\<^verbatim>\<open>riak_print.c\<close>): byte strings, comparison,
    printing into a bounded buffer (\<open>print_safe\<close>: never leaves the buffer).
  \<^item> \<open>Riak_Array\<close> (\<^verbatim>\<open>riak_array.c\<close>): the growable array, as a refinement of lists (\<open>array_seq\<close>).
  \<^item> \<open>Riak_Object\<close> (\<^verbatim>\<open>riak_object.c\<close>), \<open>Riak_Bucketprops\<close> (\<^verbatim>\<open>riak_bucketprops.c\<close>): the data model,
    its conversions from and to messages, comparison, printing, accessors.
  \<^item> \<open>Riak_Operation\<close> (\<^verbatim>\<open>riak_operation.c\<close>, \<^verbatim>\<open>riak_messages.c\<close>, \<^verbatim>\<open>riak_connection.c\<close>,
    \<^verbatim>\<open>riak_network.c\<close>): connections, the state of a request, error responses.
  \<^item> \<open>Riak_IO\<close> (\<^verbatim>\<open>riak.c\<close> from \<open>riak_read\<close> on, \<^verbatim>\<open>adapters/riak_libevent.h\<close>): frames. The locales
    \<open>byte_source\<close>, \<open>framed_decoder\<close>, \<open>reader\<close> and \<open>fed_reader\<close> hold what is needed of a transport and
    of a decoder.
  \<^item> \<open>Riak_Message\<close>, \<open>Riak_Delete\<close>, \<open>Riak_Get\<close>, \<open>Riak_Put\<close>, \<open>Riak_List\<close>, \<open>Riak_Mapreduce\<close>,
    \<open>Riak_2i\<close>, \<open>Riak_Search\<close> (\<^verbatim>\<open>messages/*.c\<close>): one group per request: options, encoder, decoder,
    accessors, printing, release. \<open>Riak_Response\<close> and \<open>Riak_Stream\<close> hold what they share: arrays of
    objects; arrays that grow with each message of a streamed answer (\<open>stream_decoder\<close>).
  \<^item> \<open>Riak_Client\<close> (\<^verbatim>\<open>riak.c\<close>, \<^verbatim>\<open>riak_async.c\<close>, \<^verbatim>\<open>adapters/riak_libevent.c\<close>): the library's own
    calls, each an operation, an encoder, the exchange and the cast of the response; the same with
    a callback; the life of a libevent connection.
  \<^item> \<open>Riak_Exchange\<close>: what a call does over a socket (\<open>peer\<close>: the answer still to be read and the
    bytes sent so far): its frame goes out, its response comes back, all memory can be given back.
    At such a socket all of the answer can be read at once, and the allocation function is assumed
    to grant every request. \<^verbatim>\<open>read(2)\<close> may also deliver less: then \<open>riak_read\<close> returns \<open>ERIAK_OK\<close>
    without a response, which \<open>Riak_Faults\<close> shows for every place where an answer may be cut.
    \<open>Riak_Requests\<close>: the same for index queries, searches and bucket properties (where functions
    and hooks make the call undefined: the flags \<open>rpm_init\<close> and \<open>rph_init\<close> of a message say that its
    header is initialised, and only then can it be packed, \<open>rbp_packable\<close>). A call reads its answer
    and no byte behind it, so calls on one connection can follow each other: \<open>Riak_Session\<close> shows it
    for any sequence of pings, deletes and gets, and for a get followed by a put of what it returned.
    \<open>Riak_Listing\<close>:
    the same for listings and map/reduce, whose answers are streams; the locale \<open>streamed_answer\<close>
    is the contract of a decoder of streams.
  \<^item> \<open>Riak_Events\<close>: an asynchronous client as a step relation over deliveries of bytes, with the
    invariant of the reader between two deliveries; \<open>Riak_Async\<close>: whole requests over it.
  \<^item> \<open>Riak_Faults\<close>: cut answers, sizes split between deliveries, server errors, refused memory.

  \<^bold>\<open>What the lemmas show.\<close> For each structure: what it owns, and that its \<open>free\<close> function frees exactly
  that. For each conversion: that it succeeds on well-formed input, keeps the contents and
  allocates exactly what the result owns. For each printer: that it stays in its buffer. For each
  encoder: that the request sends one frame with the right code and fields. For each decoder: that
  the response has the contents of the message. Where the code fails to do so, the lemma says when.

  \<^bold>\<open>Bounds.\<close> Arrays up to \<open>2 ^ 29\<close> elements (their loop counters are \<open>int\<close>), packed messages below
  \<open>2 ^ 31\<close> bytes (lengths go through 32-bit integers), listings below \<open>2 ^ 31\<close> keys.

  \<^bold>\<open>Not modelled.\<close> The lines that are logged where they are logged (\<open>riak_log_internal\<close> itself is),
  and the dump of sent bytes in debug builds; the generated Protocol Buffers code; \<^verbatim>\<open>riak_types.h\<close>
  and the other headers' declarations; tests, examples and tools; the default allocation functions
  (\<open>malloc\<close>) beyond being allocation functions.
\<close>

section \<open>Concrete values\<close>

text \<open>A configuration that grants every request, an empty ledger, and binaries in fresh blocks.\<close>

definition ex_cfg :: "riak_config option" where
  "ex_cfg = Some \<lparr>cfg_at = 0, malloc_fn = Some (\<lambda>_ _. True), realloc_fn = None, free_fn = Some 0,
     pb_allocator = None, log_data = None, log_fn = None, log_init_fn = None, log_cleanup_fn = None\<rparr>"

definition ex_mem :: mem where
  "ex_mem = \<lparr>mem_next = 1, mem_calls = 0, mem_live = {}, mem_junk = \<lambda>_ _. 0\<rparr>"

definition ex_bin :: "bytes \<Rightarrow> riak_binary" where
  "ex_bin xs = \<lparr>bin_at = 0, bin_len = of_nat (length xs),
     bin_data = Some \<lparr>buf_addr = 0, buf_bytes = xs\<rparr>, bin_managed = False\<rparr>"

definition ex_pbb :: "bytes \<Rightarrow> pb_binary" where
  "ex_pbb xs = \<lparr>pbb_len = of_nat (length xs), pbb_data = Some \<lparr>buf_addr = 0, buf_bytes = xs\<rparr>\<rparr>"

definition ex_object :: riak_object where
  "ex_object = (object_zero 7)\<lparr>obj_bucket := Some (ex_bin (str ''b'')), obj_has_key := True,
     obj_key := Some (ex_bin (str ''k'')), obj_value := Some (ex_bin (str ''v'')),
     obj_has_charset := True, obj_charset := Some (ex_bin (str ''utf8'')),
     obj_content_type := Some (ex_bin []), obj_encoding := Some (ex_bin []),
     obj_n_usermeta := 1, obj_usermeta := Some \<lparr>pa_addr = 8,
       pa_cells = [Some \<lparr>pair_at = 9, pair_key = Some (ex_bin (str ''x'')), pair_has_value = True,
                         pair_value = Some (ex_bin (str ''y''))\<rparr>]\<rparr>\<rparr>"

text \<open>What the \<open>init\<close> functions of the generated code store.\<close>

definition ex_inits :: rpb_inits where
  "ex_inits = \<lparr>init_pair = \<lparr>rpp_at = 0, rpp_key = ex_pbb [], rpp_has_value = False, rpp_value = ex_pbb []\<rparr>,
     init_link = \<lparr>rpl_at = 0, rpl_has_bucket = False, rpl_bucket = ex_pbb [], rpl_has_key = False,
       rpl_key = ex_pbb [], rpl_has_tag = False, rpl_tag = ex_pbb []\<rparr>\<rparr>"

definition ex_content :: rpb_content where
  "ex_content = \<lparr>rpc_value = ex_pbb [], rpc_has_content_type = False, rpc_content_type = ex_pbb [],
     rpc_has_charset = False, rpc_charset = ex_pbb [], rpc_has_content_encoding = False,
     rpc_content_encoding = ex_pbb [], rpc_has_vtag = False, rpc_vtag = ex_pbb [], rpc_n_links = 0,
     rpc_links = None, rpc_has_last_mod = False, rpc_last_mod = 0, rpc_has_last_mod_usecs = False,
     rpc_last_mod_usecs = 0, rpc_n_usermeta = 0, rpc_usermeta = None, rpc_n_indexes = 0,
     rpc_indexes = None, rpc_has_deleted = False, rpc_deleted = False\<rparr>"

lemma ex_cfg_grants [simp]: "cfg_grants ex_cfg"
  by (simp add: ex_cfg_def cfg_grants_def cfg_ok_def)

lemma ex_mem_wf [simp]: "mem_wf ex_mem"
  by (simp add: ex_mem_def mem_wf_def)

lemma ex_bin_wf [simp]: "length xs < 2 ^ 64 \<Longrightarrow> bin_wf (ex_bin xs)"
  by (simp add: ex_bin_def bin_wf_def unsigned_of_nat take_bit_nat_eq_self)

lemma ex_ptr_wf [simp]: "length xs < 2 ^ 64 \<Longrightarrow> ptr_wf (Some (ex_bin xs))"
  by (simp add: ptr_wf_def)

lemma ex_object_wf [simp]: "object_wf ex_object"
  by (simp add: ex_object_def object_zero_def object_wf_def obj_arrays_ok_def arr_ok_def arr_elems_def
      pair_wf_def)

lemma ex_inits_empty [simp]: "inits_empty ex_inits" "rpc_empty ex_content"
  by (simp_all add: ex_inits_def inits_empty_def ex_content_def rpc_empty_def)

lemma ex_bin_bytes [simp]: "length xs < 2 ^ 64 \<Longrightarrow> bin_bytes (ex_bin xs) = xs"
  by (simp add: ex_bin_def bin_bytes_def unsigned_of_nat take_bit_nat_eq_self)

definition ex_rop :: "(unit, unit) riak_operation" where
  "ex_rop = (operation_zero 5)\<lparr>rop_config := ex_cfg\<rparr>"

lemma ex_rop_config [simp]: "rop_config ex_rop = ex_cfg"
  by (simp add: ex_rop_def)

text \<open>The generated code for get requests, packing only the two names.\<close>

definition ex_get_api :: "rpb_get_req pb_api" where
  "ex_get_api = \<lparr>pb_init = \<lparr>rgq_bucket = ex_pbb [], rgq_key = ex_pbb [], rgq_type = (False, ex_pbb []),
       rgq_r = (False, 0), rgq_pr = (False, 0), rgq_basic_quorum = (False, False), rgq_notfound_ok = (False, False),
       rgq_if_modified = (False, ex_pbb []), rgq_head = (False, False), rgq_deletedvclock = (False, False),
       rgq_timeout = (False, 0), rgq_sloppy_quorum = (False, False), rgq_n_val = (False, 0)\<rparr>,
     pb_packed_size = (\<lambda>msg. of_nat (length (pbb_bytes (rgq_bucket msg) @ pbb_bytes (rgq_key msg)))),
     pb_pack = (\<lambda>msg. pbb_bytes (rgq_bucket msg) @ pbb_bytes (rgq_key msg))\<rparr>"

definition ex_put_api :: "rpb_put_req pb_api" where
  "ex_put_api = \<lparr>pb_init = \<lparr>rpq_bucket = ex_pbb [], rpq_key = (False, ex_pbb []), rpq_type = (False, ex_pbb []),
       rpq_content = ex_content, rpq_vclock = (False, ex_pbb []), rpq_w = (False, 0), rpq_dw = (False, 0),
       rpq_return_body = (False, False), rpq_pw = (False, 0), rpq_if_not_modified = (False, False),
       rpq_if_none_match = (False, False), rpq_return_head = (False, False), rpq_timeout = (False, 0),
       rpq_asis = (False, False), rpq_sloppy_quorum = (False, False), rpq_n_val = (False, 0)\<rparr>,
     pb_packed_size = (\<lambda>msg. of_nat (length (pbb_bytes (rpq_bucket msg)))),
     pb_pack = (\<lambda>msg. pbb_bytes (rpq_bucket msg))\<rparr>"

definition ex_msg :: "u8 \<Rightarrow> bytes \<Rightarrow> riak_pb_message" where
  "ex_msg code body = \<lparr>pbm_at = 0, pbm_len = of_nat (length body + 1), pbm_msgid = code,
     pbm_data = Some \<lparr>buf_addr = 0, buf_bytes = code # body\<rparr>\<rparr>"

lemma ex_msg_payload [simp]: "length body < 2 ^ 31 \<Longrightarrow> pbm_payload (Some (ex_msg code body)) = Some body"
  by (simp add: pbm_payload_def ex_msg_def unat_word_ariths unsigned_of_nat take_bit_nat_eq_self)

text \<open>A reply with one sibling whose value is what was received.\<close>

definition ex_get_resp :: "bytes \<Rightarrow> rpb_get_resp" where
  "ex_get_resp xs = \<lparr>rgr_n_content = 1, rgr_content = Some \<lparr>pa_addr = 0, pa_cells =
     [Some (ex_content\<lparr>rpc_value := ex_pbb xs\<rparr>)]\<rparr>, rgr_vclock = (True, ex_pbb [7]), rgr_unchanged = (False, False)\<rparr>"

definition ex_put_resp :: rpb_put_resp where
  "ex_put_resp = \<lparr>rpr_n_content = 0, rpr_content = None, rpr_vclock = (True, ex_pbb [7]), rpr_key = (True, ex_pbb [8, 9])\<rparr>"

definition ex_keys :: "string list \<Rightarrow> bool \<Rightarrow> rpb_list_resp" where
  "ex_keys ks fin = \<lparr>rlr_n = of_nat (length ks), rlr_items = map (\<lambda>k. ex_pbb (str k)) ks, rlr_done = (fin, fin)\<rparr>"

definition ex_array :: "nat riak_array" where
  "ex_array = \<lparr>ra_at = 1, ra_cfg = ex_cfg, ra_length = 2, ra_capacity = 2,
     ra_array = Some \<lparr>pa_addr = 2, pa_cells = [Some 4, Some 5]\<rparr>\<rparr>"

definition ex_array_mem :: mem where
  "ex_array_mem = \<lparr>mem_next = 3, mem_calls = 2, mem_live = {1, 2}, mem_junk = \<lambda>_ _. 0\<rparr>"

definition ex_bp_init :: rpb_bucketprops where
  "ex_bp_init = \<lparr>rbp_at = 0, rbp_n_val = (False, 0), rbp_allow_mult = (False, False),
     rbp_last_write_wins = (False, False), rbp_n_precommit = 0, rbp_precommit = None,
     rbp_has_precommit = (False, False), rbp_n_postcommit = 0, rbp_postcommit = None,
     rbp_has_postcommit = (False, False), rbp_chash_keyfun = None, rbp_linkfun = None, rbp_old_vclock = (False, 0),
     rbp_young_vclock = (False, 0), rbp_big_vclock = (False, 0), rbp_small_vclock = (False, 0), rbp_pr = (False, 0),
     rbp_r = (False, 0), rbp_w = (False, 0), rbp_pw = (False, 0), rbp_dw = (False, 0), rbp_rw = (False, 0),
     rbp_basic_quorum = (False, False), rbp_notfound_ok = (False, False), rbp_backend = (False, ex_pbb []),
     rbp_search = (False, False), rbp_repl = (False, 0), rbp_search_index = (False, ex_pbb [])\<rparr>"

definition ex_modfun :: rpb_modfun where
  "ex_modfun = \<lparr>rpm_at = 0, rpm_init = True, rpm_module = ex_pbb (str ''riak_core''), rpm_function = ex_pbb (str ''hash'')\<rparr>"

definition ex_bp :: rpb_bucketprops where
  "ex_bp = ex_bp_init\<lparr>rbp_n_val := (True, 3), rbp_backend := (True, ex_pbb (str ''bitcask'')),
     rbp_has_precommit := (True, True), rbp_n_precommit := 1, rbp_precommit := Some \<lparr>pa_addr = 0, pa_cells =
       [Some \<lparr>rph_at = 0, rph_init = True, rph_modfun = Some ex_modfun, rph_has_name = True, rph_name = ex_pbb (str ''hook'')\<rparr>]\<rparr>,
     rbp_chash_keyfun := Some ex_modfun, rbp_linkfun := Some ex_modfun\<rparr>"

definition ex_bp_hook_lost :: rpb_bucketprops where
  "ex_bp_hook_lost = ex_bp\<lparr>rbp_precommit := Some \<lparr>pa_addr = 0, pa_cells =
     [Some \<lparr>rph_at = 0, rph_init = True, rph_modfun = None, rph_has_name = True, rph_name = ex_pbb (str ''hook'')\<rparr>]\<rparr>\<rparr>"

definition ex_mf :: riak_modfun where
  "ex_mf = \<lparr>mf_at = 0, mf_module = Some (ex_bin (str ''m'')), mf_function = Some (ex_bin (str ''f''))\<rparr>"

definition ex_net :: "unit network" where
  "ex_net = \<lparr>net_resolver = \<lambda>_ _. (0, Some ()), net_socket = \<lambda>_. 3, net_connect = \<lambda>_ _. (0, 0)\<rparr>"

definition ex_linked :: riak_object where
  "ex_linked = (object_zero 7)\<lparr>obj_n_links := 1, obj_links := Some \<lparr>pa_addr = 3, pa_cells = [Some (link_zero 4)]\<rparr>\<rparr>"

text \<open>A configuration whose allocations all fail.\<close>

definition ex_cfg_full :: "riak_config option" where
  "ex_cfg_full = map_option (malloc_fn_update (\<lambda>_. Some (\<lambda>_ _. False))) ex_cfg"

text \<open>A connection to the server, and generated code that reads answers as given.\<close>

definition ex_cxn :: "unit riak_connection" where
  "ex_cxn = \<lparr>cxn_at = 0, cxn_config = ex_cfg, cxn_hostname = [], cxn_portnum = [], cxn_addrinfo = None, cxn_fd = 3\<rparr>"

definition ex_gen :: "unit generated" where
  "ex_gen = \<lparr>up_error = \<lambda>_ xs. None, up_serverinfo = \<lambda>_ _. None, up_clientid = \<lambda>_ _. None,
     up_get = \<lambda>_ xs. Some (ex_get_resp xs), up_put = \<lambda>_ _. Some ex_put_resp, up_listbuckets = \<lambda>_ _. None,
     up_listkeys = \<lambda>_ xs. Some (if xs = [] then ex_keys [''c''] True else ex_keys [''a'', ''b''] False),
     up_bucketprops = \<lambda>_ _. None, up_mapreduce = \<lambda>_ _. None, up_2i = \<lambda>_ _. None, up_search = \<lambda>_ _. None,
     up_no_score = ()\<rparr>"

lemma ex_cxn_config [simp]: "cxn_config ex_cxn = ex_cfg"
  by (simp add: ex_cxn_def)

lemma ex_get_resp_fine [simp]: "rgr_n_content (ex_get_resp xs) = 1" "rgr_wf (ex_get_resp [1, 2])"
    "map_option pbb_bytes (field_opt (rgr_vclock (ex_get_resp xs))) = Some [7]"
  by (simp_all add: rgr_wf_def ex_get_resp_def ex_pbb_def pbb_wf_def ex_content_def rpc_wf_def arr_ok_def arr_elems_def
      pbb_bytes_def)

definition ex_ping_st :: "(bytes, unit riak_response, riak_decoder) read_state" where
  "ex_ping_st = \<lparr>rs_rop = (operation_zero 5)\<lparr>rop_config := ex_cfg, rop_decoder := Some DecodePing, rop_response_cb := Some 6\<rparr>,
     rs_done = False, rs_io = [], rs_mem = ex_mem, rs_trace = []\<rparr>"

lemma ex_ping_st_simps [simp]: "at_boundary ex_ping_st" "rop_config (rs_rop ex_ping_st) = ex_cfg" "\<not> rs_done ex_ping_st"
  "rs_io ex_ping_st = []" "rs_trace ex_ping_st = []"
  by (simp_all add: ex_ping_st_def at_boundary_def operation_zero_def)

lemma ex_object_storable [simp]: "storable ex_object"
  by (simp add: storable_def ex_object_wf) (simp add: ex_object_def object_zero_def riak_object_has_bucket_type_def)

lemma ex_put_resp_fine [simp]: "rpr_wf ex_put_resp"
    "map_option pbb_bytes (field_opt (rpr_vclock ex_put_resp)) = Some [7]"
    "map_option pbb_bytes (field_opt (rpr_key ex_put_resp)) = Some [8, 9]"
  by (simp_all add: rpr_wf_def ex_put_resp_def ex_pbb_def pbb_wf_def arr_ok_def arr_elems_def pbb_bytes_def)

definition ex_del_api :: "rpb_del_req pb_api" where
  "ex_del_api = \<lparr>pb_init = \<lparr>rdr_bucket = ex_pbb [], rdr_key = ex_pbb [], rdr_type = (False, ex_pbb []),
       rdr_vclock = (False, ex_pbb []), rdr_w = (False, 0), rdr_dw = (False, 0), rdr_pw = (False, 0),
       rdr_timeout = (False, 0), rdr_sloppy_quorum = (False, False), rdr_n_val = (False, 0)\<rparr>,
     pb_packed_size = (\<lambda>msg. of_nat (length (pbb_bytes (rdr_bucket msg) @ pbb_bytes (rdr_key msg)))),
     pb_pack = (\<lambda>msg. pbb_bytes (rdr_bucket msg) @ pbb_bytes (rdr_key msg))\<rparr>"

definition ex_keys_api :: "rpb_listkeys_req pb_api" where
  "ex_keys_api = \<lparr>pb_init = \<lparr>rlkq_bucket = ex_pbb [], rlkq_timeout = (False, 0), rlkq_type = (False, ex_pbb [])\<rparr>,
     pb_packed_size = (\<lambda>msg. of_nat (length (pbb_bytes (rlkq_bucket msg)))),
     pb_pack = (\<lambda>msg. pbb_bytes (rlkq_bucket msg))\<rparr>"

lemma ex_keys_fine [simp]: "length ks < 2 ^ 32 \<Longrightarrow> \<forall>k \<in> set ks. length k < 2 ^ 64 \<Longrightarrow> rlr_wf (ex_keys ks fin)"
    "rlr_items (ex_keys ks fin) = map (\<lambda>k. ex_pbb (str k)) ks" "rlr_done (ex_keys ks fin) = (fin, fin)"
  by (auto simp: rlr_wf_def ex_keys_def ex_pbb_def pbb_wf_def list_all_iff unsigned_of_nat take_bit_nat_eq_self)

definition ex_error :: rpb_error_resp where
  "ex_error = \<lparr>rer_errmsg = ex_pbb (str ''no''), rer_errcode = 5\<rparr>"

definition ex_cfg_first :: "riak_config option" where
  "ex_cfg_first = map_option (malloc_fn_update (\<lambda>_. Some (\<lambda>n _. n = 0))) ex_cfg"

definition ex_phase :: "nat \<Rightarrow> bool \<Rightarrow> rpb_map_red_resp" where
  "ex_phase n fin = \<lparr>rmr_phase = (True, of_nat n), rmr_response = (True, ex_pbb (str ''[]'')), rmr_done = (fin, fin)\<rparr>"

definition ex_index :: rpb_index_resp where
  "ex_index = \<lparr>rir_n_keys = 2, rir_keys = [ex_pbb (str ''a''), ex_pbb (str ''b'')], rir_n_results = 0, rir_results = [],
     rir_continuation = (False, ex_pbb []), rir_done = (True, True)\<rparr>"

definition ex_results :: rpb_index_resp where
  "ex_results = \<lparr>rir_n_keys = 0, rir_keys = [], rir_n_results = 1,
     rir_results = [Some \<lparr>rpp_at = 0, rpp_key = ex_pbb (str ''t''), rpp_has_value = True, rpp_value = ex_pbb (str ''k'')\<rparr>],
     rir_continuation = (False, ex_pbb []), rir_done = (True, True)\<rparr>"

definition ex_doc :: rpb_search_doc where
  "ex_doc = \<lparr>rsd_n_fields = 1, rsd_fields = Some \<lparr>pa_addr = 0, pa_cells =
     [Some \<lparr>rpp_at = 0, rpp_key = ex_pbb (str ''t''), rpp_has_value = True, rpp_value = ex_pbb (str ''k'')\<rparr>]\<rparr>\<rparr>"

definition ex_found :: "nat rpb_search_resp" where
  "ex_found = \<lparr>rsr_n_docs = 1, rsr_docs = [Some ex_doc], rsr_max_score = (True, 3), rsr_num_found = (True, 8)\<rparr>"

definition ex_fields :: riak_search_options where
  "ex_fields = (search_options_zero 7)\<lparr>so_n_fl := 1, so_fl := Some \<lparr>pa_addr = 3, pa_cells = [Some (ex_bin (str ''a''))]\<rparr>\<rparr>"

definition ex_reset_api :: "rpb_bucket_req pb_api" where
  "ex_reset_api = \<lparr>pb_init = \<lparr>rbq_bucket = ex_pbb [], rbq_type = (False, ex_pbb [])\<rparr>,
     pb_packed_size = (\<lambda>msg. of_nat (length (pbb_bytes (rbq_bucket msg)))), pb_pack = (\<lambda>msg. pbb_bytes (rbq_bucket msg))\<rparr>"

definition ex_mapred_api :: "rpb_map_red_req pb_api" where
  "ex_mapred_api = \<lparr>pb_init = \<lparr>rmq_request = ex_pbb [], rmq_content_type = ex_pbb []\<rparr>,
     pb_packed_size = (\<lambda>msg. of_nat (length (pbb_bytes (rmq_request msg)))), pb_pack = (\<lambda>msg. pbb_bytes (rmq_request msg))\<rparr>"

definition ex_phase_gen :: "unit generated" where
  "ex_phase_gen = ex_gen\<lparr>up_mapreduce := \<lambda>_ xs. Some (ex_phase (length xs) (xs = []))\<rparr>"

definition ex_index_api :: "rpb_index_req pb_api" where
  "ex_index_api = \<lparr>pb_init = \<lparr>riq_bucket = ex_pbb [], riq_index = ex_pbb [], riq_range = False, riq_key = (False, ex_pbb []),
       riq_range_min = (False, ex_pbb []), riq_range_max = (False, ex_pbb []), riq_return_terms = (False, False),
       riq_stream = (False, False), riq_max_results = (False, 0), riq_continuation = (False, ex_pbb []),
       riq_timeout = (False, 0), riq_type = (False, ex_pbb []), riq_term_regex = (False, ex_pbb []),
       riq_pagination_sort = (False, False)\<rparr>,
     pb_packed_size = (\<lambda>msg. of_nat (length (pbb_bytes (riq_bucket msg) @ pbb_bytes (riq_index msg)))),
     pb_pack = (\<lambda>msg. pbb_bytes (riq_bucket msg) @ pbb_bytes (riq_index msg))\<rparr>"

definition ex_index_gen :: "unit generated" where
  "ex_index_gen = ex_gen\<lparr>up_2i := \<lambda>_ _. Some ex_index\<rparr>"

definition ex_i2o :: riak_2i_options where
  "ex_i2o = (index_options_zero 9)\<lparr>i2o_key := (True, Some (ex_bin (str ''x'')))\<rparr>"

definition ex_search_api :: "rpb_search_req pb_api" where
  "ex_search_api = \<lparr>pb_init = \<lparr>rsq_q = ex_pbb [], rsq_index = ex_pbb [], rsq_rows = (False, 0), rsq_start = (False, 0),
       rsq_sort = (False, ex_pbb []), rsq_filter = (False, ex_pbb []), rsq_df = (False, ex_pbb []),
       rsq_op = (False, ex_pbb []), rsq_presort = (False, ex_pbb []), rsq_n_fl = 0, rsq_fl = None\<rparr>,
     pb_packed_size = (\<lambda>msg. of_nat (length (pbb_bytes (rsq_index msg) @ pbb_bytes (rsq_q msg)))),
     pb_pack = (\<lambda>msg. pbb_bytes (rsq_index msg) @ pbb_bytes (rsq_q msg))\<rparr>"

definition ex_search_gen :: "unit generated" where
  "ex_search_gen = ex_gen\<lparr>up_search := \<lambda>_ _. Some \<lparr>rsr_n_docs = 1, rsr_docs = [Some ex_doc], rsr_max_score = (False, ()),
     rsr_num_found = (True, 8)\<rparr>\<rparr>"

definition ex_set_api :: "rpb_set_bucket_req pb_api" where
  "ex_set_api = \<lparr>pb_init = \<lparr>rsb_bucket = ex_pbb [], rsb_type = (False, ex_pbb []), rsb_props = ex_bp_init\<rparr>,
     pb_packed_size = (\<lambda>msg. of_nat (length (pbb_bytes (rsb_bucket msg)))), pb_pack = (\<lambda>msg. pbb_bytes (rsb_bucket msg))\<rparr>"

definition ex_props :: riak_bucketprops where
  "ex_props = (bucketprops_zero 7)\<lparr>bp_n_val := (True, 3), bp_allow_mult := (True, True)\<rparr>"

section \<open>Properties\<close>

subsection \<open>Calls over a socket\<close>

text \<open>
  C1. A get over a socket, with any answer that is not an error: one frame goes out, which names
  the bucket type, bucket and key asked for; the response has the version clock and the contents
  of all siblings in the answer, each object under the names asked for; what comes behind the
  answer stays unread; and freeing the response gives back all the memory the call took. (The
  whole answer can be read at once, and memory is granted.)
\<close>

theorem get_call:
  fixes gen :: "'f generated"
  assumes "cfg_grants (cxn_config c)" "mem_wf m" "code \<noteq> 0" "Suc (length body) < 2 ^ 32" "rgq_empty (pb_init api)"
    and "pred_option bin_wf bucket_type" "bin_wf b" "bin_wf k" "pred_option gopt_wf options"
    and "\<And>a. up_get gen a body = Some pb" "rgr_wf pb"
  shows "\<exists>msg. pbb_bytes (rgq_bucket msg) = bin_bytes b \<and> pbb_bytes (rgq_key msg) = bin_bytes k \<and>
    map_option pbb_bytes (field_opt (rgq_type msg)) = map_option bin_bytes bucket_type \<and> get_says options msg \<and>
    (packs api msg \<longrightarrow> (\<exists>r m' m''.
       riak_get peer gen api (Some c) bucket_type (Some b) (Some k) options response (frame code body @ beyond, out) m =
         Some (ERIAK_OK, Some (GetResponse r), (beyond, out @ frame MSG_RPBGETREQ (pb_pack api msg)), m') \<and>
       map_option bin_bytes (riak_get_get_vclock r) = map_option pbb_bytes (field_opt (rgr_vclock pb)) \<and>
       int_count (riak_get_get_n_content r) = unat (rgr_n_content pb) \<and>
       map object_content (arr_elems (riak_get_get_content r) (unat (rgr_n_content pb))) =
         map rpb_content_of (arr_elems (rgr_content pb) (unat (rgr_n_content pb))) \<and>
       (\<forall>ob \<in> set (arr_elems (riak_get_get_content r) (unat (rgr_n_content pb))).
         map_option bin_bytes (obj_bucket_type ob) = map_option bin_bytes bucket_type \<and>
         map_option bin_bytes (obj_bucket ob) = Some (bin_bytes b) \<and>
         map_option bin_bytes (obj_key ob) = Some (bin_bytes k)) \<and>
       riak_get_response_free (cxn_config c) (Some r) m' = Some m'' \<and> mem_live m'' = mem_live m))"
proof -
  have freed: "\<exists>m''. riak_get_response_free (cxn_config c) (Some r) m' = Some m'' \<and> mem_live m'' = mem_live m"
    if "gr_ok r" "mem_allocs m (gr_owned r) m'" for r m'
    using gr.release_balanced [OF cfg_grants_ok [OF assms(1)] that(1) assms(2) that(2) refl] by simp
  from riak_get_answered [where gen = gen and c = c and m = m and response = response and out = out and beyond = beyond, OF assms]
  show ?thesis
    by (elim ex_forward conj_forward imp_forward)
      (assumption | elim conjE, drule (1) freed, elim exE conjE, intro exI conjI, assumption+)+
qed

lemma get_call_witness:
  "\<exists>r m' m''. riak_get peer ex_gen ex_get_api (Some ex_cxn) None (Some (ex_bin (str ''b''))) (Some (ex_bin (str ''k'')))
      None None (frame 10 [1, 2] @ [0, 0], []) ex_mem =
      Some (ERIAK_OK, Some (GetResponse r), ([0, 0], [0, 0, 0, 3, 9] @ str ''bk''), m') \<and>
    map_option bin_bytes (riak_get_get_vclock r) = Some [7] \<and>
    riak_get_response_free ex_cfg (Some r) m' = Some m'' \<and> mem_live m'' = {}"
proof -
  have e: "rgq_empty (pb_init ex_get_api)" by (simp add: ex_get_api_def rgq_empty_def)
  have u: "up_get ex_gen a [1, 2] = Some (ex_get_resp [1, 2])" for a by (simp add: ex_gen_def)
  obtain msg where msg: "pbb_bytes (rgq_bucket msg) = str ''b''" "pbb_bytes (rgq_key msg) = str ''k''"
    "packs ex_get_api msg \<longrightarrow> (\<exists>r m' m''. riak_get peer ex_gen ex_get_api (Some ex_cxn) None
       (Some (ex_bin (str ''b''))) (Some (ex_bin (str ''k''))) None None (frame 10 [1, 2] @ [0, 0], []) ex_mem =
         Some (ERIAK_OK, Some (GetResponse r), ([0, 0], [] @ frame MSG_RPBGETREQ (pb_pack ex_get_api msg)), m') \<and>
       map_option bin_bytes (riak_get_get_vclock r) = Some [7] \<and>
       riak_get_response_free ex_cfg (Some r) m' = Some m'' \<and> mem_live m'' = mem_live ex_mem)"
    using get_call [where c = ex_cxn and m = ex_mem and code = 10 and body = "[1, 2]" and api = ex_get_api
        and bucket_type = None and b = "ex_bin (str ''b'')" and k = "ex_bin (str ''k'')" and options = None
        and gen = ex_gen and pb = "ex_get_resp [1, 2]" and response = None and out = "[]" and beyond = "[0, 0]"] e u
    by auto
  have "packs ex_get_api msg" using msg(1,2) by (simp add: ex_get_api_def packs_def)
  moreover have "pb_pack ex_get_api msg = str ''bk''" using msg(1,2) by (simp add: ex_get_api_def)
  moreover have "frame MSG_RPBGETREQ (str ''bk'') = [0, 0, 0, 3, 9] @ str ''bk''" by code_simp
  moreover have "mem_live ex_mem = {}" by (simp add: ex_mem_def)
  ultimately show ?thesis using msg(3) by auto
qed

subsection \<open>The reader\<close>

text \<open>
  C2. However libevent cuts the bytes of a sequence of messages into deliveries, as long as no
  size field is cut, the read callback ends with the same error code, the same operation and
  response, the same memory and the same calls of the user's functions as handling the messages
  one by one. (Memory is granted.)
\<close>

theorem deliveries_like_messages:
  fixes gen :: "'f generated"
  assumes "at_boundary st" "cfg_grants (rop_config (rs_rop st))" "\<not> rs_done st" "rs_io st = []"
    and "\<forall>(code, body) \<in> set ms. Suc (length body) < 2 ^ 32" "concat xs = frames ms" "cuts_ok ms 0 xs"
  shows "outcome (deliveries (@) (riak_libevent_read_cb evbuffer_read) (up_error gen) (riak_decode gen) xs st) =
    outcome (receive_messages (up_error gen) (riak_decode gen) ms st)"
  by (rule libevent_reader.deliveries_messages [OF assms(1-3) _ assms(5-7)]) (simp add: assms(4))

lemma deliveries_like_messages_witness:
  "outcome (deliveries (@) (riak_libevent_read_cb evbuffer_read) (up_error ex_gen) (riak_decode ex_gen)
      [[0, 0, 0, 4], [2, 7], [7], [7, 0, 0, 0, 1], [2]] ex_ping_st) =
    outcome (receive_messages (up_error ex_gen) (riak_decode ex_gen) [(2, [7, 7, 7]), (2, [])] ex_ping_st)"
proof -
  have "concat [[0, 0, 0, 4], [2, 7], [7], [7, 0, 0, 0, 1], [2]] = frames [(2, [7, 7, 7]), (2, [])]"
    by code_simp
  then show ?thesis by (intro deliveries_like_messages) simp_all
qed

text \<open>
  C3. An asynchronous client over libevent, from a fresh operation and for any input whatever:
  between two callbacks the reader's state is in order (fewer than 4 bytes of a size, or a block
  of the announced size and a position inside it); while the bufferevent is open no function of
  the user has been called; after it is freed the response callback has been called once with
  the response, or the error callback twice with the same error and no response is left, or
  none. (Memory is granted.)
\<close>

theorem client_callbacks:
  fixes gen :: "'f generated"
  assumes "cfg_grants (rop_config rop)" "rop_position rop = 0" "\<not> rop_msglen_complete rop"
    and "client_run gen (\<lparr>rs_rop = rop, rs_done = False, rs_io = [], rs_mem = m, rs_trace = []\<rparr>, True) xs (st, open)"
  shows "reader_inv (rs_rop st) \<and>
    (rs_trace st = [] \<or> \<not> open \<and>
      ((\<exists>f. rs_trace st = [ResponseCb f (rop_response (rs_rop st))]) \<or>
       (\<exists>f r. rs_trace st = [ErrorCb f r, ErrorCb f r] \<and> rop_response (rs_rop st) = None)))"
proof -
  have "client_inv (\<lparr>rs_rop = rop, rs_done = False, rs_io = [], rs_mem = m, rs_trace = []\<rparr>, True)"
    using assms(1-3) by (simp add: client_inv_def reader_inv_fresh)
  from client_run_inv [OF assms(4) this] show ?thesis by (simp add: client_inv_def)
qed

lemma client_callbacks_witness:
  "\<exists>st. client_run ex_gen (ex_ping_st, True) [[0, 0]] (st, True) \<and> reader_inv (rs_rop st) \<and> rs_trace st = []"
proof -
  let ?rop = "rs_rop ex_ping_st"
  have d: "ex_ping_st\<lparr>rs_io := io, rs_done := False\<rparr> = ex_ping_st\<lparr>rs_io := io\<rparr>" for io by (simp add: ex_ping_st_def)
  let ?st = "ex_ping_st\<lparr>rs_io := [], rs_rop := ?rop\<lparr>rop_position := of_nat 2,
      rop_msglen := bytes_u32 ([0, 0] @ drop 2 (u32_bytes (rop_msglen ?rop)))\<rparr>\<rparr>"
  have r: "riak_read (riak_libevent_read_cb evbuffer_read) (up_error ex_gen) (riak_decode ex_gen)
      (ex_ping_st\<lparr>rs_io := rs_io ex_ping_st @ [0, 0]\<rparr>) = Some (ERIAK_OK, ?st)"
    using libevent_reader.split_size_first [of ex_ping_st "[0, 0]" ex_gen] by (simp add: riak_read_def d numeral_2_eq_2)
  have run: "client_run ex_gen (ex_ping_st, True) [[0, 0]] (?st, True)"
    by (rule client_run.step [OF _ client_run.none]) (use client_step_read [OF r] in simp)
  have s: "(ex_ping_st, True) = (\<lparr>rs_rop = ?rop, rs_done = False, rs_io = [], rs_mem = ex_mem, rs_trace = []\<rparr>, True)"
    by (simp add: ex_ping_st_def)
  have p: "rop_position ?rop = 0" "\<not> rop_msglen_complete ?rop" "cfg_grants (rop_config ?rop)"
    by (simp_all add: ex_ping_st_def operation_zero_def)
  show ?thesis using client_callbacks [OF p(3,1,2) run [unfolded s]] run by blast
qed

text \<open>
  C4. An asynchronous ping ends: the operation made and registered writes the frame of a ping,
  and for every answer that is not an error, however it is cut outside its size field, the
  callbacks reach a state where the bufferevent is freed and the response callback has been
  called exactly once, with a successful response. (Memory is granted.)
\<close>

theorem async_ping_answered:
  fixes gen :: "'f generated"
  assumes "cfg_grants (cxn_config c)" "mem_wf m"
    and "code \<noteq> 0" "Suc (length body) < 2 ^ 32" "concat xs = frame code body" "cuts_ok [(code, body)] 0 xs"
  shows "\<exists>rop m1 rop' m2 ys zs st' a.
    riak_operation_new (Some c) None error_cb cb_data m = Some (ERIAK_OK, Some rop, m1) \<and>
    riak_async_register_ping DecodePing rop (Some cb) m1 = Some (ERIAK_OK, rop', m2) \<and>
    (\<forall>out. riak_write rop' write_all out = Some (ERIAK_OK, out @ frame MSG_RPBPINGREQ [])) \<and>
    xs = ys @ zs \<and>
    client_run gen (\<lparr>rs_rop = rop', rs_done = False, rs_io = [], rs_mem = m2, rs_trace = []\<rparr>, True) ys (st', False) \<and>
    rs_trace st' = [ResponseCb cb (Some (PingResponse \<lparr>ping_at = a, ping_success = True\<rparr>))]"
  using async_ping_completes [where gen = gen and c = c and m = m, OF assms, of error_cb cb_data cb] by (elim ex_forward) auto

lemma async_ping_answered_witness:
  "\<exists>rop m1 rop' m2 ys zs st' a.
    riak_operation_new (Some ex_cxn) None None None ex_mem = Some (ERIAK_OK, Some rop, m1) \<and>
    riak_async_register_ping DecodePing rop (Some 6) m1 = Some (ERIAK_OK, rop', m2) \<and>
    [[0, 0, 0, 1], [], [2]] = ys @ zs \<and>
    client_run ex_gen (\<lparr>rs_rop = rop', rs_done = False, rs_io = [], rs_mem = m2, rs_trace = []\<rparr>, True) ys (st', False) \<and>
    rs_trace st' = [ResponseCb 6 (Some (PingResponse \<lparr>ping_at = a, ping_success = True\<rparr>))]"
proof -
  have "concat [[0, 0, 0, 1], [], [2]] = frame 2 []" by code_simp
  then show ?thesis
    using async_ping_answered [where gen = ex_gen and c = ex_cxn and code = 2 and body = "[]" and m = ex_mem
        and xs = "[[0, 0, 0, 1], [], [2]]" and error_cb = None and cb_data = None and cb = 6] by fastforce
qed

text \<open>
  C5. A whole asynchronous get over libevent, from the operation to its release: one frame goes
  out with the bucket, the key and what the options ask for; whatever the deliveries cut the
  answer into (but for its size field), the response callback is called once, with the version
  clock and the contents of the siblings in the answer, nothing else of the user is called, the
  later deliveries are not read, and freeing the response and the operation gives back all the
  memory. (Memory is granted.)
\<close>

theorem async_get_answered:
  fixes gen :: "'f generated"
  assumes "cfg_grants (cxn_config c)" "mem_wf m"
    and "code \<noteq> 0" "Suc (length body) < 2 ^ 32" "concat xs = frame code body" "cuts_ok [(code, body)] 0 xs"
    and "rgq_empty (pb_init api)"
    and "pred_option bin_wf bucket_type" "bin_wf b" "bin_wf k" "pred_option gopt_wf options"
    and "\<And>a. up_get gen a body = Some pb" "rgr_wf pb"
  shows "\<exists>rop m1 msg. riak_operation_new (Some c) None error_cb cb_data m = Some (ERIAK_OK, Some rop, m1) \<and>
    pbb_bytes (rgq_bucket msg) = bin_bytes b \<and> pbb_bytes (rgq_key msg) = bin_bytes k \<and>
    map_option pbb_bytes (field_opt (rgq_type msg)) = map_option bin_bytes bucket_type \<and> get_says options msg \<and>
    (packs api msg \<longrightarrow> (\<exists>rop' m2 ys zs st' r m3 m4.
       riak_async_register_get api DecodeGet rop bucket_type (Some b) (Some k) options (Some cb) m1 = Some (ERIAK_OK, rop', m2) \<and>
       (\<forall>out. riak_write rop' write_all out = Some (ERIAK_OK, out @ frame MSG_RPBGETREQ (pb_pack api msg))) \<and>
       xs = ys @ zs \<and>
       client_run gen (\<lparr>rs_rop = rop', rs_done = False, rs_io = [], rs_mem = m2, rs_trace = []\<rparr>, True) ys (st', False) \<and>
       rs_trace st' = [ResponseCb cb (Some (GetResponse r))] \<and>
       map_option bin_bytes (riak_get_get_vclock r) = map_option pbb_bytes (field_opt (rgr_vclock pb)) \<and>
       map object_content (arr_elems (riak_get_get_content r) (unat (rgr_n_content pb))) =
         map rpb_content_of (arr_elems (rgr_content pb) (unat (rgr_n_content pb))) \<and>
       riak_get_response_free (cxn_config c) (Some r) (rs_mem st') = Some m3 \<and>
       riak_operation_free (Some (rs_rop st')) m3 = Some m4 \<and> mem_live m4 = mem_live m))"
  by (rule async_get_completes [OF assms])

lemma async_get_answered_witness:
  "\<exists>rop m1 rop' m2 ys zs st' r m3 m4.
    riak_operation_new (Some ex_cxn) None None None ex_mem = Some (ERIAK_OK, Some rop, m1) \<and>
    riak_async_register_get ex_get_api DecodeGet rop None (Some (ex_bin (str ''b''))) (Some (ex_bin (str ''k''))) None
      (Some 6) m1 = Some (ERIAK_OK, rop', m2) \<and>
    [[0, 0, 0, 3, 10], [], [1, 2]] = ys @ zs \<and>
    client_run ex_gen (\<lparr>rs_rop = rop', rs_done = False, rs_io = [], rs_mem = m2, rs_trace = []\<rparr>, True) ys (st', False) \<and>
    rs_trace st' = [ResponseCb 6 (Some (GetResponse r))] \<and>
    map_option bin_bytes (riak_get_get_vclock r) = Some [7] \<and>
    riak_get_response_free ex_cfg (Some r) (rs_mem st') = Some m3 \<and>
    riak_operation_free (Some (rs_rop st')) m3 = Some m4 \<and> mem_live m4 = {}"
proof -
  have e: "rgq_empty (pb_init ex_get_api)" by (simp add: ex_get_api_def rgq_empty_def)
  have u: "up_get ex_gen a [1, 2] = Some (ex_get_resp [1, 2])" for a by (simp add: ex_gen_def)
  have f: "concat [[0, 0, 0, 3, 10], [], [1, 2]] = frame 10 [1, 2]" by code_simp
  have c: "cuts_ok [(10, [1, 2])] 0 [[0, 0, 0, 3, 10], [], [1, 2]]" by code_simp
  have l: "mem_live ex_mem = {}" by (simp add: ex_mem_def)
  from async_get_answered [where c = ex_cxn and m = ex_mem and code = 10 and body = "[1, 2]"
      and xs = "[[0, 0, 0, 3, 10], [], [1, 2]]" and api = ex_get_api and gen = ex_gen and pb = "ex_get_resp [1, 2]"
      and bucket_type = None and b = "ex_bin (str ''b'')" and k = "ex_bin (str ''k'')" and options = None
      and error_cb = None and cb_data = None and cb = 6, OF _ _ _ _ f c e _ _ _ _ u]
  have "\<exists>rop m1 msg. riak_operation_new (Some ex_cxn) None None None ex_mem = Some (ERIAK_OK, Some rop, m1) \<and>
      (\<exists>rop' m2 ys zs st' r m3 m4.
       riak_async_register_get ex_get_api DecodeGet rop None (Some (ex_bin (str ''b''))) (Some (ex_bin (str ''k''))) None
         (Some 6) m1 = Some (ERIAK_OK, rop', m2) \<and>
       [[0, 0, 0, 3, 10], [], [1, 2]] = ys @ zs \<and>
       client_run ex_gen (\<lparr>rs_rop = rop', rs_done = False, rs_io = [], rs_mem = m2, rs_trace = []\<rparr>, True) ys (st', False) \<and>
       rs_trace st' = [ResponseCb 6 (Some (GetResponse r))] \<and>
       map_option bin_bytes (riak_get_get_vclock r) = Some [7] \<and>
       riak_get_response_free ex_cfg (Some r) (rs_mem st') = Some m3 \<and>
       riak_operation_free (Some (rs_rop st')) m3 = Some m4 \<and> mem_live m4 = {})"
  proof (elim meta_impE exE conjE, goal_cases)
    case (10 rop m1 msg)
    have "packs ex_get_api msg" using 10(2,3) by (simp add: ex_get_api_def packs_def)
    from 10(6) [rule_format, OF this] 10(1) show ?case
      by (elim exE conjE) (intro exI conjI, assumption+, (assumption | simp add: l)+)
  qed simp_all
  then show ?thesis by (simp only: ex_simps simp_thms)
qed

text \<open>
  C6. An asynchronous listing of keys over libevent: one frame goes out; whatever the deliveries
  cut the stream of messages into (but for their size fields), the response callback is called
  once, after the last message, with all keys in the order they came; and freeing the response
  and the operation gives back all the memory. (Memory is granted.)
\<close>

theorem async_listkeys_answered:
  fixes gen :: "'f generated"
  assumes "cfg_grants (cxn_config c)" "mem_wf m" "code \<noteq> 0" "rlkq_empty (pb_init api)"
    and "pred_option bin_wf bucket_type" "bin_wf b"
    and "list_all (\<lambda>(body, pb). Suc (length body) < 2 ^ 32 \<and> rlr_wf pb \<and> (\<forall>a. up_listkeys gen a body = Some pb)) msgs"
    and "last_only (map snd msgs)"
    and "length (concat (map (\<lambda>(_, pb). rlr_items pb) msgs)) < 2 ^ 31" "length msgs \<le> 2 ^ 31"
    and "concat xs = frames (map (\<lambda>(body, pb). (code, body)) msgs)"
    and "cuts_ok (map (\<lambda>(body, pb). (code, body)) msgs) 0 xs"
  shows "\<exists>rop m1 msg. riak_operation_new (Some c) None error_cb cb_data m = Some (ERIAK_OK, Some rop, m1) \<and>
    pbb_bytes (rlkq_bucket msg) = bin_bytes b \<and>
    (packs api msg \<longrightarrow> (\<exists>rop' m2 ys zs st' r m3 m4.
       riak_async_register_listkeys api DecodeListkeys rop bucket_type (Some b) timeout (Some cb) m1 = Some (ERIAK_OK, rop', m2) \<and>
       (\<forall>out. riak_write rop' write_all out = Some (ERIAK_OK, out @ frame MSG_RPBLISTKEYSREQ (pb_pack api msg))) \<and>
       xs = ys @ zs \<and>
       client_run gen (\<lparr>rs_rop = rop', rs_done = False, rs_io = [], rs_mem = m2, rs_trace = []\<rparr>, True) ys (st', False) \<and>
       rs_trace st' = [ResponseCb cb (Some (ListResponse r))] \<and>
       map bin_bytes (arr_elems (riak_listkeys_get_keys r) (unat (riak_listkeys_get_n_keys r))) =
         map pbb_bytes (concat (map (\<lambda>(_, pb). rlr_items pb) msgs)) \<and>
       riak_listkeys_response_free (cxn_config c) (Some r) (rs_mem st') = Some m3 \<and>
       riak_operation_free (Some (rs_rop st')) m3 = Some m4 \<and> mem_live m4 = mem_live m))"
  by (rule async_listkeys_completes [OF assms])

lemma async_listkeys_answered_witness:
  "\<exists>rop m1 rop' m2 ys zs st' r m3 m4.
    riak_operation_new (Some ex_cxn) None None None ex_mem = Some (ERIAK_OK, Some rop, m1) \<and>
    riak_async_register_listkeys ex_keys_api DecodeListkeys rop None (Some (ex_bin (str ''b''))) 0 (Some 6) m1 =
      Some (ERIAK_OK, rop', m2) \<and>
    [[0, 0, 0, 2, 18], [1, 0, 0, 0, 1], [18]] = ys @ zs \<and>
    client_run ex_gen (\<lparr>rs_rop = rop', rs_done = False, rs_io = [], rs_mem = m2, rs_trace = []\<rparr>, True) ys (st', False) \<and>
    rs_trace st' = [ResponseCb 6 (Some (ListResponse r))] \<and>
    map bin_bytes (arr_elems (riak_listkeys_get_keys r) (unat (riak_listkeys_get_n_keys r))) =
      [str ''a'', str ''b'', str ''c''] \<and>
    riak_listkeys_response_free ex_cfg (Some r) (rs_mem st') = Some m3 \<and>
    riak_operation_free (Some (rs_rop st')) m3 = Some m4 \<and> mem_live m4 = {}"
proof -
  let ?msgs = "[([1], ex_keys [''a'', ''b''] False), ([], ex_keys [''c''] True)] :: (bytes \<times> rpb_list_resp) list"
  let ?xs = "[[0, 0, 0, 2, 18], [1, 0, 0, 0, 1], [18]] :: bytes list"
  have ms: "map (\<lambda>(body, pb). (18, body)) ?msgs = [(18 :: u8, [1]), (18, [])]" by simp
  have e: "rlkq_empty (pb_init ex_keys_api)" by (simp add: ex_keys_api_def rlkq_empty_def)
  have u: "list_all (\<lambda>(body, pb). Suc (length body) < 2 ^ 32 \<and> rlr_wf pb \<and> (\<forall>a. up_listkeys ex_gen a body = Some pb)) ?msgs"
    by (simp add: ex_gen_def)
  have l: "last_only (map snd ?msgs)" by (simp add: says_done_def)
  have k: "map pbb_bytes (concat (map (\<lambda>(_, pb). rlr_items pb) ?msgs)) = [str ''a'', str ''b'', str ''c'']"
    by (simp add: ex_pbb_def pbb_bytes_def)
  have f: "concat ?xs = frames [(18, [1]), (18, [])]" by code_simp
  have c: "cuts_ok [(18, [1]), (18, [])] 0 ?xs" by code_simp
  have live: "mem_live ex_mem = {}" by (simp add: ex_mem_def)
  from async_listkeys_answered [where c = ex_cxn and m = ex_mem and code = 18 and msgs = ?msgs and xs = ?xs
      and api = ex_keys_api and gen = ex_gen and bucket_type = None and b = "ex_bin (str ''b'')" and timeout = 0
      and error_cb = None and cb_data = None and cb = 6, unfolded ms k, OF _ _ _ e _ _ u l _ _ f c]
  have "\<exists>rop m1 msg. riak_operation_new (Some ex_cxn) None None None ex_mem = Some (ERIAK_OK, Some rop, m1) \<and>
      (\<exists>rop' m2 ys zs st' r m3 m4.
       riak_async_register_listkeys ex_keys_api DecodeListkeys rop None (Some (ex_bin (str ''b''))) 0 (Some 6) m1 =
         Some (ERIAK_OK, rop', m2) \<and>
       ?xs = ys @ zs \<and>
       client_run ex_gen (\<lparr>rs_rop = rop', rs_done = False, rs_io = [], rs_mem = m2, rs_trace = []\<rparr>, True) ys (st', False) \<and>
       rs_trace st' = [ResponseCb 6 (Some (ListResponse r))] \<and>
       map bin_bytes (arr_elems (riak_listkeys_get_keys r) (unat (riak_listkeys_get_n_keys r))) =
         [str ''a'', str ''b'', str ''c''] \<and>
       riak_listkeys_response_free ex_cfg (Some r) (rs_mem st') = Some m3 \<and>
       riak_operation_free (Some (rs_rop st')) m3 = Some m4 \<and> mem_live m4 = {})"
  proof (elim meta_impE exE conjE, goal_cases)
    case (8 rop m1 msg)
    have "packs ex_keys_api msg" using 8(2) by (simp add: ex_keys_api_def packs_def)
    from 8(3) [rule_format, OF this] 8(1) show ?case
      by (elim exE conjE) (intro exI conjI, assumption+, (assumption | simp add: live)+)
  qed simp_all
  then show ?thesis by (simp only: ex_simps simp_thms)
qed

subsection \<open>Calls over a socket\<close>

text \<open>
  C7. A put over a socket: one frame goes out with the bucket, key and contents of the object
  and what the options ask for (but for \<open>if_none_match\<close> and
  \<open>if_not_modified\<close>); the response has the version clock, the key the server chose
  and the contents of the siblings in the answer; what comes behind the answer stays unread; and
  freeing the response gives back all the memory the call took. (The whole answer can be read at
  once, and memory is granted.)
\<close>

theorem put_call:
  fixes gen :: "'f generated"
  assumes "cfg_grants (cxn_config c)" "mem_wf m" "code \<noteq> 0" "Suc (length body) < 2 ^ 32"
    and "rpq_empty (pb_init api)" "inits_empty ini" "rpc_empty init_content" "storable ob" "pred_option popt_wf options"
    and "\<And>a. up_put gen a body = Some pb" "rpr_wf pb"
  shows "\<exists>msg. pbb_bytes (rpq_bucket msg) = ptr_bytes (obj_bucket ob) \<and>
    map_option pbb_bytes (field_opt (rpq_key msg)) = when_flag (obj_has_key ob) (ptr_bytes (obj_key ob)) \<and>
    rpb_content_of (rpq_content msg) = object_content ob \<and> put_says (pb_init api) options msg \<and>
    (packs api msg \<longrightarrow> (\<exists>r m' m''.
       riak_put peer gen api ini init_content (Some c) (Some ob) options response (frame code body @ beyond, out) m =
         Some (ERIAK_OK, Some (PutResponse r), (beyond, out @ frame MSG_RPBPUTREQ (pb_pack api msg)), m') \<and>
       map_option bin_bytes (riak_put_get_vclock r) = map_option pbb_bytes (field_opt (rpr_vclock pb)) \<and>
       map_option bin_bytes (riak_put_get_key r) = map_option pbb_bytes (field_opt (rpr_key pb)) \<and>
       map object_content (arr_elems (riak_put_get_content r) (unat (rpr_n_content pb))) =
         map rpb_content_of (arr_elems (rpr_content pb) (unat (rpr_n_content pb))) \<and>
       riak_put_response_free (cxn_config c) (Some r) m' = Some m'' \<and> mem_live m'' = mem_live m))"
proof -
  have freed: "\<exists>m''. riak_put_response_free (cxn_config c) (Some r) m' = Some m'' \<and> mem_live m'' = mem_live m"
    if "pr_ok r" "mem_allocs m (pr_owned r) m'" for r m'
    using pr.release_balanced [OF cfg_grants_ok [OF assms(1)] that(1) assms(2) that(2) refl] by simp
  from riak_put_answered [where gen = gen and c = c and m = m and response = response and out = out and beyond = beyond, OF assms]
  show ?thesis
    by (elim ex_forward conj_forward imp_forward)
      (assumption | elim conjE, drule (1) freed, elim exE conjE, intro exI conjI, assumption+)+
qed

lemma put_call_witness:
  "\<exists>r m' m''. riak_put peer ex_gen ex_put_api ex_inits ex_content (Some ex_cxn) (Some ex_object) None None
      (frame 12 [] @ [0, 0], []) ex_mem =
      Some (ERIAK_OK, Some (PutResponse r), ([0, 0], [0, 0, 0, 2, 11] @ str ''b''), m') \<and>
    map_option bin_bytes (riak_put_get_vclock r) = Some [7] \<and> map_option bin_bytes (riak_put_get_key r) = Some [8, 9] \<and>
    riak_put_response_free ex_cfg (Some r) m' = Some m'' \<and> mem_live m'' = {}"
proof -
  have e: "rpq_empty (pb_init ex_put_api)" by (simp add: ex_put_api_def rpq_empty_def)
  have b: "ptr_bytes (obj_bucket ex_object) = str ''b''" by (simp add: ex_object_def ptr_bytes_def)
  have u: "up_put ex_gen a [] = Some ex_put_resp" for a by (simp add: ex_gen_def)
  obtain msg where msg: "pbb_bytes (rpq_bucket msg) = str ''b''"
    "packs ex_put_api msg \<longrightarrow> (\<exists>r m' m''. riak_put peer ex_gen ex_put_api ex_inits ex_content (Some ex_cxn)
       (Some ex_object) None None (frame 12 [] @ [0, 0], []) ex_mem =
         Some (ERIAK_OK, Some (PutResponse r), ([0, 0], [] @ frame MSG_RPBPUTREQ (pb_pack ex_put_api msg)), m') \<and>
       map_option bin_bytes (riak_put_get_vclock r) = Some [7] \<and>
       map_option bin_bytes (riak_put_get_key r) = Some [8, 9] \<and>
       riak_put_response_free ex_cfg (Some r) m' = Some m'' \<and> mem_live m'' = mem_live ex_mem)"
    using put_call [where c = ex_cxn and m = ex_mem and code = 12 and body = "[]" and api = ex_put_api and ini = ex_inits
        and init_content = ex_content and ob = ex_object and options = None and gen = ex_gen and pb = ex_put_resp
        and response = None and out = "[]" and beyond = "[0, 0]"] e u b by auto
  have "packs ex_put_api msg" using msg(1) by (simp add: ex_put_api_def packs_def)
  moreover have "pb_pack ex_put_api msg = str ''b''" using msg(1) by (simp add: ex_put_api_def)
  moreover have "frame MSG_RPBPUTREQ (str ''b'') = [0, 0, 0, 2, 11] @ str ''b''" by code_simp
  moreover have "mem_live ex_mem = {}" by (simp add: ex_mem_def)
  ultimately show ?thesis using msg(2) by auto
qed

text \<open>
  C8. A delete over a socket: one frame goes out, which names the bucket type, bucket and key
  and says what the options ask for; with any answer that is not an error the call returns
  \<open>ERIAK_OK\<close>, reads no byte behind the answer and keeps no memory. (The whole
  answer can be read at once, and memory is granted.)
\<close>

theorem delete_call:
  fixes gen :: "'f generated"
  assumes "cfg_grants (cxn_config c)" "mem_wf m" "code \<noteq> 0" "Suc (length body) < 2 ^ 32" "rdr_empty (pb_init api)"
    and "pred_option bin_wf bucket_type" "bin_wf b" "bin_wf k" "pred_option dopt_wf options"
  shows "\<exists>msg. pbb_bytes (rdr_bucket msg) = bin_bytes b \<and> pbb_bytes (rdr_key msg) = bin_bytes k \<and>
    map_option pbb_bytes (field_opt (rdr_type msg)) = map_option bin_bytes bucket_type \<and> delete_says options msg \<and>
    (packs api msg \<longrightarrow> (\<exists>m'.
       riak_delete peer gen api (Some c) bucket_type (Some b) (Some k) options (frame code body @ beyond, out) m =
         Some (ERIAK_OK, (beyond, out @ frame MSG_RPBDELREQ (pb_pack api msg)), m') \<and> mem_live m' = mem_live m))"
  using riak_delete_answered [where gen = gen and c = c and m = m and out = out and beyond = beyond, OF assms]
  by (elim ex_forward conj_forward imp_forward) (auto dest: mem_allocs_live)

lemma delete_call_witness:
  "\<exists>m'. riak_delete peer ex_gen ex_del_api (Some ex_cxn) None (Some (ex_bin (str ''b''))) (Some (ex_bin (str ''k''))) None
      (frame 14 [] @ [0, 0], []) ex_mem = Some (ERIAK_OK, ([0, 0], [0, 0, 0, 3, 13] @ str ''bk''), m') \<and> mem_live m' = {}"
proof -
  have e: "rdr_empty (pb_init ex_del_api)" by (simp add: ex_del_api_def rdr_empty_def)
  obtain msg where msg: "pbb_bytes (rdr_bucket msg) = str ''b''" "pbb_bytes (rdr_key msg) = str ''k''"
    "packs ex_del_api msg \<longrightarrow> (\<exists>m'. riak_delete peer ex_gen ex_del_api (Some ex_cxn) None (Some (ex_bin (str ''b'')))
       (Some (ex_bin (str ''k''))) None (frame 14 [] @ [0, 0], []) ex_mem =
         Some (ERIAK_OK, ([0, 0], [] @ frame MSG_RPBDELREQ (pb_pack ex_del_api msg)), m') \<and> mem_live m' = mem_live ex_mem)"
    using delete_call [where c = ex_cxn and m = ex_mem and code = 14 and body = "[]" and api = ex_del_api
        and bucket_type = None and b = "ex_bin (str ''b'')" and k = "ex_bin (str ''k'')" and options = None
        and gen = ex_gen and out = "[]" and beyond = "[0, 0]"] e by auto
  have "packs ex_del_api msg" using msg(1,2) by (simp add: ex_del_api_def packs_def)
  moreover have "pb_pack ex_del_api msg = str ''bk''" using msg(1,2) by (simp add: ex_del_api_def)
  moreover have "frame MSG_RPBDELREQ (str ''bk'') = [0, 0, 0, 3, 13] @ str ''bk''" by code_simp
  moreover have "mem_live ex_mem = {}" by (simp add: ex_mem_def)
  ultimately show ?thesis using msg(3) by auto
qed

text \<open>
  C9. Listing keys over a socket: when the answer is a stream of messages of which the last is
  marked so, the response has the keys of all messages in the order they came, what comes behind
  the last message stays unread, and freeing the response gives back all the memory the call
  took. (As long as there are fewer than \<open>2 ^ 31\<close> keys and messages, which the
  32-bit counters need.) (The whole answer can be read at once, and memory is granted.)
\<close>

theorem listkeys_call:
  fixes gen :: "'f generated"
  assumes "cfg_grants (cxn_config c)" "mem_wf m" "code \<noteq> 0" "rlkq_empty (pb_init api)"
    and "pred_option bin_wf bucket_type" "bin_wf b"
    and "list_all (\<lambda>(body, pb). Suc (length body) < 2 ^ 32 \<and> rlr_wf pb \<and> (\<forall>a. up_listkeys gen a body = Some pb)) msgs"
    and "last_only (map snd msgs)"
    and "length (concat (map (\<lambda>(_, pb). rlr_items pb) msgs)) < 2 ^ 31" "length msgs \<le> 2 ^ 31"
  shows "\<exists>msg. pbb_bytes (rlkq_bucket msg) = bin_bytes b \<and>
    map_option pbb_bytes (field_opt (rlkq_type msg)) = map_option bin_bytes bucket_type \<and>
    field_opt (rlkq_timeout msg) = (if timeout = 0 then None else Some timeout) \<and>
    (packs api msg \<longrightarrow> (\<exists>r m' m''.
       riak_listkeys peer gen api (Some c) bucket_type (Some b) timeout response
           (frames (map (\<lambda>(body, pb). (code, body)) msgs) @ beyond, out) m =
         Some (ERIAK_OK, Some (ListResponse r), (beyond, out @ frame MSG_RPBLISTKEYSREQ (pb_pack api msg)), m') \<and>
       map bin_bytes (arr_elems (riak_listkeys_get_keys r) (unat (riak_listkeys_get_n_keys r))) =
         map pbb_bytes (concat (map (\<lambda>(_, pb). rlr_items pb) msgs)) \<and>
       riak_listkeys_response_free (cxn_config c) (Some r) m' = Some m'' \<and> mem_live m'' = mem_live m))"
proof -
  have freed: "\<exists>m''. riak_listkeys_response_free (cxn_config c) (Some r) m' = Some m'' \<and> mem_live m'' = mem_live m"
    if "list_holds m r m'" for r m'
    using list_response_freed [OF cfg_grants_ok [OF assms(1)] that] by (auto simp: riak_listkeys_response_free_def)
  from riak_listkeys_answered [where gen = gen and c = c and m = m and response = response and out = out and beyond = beyond
      and timeout = timeout, OF assms]
  show ?thesis
    by (elim ex_forward conj_forward imp_forward)
      (assumption | elim conjE, drule freed, elim exE conjE, intro exI conjI, assumption+)+
qed

lemma listkeys_call_witness:
  "\<exists>r m' m''. riak_listkeys peer ex_gen ex_keys_api (Some ex_cxn) None (Some (ex_bin (str ''b''))) 0 None
      (frame 18 [1] @ frame 18 [] @ [0, 0], []) ex_mem =
      Some (ERIAK_OK, Some (ListResponse r), ([0, 0], [0, 0, 0, 2, 17] @ str ''b''), m') \<and>
    map bin_bytes (arr_elems (riak_listkeys_get_keys r) (unat (riak_listkeys_get_n_keys r))) =
      [str ''a'', str ''b'', str ''c''] \<and>
    riak_listkeys_response_free ex_cfg (Some r) m' = Some m'' \<and> mem_live m'' = {}"
proof -
  let ?msgs = "[([1], ex_keys [''a'', ''b''] False), ([], ex_keys [''c''] True)] :: (bytes \<times> rpb_list_resp) list"
  have e: "rlkq_empty (pb_init ex_keys_api)" by (simp add: ex_keys_api_def rlkq_empty_def)
  have u: "list_all (\<lambda>(body, pb). Suc (length body) < 2 ^ 32 \<and> rlr_wf pb \<and> (\<forall>a. up_listkeys ex_gen a body = Some pb)) ?msgs"
    by (simp add: ex_gen_def)
  have l: "last_only (map snd ?msgs)" by (simp add: says_done_def)
  have k: "map pbb_bytes (concat (map (\<lambda>(_, pb). rlr_items pb) ?msgs)) = [str ''a'', str ''b'', str ''c'']"
    by (simp add: ex_pbb_def pbb_bytes_def)
  obtain msg where msg: "pbb_bytes (rlkq_bucket msg) = str ''b''"
    "packs ex_keys_api msg \<longrightarrow> (\<exists>r m' m''. riak_listkeys peer ex_gen ex_keys_api (Some ex_cxn) None
       (Some (ex_bin (str ''b''))) 0 None (frame 18 [1] @ frame 18 [] @ [0, 0], []) ex_mem =
         Some (ERIAK_OK, Some (ListResponse r), ([0, 0], [] @ frame MSG_RPBLISTKEYSREQ (pb_pack ex_keys_api msg)), m') \<and>
       map bin_bytes (arr_elems (riak_listkeys_get_keys r) (unat (riak_listkeys_get_n_keys r))) =
         [str ''a'', str ''b'', str ''c''] \<and>
       riak_listkeys_response_free ex_cfg (Some r) m' = Some m'' \<and> mem_live m'' = mem_live ex_mem)"
    using listkeys_call [where c = ex_cxn and m = ex_mem and code = 18 and msgs = ?msgs and api = ex_keys_api
        and bucket_type = None and b = "ex_bin (str ''b'')" and gen = ex_gen and timeout = 0 and response = None
        and out = "[]" and beyond = "[0, 0]", OF _ _ _ e _ _ u l, unfolded k] by auto
  have "packs ex_keys_api msg" using msg(1) by (simp add: ex_keys_api_def packs_def)
  moreover have "pb_pack ex_keys_api msg = str ''b''" using msg(1) by (simp add: ex_keys_api_def)
  moreover have "frame MSG_RPBLISTKEYSREQ (str ''b'') = [0, 0, 0, 2, 17] @ str ''b''" by code_simp
  moreover have "mem_live ex_mem = {}" by (simp add: ex_mem_def)
  ultimately show ?thesis using msg(2) by auto
qed

text \<open>
  C10. A map/reduce call over a socket, answered by any number of messages of which only the
  last says that it is the last: one frame goes out with the request and its content type; the
  response has the phases and answers of all messages in the order they came, what comes behind
  the last message stays unread, and freeing the response gives back all the memory the call
  took. (The whole answer can be read at once, and memory is granted.)
\<close>

theorem mapreduce_call:
  fixes gen :: "'f generated"
  assumes "cfg_grants (cxn_config c)" "mem_wf m" "code \<noteq> 0" "bin_wf t" "bin_wf q"
    and "list_all (\<lambda>(body, pb). Suc (length body) < 2 ^ 32 \<and> rmr_wf pb \<and> (\<forall>a. up_mapreduce gen a body = Some pb)) msgs"
    and "ends_last mr_says_done (map snd msgs)" "length msgs < 2 ^ 31"
  shows "\<exists>msg. pbb_bytes (rmq_request msg) = bin_bytes q \<and> pbb_bytes (rmq_content_type msg) = bin_bytes t \<and>
    (packs api msg \<longrightarrow> (\<exists>r m' m''.
       riak_mapreduce peer gen api (Some c) (Some t) (Some q) response (frames (map (\<lambda>(body, pb). (code, body)) msgs) @ beyond, out) m =
         Some (ERIAK_OK, Some (MapreduceResponse r), (beyond, out @ frame MSG_RPBMAPREDREQ (pb_pack api msg)), m') \<and>
       map mm_content (arr_elems (riak_mapreduce_get_messages r) (unat (riak_mapreduce_get_n_messages r))) =
         map (rmr_content \<circ> snd) msgs \<and>
       riak_mapreduce_response_free (cxn_config c) (Some r) m' = Some m'' \<and> mem_live m'' = mem_live m))"
  by (rule riak_mapreduce_answered [OF assms])

lemma mapreduce_call_witness:
  "\<exists>r m' m''. riak_mapreduce peer ex_phase_gen ex_mapred_api (Some ex_cxn) (Some (ex_bin (str ''j'')))
      (Some (ex_bin (str ''q''))) None (frame 24 [1] @ frame 24 [] @ [0, 0], []) ex_mem =
      Some (ERIAK_OK, Some (MapreduceResponse r), ([0, 0], [0, 0, 0, 2, 23] @ str ''q''), m') \<and>
    map mm_content (arr_elems (riak_mapreduce_get_messages r) (unat (riak_mapreduce_get_n_messages r))) =
      [(Some 1, Some (str ''[]''), None), (Some 0, Some (str ''[]''), Some True)] \<and>
    riak_mapreduce_response_free ex_cfg (Some r) m' = Some m'' \<and> mem_live m'' = {}"
proof -
  let ?msgs = "[([1], ex_phase 1 False), ([], ex_phase 0 True)] :: (bytes \<times> rpb_map_red_resp) list"
  have u: "list_all (\<lambda>(body, pb). Suc (length body) < 2 ^ 32 \<and> rmr_wf pb \<and>
      (\<forall>a. up_mapreduce ex_phase_gen a body = Some pb)) ?msgs"
    by (simp add: ex_phase_gen_def rmr_wf_def ex_phase_def ex_pbb_def pbb_wf_def)
  have l: "ends_last mr_says_done (map snd ?msgs)" by (simp add: mr_says_done_def ex_phase_def)
  have k: "map (rmr_content \<circ> snd) ?msgs =
      [(Some 1, Some (str ''[]''), None), (Some 0, Some (str ''[]''), Some True)]"
    by (simp add: rmr_content_def ex_phase_def ex_pbb_def pbb_bytes_def)
  obtain msg where msg: "pbb_bytes (rmq_request msg) = str ''q''"
    "packs ex_mapred_api msg \<longrightarrow> (\<exists>r m' m''. riak_mapreduce peer ex_phase_gen ex_mapred_api (Some ex_cxn)
       (Some (ex_bin (str ''j''))) (Some (ex_bin (str ''q''))) None (frame 24 [1] @ frame 24 [] @ [0, 0], []) ex_mem =
         Some (ERIAK_OK, Some (MapreduceResponse r), ([0, 0], [] @ frame MSG_RPBMAPREDREQ (pb_pack ex_mapred_api msg)), m') \<and>
       map mm_content (arr_elems (riak_mapreduce_get_messages r) (unat (riak_mapreduce_get_n_messages r))) =
         [(Some 1, Some (str ''[]''), None), (Some 0, Some (str ''[]''), Some True)] \<and>
       riak_mapreduce_response_free ex_cfg (Some r) m' = Some m'' \<and> mem_live m'' = mem_live ex_mem)"
    using mapreduce_call [where c = ex_cxn and m = ex_mem and code = 24 and msgs = ?msgs and api = ex_mapred_api
        and t = "ex_bin (str ''j'')" and q = "ex_bin (str ''q'')" and gen = ex_phase_gen and response = None
        and out = "[]" and beyond = "[0, 0]", OF _ _ _ _ _ u l, unfolded k] by auto
  have "packs ex_mapred_api msg" using msg(1) by (simp add: ex_mapred_api_def packs_def)
  moreover have "pb_pack ex_mapred_api msg = str ''q''" using msg(1) by (simp add: ex_mapred_api_def)
  moreover have "frame MSG_RPBMAPREDREQ (str ''q'') = [0, 0, 0, 2, 23] @ str ''q''" by code_simp
  moreover have "mem_live ex_mem = {}" by (simp add: ex_mem_def)
  ultimately show ?thesis using msg(2) by auto
qed

text \<open>
  C11. A secondary-index query over a socket: one frame goes out with the bucket, the index and
  what the options ask for; with options the bucket type in the message is theirs, whatever type
  the call was given. An answer in one message with keys becomes a response with these keys in
  order, what comes behind it stays unread, and freeing the response gives back all the memory
  the call took but one block, that of the continuation. (The whole answer can be read at once,
  and memory is granted.)
\<close>

theorem index_call:
  fixes gen :: "'f generated"
  assumes "cfg_grants (cxn_config c)" "mem_wf m" "code \<noteq> 0" "Suc (length body) < 2 ^ 32" "riq_empty (pb_init api)"
    and "pred_option bin_wf bucket_type" "bin_wf b" "bin_wf i" "pred_option i2o_wf options"
    and "\<And>a. up_2i gen a body = Some pb" "chunk_wf pb" "rir_n_results pb = 0" "length (rir_keys pb) < 2 ^ 32"
    and "rir_done pb = (True, True)"
  shows "\<exists>msg. pbb_bytes (riq_bucket msg) = bin_bytes b \<and> pbb_bytes (riq_index msg) = bin_bytes i \<and>
    index_says bucket_type options msg \<and>
    (packs api msg \<longrightarrow> (\<exists>r m' m'' k.
       riak_2i peer gen api (Some c) bucket_type (Some b) (Some i) options response (frame code body @ beyond, out) m =
         Some (ERIAK_OK, Some (IndexResponse r), (beyond, out @ frame MSG_RPBINDEXREQ (pb_pack api msg)), m') \<and>
       map bin_bytes (arr_elems (riak_2i_get_keys r) (unat (riak_2i_get_n_keys r))) = map pbb_bytes (rir_keys pb) \<and>
       riak_2i_get_continuation r = Some k \<and> riak_2i_response_free (cxn_config c) (Some r) m' = Some m'' \<and>
       mem_live m'' = insert (bin_at k) (mem_live m) \<and> bin_at k \<notin> mem_live m))"
  by (rule riak_2i_answered [OF assms])

lemma index_call_witness:
  "\<exists>r m' m'' k. riak_2i peer ex_index_gen ex_index_api (Some ex_cxn) (Some (ex_bin (str ''t''))) (Some (ex_bin (str ''b'')))
      (Some (ex_bin (str ''i''))) (Some ex_i2o) None (frame 26 [] @ [0, 0], []) ex_mem =
      Some (ERIAK_OK, Some (IndexResponse r), ([0, 0], [0, 0, 0, 3, 25] @ str ''bi''), m') \<and>
    map bin_bytes (arr_elems (riak_2i_get_keys r) (unat (riak_2i_get_n_keys r))) = [str ''a'', str ''b''] \<and>
    riak_2i_get_continuation r = Some k \<and> riak_2i_response_free ex_cfg (Some r) m' = Some m'' \<and> mem_live m'' = {bin_at k}"
proof -
  have e: "riq_empty (pb_init ex_index_api)" by (simp add: ex_index_api_def riq_empty_def)
  have u: "up_2i ex_index_gen a [] = Some ex_index" for a by (simp add: ex_index_gen_def)
  have o: "pred_option i2o_wf (Some ex_i2o)" by (simp add: i2o_wf_def ex_i2o_def index_options_zero_def)
  have w: "chunk_wf ex_index" "rir_n_results ex_index = 0" "length (rir_keys ex_index) < 2 ^ 32" "rir_done ex_index = (True, True)"
    and k: "map pbb_bytes (rir_keys ex_index) = [str ''a'', str ''b'']"
    by (simp_all add: chunk_wf_def ex_index_def ex_pbb_def pbb_wf_def pbb_bytes_def)
  obtain msg where msg: "pbb_bytes (riq_bucket msg) = str ''b''" "pbb_bytes (riq_index msg) = str ''i''"
    "packs ex_index_api msg \<longrightarrow> (\<exists>r m' m'' k. riak_2i peer ex_index_gen ex_index_api (Some ex_cxn)
       (Some (ex_bin (str ''t''))) (Some (ex_bin (str ''b''))) (Some (ex_bin (str ''i''))) (Some ex_i2o) None
       (frame 26 [] @ [0, 0], []) ex_mem =
         Some (ERIAK_OK, Some (IndexResponse r), ([0, 0], [] @ frame MSG_RPBINDEXREQ (pb_pack ex_index_api msg)), m') \<and>
       map bin_bytes (arr_elems (riak_2i_get_keys r) (unat (riak_2i_get_n_keys r))) = [str ''a'', str ''b''] \<and>
       riak_2i_get_continuation r = Some k \<and> riak_2i_response_free ex_cfg (Some r) m' = Some m'' \<and>
       mem_live m'' = insert (bin_at k) (mem_live ex_mem))"
    using index_call [where c = ex_cxn and m = ex_mem and code = 26 and body = "[]" and api = ex_index_api
        and bucket_type = "Some (ex_bin (str ''t''))" and b = "ex_bin (str ''b'')" and i = "ex_bin (str ''i'')"
        and options = "Some ex_i2o" and gen = ex_index_gen and pb = ex_index and response = None and out = "[]" and beyond = "[0, 0]",
        OF _ _ _ _ e _ _ _ o u w, unfolded k] by auto
  have "packs ex_index_api msg" using msg(1,2) by (simp add: ex_index_api_def packs_def)
  moreover have "pb_pack ex_index_api msg = str ''bi''" using msg(1,2) by (simp add: ex_index_api_def)
  moreover have "frame MSG_RPBINDEXREQ (str ''bi'') = [0, 0, 0, 3, 25] @ str ''bi''" by code_simp
  moreover have "mem_live ex_mem = {}" by (simp add: ex_mem_def)
  ultimately show ?thesis using msg(3) by auto
qed

text \<open>
  C12. A search over a socket: one frame goes out with the index, the query and what the options
  ask for, the names of the fields included; the response has the fields of all documents in the
  order they came, the best score and the number of matches; what comes behind the answer stays
  unread; and freeing the response gives back all the memory the call took. (The whole answer
  can be read at once, and memory is granted.)
\<close>

theorem search_call:
  fixes gen :: "'f generated"
  assumes "cfg_grants (cxn_config c)" "mem_wf m" "code \<noteq> 0" "Suc (length body) < 2 ^ 32" "rsq_empty (pb_init api)"
    and "bin_wf b" "bin_wf q" "pred_option so_wf options"
    and "\<And>a. up_search gen a body = Some pb" "rsr_docs pb = map Some rds" "length rds = unat (rsr_n_docs pb)"
    and "list_all rsd_wf rds"
  shows "\<exists>msg. pbb_bytes (rsq_index msg) = bin_bytes b \<and> pbb_bytes (rsq_q msg) = bin_bytes q \<and>
    search_says options msg \<and>
    (packs api msg \<longrightarrow> (\<exists>r m' m''.
       riak_search peer gen api (Some c) (Some b) (Some q) options response (frame code body @ beyond, out) m =
         Some (ERIAK_OK, Some (SearchResponse r), (beyond, out @ frame MSG_RPBSEARCHQUERYREQ (pb_pack api msg)), m') \<and>
       sr_contents r = map rsd_content rds \<and> sr_max_score r = rsr_max_score pb \<and> sr_num_found r = rsr_num_found pb \<and>
       riak_search_response_free (cxn_config c) (Some r) m' = Some m'' \<and> mem_live m'' = mem_live m))"
  by (rule riak_search_answered [OF assms])

lemma search_call_witness:
  "\<exists>r m' m''. riak_search peer ex_search_gen ex_search_api (Some ex_cxn) (Some (ex_bin (str ''b'')))
      (Some (ex_bin (str ''q''))) (Some ex_fields) None (frame 28 [] @ [0, 0], []) ex_mem =
      Some (ERIAK_OK, Some (SearchResponse r), ([0, 0], [0, 0, 0, 3, 27] @ str ''bq''), m') \<and>
    sr_contents r = [[(str ''t'', Some (str ''k''))]] \<and> sr_num_found r = (True, 8) \<and>
    riak_search_response_free ex_cfg (Some r) m' = Some m'' \<and> mem_live m'' = {}"
proof -
  let ?pb = "\<lparr>rsr_n_docs = 1, rsr_docs = [Some ex_doc], rsr_max_score = (False, ()), rsr_num_found = (True, 8)\<rparr>"
  have e: "rsq_empty (pb_init ex_search_api)" by (simp add: ex_search_api_def rsq_empty_def)
  have u: "up_search ex_search_gen a [] = Some ?pb" for a by (simp add: ex_search_gen_def)
  have o: "pred_option so_wf (Some ex_fields)"
    by (simp add: so_wf_def ex_fields_def search_options_zero_def arr_ok_def arr_elems_def)
  have w: "rsr_docs ?pb = map Some [ex_doc]" "length [ex_doc] = unat (rsr_n_docs ?pb)" "list_all rsd_wf [ex_doc]"
    and k: "map rsd_content [ex_doc] = [[(str ''t'', Some (str ''k''))]]"
    by (simp_all add: ex_doc_def rsd_wf_def arr_ok_def arr_elems_def rpp_wf_def ex_pbb_def pbb_wf_def
        rsd_content_def rpp_content_def pbb_bytes_def)
  obtain msg where msg: "pbb_bytes (rsq_index msg) = str ''b''" "pbb_bytes (rsq_q msg) = str ''q''"
    "packs ex_search_api msg \<longrightarrow> (\<exists>r m' m''. riak_search peer ex_search_gen ex_search_api (Some ex_cxn)
       (Some (ex_bin (str ''b''))) (Some (ex_bin (str ''q''))) (Some ex_fields) None (frame 28 [] @ [0, 0], []) ex_mem =
         Some (ERIAK_OK, Some (SearchResponse r), ([0, 0], [] @ frame MSG_RPBSEARCHQUERYREQ (pb_pack ex_search_api msg)), m') \<and>
       sr_contents r = [[(str ''t'', Some (str ''k''))]] \<and> sr_num_found r = (True, 8) \<and>
       riak_search_response_free ex_cfg (Some r) m' = Some m'' \<and> mem_live m'' = mem_live ex_mem)"
    using search_call [where c = ex_cxn and m = ex_mem and code = 28 and body = "[]" and api = ex_search_api
        and b = "ex_bin (str ''b'')" and q = "ex_bin (str ''q'')" and options = "Some ex_fields" and gen = ex_search_gen
        and pb = ?pb and rds = "[ex_doc]" and response = None and out = "[]" and beyond = "[0, 0]", OF _ _ _ _ e _ _ o u w, unfolded k] by auto
  have "packs ex_search_api msg" using msg(1,2) by (simp add: ex_search_api_def packs_def)
  moreover have "pb_pack ex_search_api msg = str ''bq''" using msg(1,2) by (simp add: ex_search_api_def)
  moreover have "frame MSG_RPBSEARCHQUERYREQ (str ''bq'') = [0, 0, 0, 3, 27] @ str ''bq''" by code_simp
  moreover have "mem_live ex_mem = {}" by (simp add: ex_mem_def)
  ultimately show ?thesis using msg(3) by auto
qed

text \<open>
  C13. Setting bucket properties over a socket. Properties without functions and without hooks
  are sent: one frame goes out with the bucket, its type and the contents of the properties, and
  any answer that is not an error becomes the empty response; what comes behind it stays unread,
  and freeing the response gives back all the memory the call took but the arrays of hooks made
  for the message (empty ones), which nothing frees. With a function or a hook the call is
  undefined, whatever the server would answer: the headers of the messages made for them are
  never initialised, and protobuf-c follows them. (The whole answer can be read at once, and
  memory is granted.)
\<close>

theorem set_bucketprops_call:
  fixes gen :: "'f generated"
  assumes "cfg_grants (cxn_config c)" "mem_wf m" "code \<noteq> 0" "Suc (length body) < 2 ^ 32"
    and "\<not> fst (rsb_type (pb_init api))" "rbp_empty init_props"
    and "pred_option bin_wf bucket_type" "bin_wf b" "bp_wf props"
  shows "if bp_plain props
    then \<exists>msg. pbb_bytes (rsb_bucket msg) = bin_bytes b \<and>
      map_option pbb_bytes (field_opt (rsb_type msg)) = map_option bin_bytes bucket_type \<and>
      rbp_content_of (rsb_props msg) = bp_content_of props \<and>
      (packs api msg \<longrightarrow> (\<exists>r m' m''.
         riak_set_bucketprops peer gen api init_props (Some c) bucket_type (Some b) props response (frame code body @ beyond, out) m =
           Some (ERIAK_OK, Some (AckResponse r), (beyond, out @ frame MSG_RPBSETBUCKETREQ (pb_pack api msg)), m') \<and>
         riak_set_bucketprops_response_free (cxn_config c) (Some r) m' = Some m'' \<and>
         mem_live m'' = mem_live m \<union> set (rbp_owned (rsb_props msg)) \<and>
         mem_live m \<inter> set (rbp_owned (rsb_props msg)) = {}))
    else \<forall>os. riak_set_bucketprops sys gen api init_props (Some c) bucket_type (Some b) props response os m = None"
proof (cases "bp_plain props")
  case True
  show ?thesis unfolding if_P [OF True] by (rule riak_set_bucketprops_answered [OF assms True])
next
  case False
  then show ?thesis by (simp add: riak_set_bucketprops_undefined [OF assms(1,6,9)])
qed

lemma set_bucketprops_call_witness:
  "(\<exists>r m' m''. riak_set_bucketprops peer ex_gen ex_set_api ex_bp_init (Some ex_cxn) None (Some (ex_bin (str ''b'')))
      ex_props None (frame 22 [] @ [0, 0], []) ex_mem =
      Some (ERIAK_OK, Some (AckResponse r), ([0, 0], [0, 0, 0, 2, 21] @ str ''b''), m') \<and>
    riak_set_bucketprops_response_free ex_cfg (Some r) m' = Some m'') \<and>
   riak_set_bucketprops peer ex_gen ex_set_api ex_bp_init (Some ex_cxn) None (Some (ex_bin (str ''b'')))
      (ex_props\<lparr>bp_linkfun := Some ex_mf\<rparr>) None (frame 22 [] @ [0, 0], []) ex_mem = None"
proof
  have e: "\<not> fst (rsb_type (pb_init ex_set_api))" "rbp_empty ex_bp_init"
    by (simp_all add: ex_set_api_def rbp_empty_def ex_bp_init_def)
  have p: "bp_wf ex_props" "bp_wf (ex_props\<lparr>bp_linkfun := Some ex_mf\<rparr>)"
    by (simp_all add: bp_wf_def ex_props_def bucketprops_zero_def arr_ok_def arr_elems_def u64_count_def mf_wf_def ex_mf_def)
  have pl: "bp_plain ex_props" "\<not> bp_plain (ex_props\<lparr>bp_linkfun := Some ex_mf\<rparr>)"
    by (simp_all add: bp_plain_def ex_props_def bucketprops_zero_def)
  obtain msg where msg: "pbb_bytes (rsb_bucket msg) = str ''b''"
    "packs ex_set_api msg \<longrightarrow> (\<exists>r m' m''. riak_set_bucketprops peer ex_gen ex_set_api ex_bp_init (Some ex_cxn) None
       (Some (ex_bin (str ''b''))) ex_props None (frame 22 [] @ [0, 0], []) ex_mem =
         Some (ERIAK_OK, Some (AckResponse r), ([0, 0], [] @ frame MSG_RPBSETBUCKETREQ (pb_pack ex_set_api msg)), m') \<and>
       riak_set_bucketprops_response_free ex_cfg (Some r) m' = Some m'')"
    using set_bucketprops_call [where c = ex_cxn and m = ex_mem and code = 22 and body = "[]" and api = ex_set_api
        and bucket_type = None and b = "ex_bin (str ''b'')" and props = ex_props and init_props = ex_bp_init
        and gen = ex_gen and response = None and out = "[]" and beyond = "[0, 0]", OF _ _ _ _ e _ _ p(1)] pl(1) by auto
  have "packs ex_set_api msg" using msg(1) by (simp add: ex_set_api_def packs_def)
  moreover have "pb_pack ex_set_api msg = str ''b''" using msg(1) by (simp add: ex_set_api_def)
  moreover have "frame MSG_RPBSETBUCKETREQ (str ''b'') = [0, 0, 0, 2, 21] @ str ''b''" by code_simp
  ultimately show "\<exists>r m' m''. riak_set_bucketprops peer ex_gen ex_set_api ex_bp_init (Some ex_cxn) None (Some (ex_bin (str ''b'')))
      ex_props None (frame 22 [] @ [0, 0], []) ex_mem =
      Some (ERIAK_OK, Some (AckResponse r), ([0, 0], [0, 0, 0, 2, 21] @ str ''b''), m') \<and>
    riak_set_bucketprops_response_free ex_cfg (Some r) m' = Some m''"
    using msg(2) by auto
  show "riak_set_bucketprops peer ex_gen ex_set_api ex_bp_init (Some ex_cxn) None (Some (ex_bin (str ''b'')))
      (ex_props\<lparr>bp_linkfun := Some ex_mf\<rparr>) None (frame 22 [] @ [0, 0], []) ex_mem = None"
    using set_bucketprops_call [where c = ex_cxn and m = ex_mem and code = 22 and body = "[]" and api = ex_set_api
        and bucket_type = None and b = "ex_bin (str ''b'')" and props = "ex_props\<lparr>bp_linkfun := Some ex_mf\<rparr>"
        and init_props = ex_bp_init and gen = ex_gen and response = None and sys = peer, OF _ _ _ _ e _ _ p(2)] pl(2) by simp
qed

text \<open>
  C14. Any number of pings, deletes and gets, in any order, on one connection whose peer answers
  each of them with a message that is not an error: the requests go out as one frame each in the
  order of the calls, every call succeeds and a get yields the contents in the answer that came
  for it, the bytes behind the last answer stay unread, and at the end the library has given
  back all memory. (As long as the messages of the calls can be packed.) (The whole answer can
  be read at once, and memory is granted.)
\<close>

theorem calls_in_a_row:
  fixes gen :: "'f generated"
  assumes "cfg_grants (cxn_config c)" "mem_wf m" "rdr_empty (pb_init dapi)" "rgq_empty (pb_init gapi)"
    and "list_all (\<lambda>(q, f, xs). call_wf dapi gapi q \<and> call_answer gen q f xs) cs"
  shows "\<exists>sent m'. session gen dapi gapi c (map fst cs) (frames (map (\<lambda>(q, f, xs). f) cs) @ beyond, out) m =
      Some (map (\<lambda>(q, f, xs). (ERIAK_OK, xs)) cs, (beyond, out @ frames sent), m') \<and>
    list_all2 (call_sends dapi gapi) (map fst cs) sent \<and> mem_live m' = mem_live m"
  using session_answered [OF assms, of beyond out] by (elim ex_forward conj_forward) (auto dest: mem_allocs_live)

lemma calls_in_a_row_witness:
  "let b = ex_bin (str ''b''); k = ex_bin (str ''k''); contents = map rpb_content_of (arr_elems (rgr_content (ex_get_resp [1, 2])) 1)
   in \<exists>f g m'. session ex_gen ex_del_api ex_get_api ex_cxn [PingCall, GetCall None b k None, DeleteCall None b k None]
        (frame 2 [] @ frame 10 [1, 2] @ frame 14 [] @ [0, 0], []) ex_mem =
      Some ([(ERIAK_OK, []), (ERIAK_OK, contents), (ERIAK_OK, [])],
        ([0, 0], frames [(MSG_RPBPINGREQ, []), f, g]), m') \<and>
      call_sends ex_del_api ex_get_api (GetCall None b k None) f \<and>
      call_sends ex_del_api ex_get_api (DeleteCall None b k None) g \<and> mem_live m' = {}"
proof -
  let ?b = "ex_bin (str ''b'')" and ?k = "ex_bin (str ''k'')"
    and ?xs = "map rpb_content_of (arr_elems (rgr_content (ex_get_resp [1, 2])) 1)"
  let ?cs = "[(PingCall, (2, []), []), (GetCall None ?b ?k None, (10, [1, 2]), ?xs), (DeleteCall None ?b ?k None, (14, []), [])]"
  have e: "rdr_empty (pb_init ex_del_api)" "rgq_empty (pb_init ex_get_api)"
    by (simp_all add: ex_del_api_def rdr_empty_def ex_get_api_def rgq_empty_def)
  have "\<exists>pb. (\<forall>a. up_get ex_gen a [1, 2] = Some pb) \<and> rgr_wf pb \<and>
      ?xs = map rpb_content_of (arr_elems (rgr_content pb) (unat (rgr_n_content pb)))"
    by (rule exI [of _ "ex_get_resp [1, 2]"]) (simp add: ex_gen_def)
  then have cs: "list_all (\<lambda>(q, f, xs). call_wf ex_del_api ex_get_api q \<and> call_answer ex_gen q f xs) ?cs"
    by (simp add: delete_asks_def get_asks_def packs_def ex_del_api_def ex_get_api_def)
  have live: "mem_live ex_mem = {}" by (simp add: ex_mem_def)
  obtain sent m' where s: "session ex_gen ex_del_api ex_get_api ex_cxn (map fst ?cs)
        (frames (map (\<lambda>(q, f, xs). f) ?cs) @ [0, 0], []) ex_mem =
      Some (map (\<lambda>(q, f, xs). (ERIAK_OK, xs)) ?cs, ([0, 0], [] @ frames sent), m')"
    "list_all2 (call_sends ex_del_api ex_get_api) (map fst ?cs) sent" "mem_live m' = {}"
    using calls_in_a_row [OF _ _ e cs, of ex_cxn ex_mem "[0, 0]" "[]"] unfolding live by auto
  from s(2) obtain f g where fg: "sent = [(MSG_RPBPINGREQ, []), f, g]"
    "call_sends ex_del_api ex_get_api (GetCall None ?b ?k None) f"
    "call_sends ex_del_api ex_get_api (DeleteCall None ?b ?k None) g"
    by (auto simp: list_all2_Cons1 simp del: call_sends.simps(2,3))
  have io: "frames [(2, []), (10, [1, 2]), (14, [])] @ [0, 0] = frame 2 [] @ frame 10 [1, 2] @ frame 14 [] @ [0, 0]" by simp
  show ?thesis
    unfolding Let_def using s(1,3) fg(2,3) unfolding fg(1) list.map fst_conv split append_Nil io by blast
qed

text \<open>
  C15. Reading and writing back: any object of the response to a get can be handed to a put on
  the same connection as it is, and the put sends the bucket and key that were asked for and
  exactly the contents that were received for this sibling; each call reads its own answer, and
  freeing both responses gives back all the memory the two calls took. (The answers can be read
  at once, and memory is granted.)
\<close>

theorem get_then_put:
  fixes gen :: "'f generated"
  assumes "cfg_grants (cxn_config c)" "mem_wf m"
    and "rgq_empty (pb_init gapi)" "rpq_empty (pb_init papi)" "inits_empty ini" "rpc_empty init_content"
    and "pred_option bin_wf bucket_type" "bin_wf b" "bin_wf k" "pred_option gopt_wf gopts" "pred_option popt_wf popts"
    and "code \<noteq> 0" "Suc (length body) < 2 ^ 32" "\<And>a. up_get gen a body = Some pb" "rgr_wf pb"
    and "pcode \<noteq> 0" "Suc (length pbody) < 2 ^ 32" "\<And>a. up_put gen a pbody = Some ppb" "rpr_wf ppb"
    and "i < unat (rgr_n_content pb)"
  shows "\<exists>gmsg. get_asks bucket_type b k gopts gmsg \<and> (packs gapi gmsg \<longrightarrow> (\<exists>r m1.
    riak_get peer gen gapi (Some c) bucket_type (Some b) (Some k) gopts None
        (frame code body @ frame pcode pbody @ beyond, out) m =
      Some (ERIAK_OK, Some (GetResponse r), (frame pcode pbody @ beyond, out @ frame MSG_RPBGETREQ (pb_pack gapi gmsg)), m1) \<and>
    (\<exists>pmsg. pbb_bytes (rpq_bucket pmsg) = bin_bytes b \<and>
       map_option pbb_bytes (field_opt (rpq_key pmsg)) = Some (bin_bytes k) \<and>
       rpb_content_of (rpq_content pmsg) = rpb_content_of (arr_elems (rgr_content pb) (unat (rgr_n_content pb)) ! i) \<and>
       put_says (pb_init papi) popts pmsg \<and> (packs papi pmsg \<longrightarrow> (\<exists>s m2 m3 m4.
         riak_put peer gen papi ini init_content (Some c)
             (Some (arr_elems (riak_get_get_content r) (unat (rgr_n_content pb)) ! i)) popts None
             (frame pcode pbody @ beyond, out @ frame MSG_RPBGETREQ (pb_pack gapi gmsg)) m1 =
           Some (ERIAK_OK, Some (PutResponse s), (beyond,
             (out @ frame MSG_RPBGETREQ (pb_pack gapi gmsg)) @ frame MSG_RPBPUTREQ (pb_pack papi pmsg)), m2) \<and>
         riak_put_response_free (cxn_config c) (Some s) m2 = Some m3 \<and>
         riak_get_response_free (cxn_config c) (Some r) m3 = Some m4 \<and> mem_live m4 = mem_live m)))))"
  by (rule get_put_answered [OF assms])

lemma get_then_put_witness:
  "\<exists>r m1 s m2 m3 m4. riak_get peer ex_gen ex_get_api (Some ex_cxn) None (Some (ex_bin (str ''b''))) (Some (ex_bin (str ''k'')))
      None None (frame 10 [1, 2] @ frame 12 [] @ [0, 0], []) ex_mem =
      Some (ERIAK_OK, Some (GetResponse r), (frame 12 [] @ [0, 0], [0, 0, 0, 3, 9] @ str ''bk''), m1) \<and>
    riak_put peer ex_gen ex_put_api ex_inits ex_content (Some ex_cxn) (Some (arr_elems (riak_get_get_content r) 1 ! 0)) None
      None (frame 12 [] @ [0, 0], [0, 0, 0, 3, 9] @ str ''bk'') m1 =
      Some (ERIAK_OK, Some (PutResponse s), ([0, 0], ([0, 0, 0, 3, 9] @ str ''bk'') @ [0, 0, 0, 2, 11] @ str ''b''), m2) \<and>
    riak_put_response_free ex_cfg (Some s) m2 = Some m3 \<and> riak_get_response_free ex_cfg (Some r) m3 = Some m4 \<and>
    mem_live m4 = {}"
proof -
  have e: "rgq_empty (pb_init ex_get_api)" "rpq_empty (pb_init ex_put_api)"
    by (simp_all add: ex_get_api_def rgq_empty_def ex_put_api_def rpq_empty_def)
  have u: "up_get ex_gen a [1, 2] = Some (ex_get_resp [1, 2])" "up_put ex_gen a [] = Some ex_put_resp" for a
    by (simp_all add: ex_gen_def)
  have g: "packs ex_get_api msg" "pb_pack ex_get_api msg = str ''bk''"
    if "get_asks None (ex_bin (str ''b'')) (ex_bin (str ''k'')) None msg" for msg
    using that by (simp_all add: get_asks_def ex_get_api_def packs_def)
  have p: "packs ex_put_api msg" "pb_pack ex_put_api msg = str ''b''" if "pbb_bytes (rpq_bucket msg) = str ''b''" for msg
    using that by (simp_all add: ex_put_api_def packs_def)
  have f: "frame MSG_RPBGETREQ (str ''bk'') = [0, 0, 0, 3, 9] @ str ''bk''"
    "frame MSG_RPBPUTREQ (str ''b'') = [0, 0, 0, 2, 11] @ str ''b''" by code_simp+
  have live: "mem_live ex_mem = {}" by (simp add: ex_mem_def)
  obtain gmsg where gm: "get_asks None (ex_bin (str ''b'')) (ex_bin (str ''k'')) None gmsg"
    "packs ex_get_api gmsg \<longrightarrow> (\<exists>r m1. riak_get peer ex_gen ex_get_api (Some ex_cxn) None (Some (ex_bin (str ''b'')))
        (Some (ex_bin (str ''k''))) None None (frame 10 [1, 2] @ frame 12 [] @ [0, 0], []) ex_mem =
        Some (ERIAK_OK, Some (GetResponse r), (frame 12 [] @ [0, 0], [] @ frame MSG_RPBGETREQ (pb_pack ex_get_api gmsg)), m1) \<and>
      (\<exists>pmsg. pbb_bytes (rpq_bucket pmsg) = str ''b'' \<and> (packs ex_put_api pmsg \<longrightarrow> (\<exists>s m2 m3 m4.
        riak_put peer ex_gen ex_put_api ex_inits ex_content (Some ex_cxn) (Some (arr_elems (riak_get_get_content r) 1 ! 0))
            None None (frame 12 [] @ [0, 0], [] @ frame MSG_RPBGETREQ (pb_pack ex_get_api gmsg)) m1 =
          Some (ERIAK_OK, Some (PutResponse s), ([0, 0], ([] @ frame MSG_RPBGETREQ (pb_pack ex_get_api gmsg)) @
            frame MSG_RPBPUTREQ (pb_pack ex_put_api pmsg)), m2) \<and>
        riak_put_response_free ex_cfg (Some s) m2 = Some m3 \<and> riak_get_response_free ex_cfg (Some r) m3 = Some m4 \<and>
        mem_live m4 = {}))))"
    using get_then_put [where c = ex_cxn and m = ex_mem and code = 10 and body = "[1, 2]" and gapi = ex_get_api and
        papi = ex_put_api and ini = ex_inits and init_content = ex_content and bucket_type = None and
        b = "ex_bin (str ''b'')" and k = "ex_bin (str ''k'')" and gopts = None and popts = None and gen = ex_gen and
        pb = "ex_get_resp [1, 2]" and pcode = 12 and pbody = "[]" and ppb = ex_put_resp and i = 0 and out = "[]" and
        beyond = "[0, 0]"] e u live
    by (elim meta_impE exE conjE) (simp_all, blast)
  then obtain r m1 pmsg where r: "riak_get peer ex_gen ex_get_api (Some ex_cxn) None (Some (ex_bin (str ''b'')))
        (Some (ex_bin (str ''k''))) None None (frame 10 [1, 2] @ frame 12 [] @ [0, 0], []) ex_mem =
        Some (ERIAK_OK, Some (GetResponse r), (frame 12 [] @ [0, 0], [0, 0, 0, 3, 9] @ str ''bk''), m1)"
    and pm: "pbb_bytes (rpq_bucket pmsg) = str ''b''" "packs ex_put_api pmsg \<longrightarrow> (\<exists>s m2 m3 m4.
        riak_put peer ex_gen ex_put_api ex_inits ex_content (Some ex_cxn) (Some (arr_elems (riak_get_get_content r) 1 ! 0))
            None None (frame 12 [] @ [0, 0], [0, 0, 0, 3, 9] @ str ''bk'') m1 =
          Some (ERIAK_OK, Some (PutResponse s), ([0, 0], ([0, 0, 0, 3, 9] @ str ''bk'') @
            frame MSG_RPBPUTREQ (pb_pack ex_put_api pmsg)), m2) \<and>
        riak_put_response_free ex_cfg (Some s) m2 = Some m3 \<and> riak_get_response_free ex_cfg (Some r) m3 = Some m4 \<and>
        mem_live m4 = {})"
    unfolding g(2) [OF gm(1)] f append_Nil using g(1) [OF gm(1)] by blast
  with p [OF pm(1)] show ?thesis unfolding f by (simp only: f) blast
qed

subsection \<open>When something goes wrong\<close>

text \<open>
  C16. When the connection ends before a whole answer has arrived, the reader still reports
  success: a ping then dereferences a NULL response, and asking for the server's name returns
  \<open>ERIAK_OK\<close> with a NULL response. Nothing is leaked. (Memory is granted.)
\<close>

theorem cut_answer_is_success:
  fixes gen :: "'f generated"
  assumes "cfg_grants (cxn_config c)" "mem_wf m" "Suc (length body) < 2 ^ 32" "n < length body + 5"
  shows "riak_ping peer gen (Some c) (take n (frame code body), out) m = None \<and>
    (\<exists>m'. riak_serverinfo peer gen (Some c) response (take n (frame code body), out) m =
       Some (ERIAK_OK, None, ([], out @ frame MSG_RPBGETSERVERINFOREQ []), m') \<and> mem_live m' = mem_live m)"
proof
  have g: "cfg_grants (rop_config (fresh_operation c m))" using assms(1) by simp
  show "riak_ping peer gen (Some c) (take n (frame code body), out) m = None"
    using sync_call_cut_answer [where gen = gen and encode = "riak_ping_request_encode DecodePing" and response = None
        and code = code and out = out,
        OF assms(1,2) send_empty_sends [OF g, of MSG_RPBPINGREQ DecodePing, folded riak_ping_request_encode_def] assms(3,4)]
    by (auto simp: riak_ping_def)
  show "\<exists>m'. riak_serverinfo peer gen (Some c) response (take n (frame code body), out) m =
       Some (ERIAK_OK, None, ([], out @ frame MSG_RPBGETSERVERINFOREQ []), m') \<and> mem_live m' = mem_live m"
    unfolding riak_serverinfo_def
    by (rule sync_call_cut_answer [OF assms(1,2) _ assms(3,4)])
      (unfold riak_serverinfo_request_encode_def, rule send_empty_sends [OF g])
qed

lemma cut_answer_is_success_witness:
  "riak_ping peer ex_gen (Some ex_cxn) ([0, 0, 0], []) ex_mem = None \<and>
    (\<exists>m'. riak_serverinfo peer ex_gen (Some ex_cxn) None ([0, 0, 0], []) ex_mem =
       Some (ERIAK_OK, None, ([], [0, 0, 0, 1, 7]), m') \<and> mem_live m' = {})"
proof -
  have "take 3 (frame 2 []) = [0, 0, 0]" "frame MSG_RPBGETSERVERINFOREQ [] = [0, 0, 0, 1, 7]" by code_simp+
  moreover have "mem_live ex_mem = {}" by (simp add: ex_mem_def)
  ultimately show ?thesis
    using cut_answer_is_success [where gen = ex_gen and c = ex_cxn and m = ex_mem and body = "[]" and code = 2 and n = 3
        and out = "[]" and response = None] by simp
qed

text \<open>
  C17. When the size of a message arrives in two parts, of which the first has \<open>h\<close>
  bytes, the rest of the message is stored behind the first \<open>h\<close> bytes of its block,
  whose contents are whatever the allocator left there; so the code of the message that is
  decoded is not the one that was sent, and the last \<open>h\<close> bytes of the message are
  taken for the next size. (Memory is granted.)
\<close>

theorem split_size_shifts:
  fixes gen :: "'f generated"
  assumes "at_boundary st" "cfg_grants (rop_config (rs_rop st))" "Suc (length body) < 2 ^ 32"
    and "0 < h" "h < 4" "h \<le> Suc (length body)" "rs_io st = take h (frame code body)"
  shows "\<exists>st1. riak_read (riak_libevent_read_cb evbuffer_read) (up_error gen) (riak_decode gen) st = Some (ERIAK_OK, st1) \<and>
    read_step (riak_libevent_read_cb evbuffer_read) (up_error gen) (riak_decode gen)
        (st1\<lparr>rs_io := drop h (frame code body) @ rest\<rparr>) =
      read_dispatch (up_error gen) (riak_decode gen)
        ((in_message (Suc (length body)) (mem_next (rs_mem st))
           (map (mem_junk (rs_mem st) (mem_next (rs_mem st))) [0..<h] @ take (Suc (length body) - h) (code # body))
           (st1\<lparr>rs_mem := mem_push (rs_mem st)\<rparr>))\<lparr>rs_io := drop (Suc (length body) - h) (code # body) @ rest\<rparr>)"
  using libevent_reader.read_split_size [where io = "drop h (frame code body) @ rest" and rest = rest and g = gen, OF assms]
  by auto

lemma split_size_shifts_witness:
  "\<exists>st1. riak_read (riak_libevent_read_cb evbuffer_read) (up_error ex_gen) (riak_decode ex_gen)
      (ex_ping_st\<lparr>rs_io := [0, 0]\<rparr>) = Some (ERIAK_OK, st1) \<and>
    read_step (riak_libevent_read_cb evbuffer_read) (up_error ex_gen) (riak_decode ex_gen)
        (st1\<lparr>rs_io := [0, 3, 2, 8, 9]\<rparr>) =
      read_dispatch (up_error ex_gen) (riak_decode ex_gen)
        ((in_message 3 1 [0, 0, 2] (st1\<lparr>rs_mem := mem_push ex_mem\<rparr>))\<lparr>rs_io := [8, 9]\<rparr>)"
proof -
  have f: "take 2 (frame 2 [8, 9]) = [0, 0]" "drop 2 (frame 2 [8, 9]) = [0, 3, 2, 8, 9]" by code_simp+
  have m: "rs_mem ex_ping_st = ex_mem" "mem_next ex_mem = 1" "mem_junk ex_mem = (\<lambda>_ _. 0)" "[0..<2] = [0, 1]"
    by (simp_all add: ex_ping_st_def ex_mem_def upt_rec)
  have b: "at_boundary (ex_ping_st\<lparr>rs_io := [0, 0]\<rparr>)" by (simp add: ex_ping_st_def at_boundary_def operation_zero_def)
  show ?thesis
    using split_size_shifts [where st = "ex_ping_st\<lparr>rs_io := [0, 0]\<rparr>" and body = "[8, 9]" and code = 2 and h = 2
        and gen = ex_gen and rest = "[]"] b by (simp add: f m numeral_3_eq_3)
qed

text \<open>
  C18. An error message from the server makes the reader return
  \<open>ERIAK_SERVER_ERROR\<close>; the operation keeps the code and text the server sent and
  no response; the error callback is called twice, with the same response, which is freed then;
  besides the error the block of the message stays allocated. (Memory is granted.)
\<close>

theorem server_error_handled:
  fixes st :: "('io, 'r, 'd) read_state"
  assumes "cfg_grants (rop_config (rs_rop st))" "rop_decoder (rs_rop st) = Some d" "mem_wf (rs_mem st)"
    and "Suc (length body) < 2 ^ 32" "\<And>a. unpack a body = Some er" "pbb_wf (rer_errmsg er)"
    and "length (pbb_bytes (rer_errmsg er)) < 2 ^ 32"
  shows "\<exists>r e st'. receive_message unpack decode 0 body st = Some (Some ERIAK_SERVER_ERROR, st') \<and>
    rs_trace st' = rs_trace st @
      (case rop_error_cb (rs_rop st) of None \<Rightarrow> [] | Some f \<Rightarrow> [ErrorCb f (Some r), ErrorCb f (Some r)]) \<and>
    ser_errcode r = rer_errcode er \<and> map_option bin_bytes (ser_errmsg r) = Some (pbb_bytes (rer_errmsg er)) \<and>
    rop_error (rs_rop st') = Some e \<and> se_errcode e = rer_errcode er \<and>
    map_option bin_bytes (se_errmsg e) = Some (pbb_bytes (rer_errmsg er)) \<and>
    rop_response (rs_rop st') = None \<and> rs_done st' \<and>
    mem_live (rs_mem st') = mem_live (rs_mem st) \<union> set (mem_next (rs_mem st) # se_owned e)"
  by (rule receive_server_error [where ue = unpack, OF assms])

lemma server_error_handled_witness:
  "\<exists>r st'. receive_message (\<lambda>_ _. Some ex_error) (riak_decode ex_gen) 0 [1]
      (ex_ping_st\<lparr>rs_rop := (rs_rop ex_ping_st)\<lparr>rop_error_cb := Some 4\<rparr>\<rparr>) = Some (Some ERIAK_SERVER_ERROR, st') \<and>
    rs_trace st' = [ErrorCb 4 (Some r), ErrorCb 4 (Some r)] \<and> ser_errcode r = 5 \<and>
    map_option bin_bytes (ser_errmsg r) = Some (str ''no'')"
proof -
  let ?st = "ex_ping_st\<lparr>rs_rop := (rs_rop ex_ping_st)\<lparr>rop_error_cb := Some 4\<rparr>\<rparr>"
  have e: "pbb_wf (rer_errmsg ex_error)" "pbb_bytes (rer_errmsg ex_error) = str ''no''" "rer_errcode ex_error = 5"
    by (simp_all add: ex_error_def ex_pbb_def pbb_wf_def pbb_bytes_def)
  have m: "mem_wf (rs_mem ?st)" by (simp add: ex_ping_st_def)
  have d: "rop_decoder (rs_rop ?st) = Some DecodePing" by (simp add: ex_ping_st_def)
  show ?thesis
    using server_error_handled [where st = ?st and unpack = "\<lambda>_ _. Some ex_error" and er = ex_error and body = "[1]"
        and decode = "riak_decode ex_gen" and d = DecodePing] m d by (simp add: e) blast
qed

text \<open>
  C19. When the block for a message cannot be allocated, the reader returns
  \<open>ERIAK_READ\<close>, but leaves the operation as if it had the block: any further call
  of the callback asks for the rest of the message at a NULL pointer. It does nothing as long as
  nothing has arrived, and is undefined as soon as there is a byte to store. (The callback
  ignores the error and keeps the bufferevent. For a message of length zero even the call that
  delivers nothing is undefined: it reads the code of the message.)
\<close>

theorem refused_block_then_null:
  fixes st :: "(bytes, 'r, 'd) read_state"
  assumes "at_boundary st" "rs_io st = rev (u32_bytes v) @ rest"
    and "riak_config_allocate (rop_config (rs_rop st)) (Bytes (unat v)) (rs_mem st) = (None, m)"
  shows "\<exists>st1. riak_read (riak_libevent_read_cb evbuffer_read) unpack decode st = Some (ERIAK_READ, st1) \<and>
    (\<exists>io. riak_libevent_result_cb evbuffer_read unpack decode st = Some (Some io, st1)) \<and>
    (\<forall>io. riak_libevent_result_cb evbuffer_read unpack decode (st1\<lparr>rs_io := io\<rparr>) =
       (if v \<noteq> 0 \<and> io = [] then Some (Some [], st1\<lparr>rs_io := []\<rparr>) else None))"
  using ev.read_refused_block [OF assms, of unpack decode] by (auto simp: riak_libevent_result_cb_def)

lemma refused_block_then_null_witness:
  "\<exists>st1. riak_read (riak_libevent_read_cb evbuffer_read) (up_error ex_gen) (riak_decode ex_gen)
      (ex_ping_st\<lparr>rs_rop := (rs_rop ex_ping_st)\<lparr>rop_config := ex_cfg_full\<rparr>, rs_io := [0, 0, 0, 9, 2]\<rparr>) =
        Some (ERIAK_READ, st1) \<and>
    riak_libevent_result_cb evbuffer_read (up_error ex_gen) (riak_decode ex_gen) (st1\<lparr>rs_io := []\<rparr>) =
      Some (Some [], st1\<lparr>rs_io := []\<rparr>) \<and>
    riak_libevent_result_cb evbuffer_read (up_error ex_gen) (riak_decode ex_gen) (st1\<lparr>rs_io := [1]\<rparr>) = None"
proof -
  let ?st = "ex_ping_st\<lparr>rs_rop := (rs_rop ex_ping_st)\<lparr>rop_config := ex_cfg_full\<rparr>, rs_io := rev (u32_bytes 9) @ [2]\<rparr>"
  have f: "[0, 0, 0, 9, 2] = rev (u32_bytes 9) @ [2]" by code_simp
  have "at_boundary ?st" by (simp add: ex_ping_st_def at_boundary_def operation_zero_def)
  moreover have "riak_config_allocate (rop_config (rs_rop ?st)) (Bytes (unat (9 :: u32))) (rs_mem ?st) =
      (None, (rs_mem ?st)\<lparr>mem_calls := Suc (mem_calls (rs_mem ?st))\<rparr>)"
    by (simp add: ex_cfg_full_def ex_cfg_def riak_config_allocate_def mem_request_def)
  ultimately show ?thesis unfolding f
    using refused_block_then_null [of ?st 9 "[2]" _ "up_error ex_gen" "riak_decode ex_gen"] by auto
qed

text \<open>
  C20. When memory runs out inside a ping: an operation that cannot be allocated is written
  through NULL; and when the operation is there but its request is not, the ping returns
  \<open>ERIAK_OUT_OF_MEMORY\<close> without a byte sent and the operation is never freed.
\<close>

theorem ping_out_of_memory:
  assumes "cxn_config c = Some cf" "malloc_fn cf = Some f"
  shows "(\<not> f (mem_calls m) (SizeOf ''riak_operation'' 1) \<longrightarrow> riak_ping sys gen (Some c) os m = None) \<and>
    (f (mem_calls m) (SizeOf ''riak_operation'' 1) \<and> \<not> f (Suc (mem_calls m)) (SizeOf ''riak_pb_message'' 1) \<longrightarrow>
      (\<exists>m'. riak_ping sys gen (Some c) os m = Some (ERIAK_OUT_OF_MEMORY, os, m') \<and>
        mem_live m' = insert (mem_next m) (mem_live m)))"
  using riak_ping_refused [OF assms, of m sys gen os] by blast

lemma ping_out_of_memory_witness:
  "\<exists>m'. riak_ping peer ex_gen (Some (ex_cxn\<lparr>cxn_config := ex_cfg_first\<rparr>)) ([], []) ex_mem =
      Some (ERIAK_OUT_OF_MEMORY, ([], []), m') \<and> mem_live m' = {1}"
proof -
  obtain cf where cf: "ex_cfg_first = Some cf" "malloc_fn cf = Some (\<lambda>n _. n = 0)"
    by (simp add: ex_cfg_first_def ex_cfg_def)
  have "mem_calls ex_mem = 0" "mem_next ex_mem = 1" "mem_live ex_mem = {}" by (simp_all add: ex_mem_def)
  then show ?thesis
    using ping_out_of_memory [of "ex_cxn\<lparr>cxn_config := ex_cfg_first\<rparr>" cf "\<lambda>n _. n = 0" ex_mem peer ex_gen "([], [])"] cf
    by simp
qed

subsection \<open>Objects and messages\<close>

text \<open>
  C21. An object converted to a message and back is an object with the same contents; freeing
  the new object and the message gives back all the memory that the two conversions took.
  (Memory is granted.)
\<close>

theorem object_pb_roundtrip:
  assumes "cfg_grants cfg" "mem_wf m" "inits_empty ini" "rpc_empty to" "object_wf ob"
  shows "\<exists>to' m1 ob' m2 m3 m4.
    riak_object_to_pb_copy cfg ini to ob m = Some (ERIAK_OK, to', m1) \<and>
    riak_object_new_from_pb cfg to' m1 = Some (ERIAK_OK, Some ob', m2) \<and>
    object_content ob' = object_content ob \<and>
    riak_object_free cfg (Some ob') m2 = Some m3 \<and> riak_object_free_pb cfg to' m3 = Some m4 \<and>
    mem_live m4 = mem_live m"
proof -
  obtain to' m1 where t: "riak_object_to_pb_copy cfg ini to ob m = Some (ERIAK_OK, to', m1)"
    "rpc_wf to'" "rpb_content_of to' = object_content ob" "mem_allocs m (rpc_owned to') m1"
    using riak_object_to_pb_ok [OF assms(1,3-5)] by blast
  obtain ob' m2 where o: "riak_object_new_from_pb cfg to' m1 = Some (ERIAK_OK, Some ob', m2)"
    "object_wf ob'" "object_content ob' = rpb_content_of to'" "mem_allocs m1 (obj_owned ob') m2"
    using riak_object_new_from_pb_ok [OF assms(1) t(2)] by blast
  have "mem_wf m1" using mem_allocs_wf t(4) assms(2) by blast
  moreover have "obj_arrays_ok ob'" using o(2) by (simp add: object_wf_def)
  ultimately have f: "riak_object_free cfg (Some ob') m2 = Some (m2\<lparr>mem_live := mem_live m1\<rparr>)"
    using obj.release_balanced [OF cfg_grants_ok [OF assms(1)]] o(4) by blast
  have "mem_allocs m (rpc_owned to') (m2\<lparr>mem_live := mem_live m1\<rparr>)"
    using t(4) o(4) by (fastforce simp: mem_allocs_def)
  then have "riak_object_free_pb cfg to' (m2\<lparr>mem_live := mem_live m1\<rparr>) = Some (m2\<lparr>mem_live := mem_live m\<rparr>)"
    using mem_allocs_free_all [OF _ assms(2) refl] riak_object_free_pb_owned [OF cfg_grants_ok [OF assms(1)] t(2)]
    by simp
  with t o f show ?thesis by auto
qed

lemma object_pb_roundtrip_witness:
  "\<exists>to' m1 ob' m2 m3 m4.
    riak_object_to_pb_copy ex_cfg ex_inits ex_content ex_object ex_mem = Some (ERIAK_OK, to', m1) \<and>
    riak_object_new_from_pb ex_cfg to' m1 = Some (ERIAK_OK, Some ob', m2) \<and>
    object_content ob' = object_content ex_object \<and>
    riak_object_free ex_cfg (Some ob') m2 = Some m3 \<and> riak_object_free_pb ex_cfg to' m3 = Some m4 \<and>
    mem_live m4 = mem_live ex_mem"
  by (rule object_pb_roundtrip) simp_all

subsection \<open>The growable array\<close>

text \<open>
  C22. On an array made by \<open>riak_array_new\<close> with a positive size, pushing the
  elements of any list (up to \<open>2 ^ 29\<close> of them) gives an array of these elements,
  and popping as many returns them in the opposite order.
\<close>

theorem array_push_then_pop:
  assumes "cfg_grants cfg" "mem_wf m" "0 < unat sz" "unat sz \<le> 2 ^ 30" "length xs \<le> 2 ^ 29"
  shows "\<exists>ra m1 ra' m2 ra''. riak_array_new cfg sz m = Some (ERIAK_OK, Some ra, m1) \<and>
    feed ra_push ra xs m1 = Some (ra', m2) \<and> ra_list ra' = xs \<and>
    drain ra_pop ra' (length xs) = Some (rev xs, ra'') \<and> ra_list ra'' = []"
proof -
  obtain ra :: "'a riak_array" and m1 where
    n: "riak_array_new cfg sz m = Some (ERIAK_OK, Some ra, m1)" "ra_ok ra m1" "ra_list ra = []"
    using riak_array_new_ok [OF assms(1-4)] by blast
  from arr.push_then_pop [OF n(2,3) assms(5)] n(1) show ?thesis by blast
qed

lemma array_push_then_pop_witness:
  "\<exists>ra m1 ra' m2 ra''. riak_array_new ex_cfg 1 ex_mem = Some (ERIAK_OK, Some ra, m1) \<and>
    feed ra_push ra [Some 4, None, Some (6 :: nat)] m1 = Some (ra', m2) \<and>
    ra_list ra' = [Some 4, None, Some (6 :: nat)] \<and>
    drain ra_pop ra' (length [Some 4, None, Some (6 :: nat)]) = Some (rev [Some 4, None, Some (6 :: nat)], ra'') \<and>
    ra_list ra'' = []"
  by (rule array_push_then_pop) simp_all

text \<open>
  C23. Inserting at any position up to the length puts the element there, moves the later ones
  up by one and leaves an array that can be used again (growing it when it is full); reading a
  position afterwards gives the list element.
\<close>

theorem array_insert_then_get:
  assumes "ra_ok ra m" "length (ra_list ra) < 2 ^ 29" "unat pos \<le> length (ra_list ra)"
    and "unat i \<le> length (ra_list ra)"
  shows "\<exists>ra' m'. riak_array_insert ra pos x m = Some (ERIAK_OK, Some ra', m') \<and> ra_ok ra' m' \<and>
    ra_list ra' = take (unat pos) (ra_list ra) @ x # drop (unat pos) (ra_list ra) \<and>
    riak_array_get ra' i = Some (ERIAK_OK, Some (ra_list ra' ! unat i))"
proof -
  obtain ra' m' where r: "riak_array_insert ra pos x m = Some (ERIAK_OK, Some ra', m')" "ra_ok ra' m'"
    "ra_list ra' = take (unat pos) (ra_list ra) @ x # drop (unat pos) (ra_list ra)"
    using riak_array_insert_ok [OF assms(1-3)] by blast
  moreover have "ra_wf ra'" "unat i < length (ra_list ra')"
    using r(2) assms(3,4) by (simp_all add: ra_ok_def r(3))
  ultimately show ?thesis using riak_array_get_ok by metis
qed

lemma array_insert_then_get_witness:
  "\<exists>ra' m'. riak_array_insert ex_array 1 (Some 9) ex_array_mem = Some (ERIAK_OK, Some ra', m') \<and> ra_ok ra' m' \<and>
    ra_list ra' = take (unat (1 :: u64)) (ra_list ex_array) @ Some 9 # drop (unat (1 :: u64)) (ra_list ex_array) \<and>
    riak_array_get ra' 2 = Some (ERIAK_OK, Some (ra_list ra' ! unat (2 :: u64)))"
  by (rule array_insert_then_get)
    (auto simp: ex_array_def ex_array_mem_def ra_ok_def ra_wf_def ra_owned_def ra_list_def mem_wf_def)

text \<open>
  C24. Removing a valid position works on an array that has spare capacity and then drops
  exactly that element; on an array that is full it reads one element past the end of its block,
  whatever the position.
\<close>

theorem array_remove_needs_room:
  assumes "ra_wf ra" "unat pos < length (ra_list ra)"
  shows "if unat (ra_length ra) < unat (ra_capacity ra)
    then \<exists>ra'. riak_array_remove ra pos = Some (ERIAK_OK, ra') \<and> ra_wf ra' \<and>
      ra_list ra' = take (unat pos) (ra_list ra) @ drop (Suc (unat pos)) (ra_list ra)
    else riak_array_remove ra pos = None"
  using riak_array_remove_ok [OF assms] riak_array_remove_full [OF assms] assms(1)
  by (auto simp: ra_wf_def)

lemma array_remove_needs_room_witness:
  "(if unat (ra_length ex_array) < unat (ra_capacity ex_array)
    then \<exists>ra'. riak_array_remove ex_array 0 = Some (ERIAK_OK, ra') \<and> ra_wf ra' \<and>
      ra_list ra' = take (unat (0 :: u64)) (ra_list ex_array) @ drop (Suc (unat (0 :: u64))) (ra_list ex_array)
    else riak_array_remove ex_array 0 = None)"
  by (rule array_remove_needs_room) (simp_all add: ex_array_def ra_wf_def ra_list_def)

text \<open>
  C25. The doubling loop that enlarges an array ends for every positive capacity as long as at
  most \<open>2 ^ 63\<close> elements are asked for: the capacity is kept if it is enough, and
  otherwise doubled some number of times to one that is enough and less than twice what is asked
  for. From capacity 0 the loop never ends; and for more than \<open>2 ^ 63\<close> elements it
  never ends from any capacity that is a power of two, because the doubled capacity wraps to 0.
\<close>

theorem array_grow_terminates:
  assumes "0 < sz"
  shows "(0 < c \<and> unat sz \<le> 2 ^ 63 \<longrightarrow> (\<exists>n k. riak_array_grow c sz = Some n \<and> n = c * 2 ^ k \<and> sz \<le> n \<and>
      (if sz \<le> c then n = c else unat n < 2 * unat sz))) \<and>
    riak_array_grow 0 sz = None \<and> (2 ^ 63 < unat sz \<longrightarrow> riak_array_grow (2 ^ j) sz = None)"
proof (intro conjI impI)
  assume a: "0 < c \<and> unat sz \<le> 2 ^ 63"
  then have "0 < unat c" by (simp add: word_less_nat_alt)
  with a obtain n where n: "riak_array_grow c sz = Some n" "sz \<le> n" "if sz \<le> c then n = c else unat n < 2 * unat sz"
    using riak_array_grow_ends [of c sz] by blast
  with riak_array_grow_multiple [OF n(1)]
  show "\<exists>n k. riak_array_grow c sz = Some n \<and> n = c * 2 ^ k \<and> sz \<le> n \<and>
      (if sz \<le> c then n = c else unat n < 2 * unat sz)" by blast
qed (use riak_array_grow_0 [OF assms] riak_array_grow_wraps in simp_all)

lemma array_grow_terminates_witness:
  "(\<exists>n k. riak_array_grow 3 10 = Some n \<and> n = 3 * 2 ^ k \<and> 10 \<le> n \<and> unat n < 20) \<and>
   riak_array_grow 0 (- 1) = None \<and> riak_array_grow (2 ^ 3) (- 1) = None"
  using array_grow_terminates [of 10 3] array_grow_terminates [of "- 1" 3 3] 
  by (simp add: unsigned_minus_1_eq_mask mask_eq_exp_minus_1 word_greater_zero_iff)

subsection \<open>Binaries and text\<close>

text \<open>
  C26. \<open>riak_binary_compare\<close> is a total order on the contents of binaries: it is 0
  exactly for equal contents, reversing the arguments negates it, and it is transitive.
\<close>

theorem binary_compare_order:
  assumes "bin_wf a" "bin_wf b" "bin_wf c"
  shows "\<exists>ab bc ac. riak_binary_compare (Some a) (Some b) = Some ab \<and>
    riak_binary_compare (Some b) (Some c) = Some bc \<and> riak_binary_compare (Some a) (Some c) = Some ac \<and>
    riak_binary_compare (Some b) (Some a) = Some (- ab) \<and> (ab = 0 \<longleftrightarrow> bin_bytes a = bin_bytes b) \<and>
    (ab \<le> 0 \<and> bc \<le> 0 \<longrightarrow> ac \<le> 0)"
  using riak_binary_compare_shortlex [OF assms(1,2)] riak_binary_compare_shortlex [OF assms(2,3)]
    riak_binary_compare_shortlex [OF assms(1,3)] riak_binary_compare_shortlex [OF assms(2,1)]
    shortlex_0 shortlex_swap [of "bin_bytes a" "bin_bytes b"]
    shortlex_trans [of "bin_bytes a" "bin_bytes b" "bin_bytes c"]
  by auto

lemma binary_compare_order_witness:
  "\<exists>r. riak_binary_compare (Some (ex_bin [9])) (Some (ex_bin [1, 2])) = Some r \<and>
    riak_binary_compare (Some (ex_bin [1, 2])) (Some (ex_bin [9])) = Some (- r) \<and> r \<noteq> 0"
  using binary_compare_order [of "ex_bin [9]" "ex_bin [1, 2]" "ex_bin [1, 3]"] by auto

text \<open>
  C27. Printing a binary in hexadecimal writes two digits for each byte that fits, from which
  the bytes can be read back, and ends the text. When the buffer has an even length and is not
  longer than the digits, the terminating zero is written one byte past its end.
\<close>

theorem binary_hex_print_roundtrip:
  assumes "bin_wf b" "0 < len" "length t = off + unat len"
  shows "if odd (unat len) \<or> 2 * unat (bin_len b) < unat len
    then \<exists>n t'. riak_binary_hex_print (Some b) t off len = Some (2 * n, t') \<and> length t' = length t \<and>
      n = min (unat (bin_len b)) (unat len div 2) \<and>
      unhex (take (2 * n) (drop off t')) = take n (bin_bytes b) \<and> t' ! (off + 2 * n) = 0 \<and>
      take off t' = take off t
    else riak_binary_hex_print (Some b) t off len = None"
proof (cases "odd (unat len) \<or> 2 * unat (bin_len b) < unat len")
  case True
  define n where "n = min (unat (bin_len b)) (unat len div 2)"
  have lt: "off + 2 * n < length t" using True assms(3) unfolding n_def by presburger
  have l: "length (take n (bin_bytes b)) = n"
    using length_bin_bytes [OF assms(1)] by (simp add: n_def)
  let ?t = "take off t @ hex_bytes (take n (bin_bytes b)) @ 0 # drop (off + 2 * n + 1) t"
  show ?thesis unfolding if_P [OF True]
  proof (intro exI [of _ n] exI [of _ ?t] conjI)
    show "riak_binary_hex_print (Some b) t off len = Some (2 * n, ?t)"
      by (rule riak_binary_hex_print_spec [OF assms(1,2) n_def lt])
    have "take (2 * n) (drop off ?t) = hex_bytes (take n (bin_bytes b))" using lt l by simp
    then show "unhex (take (2 * n) (drop off ?t)) = take n (bin_bytes b)" by (simp only: unhex_hex)
    show "?t ! (off + 2 * n) = 0" using lt l by (simp add: nth_append)
  qed (use lt l in \<open>simp_all add: n_def\<close>)
next
  case False
  then show ?thesis using riak_binary_hex_print_overflow [OF assms(1,2) _ _ assms(3)] by auto
qed

lemma binary_hex_print_roundtrip_witness:
  "(if odd (unat (5 :: u32)) \<or> 2 * unat (bin_len (ex_bin [1, 171])) < unat (5 :: u32)
    then \<exists>n t'. riak_binary_hex_print (Some (ex_bin [1, 171])) (replicate 6 7) 1 5 = Some (2 * n, t') \<and>
      length t' = length (replicate 6 (7 :: u8)) \<and> n = min (unat (bin_len (ex_bin [1, 171]))) (unat (5 :: u32) div 2) \<and>
      unhex (take (2 * n) (drop 1 t')) = take n (bin_bytes (ex_bin [1, 171])) \<and> t' ! (1 + 2 * n) = 0 \<and>
      take 1 t' = take 1 (replicate 6 7)
    else riak_binary_hex_print (Some (ex_bin [1, 171])) (replicate 6 7) 1 5 = None)"
  by (rule binary_hex_print_roundtrip) simp_all

text \<open>
  C28. \<open>riak_strlcpy\<close> copies at most \<open>size\<close> characters and a
  terminator behind them, so it is safe exactly for a block with more than \<open>min (strlen
  src) size\<close> bytes; for a source of at least \<open>size\<close> characters, a block of
  \<open>size\<close> bytes is overrun.
\<close>

theorem strlcpy_contract:
  assumes "0 \<notin> set s" "0 < sz"
  shows "(case riak_strlcpy dst (s @ 0 # rest) sz of
      Some (k, dst') \<Rightarrow> k = min (length s) sz \<and> length dst' = length dst \<and> take (Suc k) dst' = take k s @ [0] \<and>
        drop (Suc k) dst' = drop (Suc k) dst
    | None \<Rightarrow> length dst \<le> min (length s) sz) \<and>
    (length dst = sz \<longrightarrow> (riak_strlcpy dst (s @ 0 # rest) sz = None \<longleftrightarrow> sz \<le> length s))"
  unfolding riak_strlcpy_spec [OF assms] by (auto simp: Let_def min_def)

lemma strlcpy_contract_witness:
  "(\<exists>dst'. riak_strlcpy (replicate 4 9) ([1, 2] @ 0 # []) 4 = Some (2, dst') \<and> take 3 dst' = [1, 2, 0]) \<and>
    riak_strlcpy (replicate 2 9) ([1, 2] @ 0 # []) 2 = None"
proof
  show "\<exists>dst'. riak_strlcpy (replicate 4 9) ([1, 2] @ 0 # []) 4 = Some (2, dst') \<and> take 3 dst' = [1, 2, 0]"
    using strlcpy_contract [of "[1, 2]" 4 "replicate 4 9" "[]"]
    by (auto simp: numeral_3_eq_3 split: option.splits)
  show "riak_strlcpy (replicate 2 9) ([1, 2] @ 0 # []) 2 = None"
    using strlcpy_contract [of "[1, 2]" 2 "replicate 2 9" "[]"] by simp
qed

text \<open>
  C29. Printing an object never leaves the buffer: whatever the size of the object and of the
  buffer, \<open>riak_object_print\<close> returns, writes only inside the buffer it was given
  and leaves a print state that more can be printed to.
\<close>

theorem object_print_in_bounds:
  assumes "printable_object ob" "\<forall>v. length (strftime v) < 256"
    and "0 < sint maxlen" "nat (sint maxlen) \<le> length location"
  shows "\<exists>w st. riak_object_print strftime (riak_print_init location maxlen) ob = Some (w, st) \<and>
    ps_wf st \<and> length (ps_buf st) = length location \<and>
    drop (nat (sint maxlen)) (ps_buf st) = drop (nat (sint maxlen)) location"
proof -
  have s: "print_safe (\<lambda>st. riak_object_print strftime st ob)"
    using riak_object_print_safe [OF assms(1)] assms(2) by blast
  obtain w st where "riak_object_print strftime (riak_print_init location maxlen) ob = Some (w, st)"
    "ps_next (riak_print_init location maxlen) st"
    using print_safeD [OF s riak_print_init_wf [OF assms(3,4)]] .
  then show ?thesis by (simp add: ps_next_def riak_print_init_def)
qed

lemma object_print_in_bounds_witness:
  "\<exists>w st. riak_object_print (\<lambda>_. str ''now'') (riak_print_init (replicate 12 7) 10) ex_object = Some (w, st) \<and>
    ps_wf st \<and> length (ps_buf st) = length (replicate 12 (7 :: u8)) \<and>
    drop (nat (sint (10 :: i32))) (ps_buf st) = drop (nat (sint (10 :: i32))) (replicate 12 7)"
proof (rule object_print_in_bounds)
  have "object_wf ex_object" by simp
  then show "printable_object ex_object"
    unfolding printable_object_def by (simp add: ex_object_def object_zero_def)
qed simp_all

subsection \<open>Objects and messages\<close>

text \<open>
  C30. Two objects that have all the binaries the comparison looks at are compared without an
  undefined access. They are reported equal exactly when they have the same bucket and key and
  the same contents (value; charset, content type and encoding with their flags; deletion mark;
  indexes, links and user metadata), where a vtag or a time of modification counts only if both
  have one. So objects are reported equal, which the header calls \<open>equal in value\<close>,
  that differ in the bucket type, in whether there is a key or a deletion mark, or in a vtag or
  time that one of them lacks.
\<close>

theorem object_compare_exact:
  assumes "comparable a" "comparable b"
  shows "(\<exists>r. riak_object_compare a b = Some r \<and> (r = 0 \<longleftrightarrow> same_object a b)) \<and>
    riak_object_compare a (a\<lparr>obj_has_bucket_type := h, obj_bucket_type := t, obj_has_key := k, obj_has_deleted := d,
      obj_has_vtag := v \<and> obj_has_vtag a, obj_has_last_mod := l \<and> obj_has_last_mod a,
      obj_has_last_mod_usecs := u \<and> obj_has_last_mod_usecs a\<rparr>) = Some 0"
  using riak_object_compare_ok [OF assms] riak_object_compare_blind [OF assms(1)] by blast

lemma object_compare_exact_witness:
  "(\<exists>r. riak_object_compare ex_object (ex_object\<lparr>obj_key := Some (ex_bin (str ''j''))\<rparr>) = Some r \<and> r \<noteq> 0) \<and>
   riak_object_compare ex_object (ex_object\<lparr>obj_has_bucket_type := True, obj_bucket_type := Some (ex_bin (str ''t'')),
      obj_has_key := True, obj_has_deleted := False, obj_has_vtag := False, obj_has_last_mod := False,
      obj_has_last_mod_usecs := False\<rparr>) = Some 0"
proof -
  let ?j = "ex_object\<lparr>obj_key := Some (ex_bin (str ''j''))\<rparr>"
  have w: "object_wf ex_object" by simp
  then have a: "comparable ex_object"
    unfolding comparable_def by (simp add: ex_object_def)
  from w have b: "comparable ?j"
    unfolding comparable_def object_wf_def obj_arrays_ok_def by (simp add: ex_object_def)
  have "\<not> same_object ex_object ?j"
    by (simp add: same_object_def ex_object_def ptr_bytes_def)
  then show ?thesis
    using object_compare_exact [OF a b, where h = True and t = "Some (ex_bin (str ''t''))" and k = True and d = False and
        v = False and l = False and u = False] by auto
qed

subsection \<open>Bucket properties and the life of structures\<close>

text \<open>
  C31. Bucket properties received as a complete message keep every flag, value, hook and
  function; converting them back gives a message with the same contents, and freeing the
  properties gives back all the memory the first conversion took. (Memory is granted. The
  statement is about contents: the message made by the second conversion cannot be packed, as
  the headers of its functions and hooks are not initialised.)
\<close>

theorem bucketprops_pb_roundtrip:
  assumes "cfg_grants cfg" "mem_wf m" "rbp_empty ini" "rbp_full pb"
  shows "\<exists>p m1 pb' m2 m3. riak_bucketprops_new_from_pb cfg pb m = Some (ERIAK_OK, Some p, m1) \<and>
    bp_content_of p = rbp_content_of pb \<and>
    riak_bucketprops_to_pb_copy cfg ini p m1 = Some (ERIAK_OK, pb', m2) \<and> rbp_content_of pb' = rbp_content_of pb \<and>
    riak_bucketprops_free cfg (Some p) m1 = Some m3 \<and> mem_live m3 = mem_live m"
proof -
  obtain p m1 where p: "riak_bucketprops_new_from_pb cfg pb m = Some (ERIAK_OK, Some p, m1)"
    "bp_wf p" "bp_releasable p" "bp_content_of p = rbp_content_of pb" "mem_allocs m (bp_owned p) m1"
    using riak_bucketprops_new_from_pb_ok [OF assms(1,4)] by blast
  obtain pb' m2 where "riak_bucketprops_to_pb_copy cfg ini p m1 = Some (ERIAK_OK, pb', m2)"
    "rbp_content_of pb' = bp_content_of p"
    using riak_bucketprops_to_pb_ok [OF assms(1,3) p(2)] by blast
  with p bp.release_balanced [OF cfg_grants_ok [OF assms(1)] p(3) assms(2) p(5) refl] show ?thesis by auto
qed

lemma bucketprops_pb_roundtrip_witness:
  "\<exists>p m1 pb' m2 m3. riak_bucketprops_new_from_pb ex_cfg ex_bp ex_mem = Some (ERIAK_OK, Some p, m1) \<and>
    bp_content_of p = rbp_content_of ex_bp \<and>
    riak_bucketprops_to_pb_copy ex_cfg ex_bp_init p m1 = Some (ERIAK_OK, pb', m2) \<and>
    rbp_content_of pb' = rbp_content_of ex_bp \<and>
    riak_bucketprops_free ex_cfg (Some p) m1 = Some m3 \<and> mem_live m3 = mem_live ex_mem"
proof (rule bucketprops_pb_roundtrip)
  show "rbp_empty ex_bp_init" by (simp add: rbp_empty_def ex_bp_init_def)
  show "rbp_full ex_bp"
    by (simp add: rbp_full_def rbp_wf_def rbp_complete_def ex_bp_def ex_bp_init_def rph_full_def rph_wf_def rpm_wf_def ex_modfun_def
        ex_pbb_def pbb_wf_def arr_ok_def arr_elems_def u64_count_def)
qed simp_all

text \<open>
  C32. A well-formed reply to a get of bucket properties is converted exactly when it is
  complete: both functions are there, and so is the function of every hook in a list it
  announces. Otherwise the conversion fails as if memory had run out, although it is granted,
  and the decoder reports a success without a response.
\<close>

theorem bucketprops_reply_incomplete:
  assumes "cfg_grants (rop_config rop)" "pbm_payload pbresp = Some xs" "unpack (mem_next m) xs = Some pb" "rbp_wf pb"
  shows "if rbp_complete pb
    then \<exists>r p m'. riak_get_bucketprops_response_decode unpack rop pbresp resp fin m = Some (ERIAK_OK, Some r, True, m') \<and>
      gbp_props r = Some p \<and> bp_content_of p = rbp_content_of pb
    else (\<exists>p m'. riak_bucketprops_new_from_pb (rop_config rop) pb m = Some (ERIAK_OUT_OF_MEMORY, p, m')) \<and>
      (\<exists>m'. riak_get_bucketprops_response_decode unpack rop pbresp resp fin m = Some (ERIAK_OK, None, True, m'))"
proof (cases "rbp_complete pb")
  case True
  then have "rbp_full pb" using assms(4) by (simp add: rbp_full_def)
  then obtain p m' where "riak_bucketprops_new_from_pb (rop_config rop) pb (mem_push (mem_push m)) = Some (ERIAK_OK, Some p, m')"
    "bp_content_of p = rbp_content_of pb"
    using riak_bucketprops_new_from_pb_ok [OF assms(1)] by blast
  with riak_get_bucketprops_response_decode_eq [where unpack = unpack, OF assms(1-3) this(1)] True show ?thesis by auto
next
  case False
  note l = riak_bucketprops_new_from_pb_lacks [OF assms(1,4), unfolded may_lack_def]
  obtain p m' where e: "riak_bucketprops_new_from_pb (rop_config rop) pb (mem_push (mem_push m)) =
      Some (ERIAK_OUT_OF_MEMORY, Some p, m')" "mem_live (mem_push (mem_push m)) \<subseteq> mem_live m'"
    using l [of "mem_push (mem_push m)"] False by auto
  have "\<exists>m''. riak_get_bucketprops_response_decode unpack rop pbresp resp fin m = Some (ERIAK_OK, None, True, m'')"
    by (rule riak_get_bucketprops_response_decode_error [where unpack = unpack, OF assms(1-3) e(1)]) (use e(2) in auto)
  with l [of m] False show ?thesis by auto
qed

lemma bucketprops_reply_incomplete_witness:
  "(\<exists>r p m'. riak_get_bucketprops_response_decode (\<lambda>_ _. Some ex_bp) ex_rop (Some (ex_msg 20 [])) None False ex_mem =
      Some (ERIAK_OK, Some r, True, m') \<and> gbp_props r = Some p \<and> bp_content_of p = rbp_content_of ex_bp) \<and>
   (\<exists>m'. riak_get_bucketprops_response_decode (\<lambda>_ _. Some ex_bp_hook_lost) ex_rop (Some (ex_msg 20 [])) None False ex_mem =
      Some (ERIAK_OK, None, True, m'))"
proof -
  note defs = rbp_wf_def rbp_complete_def ex_bp_hook_lost_def ex_bp_def ex_bp_init_def rph_wf_def rpm_wf_def ex_modfun_def
    ex_pbb_def pbb_wf_def arr_ok_def arr_elems_def u64_count_def
  have w: "rbp_wf ex_bp" "rbp_complete ex_bp" "rbp_wf ex_bp_hook_lost" "\<not> rbp_complete ex_bp_hook_lost"
    by (simp_all add: defs)
  have g: "cfg_grants (rop_config ex_rop)" "pbm_payload (Some (ex_msg 20 [])) = Some []" by simp_all
  show ?thesis
    using bucketprops_reply_incomplete [where unpack = "\<lambda>_ _. Some ex_bp" and m = ex_mem and resp = None and fin = False,
        OF g refl w(1)] w(2)
      bucketprops_reply_incomplete [where unpack = "\<lambda>_ _. Some ex_bp_hook_lost" and m = ex_mem and resp = None and
        fin = False, OF g refl w(3)] w(4)
    by simp
qed

text \<open>
  C33. The two setters for functions of bucket properties store a deep copy, whose module and
  function have the same bytes and which owns exactly what was allocated; when memory runs out
  anywhere in the copy, NULL is stored and nothing stays allocated. But they return the error
  codes the wrong way round: \<open>ERIAK_OUT_OF_MEMORY\<close> with the copy, which is always
  so when memory is granted, and \<open>ERIAK_OK\<close> with NULL.
\<close>

theorem modfun_setters_inverted:
  assumes "cfg_ok cfg" "mem_wf m" "mf_wf f"
  shows "\<exists>q m'. riak_bucketprops_set_chash_keyfun cfg p f m =
      Some (if q = None then ERIAK_OK else ERIAK_OUT_OF_MEMORY, p\<lparr>bp_chash_keyfun := q\<rparr>, m') \<and>
    riak_bucketprops_set_linkfun cfg p f m =
      Some (if q = None then ERIAK_OK else ERIAK_OUT_OF_MEMORY, p\<lparr>bp_linkfun := q\<rparr>, m') \<and>
    pred_option (\<lambda>g. mf_wf g \<and> mf_content_of g = mf_content_of f) q \<and> mem_allocs m (mf_owned_p q) m' \<and>
    (cfg_grants cfg \<longrightarrow> q \<noteq> None)"
proof -
  obtain q m' where q: "riak_modfun_deep_new cfg f m = Some (q, m')" "mem_allocs m (mf_owned_p q) m'"
    "pred_option (\<lambda>g. mf_wf g \<and> mf_content_of g = mf_content_of f) q" "cfg_grants cfg \<longrightarrow> q \<noteq> None"
    using riak_modfun_deep_new_total [OF assms] .
  then show ?thesis
    by (intro exI [of _ q] exI [of _ m'])
      (simp add: riak_bucketprops_set_chash_keyfun_def riak_bucketprops_set_linkfun_def)
qed

lemma modfun_setters_inverted_witness:
  "\<exists>g m'. riak_bucketprops_set_chash_keyfun ex_cfg (bucketprops_zero 0) ex_mf ex_mem =
      Some (ERIAK_OUT_OF_MEMORY, (bucketprops_zero 0)\<lparr>bp_chash_keyfun := Some g\<rparr>, m') \<and>
    mf_content_of g = (str ''m'', str ''f'')"
proof -
  have "mf_wf ex_mf" "mf_content_of ex_mf = (str ''m'', str ''f'')"
    by (simp_all add: ex_mf_def mf_wf_def mf_content_of_def ptr_bytes_def)
  with modfun_setters_inverted [of ex_cfg ex_mem ex_mf "bucketprops_zero 0"] cfg_grants_ok [OF ex_cfg_grants] show ?thesis
    by auto
qed

text \<open>
  C34. Freeing an operation frees exactly its request with its bytes, the names it keeps, its
  message buffer and its error; freeing it again is an error. The response does not belong to
  the operation.
\<close>

theorem operation_free_exact:
  assumes "cfg_ok (rop_config rop)"
  shows "(case riak_operation_free (Some rop) m of
      Some m' \<Rightarrow> mem_live m' = mem_live m - set (rop_owned rop) \<and> riak_operation_free (Some rop) m' = None
    | None \<Rightarrow> \<not> (distinct (rop_owned rop) \<and> set (rop_owned rop) \<subseteq> mem_live m))"
proof (cases "riak_operation_free (Some rop) m")
  case None
  with riak_operation_free_owned [OF assms] mem_free_all_defined [of "rop_owned rop" m] show ?thesis by auto
next
  case (Some m')
  have "rop_owned rop \<noteq> []" by (simp add: rop_owned_def)
  then show ?thesis
    using Some rop.release_twice [OF assms, of rop m m'] rop.release_live [OF assms, of rop m m'] by auto
qed

lemma operation_free_exact_witness:
  "(case riak_operation_free (Some ex_rop) (ex_mem\<lparr>mem_live := {5, 6}\<rparr>) of
      Some m' \<Rightarrow> mem_live m' = mem_live (ex_mem\<lparr>mem_live := {5, 6}\<rparr>) - set (rop_owned ex_rop) \<and> riak_operation_free (Some ex_rop) m' = None
    | None \<Rightarrow> \<not> (distinct (rop_owned ex_rop) \<and> set (rop_owned ex_rop) \<subseteq> mem_live (ex_mem\<lparr>mem_live := {5, 6}\<rparr>)))"
  by (rule operation_free_exact) simp

text \<open>
  C35. A connection to a reachable host is made with copies of the host name and the port, as
  long as both have fewer than 256 characters; a longer host name is written past the end of the
  array in the structure. (Memory is granted.)
\<close>

theorem connection_new_names:
  assumes "cfg_grants cfg" "0 \<notin> set host" "0 \<notin> set port" "length port < RIAK_HOST_MAX_LEN"
    and "(case resolver of None \<Rightarrow> net_resolver net | Some f \<Rightarrow> f) (host @ 0 # r1) (port @ 0 # r2) = (0, Some ai)"
    and "0 \<le> sint (net_socket net ai)" "net_connect net (net_socket net ai) ai = (0, e)"
  shows "if length host < RIAK_HOST_MAX_LEN
    then \<exists>cxn m'. riak_connection_new net cfg (host @ 0 # r1) (port @ 0 # r2) resolver m =
        Some (ERIAK_OK, Some cxn, m') \<and> cxn_fd cxn = net_socket net ai \<and>
      take (Suc (length host)) (cxn_hostname cxn) = host @ [0] \<and> take (Suc (length port)) (cxn_portnum cxn) = port @ [0]
    else riak_connection_new net cfg (host @ 0 # r1) (port @ 0 # r2) resolver m = None"
proof (cases "length host < RIAK_HOST_MAX_LEN")
  case True
  then show ?thesis unfolding if_P [OF True] using riak_connection_new_names [OF assms(1,2) True assms(3-7)] by blast
next
  case False
  have "riak_config_allocate cfg (SizeOf ''riak_connection'' 1) m = (Some (mem_next m), mem_push m)"
    by (rule allocate_granted [OF assms(1)])
  then show ?thesis using riak_connection_new_long_name [OF _ assms(2)] False by auto
qed

lemma connection_new_names_witness:
  "(if length (str ''db'') < RIAK_HOST_MAX_LEN
    then \<exists>cxn m'. riak_connection_new ex_net ex_cfg (str ''db'' @ 0 # []) (str ''8087'' @ 0 # []) None ex_mem =
        Some (ERIAK_OK, Some cxn, m') \<and> cxn_fd cxn = net_socket ex_net () \<and>
      take (Suc (length (str ''db''))) (cxn_hostname cxn) = str ''db'' @ [0] \<and>
      take (Suc (length (str ''8087''))) (cxn_portnum cxn) = str ''8087'' @ [0]
    else riak_connection_new ex_net ex_cfg (str ''db'' @ 0 # []) (str ''8087'' @ 0 # []) None ex_mem = None)"
  by (rule connection_new_names) (simp_all add: ex_net_def RIAK_HOST_MAX_LEN_def)

text \<open>
  C36. Adding a link to an object appends an empty link after those it has; when the enlarged
  array cannot be allocated, the function stores one element past the end of the old one.
\<close>

theorem object_new_link_grows:
  assumes "cfg_ok cfg" "arr_ok (obj_links ob) (int_count (obj_n_links ob))" "obj_links ob = Some a"
    and "0 \<le> sint (obj_n_links ob)" "sint (obj_n_links ob) < 2 ^ 30" "pa_addr a \<in> mem_live m"
  shows "(cfg_grants cfg \<longrightarrow> (\<exists>l ob' m'. riak_object_new_link cfg ob m = Some (Some (link_zero l), ob', m') \<and>
      arr_elems (obj_links ob') (int_count (obj_n_links ob')) =
        arr_elems (obj_links ob) (int_count (obj_n_links ob)) @ [link_zero l])) \<and>
    (length (pa_cells a) = int_count (obj_n_links ob) \<and>
     fst (riak_config_allocate cfg (SizeOf ''riak_link*'' (unat (obj_n_links ob + 1))) m) = None \<longrightarrow>
     riak_object_new_link cfg ob m = None)"
proof (intro conjI impI)
  assume "cfg_grants cfg"
  then show "\<exists>l ob' m'. riak_object_new_link cfg ob m = Some (Some (link_zero l), ob', m') \<and>
      arr_elems (obj_links ob') (int_count (obj_n_links ob')) =
        arr_elems (obj_links ob) (int_count (obj_n_links ob)) @ [link_zero l]"
    using riak_object_new_link_ok [of cfg ob m] assms by fastforce
next
  assume "length (pa_cells a) = int_count (obj_n_links ob) \<and>
    fst (riak_config_allocate cfg (SizeOf ''riak_link*'' (unat (obj_n_links ob + 1))) m) = None"
  then show "riak_object_new_link cfg ob m = None"
    using riak_object_new_link_refused [OF assms(3)] by (metis prod.collapse)
qed

lemma object_new_link_grows_witness:
  "(\<exists>l ob' m'. riak_object_new_link ex_cfg ex_linked (ex_mem\<lparr>mem_live := {3, 4}\<rparr>) = Some (Some (link_zero l), ob', m') \<and>
      arr_elems (obj_links ob') (int_count (obj_n_links ob')) = [link_zero 4, link_zero l]) \<and>
    riak_object_new_link ex_cfg_full ex_linked (ex_mem\<lparr>mem_live := {3, 4}\<rparr>) = None"
proof
  let ?a = "\<lparr>pa_addr = 3, pa_cells = [Some (link_zero 4)]\<rparr>" and ?m = "ex_mem\<lparr>mem_live := {3, 4}\<rparr>"
  have h: "arr_ok (obj_links ex_linked) (int_count (obj_n_links ex_linked))" "obj_links ex_linked = Some ?a"
    "obj_n_links ex_linked = 1" "pa_addr ?a \<in> mem_live ?m"
    by (simp_all add: ex_linked_def object_zero_def arr_ok_def)
  have ok: "cfg_ok ex_cfg" "cfg_ok ex_cfg_full" by (simp_all add: ex_cfg_def ex_cfg_full_def cfg_ok_def)
  have e: "arr_elems (obj_links ex_linked) (int_count 1) = [link_zero 4]"
    by (simp add: ex_linked_def object_zero_def arr_elems_def)
  show "\<exists>l ob' m'. riak_object_new_link ex_cfg ex_linked ?m = Some (Some (link_zero l), ob', m') \<and>
      arr_elems (obj_links ob') (int_count (obj_n_links ob')) = [link_zero 4, link_zero l]"
    using object_new_link_grows [OF ok(1) h(1,2) _ _ h(4)] e by (simp add: h(3))
  have "fst (riak_config_allocate ex_cfg_full (SizeOf ''riak_link*'' 2) ?m) = None"
    by (simp add: ex_cfg_full_def ex_cfg_def riak_config_allocate_def mem_request_def)
  then show "riak_object_new_link ex_cfg_full ex_linked ?m = None"
    using object_new_link_grows [OF ok(2) h(1,2) _ _ h(4)] by (simp add: h(3))
qed

subsection \<open>Queries\<close>

text \<open>
  C37. Map/reduce without streaming: the messages before the last one are collected, and until
  the last one has come the response cannot be freed (its \<open>free\<close> function
  dereferences a NULL array); with the last one the response has the phases and answers of all
  messages in the order they came, and freeing it gives back all the memory they took. (Memory
  is granted.)
\<close>

theorem mapreduce_collected:
  assumes "cfg_grants (rop_config rop)" "\<not> rop_streaming rop" "mem_wf m"
    and "msgs \<noteq> []" "length msgs < 2 ^ 31" "list_all (mapreduce_msg_fine unpack) msgs"
    and "list_all (\<lambda>(_, pb). \<not> (fst (rmr_done pb) \<and> snd (rmr_done pb))) msgs"
    and "mapreduce_msg_fine unpack (msg, pb)" "rmr_done pb = (True, True)"
  shows "\<exists>r m1 r' m' m''. stream (\<lambda>(msg, pb). mapreduce_step unpack rop msg) msgs None m = Some (Some r, m1) \<and>
    riak_mapreduce_response_free (rop_config rop) (Some r) m1 = None \<and>
    riak_mapreduce_response_decode unpack rop (Some msg) (Some r) d m1 = Some (ERIAK_OK, Some r', True, m') \<and>
    map mm_content (arr_elems (riak_mapreduce_get_messages r') (unat (riak_mapreduce_get_n_messages r'))) =
      map (rmr_content \<circ> snd) (msgs @ [(msg, pb)]) \<and>
    riak_mapreduce_response_free (rop_config rop) (Some r') m' = Some m'' \<and> mem_live m'' = mem_live m"
proof -
  let ?step = "\<lambda>(rop, msg, pb :: rpb_map_red_resp). mapreduce_step unpack rop msg"
  have s: "stream (\<lambda>(msg, pb :: rpb_map_red_resp). mapreduce_step unpack rop msg) ms r m =
      stream ?step (map (Pair rop) ms) r m" for ms r m
    by (induction ms arbitrary: r m) (auto split: bind_split)
  have a: "concat (map (\<lambda>(rop, msg, pb). [rmr_content pb]) (map (Pair rop) ms)) = map (rmr_content \<circ> snd) ms" for ms
    by (induction ms) auto
  have f: "list_all (\<lambda>(rop, msg, pb). cfg_grants (rop_config rop) \<and> \<not> rop_streaming rop \<and> mapreduce_msg_fine unpack (msg, pb) \<and>
      \<not> (fst (rmr_done pb) \<and> snd (rmr_done pb))) (map (Pair rop) msgs)"
    using assms(1,2,6,7) by (auto simp: list_all_iff)
  obtain r m1 where r: "stream ?step (map (Pair rop) msgs) None m = Some (Some r, m1)" "mapreduce_holds m r m1"
    "mr_items r = map (rmr_content \<circ> snd) msgs" "unat (mr_n_responses r) = length msgs"
    using mrs.stream_collects [OF assms(3) f] assms(4,5) unfolding a by auto
  then have h: "mr_ok r" "mr_msg r = None" "mem_allocs m ([] @ mr_owned r) m1" "mr_shown r = []"
    by (simp_all add: mapreduce_holds_def mr_shown_def arr_owned_def arr_elems_def)
  obtain xs where xs: "pbm_payload (Some msg) = Some xs" "unpack (mem_next m1) xs = Some pb" "rmr_wf pb"
    using assms(8) by (auto simp: mapreduce_msg_fine_def)
  have lim: "unat (mr_n_responses r) < 2 ^ 31" using assms(5) r(4) by simp
  obtain r' m' where r': "riak_mapreduce_response_decode unpack rop (Some msg) (Some r) d m1 = Some (ERIAK_OK, Some r', True, m')"
    "mr_ok r'" "mr_msg r' \<noteq> None" "mr_items r' = map (rmr_content \<circ> snd) (msgs @ [(msg, pb)])"
    "mem_allocs m (mr_owned r') m'"
    using mapreduce_decode_more [where unpack = unpack and d = d and fin = True, OF assms(1) xs assms(3) h(1,3) lim]
      assms(9) h(4) r(3) by auto
  from r'(2,3) have "map mm_content (arr_elems (mr_msg r') (unat (mr_n_responses r'))) = mr_items r'"
    by (elim mr_okE) (auto simp: arr_elems_def comp_def; frule map_eq_imp_length_eq; simp add: comp_def)
  with r' r(1) s mr.release_balanced [OF cfg_grants_ok [OF assms(1)] _ assms(3) r'(5) refl]
    riak_mapreduce_response_free_unfinished [OF h(1,2)] show ?thesis
    by (auto simp: riak_mapreduce_get_messages_def riak_mapreduce_get_n_messages_def)
qed

lemma mapreduce_collected_witness:
  "\<exists>r m1 r' m' m''. stream (\<lambda>(msg, pb). mapreduce_step (\<lambda>_ xs. Some (ex_phase 0 (xs = []))) ex_rop msg)
        [(ex_msg 24 [1], ex_phase 0 False)] None ex_mem = Some (Some r, m1) \<and>
    riak_mapreduce_response_free ex_cfg (Some r) m1 = None \<and>
    riak_mapreduce_response_decode (\<lambda>_ xs. Some (ex_phase 0 (xs = []))) ex_rop (Some (ex_msg 24 [])) (Some r) False m1 =
      Some (ERIAK_OK, Some r', True, m') \<and>
    length (arr_elems (riak_mapreduce_get_messages r') (unat (riak_mapreduce_get_n_messages r'))) = 2 \<and>
    riak_mapreduce_response_free ex_cfg (Some r') m' = Some m'' \<and> mem_live m'' = {}"
proof -
  let ?u = "\<lambda>_ xs. Some (ex_phase 0 (xs = ([] :: bytes)))"
  have w: "mapreduce_msg_fine ?u (ex_msg 24 [1], ex_phase 0 False)" "mapreduce_msg_fine ?u (ex_msg 24 [], ex_phase 0 True)"
    "rmr_done (ex_phase 0 fin) = (fin, fin)" for fin
    by (simp_all add: mapreduce_msg_fine_def rmr_wf_def ex_phase_def ex_pbb_def pbb_wf_def)
  have s: "\<not> rop_streaming ex_rop" by (simp add: ex_rop_def operation_zero_def)
  have p: "cfg_grants (rop_config ex_rop)" "mem_wf ex_mem" "list_all (mapreduce_msg_fine ?u) [(ex_msg 24 [1], ex_phase 0 False)]"
    "list_all (\<lambda>(_, pb). \<not> (fst (rmr_done pb) \<and> snd (rmr_done pb))) [(ex_msg 24 [1] :: riak_pb_message, ex_phase 0 False)]"
    using w by simp_all
  obtain r m1 r' m' m'' where x: "stream (\<lambda>(msg, pb). mapreduce_step ?u ex_rop msg) [(ex_msg 24 [1], ex_phase 0 False)] None ex_mem =
      Some (Some r, m1)" "riak_mapreduce_response_free ex_cfg (Some r) m1 = None"
    "riak_mapreduce_response_decode ?u ex_rop (Some (ex_msg 24 [])) (Some r) False m1 = Some (ERIAK_OK, Some r', True, m')"
    "map mm_content (arr_elems (riak_mapreduce_get_messages r') (unat (riak_mapreduce_get_n_messages r'))) =
      map (rmr_content \<circ> snd) ([(ex_msg 24 [1], ex_phase 0 False)] @ [(ex_msg 24 [], ex_phase 0 True)])"
    "riak_mapreduce_response_free ex_cfg (Some r') m' = Some m''" "mem_live m'' = mem_live ex_mem"
    using mapreduce_collected [where unpack = ?u and d = False, OF p(1) s p(2) _ _ p(3,4) w(2) w(3)]
    unfolding ex_rop_config by auto
  have "length (arr_elems (riak_mapreduce_get_messages r') (unat (riak_mapreduce_get_n_messages r'))) = 2"
    using map_eq_imp_length_eq [OF x(4)] by simp
  with x show ?thesis by (auto simp: ex_mem_def)
qed

text \<open>
  C38. A secondary-index answer in one message with pairs of terms and keys is refused: the test
  of the conversion is inverted, so the first pair that is converted without an error makes the
  decoder return \<open>ERIAK_OUT_OF_MEMORY\<close> without a response. (Memory is granted.)
\<close>

theorem index_results_refused:
  assumes "cfg_grants (rop_config rop)" "pbm_payload pbresp = Some xs" "unpack (mem_next m) xs = Some pb"
    and "rir_n_keys pb = 0" "rir_results pb = Some q # rs" "rpp_wf q"
    and "unat (rir_n_results pb) = length (rir_results pb)" "length (rir_results pb) < 2 ^ 32" "rir_done pb = (True, True)"
  shows "\<exists>m'. riak_2i_response_decode unpack rop pbresp None d m = Some (ERIAK_OUT_OF_MEMORY, None, True, m')"
  by (rule riak_2i_response_decode_results [where unpack = unpack, OF assms])

lemma index_results_refused_witness:
  "\<exists>m'. riak_2i_response_decode (\<lambda>_ _. Some ex_results) ex_rop (Some (ex_msg 26 [])) None False ex_mem =
    Some (ERIAK_OUT_OF_MEMORY, None, True, m')"
  by (rule index_results_refused [where xs = "[]" and pb = ex_results and rs = "[]"
        and q = "\<lparr>rpp_at = 0, rpp_key = ex_pbb (str ''t''), rpp_has_value = True, rpp_value = ex_pbb (str ''k'')\<rparr>"])
    (simp_all add: ex_results_def rpp_wf_def ex_pbb_def pbb_wf_def)

text \<open>
  C39. Adding a field to the options of a search appends a copy of it to those there are; when
  the enlarged array cannot be allocated the function stores one element past the end of the old
  one.
\<close>

theorem search_add_field_grows:
  assumes "so_fl opt = Some \<lparr>pa_addr = a, pa_cells = map Some bs\<rparr>" "length bs = unat (so_n_fl opt)"
    and "length bs < 2 ^ 31" "a \<in> mem_live m" "bin_wf v"
  shows "(cfg_grants cfg \<longrightarrow> (\<exists>opt' m' b' a'. riak_search_options_add_fl cfg opt (Some v) m = Some (ERIAK_OK, opt', m') \<and>
      so_fl opt' = Some \<lparr>pa_addr = a', pa_cells = map Some (bs @ [b'])\<rparr> \<and> bin_bytes b' = bin_bytes v \<and>
      unat (so_n_fl opt') = length (bs @ [b']))) \<and>
    ((\<exists>m1. \<forall>sz. riak_config_allocate cfg (SizeOf ''riak_binary*'' sz) m = (None, m1)) \<longrightarrow>
      riak_search_options_add_fl cfg opt (Some v) m = None)"
  using riak_search_options_add_fl_ok [of cfg opt a bs m v] riak_search_options_add_fl_refused [OF assms(1,2), of cfg m _ "Some v"]
    assms by blast

lemma search_add_field_grows_witness:
  "(\<exists>opt' m' b' a'. riak_search_options_add_fl ex_cfg ex_fields (Some (ex_bin (str ''b''))) (ex_mem\<lparr>mem_live := {3}\<rparr>) =
      Some (ERIAK_OK, opt', m') \<and> so_fl opt' = Some \<lparr>pa_addr = a', pa_cells = [Some (ex_bin (str ''a'')), Some b']\<rparr> \<and>
      bin_bytes b' = str ''b'') \<and>
    riak_search_options_add_fl ex_cfg_full ex_fields (Some (ex_bin (str ''b''))) (ex_mem\<lparr>mem_live := {3}\<rparr>) = None"
proof -
  let ?m = "ex_mem\<lparr>mem_live := {3}\<rparr>"
  have h: "so_fl ex_fields = Some \<lparr>pa_addr = 3, pa_cells = map Some [ex_bin (str ''a'')]\<rparr>"
    "length [ex_bin (str ''a'')] = unat (so_n_fl ex_fields)"
    by (simp_all add: ex_fields_def)
  have f: "\<exists>m1. \<forall>sz. riak_config_allocate ex_cfg_full (SizeOf ''riak_binary*'' sz) ?m = (None, m1)"
    by (simp add: ex_cfg_full_def ex_cfg_def riak_config_allocate_def mem_request_def)
  show ?thesis
    using search_add_field_grows [OF h, of ?m "ex_bin (str ''b'')" ex_cfg] search_add_field_grows [OF h, of ?m "ex_bin (str ''b'')" ex_cfg_full] f
    by fastforce
qed

subsection \<open>Requests on the wire\<close>

text \<open>
  C40. Resetting the properties of a bucket over a socket: the one frame that goes out has the
  code of a request that sets properties, and the bucket type in the place of the bucket and the
  bucket in that of the type; any answer that is not an error becomes the empty response, and
  freeing it gives back all memory. Without a bucket type the call is undefined, as it then has
  no bucket to send.
\<close>

theorem reset_bucketprops_sends_set:
  fixes gen :: "'f generated"
  assumes "cfg_grants (cxn_config c)" "mem_wf m" "code \<noteq> 0" "Suc (length body) < 2 ^ 32"
    and "\<not> fst (rbq_type (pb_init api))" "bin_wf bt" "pred_option bin_wf bucket"
  shows "riak_reset_bucketprops sys gen api (Some c) None bucket response os m = None \<and>
    (\<exists>msg. pbb_bytes (rbq_bucket msg) = bin_bytes bt \<and>
      map_option pbb_bytes (field_opt (rbq_type msg)) = map_option bin_bytes bucket \<and>
      (packs api msg \<longrightarrow> (\<exists>r m' m''.
         riak_reset_bucketprops peer gen api (Some c) (Some bt) bucket response (frame code body @ beyond, out) m =
           Some (ERIAK_OK, Some (AckResponse r), (beyond, out @ frame MSG_RPBSETBUCKETREQ (pb_pack api msg)), m') \<and>
         riak_reset_bucketprops_response_free (cxn_config c) (Some r) m' = Some m'' \<and> mem_live m'' = mem_live m)))"
  by (intro conjI riak_reset_bucketprops_no_type [OF assms(1)] riak_reset_bucketprops_answered [OF assms])

lemma reset_bucketprops_sends_set_witness:
  "\<exists>r m' m''. riak_reset_bucketprops peer ex_gen ex_reset_api (Some ex_cxn) (Some (ex_bin (str ''t''))) (Some (ex_bin (str ''b'')))
      None (frame 22 [] @ [0, 0], []) ex_mem =
      Some (ERIAK_OK, Some (AckResponse r), ([0, 0], [0, 0, 0, 2, 21] @ str ''t''), m') \<and>
    riak_reset_bucketprops_response_free ex_cfg (Some r) m' = Some m'' \<and> mem_live m'' = {}"
proof -
  have e: "\<not> fst (rbq_type (pb_init ex_reset_api))" by (simp add: ex_reset_api_def)
  have live: "mem_live ex_mem = {}" by (simp add: ex_mem_def)
  obtain msg where msg: "pbb_bytes (rbq_bucket msg) = str ''t''"
    "packs ex_reset_api msg \<longrightarrow> (\<exists>r m' m''. riak_reset_bucketprops peer ex_gen ex_reset_api (Some ex_cxn)
       (Some (ex_bin (str ''t''))) (Some (ex_bin (str ''b''))) None (frame 22 [] @ [0, 0], []) ex_mem =
         Some (ERIAK_OK, Some (AckResponse r), ([0, 0], [] @ frame MSG_RPBSETBUCKETREQ (pb_pack ex_reset_api msg)), m') \<and>
       riak_reset_bucketprops_response_free ex_cfg (Some r) m' = Some m'' \<and> mem_live m'' = {})"
    using reset_bucketprops_sends_set [where c = ex_cxn and m = ex_mem and code = 22 and body = "[]" and api = ex_reset_api
        and bt = "ex_bin (str ''t'')" and bucket = "Some (ex_bin (str ''b''))" and gen = ex_gen and response = None
        and out = "[]" and beyond = "[0, 0]" and sys = peer and os = "([], [])", OF _ _ _ _ e] live by auto
  have "packs ex_reset_api msg" using msg(1) by (simp add: ex_reset_api_def packs_def)
  moreover have "pb_pack ex_reset_api msg = str ''t''" using msg(1) by (simp add: ex_reset_api_def)
  moreover have "frame MSG_RPBSETBUCKETREQ (str ''t'') = [0, 0, 0, 2, 21] @ str ''t''" by code_simp
  ultimately show ?thesis using msg(2) by auto
qed

subsection \<open>Parts of the above on their own\<close>

text \<open>
  A get request, encoded and written, puts exactly one frame on the wire: the code of a get and
  a message that names the bucket type, bucket and key that were given and asks for exactly what
  the options ask for. The operation keeps copies of the three names.
\<close>

theorem get_request_frame:
  assumes "cfg_grants (rop_config rop)" "mem_wf m" "rgq_empty (pb_init api)"
    and "pred_option bin_wf bucket_type" "bin_wf b" "bin_wf k" "pred_option gopt_wf options"
  shows "\<exists>msg. pbb_bytes (rgq_bucket msg) = bin_bytes b \<and> pbb_bytes (rgq_key msg) = bin_bytes k \<and>
    map_option pbb_bytes (field_opt (rgq_type msg)) = map_option bin_bytes bucket_type \<and> get_says options msg \<and>
    (packs api msg \<longrightarrow> (\<exists>rop' m'.
       riak_get_request_encode api decoder rop bucket_type (Some b) (Some k) options m = Some (ERIAK_OK, rop', m') \<and>
       rop_decoder rop' = Some decoder \<and>
       rop_names rop' = (map_option bin_bytes bucket_type, Some (bin_bytes b), Some (bin_bytes k)) \<and>
       riak_write rop' write_all io = Some (ERIAK_OK, io @ frame MSG_RPBGETREQ (pb_pack api msg))))"
proof -
  obtain msg rop' m' where s: "pbb_bytes (rgq_bucket msg) = bin_bytes b" "pbb_bytes (rgq_key msg) = bin_bytes k"
    "map_option pbb_bytes (field_opt (rgq_type msg)) = map_option bin_bytes bucket_type" "get_says options msg"
    "rop_names rop' = (map_option bin_bytes bucket_type, Some (bin_bytes b), Some (bin_bytes k))"
    "packs api msg \<Longrightarrow> sends MSG_RPBGETREQ (pb_pack api msg) decoder rop' m'
       (riak_get_request_encode api decoder rop bucket_type (Some b) (Some k) options m)"
    using riak_get_request_sends [OF assms] by blast
  then show ?thesis by (intro exI [of _ msg]) (fastforce simp: sends_def rop_names_def)
qed

lemma get_request_frame_witness:
  "\<exists>rop' m'. riak_get_request_encode ex_get_api () ex_rop None (Some (ex_bin (str ''b''))) (Some (ex_bin (str ''k'')))
      None ex_mem = Some (ERIAK_OK, rop', m') \<and>
    riak_write rop' write_all [] = Some (ERIAK_OK, [0, 0, 0, 3, 9] @ str ''bk'')"
proof -
  have e: "rgq_empty (pb_init ex_get_api)" by (simp add: ex_get_api_def rgq_empty_def)
  obtain msg where "pbb_bytes (rgq_bucket msg) = str ''b''" "pbb_bytes (rgq_key msg) = str ''k''"
    "packs ex_get_api msg \<longrightarrow> (\<exists>rop' m'. riak_get_request_encode ex_get_api () ex_rop None
       (Some (ex_bin (str ''b''))) (Some (ex_bin (str ''k''))) None ex_mem = Some (ERIAK_OK, rop', m') \<and>
       riak_write rop' write_all [] = Some (ERIAK_OK, [] @ frame MSG_RPBGETREQ (pb_pack ex_get_api msg)))"
    using get_request_frame [of ex_rop ex_mem ex_get_api None "ex_bin (str ''b'')" "ex_bin (str ''k'')" None "()" "[]"] e
    by auto
  moreover have "frame MSG_RPBGETREQ (str ''b'' @ str ''k'') = [0, 0, 0, 3, 9] @ str ''bk''"
    by code_simp
  ultimately show ?thesis by (simp add: ex_get_api_def packs_def)
qed

text \<open>
  A put request, encoded and written, puts exactly one frame on the wire. Its message carries
  the bucket type, bucket, key and contents of the object and what the options ask for, except
  that \<open>if_none_match\<close> and \<open>if_not_modified\<close>, when they are set, have
  the value of a fresh message whatever the caller asked for.
\<close>

theorem put_request_frame:
  assumes "cfg_grants (rop_config rop)" "mem_wf m" "rpq_empty (pb_init api)" "inits_empty ini"
    and "rpc_empty init_content" "storable ob" "pred_option popt_wf options"
  shows "\<exists>msg. pbb_bytes (rpq_bucket msg) = ptr_bytes (obj_bucket ob) \<and>
    map_option pbb_bytes (field_opt (rpq_type msg)) =
      when_flag (riak_object_has_bucket_type ob) (ptr_bytes (obj_bucket_type ob)) \<and>
    map_option pbb_bytes (field_opt (rpq_key msg)) = when_flag (obj_has_key ob) (ptr_bytes (obj_key ob)) \<and>
    rpb_content_of (rpq_content msg) = object_content ob \<and> put_says (pb_init api) options msg \<and>
    (packs api msg \<longrightarrow> (\<exists>rop' m'.
       riak_put_request_encode api ini init_content decoder rop (Some ob) options m = Some (ERIAK_OK, rop', m') \<and>
       rop_decoder rop' = Some decoder \<and> mem_live m' = mem_live m \<union> set (pbm_owned (the (rop_pb_request rop'))) \<and>
       riak_write rop' write_all io = Some (ERIAK_OK, io @ frame MSG_RPBPUTREQ (pb_pack api msg))))"
proof -
  obtain msg where s: "pbb_bytes (rpq_bucket msg) = ptr_bytes (obj_bucket ob)"
    "map_option pbb_bytes (field_opt (rpq_type msg)) =
      when_flag (riak_object_has_bucket_type ob) (ptr_bytes (obj_bucket_type ob))"
    "map_option pbb_bytes (field_opt (rpq_key msg)) = when_flag (obj_has_key ob) (ptr_bytes (obj_key ob))"
    "rpb_content_of (rpq_content msg) = object_content ob" "put_says (pb_init api) options msg"
    "packs api msg \<Longrightarrow> sends MSG_RPBPUTREQ (pb_pack api msg) decoder rop m
       (riak_put_request_encode api ini init_content decoder rop (Some ob) options m)"
    using riak_put_request_sends [OF assms] by blast
  then show ?thesis by (intro exI [of _ msg]) (auto simp: sends_def mem_allocs_live)
qed

lemma put_request_frame_witness:
  "\<exists>rop' m'. riak_put_request_encode ex_put_api ex_inits ex_content () ex_rop (Some ex_object) None ex_mem =
      Some (ERIAK_OK, rop', m') \<and>
    riak_write rop' write_all [] = Some (ERIAK_OK, [0, 0, 0, 2, 11] @ str ''b'')"
proof -
  have s: "storable ex_object"
    by (simp add: storable_def ex_object_wf) (simp add: ex_object_def object_zero_def riak_object_has_bucket_type_def)
  have e: "rpq_empty (pb_init ex_put_api)" by (simp add: ex_put_api_def rpq_empty_def)
  have b: "ptr_bytes (obj_bucket ex_object) = str ''b''" by (simp add: ex_object_def ptr_bytes_def)
  obtain msg where "pbb_bytes (rpq_bucket msg) = str ''b''"
    "packs ex_put_api msg \<longrightarrow> (\<exists>rop' m'. riak_put_request_encode ex_put_api ex_inits ex_content () ex_rop
       (Some ex_object) None ex_mem = Some (ERIAK_OK, rop', m') \<and>
       riak_write rop' write_all [] = Some (ERIAK_OK, [] @ frame MSG_RPBPUTREQ (pb_pack ex_put_api msg)))"
    using put_request_frame [of ex_rop ex_mem ex_put_api ex_inits ex_content ex_object None "()" "[]"] e s b
    by auto
  moreover have "frame MSG_RPBPUTREQ (str ''b'') = [0, 0, 0, 2, 11] @ str ''b''"
    by code_simp
  ultimately show ?thesis by (simp add: ex_put_api_def packs_def)
qed

text \<open>
  Decoding a get reply ends the exchange and gives a response with the version clock and the
  contents of all siblings, each object under the names the operation was asked for; freeing the
  response gives back all the memory decoding took.
\<close>

theorem get_response_decode_free:
  assumes "cfg_grants (rop_config rop)" "mem_wf m" "pbm_payload pbresp = Some xs"
    and "unpack (mem_next m) xs = Some pb" "rgr_wf pb"
    and "pred_option bin_wf (req_bucket_type rop)" "pred_option bin_wf (req_bucket rop)" "pred_option bin_wf (req_key rop)"
  shows "\<exists>r m' m''. riak_get_response_decode unpack rop pbresp resp fin m = Some (ERIAK_OK, Some r, True, m') \<and>
    map_option bin_bytes (riak_get_get_vclock r) = map_option pbb_bytes (field_opt (rgr_vclock pb)) \<and>
    map object_content (arr_elems (riak_get_get_content r) (unat (rgr_n_content pb))) =
      map rpb_content_of (arr_elems (rgr_content pb) (unat (rgr_n_content pb))) \<and>
    (\<forall>ob \<in> set (arr_elems (riak_get_get_content r) (unat (rgr_n_content pb))).
      (map_option bin_bytes (obj_bucket_type ob), map_option bin_bytes (obj_bucket ob),
       map_option bin_bytes (obj_key ob)) = rop_names rop) \<and>
    riak_get_response_free (rop_config rop) (Some r) m' = Some m'' \<and> mem_live m'' = mem_live m"
proof -
  obtain r m' where d: "riak_get_response_decode unpack rop pbresp resp fin m = Some (ERIAK_OK, Some r, True, m')"
    "gr_ok r" "mem_allocs m (gr_owned r) m'"
    "map_option bin_bytes (riak_get_get_vclock r) = map_option pbb_bytes (field_opt (rgr_vclock pb))"
    "map object_content (arr_elems (riak_get_get_content r) (unat (rgr_n_content pb))) =
      map rpb_content_of (arr_elems (rgr_content pb) (unat (rgr_n_content pb)))"
    "\<forall>ob \<in> set (arr_elems (riak_get_get_content r) (unat (rgr_n_content pb))).
      object_wf ob \<and> named_by rop ob"
    using riak_get_response_decode_ok [where unpack = unpack and m = m, OF assms(1,3-8)] by blast
  with gr.release_balanced [OF cfg_grants_ok [OF assms(1)] d(2) assms(2) d(3)] show ?thesis
    by (auto simp: named_by_def rop_names_def)
qed

lemma get_response_decode_free_witness:
  "\<exists>r m' m''. riak_get_response_decode (\<lambda>_ xs. Some (ex_get_resp xs)) ex_rop (Some (ex_msg 10 [1, 2])) None False ex_mem =
      Some (ERIAK_OK, Some r, True, m') \<and>
    map_option bin_bytes (riak_get_get_vclock r) = Some [7] \<and>
    length (arr_elems (riak_get_get_content r) 1) = 1 \<and>
    riak_get_response_free ex_cfg (Some r) m' = Some m'' \<and> mem_live m'' = {}"
proof -
  let ?pb = "ex_get_resp [1, 2]"
  have n: "rgr_n_content ?pb = 1" by (simp add: ex_get_resp_def)
  have w: "rgr_wf ?pb"
    by (simp add: rgr_wf_def ex_get_resp_def ex_pbb_def pbb_wf_def ex_content_def rpc_wf_def arr_ok_def arr_elems_def)
  have p: "pbm_payload (Some (ex_msg 10 [1, 2])) = Some [1, 2]" by simp
  have names: "pred_option bin_wf (req_bucket_type ex_rop)" "pred_option bin_wf (req_bucket ex_rop)"
    "pred_option bin_wf (req_key ex_rop)" by (simp_all add: ex_rop_def operation_zero_def)
  have v: "map_option pbb_bytes (field_opt (rgr_vclock ?pb)) = Some [7]"
    by (simp add: ex_get_resp_def ex_pbb_def pbb_bytes_def)
  have c: "length (arr_elems (rgr_content ?pb) 1) = 1"
    by (simp add: ex_get_resp_def arr_elems_def)
  obtain r m' m'' where "riak_get_response_decode (\<lambda>_ xs. Some (ex_get_resp xs)) ex_rop (Some (ex_msg 10 [1, 2]))
      None False ex_mem = Some (ERIAK_OK, Some r, True, m')"
    "map_option bin_bytes (riak_get_get_vclock r) = Some [7]"
    "map object_content (arr_elems (riak_get_get_content r) 1) = map rpb_content_of (arr_elems (rgr_content ?pb) 1)"
    "riak_get_response_free ex_cfg (Some r) m' = Some m''" "mem_live m'' = mem_live ex_mem"
    using get_response_decode_free [of ex_rop ex_mem "Some (ex_msg 10 [1, 2])" "[1, 2]" "\<lambda>_ xs. Some (ex_get_resp xs)"
      ?pb None False] w p names v by (auto simp: n)
  moreover from this(3) have "length (arr_elems (riak_get_get_content r) 1) = 1"
    using c by (metis length_map)
  ultimately show ?thesis by (auto simp: ex_mem_def)
qed

text \<open>
  Decoding a put reply gives a response with the version clock, the key the server chose and the
  contents of the returned siblings; freeing the response gives back all the memory decoding
  took.
\<close>

theorem put_response_decode_free:
  assumes "cfg_grants (rop_config rop)" "mem_wf m" "pbm_payload pbresp = Some xs"
    and "unpack (mem_next m) xs = Some pb" "rpr_wf pb"
  shows "\<exists>r m' m''. riak_put_response_decode unpack rop pbresp resp fin m = Some (ERIAK_OK, Some r, True, m') \<and>
    map_option bin_bytes (riak_put_get_vclock r) = map_option pbb_bytes (field_opt (rpr_vclock pb)) \<and>
    map_option bin_bytes (riak_put_get_key r) = map_option pbb_bytes (field_opt (rpr_key pb)) \<and>
    map object_content (arr_elems (riak_put_get_content r) (unat (rpr_n_content pb))) =
      map rpb_content_of (arr_elems (rpr_content pb) (unat (rpr_n_content pb))) \<and>
    riak_put_response_free (rop_config rop) (Some r) m' = Some m'' \<and> mem_live m'' = mem_live m"
proof -
  obtain r m' where d: "riak_put_response_decode unpack rop pbresp resp fin m = Some (ERIAK_OK, Some r, True, m')"
    "pr_ok r" "mem_allocs m (pr_owned r) m'"
    "map_option bin_bytes (riak_put_get_vclock r) = map_option pbb_bytes (field_opt (rpr_vclock pb))"
    "map_option bin_bytes (riak_put_get_key r) = map_option pbb_bytes (field_opt (rpr_key pb))"
    "map object_content (arr_elems (riak_put_get_content r) (unat (rpr_n_content pb))) =
      map rpb_content_of (arr_elems (rpr_content pb) (unat (rpr_n_content pb)))"
    using riak_put_response_decode_ok [where unpack = unpack and m = m, OF assms(1,3-5)] by blast
  with pr.release_balanced [OF cfg_grants_ok [OF assms(1)] d(2) assms(2) d(3)] show ?thesis by auto
qed

lemma put_response_decode_free_witness:
  "\<exists>r m' m''. riak_put_response_decode (\<lambda>_ _. Some ex_put_resp) ex_rop (Some (ex_msg 12 [])) None False ex_mem =
      Some (ERIAK_OK, Some r, True, m') \<and>
    map_option bin_bytes (riak_put_get_vclock r) = Some [7] \<and> map_option bin_bytes (riak_put_get_key r) = Some [8, 9] \<and>
    riak_put_response_free ex_cfg (Some r) m' = Some m'' \<and> mem_live m'' = {}"
proof -
  have w: "rpr_wf ex_put_resp"
    by (simp add: rpr_wf_def ex_put_resp_def ex_pbb_def pbb_wf_def arr_ok_def arr_elems_def)
  have v: "map_option pbb_bytes (field_opt (rpr_vclock ex_put_resp)) = Some [7]"
    "map_option pbb_bytes (field_opt (rpr_key ex_put_resp)) = Some [8, 9]"
    by (simp_all add: ex_put_resp_def ex_pbb_def pbb_bytes_def)
  have "mem_live ex_mem = {}" by (simp add: ex_mem_def)
  with put_response_decode_free [of ex_rop ex_mem "Some (ex_msg 12 [])" "[]" "\<lambda>_ _. Some ex_put_resp" ex_put_resp
    None False] w v show ?thesis by auto
qed

text \<open>
  Listing keys: the messages of an answer, decoded one after the other into the same response,
  give the keys of all messages in the order they came, and freeing the response gives back all
  the memory the stream took. (As long as there are fewer than \<open>2 ^ 31\<close> keys and
  messages, which the 32-bit counters need.)
\<close>

theorem listkeys_stream:
  assumes "cfg_grants (rop_config rop)" "mem_wf m" "msgs \<noteq> []" "list_all (list_msg_fine unpack) msgs"
    and "length (concat (map (\<lambda>(_, pb). rlr_items pb) msgs)) < 2 ^ 31" "length msgs \<le> 2 ^ 31"
  shows "\<exists>r m' m''. stream (\<lambda>(msg, pb). list_step (riak_listkeys_response_decode unpack) rop msg) msgs None m =
      Some (Some r, m') \<and>
    map bin_bytes (arr_elems (riak_listkeys_get_keys r) (unat (riak_listkeys_get_n_keys r))) =
      map pbb_bytes (concat (map (\<lambda>(_, pb). rlr_items pb) msgs)) \<and>
    riak_listkeys_response_free (rop_config rop) (Some r) m' = Some m'' \<and> mem_live m'' = mem_live m"
proof -
  let ?step = "\<lambda>(rop, msg, pb :: rpb_list_resp). list_step (riak_listkeys_response_decode unpack) rop msg"
  have s: "stream (\<lambda>(msg, pb :: rpb_list_resp). list_step (riak_listkeys_response_decode unpack) rop msg) ms r m =
      stream ?step (map (Pair rop) ms) r m" for ms r m
    by (induction ms arbitrary: r m) (auto split: bind_split)
  have a: "map (\<lambda>(rop, msg, pb). map pbb_bytes (rlr_items pb)) (map (Pair rop) msgs) =
      map (map pbb_bytes) (map (\<lambda>(_, pb). rlr_items pb) msgs)"
    by (simp add: comp_def split_beta)
  obtain r m' where r: "stream ?step (map (Pair rop) msgs) None m = Some (Some r, m')" "list_holds m r m'"
    "list_items r = map pbb_bytes (concat (map (\<lambda>(_, pb). rlr_items pb) msgs))"
    using lk.stream_collects [where unpack = unpack and m = m and msgs = "map (Pair rop) msgs"] assms unfolding a
    by (auto simp: list_all_iff map_concat length_concat comp_def)
  from list_response_freed [OF cfg_grants_ok [OF assms(1)] r(2)] r s show ?thesis
    by (auto simp: riak_listkeys_response_free_def riak_listkeys_get_keys_def riak_listkeys_get_n_keys_def
        list_items_def)
qed

lemma listkeys_stream_witness:
  "\<exists>r m' m''. stream (\<lambda>(msg, pb). list_step (riak_listkeys_response_decode
        (\<lambda>_ xs. Some (if xs = [] then ex_keys [''c''] True else ex_keys [''a'', ''b''] False))) ex_rop msg)
      [(ex_msg 18 [1], ex_keys [''a'', ''b''] False), (ex_msg 18 [], ex_keys [''c''] True)] None ex_mem =
      Some (Some r, m') \<and>
    map bin_bytes (arr_elems (riak_listkeys_get_keys r) (unat (riak_listkeys_get_n_keys r))) =
      [str ''a'', str ''b'', str ''c''] \<and>
    riak_listkeys_response_free ex_cfg (Some r) m' = Some m'' \<and> mem_live m'' = {}"
proof -
  let ?u = "\<lambda>_ xs. Some (if xs = ([] :: bytes) then ex_keys [''c''] True else ex_keys [''a'', ''b''] False)"
  have "list_all (list_msg_fine ?u) [(ex_msg 18 [1], ex_keys [''a'', ''b''] False), (ex_msg 18 [], ex_keys [''c''] True)]"
    by (simp add: list_msg_fine_def rlr_wf_def ex_keys_def ex_pbb_def pbb_wf_def)
  moreover have "mem_live ex_mem = {}" by (simp add: ex_mem_def)
  moreover have "map pbb_bytes (rlr_items (ex_keys [''a'', ''b''] False) @ rlr_items (ex_keys [''c''] True)) =
      [str ''a'', str ''b'', str ''c'']"
    by (simp add: ex_keys_def ex_pbb_def pbb_bytes_def)
  moreover have "length (rlr_items (ex_keys [''a'', ''b''] False) @ rlr_items (ex_keys [''c''] True)) = 3"
    by (simp add: ex_keys_def)
  ultimately show ?thesis
    using listkeys_stream [of ex_rop ex_mem "[(ex_msg 18 [1], ex_keys [''a'', ''b''] False), (ex_msg 18 [], ex_keys [''c''] True)]" ?u]
    by simp
qed

text \<open>
  A secondary-index answer in one message with keys: the response has the keys in the order they
  came; freeing it gives back all the memory but one block, that of the continuation, which
  nothing frees.
\<close>

theorem index_keys_decoded:
  assumes "cfg_grants (rop_config rop)" "mem_wf m" "pbm_payload pbresp = Some xs" "unpack (mem_next m) xs = Some pb"
    and "chunk_wf pb" "rir_n_results pb = 0" "length (rir_keys pb) < 2 ^ 32" "rir_done pb = (True, True)"
  shows "\<exists>r m' m'' c. riak_2i_response_decode unpack rop pbresp None d m = Some (ERIAK_OK, Some r, True, m') \<and>
    map bin_bytes (arr_elems (riak_2i_get_keys r) (unat (riak_2i_get_n_keys r))) = map pbb_bytes (rir_keys pb) \<and>
    map_option bin_at (riak_2i_get_continuation r) = Some c \<and> c \<notin> mem_live m \<and>
    riak_2i_response_free (rop_config rop) (Some r) m' = Some m'' \<and> mem_live m'' = insert c (mem_live m)"
  by (rule riak_2i_response_decode_keys [where unpack = unpack, OF assms])

lemma index_keys_decoded_witness:
  "\<exists>r m' m'' c. riak_2i_response_decode (\<lambda>_ _. Some ex_index) ex_rop (Some (ex_msg 26 [])) None False ex_mem =
      Some (ERIAK_OK, Some r, True, m') \<and>
    map bin_bytes (arr_elems (riak_2i_get_keys r) (unat (riak_2i_get_n_keys r))) = [str ''a'', str ''b''] \<and>
    riak_2i_response_free ex_cfg (Some r) m' = Some m'' \<and> mem_live m'' = {c}"
proof -
  have w: "chunk_wf ex_index" "rir_n_results ex_index = 0" "length (rir_keys ex_index) < 2 ^ 32" "rir_done ex_index = (True, True)"
    "map pbb_bytes (rir_keys ex_index) = [str ''a'', str ''b'']"
    by (simp_all add: chunk_wf_def ex_index_def ex_pbb_def pbb_wf_def pbb_bytes_def)
  have "mem_live ex_mem = {}" by (simp add: ex_mem_def)
  with index_keys_decoded [where rop = ex_rop and m = ex_mem and pbresp = "Some (ex_msg 26 [])" and xs = "[]" and d = False
      and unpack = "\<lambda>_ _. Some ex_index" and pb = ex_index] w show ?thesis by auto
qed

text \<open>
  Decoding a search answer gives a response with the fields of all documents in the order they
  came, the best score and the number of matches; freeing it gives back all the memory decoding
  took.
\<close>

theorem search_response_decode_free:
  assumes "cfg_grants (rop_config rop)" "mem_wf m" "pbm_payload pbresp = Some xs" "unpack (mem_next m) xs = Some pb"
    and "rsr_docs pb = map Some rds" "length rds = unat (rsr_n_docs pb)" "list_all rsd_wf rds"
  shows "\<exists>r m' m''. riak_search_response_decode z unpack rop pbresp None d m = Some (ERIAK_OK, Some r, True, m') \<and>
    riak_search_get_n_docs r = rsr_n_docs pb \<and> sr_contents r = map rsd_content rds \<and>
    sr_max_score r = rsr_max_score pb \<and> sr_num_found r = rsr_num_found pb \<and>
    riak_search_response_free (rop_config rop) (Some r) m' = Some m'' \<and> mem_live m'' = mem_live m"
proof -
  obtain r m' where r: "riak_search_response_decode z unpack rop pbresp None d m = Some (ERIAK_OK, Some r, True, m')"
    "sr_ok r" "mem_allocs m (sr_owned r) m'" "riak_search_get_n_docs r = rsr_n_docs pb"
    "sr_contents r = map rsd_content rds" "sr_max_score r = rsr_max_score pb" "sr_num_found r = rsr_num_found pb"
    using riak_search_response_decode_ok [where unpack = unpack and m = m and z = z and d = d, OF assms(1,3-7)] by blast
  with sr.release_balanced [OF cfg_grants_ok [OF assms(1)] r(2) assms(2) r(3) refl] show ?thesis by auto
qed

lemma search_response_decode_free_witness:
  "\<exists>r m' m''. riak_search_response_decode 0 (\<lambda>_ _. Some ex_found) ex_rop (Some (ex_msg 28 [])) None False ex_mem =
      Some (ERIAK_OK, Some r, True, m') \<and>
    sr_contents r = [[(str ''t'', Some (str ''k''))]] \<and> sr_max_score r = (True, 3) \<and>
    riak_search_response_free ex_cfg (Some r) m' = Some m'' \<and> mem_live m'' = {}"
proof -
  have w: "rsr_docs ex_found = map Some [ex_doc]" "length [ex_doc] = unat (rsr_n_docs ex_found)" "list_all rsd_wf [ex_doc]"
    "map rsd_content [ex_doc] = [[(str ''t'', Some (str ''k''))]]" "rsr_max_score ex_found = (True, 3)"
    by (simp_all add: ex_found_def ex_doc_def rsd_wf_def arr_ok_def arr_elems_def rpp_wf_def ex_pbb_def pbb_wf_def
        rsd_content_def rpp_content_def pbb_bytes_def)
  have "mem_live ex_mem = {}" by (simp add: ex_mem_def)
  with search_response_decode_free [where rop = ex_rop and m = ex_mem and pbresp = "Some (ex_msg 28 [])" and xs = "[]"
      and d = False and z = 0 and unpack = "\<lambda>_ _. Some ex_found" and pb = ex_found and rds = "[ex_doc]"] w
  show ?thesis by auto
qed

end
